(* ===== verification/Prelude.thy ===== *)
theory Prelude
  imports "HOL-Library.Word" "HOL-Library.List_Lexorder" "HOL-Library.Char_ord"
begin

text \<open>
  What every other theory of the development shares: the machine types of the Rust code,
  the combinators of Rust's \<open>Result\<close> and \<open>Option\<close>, decimal formatting, the ordered map
  \<open>BTreeMap\<close>, and the lemmas on them that carry the component proofs.

  Conventions.  A Rust \<open>String\<close> is an Isabelle \<open>string\<close> whose characters are the bytes of
  its UTF-8 encoding (so \<open>length\<close> counts what \<open>str::len\<close> counts); a \<open>Vec<u8>\<close> is a list of
  8-bit words; \<open>Result<T, E>\<close> is \<open>'e + 'a\<close> with \<open>Inl\<close> for \<open>Err\<close>; \<open>u64\<close> is a 64-bit word,
  whose \<open>+\<close> wraps as in a release build; an \<open>i64\<close> is an \<open>int\<close>, and the places where the
  code can overflow it go through \<open>wrap_i64\<close>.
\<close>

named_theorems result_simps \<open>how a composed Result can be Ok or Err\<close>
named_theorems map_simps \<open>look-ups in an ordered map after an update\<close>

type_synonym u8 = "8 word"
type_synonym u16 = "16 word"
type_synonym u32 = "32 word"
type_synonym u64 = "64 word"
type_synonym bytes = "u8 list"
type_synonym ('a, 'e) result = "'e + 'a"

definition wrap_i64 :: "int \<Rightarrow> int" where
  "wrap_i64 x = (x + 2 ^ 63) mod 2 ^ 64 - 2 ^ 63"

lemma wrap_i64_id: "- (2 ^ 63) \<le> x \<Longrightarrow> x < 2 ^ 63 \<Longrightarrow> wrap_i64 x = x"
  by (simp add: wrap_i64_def)

subsection \<open>Results and options\<close>

text \<open>\<open>and_then\<close> is the \<open>?\<close> operator: an error ends the computation.\<close>

definition and_then :: "'e + 'a \<Rightarrow> ('a \<Rightarrow> 'e + 'b) \<Rightarrow> 'e + 'b" where
  "and_then r f = (case r of Inl e \<Rightarrow> Inl e | Inr x \<Rightarrow> f x)"

definition map_err :: "('e \<Rightarrow> 'f) \<Rightarrow> 'e + 'a \<Rightarrow> 'f + 'a" where
  "map_err g r = (case r of Inl e \<Rightarrow> Inl (g e) | Inr x \<Rightarrow> Inr x)"

definition ok_or :: "'e \<Rightarrow> 'a option \<Rightarrow> 'e + 'a" where
  "ok_or e x = (case x of None \<Rightarrow> Inl e | Some y \<Rightarrow> Inr y)"

definition ensure :: "bool \<Rightarrow> 'e \<Rightarrow> 'e + unit" where
  "ensure b e = (if b then Inr () else Inl e)"

definition is_ok :: "'e + 'a \<Rightarrow> bool" where
  "is_ok r = (case r of Inl _ \<Rightarrow> False | Inr _ \<Rightarrow> True)"

lemma and_then_simps [simp]: "and_then (Inl e) f = Inl e" "and_then (Inr x) f = f x"
  by (simp_all add: and_then_def)

lemma and_then_Inr_iff [result_simps]:
  "and_then r f = Inr y \<longleftrightarrow> (\<exists>x. r = Inr x \<and> f x = Inr y)"
  by (cases r) auto

lemma and_then_Inl_iff:
  "and_then r f = Inl e \<longleftrightarrow> r = Inl e \<or> (\<exists>x. r = Inr x \<and> f x = Inl e)"
  by (cases r) auto

lemma map_err_simps [simp]: "map_err g (Inl e) = Inl (g e)" "map_err g (Inr x) = Inr x"
  by (simp_all add: map_err_def)

lemma map_err_Inr_iff [result_simps]: "map_err g r = Inr y \<longleftrightarrow> r = Inr y"
  by (cases r) auto

lemma ok_or_simps [simp]: "ok_or e None = Inl e" "ok_or e (Some x) = Inr x"
  by (simp_all add: ok_or_def)

lemma ok_or_Inr_iff [result_simps]: "ok_or e x = Inr y \<longleftrightarrow> x = Some y"
  by (cases x) auto

lemma ensure_Inr_iff [result_simps]: "ensure b e = Inr u \<longleftrightarrow> b"
  by (auto simp: ensure_def)

lemma ensure_Inl_iff: "ensure b e = Inl e' \<longleftrightarrow> \<not> b \<and> e' = e"
  by (auto simp: ensure_def)

lemma ensure_simps [simp]: "ensure True e = Inr ()" "ensure False e = Inl e"
  by (simp_all add: ensure_def)

lemma is_ok_simps [simp]: "is_ok (Inl e) = False" "is_ok (Inr x) = True"
  by (simp_all add: is_ok_def)

lemma is_ok_iff: "is_ok r \<longleftrightarrow> (\<exists>x. r = Inr x)"
  by (cases r) auto

lemma if_err_Inr_iff [result_simps]:
  "(if b then Inl e else r) = Inr y \<longleftrightarrow> \<not> b \<and> r = Inr y"
  "(if b then r else Inl e) = Inr y \<longleftrightarrow> b \<and> r = Inr y"
  by auto

lemma case_option_err_Inr_iff [result_simps]:
  "(case x of None \<Rightarrow> Inl e | Some z \<Rightarrow> f z) = Inr y \<longleftrightarrow> (\<exists>z. x = Some z \<and> f z = Inr y)"
  by (cases x) auto

lemma case_sum_err_Inr_iff [result_simps]:
  "(case r of Inl e \<Rightarrow> Inl (g e) | Inr z \<Rightarrow> f z) = Inr y \<longleftrightarrow> (\<exists>z. r = Inr z \<and> f z = Inr y)"
  by (cases r) auto

text \<open>A \<open>for\<close> loop whose body can return early with an error.\<close>

fun try_each :: "('a \<Rightarrow> 'e + unit) \<Rightarrow> 'a list \<Rightarrow> 'e + unit" where
  "try_each f [] = Inr ()"
| "try_each f (x # xs) = and_then (f x) (\<lambda>_. try_each f xs)"

lemma try_each_Inr_iff [result_simps]:
  "try_each f xs = Inr u \<longleftrightarrow> (\<forall>x \<in> set xs. f x = Inr ())"
  by (induction xs) (auto simp: result_simps)

lemma find_SomeD: "find P xs = Some x \<Longrightarrow> x \<in> set xs \<and> P x"
  by (induction xs) (auto split: if_splits)

text \<open>The values of a list of results, or the first error of the list.\<close>

fun collect_ok :: "('e + 'a) list \<Rightarrow> 'e + 'a list" where
  "collect_ok [] = Inr []"
| "collect_ok (r # rs) = and_then r (\<lambda>x. and_then (collect_ok rs) (\<lambda>xs. Inr (x # xs)))"

lemma collect_ok_Inr_iff [result_simps]: "collect_ok rs = Inr xs \<longleftrightarrow> rs = map Inr xs"
  by (induction rs arbitrary: xs) (auto simp: result_simps Cons_eq_map_conv)

subsection \<open>Operations on a state that can fail\<close>

text \<open>
  A method with \<open>&mut self\<close> that returns a \<open>Result\<close>: unlike in a plain result, what it did to the
  state before an error stays done.  \<open>bindS\<close> is \<open>?\<close> followed by the rest of the body.
\<close>

type_synonym ('s, 'a, 'e) action = "'s \<Rightarrow> 's \<times> ('e + 'a)"

definition returnS :: "'a \<Rightarrow> ('s, 'a, 'e) action" where
  "returnS x s = (s, Inr x)"

definition throwS :: "'e \<Rightarrow> ('s, 'a, 'e) action" where
  "throwS e s = (s, Inl e)"

definition bindS :: "('s, 'a, 'e) action \<Rightarrow> ('a \<Rightarrow> ('s, 'b, 'e) action) \<Rightarrow> ('s, 'b, 'e) action" where
  "bindS m f s = (case m s of (s', Inl e) \<Rightarrow> (s', Inl e) | (s', Inr x) \<Rightarrow> f x s')"

definition getS :: "('s \<Rightarrow> 'a) \<Rightarrow> ('s, 'a, 'e) action" where
  "getS f s = (s, Inr (f s))"

definition modifyS :: "('s \<Rightarrow> 's) \<Rightarrow> ('s, unit, 'e) action" where
  "modifyS f s = (f s, Inr ())"

definition liftS :: "'e + 'a \<Rightarrow> ('s, 'a, 'e) action" where
  "liftS r s = (s, r)"

text \<open>\<open>keeps P m\<close>: the action preserves \<open>P\<close>, whether it succeeds or fails.\<close>

definition keeps :: "('s \<Rightarrow> bool) \<Rightarrow> ('s, 'a, 'e) action \<Rightarrow> bool" where
  "keeps P m \<longleftrightarrow> (\<forall>s. P s \<longrightarrow> P (fst (m s)))"

named_theorems keeps_intros \<open>actions that preserve a property of the state\<close>

lemma keepsD: "keeps P m \<Longrightarrow> P s \<Longrightarrow> m s = (s', r) \<Longrightarrow> P s'"
  unfolding keeps_def by (metis fst_conv)

lemma keeps_basic [keeps_intros]:
  "keeps P (returnS x)" "keeps P (throwS e)" "keeps P (getS f)" "keeps P (liftS r)"
  by (simp_all add: keeps_def returnS_def throwS_def getS_def liftS_def)

lemma keeps_modifyS [keeps_intros]: "(\<And>s. P s \<Longrightarrow> P (f s)) \<Longrightarrow> keeps P (modifyS f)"
  by (simp add: keeps_def modifyS_def)

lemma keeps_bindS [keeps_intros]:
  assumes "keeps P m" "\<And>x. keeps P (f x)" shows "keeps P (bindS m f)"
  unfolding keeps_def
proof (intro allI impI)
  fix s assume "P s"
  obtain s' r where m: "m s = (s', r)" by fastforce
  with assms(1) \<open>P s\<close> have "P s'" by (rule keepsD)
  with m assms(2) show "P (fst (bindS m f s))"
    by (cases r) (auto simp: bindS_def keeps_def)
qed

lemma keeps_if [keeps_intros]: "(b \<Longrightarrow> keeps P m) \<Longrightarrow> (\<not> b \<Longrightarrow> keeps P n) \<Longrightarrow> keeps P (if b then m else n)"
  by simp

lemma keeps_case_option [keeps_intros]:
  "keeps P m \<Longrightarrow> (\<And>y. keeps P (f y)) \<Longrightarrow> keeps P (case x of None \<Rightarrow> m | Some y \<Rightarrow> f y)"
  by (cases x) auto

lemma bindS_Inr_iff [result_simps]:
  "bindS m f s = (s'', Inr y) \<longleftrightarrow> (\<exists>s' x. m s = (s', Inr x) \<and> f x s' = (s'', Inr y))"
  by (auto simp: bindS_def split: prod.splits sum.splits)

lemma basic_Inr_iff [result_simps]:
  "returnS x s = (s', Inr y) \<longleftrightarrow> s' = s \<and> x = y"
  "throwS e s = (s', Inr y) \<longleftrightarrow> False"
  "getS f s = (s', Inr y) \<longleftrightarrow> s' = s \<and> f s = y"
  "liftS r s = (s', Inr y) \<longleftrightarrow> s' = s \<and> r = Inr y"
  "modifyS g s = (s', Inr u) \<longleftrightarrow> s' = g s"
  by (auto simp: returnS_def throwS_def getS_def liftS_def modifyS_def)

subsection \<open>Strings and decimal formatting\<close>

text \<open>\<open>str::rsplit_once\<close>: the parts before and after the last occurrence.\<close>

definition rsplit_once :: "char \<Rightarrow> string \<Rightarrow> (string \<times> string) option" where
  "rsplit_once d s =
     (if d \<in> set s then
        let last = rev (takeWhile (\<lambda>c. c \<noteq> d) (rev s)) in Some (take (length s - length last - 1) s, last)
      else None)"

fun split_on :: "char \<Rightarrow> string \<Rightarrow> string list" where
  "split_on d [] = [[]]"
| "split_on d (c # cs) =
     (if c = d then [] # split_on d cs
      else case split_on d cs of [] \<Rightarrow> [[c]] | part # parts \<Rightarrow> (c # part) # parts)"

fun join :: "string \<Rightarrow> string list \<Rightarrow> string" where
  "join sep [] = []"
| "join sep [x] = x"
| "join sep (x # y # xs) = x @ sep @ join sep (y # xs)"

definition as_bytes :: "string \<Rightarrow> bytes" where
  "as_bytes s = map (\<lambda>c. word_of_nat (of_char c)) s"

definition of_bytes :: "bytes \<Rightarrow> string" where
  "of_bytes bs = map (\<lambda>b. char_of (unat b)) bs"

lemma unat_byte_of_char: "unat (word_of_nat (of_char c) :: u8) = of_char c"
  by (simp add: unat_of_nat)

lemma of_bytes_as_bytes [simp]: "of_bytes (as_bytes s) = s"
  by (induction s) (simp_all add: of_bytes_def as_bytes_def unat_byte_of_char)

lemma as_bytes_inject [simp]: "as_bytes s = as_bytes t \<longleftrightarrow> s = t"
  by (metis of_bytes_as_bytes)

lemma length_as_bytes [simp]: "length (as_bytes s) = length s"
  by (simp add: as_bytes_def)

text \<open>
  \<open>str::trim\<close>: the UTF-8 encodings of the characters with the property White\_Space are removed
  at both ends.
\<close>

definition white_space :: "string list" where
  "white_space =
     [[CHR 0x09], [CHR 0x0A], [CHR 0x0B], [CHR 0x0C], [CHR 0x0D], [CHR 0x20],
      [CHR 0xC2, CHR 0x85], [CHR 0xC2, CHR 0xA0], [CHR 0xE1, CHR 0x9A, CHR 0x80],
      [CHR 0xE2, CHR 0x80, CHR 0x80], [CHR 0xE2, CHR 0x80, CHR 0x81], [CHR 0xE2, CHR 0x80, CHR 0x82],
      [CHR 0xE2, CHR 0x80, CHR 0x83], [CHR 0xE2, CHR 0x80, CHR 0x84], [CHR 0xE2, CHR 0x80, CHR 0x85],
      [CHR 0xE2, CHR 0x80, CHR 0x86], [CHR 0xE2, CHR 0x80, CHR 0x87], [CHR 0xE2, CHR 0x80, CHR 0x88],
      [CHR 0xE2, CHR 0x80, CHR 0x89], [CHR 0xE2, CHR 0x80, CHR 0x8A], [CHR 0xE2, CHR 0x80, CHR 0xA8],
      [CHR 0xE2, CHR 0x80, CHR 0xA9], [CHR 0xE2, CHR 0x80, CHR 0xAF], [CHR 0xE2, CHR 0x81, CHR 0x9F], [CHR 0xE3, CHR 0x80, CHR 0x80]]"

definition starts_with :: "string \<Rightarrow> string \<Rightarrow> bool" where
  "starts_with s p \<longleftrightarrow> take (length p) s = p"

fun strip_prefixes :: "string list \<Rightarrow> nat \<Rightarrow> string \<Rightarrow> string" where
  "strip_prefixes ws 0 s = s"
| "strip_prefixes ws (Suc n) s =
     (case find (starts_with s) ws of None \<Rightarrow> s | Some w \<Rightarrow> strip_prefixes ws n (drop (length w) s))"

definition trim_start :: "string \<Rightarrow> string" where
  "trim_start s = strip_prefixes white_space (length s) s"

definition trim_end :: "string \<Rightarrow> string" where
  "trim_end s = rev (strip_prefixes (map rev white_space) (length s) (rev s))"

definition trim :: "string \<Rightarrow> string" where
  "trim s = trim_end (trim_start s)"

lemma starts_with_iff: "starts_with s p \<longleftrightarrow> (\<exists>r. s = p @ r)"
  unfolding starts_with_def by (metis append_eq_conv_conj append_take_drop_id)

text \<open>\<open>to_ascii_lowercase\<close> and \<open>eq_ignore_ascii_case\<close>.\<close>

definition ascii_lower :: "char \<Rightarrow> char" where
  "ascii_lower c = (let n = of_char c :: nat in if 65 \<le> n \<and> n \<le> 90 then char_of (n + 32) else c)"

definition to_ascii_lowercase :: "string \<Rightarrow> string" where
  "to_ascii_lowercase s = map ascii_lower s"

definition eq_ignore_ascii_case :: "string \<Rightarrow> string \<Rightarrow> bool" where
  "eq_ignore_ascii_case s t \<longleftrightarrow> to_ascii_lowercase s = to_ascii_lowercase t"

definition digit :: "nat \<Rightarrow> char" where
  "digit d = char_of (48 + d)"

fun fmt_nat :: "nat \<Rightarrow> string" where
  "fmt_nat n = (if n < 10 then [digit n] else fmt_nat (n div 10) @ [digit (n mod 10)])"

declare fmt_nat.simps [simp del]

definition fmt_int :: "int \<Rightarrow> string" where
  "fmt_int i = (if i < 0 then CHR ''-'' # fmt_nat (nat (- i)) else fmt_nat (nat i))"

abbreviation fmt_u64 :: "u64 \<Rightarrow> string" where
  "fmt_u64 w \<equiv> fmt_nat (unat w)"

fun nat_of_digits :: "nat \<Rightarrow> string \<Rightarrow> nat" where
  "nat_of_digits acc [] = acc"
| "nat_of_digits acc (c # cs) = nat_of_digits (10 * acc + (of_char c - 48)) cs"

text \<open>
  The \<open>Debug\<close> rendering of a string: quoted, with the escapes of \<open>char::escape_debug\<close> for
  the ASCII characters; the bytes of other characters are copied, as they are for printable ones.
\<close>

definition hex_digit :: "nat \<Rightarrow> char" where
  "hex_digit d = (if d < 10 then digit d else char_of (87 + d))"

definition escape_debug :: "char \<Rightarrow> string" where
  "escape_debug c =
    (let n = of_char c :: nat in
     if c = CHR 0x22 \<or> c = CHR 0x5C then [CHR 0x5C, c]
     else if n = 0 then [CHR 0x5C, CHR ''0'']
     else if n = 9 then [CHR 0x5C, CHR ''t'']
     else if n = 10 then [CHR 0x5C, CHR ''n'']
     else if n = 13 then [CHR 0x5C, CHR ''r'']
     else if n < 16 then [CHR 0x5C] @ ''u{'' @ [hex_digit n] @ ''}''
     else if n < 32 \<or> n = 127 then [CHR 0x5C] @ ''u{'' @ [hex_digit (n div 16), hex_digit (n mod 16)] @ ''}''
     else [c])"

definition debug_str :: "string \<Rightarrow> string" where
  "debug_str s = [CHR 0x22] @ concat (map escape_debug s) @ [CHR 0x22]"

definition is_digit :: "char \<Rightarrow> bool" where
  "is_digit c \<longleftrightarrow> (48::nat) \<le> of_char c \<and> of_char c \<le> (57::nat)"

lemma of_char_digit: "d < 10 \<Longrightarrow> of_char (digit d) = 48 + d"
  by (simp add: digit_def)

lemma is_digit_digit [simp]: "d < 10 \<Longrightarrow> is_digit (digit d)"
  by (simp add: is_digit_def of_char_digit)

lemma nat_of_digits_append:
  "nat_of_digits acc (xs @ ys) = nat_of_digits (nat_of_digits acc xs) ys"
  by (induction xs arbitrary: acc) auto

lemma fmt_nat_nonempty [simp]: "fmt_nat n \<noteq> []"
  by (subst fmt_nat.simps) auto

lemma fmt_nat_digits: "\<forall>c \<in> set (fmt_nat n). is_digit c"
proof (induction n rule: fmt_nat.induct)
  case (1 n)
  then show ?case by (subst fmt_nat.simps) auto
qed

lemma nat_of_digits_fmt_nat [simp]: "nat_of_digits 0 (fmt_nat n) = n"
proof (induction n rule: fmt_nat.induct)
  case (1 n)
  show ?case
  proof (cases "n < 10")
    case True
    then show ?thesis by (subst fmt_nat.simps) (simp add: of_char_digit)
  next
    case False
    then have "nat_of_digits 0 (fmt_nat n) = nat_of_digits (n div 10) [digit (n mod 10)]"
      using 1 by (subst fmt_nat.simps) (simp add: nat_of_digits_append)
    then show ?thesis by (simp add: of_char_digit)
  qed
qed

lemma fmt_nat_inject [simp]: "fmt_nat m = fmt_nat n \<longleftrightarrow> m = n"
  by (metis nat_of_digits_fmt_nat)

text \<open>
  A run of digits ends at the first character that is not one, so a decimal number followed
  by a separator is parsed in one way only.
\<close>

lemma digits_sep_unique:
  assumes "\<forall>c \<in> set xs. is_digit c" "\<forall>c \<in> set ys. is_digit c" "\<not> is_digit s"
    and "xs @ s # r = ys @ s # q"
  shows "xs = ys \<and> r = q"
  using assms
proof (induction xs arbitrary: ys)
  case Nil
  then show ?case by (cases ys) auto
next
  case (Cons x xs)
  then show ?case by (cases ys) auto
qed

lemma fmt_nat_sep_inject:
  assumes "\<not> is_digit s" "fmt_nat m @ s # r = fmt_nat n @ s # q"
  shows "m = n \<and> r = q"
  using digits_sep_unique [OF fmt_nat_digits fmt_nat_digits assms] by simp

subsection \<open>BTreeMap\<close>

text \<open>
  A \<open>BTreeMap<String, V>\<close> is the list of its entries in the order it iterates them,
  ascending by the bytes of the key.
\<close>

type_synonym 'v btree_map = "(string \<times> 'v) list"

definition btm_get :: "string \<Rightarrow> 'v btree_map \<Rightarrow> 'v option" where
  "btm_get k m = map_of m k"

fun btm_insert :: "string \<Rightarrow> 'v \<Rightarrow> 'v btree_map \<Rightarrow> 'v btree_map" where
  "btm_insert k v [] = [(k, v)]"
| "btm_insert k v ((k', v') # m) =
     (if k = k' then (k, v) # m
      else if k < k' then (k, v) # (k', v') # m
      else (k', v') # btm_insert k v m)"

definition btm_wf :: "'v btree_map \<Rightarrow> bool" where
  "btm_wf m \<longleftrightarrow> sorted_wrt (<) (map fst m)"

lemma btm_get_Nil [simp]: "btm_get k [] = None"
  by (simp add: btm_get_def)

lemma btm_get_insert [map_simps]:
  "btm_get k' (btm_insert k v m) = (if k' = k then Some v else btm_get k' m)"
  by (induction k v m rule: btm_insert.induct) (auto simp: btm_get_def)

lemma btm_insert_keys: "fst ` set (btm_insert k v m) = insert k (fst ` set m)"
  by (induction k v m rule: btm_insert.induct) (auto simp: image_iff)

lemma btm_wf_insert [intro]: "btm_wf m \<Longrightarrow> btm_wf (btm_insert k v m)"
proof (induction k v m rule: btm_insert.induct)
  case (2 k v k' v' m)
  have "\<forall>x \<in> set (map fst (btm_insert k v m)). k' < x" if "\<not> k < k'" "k \<noteq> k'"
    using that 2 btm_insert_keys [of k v m] by (auto simp: btm_wf_def)
  then show ?case using 2 by (auto simp: btm_wf_def dest: less_trans)
qed (simp add: btm_wf_def)

lemma btm_wf_Nil [simp]: "btm_wf []"
  by (simp add: btm_wf_def)

lemma btm_get_in_set: "btm_get k m = Some v \<Longrightarrow> (k, v) \<in> set m"
  by (simp add: btm_get_def map_of_SomeD)

lemma in_set_btm_get: "btm_wf m \<Longrightarrow> (k, v) \<in> set m \<Longrightarrow> btm_get k m = Some v"
  by (simp add: btm_get_def btm_wf_def strict_sorted_iff)

end
