(* ===== verification/Externals.thy ===== *)
theory Externals
  imports Prelude
begin

text \<open>
  The code the repository calls and does not contain, as one record of functions that every
  definition using it takes as an argument: the digests and signature checks of aws-lc-rs and
  sha2, the codecs hex, base64 and pem, the SPKI parser, serde_json's parser and its canonicalizer,
  jiff's timestamps, globset's matcher and the UTF-8 check (the text of its error, if any).  The
  object identifier of an SPKI is meant for one that parses.  Nothing is assumed of them here; a theorem that needs a
  documented fact about one (that decoding undoes encoding, say) names it as a hypothesis.
  A fallible one returns the text of its error, which the code's own messages quote.
\<close>

text \<open>
  The value type of serde_json.  A number is held as u64 when it is a non-negative integer, as
  i64 when it is a negative one, and as a float otherwise.  An object lists its members in the
  order the map iterates them.
\<close>

datatype json_number = PosInt u64 | NegInt int | Float

datatype json =
    JNull
  | JBool bool
  | JNumber json_number
  | JString string
  | JArray "json list"
  | JObject "(string \<times> json) list"

text \<open>\<open>Number::as_i64\<close> and \<open>Number::as_u64\<close>.\<close>

fun as_i64 :: "json_number \<Rightarrow> int option" where
  "as_i64 (PosInt n) = (if unat n < 2 ^ 63 then Some (int (unat n)) else None)"
| "as_i64 (NegInt i) = Some i"
| "as_i64 Float = None"

fun as_u64 :: "json_number \<Rightarrow> u64 option" where
  "as_u64 (PosInt n) = Some n"
| "as_u64 (NegInt i) = None"
| "as_u64 Float = None"

fun as_str :: "json \<Rightarrow> string option" where
  "as_str (JString s) = Some s"
| "as_str _ = None"

fun as_object :: "json \<Rightarrow> (string \<times> json) list option" where
  "as_object (JObject m) = Some m"
| "as_object _ = None"

text \<open>\<open>Value::get\<close>: a member of an object, \<open>None\<close> for any other value.\<close>

definition json_get :: "string \<Rightarrow> json \<Rightarrow> json option" where
  "json_get k v = (case v of JObject m \<Rightarrow> map_of m k | _ \<Rightarrow> None)"

text \<open>The verification algorithms of aws-lc-rs that the crate selects between.\<close>

datatype aws_alg =
    ECDSA_P256_SHA256_ASN1 | ECDSA_P256_SHA384_ASN1
  | ECDSA_P384_SHA256_ASN1 | ECDSA_P384_SHA384_ASN1
  | ED25519
  | RSA_PSS_2048_8192_SHA256 | RSA_PSS_2048_8192_SHA384 | RSA_PSS_2048_8192_SHA512
  | RSA_PKCS1_2048_8192_SHA256 | RSA_PKCS1_2048_8192_SHA384 | RSA_PKCS1_2048_8192_SHA512

datatype aws_digest_alg = SHA256 | SHA384 | SHA512

text \<open>A point in time, in nanoseconds since the Unix epoch.\<close>

type_synonym timestamp = int

record externals =
  sha256 :: "bytes \<Rightarrow> bytes"
  sha384 :: "bytes \<Rightarrow> bytes"
  sha512 :: "bytes \<Rightarrow> bytes"
  hex_encode :: "bytes \<Rightarrow> string"
  hex_decode :: "string \<Rightarrow> (bytes, string) result"
  b64_encode :: "bytes \<Rightarrow> string"
  b64_decode :: "string \<Rightarrow> (bytes, string) result"
  pem_parse :: "string \<Rightarrow> (string \<times> bytes, string) result"
  pem_encode :: "string \<Rightarrow> bytes \<Rightarrow> string"
  spki_key_bits :: "bytes \<Rightarrow> (bytes, string) result"
  aws_verify :: "aws_alg \<Rightarrow> bytes \<Rightarrow> bytes \<Rightarrow> bytes \<Rightarrow> bool"
  aws_verify_digest :: "aws_alg \<Rightarrow> aws_digest_alg \<Rightarrow> bytes \<Rightarrow> bytes \<Rightarrow> bytes \<Rightarrow> bool"
  json_parse :: "bytes \<Rightarrow> (json, string) result"
  parse_timestamp :: "string \<Rightarrow> (timestamp, string) result"
  ts_as_second :: "timestamp \<Rightarrow> int"
  ts_from_second :: "int \<Rightarrow> (timestamp, string) result"
  fmt_timestamp :: "timestamp \<Rightarrow> string"
  glob_match :: "string \<Rightarrow> string \<Rightarrow> (bool, string) result"
  spki_oid :: "bytes \<Rightarrow> string"
  utf8_error :: "bytes \<Rightarrow> string option"
  json_canonicalize :: "json \<Rightarrow> (bytes, string) result"

text \<open>
  One concrete choice of these functions, for the theorems that apply a property at an input:
  the digests are the identity (so collision-free), hex and base64 write a byte as a
  character, a signature is valid when it is the key followed by the message, JSON text is
  read as one string, and a timestamp is the number of characters of its text.
\<close>

definition sample_ext :: externals where
  "sample_ext = \<lparr>
     sha256 = (\<lambda>b. b), sha384 = (\<lambda>b. b), sha512 = (\<lambda>b. b),
     hex_encode = of_bytes, hex_decode = (\<lambda>s. Inr (as_bytes s)),
     b64_encode = of_bytes, b64_decode = (\<lambda>s. Inr (as_bytes s)),
     pem_parse = (\<lambda>s. Inr (''PUBLIC KEY'', as_bytes s)), pem_encode = (\<lambda>tag b. of_bytes b),
     spki_key_bits = (\<lambda>b. Inr b),
     aws_verify = (\<lambda>alg key msg sig. sig = key @ msg),
     aws_verify_digest = (\<lambda>alg dalg key dig sig. sig = key @ dig),
     json_parse = (\<lambda>b. Inr (JString (of_bytes b))),
     parse_timestamp = (\<lambda>s. Inr (int (length s))),
     ts_as_second = (\<lambda>t. t), ts_from_second = Inr, fmt_timestamp = fmt_int,
     glob_match = (\<lambda>p t. Inr (p = t)),
     spki_oid = (\<lambda>b. ''1.3.101.112''), utf8_error = (\<lambda>b. None),
     json_canonicalize = (\<lambda>v. Inr [])\<rparr>"

end
