(* ===== verification/Encoding.thy ===== *)
theory Encoding
  imports Externals
begin

text \<open>
  The crate sigstore-types, part 1 (src/encoding.rs, src/hash.rs, src/error.rs): the newtypes
  around bytes and strings with their base64, hex and PEM conversions, the checked constructors
  of the fixed-size ones, and the log index.

  The types the macro \<open>base64_newtype!\<close> generates (DerCertificate, DerPublicKey,
  SignatureBytes, PayloadBytes, CanonicalizedBody, SignedTimestamp, TimestampToken, PemContent)
  are all lists of bytes here, and share the macro's operations; so do Sha256Hash and KeyHint,
  whose lengths their checked constructors establish.
\<close>

datatype types_error =
    Json string
  | Base64 string
  | InvalidBundleVersion string
  | MissingField string
  | InvalidMediaType string
  | InvalidCheckpoint string
  | InvalidHashAlgorithm string
  | InvalidCertificate string
  | Validation string
  | InvalidEncoding string

fun fmt_types_error :: "types_error \<Rightarrow> string" where
  "fmt_types_error (Json s) = ''JSON error: '' @ s"
| "fmt_types_error (Base64 s) = ''Base64 decoding error: '' @ s"
| "fmt_types_error (InvalidBundleVersion s) = ''Invalid bundle version: '' @ s"
| "fmt_types_error (MissingField s) = ''Missing required field: '' @ s"
| "fmt_types_error (InvalidMediaType s) = ''Invalid media type: '' @ s"
| "fmt_types_error (InvalidCheckpoint s) = ''Invalid checkpoint format: '' @ s"
| "fmt_types_error (InvalidHashAlgorithm s) = ''Invalid hash algorithm: '' @ s"
| "fmt_types_error (InvalidCertificate s) = ''Invalid certificate: '' @ s"
| "fmt_types_error (Validation s) = ''Validation error: '' @ s"
| "fmt_types_error (InvalidEncoding s) = ''Invalid encoding: '' @ s"

type_synonym der_certificate = bytes
type_synonym der_public_key = bytes
type_synonym signature_bytes = bytes
type_synonym sha256_hash = bytes
type_synonym key_hint = bytes

subsection \<open>The operations of base64\_newtype!\<close>

definition from_base64 :: "'z externals_scheme \<Rightarrow> string \<Rightarrow> (bytes, types_error) result" where
  "from_base64 X s = map_err (\<lambda>e. InvalidEncoding (''invalid base64: '' @ e)) (b64_decode X s)"

definition to_base64 :: "'z externals_scheme \<Rightarrow> bytes \<Rightarrow> string" where
  "to_base64 X b = b64_encode X b"

subsection \<open>PEM\<close>

definition from_pem_tag :: "'z externals_scheme \<Rightarrow> string \<Rightarrow> string \<Rightarrow> (bytes, types_error) result" where
  "from_pem_tag X expected pem_str =
     and_then (map_err (\<lambda>e. InvalidEncoding (''failed to parse PEM: '' @ e)) (pem_parse X pem_str))
       (\<lambda>(tag, contents).
          if tag \<noteq> expected then
            Inl (InvalidEncoding (''expected '' @ expected @ '' PEM block, got '' @ tag))
          else Inr contents)"

definition certificate_from_pem :: "'z externals_scheme \<Rightarrow> string \<Rightarrow> (der_certificate, types_error) result" where
  "certificate_from_pem X pem_str = from_pem_tag X ''CERTIFICATE'' pem_str"

definition certificate_to_pem :: "'z externals_scheme \<Rightarrow> der_certificate \<Rightarrow> string" where
  "certificate_to_pem X cert = pem_encode X ''CERTIFICATE'' cert"

definition public_key_from_pem :: "'z externals_scheme \<Rightarrow> string \<Rightarrow> (der_public_key, types_error) result" where
  "public_key_from_pem X pem_str = from_pem_tag X ''PUBLIC KEY'' pem_str"

definition public_key_to_pem :: "'z externals_scheme \<Rightarrow> der_public_key \<Rightarrow> string" where
  "public_key_to_pem X key = pem_encode X ''PUBLIC KEY'' key"

subsection \<open>Sha256Hash, KeyHint, HexLogId, HexHash, LogKeyId\<close>

definition sha256_try_from_slice :: "bytes \<Rightarrow> (sha256_hash, types_error) result" where
  "sha256_try_from_slice bs =
     (if length bs \<noteq> 32 then
        Inl (InvalidEncoding (''SHA-256 hash must be 32 bytes, got '' @ fmt_nat (length bs)))
      else Inr bs)"

definition sha256_from_hex :: "'z externals_scheme \<Rightarrow> string \<Rightarrow> (sha256_hash, types_error) result" where
  "sha256_from_hex X hex_str =
     and_then (map_err (\<lambda>e. InvalidEncoding (''invalid hex: '' @ e)) (hex_decode X hex_str))
       sha256_try_from_slice"

definition sha256_from_base64 :: "'z externals_scheme \<Rightarrow> string \<Rightarrow> (sha256_hash, types_error) result" where
  "sha256_from_base64 X s =
     and_then (map_err (\<lambda>e. InvalidEncoding (''invalid base64: '' @ e)) (b64_decode X s))
       sha256_try_from_slice"

definition is_ascii_hexdigit :: "char \<Rightarrow> bool" where
  "is_ascii_hexdigit c \<longleftrightarrow> is_digit c \<or> (CHR ''a'' \<le> c \<and> c \<le> CHR ''f'') \<or> (CHR ''A'' \<le> c \<and> c \<le> CHR ''F'')"

definition sha256_from_hex_or_base64 ::
  "'z externals_scheme \<Rightarrow> string \<Rightarrow> (sha256_hash, types_error) result" where
  "sha256_from_hex_or_base64 X s =
     (if length s = 64 \<and> list_all is_ascii_hexdigit s then sha256_from_hex X s
      else sha256_from_base64 X s)"

definition key_hint_try_from_slice :: "bytes \<Rightarrow> (key_hint, types_error) result" where
  "key_hint_try_from_slice bs =
     (if length bs \<noteq> 4 then
        Inl (Validation (''key hint must be exactly 4 bytes, got '' @ fmt_nat (length bs)))
      else Inr bs)"

definition hex_log_id_decode :: "'z externals_scheme \<Rightarrow> string \<Rightarrow> (bytes, types_error) result" where
  "hex_log_id_decode X s = map_err (\<lambda>e. InvalidEncoding (''invalid hex: '' @ e)) (hex_decode X s)"

definition hex_log_id_to_base64 :: "'z externals_scheme \<Rightarrow> string \<Rightarrow> (string, types_error) result" where
  "hex_log_id_to_base64 X s = and_then (hex_log_id_decode X s) (\<lambda>b. Inr (b64_encode X b))"

definition hex_hash_to_sha256 :: "'z externals_scheme \<Rightarrow> string \<Rightarrow> (sha256_hash, types_error) result" where
  "hex_hash_to_sha256 X s = sha256_from_hex X s"

definition log_key_id_from_bytes :: "'z externals_scheme \<Rightarrow> bytes \<Rightarrow> string" where
  "log_key_id_from_bytes X b = b64_encode X b"

definition log_key_id_decode :: "'z externals_scheme \<Rightarrow> string \<Rightarrow> (bytes, types_error) result" where
  "log_key_id_decode X s =
     map_err (\<lambda>e. InvalidEncoding (''invalid base64 in log key id: '' @ e)) (b64_decode X s)"

subsection \<open>LogIndex\<close>

text \<open>An i64; from a u64 it is the \<open>as i64\<close> cast.\<close>

type_synonym log_index = int

definition log_index_as_u64 :: "log_index \<Rightarrow> u64 option" where
  "log_index_as_u64 i = (if i \<ge> 0 then Some (word_of_int i) else None)"

definition log_index_from_u64 :: "u64 \<Rightarrow> log_index" where
  "log_index_from_u64 w = sint w"

subsection \<open>HashAlgorithm (hash.rs)\<close>

datatype hash_algorithm = Sha2256 | Sha2384 | Sha2512

fun digest_size :: "hash_algorithm \<Rightarrow> nat" where
  "digest_size Sha2256 = 32"
| "digest_size Sha2384 = 48"
| "digest_size Sha2512 = 64"

fun hash_oid :: "hash_algorithm \<Rightarrow> string" where
  "hash_oid Sha2256 = ''2.16.840.1.101.3.4.2.1''"
| "hash_oid Sha2384 = ''2.16.840.1.101.3.4.2.2''"
| "hash_oid Sha2512 = ''2.16.840.1.101.3.4.2.3''"

fun as_lowercase :: "hash_algorithm \<Rightarrow> string" where
  "as_lowercase Sha2256 = ''sha256''"
| "as_lowercase Sha2384 = ''sha384''"
| "as_lowercase Sha2512 = ''sha512''"

text \<open>
  \<open>str::to_lowercase\<close> is the ASCII one here: no other character has one of the letters of these
  names as its lower case.
\<close>

definition from_str_flexible :: "string \<Rightarrow> hash_algorithm option" where
  "from_str_flexible s =
     (let t = to_ascii_lowercase s in
      if t = ''sha256'' \<or> t = ''sha2_256'' \<or> t = ''sha-256'' then Some Sha2256
      else if t = ''sha384'' \<or> t = ''sha2_384'' \<or> t = ''sha-384'' then Some Sha2384
      else if t = ''sha512'' \<or> t = ''sha2_512'' \<or> t = ''sha-512'' then Some Sha2512
      else None)"

fun fmt_hash_algorithm :: "hash_algorithm \<Rightarrow> string" where
  "fmt_hash_algorithm Sha2256 = ''SHA2_256''"
| "fmt_hash_algorithm Sha2384 = ''SHA2_384''"
| "fmt_hash_algorithm Sha2512 = ''SHA2_512''"

subsection \<open>Lemmas\<close>

text \<open>Both serialized forms are read back.\<close>

lemma from_str_flexible_roundtrip:
  "from_str_flexible (fmt_hash_algorithm h) = Some h" "from_str_flexible (as_lowercase h) = Some h"
  by (cases h; hypsubst; code_simp)+

lemma from_pem_tag_Inr [result_simps]:
  "from_pem_tag X tag s = Inr b \<longleftrightarrow> pem_parse X s = Inr (tag, b)"
  by (auto simp: from_pem_tag_def result_simps split: prod.splits if_splits)

lemma sha256_try_from_slice_Inr [result_simps]:
  "sha256_try_from_slice bs = Inr h \<longleftrightarrow> length bs = 32 \<and> h = bs"
  by (auto simp: sha256_try_from_slice_def)

lemma key_hint_try_from_slice_Inr [result_simps]:
  "key_hint_try_from_slice bs = Inr h \<longleftrightarrow> length bs = 4 \<and> h = bs"
  by (auto simp: key_hint_try_from_slice_def)

lemma sha256_from_hex_or_base64_length:
  "sha256_from_hex_or_base64 X s = Inr h \<Longrightarrow> length h = 32"
  by (auto simp: sha256_from_hex_or_base64_def sha256_from_hex_def sha256_from_base64_def
      result_simps split: if_splits)

end
