(* ===== verification/Merkle.thy ===== *)
theory Merkle
  imports Encoding
begin

text \<open>
  The crate sigstore-merkle (src/tree.rs, src/proof.rs, src/error.rs): leaf and node hashes of
  RFC 6962, the verifier of inclusion proofs, and the verifier of consistency proofs with the
  bit arithmetic that splits a proof into its inner and border parts.
\<close>

unbundle bit_operations_syntax

datatype merkle_error =
    InvalidProof string
  | VerificationFailed string
  | InvalidTreeSize string
  | InvalidLeafIndex string
  | HashMismatch (expected: string) (actual: string)
  | Base64

subsection \<open>tree.rs\<close>

definition LEAF_HASH_PREFIX :: u8 where
  "LEAF_HASH_PREFIX = 0x00"

definition NODE_HASH_PREFIX :: u8 where
  "NODE_HASH_PREFIX = 0x01"

definition hash_leaf :: "'z externals_scheme \<Rightarrow> bytes \<Rightarrow> sha256_hash" where
  "hash_leaf X data = sha256 X ([LEAF_HASH_PREFIX] @ data)"

definition hash_children :: "'z externals_scheme \<Rightarrow> sha256_hash \<Rightarrow> sha256_hash \<Rightarrow> sha256_hash" where
  "hash_children X left right = sha256 X ([NODE_HASH_PREFIX] @ left @ right)"

subsection \<open>The integer primitives of the standard library used in proof.rs\<close>

definition trailing_zeros :: "u64 \<Rightarrow> nat" where
  "trailing_zeros w = length (takeWhile (\<lambda>i. \<not> bit w i) [0..<64])"

definition leading_zeros :: "u64 \<Rightarrow> nat" where
  "leading_zeros w = length (takeWhile (\<lambda>i. \<not> bit w i) (rev [0..<64]))"

definition count_ones :: "u64 \<Rightarrow> nat" where
  "count_ones w = length (filter (bit w) [0..<64])"

definition checked_shr :: "u64 \<Rightarrow> nat \<Rightarrow> u64 option" where
  "checked_shr w n = (if n < 64 then Some (drop_bit n w) else None)"

subsection \<open>Inclusion proofs\<close>

lemma unat_half_up: "unat ((s :: u64) div 2 + s mod 2) = (unat s + 1) div 2"
proof -
  have "unat s div 2 + unat s mod 2 < 2 ^ 64"
    using unsigned_less [of s, where ?'a = nat] by simp
  then have "unat (s div 2 + s mod 2) = unat s div 2 + unat s mod 2"
    by (simp add: unat_word_ariths(1) unat_div unat_mod)
  then show ?thesis by presburger
qed

text \<open>The \<open>while size > 1\<close> loop; the count is what the loop adds to it.\<close>

function expected_length_loop :: "u64 \<Rightarrow> u64 \<Rightarrow> nat \<Rightarrow> nat" where
  "expected_length_loop index sz count =
     (if sz > 1 then
        expected_length_loop (index div 2) (sz div 2 + sz mod 2)
          (if \<not> (sz mod 2 = 1 \<and> index = sz - 1) then count + 1 else count)
      else count)"
  by pat_completeness auto

termination
proof (relation "measure (\<lambda>(i, s, c). unat s)")
  fix index sz :: u64 and count :: nat
  assume "sz > 1"
  then have "unat sz > 1" by (simp add: word_less_nat_alt)
  then show "((index div 2, sz div 2 + sz mod 2,
      if \<not> (sz mod 2 = 1 \<and> index = sz - 1) then count + 1 else count), index, sz, count)
      \<in> measure (\<lambda>(i, s, c). unat s)"
    by (simp add: unat_half_up)
qed simp

declare expected_length_loop.simps [simp del]

definition expected_inclusion_proof_length :: "u64 \<Rightarrow> u64 \<Rightarrow> nat" where
  "expected_inclusion_proof_length leaf_index tree_size =
     (if tree_size \<le> 1 then 0 else expected_length_loop leaf_index tree_size 0)"

text \<open>The \<open>for proof_hash in proof_hashes\<close> loop, from the leaf to the root.\<close>

fun inclusion_loop ::
  "'z externals_scheme \<Rightarrow> u64 \<Rightarrow> u64 \<Rightarrow> sha256_hash \<Rightarrow> sha256_hash list \<Rightarrow> sha256_hash" where
  "inclusion_loop X index last_node hash [] = hash"
| "inclusion_loop X index last_node hash (proof_hash # rest) =
     inclusion_loop X (index div 2) (last_node div 2)
       (if index mod 2 = 1 \<or> index = last_node
        then hash_children X proof_hash hash
        else hash_children X hash proof_hash) rest"

definition verify_inclusion_proof ::
  "'z externals_scheme \<Rightarrow> sha256_hash \<Rightarrow> u64 \<Rightarrow> u64 \<Rightarrow> sha256_hash list \<Rightarrow> sha256_hash
   \<Rightarrow> (unit, merkle_error) result" where
  "verify_inclusion_proof X leaf_hash leaf_index tree_size proof_hashes expected_root =
    (if tree_size = 0 then Inl (InvalidTreeSize ''tree size cannot be zero'')
     else if leaf_index \<ge> tree_size then
       Inl (InvalidLeafIndex (''leaf index '' @ fmt_u64 leaf_index @ '' >= tree size ''
              @ fmt_u64 tree_size))
     else
       let expected_proof_len = expected_inclusion_proof_length leaf_index tree_size in
       if length proof_hashes \<noteq> expected_proof_len then
         Inl (InvalidProof (''expected '' @ fmt_nat expected_proof_len @ '' proof hashes for leaf ''
                @ fmt_u64 leaf_index @ '' in tree of size '' @ fmt_u64 tree_size @ '', got ''
                @ fmt_nat (length proof_hashes)))
       else
         let hash = inclusion_loop X leaf_index (tree_size - 1) leaf_hash proof_hashes in
         if hash \<noteq> expected_root then
           Inl (HashMismatch (hex_encode X expected_root) (hex_encode X hash))
         else Inr ())"

subsection \<open>Consistency proofs\<close>

definition inner_proof_size :: "u64 \<Rightarrow> u64 \<Rightarrow> nat" where
  "inner_proof_size index tree_size =
     (let diff = index XOR (tree_size - 1) in 64 - leading_zeros diff)"

definition decompose_inclusion_proof ::
  "u64 \<Rightarrow> u64 \<Rightarrow> (nat \<times> nat, merkle_error) result" where
  "decompose_inclusion_proof index tree_size =
     (let inner = inner_proof_size index tree_size;
          border = count_ones (case checked_shr index inner of Some w \<Rightarrow> w | None \<Rightarrow> 0)
      in Inr (inner, border))"

text \<open>The three chains; \<open>i\<close> is the counter of \<open>proof.iter().enumerate()\<close>.\<close>

fun chain_inner ::
  "'z externals_scheme \<Rightarrow> nat \<Rightarrow> sha256_hash \<Rightarrow> sha256_hash list \<Rightarrow> u64 \<Rightarrow> sha256_hash" where
  "chain_inner X i hash [] index = hash"
| "chain_inner X i hash (p # rest) index =
     chain_inner X (i + 1)
       (if drop_bit i index AND 1 = 0 then hash_children X hash p else hash_children X p hash)
       rest index"

fun chain_inner_right ::
  "'z externals_scheme \<Rightarrow> nat \<Rightarrow> sha256_hash \<Rightarrow> sha256_hash list \<Rightarrow> u64 \<Rightarrow> sha256_hash" where
  "chain_inner_right X i hash [] index = hash"
| "chain_inner_right X i hash (p # rest) index =
     chain_inner_right X (i + 1)
       (if drop_bit i index AND 1 = 1 then hash_children X p hash else hash)
       rest index"

fun chain_border_right ::
  "'z externals_scheme \<Rightarrow> sha256_hash \<Rightarrow> sha256_hash list \<Rightarrow> sha256_hash" where
  "chain_border_right X hash [] = hash"
| "chain_border_right X hash (p # rest) = chain_border_right X (hash_children X p hash) rest"

definition verify_consistency_proof ::
  "'z externals_scheme \<Rightarrow> u64 \<Rightarrow> u64 \<Rightarrow> sha256_hash list \<Rightarrow> sha256_hash \<Rightarrow> sha256_hash
   \<Rightarrow> (unit, merkle_error) result" where
  "verify_consistency_proof X old_size new_size proof_hashes old_root new_root =
    (if old_size > new_size then
       Inl (InvalidTreeSize (''old size '' @ fmt_u64 old_size @ '' > new size ''
              @ fmt_u64 new_size))
     else if old_size = 0 then
       (if proof_hashes \<noteq> [] then
          Inl (InvalidProof ''proof should be empty when old tree is empty'')
        else if new_size = 0 \<and> old_root \<noteq> new_root then
          Inl (HashMismatch (hex_encode X old_root) (hex_encode X new_root))
        else Inr ())
     else if old_size = new_size then
       (if old_root \<noteq> new_root then
          Inl (HashMismatch (hex_encode X old_root) (hex_encode X new_root))
        else if proof_hashes \<noteq> [] then
          Inl (InvalidProof ''proof should be empty for same-size trees'')
        else Inr ())
     else if proof_hashes = [] then
       Inl (InvalidProof ''proof cannot be empty for different-size trees'')
     else
       let shift = trailing_zeros old_size in
       and_then (decompose_inclusion_proof (old_size - 1) new_size) (\<lambda>(inner, border).
       let inner = inner - shift in
       and_then
         (if old_size = push_bit shift 1 then Inr (old_root, 0)
          else if proof_hashes = [] then Inl (InvalidProof ''insufficient proof hashes'')
          else Inr (hd proof_hashes, 1)) (\<lambda>(seed, start).
       let expected_len = start + inner + border in
       if length proof_hashes \<noteq> expected_len then
         Inl (InvalidProof (''expected '' @ fmt_nat expected_len @ '' proof hashes, got ''
                @ fmt_nat (length proof_hashes)))
       else
         let proof = drop start proof_hashes;
             mask = drop_bit shift (old_size - 1);
             hash1 = chain_inner_right X 0 seed (take inner proof) mask;
             calc_old_root = chain_border_right X hash1 (drop inner proof);
             hash2 = chain_inner X 0 seed (take inner proof) mask;
             calc_new_root = chain_border_right X hash2 (drop inner proof)
         in
         if calc_old_root \<noteq> old_root then
           Inl (VerificationFailed (''old root mismatch: expected '' @ hex_encode X old_root
                  @ '', got '' @ hex_encode X calc_old_root))
         else if calc_new_root \<noteq> new_root then
           Inl (VerificationFailed (''new root mismatch: expected '' @ hex_encode X new_root
                  @ '', got '' @ hex_encode X calc_new_root))
         else Inr ())))"

end
