(* ===== verification/Merkle_Spec.thy ===== *)
theory Merkle_Spec
  imports Prelude
begin

text \<open>
  The Merkle trees of RFC 6962, independent of the verifier: the tree hash, the audit path of a
  leaf and the consistency proof, as the RFC's top-down recursions over an arbitrary node hash
  \<open>H\<close>; and the bottom-up computations on natural numbers that the verifier performs, with the
  theorem that both give the same root.
\<close>

subsection \<open>RFC 6962, section 2.1\<close>

text \<open>The largest power of two smaller than \<open>n\<close>, for \<open>n \<ge> 2\<close>.\<close>

fun split_point :: "nat \<Rightarrow> nat" where
  "split_point n = (if n \<le> 2 then 1 else 2 * split_point ((n + 1) div 2))"

declare split_point.simps [simp del]

lemma split_point_pow: "\<exists>j. split_point n = 2 ^ j"
proof (induction n rule: split_point.induct)
  case (1 n)
  show ?case
  proof (cases "n \<le> 2")
    case True
    then have "split_point n = 2 ^ 0" by (subst split_point.simps) simp
    then show ?thesis ..
  next
    case False
    with 1 obtain j where "split_point ((n + 1) div 2) = 2 ^ j" by auto
    with False have "split_point n = 2 ^ Suc j" by (subst split_point.simps) simp
    then show ?thesis ..
  qed
qed

lemma split_point_bounds: "2 \<le> n \<Longrightarrow> split_point n < n \<and> n \<le> 2 * split_point n"
proof (induction n rule: split_point.induct)
  case (1 n)
  show ?case
  proof (cases "n \<le> 2")
    case True
    with 1 show ?thesis by (subst (1 2) split_point.simps) simp
  next
    case False
    with 1 have "split_point ((n + 1) div 2) < (n + 1) div 2
        \<and> (n + 1) div 2 \<le> 2 * split_point ((n + 1) div 2)" by simp
    moreover from False have "split_point n = 2 * split_point ((n + 1) div 2)"
      by (subst split_point.simps) simp
    ultimately show ?thesis by linarith
  qed
qed

lemma split_point_pos [simp]: "0 < split_point n"
  using split_point_pow [of n] by auto

lemma split_point_unique:
  assumes "2 ^ j < n" "n \<le> 2 * 2 ^ j"
  shows "split_point n = 2 ^ j"
proof -
  obtain i where i: "split_point n = 2 ^ i" using split_point_pow by blast
  have "(1::nat) \<le> 2 ^ j" by simp
  with assms(1) have "2 \<le> n" by linarith
  from split_point_bounds [OF this] i have "2 ^ i < n" "n \<le> 2 ^ Suc i" by auto
  with assms have "(2::nat) ^ i < 2 ^ Suc j" "(2::nat) ^ j < 2 ^ Suc i" by auto
  then have "i < Suc j" "j < Suc i" by (simp_all only: power_strict_increasing_iff one_less_numeral_iff semiring_norm)
  then have "i = j" by simp
  with i show ?thesis by simp
qed

lemma split_point_less [termination_simp]: "\<not> n \<le> Suc 0 \<Longrightarrow> split_point n < n"
  using split_point_bounds [of n] by simp

lemma min_split_point_less [termination_simp]: "\<not> n \<le> Suc 0 \<Longrightarrow> min n (split_point n) < n"
  using split_point_less [of n] by simp

lemma minus_split_point_less [termination_simp]: "\<not> n \<le> Suc 0 \<Longrightarrow> n - split_point n < n"
  by simp

text \<open>\<open>MTH\<close> over the list of leaf hashes of a non-empty tree.\<close>

fun mth :: "('h \<Rightarrow> 'h \<Rightarrow> 'h) \<Rightarrow> 'h list \<Rightarrow> 'h" where
  "mth H D = (if length D \<le> 1 then hd D
     else H (mth H (take (split_point (length D)) D)) (mth H (drop (split_point (length D)) D)))"

declare mth.simps [simp del]

text \<open>\<open>PATH(m, D)\<close>: the hashes of an inclusion proof, from the leaf upwards.\<close>

fun audit_path :: "('h \<Rightarrow> 'h \<Rightarrow> 'h) \<Rightarrow> nat \<Rightarrow> 'h list \<Rightarrow> 'h list" where
  "audit_path H m D = (if length D \<le> 1 then []
     else let k = split_point (length D) in
       if m < k then audit_path H m (take k D) @ [mth H (drop k D)]
       else audit_path H (m - k) (drop k D) @ [mth H (take k D)])"

declare audit_path.simps [simp del]

text \<open>\<open>SUBPROOF(m, D, b)\<close> and \<open>PROOF(m, D)\<close>: the hashes of a consistency proof.\<close>

fun subproof :: "('h \<Rightarrow> 'h \<Rightarrow> 'h) \<Rightarrow> nat \<Rightarrow> 'h list \<Rightarrow> bool \<Rightarrow> 'h list" where
  "subproof H m D b =
     (if length D \<le> m then (if b then [] else [mth H D])
      else if length D \<le> 1 then []
      else let k = split_point (length D) in
        if m \<le> k then subproof H m (take k D) b @ [mth H (drop k D)]
        else subproof H (m - k) (drop k D) False @ [mth H (take k D)])"

declare subproof.simps [simp del]

definition consistency_proof :: "('h \<Rightarrow> 'h \<Rightarrow> 'h) \<Rightarrow> nat \<Rightarrow> 'h list \<Rightarrow> 'h list" where
  "consistency_proof H m D = subproof H m D True"

lemma mth_single [simp]: "mth H [x] = x"
  by (subst mth.simps) simp

lemma mth_split:
  "2 \<le> length D \<Longrightarrow> mth H D =
     H (mth H (take (split_point (length D)) D)) (mth H (drop (split_point (length D)) D))"
  by (subst mth.simps) simp

subsection \<open>The bottom-up computations\<close>

text \<open>
  \<open>up H i l h ps\<close> walks from node \<open>i\<close> of a level whose last node is \<open>l\<close> to the root;
  \<open>up_left\<close> does the same and hashes the left siblings only.
\<close>

definition left_sibling :: "nat \<Rightarrow> nat \<Rightarrow> bool" where
  "left_sibling i l \<longleftrightarrow> odd i \<or> i = l"

fun up :: "('h \<Rightarrow> 'h \<Rightarrow> 'h) \<Rightarrow> nat \<Rightarrow> nat \<Rightarrow> 'h \<Rightarrow> 'h list \<Rightarrow> 'h" where
  "up H i l h [] = h"
| "up H i l h (p # ps) = up H (i div 2) (l div 2) (if left_sibling i l then H p h else H h p) ps"

fun up_left :: "('h \<Rightarrow> 'h \<Rightarrow> 'h) \<Rightarrow> nat \<Rightarrow> nat \<Rightarrow> 'h \<Rightarrow> 'h list \<Rightarrow> 'h" where
  "up_left H i l h [] = h"
| "up_left H i l h (p # ps) =
     up_left H (i div 2) (l div 2) (if left_sibling i l then H p h else h) ps"

lemma div_pow_Suc: "(i::nat) div 2 div 2 ^ t = i div 2 ^ Suc t"
  by (simp add: div_mult2_eq)

lemma up_append:
  "up H i l h (ps @ qs) = up H (i div 2 ^ length ps) (l div 2 ^ length ps) (up H i l h ps) qs"
  by (induction ps arbitrary: i l h) (auto simp: div_pow_Suc)

lemma up_left_append:
  "up_left H i l h (ps @ qs)
     = up_left H (i div 2 ^ length ps) (l div 2 ^ length ps) (up_left H i l h ps) qs"
  by (induction ps arbitrary: i l h) (auto simp: div_pow_Suc)

lemma up_cong:
  assumes "\<And>t. t < length ps \<Longrightarrow>
    left_sibling (i div 2 ^ t) (l div 2 ^ t) = left_sibling (i' div 2 ^ t) (l' div 2 ^ t)"
  shows "up H i l h ps = up H i' l' h ps" "up_left H i l h ps = up_left H i' l' h ps"
proof -
  have "up H i l h ps = up H i' l' h ps \<and> up_left H i l h ps = up_left H i' l' h ps"
    using assms
  proof (induction ps arbitrary: i l i' l' h)
    case (Cons p ps)
    have "left_sibling i l = left_sibling i' l'" using Cons.prems [of 0] by simp
    moreover have *: "left_sibling (i div 2 div 2 ^ t) (l div 2 div 2 ^ t)
        = left_sibling (i' div 2 div 2 ^ t) (l' div 2 div 2 ^ t)" if "t < length ps" for t
    proof -
      from that have "Suc t < length (p # ps)" by simp
      from Cons.prems [OF this] show ?thesis unfolding div_pow_Suc .
    qed
    ultimately show ?case using Cons.IH [OF *] by simp
  qed simp
  then show "up H i l h ps = up H i' l' h ps" "up_left H i l h ps = up_left H i' l' h ps"
    by auto
qed

subsection \<open>Arithmetic of the two halves\<close>

text \<open>A node in the left, complete half: below the half's height it never meets the right edge.\<close>

lemma left_half_siblings:
  assumes "m < 2 ^ j" "2 ^ j \<le> l" "t < j"
  shows "left_sibling (m div 2 ^ t) (l div 2 ^ t)
       = left_sibling (m div 2 ^ t) ((2 ^ j - 1) div 2 ^ t)"
proof -
  have j: "(2::nat) ^ j = 2 ^ (j - t) * 2 ^ t" using assms(3) by (simp flip: power_add)
  have "m div 2 ^ t < 2 ^ (j - t)" using assms(1) j by (simp add: div_less_iff_less_mult)
  moreover have "2 ^ (j - t) \<le> l div 2 ^ t"
    using assms(2) j by (simp add: less_eq_div_iff_mult_less_eq)
  moreover have "(2 ^ j - 1) div 2 ^ t = 2 ^ (j - t) - (1::nat)"
  proof -
    have "(2 ^ (j - t) * 2 ^ t - 1) div 2 ^ t = 2 ^ (j - t) - (1::nat)"
      by (rule div_nat_eqI) (auto simp: algebra_simps diff_mult_distrib intro: diff_le_mono2)
    then show ?thesis using j by simp
  qed
  moreover have "odd (2 ^ (j - t) - (1::nat))" using assms(3) by simp
  ultimately show ?thesis by (auto simp: left_sibling_def)
qed

lemma sub_pow_div:
  assumes "t \<le> j" "2 ^ j \<le> (m::nat)"
  shows "(m - 2 ^ j) div 2 ^ t = m div 2 ^ t - 2 ^ (j - t)" "2 ^ (j - t) \<le> m div 2 ^ t"
proof -
  have j: "(2::nat) ^ j = 2 ^ (j - t) * 2 ^ t" using assms(1) by (simp flip: power_add)
  show "2 ^ (j - t) \<le> m div 2 ^ t"
    using assms(2) j by (simp add: less_eq_div_iff_mult_less_eq)
  obtain d where d: "m = d + 2 ^ (j - t) * 2 ^ t" using assms(2) j by (metis le_add_diff_inverse2)
  then show "(m - 2 ^ j) div 2 ^ t = m div 2 ^ t - 2 ^ (j - t)" using j by simp
qed

text \<open>A node in the right half looks the same from the half and from the whole tree.\<close>

lemma right_half_siblings:
  assumes "2 ^ j \<le> m" "2 ^ j \<le> l" "t < j"
  shows "left_sibling (m div 2 ^ t) (l div 2 ^ t)
       = left_sibling ((m - 2 ^ j) div 2 ^ t) ((l - 2 ^ j) div 2 ^ t)"
proof -
  have e: "even ((2::nat) ^ (j - t))" using assms(3) by simp
  note s = sub_pow_div [of t j m] sub_pow_div [of t j l]
  have "odd (m div 2 ^ t - 2 ^ (j - t)) = odd (m div 2 ^ t)"
    using s(2) assms e by (simp add: even_diff_nat)
  moreover have "(m div 2 ^ t - 2 ^ (j - t) = l div 2 ^ t - 2 ^ (j - t)) = (m div 2 ^ t = l div 2 ^ t)"
    using s(2,4) assms by auto
  ultimately show ?thesis using s assms by (simp add: left_sibling_def)
qed

text \<open>The split of a tree with at least two leaves, in the form the inductions use.\<close>

lemma split_cases:
  assumes "\<not> length D \<le> 1"
  obtains j where "split_point (length D) = 2 ^ j" "2 ^ j < length D" "length D \<le> 2 * 2 ^ j"
    "length (take (2 ^ j) D) = 2 ^ j" "length (drop (2 ^ j) D) = length D - 2 ^ j"
proof -
  obtain j where j: "split_point (length D) = 2 ^ j" using split_point_pow by blast
  moreover have "split_point (length D) < length D \<and> length D \<le> 2 * split_point (length D)"
    using assms by (intro split_point_bounds) simp
  ultimately show ?thesis using that by simp
qed

lemma audit_path_left:
  "split_point (length D) = k \<Longrightarrow> \<not> length D \<le> 1 \<Longrightarrow> m < k \<Longrightarrow>
   audit_path H m D = audit_path H m (take k D) @ [mth H (drop k D)]"
  by (subst audit_path.simps) (simp add: Let_def)

lemma audit_path_right:
  "split_point (length D) = k \<Longrightarrow> \<not> length D \<le> 1 \<Longrightarrow> \<not> m < k \<Longrightarrow>
   audit_path H m D = audit_path H (m - k) (drop k D) @ [mth H (take k D)]"
  by (subst audit_path.simps) (simp add: Let_def)

lemma audit_path_single: "length D \<le> 1 \<Longrightarrow> audit_path H m D = []"
  by (subst audit_path.simps) simp

text \<open>An induction rule with the power of two made explicit.\<close>

lemma tree_induct [consumes 1, case_names single left right]:
  fixes D :: "'h list"
  assumes "m < length D"
    and single: "\<And>m D. m < length D \<Longrightarrow> length D \<le> 1 \<Longrightarrow> P m D"
    and left: "\<And>m j D. m < 2 ^ j \<Longrightarrow> 2 ^ j < length D \<Longrightarrow> length D \<le> 2 * 2 ^ j \<Longrightarrow>
      split_point (length D) = 2 ^ j \<Longrightarrow> \<not> length D \<le> 1 \<Longrightarrow> P m (take (2 ^ j) D) \<Longrightarrow> P m D"
    and right: "\<And>m j D. \<not> m < 2 ^ j \<Longrightarrow> m < length D \<Longrightarrow> 2 ^ j < length D \<Longrightarrow>
      length D \<le> 2 * 2 ^ j \<Longrightarrow> split_point (length D) = 2 ^ j \<Longrightarrow> \<not> length D \<le> 1 \<Longrightarrow>
      P (m - 2 ^ j) (drop (2 ^ j) D) \<Longrightarrow> P m D"
  shows "P m D"
  using assms(1)
proof (induction "length D" arbitrary: m D rule: less_induct)
  case less
  show ?case
  proof (cases "length D \<le> 1")
    case True
    with less.prems show ?thesis by (rule single)
  next
    case False
    then obtain j where j: "split_point (length D) = 2 ^ j" "2 ^ j < length D"
      "length D \<le> 2 * 2 ^ j" "length (take (2 ^ j) D) = 2 ^ j"
      "length (drop (2 ^ j) D) = length D - 2 ^ j" by (rule split_cases)
    show ?thesis
    proof (cases "m < 2 ^ j")
      case True
      have "P m (take (2 ^ j) D)" using j True by (intro less.hyps) simp_all
      then show ?thesis by (rule left [OF True j(2,3,1) False])
    next
      case R: False
      have "P (m - 2 ^ j) (drop (2 ^ j) D)"
        using j R less.prems by (intro less.hyps) (simp_all add: diff_less_mono)
      then show ?thesis by (rule right [OF R less.prems j(2,3,1) False])
    qed
  qed
qed

subsection \<open>The length of an audit path\<close>

lemma audit_path_length_le:
  "m < length D \<Longrightarrow> length D \<le> 2 ^ i \<Longrightarrow> length (audit_path H m D) \<le> i"
proof (induction m D arbitrary: i rule: tree_induct)
  case (single m D)
  then show ?case by (simp add: audit_path_single)
next
  case (left m j D)
  then have "(2::nat) ^ j < 2 ^ i" by linarith
  then obtain i' where i': "i = Suc i'" "j \<le> i'"
    by (metis less_imp_Suc_add le_add1 one_less_numeral_iff power_strict_increasing_iff
        semiring_norm(76))
  have "length (audit_path H m (take (2 ^ j) D)) \<le> j"
    using left by simp
  with left i' show ?case by (simp add: audit_path_left)
next
  case (right m j D)
  then have "(2::nat) ^ j < 2 ^ i" by linarith
  then obtain i' where i': "i = Suc i'" "j \<le> i'"
    by (metis less_imp_Suc_add le_add1 one_less_numeral_iff power_strict_increasing_iff
        semiring_norm(76))
  have "length (audit_path H (m - 2 ^ j) (drop (2 ^ j) D)) \<le> j"
    using right by simp
  with right i' show ?case by (simp add: audit_path_right)
qed

lemma audit_path_length_complete:
  "m < length D \<Longrightarrow> length D = 2 ^ i \<Longrightarrow> length (audit_path H m D) = i"
proof (induction m D arbitrary: i rule: tree_induct)
  case (single m D)
  then have "(2::nat) ^ i = Suc 0" by linarith
  then have "i = 0" by simp
  with single show ?case by (simp add: audit_path_single)
next
  case (left m j D)
  then have "(2::nat) ^ j < 2 ^ i" "(2::nat) ^ i \<le> 2 ^ Suc j" by auto
  then have "i = Suc j" by (simp only: power_strict_increasing_iff power_increasing_iff)
  moreover have "length (audit_path H m (take (2 ^ j) D)) = j" using left by simp
  ultimately show ?case using left by (simp add: audit_path_left)
next
  case (right m j D)
  then have "(2::nat) ^ j < 2 ^ i" "(2::nat) ^ i \<le> 2 ^ Suc j" by auto
  then have "i = Suc j" by (simp only: power_strict_increasing_iff power_increasing_iff)
  moreover have "length (audit_path H (m - 2 ^ j) (drop (2 ^ j) D)) = j"
    using right \<open>i = Suc j\<close> by simp
  ultimately show ?case using right by (simp add: audit_path_right)
qed

text \<open>The levels below \<open>N\<close> at which node \<open>i\<close> has a sibling.\<close>

definition levels :: "nat \<Rightarrow> nat \<Rightarrow> nat \<Rightarrow> nat" where
  "levels N i l = length (filter (\<lambda>t. odd (l div 2 ^ t) \<or> i div 2 ^ t \<noteq> l div 2 ^ t) [0..<N])"

lemma levels_extend:
  assumes "l < 2 ^ N" "i \<le> l" "N \<le> M"
  shows "levels M i l = levels N i l"
proof -
  have "l div 2 ^ t = 0" "i div 2 ^ t = 0" if "N \<le> t" for t
  proof -
    have "(2::nat) ^ N \<le> 2 ^ t" using that by simp
    with assms have "l < 2 ^ t" "i < 2 ^ t" by linarith+
    then show "l div 2 ^ t = 0" "i div 2 ^ t = 0" by simp_all
  qed
  then have "filter (\<lambda>t. odd (l div 2 ^ t) \<or> i div 2 ^ t \<noteq> l div 2 ^ t) [N..<M] = []"
    by (simp add: filter_empty_conv)
  moreover have "[0..<M] = [0..<N] @ [N..<M]"
    using assms(3) by (metis le_add_diff_inverse upt_add_eq_append zero_le)
  ultimately show ?thesis by (simp add: levels_def)
qed

lemma levels_left:
  assumes "m < 2 ^ j" "2 ^ j \<le> l" "l < 2 ^ Suc j"
  shows "levels (Suc j) m l = Suc j"
proof -
  have "m div 2 ^ t \<noteq> l div 2 ^ t" if "t \<le> j" for t
  proof -
    have j: "(2::nat) ^ j = 2 ^ (j - t) * 2 ^ t" using that by (simp flip: power_add)
    have "m div 2 ^ t < 2 ^ (j - t)" using assms(1) j by (simp add: div_less_iff_less_mult)
    moreover have "2 ^ (j - t) \<le> l div 2 ^ t"
      using assms(2) j by (simp add: less_eq_div_iff_mult_less_eq)
    ultimately show ?thesis by linarith
  qed
  then have "filter (\<lambda>t. odd (l div 2 ^ t) \<or> m div 2 ^ t \<noteq> l div 2 ^ t) [0..<Suc j] = [0..<Suc j]"
    by (intro filter_True) auto
  then show ?thesis by (simp add: levels_def)
qed

lemma levels_right:
  assumes "2 ^ j \<le> m" "m \<le> l" "l < 2 ^ Suc j"
  shows "levels (Suc j) m l = Suc (levels j (m - 2 ^ j) (l - 2 ^ j))"
proof -
  have "l div 2 ^ j = 1" using assms by (intro div_nat_eqI) auto
  then have o: "odd (l div 2 ^ j)" by simp
  have "filter (\<lambda>t. odd (l div 2 ^ t) \<or> m div 2 ^ t \<noteq> l div 2 ^ t) [0..<j]
      = filter (\<lambda>t. odd ((l - 2 ^ j) div 2 ^ t) \<or> (m - 2 ^ j) div 2 ^ t \<noteq> (l - 2 ^ j) div 2 ^ t) [0..<j]"
  proof (rule filter_cong [OF refl])
    fix t assume "t \<in> set [0..<j]"
    then have t: "t \<le> j" "t < j" by auto
    have l: "2 ^ j \<le> l" using assms by simp
    note s = sub_pow_div [OF t(1) assms(1)] sub_pow_div [OF t(1) l]
    have "even ((2::nat) ^ (j - t))" using t by simp
    with s show "(odd (l div 2 ^ t) \<or> m div 2 ^ t \<noteq> l div 2 ^ t)
       = (odd ((l - 2 ^ j) div 2 ^ t) \<or> (m - 2 ^ j) div 2 ^ t \<noteq> (l - 2 ^ j) div 2 ^ t)"
      by (simp add: even_diff_nat) linarith
  qed
  with o show ?thesis by (simp add: levels_def)
qed

lemma audit_path_length:
  "m < length D \<Longrightarrow> length D \<le> 2 ^ N \<Longrightarrow> length (audit_path H m D) = levels N m (length D - 1)"
proof (induction m D arbitrary: N rule: tree_induct)
  case (single m D)
  then have "levels N m (length D - 1) = levels 0 m (length D - 1)"
    by (intro levels_extend) auto
  with single show ?case by (simp add: audit_path_single levels_def)
next
  case (left m j D)
  then have "(2::nat) ^ j < 2 ^ N" by linarith
  then have "Suc j \<le> N" by (simp add: Suc_le_eq)
  with left have "levels N m (length D - 1) = levels (Suc j) m (length D - 1)"
    by (intro levels_extend) auto
  also have "\<dots> = Suc j" using left by (intro levels_left) auto
  finally show ?case
    using left by (simp add: audit_path_left audit_path_length_complete [where i = j])
next
  case (right m j D)
  then have "(2::nat) ^ j < 2 ^ N" by linarith
  then have "Suc j \<le> N" by (simp add: Suc_le_eq)
  with right have "levels N m (length D - 1) = levels (Suc j) m (length D - 1)"
    by (intro levels_extend) auto
  also have "\<dots> = Suc (levels j (m - 2 ^ j) (length D - 1 - 2 ^ j))"
    using right by (intro levels_right) auto
  also have "levels j (m - 2 ^ j) (length D - 1 - 2 ^ j)
      = length (audit_path H (m - 2 ^ j) (drop (2 ^ j) D))"
    using right.IH [of j] right.hyps by (simp add: diff_right_commute diff_less_mono)
  finally show ?case using right by (simp add: audit_path_right)
qed

subsection \<open>An audit path leads to the tree hash\<close>

lemma audit_path_meets_edge:
  "m < length D \<Longrightarrow>
   m div 2 ^ length (audit_path H m D) = (length D - 1) div 2 ^ length (audit_path H m D)"
proof (induction m D rule: tree_induct)
  case (single m D)
  then show ?case by (simp add: audit_path_single)
next
  case (left m j D)
  then have "(length D - 1) div (2 * 2 ^ j) = 0" "m div (2 * 2 ^ j) = 0" by auto
  with left show ?case by (simp add: audit_path_left audit_path_length_complete [where i = j])
next
  case (right m j D)
  define s where "s = length (audit_path H (m - 2 ^ j) (drop (2 ^ j) D))"
  have s: "s \<le> j" unfolding s_def
    using right.hyps by (intro audit_path_length_le) auto
  have l: "2 ^ j \<le> length D - 1" "2 ^ j \<le> m" using right.hyps by auto
  have "(m - 2 ^ j) div 2 ^ s = (length D - 1 - 2 ^ j) div 2 ^ s"
    using right by (simp add: s_def diff_right_commute)
  then have "m div 2 ^ s = (length D - 1) div 2 ^ s"
    using sub_pow_div [OF s l(1)] sub_pow_div [OF s l(2)] by linarith
  then have "m div 2 ^ s div 2 = (length D - 1) div 2 ^ s div 2" by simp
  then have "m div 2 ^ Suc s = (length D - 1) div 2 ^ Suc s"
    by (simp only: div_mult2_eq [symmetric] power_Suc2)
  with right.hyps show ?case by (simp add: audit_path_right s_def del: power_Suc)
qed

text \<open>The same walk in the half, started \<open>s\<close> levels above the leaves.\<close>

lemma up_right_half:
  assumes "2 ^ j \<le> m" "2 ^ j \<le> l" "s + length ps \<le> j"
  shows "up H (m div 2 ^ s) (l div 2 ^ s) h ps
      = up H ((m - 2 ^ j) div 2 ^ s) ((l - 2 ^ j) div 2 ^ s) h ps"
    "up_left H (m div 2 ^ s) (l div 2 ^ s) h ps
      = up_left H ((m - 2 ^ j) div 2 ^ s) ((l - 2 ^ j) div 2 ^ s) h ps"
proof -
  have *: "left_sibling (m div 2 ^ s div 2 ^ t) (l div 2 ^ s div 2 ^ t)
      = left_sibling ((m - 2 ^ j) div 2 ^ s div 2 ^ t) ((l - 2 ^ j) div 2 ^ s div 2 ^ t)"
    if "t < length ps" for t
    using right_half_siblings [of j m l "s + t"] assms that by (simp add: power_add div_mult2_eq)
  show "up H (m div 2 ^ s) (l div 2 ^ s) h ps
      = up H ((m - 2 ^ j) div 2 ^ s) ((l - 2 ^ j) div 2 ^ s) h ps"
    by (rule up_cong(1) [OF *])
  show "up_left H (m div 2 ^ s) (l div 2 ^ s) h ps
      = up_left H ((m - 2 ^ j) div 2 ^ s) ((l - 2 ^ j) div 2 ^ s) h ps"
    by (rule up_cong(2) [OF *])
qed

lemma up_left_half:
  assumes "m < 2 ^ j" "2 ^ j \<le> l" "s + length ps \<le> j"
  shows "up H (m div 2 ^ s) (l div 2 ^ s) h ps = up H (m div 2 ^ s) ((2 ^ j - 1) div 2 ^ s) h ps"
    "up_left H (m div 2 ^ s) (l div 2 ^ s) h ps
      = up_left H (m div 2 ^ s) ((2 ^ j - 1) div 2 ^ s) h ps"
proof -
  have *: "left_sibling (m div 2 ^ s div 2 ^ t) (l div 2 ^ s div 2 ^ t)
      = left_sibling (m div 2 ^ s div 2 ^ t) ((2 ^ j - 1) div 2 ^ s div 2 ^ t)"
    if "t < length ps" for t
    using left_half_siblings [of m j l "s + t"] assms that by (simp add: power_add div_mult2_eq)
  show "up H (m div 2 ^ s) (l div 2 ^ s) h ps = up H (m div 2 ^ s) ((2 ^ j - 1) div 2 ^ s) h ps"
    by (rule up_cong(1) [OF *])
  show "up_left H (m div 2 ^ s) (l div 2 ^ s) h ps
      = up_left H (m div 2 ^ s) ((2 ^ j - 1) div 2 ^ s) h ps"
    by (rule up_cong(2) [OF *])
qed

text \<open>After the path of the right half, the last step finds its sibling on the left.\<close>

lemma right_half_last:
  assumes "\<not> m < 2 ^ j" "m < length D" "2 ^ j < length D" "length D \<le> 2 * 2 ^ j"
    and s: "s = length (audit_path H (m - 2 ^ j) (drop (2 ^ j) D))"
  shows "s \<le> j" "left_sibling (m div 2 ^ s) ((length D - 1) div 2 ^ s)"
proof -
  show sj: "s \<le> j" unfolding s using assms by (intro audit_path_length_le) auto
  have "(m - 2 ^ j) div 2 ^ s = (length D - 1 - 2 ^ j) div 2 ^ s"
    using audit_path_meets_edge [of "m - 2 ^ j" "drop (2 ^ j) D" H] assms
    by (simp add: diff_right_commute diff_less_mono)
  moreover have "2 ^ j \<le> length D - 1" "2 ^ j \<le> m" using assms by auto
  ultimately have "m div 2 ^ s = (length D - 1) div 2 ^ s"
    using sub_pow_div [OF sj, of "length D - 1"] sub_pow_div [OF sj, of m] by linarith
  then show "left_sibling (m div 2 ^ s) ((length D - 1) div 2 ^ s)"
    by (simp add: left_sibling_def)
qed

lemma left_half_last:
  assumes "m < 2 ^ j" "2 ^ j < length D" "length D \<le> 2 * 2 ^ j"
  shows "\<not> left_sibling (m div 2 ^ j) ((length D - 1) div 2 ^ j)"
proof -
  have "(length D - 1) div 2 ^ j = 1" using assms by (intro div_nat_eqI) auto
  with assms show ?thesis by (simp add: left_sibling_def)
qed

theorem up_audit_path:
  "m < length D \<Longrightarrow> up H m (length D - 1) (D ! m) (audit_path H m D) = mth H D"
proof (induction m D rule: tree_induct)
  case (single m D)
  then obtain x where "D = [x]" "m = 0" by (cases D) auto
  then show ?case by (simp add: audit_path_single)
next
  case (left m j D)
  have len: "length (audit_path H m (take (2 ^ j) D)) = j"
    using left.hyps by (intro audit_path_length_complete) auto
  have "up H m (length D - 1) (D ! m) (audit_path H m (take (2 ^ j) D)) = mth H (take (2 ^ j) D)"
    using left up_left_half(1) [of m j "length D - 1" 0 "audit_path H m (take (2 ^ j) D)"] len
    by simp
  with left.hyps len left_half_last [of m j D] show ?case
    by (simp add: audit_path_left up_append mth_split)
next
  case (right m j D)
  have s: "length (audit_path H (m - 2 ^ j) (drop (2 ^ j) D)) \<le> j"
    and last: "left_sibling (m div 2 ^ length (audit_path H (m - 2 ^ j) (drop (2 ^ j) D)))
      ((length D - 1) div 2 ^ length (audit_path H (m - 2 ^ j) (drop (2 ^ j) D)))"
    using right_half_last [OF right.hyps(1-4) refl] by blast+
  have "2 ^ j \<le> length D - 1" using right.hyps by linarith
  then have "up H m (length D - 1) (D ! m) (audit_path H (m - 2 ^ j) (drop (2 ^ j) D))
      = mth H (drop (2 ^ j) D)"
    using right up_right_half(1) [of j m "length D - 1" 0 "audit_path H (m - 2 ^ j) (drop (2 ^ j) D)" H] s
    by (simp add: diff_right_commute)
  with right.hyps last show ?case
    by (simp add: audit_path_right up_append mth_split)
qed

subsection \<open>Consistency proofs\<close>

text \<open>
  The tree of the first \<open>m\<close> leaves ends in a complete subtree of \<open>2 ^ s\<close> leaves when \<open>2 ^ s\<close>
  divides \<open>m\<close>.  The first \<open>s\<close> hashes of the audit path of leaf \<open>m - 1\<close> stay inside it.
\<close>

definition seed_hash :: "('h \<Rightarrow> 'h \<Rightarrow> 'h) \<Rightarrow> nat \<Rightarrow> nat \<Rightarrow> 'h list \<Rightarrow> 'h" where
  "seed_hash H s m D = mth H (take (2 ^ s) (drop (m - 2 ^ s) D))"

definition outer_path :: "('h \<Rightarrow> 'h \<Rightarrow> 'h) \<Rightarrow> nat \<Rightarrow> nat \<Rightarrow> 'h list \<Rightarrow> 'h list" where
  "outer_path H s m D = drop s (audit_path H (m - 1) D)"

lemma pow_dvd_le:
  assumes "2 ^ s dvd (m::nat)" "0 < m" "m \<le> 2 ^ j"
  shows "s \<le> j"
proof -
  have "2 ^ s \<le> m" using assms by (intro dvd_imp_le)
  then have "(2::nat) ^ s \<le> 2 ^ j" using assms by linarith
  then show ?thesis by (simp add: power_increasing_iff)
qed

text \<open>The induction of the consistency proofs, on the leaf \<open>m - 1\<close>.\<close>

lemma boundary_induct [consumes 3, case_names whole left right]:
  fixes D :: "'h list"
  assumes "2 ^ s dvd m" "0 < m" "m \<le> length D"
    and whole: "\<And>D. length D = 2 ^ s \<Longrightarrow> P (2 ^ s) D"
    and left: "\<And>m j D. 2 ^ s dvd m \<Longrightarrow> 0 < m \<Longrightarrow> m \<le> 2 ^ j \<Longrightarrow> s \<le> j \<Longrightarrow> 2 ^ j < length D \<Longrightarrow>
      length D \<le> 2 * 2 ^ j \<Longrightarrow> split_point (length D) = 2 ^ j \<Longrightarrow> \<not> length D \<le> 1 \<Longrightarrow>
      P m (take (2 ^ j) D) \<Longrightarrow> P m D"
    and right: "\<And>m j D. 2 ^ s dvd m \<Longrightarrow> 2 ^ j < m \<Longrightarrow> m \<le> length D \<Longrightarrow> s \<le> j \<Longrightarrow> 2 ^ j < length D \<Longrightarrow>
      length D \<le> 2 * 2 ^ j \<Longrightarrow> split_point (length D) = 2 ^ j \<Longrightarrow> \<not> length D \<le> 1 \<Longrightarrow>
      2 ^ s dvd m - 2 ^ j \<Longrightarrow> P (m - 2 ^ j) (drop (2 ^ j) D) \<Longrightarrow> P m D"
  shows "P m D"
  using assms(1-3)
proof (induction "length D" arbitrary: m D rule: less_induct)
  case less
  have ge: "2 ^ s \<le> m" using less.prems by (intro dvd_imp_le)
  show ?case
  proof (cases "length D = 2 ^ s")
    case True
    with ge less.prems have "m = 2 ^ s" by simp
    with True whole show ?thesis by simp
  next
    case ns: False
    with ge less.prems have gt: "2 ^ s < length D" by linarith
    moreover have "(1::nat) \<le> 2 ^ s" by simp
    ultimately have F: "\<not> length D \<le> 1" by linarith
    then obtain j where j: "split_point (length D) = 2 ^ j" "2 ^ j < length D"
      "length D \<le> 2 * 2 ^ j" "length (take (2 ^ j) D) = 2 ^ j"
      "length (drop (2 ^ j) D) = length D - 2 ^ j" by (rule split_cases)
    from gt j have "(2::nat) ^ s < 2 ^ Suc j" by simp
    then have sj: "s \<le> j" by (simp only: power_strict_increasing_iff one_less_numeral_iff semiring_norm less_Suc_eq_le)
    then have dj: "2 ^ s dvd (2::nat) ^ j" by (rule le_imp_power_dvd)
    show ?thesis
    proof (cases "m \<le> 2 ^ j")
      case True
      have "P m (take (2 ^ j) D)" using j True less.prems by (intro less.hyps) simp_all
      then show ?thesis by (rule left [OF less.prems(1,2) True sj j(2,3,1) F])
    next
      case R: False
      have d: "2 ^ s dvd m - 2 ^ j" using less.prems(1) dj by (rule dvd_diff_nat)
      have "P (m - 2 ^ j) (drop (2 ^ j) D)"
        using j R less.prems d by (intro less.hyps) simp_all
      with R d show ?thesis
        by (intro right [OF less.prems(1) _ less.prems(3) sj j(2,3,1) F]) simp_all
    qed
  qed
qed

lemma boundary_path_length:
  "2 ^ s dvd m \<Longrightarrow> 0 < m \<Longrightarrow> m \<le> length D \<Longrightarrow> s \<le> length (audit_path H (m - 1) D)"
proof (induction m D rule: boundary_induct)
  case (whole D)
  then show ?case by (simp add: audit_path_length_complete [where i = s])
next
  case (left m j D)
  then show ?case by (simp add: audit_path_left)
next
  case (right m j D)
  then show ?case by (simp add: audit_path_right)
qed

text \<open>The RFC's consistency proof is the seed, unless it is the old root, and the outer path.\<close>

lemma seed_hash_take: "2 ^ s \<le> m \<Longrightarrow> m \<le> k \<Longrightarrow> seed_hash H s m (take k D) = seed_hash H s m D"
proof -
  assume "2 ^ s \<le> m" "m \<le> k"
  then have "2 ^ s \<le> k - (m - 2 ^ s)" by linarith
  then show ?thesis by (simp add: seed_hash_def drop_take min_absorb1)
qed

lemma seed_hash_drop: "2 ^ s \<le> m - k \<Longrightarrow> seed_hash H s (m - k) (drop k D) = seed_hash H s m D"
  by (cases "k \<le> m") (simp_all add: seed_hash_def)

lemma seed_hash_whole: "length D = 2 ^ s \<Longrightarrow> seed_hash H s (2 ^ s) D = mth H D"
  by (simp add: seed_hash_def)

lemma outer_path_whole: "length D = 2 ^ s \<Longrightarrow> outer_path H s (2 ^ s) D = []"
  by (simp add: outer_path_def audit_path_length_complete [where i = s])

lemma outer_path_left:
  assumes "2 ^ s dvd m" "0 < m" "m \<le> 2 ^ j" "2 ^ j < length D" "split_point (length D) = 2 ^ j"
    "\<not> length D \<le> 1"
  shows "outer_path H s m D = outer_path H s m (take (2 ^ j) D) @ [mth H (drop (2 ^ j) D)]"
proof -
  have "s \<le> length (audit_path H (m - 1) (take (2 ^ j) D))"
    using assms by (intro boundary_path_length) auto
  with assms show ?thesis by (simp add: outer_path_def audit_path_left)
qed

lemma outer_path_right:
  assumes "2 ^ s dvd m - 2 ^ j" "2 ^ j < m" "m \<le> length D" "split_point (length D) = 2 ^ j"
    "\<not> length D \<le> 1"
  shows "outer_path H s m D
    = outer_path H s (m - 2 ^ j) (drop (2 ^ j) D) @ [mth H (take (2 ^ j) D)]"
proof -
  have "s \<le> length (audit_path H (m - 2 ^ j - 1) (drop (2 ^ j) D))"
    using assms by (intro boundary_path_length) auto
  moreover have "m - 2 ^ j - 1 = m - 1 - 2 ^ j" by simp
  ultimately show ?thesis using assms by (simp add: outer_path_def audit_path_right)
qed

lemma subproof_outer_path:
  "2 ^ s dvd m \<Longrightarrow> 0 < m \<Longrightarrow> m \<le> length D \<Longrightarrow> \<not> 2 ^ Suc s dvd m \<Longrightarrow> m < length D \<or> m = 2 ^ s \<Longrightarrow>
   subproof H m D b = (if b \<and> m = 2 ^ s then [] else [seed_hash H s m D]) @ outer_path H s m D"
proof (induction m D arbitrary: b rule: boundary_induct)
  case (whole D)
  then show ?case
    by (subst subproof.simps) (simp add: seed_hash_whole outer_path_whole)
next
  case (left m j D)
  have "m < 2 ^ j \<or> m = 2 ^ s"
  proof (cases "m = 2 ^ j")
    case True
    have "\<not> Suc s \<le> j"
    proof
      assume "Suc s \<le> j"
      then have "2 ^ Suc s dvd (2::nat) ^ j" by (rule le_imp_power_dvd)
      with True left.prems show False by (simp del: power_Suc)
    qed
    with True left.hyps show ?thesis by (simp add: le_antisym not_less_eq_eq)
  next
    case False
    with left.hyps show ?thesis by simp
  qed
  with left have "subproof H m (take (2 ^ j) D) b
      = (if b \<and> m = 2 ^ s then [] else [seed_hash H s m (take (2 ^ j) D)])
        @ outer_path H s m (take (2 ^ j) D)" by simp
  moreover have "2 ^ s \<le> m" using left.hyps by (intro dvd_imp_le)
  moreover have "subproof H m D b = subproof H m (take (2 ^ j) D) b @ [mth H (drop (2 ^ j) D)]"
    using left.hyps by (subst subproof.simps) (simp add: Let_def)
  ultimately show ?case using left.hyps outer_path_left [of s m j D H] by (simp add: seed_hash_take)
next
  case (right m j D)
  have ge: "2 ^ s \<le> m - 2 ^ j" using right.hyps by (intro dvd_imp_le) simp_all
  have lt: "m < length D"
  proof -
    have "(2::nat) ^ s \<le> 2 ^ j" using right.hyps by simp
    with right show ?thesis by linarith
  qed
  have nd: "\<not> 2 ^ Suc s dvd m - 2 ^ j"
  proof
    assume d: "2 ^ Suc s dvd m - 2 ^ j"
    show False
    proof (cases "s < j")
      case True
      then have "2 ^ Suc s dvd (2::nat) ^ j" by (intro le_imp_power_dvd) simp
      with d have "2 ^ Suc s dvd m - 2 ^ j + 2 ^ j" by (rule dvd_add)
      with right show False by simp
    next
      case False
      with right.hyps have "j = s" by simp
      moreover have "2 ^ Suc s \<le> m - 2 ^ j" using d right.hyps by (intro dvd_imp_le) simp_all
      ultimately show False using right.hyps by simp
    qed
  qed
  have "subproof H (m - 2 ^ j) (drop (2 ^ j) D) False
      = seed_hash H s (m - 2 ^ j) (drop (2 ^ j) D) # outer_path H s (m - 2 ^ j) (drop (2 ^ j) D)"
    using right lt nd by (simp add: diff_less_mono)
  moreover have "subproof H m D b
      = subproof H (m - 2 ^ j) (drop (2 ^ j) D) False @ [mth H (take (2 ^ j) D)]"
    using right.hyps lt by (subst subproof.simps) (simp add: Let_def)
  moreover have "m \<noteq> 2 ^ s"
  proof -
    have "(2::nat) ^ s \<le> 2 ^ j" using right.hyps by simp
    with right.hyps show ?thesis by linarith
  qed
  ultimately show ?case
    using right.hyps ge outer_path_right [of s m j D H] by (simp add: seed_hash_drop)
qed

text \<open>From the seed, the outer path leads to the new root, and its left siblings to the old one.\<close>

lemma outer_last_left:
  assumes "0 < m" "m \<le> 2 ^ j" "2 ^ j < length D" "length D \<le> 2 * 2 ^ j" "s \<le> j"
    "length ps = j - s"
  shows "\<not> left_sibling ((m - 1) div 2 ^ s div 2 ^ length ps) ((length D - 1) div 2 ^ s div 2 ^ length ps)"
proof -
  have "s + length ps = j" using assms by simp
  then show ?thesis
    using left_half_last [of "m - 1" j D] assms by (simp flip: div_mult2_eq power_add)
qed

lemma outer_last_right:
  assumes "2 ^ j < m" "m \<le> length D" "2 ^ j < length D" "length D \<le> 2 * 2 ^ j"
    "2 ^ s dvd m - 2 ^ j" "ps = outer_path H s (m - 2 ^ j) (drop (2 ^ j) D)"
  shows "s + length ps \<le> j"
    "left_sibling ((m - 1) div 2 ^ s div 2 ^ length ps) ((length D - 1) div 2 ^ s div 2 ^ length ps)"
proof -
  have e: "m - 2 ^ j - 1 = m - 1 - 2 ^ j" by simp
  have "s \<le> length (audit_path H (m - 2 ^ j - 1) (drop (2 ^ j) D))"
    using assms by (intro boundary_path_length) auto
  then have l: "s + length ps = length (audit_path H (m - 1 - 2 ^ j) (drop (2 ^ j) D))"
    using assms by (simp add: outer_path_def e)
  have "\<not> m - 1 < 2 ^ j" "m - 1 < length D" using assms by auto
  from right_half_last [OF this assms(3,4) l]
  show "s + length ps \<le> j"
    "left_sibling ((m - 1) div 2 ^ s div 2 ^ length ps) ((length D - 1) div 2 ^ s div 2 ^ length ps)"
    by (simp_all add: power_add div_mult2_eq)
qed

lemma outer_path_length_left:
  assumes "2 ^ s dvd m" "0 < m" "m \<le> 2 ^ j" "length D = 2 ^ j"
  shows "length (outer_path H s m D) = j - s"
  using assms by (simp add: outer_path_def audit_path_length_complete [where i = j])

theorem up_outer_path:
  "2 ^ s dvd m \<Longrightarrow> 0 < m \<Longrightarrow> m \<le> length D \<Longrightarrow>
   up H ((m - 1) div 2 ^ s) ((length D - 1) div 2 ^ s) (seed_hash H s m D) (outer_path H s m D)
     = mth H D
   \<and> up_left H ((m - 1) div 2 ^ s) ((length D - 1) div 2 ^ s) (seed_hash H s m D)
       (outer_path H s m D) = mth H (take m D)"
proof (induction m D rule: boundary_induct)
  case (whole D)
  then show ?case by (simp add: seed_hash_whole outer_path_whole)
next
  case (left m j D)
  define ps where "ps = outer_path H s m (take (2 ^ j) D)"
  have ge: "2 ^ s \<le> m" using left.hyps by (intro dvd_imp_le)
  have l: "length ps = j - s"
    unfolding ps_def using left.hyps by (intro outer_path_length_left) auto
  note last = outer_last_left [OF left.hyps(2,3,5,6,4) l]
  have h: "m - 1 < 2 ^ j" "2 ^ j \<le> length D - 1" "s + length ps \<le> j" using left.hyps l by auto
  note half = up_left_half [OF h, of H "seed_hash H s m D"]
  have IH: "up H ((m - 1) div 2 ^ s) ((length D - 1) div 2 ^ s) (seed_hash H s m D) ps
      = mth H (take (2 ^ j) D)"
    "up_left H ((m - 1) div 2 ^ s) ((length D - 1) div 2 ^ s) (seed_hash H s m D) ps
      = mth H (take m D)"
    using left.IH left.hyps half by (simp_all add: ps_def seed_hash_take ge min_def)
  show ?case
    using left.hyps last IH outer_path_left [of s m j D H]
    by (simp add: up_append up_left_append mth_split flip: ps_def)
next
  case (right m j D)
  define ps where "ps = outer_path H s (m - 2 ^ j) (drop (2 ^ j) D)"
  have ge: "2 ^ s \<le> m - 2 ^ j" using right.hyps by (intro dvd_imp_le) simp_all
  note last = outer_last_right [OF right.hyps(2,3,5,6,9) ps_def]
  have h: "2 ^ j \<le> m - 1" "2 ^ j \<le> length D - 1" using right.hyps by auto
  note half = up_right_half [OF h last(1), of H "seed_hash H s m D"]
  have e: "m - 2 ^ j - 1 = m - 1 - 2 ^ j" "length D - 2 ^ j - 1 = length D - 1 - 2 ^ j" by simp_all
  have IH: "up H ((m - 1) div 2 ^ s) ((length D - 1) div 2 ^ s) (seed_hash H s m D) ps
      = mth H (drop (2 ^ j) D)"
    "up_left H ((m - 1) div 2 ^ s) ((length D - 1) div 2 ^ s) (seed_hash H s m D) ps
      = mth H (take (m - 2 ^ j) (drop (2 ^ j) D))"
    using right.IH half unfolding ps_def [symmetric] length_drop e seed_hash_drop [OF ge]
    by simp_all
  have "split_point m = 2 ^ j" using right.hyps by (intro split_point_unique) auto
  moreover have "(1::nat) \<le> 2 ^ j" by simp
  with right.hyps have "2 \<le> m" by linarith
  ultimately have "mth H (take m D)
      = H (mth H (take (2 ^ j) D)) (mth H (take (m - 2 ^ j) (drop (2 ^ j) D)))"
    using right.hyps by (subst mth_split) (simp_all add: min_def drop_take)
  then show ?case
    using right.hyps last IH outer_path_right [of s m j D H]
    by (simp add: up_append up_left_append mth_split flip: ps_def)
qed

end
