(* ===== verification/Merkle_Correct.thy ===== *)
theory Merkle_Correct
  imports Merkle Merkle_Spec
begin

text \<open>
  The verifier of \<open>Merkle\<close> against the trees of \<open>Merkle_Spec\<close>: it accepts the RFC's proofs, it
  computes their lengths with its bit arithmetic, and, as long as the node hash has no
  collision among the pairs that are hashed, it accepts nothing else.
\<close>

subsection \<open>From machine words to natural numbers\<close>

lemma unat_div2: "unat ((w :: u64) div 2) = unat w div 2"
  by (simp add: unat_div)

lemma word_mod2_odd: "(w :: u64) mod 2 = 1 \<longleftrightarrow> odd (unat w)"
  by (simp add: word_unat_eq_iff unat_mod odd_iff_mod_2_eq_one)

lemma bit_odd_unat: "bit (w :: u64) t \<longleftrightarrow> odd (unat w div 2 ^ t)"
proof -
  have "bit (unat w) t \<longleftrightarrow> bit w t"
    by (auto simp: bit_unsigned_iff dest: bit_imp_possible_bit)
  then show ?thesis by (simp add: bit_iff_odd)
qed

lemma unat_drop_bit: "unat (drop_bit t (w :: u64)) = unat w div 2 ^ t"
  unfolding unat_drop_bit_eq by (rule drop_bit_eq_div)

lemma drop_bit_and_1: "drop_bit i (w :: u64) AND 1 = (if bit w i then 1 else 0)"
  unfolding and_one_eq mod_2_eq_odd bit_iff_odd_drop_bit by simp

lemma unat_minus_1: "w \<noteq> 0 \<Longrightarrow> unat ((w :: u64) - 1) = unat w - 1"
  by (rule unat_minus_one)

lemma left_sibling_word: "(i :: u64) mod 2 = 1 \<or> i = l \<longleftrightarrow> left_sibling (unat i) (unat l)"
  unfolding word_mod2_odd left_sibling_def by (simp add: word_unat_eq_iff)

lemma inclusion_loop_up:
  "inclusion_loop X i l h ps = up (hash_children X) (unat i) (unat l) h ps"
  by (induction ps arbitrary: i l h) (simp_all add: unat_div2 left_sibling_word)

lemma levels_Suc:
  "levels (Suc N) i l = (if odd l \<or> i \<noteq> l then 1 else 0) + levels N (i div 2) (l div 2)"
proof -
  let ?P = "\<lambda>i l t. odd (l div 2 ^ t) \<or> i div 2 ^ t \<noteq> l div 2 ^ t"
  have "[0..<Suc N] = 0 # map Suc [0..<N]" by (metis map_Suc_upt upt_conv_Cons zero_less_Suc)
  then have "levels (Suc N) i l = length (filter (?P i l) (0 # map Suc [0..<N]))"
    by (simp only: levels_def)
  also have "\<dots> = (if odd l \<or> i \<noteq> l then 1 else 0)
      + length (filter (?P i l \<circ> Suc) [0..<N])"
    by (simp add: filter_map)
  also have "?P i l \<circ> Suc = ?P (i div 2) (l div 2)"
    by (rule ext) (simp only: o_apply power_Suc div_mult2_eq)
  finally show ?thesis by (simp only: levels_def)
qed

lemma expected_length_loop_levels:
  "i < sz \<Longrightarrow> unat sz \<le> 2 ^ N \<Longrightarrow>
   expected_length_loop i sz c = c + levels N (unat i) (unat sz - 1)"
proof (induction i sz c arbitrary: N rule: expected_length_loop.induct)
  case (1 i sz c)
  show ?case
  proof (cases "sz > 1")
    case False
    with 1 have "unat sz = 1" "unat i = 0" by (auto simp: word_less_nat_alt)
    moreover have "levels N 0 0 = levels 0 0 0" by (intro levels_extend) auto
    ultimately show ?thesis
      using False by (subst expected_length_loop.simps) (simp add: levels_def)
  next
    case True
    then have gt: "1 < unat sz" by (simp add: word_less_nat_alt)
    with 1 obtain N' where N: "N = Suc N'" by (cases N) auto
    have l: "(unat sz + 1) div 2 - 1 = (unat sz - 1) div 2" using gt by linarith
    have lt: "i div 2 < sz div 2 + sz mod 2"
      using 1 gt by (simp add: word_less_nat_alt unat_half_up unat_div2)
    have le: "unat (sz div 2 + sz mod 2) \<le> 2 ^ N'"
      using 1 N by (simp add: unat_half_up)
    have "sz \<noteq> 0" using gt by auto
    then have "i = sz - 1 \<longleftrightarrow> unat i = unat sz - 1"
      by (simp add: word_unat_eq_iff unat_minus_1)
    then have c: "\<not> (sz mod 2 = 1 \<and> i = sz - 1) \<longleftrightarrow> odd (unat sz - 1) \<or> unat i \<noteq> unat sz - 1"
      using gt unfolding word_mod2_odd by auto
    show ?thesis
      using "1.IH" [OF True lt le] True
      by (subst expected_length_loop.simps) (simp only: N levels_Suc c unat_half_up l unat_div2 if_True, simp)
  qed
qed

lemma unat_le_2_64: "unat (w :: u64) \<le> 2 ^ 64"
  using unsigned_less [of w, where ?'a = nat] by simp

lemma expected_inclusion_proof_length_levels:
  assumes "m < n"
  shows "expected_inclusion_proof_length m n = levels 64 (unat m) (unat n - 1)"
proof -
  have "expected_inclusion_proof_length m n = expected_length_loop m n 0"
  proof (cases "1 < n")
    case True
    then have "\<not> n \<le> 1" by (simp only: not_le)
    then show ?thesis by (simp only: expected_inclusion_proof_length_def if_False)
  next
    case False
    then have "n \<le> 1" by (simp only: not_less)
    with False show ?thesis
      unfolding expected_inclusion_proof_length_def
      by (subst expected_length_loop.simps) (simp only: if_True if_False)
  qed
  then show ?thesis using expected_length_loop_levels [OF assms unat_le_2_64, of 0] by simp
qed

text \<open>What acceptance of an inclusion proof means, on natural numbers.\<close>

lemma verify_inclusion_proof_iff:
  "verify_inclusion_proof X leaf m n ps root = Inr () \<longleftrightarrow>
     m < n \<and> length ps = levels 64 (unat m) (unat n - 1)
     \<and> up (hash_children X) (unat m) (unat n - 1) leaf ps = root"
proof (cases "m < n")
  case True
  then have "n \<noteq> 0" by auto
  with True have "verify_inclusion_proof X leaf m n ps root = Inr () \<longleftrightarrow>
      length ps = expected_inclusion_proof_length m n \<and> inclusion_loop X m (n - 1) leaf ps = root"
    by (simp add: verify_inclusion_proof_def Let_def not_le)
  with True \<open>n \<noteq> 0\<close> show ?thesis
    by (simp only: expected_inclusion_proof_length_levels [OF True] inclusion_loop_up
        unat_minus_1 simp_thms)
next
  case False
  then have "n \<le> m" by simp
  with False show ?thesis by (simp add: verify_inclusion_proof_def del: not_less)
qed

subsection \<open>The bit arithmetic of decompose\_inclusion\_proof\<close>

lemma takeWhile_rev_upt:
  "\<exists>k \<le> N. length (takeWhile (\<lambda>i. \<not> P i) (rev [0..<N])) = k
     \<and> (\<forall>i. N - k \<le> i \<longrightarrow> i < N \<longrightarrow> \<not> P i) \<and> (k < N \<longrightarrow> P (N - k - 1))"
proof (induction N)
  case (Suc N)
  then obtain k where k: "k \<le> N" "length (takeWhile (\<lambda>i. \<not> P i) (rev [0..<N])) = k"
    "\<forall>i. N - k \<le> i \<longrightarrow> i < N \<longrightarrow> \<not> P i" "k < N \<longrightarrow> P (N - k - 1)" by blast
  show ?case
  proof (cases "P N")
    case True
    then show ?thesis by (intro exI [of _ 0]) simp
  next
    case False
    have "rev [0..<Suc N] = N # rev [0..<N]" by simp
    with False k(2) have "length (takeWhile (\<lambda>i. \<not> P i) (rev [0..<Suc N])) = Suc k"
      by (simp only: takeWhile.simps if_True not_False_eq_True length_Cons)
    moreover have "Suc N - Suc k = N - k" "Suc N - Suc k - 1 = N - k - 1" by simp_all
    moreover have "\<forall>i. N - k \<le> i \<longrightarrow> i < Suc N \<longrightarrow> \<not> P i"
      using False k(3) by (metis less_SucE)
    ultimately show ?thesis using k(1,4) by (intro exI [of _ "Suc k"]) simp
  qed
qed simp

lemma takeWhile_upt:
  assumes "P w" "w < N"
  shows "length (takeWhile (\<lambda>i. \<not> P i) [0..<N]) \<le> w"
    "P (length (takeWhile (\<lambda>i. \<not> P i) [0..<N]))"
    "\<And>i. i < length (takeWhile (\<lambda>i. \<not> P i) [0..<N]) \<Longrightarrow> \<not> P i"
proof -
  let ?k = "length (takeWhile (\<lambda>i. \<not> P i) [0..<N])"
  have no: "\<not> P i" if "i < ?k" for i
  proof -
    have "takeWhile (\<lambda>i. \<not> P i) [0..<N] ! i = [0..<N] ! i" using that by (rule takeWhile_nth)
    moreover have "\<not> P (takeWhile (\<lambda>i. \<not> P i) [0..<N] ! i)"
      using that nth_mem set_takeWhileD by metis
    moreover have "i < N" using that length_takeWhile_le [of "\<lambda>i. \<not> P i" "[0..<N]"] by simp
    ultimately show ?thesis by simp
  qed
  then show "?k \<le> w" using assms(1) by (meson not_le)
  then have "?k < length [0..<N]" using assms(2) by simp
  then have "\<not> \<not> P ([0..<N] ! ?k)" by (rule nth_length_takeWhile)
  with \<open>?k < length [0..<N]\<close> show "P ?k" by simp
  show "\<And>i. i < ?k \<Longrightarrow> \<not> P i" by (rule no)
qed

lemma bit_bound: "bit (w :: u64) t \<Longrightarrow> t < 64"
  by (drule bit_imp_le_length) simp

text \<open>\<open>64 - leading_zeros\<close> is the bit length: the least shift that clears the word.\<close>

lemma drop_bit_0_iff_leading_zeros: "drop_bit t (d :: u64) = 0 \<longleftrightarrow> 64 - leading_zeros d \<le> t"
proof -
  obtain k where "k \<le> 64" "leading_zeros d = k"
    and k: "\<And>i. 64 - k \<le> i \<Longrightarrow> i < 64 \<Longrightarrow> \<not> bit d i" "k < 64 \<Longrightarrow> bit d (64 - k - 1)"
    using takeWhile_rev_upt [of 64 "bit d"] unfolding leading_zeros_def by blast
  have "drop_bit t d = 0 \<longleftrightarrow> (\<forall>i. \<not> bit (drop_bit t d) i)"
    by (metis bit_eqI bit_0_eq bot_apply bot_bool_def)
  also have "\<dots> \<longleftrightarrow> (\<forall>i \<ge> t. \<not> bit d i)"
    unfolding bit_drop_bit_eq o_apply by (metis le_add1 le_add_diff_inverse)
  also have "\<dots> \<longleftrightarrow> 64 - k \<le> t"
  proof
    assume *: "\<forall>i \<ge> t. \<not> bit d i"
    show "64 - k \<le> t"
    proof (cases "k < 64")
      case True
      with * k(2) have "64 - k - 1 < t" by (meson not_le)
      then show ?thesis by simp
    qed simp
  next
    assume "64 - k \<le> t"
    then show "\<forall>i \<ge> t. \<not> bit d i" using k(1) bit_bound by (meson le_trans)
  qed
  finally show ?thesis using \<open>leading_zeros d = k\<close> by simp
qed

lemma xor_eq_0_word: "(a :: u64) XOR b = 0 \<longleftrightarrow> a = b"
proof
  assume "a XOR b = 0"
  then have "(a XOR b) XOR b = b" by simp
  then show "a = b" by (simp only: xor.assoc xor_self_eq xor.right_neutral)
qed simp

lemma inner_proof_size_iff:
  assumes "n \<noteq> 0"
  shows "inner_proof_size i n \<le> t \<longleftrightarrow> unat i div 2 ^ t = (unat n - 1) div 2 ^ t"
proof -
  have "inner_proof_size i n \<le> t \<longleftrightarrow> drop_bit t (i XOR (n - 1)) = 0"
    unfolding inner_proof_size_def drop_bit_0_iff_leading_zeros Let_def ..
  also have "\<dots> \<longleftrightarrow> unat (drop_bit t i) = unat (drop_bit t (n - 1))"
    unfolding drop_bit_xor xor_eq_0_word by (rule word_unat_eq_iff)
  finally show ?thesis unfolding unat_drop_bit unat_minus_1 [OF assms] .
qed

lemma inner_proof_size_le_64: "inner_proof_size i n \<le> 64"
  by (simp add: inner_proof_size_def Let_def)

lemma count_ones_drop:
  "count_ones (drop_bit k w) = length (filter (\<lambda>t. odd (unat w div 2 ^ t)) [k..<64])" if "k \<le> 64"
proof -
  have "filter (bit (drop_bit k w)) [0..<64] = filter (\<lambda>t. bit w (k + t)) [0..<64 - k]"
  proof -
    have "[0..<64] = [0..<64 - k] @ [64 - k..<64]"
      using upt_add_eq_append [of 0 "64 - k" k] that by simp
    moreover have "filter (\<lambda>t. bit w (k + t)) [64 - k..<64] = []"
      by (auto simp: filter_empty_conv dest: bit_bound)
    ultimately show ?thesis by (simp only: filter_append bit_drop_bit_eq o_def append_Nil2)
  qed
  also have "length (filter (\<lambda>t. bit w (k + t)) [0..<64 - k])
      = length (filter (bit w) (map (\<lambda>t. k + t) [0..<64 - k]))"
    by (simp add: filter_map o_def)
  also have "map (\<lambda>t. k + t) [0..<64 - k] = [k..<64]"
    using that map_add_upt [of k "64 - k"] by (simp add: add.commute)
  finally show ?thesis unfolding count_ones_def bit_odd_unat [symmetric] by simp
qed

lemma decompose_levels:
  assumes "n \<noteq> 0"
  shows "\<exists>border. decompose_inclusion_proof i n = Inr (inner_proof_size i n, border)
    \<and> inner_proof_size i n + border = levels 64 (unat i) (unat n - 1)"
proof -
  let ?k = "inner_proof_size i n"
  let ?b = "count_ones (case checked_shr i ?k of Some w \<Rightarrow> w | None \<Rightarrow> 0)"
  let ?Q = "\<lambda>t. odd ((unat n - 1) div 2 ^ t) \<or> unat i div 2 ^ t \<noteq> (unat n - 1) div 2 ^ t"
  have k: "?k \<le> 64" by (rule inner_proof_size_le_64)
  have b: "?b = length (filter (\<lambda>t. odd (unat i div 2 ^ t)) [?k..<64])"
  proof (cases "?k < 64")
    case True
    then show ?thesis by (simp add: checked_shr_def count_ones_drop)
  next
    case False
    with k show ?thesis by (simp add: checked_shr_def count_ones_def)
  qed
  have "filter ?Q [0..<?k] = [0..<?k]"
  proof (rule filter_True)
    show "\<forall>t \<in> set [0..<?k]. ?Q t"
      using inner_proof_size_iff [OF assms, of i] by (metis atLeastLessThan_iff not_le set_upt)
  qed
  moreover have "filter ?Q [?k..<64] = filter (\<lambda>t. odd (unat i div 2 ^ t)) [?k..<64]"
  proof (rule filter_cong [OF refl])
    fix t assume "t \<in> set [?k..<64]"
    then have "unat i div 2 ^ t = (unat n - 1) div 2 ^ t"
      using inner_proof_size_iff [OF assms, of i t] by simp
    then show "?Q t = odd (unat i div 2 ^ t)" by simp
  qed
  moreover have "[0..<64] = [0..<?k] @ [?k..<64]"
    using upt_add_eq_append [of 0 ?k "64 - ?k"] k by simp
  ultimately have "levels 64 (unat i) (unat n - 1) = ?k + ?b"
    unfolding levels_def b by simp
  moreover have "decompose_inclusion_proof i n = Inr (?k, ?b)"
    by (simp add: decompose_inclusion_proof_def Let_def)
  ultimately show ?thesis by auto
qed

subsection \<open>The chains of verify\_consistency\_proof\<close>

lemma chain_inner_up:
  fixes mask :: u64
  shows "(\<And>t. t < length ps \<Longrightarrow> bit mask (i + t) = left_sibling (a div 2 ^ t) (l div 2 ^ t)) \<Longrightarrow>
   chain_inner X i h ps mask = up (hash_children X) a l h ps"
  "(\<And>t. t < length ps \<Longrightarrow> bit mask (i + t) = left_sibling (a div 2 ^ t) (l div 2 ^ t)) \<Longrightarrow>
   chain_inner_right X i h ps mask = up_left (hash_children X) a l h ps"
proof (atomize (full), induction ps arbitrary: i a l h)
  case (Cons p ps)
  show ?case
  proof (intro conjI impI)
    assume *: "\<forall>t. t < length (p # ps) \<longrightarrow> bit mask (i + t) = left_sibling (a div 2 ^ t) (l div 2 ^ t)"
    have b: "bit mask i = left_sibling a l" using * [rule_format, of 0] by simp
    have "bit mask (Suc i + t) = left_sibling (a div 2 div 2 ^ t) (l div 2 div 2 ^ t)"
      if "t < length ps" for t
      using * [rule_format, of "Suc t"] that by (simp add: div_pow_Suc del: power_Suc)
    with Cons.IH have IH:
      "chain_inner X (Suc i) h ps mask = up (hash_children X) (a div 2) (l div 2) h ps"
      "chain_inner_right X (Suc i) h ps mask = up_left (hash_children X) (a div 2) (l div 2) h ps"
      for h by blast+
    show "chain_inner X i h (p # ps) mask = up (hash_children X) a l h (p # ps)"
      "chain_inner_right X i h (p # ps) mask = up_left (hash_children X) a l h (p # ps)"
      using IH b by (simp_all add: drop_bit_and_1)
  qed
qed simp

lemma chain_border_up:
  assumes "\<And>t. t < length ps \<Longrightarrow> left_sibling (a div 2 ^ t) (l div 2 ^ t)"
  shows "chain_border_right X h ps = up (hash_children X) a l h ps"
    "chain_border_right X h ps = up_left (hash_children X) a l h ps"
proof -
  have "chain_border_right X h ps = up (hash_children X) a l h ps
      \<and> chain_border_right X h ps = up_left (hash_children X) a l h ps"
    using assms
  proof (induction ps arbitrary: a l h)
    case (Cons p ps)
    have "left_sibling a l" using Cons.prems [of 0] by simp
    moreover have "left_sibling (a div 2 div 2 ^ t) (l div 2 div 2 ^ t)" if "t < length ps" for t
      using Cons.prems [of "Suc t"] that by (simp add: div_pow_Suc del: power_Suc)
    note IH = Cons.IH [OF this]
    ultimately show ?case using IH by simp
  qed simp
  then show "chain_border_right X h ps = up (hash_children X) a l h ps"
    "chain_border_right X h ps = up_left (hash_children X) a l h ps" by auto
qed

lemma chains_up:
  fixes mask :: u64
  assumes "\<And>t. t < k \<Longrightarrow> bit mask t = left_sibling (a div 2 ^ t) (l div 2 ^ t)"
    and "\<And>t. k \<le> t \<Longrightarrow> left_sibling (a div 2 ^ t) (l div 2 ^ t)"
    and "k \<le> length ps"
  shows "chain_border_right X (chain_inner X 0 h (take k ps) mask) (drop k ps)
      = up (hash_children X) a l h ps"
    "chain_border_right X (chain_inner_right X 0 h (take k ps) mask) (drop k ps)
      = up_left (hash_children X) a l h ps"
proof -
  have "left_sibling (a div 2 ^ k div 2 ^ t) (l div 2 ^ k div 2 ^ t)" for t
    using assms(2) [of "k + t"] by (simp add: power_add div_mult2_eq)
  note border = chain_border_up [of "drop k ps" "a div 2 ^ k" "l div 2 ^ k" X, OF this]
  have "bit mask (0 + t) = left_sibling (a div 2 ^ t) (l div 2 ^ t)" if "t < length (take k ps)" for t
    using assms(1) [of t] that by simp
  note inner = chain_inner_up [of "take k ps" mask 0 a l X h, OF this]
  have k: "length (take k ps) = k" using assms(3) by simp
  show "chain_border_right X (chain_inner X 0 h (take k ps) mask) (drop k ps)
      = up (hash_children X) a l h ps"
    using border(1) inner(1) up_append [of "hash_children X" a l h "take k ps" "drop k ps"]
    unfolding k append_take_drop_id by simp
  show "chain_border_right X (chain_inner_right X 0 h (take k ps) mask) (drop k ps)
      = up_left (hash_children X) a l h ps"
    using border(2) inner(2) up_left_append [of "hash_children X" a l h "take k ps" "drop k ps"]
    unfolding k append_take_drop_id by simp
qed

text \<open>\<open>trailing_zeros\<close> is the exponent of the largest power of two that divides the word.\<close>

lemma trailing_zeros_pow:
  assumes "(w :: u64) \<noteq> 0"
  shows "2 ^ trailing_zeros w dvd unat w" "\<not> 2 ^ Suc (trailing_zeros w) dvd unat w"
    "trailing_zeros w < 64"
proof -
  obtain b where b: "bit w b" using assms bit_eqI [of w 0] by auto
  then have "b < 64" by (rule bit_bound)
  note k = takeWhile_upt [of "bit w", OF b this, folded trailing_zeros_def]
  let ?s = "trailing_zeros w"
  show "?s < 64" using k(1) \<open>b < 64\<close> by simp
  have o: "odd (unat w div 2 ^ ?s)" using k(2) bit_odd_unat by blast
  have e: "even (unat w div 2 ^ t)" if "t < ?s" for t using k(3) [OF that] bit_odd_unat by blast
  have "2 ^ t dvd unat w" if "t \<le> ?s" for t
    using that
  proof (induction t)
    case (Suc t)
    then have "2 ^ t dvd unat w" "2 dvd unat w div 2 ^ t" using e by simp_all
    then show ?case by (metis dvd_mult_div_cancel mult_dvd_mono dvd_refl power_Suc2)
  qed simp
  then show d: "2 ^ ?s dvd unat w" by simp
  show "\<not> 2 ^ Suc ?s dvd unat w"
  proof
    assume "2 ^ Suc ?s dvd unat w"
    then obtain c where "unat w = 2 ^ Suc ?s * c" by (rule dvdE)
    then have "unat w = 2 ^ ?s * (2 * c)" by simp
    then have "unat w div 2 ^ ?s = 2 * c" by (metis nonzero_mult_div_cancel_left power_not_zero zero_neq_numeral)
    with o show False by (metis dvd_triv_left)
  qed
qed

lemma is_push_bit_iff: "s < 64 \<Longrightarrow> (w :: u64) = push_bit s 1 \<longleftrightarrow> unat w = 2 ^ s"
proof -
  assume "s < 64"
  then have "unat (push_bit s 1 :: u64) = 2 ^ s"
    unfolding unsigned_push_bit_eq by (simp add: take_bit_nat_eq_self push_bit_eq_mult)
  then show ?thesis by (simp add: word_unat_eq_iff)
qed

text \<open>
  What acceptance of a consistency proof means, on natural numbers: \<open>seed\<close> and \<open>ps\<close> are the
  start of the walk and the hashes it consumes.
\<close>

lemma consistency_positions:
  fixes old new :: u64
  assumes "0 < unat old" "unat old < unat new"
  defines "s \<equiv> trailing_zeros old"
  defines "k \<equiv> inner_proof_size (old - 1) new - s"
    and "a \<equiv> (unat old - 1) div 2 ^ s" and "l \<equiv> (unat new - 1) div 2 ^ s"
  shows "\<And>t. t < k \<Longrightarrow> bit (drop_bit s (old - 1)) t = left_sibling (a div 2 ^ t) (l div 2 ^ t)"
    "\<And>t. k \<le> t \<Longrightarrow> left_sibling (a div 2 ^ t) (l div 2 ^ t)"
    "s < inner_proof_size (old - 1) new"
proof -
  have nz: "old \<noteq> 0" "new \<noteq> 0" using assms(1,2) by auto
  have u: "unat (old - 1) = unat old - 1" using nz by (simp add: unat_minus_1)
  have size: "inner_proof_size (old - 1) new \<le> t
      \<longleftrightarrow> (unat old - 1) div 2 ^ t = (unat new - 1) div 2 ^ t" for t
    using inner_proof_size_iff [OF nz(2), of "old - 1" t] by (simp add: u)
  show lt: "s < inner_proof_size (old - 1) new"
  proof -
    obtain c where c: "unat old = c * 2 ^ s"
      using trailing_zeros_pow(1) [OF nz(1)] unfolding s_def by (metis dvd_div_mult_self)
    then have "0 < c" using assms(1) by (metis mult_is_0 neq0_conv)
    then have "(unat old - 1) div 2 ^ s < c"
      using c by (simp add: div_less_iff_less_mult)
    moreover have "c \<le> (unat new - 1) div 2 ^ s"
      using c assms(2) by (simp add: less_eq_div_iff_mult_less_eq)
    ultimately show ?thesis using size [of s] by linarith
  qed
  have shift: "a div 2 ^ t = (unat old - 1) div 2 ^ (s + t)"
    "l div 2 ^ t = (unat new - 1) div 2 ^ (s + t)" for t
    unfolding a_def l_def by (simp_all add: power_add div_mult2_eq)
  show "bit (drop_bit s (old - 1)) t = left_sibling (a div 2 ^ t) (l div 2 ^ t)" if "t < k" for t
  proof -
    have "\<not> inner_proof_size (old - 1) new \<le> s + t" using that unfolding k_def by linarith
    then have "a div 2 ^ t \<noteq> l div 2 ^ t" using size [of "s + t"] by (simp add: shift)
    moreover have "bit (drop_bit s (old - 1)) t = odd (a div 2 ^ t)"
      unfolding bit_odd_unat unat_drop_bit u a_def ..
    ultimately show ?thesis by (simp add: left_sibling_def)
  qed
  show "left_sibling (a div 2 ^ t) (l div 2 ^ t)" if "k \<le> t" for t
  proof -
    have "inner_proof_size (old - 1) new \<le> s + t" using that unfolding k_def by linarith
    then have "a div 2 ^ t = l div 2 ^ t" using size [of "s + t"] by (simp add: shift)
    then show ?thesis by (simp add: left_sibling_def)
  qed
qed

lemma trailing_zeros_levels:
  fixes old new :: u64
  assumes "0 < unat old" "unat old < unat new"
  shows "trailing_zeros old < levels 64 (unat old - 1) (unat new - 1)"
proof -
  have "old \<noteq> 0" "new \<noteq> 0" using assms by auto
  then show ?thesis
    using decompose_levels [of new "old - 1"] consistency_positions(3) [OF assms]
    by (auto simp: unat_minus_1)
qed

definition consistency_start :: "u64 \<Rightarrow> sha256_hash \<Rightarrow> sha256_hash list \<Rightarrow> sha256_hash \<times> sha256_hash list" where
  "consistency_start old old_root ps =
     (if unat old = 2 ^ trailing_zeros old then (old_root, ps) else (hd ps, tl ps))"

lemma verify_consistency_proof_iff:
  assumes "0 < unat old" "unat old < unat new" "consistency_start old old_root ps = (seed, qs)"
  defines "a \<equiv> (unat old - 1) div 2 ^ trailing_zeros old"
    and "l \<equiv> (unat new - 1) div 2 ^ trailing_zeros old"
  shows "verify_consistency_proof X old new ps old_root new_root = Inr () \<longleftrightarrow>
     ps \<noteq> [] \<and> length qs = levels 64 (unat old - 1) (unat new - 1) - trailing_zeros old
     \<and> up_left (hash_children X) a l seed qs = old_root
     \<and> up (hash_children X) a l seed qs = new_root"
proof -
  let ?s = "trailing_zeros old"
  let ?k = "inner_proof_size (old - 1) new"
  have nz: "old \<noteq> 0" "new \<noteq> 0" "\<not> old > new" "old \<noteq> new"
    using assms(1,2) by (auto simp: word_less_nat_alt)
  obtain border where d: "decompose_inclusion_proof (old - 1) new = Inr (?k, border)"
    and b: "?k + border = levels 64 (unat old - 1) (unat new - 1)"
    using decompose_levels [OF nz(2), of "old - 1"] unat_minus_1 [OF nz(1)] by auto
  note pos = consistency_positions [OF assms(1,2)]
  have len: "?k - ?s + border = levels 64 (unat old - 1) (unat new - 1) - ?s"
    using b pos(3) by linarith
  have chains: "chain_border_right X (chain_inner X 0 seed (take (?k - ?s) qs) (drop_bit ?s (old - 1)))
        (drop (?k - ?s) qs) = up (hash_children X) a l seed qs"
      "chain_border_right X (chain_inner_right X 0 seed (take (?k - ?s) qs) (drop_bit ?s (old - 1)))
        (drop (?k - ?s) qs) = up_left (hash_children X) a l seed qs"
    if "length qs = ?k - ?s + border"
    using chains_up [OF pos(1,2), where ps = qs and X = X and h = seed] that unfolding a_def l_def by simp_all
  have "?s < 64" by (rule trailing_zeros_pow(3) [OF nz(1)])
  note p2 = is_push_bit_iff [OF this, of old]
  show ?thesis
  proof (cases "ps = []")
    case True
    with nz show ?thesis by (simp add: verify_consistency_proof_def)
  next
    case False
    note unfolded = verify_consistency_proof_def Let_def d and_then_simps prod.case p2 if_False
      nz False simp_thms
    show ?thesis
    proof (cases "unat old = 2 ^ ?s")
      case True
      with assms(3) have "seed = old_root" "qs = ps" by (auto simp: consistency_start_def)
      with True nz False d chains show ?thesis
        unfolding unfolded len [symmetric] by auto
    next
      case np: False
      with assms(3) have "seed = hd ps" "qs = tl ps" by (auto simp: consistency_start_def)
      with False have "length ps = 1 + length qs" "drop 1 ps = qs" by (simp_all add: drop_Suc)
      with np nz False d chains \<open>seed = hd ps\<close> show ?thesis
        unfolding unfolded len [symmetric] by auto
    qed
  qed
qed

subsection \<open>Without collisions a walk determines its start and its siblings\<close>

text \<open>The pairs of hashes that the walk of \<open>up\<close> gives to the node hash.\<close>

fun up_pairs :: "('h \<Rightarrow> 'h \<Rightarrow> 'h) \<Rightarrow> nat \<Rightarrow> nat \<Rightarrow> 'h \<Rightarrow> 'h list \<Rightarrow> ('h \<times> 'h) list" where
  "up_pairs H i l h [] = []"
| "up_pairs H i l h (p # ps) =
     (if left_sibling i l then (p, h) else (h, p))
     # up_pairs H (i div 2) (l div 2) (if left_sibling i l then H p h else H h p) ps"

definition collision_free :: "('h \<Rightarrow> 'h \<Rightarrow> 'h) \<Rightarrow> ('h \<times> 'h) list \<Rightarrow> bool" where
  "collision_free H qs \<longleftrightarrow>
     (\<forall>(a, b) \<in> set qs. \<forall>(c, d) \<in> set qs. H a b = H c d \<longrightarrow> a = c \<and> b = d)"

lemma collision_freeD:
  "collision_free H qs \<Longrightarrow> (a, b) \<in> set qs \<Longrightarrow> (c, d) \<in> set qs \<Longrightarrow> H a b = H c d \<Longrightarrow> a = c \<and> b = d"
  unfolding collision_free_def by blast

lemma collision_free_mono: "collision_free H qs \<Longrightarrow> set rs \<subseteq> set qs \<Longrightarrow> collision_free H rs"
  unfolding collision_free_def by blast

lemma up_inject:
  assumes "length ps = length qs" "up H i l h ps = up H i l h' qs"
    and "collision_free H (up_pairs H i l h ps @ up_pairs H i l h' qs)"
  shows "h = h' \<and> ps = qs"
  using assms
proof (induction ps qs arbitrary: i l h h' rule: list_induct2)
  case (Cons p ps q qs)
  let ?h = "if left_sibling i l then H p h else H h p"
  let ?h' = "if left_sibling i l then H q h' else H h' q"
  have "collision_free H (up_pairs H (i div 2) (l div 2) ?h ps @ up_pairs H (i div 2) (l div 2) ?h' qs)"
    by (rule collision_free_mono [OF Cons.prems(2)]) auto
  moreover have "up H (i div 2) (l div 2) ?h ps = up H (i div 2) (l div 2) ?h' qs"
    using Cons.prems(1) by simp
  ultimately have *: "?h = ?h'" "ps = qs" using Cons.IH by blast+
  have "(if left_sibling i l then (p, h) else (h, p)) \<in> set (up_pairs H i l h (p # ps) @ up_pairs H i l h' (q # qs))"
    "(if left_sibling i l then (q, h') else (h', q)) \<in> set (up_pairs H i l h (p # ps) @ up_pairs H i l h' (q # qs))"
    by simp_all
  with * collision_freeD [OF Cons.prems(2)] show ?case by (metis (full_types))
qed simp

text \<open>The pairs of hashes under the tree hash of \<open>D\<close>.\<close>

fun tree_pairs :: "('h \<Rightarrow> 'h \<Rightarrow> 'h) \<Rightarrow> 'h list \<Rightarrow> ('h \<times> 'h) list" where
  "tree_pairs H D = (if length D \<le> 1 then []
     else let l = take (split_point (length D)) D; r = drop (split_point (length D)) D in
       (mth H l, mth H r) # tree_pairs H l @ tree_pairs H r)"

declare tree_pairs.simps [simp del]

lemma tree_pairs_split:
  "split_point (length D) = k \<Longrightarrow> \<not> length D \<le> 1 \<Longrightarrow> tree_pairs H D =
     (mth H (take k D), mth H (drop k D)) # tree_pairs H (take k D) @ tree_pairs H (drop k D)"
  by (subst tree_pairs.simps) (simp add: Let_def)

lemma up_pairs_append:
  "up_pairs H i l h (ps @ qs) =
     up_pairs H i l h ps @ up_pairs H (i div 2 ^ length ps) (l div 2 ^ length ps) (up H i l h ps) qs"
  by (induction ps arbitrary: i l h) (auto simp: div_pow_Suc)

lemma up_pairs_cong:
  assumes "\<And>t. t < length ps \<Longrightarrow>
    left_sibling (i div 2 ^ t) (l div 2 ^ t) = left_sibling (i' div 2 ^ t) (l' div 2 ^ t)"
  shows "up_pairs H i l h ps = up_pairs H i' l' h ps"
  using assms
proof (induction ps arbitrary: i l i' l' h)
  case (Cons p ps)
  have "left_sibling i l = left_sibling i' l'" using Cons.prems [of 0] by simp
  moreover have *: "left_sibling (i div 2 div 2 ^ t) (l div 2 div 2 ^ t)
      = left_sibling (i' div 2 div 2 ^ t) (l' div 2 div 2 ^ t)" if "t < length ps" for t
  proof -
    from that have "Suc t < length (p # ps)" by simp
    from Cons.prems [OF this] show ?thesis unfolding div_pow_Suc .
  qed
  ultimately show ?case using Cons.IH [OF *] by simp
qed simp

text \<open>The walk along an audit path hashes nodes of the tree.\<close>

lemma audit_path_pairs:
  "m < length D \<Longrightarrow> set (up_pairs H m (length D - 1) (D ! m) (audit_path H m D)) \<subseteq> set (tree_pairs H D)"
proof (induction m D rule: tree_induct)
  case (single m D)
  then show ?case by (simp add: audit_path_single)
next
  case (left m j D)
  let ?ps = "audit_path H m (take (2 ^ j) D)"
  have len: "length ?ps = j"
    using left.hyps by (intro audit_path_length_complete) auto
  have m: "m < length (take (2 ^ j) D)" "take (2 ^ j) D ! m = D ! m" using left.hyps by auto
  have up: "up H m (length D - 1) (D ! m) ?ps = mth H (take (2 ^ j) D)"
    using up_audit_path [OF m(1), of H] left.hyps up_left_half(1) [of m j "length D - 1" 0 ?ps] len m(2) by simp
  have "up_pairs H m (length D - 1) (D ! m) ?ps = up_pairs H m (2 ^ j - 1) (D ! m) ?ps"
    using left.hyps len by (intro up_pairs_cong left_half_siblings) auto
  with left.IH m left.hyps len up left_half_last [of m j D] show ?case
    by (auto simp: audit_path_left tree_pairs_split up_pairs_append)
next
  case (right m j D)
  let ?ps = "audit_path H (m - 2 ^ j) (drop (2 ^ j) D)"
  have s: "length ?ps \<le> j"
    and last: "left_sibling (m div 2 ^ length ?ps) ((length D - 1) div 2 ^ length ?ps)"
    using right_half_last [OF right.hyps(1-4) refl] by blast+
  have l: "2 ^ j \<le> length D - 1" using right.hyps by linarith
  have m: "m - 2 ^ j < length (drop (2 ^ j) D)" "drop (2 ^ j) D ! (m - 2 ^ j) = D ! m" using right.hyps by auto
  have up: "up H m (length D - 1) (D ! m) ?ps = mth H (drop (2 ^ j) D)"
    using up_audit_path [OF m(1), of H] up_right_half(1) [of j m "length D - 1" 0 ?ps H] l s m(2) right.hyps
    by (simp add: diff_right_commute)
  have "up_pairs H m (length D - 1) (D ! m) ?ps = up_pairs H (m - 2 ^ j) (length D - 1 - 2 ^ j) (D ! m) ?ps"
    using right.hyps l s by (intro up_pairs_cong right_half_siblings) auto
  with right.IH m right.hyps up last show ?case
    by (auto simp: audit_path_right tree_pairs_split up_pairs_append diff_right_commute)
qed

text \<open>
  Without collisions every walk to the tree hash starts at a leaf, whatever index and size it is
  given, when a node hash is no leaf.
\<close>

lemma up_in_tree:
  assumes "up H i l h ps = mth H D" "D \<noteq> []"
    and "collision_free H (up_pairs H i l h ps @ tree_pairs H D)"
    and "\<And>a b. (a, b) \<in> set (up_pairs H i l h ps @ tree_pairs H D) \<Longrightarrow> H a b \<notin> insert h (set D)"
  shows "h \<in> set D"
  using assms
proof (induction ps arbitrary: D rule: rev_induct)
  case Nil
  show ?case
  proof (cases "length D \<le> 1")
    case True
    with Nil.prems(2) obtain d where "D = [d]" by (cases D) auto
    with Nil.prems(1) show ?thesis by simp
  next
    case False
    with Nil.prems(1) have "(mth H (take (split_point (length D)) D), mth H (drop (split_point (length D)) D)) \<in> set (tree_pairs H D)"
      by (simp add: tree_pairs_split)
    with Nil.prems(4) [of "mth H (take (split_point (length D)) D)" "mth H (drop (split_point (length D)) D)"]
      Nil.prems(1) False show ?thesis by (simp add: mth_split)
  qed
next
  case (snoc p ps)
  let ?u = "up H i l h ps"
  let ?pair = "if left_sibling (i div 2 ^ length ps) (l div 2 ^ length ps) then (p, ?u) else (?u, p)"
  have pairs: "up_pairs H i l h (ps @ [p]) = up_pairs H i l h ps @ [?pair]" by (simp add: up_pairs_append)
  have root: "H (fst ?pair) (snd ?pair) = mth H D" using snoc.prems(1) by (simp add: up_append split: if_splits)
  show ?case
  proof (cases "length D \<le> 1")
    case True
    with snoc.prems(2) obtain d where "D = [d]" by (cases D) auto
    with root snoc.prems(4) [of "fst ?pair" "snd ?pair"] show ?thesis by (simp add: pairs split: if_splits)
  next
    case False
    then obtain j where j: "split_point (length D) = 2 ^ j" "2 ^ j < length D" by (rule split_cases)
    let ?L = "take (2 ^ j) D" and ?R = "drop (2 ^ j) D"
    note tp = tree_pairs_split [OF j(1) False, of H]
    have "mth H D = H (mth H ?L) (mth H ?R)" using False j(1) by (simp add: mth_split)
    with root collision_freeD [OF snoc.prems(3), of "fst ?pair" "snd ?pair" "mth H ?L" "mth H ?R"]
    have "fst ?pair = mth H ?L \<and> snd ?pair = mth H ?R" by (simp add: pairs tp split: if_splits)
    then obtain D' where D': "?u = mth H D'" "D' = ?L \<or> D' = ?R" by (auto split: if_splits)
    then have sub: "set (tree_pairs H D') \<subseteq> set (tree_pairs H D)" "set D' \<subseteq> set D" "D' \<noteq> []"
      using j(2) by (auto simp: tp dest: in_set_takeD in_set_dropD)
    have "h \<in> set D'"
    proof (rule snoc.IH [OF D'(1) sub(3)])
      show "collision_free H (up_pairs H i l h ps @ tree_pairs H D')"
        by (rule collision_free_mono [OF snoc.prems(3)]) (use sub in \<open>auto simp: pairs\<close>)
      show "H a b \<notin> insert h (set D')" if "(a, b) \<in> set (up_pairs H i l h ps @ tree_pairs H D')" for a b
        using that snoc.prems(4) [of a b] sub by (auto simp: pairs)
    qed
    with sub(2) show ?thesis by blast
  qed
qed

subsection \<open>Properties\<close>

lemma unat_of_nat_u64: "n < 2 ^ 64 \<Longrightarrow> unat (of_nat n :: u64) = n"
  by (simp add: unat_of_nat)

lemma audit_path_levels:
  assumes "m < length D" "length D < 2 ^ 64"
  shows "length (audit_path H m D) = levels 64 m (length D - 1)"
  using assms by (intro audit_path_length) simp_all

text \<open>C30: the verifier accepts RFC 6962's audit path of every leaf of every tree below 2^64
  leaves: the optimised bottom-up walk and its length check agree with the RFC's recursion.\<close>

theorem inclusion_proof_complete:
  assumes "m < length D" "length D < 2 ^ 64"
  shows "verify_inclusion_proof X (D ! m) (of_nat m) (of_nat (length D))
    (audit_path (hash_children X) m D) (mth (hash_children X) D) = Inr ()"
proof -
  have "unat (of_nat m :: u64) = m" "unat (of_nat (length D) :: u64) = length D"
    using assms by (simp_all add: unat_of_nat_u64)
  with assms show ?thesis
    unfolding verify_inclusion_proof_iff word_less_nat_alt
    using up_audit_path [of m D "hash_children X"] by (simp add: audit_path_levels)
qed

theorem inclusion_proof_complete_witness:
  "verify_inclusion_proof sample_ext ([[1], [2], [3]] ! 2) (of_nat 2) (of_nat (length [[1::u8], [2], [3]]))
    (audit_path (hash_children sample_ext) 2 [[1], [2], [3]])
    (mth (hash_children sample_ext) [[1], [2], [3]]) = Inr ()"
  by (rule inclusion_proof_complete) simp_all

lemma inclusion_proof_sound_aux:
  assumes "verify_inclusion_proof X leaf i (of_nat (length D)) ps (mth (hash_children X) D) = Inr ()"
    and "length D < 2 ^ 64"
    and "collision_free (hash_children X)
      (up_pairs (hash_children X) (unat i) (length D - 1) leaf ps
       @ up_pairs (hash_children X) (unat i) (length D - 1) (D ! unat i)
           (audit_path (hash_children X) (unat i) D))"
  shows "unat i < length D \<and> leaf = D ! unat i \<and> ps = audit_path (hash_children X) (unat i) D"
proof -
  let ?H = "hash_children X"
  have u: "unat (of_nat (length D) :: u64) = length D" using assms(2) by (rule unat_of_nat_u64)
  from assms(1) have lt: "unat i < length D"
    and len: "length ps = length (audit_path ?H (unat i) D)"
    and "up ?H (unat i) (length D - 1) leaf ps = mth ?H D"
    unfolding verify_inclusion_proof_iff word_less_nat_alt u
    using assms(2) by (simp_all add: audit_path_levels)
  moreover have "mth ?H D = up ?H (unat i) (length D - 1) (D ! unat i) (audit_path ?H (unat i) D)"
    using lt by (rule up_audit_path [symmetric])
  ultimately show ?thesis using up_inject [OF len _ assms(3)] by simp
qed

text \<open>C9: an accepted inclusion proof is RFC 6962's.  When the root is the tree hash of \<open>D\<close> and
  the node hash has no collision among the pairs hashed by the verifier on the given proof and
  on the genuine one, the proven leaf hash is the one at that index and the proof hashes are
  the audit path; no other proof is accepted.\<close>

theorem inclusion_proof_sound:
  assumes "verify_inclusion_proof X leaf i (of_nat (length D)) ps (mth (hash_children X) D) = Inr ()"
    and "length D < 2 ^ 64"
    and "collision_free (hash_children X)
      (up_pairs (hash_children X) (unat i) (length D - 1) leaf ps
       @ up_pairs (hash_children X) (unat i) (length D - 1) (D ! unat i)
           (audit_path (hash_children X) (unat i) D))"
  shows "unat i < length D \<and> leaf = D ! unat i \<and> ps = audit_path (hash_children X) (unat i) D"
  using assms by (rule inclusion_proof_sound_aux)

theorem inclusion_proof_sound_witness:
  "unat (1 :: u64) < length [[1], [2::u8]] \<and> [2] = [[1], [2::u8]] ! unat (1 :: u64)
   \<and> [[1]] = audit_path (hash_children sample_ext) (unat (1 :: u64)) [[1], [2]]"
proof (rule inclusion_proof_sound)
  have sp: "split_point 2 = 1" by (subst split_point.simps) simp
  have ap: "audit_path (hash_children sample_ext) (Suc 0) [[1], [2]] = [[1]]"
    by (subst audit_path.simps, subst audit_path.simps) (simp add: sp numeral_2_eq_2 [symmetric])
  have root: "mth (hash_children sample_ext) [[1], [2]] = [1, 1, 2]"
    by (subst mth.simps) (simp add: sp numeral_2_eq_2 [symmetric] hash_children_def sample_ext_def NODE_HASH_PREFIX_def)
  show "verify_inclusion_proof sample_ext [2] 1 (of_nat (length [[1], [2::u8]])) [[1]]
      (mth (hash_children sample_ext) [[1], [2]]) = Inr ()"
    unfolding verify_inclusion_proof_iff root
    by (simp add: levels_def upt_rec left_sibling_def hash_children_def sample_ext_def NODE_HASH_PREFIX_def)
  show "length [[1], [2::u8]] < 2 ^ 64" by simp
  show "collision_free (hash_children sample_ext)
     (up_pairs (hash_children sample_ext) (unat (1 :: u64)) (length [[1], [2::u8]] - 1) [2] [[1]]
      @ up_pairs (hash_children sample_ext) (unat (1 :: u64)) (length [[1], [2::u8]] - 1)
          ([[1], [2::u8]] ! unat (1 :: u64)) (audit_path (hash_children sample_ext) (unat (1 :: u64)) [[1], [2]]))"
    by (simp add: ap collision_free_def)
qed

text \<open>The bit arithmetic that splits a proof (\<open>leading_zeros\<close> of an exclusive or, a checked
  shift, a population count) agrees with the loop that counts the levels of the tree: for every
  index below the size, the inner and the border part together have the expected length.\<close>

theorem decompose_matches_expected_length:
  assumes "index < tree_size"
  shows "\<exists>inner border. decompose_inclusion_proof index tree_size = Inr (inner, border)
    \<and> inner + border = expected_inclusion_proof_length index tree_size \<and> inner \<le> 64"
proof -
  have "tree_size \<noteq> 0" using assms by auto
  from decompose_levels [OF this, of index] show ?thesis
    using expected_inclusion_proof_length_levels [OF assms] inner_proof_size_le_64 by auto
qed

theorem decompose_matches_expected_length_witness:
  "\<exists>inner border. decompose_inclusion_proof 4 6 = Inr (inner, border)
    \<and> inner + border = expected_inclusion_proof_length 4 6 \<and> inner \<le> 64"
  by (rule decompose_matches_expected_length) simp

lemma trailing_zeros_boundary:
  assumes "0 < m" "m < 2 ^ 64"
  defines "s \<equiv> trailing_zeros (of_nat m)"
  shows "2 ^ s dvd m" "\<not> 2 ^ Suc s dvd m"
proof -
  have "unat (of_nat m :: u64) = m" using assms(2) by (rule unat_of_nat_u64)
  moreover from this have "(of_nat m :: u64) \<noteq> 0" using assms(1) by auto
  ultimately show "2 ^ s dvd m" "\<not> 2 ^ Suc s dvd m"
    using trailing_zeros_pow unfolding s_def by metis+
qed

lemma outer_path_levels:
  assumes "0 < m" "m < length D" "length D < 2 ^ 64"
  shows "length (outer_path H s m D) = levels 64 (m - 1) (length D - 1) - s"
  using assms by (simp add: outer_path_def audit_path_levels del: One_nat_def)

text \<open>C31: the verifier accepts RFC 6962's consistency proof between the trees of the first \<open>m\<close>
  leaves and of all leaves, for every pair of sizes below 2^64, the empty and the equal tree
  included.\<close>

theorem consistency_proof_complete:
  assumes "m \<le> length D" "0 < length D" "length D < 2 ^ 64"
  shows "verify_consistency_proof X (of_nat m) (of_nat (length D))
    (if m = 0 then [] else consistency_proof (hash_children X) m D)
    (mth (hash_children X) (take m D)) (mth (hash_children X) D) = Inr ()"
proof -
  let ?H = "hash_children X"
  let ?s = "trailing_zeros (of_nat m)"
  have m: "unat (of_nat m :: u64) = m" and n: "unat (of_nat (length D) :: u64) = length D"
    using assms by (simp_all add: unat_of_nat_u64)
  consider "m = 0" | "0 < m" "m = length D" | "0 < m" "m < length D" using assms(1) by linarith
  then show ?thesis
  proof cases
    case 1
    have "(of_nat (length D) :: u64) \<noteq> 0" using n assms(2) by auto
    with 1 show ?thesis by (simp add: verify_consistency_proof_def)
  next
    case 2
    then have "consistency_proof ?H m D = []"
      unfolding consistency_proof_def by (subst subproof.simps) simp
    moreover have "(of_nat (length D) :: u64) \<noteq> 0" using n assms(2) by auto
    ultimately show ?thesis using 2 by (simp add: verify_consistency_proof_def)
  next
    case 3
    then have "m < 2 ^ 64" using assms by simp
    note s = trailing_zeros_boundary [OF 3(1) this]
    let ?ps = "consistency_proof ?H m D" and ?qs = "outer_path ?H ?s m D"
    have ps: "?ps = (if m = 2 ^ ?s then [] else [seed_hash ?H ?s m D]) @ ?qs"
      unfolding consistency_proof_def
      using subproof_outer_path [of ?s m D ?H True] s 3 by (simp del: power_Suc)
    have start: "consistency_start (of_nat m) (mth ?H (take m D)) ?ps = (seed_hash ?H ?s m D, ?qs)"
      unfolding consistency_start_def m ps by (simp add: seed_hash_def)
    have lt: "0 < unat (of_nat m :: u64)" "unat (of_nat m :: u64) < unat (of_nat (length D) :: u64)"
      using 3 by (simp_all only: m n)
    have len: "length ?qs = levels 64 (m - 1) (length D - 1) - ?s"
      using 3 assms by (intro outer_path_levels)
    have "?qs \<noteq> []" using trailing_zeros_levels [OF lt] len unfolding m n by auto
    then have "?ps \<noteq> []" by (simp add: ps)
    moreover have "m \<le> length D" using 3 by simp
    note up_outer_path [OF s(1) 3(1) this, of ?H]
    ultimately show ?thesis
      using verify_consistency_proof_iff [OF lt start, of X "mth ?H D"] len 3(1)
      unfolding m n by simp
  qed
qed

lemma split_point_3: "split_point 3 = 2"
  by (subst split_point.simps, subst split_point.simps) simp

theorem consistency_proof_complete_witness:
  "verify_consistency_proof sample_ext (of_nat 2) (of_nat (length [[1::u8], [2], [3]]))
    (if (2::nat) = 0 then [] else consistency_proof (hash_children sample_ext) 2 [[1], [2], [3]])
    (mth (hash_children sample_ext) (take 2 [[1], [2], [3]]))
    (mth (hash_children sample_ext) [[1], [2], [3]]) = Inr ()"
  by (rule consistency_proof_complete) simp_all

text \<open>The pairs of hashes that lead to the new root, on the given proof and on the genuine one.\<close>

definition consistency_pairs :: "'z externals_scheme \<Rightarrow> nat \<Rightarrow> sha256_hash list \<Rightarrow> sha256_hash \<Rightarrow> sha256_hash list
    \<Rightarrow> (sha256_hash \<times> sha256_hash) list" where
  "consistency_pairs X m D old_root ps =
     (if 0 < m \<and> m < length D then
        let s = trailing_zeros (of_nat m);
            i = (m - 1) div 2 ^ s;
            l = (length D - 1) div 2 ^ s in
        (case consistency_start (of_nat m) old_root ps of
           (seed, qs) \<Rightarrow> up_pairs (hash_children X) i l seed qs)
        @ up_pairs (hash_children X) i l (seed_hash (hash_children X) s m D) (outer_path (hash_children X) s m D)
      else [])"

lemma consistency_proof_sound_inner:
  assumes "verify_consistency_proof X (of_nat m) (of_nat (length D)) ps old_root
      (mth (hash_children X) D) = Inr ()"
    and "0 < m" "m < length D" "length D < 2 ^ 64"
    and "collision_free (hash_children X) (consistency_pairs X m D old_root ps)"
  shows "old_root = mth (hash_children X) (take m D)"
proof -
  let ?H = "hash_children X"
  define s where "s = trailing_zeros (of_nat m)"
  obtain seed qs where start: "consistency_start (of_nat m) old_root ps = (seed, qs)"
    by (cases "consistency_start (of_nat m) old_root ps")
  have m: "unat (of_nat m :: u64) = m" and n: "unat (of_nat (length D) :: u64) = length D"
    using assms by (simp_all add: unat_of_nat_u64)
  have lt: "0 < unat (of_nat m :: u64)" "unat (of_nat m :: u64) < unat (of_nat (length D) :: u64)"
    using assms by (simp_all only: m n)
  have "m < 2 ^ 64" using assms by simp
  note s = trailing_zeros_boundary [OF assms(2) this, folded s_def]
  have len: "length qs = length (outer_path ?H s m D)"
    and old: "up_left ?H ((m - 1) div 2 ^ s) ((length D - 1) div 2 ^ s) seed qs = old_root"
    and new: "up ?H ((m - 1) div 2 ^ s) ((length D - 1) div 2 ^ s) seed qs = mth ?H D"
    using assms(1) unfolding verify_consistency_proof_iff [OF lt start] m n s_def [symmetric]
      outer_path_levels [OF assms(2-4)] by blast+
  have "m \<le> length D" using assms(3) by simp
  note walk = up_outer_path [OF s(1) assms(2) this, of ?H]
  have "collision_free ?H (up_pairs ?H ((m - 1) div 2 ^ s) ((length D - 1) div 2 ^ s) seed qs
      @ up_pairs ?H ((m - 1) div 2 ^ s) ((length D - 1) div 2 ^ s) (seed_hash ?H s m D) (outer_path ?H s m D))"
    using assms(2,3,5) by (simp add: consistency_pairs_def start s_def Let_def)
  from up_inject [OF len _ this] new walk have "seed = seed_hash ?H s m D \<and> qs = outer_path ?H s m D" by simp
  with old walk show ?thesis by simp
qed

text \<open>C10: the log cannot rewrite history.  When a consistency proof from size \<open>m\<close> to the tree
  hash of \<open>D\<close> is accepted and the node hash has no collision among the pairs that lead to the
  new root, then \<open>m\<close> is at most the size of the new tree and, unless it is zero, the old root is the
  tree hash of the first \<open>m\<close> leaves of \<open>D\<close>.  For \<open>m = 0\<close> the proof is empty and the old root is not
  looked at: any is accepted.\<close>

theorem consistency_proof_sound:
  assumes "verify_consistency_proof X (of_nat m) (of_nat (length D)) ps old_root
      (mth (hash_children X) D) = Inr ()"
    and "m < 2 ^ 64" "0 < length D" "length D < 2 ^ 64"
    and "collision_free (hash_children X) (consistency_pairs X m D old_root ps)"
  shows "m \<le> length D \<and> (if m = 0 then ps = [] else old_root = mth (hash_children X) (take m D))"
proof -
  have m: "unat (of_nat m :: u64) = m" and n: "unat (of_nat (length D) :: u64) = length D"
    using assms by (simp_all add: unat_of_nat_u64)
  have ok: "\<not> of_nat (length D) < (of_nat m :: u64)"
    using assms(1) by (auto simp: verify_consistency_proof_def)
  then have le: "m \<le> length D" by (simp add: word_less_nat_alt m n not_less)
  consider "m = 0" | "0 < m" "m = length D" | "0 < m" "m < length D" using le by linarith
  then show ?thesis
  proof cases
    case 1
    with assms(1) ok show ?thesis by (simp add: verify_consistency_proof_def split: if_splits)
  next
    case 2
    have "(of_nat m :: u64) \<noteq> 0" using 2(1) m by auto
    with assms(1) 2 show ?thesis by (simp add: verify_consistency_proof_def split: if_splits)
  next
    case 3
    with consistency_proof_sound_inner [OF assms(1) 3 assms(4,5)] show ?thesis by simp
  qed
qed

theorem consistency_proof_sound_witness:
  "[1, 1, 2] = mth (hash_children sample_ext) (take 2 [[1::u8], [2], [3]])"
proof -
  let ?D = "[[1], [2], [3::u8]]"
  have sp: "split_point 2 = 1" by (subst split_point.simps) simp
  have tz: "trailing_zeros 2 = 1" unfolding trailing_zeros_def by code_simp
  have two: "mth (hash_children sample_ext) [[1], [2]] = [1, 1, 2]"
    by (subst mth.simps) (simp add: sp numeral_2_eq_2 [symmetric] hash_children_def sample_ext_def NODE_HASH_PREFIX_def)
  have node: "hash_children sample_ext [1, 1, 2] [3] = [1, 1, 1, 2, 3]"
    by (simp add: hash_children_def sample_ext_def NODE_HASH_PREFIX_def)
  have root: "mth (hash_children sample_ext) ?D = [1, 1, 1, 2, 3]"
    by (subst mth.simps) (simp add: split_point_3 numeral_3_eq_3 [symmetric] two node)
  have verified: "verify_consistency_proof sample_ext (of_nat 2) (of_nat (length ?D)) [[3]] [1, 1, 2]
      (mth (hash_children sample_ext) ?D) = Inr ()"
    unfolding root by code_simp
  have "consistency_start (of_nat 2) [1, 1, 2] [[3]] = ([1, 1, 2], [[3::u8]])"
    by (simp add: consistency_start_def tz)
  moreover have "outer_path (hash_children sample_ext) 1 2 ?D = [[3]]"
    unfolding outer_path_def by (subst audit_path.simps, subst audit_path.simps)
      (simp add: split_point_3 sp numeral_3_eq_3 [symmetric] numeral_2_eq_2 [symmetric]
        audit_path_single)
  ultimately have "collision_free (hash_children sample_ext) (consistency_pairs sample_ext 2 ?D [1, 1, 2] [[3]])"
    by (simp add: consistency_pairs_def collision_free_def seed_hash_def two tz Let_def)
  from consistency_proof_sound [OF verified _ _ _ this] show ?thesis by simp
qed

end
