(* ===== verification/Crypto.thy ===== *)
theory Crypto
  imports Encoding
begin

text \<open>
  The crate sigstore-crypto, part 1 (src/signing.rs, src/verification.rs, src/error.rs): signing
  schemes, the scheme a key algorithm and a hash algorithm select, verification keys, and the
  dispatch of signature checks to aws-lc-rs, over messages and over precomputed digests.

  Key generation and signing (\<open>KeyPair\<close>) are in Fulcio\_Client.
\<close>

datatype crypto_error =
    KeyGeneration string
  | Signing string
  | Verification string
  | InvalidKeyFormat string
  | UnsupportedAlgorithm string
  | Pem string
  | Der string
  | Base64 string
  | AwsLc string
  | Checkpoint string
  | InvalidCertificate string
  | InvalidKey string

fun fmt_crypto_error :: "crypto_error \<Rightarrow> string" where
  "fmt_crypto_error (KeyGeneration s) = ''Key generation error: '' @ s"
| "fmt_crypto_error (Signing s) = ''Signing error: '' @ s"
| "fmt_crypto_error (Verification s) = ''Verification error: '' @ s"
| "fmt_crypto_error (InvalidKeyFormat s) = ''Invalid key format: '' @ s"
| "fmt_crypto_error (UnsupportedAlgorithm s) = ''Unsupported algorithm: '' @ s"
| "fmt_crypto_error (Pem s) = ''PEM error: '' @ s"
| "fmt_crypto_error (Der s) = ''DER error: '' @ s"
| "fmt_crypto_error (Base64 s) = ''Base64 error: '' @ s"
| "fmt_crypto_error (AwsLc s) = ''Crypto error: '' @ s"
| "fmt_crypto_error (Checkpoint s) = ''Checkpoint error: '' @ s"
| "fmt_crypto_error (InvalidCertificate s) = ''Certificate error: '' @ s"
| "fmt_crypto_error (InvalidKey s) = ''Invalid key: '' @ s"

subsection \<open>Signing schemes\<close>

datatype signing_scheme =
    EcdsaP256Sha256 | EcdsaP256Sha384 | EcdsaP384Sha256 | EcdsaP384Sha384
  | Ed25519
  | RsaPssSha256 | RsaPssSha384 | RsaPssSha512
  | RsaPkcs1Sha256 | RsaPkcs1Sha384 | RsaPkcs1Sha512

fun scheme_name :: "signing_scheme \<Rightarrow> string" where
  "scheme_name EcdsaP256Sha256 = ''ECDSA_P256_SHA256''"
| "scheme_name EcdsaP256Sha384 = ''ECDSA_P256_SHA384''"
| "scheme_name EcdsaP384Sha256 = ''ECDSA_P384_SHA256''"
| "scheme_name EcdsaP384Sha384 = ''ECDSA_P384_SHA384''"
| "scheme_name Ed25519 = ''ED25519''"
| "scheme_name RsaPssSha256 = ''RSA_PSS_SHA256''"
| "scheme_name RsaPssSha384 = ''RSA_PSS_SHA384''"
| "scheme_name RsaPssSha512 = ''RSA_PSS_SHA512''"
| "scheme_name RsaPkcs1Sha256 = ''RSA_PKCS1_SHA256''"
| "scheme_name RsaPkcs1Sha384 = ''RSA_PKCS1_SHA384''"
| "scheme_name RsaPkcs1Sha512 = ''RSA_PKCS1_SHA512''"

definition supports_prehashed :: "signing_scheme \<Rightarrow> bool" where
  "supports_prehashed s \<longleftrightarrow> s \<noteq> Ed25519"

text \<open>The variants of \<open>KeyAlgorithm\<close>; the prefix tells its Ed25519 from the scheme's.\<close>

datatype key_algorithm = KaEcdsaP256 | KaEcdsaP384 | KaEd25519 | KaRsa

fun default_signing_scheme :: "key_algorithm \<Rightarrow> signing_scheme" where
  "default_signing_scheme KaEcdsaP256 = EcdsaP256Sha256"
| "default_signing_scheme KaEcdsaP384 = EcdsaP384Sha384"
| "default_signing_scheme KaEd25519 = Ed25519"
| "default_signing_scheme KaRsa = RsaPkcs1Sha256"

fun debug_hash_algorithm :: "hash_algorithm \<Rightarrow> string" where
  "debug_hash_algorithm Sha2256 = ''Sha2256''"
| "debug_hash_algorithm Sha2384 = ''Sha2384''"
| "debug_hash_algorithm Sha2512 = ''Sha2512''"

fun resolve_signing_scheme :: "key_algorithm \<Rightarrow> hash_algorithm \<Rightarrow> (signing_scheme, crypto_error) result" where
  "resolve_signing_scheme KaEcdsaP256 hash_algo =
     (case hash_algo of
        Sha2256 \<Rightarrow> Inr EcdsaP256Sha256
      | Sha2384 \<Rightarrow> Inr EcdsaP256Sha384
      | _ \<Rightarrow> Inl (UnsupportedAlgorithm (''ECDSA P-256 does not support hash algorithm ''
               @ debug_hash_algorithm hash_algo)))"
| "resolve_signing_scheme KaEcdsaP384 hash_algo =
     (case hash_algo of
        Sha2256 \<Rightarrow> Inr EcdsaP384Sha256
      | Sha2384 \<Rightarrow> Inr EcdsaP384Sha384
      | _ \<Rightarrow> Inl (UnsupportedAlgorithm (''ECDSA P-384 does not support hash algorithm ''
               @ debug_hash_algorithm hash_algo)))"
| "resolve_signing_scheme KaEd25519 hash_algo = Inr Ed25519"
| "resolve_signing_scheme KaRsa hash_algo =
     (case hash_algo of
        Sha2256 \<Rightarrow> Inr RsaPkcs1Sha256
      | Sha2384 \<Rightarrow> Inr RsaPkcs1Sha384
      | Sha2512 \<Rightarrow> Inr RsaPkcs1Sha512)"

subsection \<open>Verification keys\<close>

record verification_key =
  vk_bytes :: bytes
  vk_scheme :: signing_scheme

definition from_spki :: "'z externals_scheme \<Rightarrow> der_public_key \<Rightarrow> signing_scheme
    \<Rightarrow> (verification_key, crypto_error) result" where
  "from_spki X key scheme =
     and_then (map_err (\<lambda>e. InvalidKey (''Invalid SPKI: '' @ e)) (spki_key_bits X key))
       (\<lambda>raw_bytes. Inr \<lparr>vk_bytes = raw_bytes, vk_scheme = scheme\<rparr>)"

text \<open>The algorithm of aws-lc-rs and the text of the error for each arm of \<open>verify_inner\<close>.\<close>

fun verify_arm :: "signing_scheme \<Rightarrow> aws_alg \<times> string" where
  "verify_arm EcdsaP256Sha256 = (ECDSA_P256_SHA256_ASN1, ''ECDSA P-256 SHA-256 signature invalid'')"
| "verify_arm EcdsaP256Sha384 = (ECDSA_P256_SHA384_ASN1, ''ECDSA P-256 SHA-384 signature invalid'')"
| "verify_arm EcdsaP384Sha256 = (ECDSA_P384_SHA256_ASN1, ''ECDSA P-384 SHA-256 signature invalid'')"
| "verify_arm EcdsaP384Sha384 = (ECDSA_P384_SHA384_ASN1, ''ECDSA P-384 SHA-384 signature invalid'')"
| "verify_arm Ed25519 = (ED25519, ''Ed25519 signature invalid'')"
| "verify_arm RsaPssSha256 = (RSA_PSS_2048_8192_SHA256, ''RSA PSS SHA-256 signature invalid'')"
| "verify_arm RsaPssSha384 = (RSA_PSS_2048_8192_SHA384, ''RSA PSS SHA-384 signature invalid'')"
| "verify_arm RsaPssSha512 = (RSA_PSS_2048_8192_SHA512, ''RSA PSS SHA-512 signature invalid'')"
| "verify_arm RsaPkcs1Sha256 = (RSA_PKCS1_2048_8192_SHA256, ''RSA PKCS#1 SHA-256 signature invalid'')"
| "verify_arm RsaPkcs1Sha384 = (RSA_PKCS1_2048_8192_SHA384, ''RSA PKCS#1 SHA-384 signature invalid'')"
| "verify_arm RsaPkcs1Sha512 = (RSA_PKCS1_2048_8192_SHA512, ''RSA PKCS#1 SHA-512 signature invalid'')"

definition vk_verify :: "'z externals_scheme \<Rightarrow> verification_key \<Rightarrow> bytes \<Rightarrow> signature_bytes
    \<Rightarrow> (unit, crypto_error) result" where
  "vk_verify X vk data sig =
     (let (alg, msg) = verify_arm (vk_scheme vk) in
      if aws_verify X alg (vk_bytes vk) data sig then Inr () else Inl (Verification msg))"

text \<open>The pair of algorithms \<open>verify_prehashed\<close> selects; Ed25519 has none.\<close>

fun prehashed_algs :: "signing_scheme \<Rightarrow> (aws_digest_alg \<times> aws_alg) option" where
  "prehashed_algs EcdsaP256Sha256 = Some (SHA256, ECDSA_P256_SHA256_ASN1)"
| "prehashed_algs EcdsaP256Sha384 = Some (SHA384, ECDSA_P256_SHA384_ASN1)"
| "prehashed_algs EcdsaP384Sha256 = Some (SHA256, ECDSA_P384_SHA256_ASN1)"
| "prehashed_algs EcdsaP384Sha384 = Some (SHA384, ECDSA_P384_SHA384_ASN1)"
| "prehashed_algs RsaPssSha256 = Some (SHA256, RSA_PSS_2048_8192_SHA256)"
| "prehashed_algs RsaPssSha384 = Some (SHA384, RSA_PSS_2048_8192_SHA384)"
| "prehashed_algs RsaPssSha512 = Some (SHA512, RSA_PSS_2048_8192_SHA512)"
| "prehashed_algs RsaPkcs1Sha256 = Some (SHA256, RSA_PKCS1_2048_8192_SHA256)"
| "prehashed_algs RsaPkcs1Sha384 = Some (SHA384, RSA_PKCS1_2048_8192_SHA384)"
| "prehashed_algs RsaPkcs1Sha512 = Some (SHA512, RSA_PKCS1_2048_8192_SHA512)"
| "prehashed_algs Ed25519 = None"

text \<open>The digest lengths of aws-lc-rs, which \<open>Digest::import_less_safe\<close> requires.\<close>

fun output_len :: "aws_digest_alg \<Rightarrow> nat" where
  "output_len SHA256 = 32"
| "output_len SHA384 = 48"
| "output_len SHA512 = 64"

definition verify_prehashed :: "'z externals_scheme \<Rightarrow> verification_key \<Rightarrow> bytes \<Rightarrow> signature_bytes
    \<Rightarrow> (unit, crypto_error) result" where
  "verify_prehashed X vk digest sig =
     (case prehashed_algs (vk_scheme vk) of
        None \<Rightarrow> Inl (UnsupportedAlgorithm ''Scheme Ed25519 does not support prehashed mode'')
      | Some (aws_algo, asn1_algo) \<Rightarrow>
          if length digest \<noteq> output_len aws_algo then
            Inl (Verification (''Failed to import digest: len='' @ fmt_nat (length digest)
                   @ '', algo_expected_len='' @ fmt_nat (output_len aws_algo)))
          else if aws_verify_digest X asn1_algo aws_algo (vk_bytes vk) digest sig then Inr ()
          else Inl (Verification ''Signature invalid: Unspecified''))"

definition verify_signature :: "'z externals_scheme \<Rightarrow> der_public_key \<Rightarrow> bytes \<Rightarrow> signature_bytes
    \<Rightarrow> signing_scheme \<Rightarrow> (unit, crypto_error) result" where
  "verify_signature X public_key data sig scheme =
     and_then (from_spki X public_key scheme) (\<lambda>vk. vk_verify X vk data sig)"

definition verify_signature_prehashed :: "'z externals_scheme \<Rightarrow> der_public_key \<Rightarrow> bytes
    \<Rightarrow> signature_bytes \<Rightarrow> signing_scheme \<Rightarrow> (unit, crypto_error) result" where
  "verify_signature_prehashed X public_key digest sig scheme =
     and_then (from_spki X public_key scheme) (\<lambda>vk. verify_prehashed X vk digest sig)"

subsection \<open>Lemmas\<close>

lemma from_spki_Inr [result_simps]:
  "from_spki X key scheme = Inr vk \<longleftrightarrow>
     (\<exists>raw. spki_key_bits X key = Inr raw \<and> vk = \<lparr>vk_bytes = raw, vk_scheme = scheme\<rparr>)"
  by (auto simp: from_spki_def result_simps)

lemma vk_verify_Inr [result_simps]:
  "vk_verify X vk data sig = Inr u \<longleftrightarrow>
     aws_verify X (fst (verify_arm (vk_scheme vk))) (vk_bytes vk) data sig"
  by (auto simp: vk_verify_def Let_def split: prod.splits)

text \<open>A prehashed check uses the same signature algorithm as the check of the message, and its
  own refusal agrees with \<open>supports_prehashed\<close>.\<close>

lemma prehashed_algs_agree: "prehashed_algs s = Some (d, a) \<Longrightarrow> fst (verify_arm s) = a"
  by (cases s) auto

lemma supports_prehashed_iff: "supports_prehashed s \<longleftrightarrow> prehashed_algs s \<noteq> None"
  by (cases s) (auto simp: supports_prehashed_def)

text \<open>The scheme resolved for a key uses that hash, except for Ed25519.\<close>

fun scheme_hash :: "aws_digest_alg \<Rightarrow> hash_algorithm" where
  "scheme_hash SHA256 = Sha2256" | "scheme_hash SHA384 = Sha2384" | "scheme_hash SHA512 = Sha2512"

lemma resolve_signing_scheme_hash:
  "resolve_signing_scheme ka h = Inr s \<Longrightarrow> prehashed_algs s = Some (d, a) \<Longrightarrow> scheme_hash d = h"
  by (cases ka; cases h) auto

lemma verify_prehashed_Inr [result_simps]:
  "verify_prehashed X vk digest sig = Inr u \<longleftrightarrow>
     (\<exists>d a. prehashed_algs (vk_scheme vk) = Some (d, a) \<and> length digest = output_len d
        \<and> aws_verify_digest X a d (vk_bytes vk) digest sig)"
  by (auto simp: verify_prehashed_def split: option.splits prod.splits if_splits)

end
