(* ===== verification/Canonical_Json.thy ===== *)
theory Canonical_Json
  imports Crypto
begin

text \<open>
  The crate sigstore-tuf, part 1 (src/canonical_json.rs, src/error.rs): the canonical
  serialization that TUF signatures cover, and the proof that it can be read in one way only, so
  that a signature over it covers one value.
\<close>

datatype tuf_error =
    Json string
  | Malformed string
  | NonIntegerNumber
  | UnusableKey string string
  | UnsupportedScheme string string
  | UnknownRole string
  | DuplicateSignature string string
  | ThresholdNotMet string nat nat
  | Rollback string u64 u64
  | EqualVersion string u64
  | BadRootVersion u64 u64
  | Expired string string
  | IntegrityMismatch string
  | InvalidTimestamp string string
  | InvalidSignatureEncoding string string
  | Crypto_Error crypto_error
  | Transport string

subsection \<open>The encoder\<close>

text \<open>The encoders return what the code appends to \<open>out\<close>, as a byte string.\<close>

definition escape :: "char \<Rightarrow> string" where
  "escape c = (if c = CHR 0x5C then [CHR 0x5C, CHR 0x5C]
     else if c = CHR 0x22 then [CHR 0x5C, CHR 0x22] else [c])"

definition encode_string :: "string \<Rightarrow> string" where
  "encode_string s = [CHR 0x22] @ concat (map escape s) @ [CHR 0x22]"

fun encode :: "json \<Rightarrow> (string, tuf_error) result" where
  "encode JNull = Inr ''null''"
| "encode (JBool True) = Inr ''true''"
| "encode (JBool False) = Inr ''false''"
| "encode (JNumber n) =
     (case as_i64 n of Some i \<Rightarrow> Inr (fmt_int i)
      | None \<Rightarrow> (case as_u64 n of Some u \<Rightarrow> Inr (fmt_u64 u) | None \<Rightarrow> Inl NonIntegerNumber))"
| "encode (JString s) = Inr (encode_string s)"
| "encode (JArray items) =
     and_then (collect_ok (map encode items)) (\<lambda>parts. Inr (''['' @ join '','' parts @ '']''))"
| "encode (JObject m) =
     and_then (collect_ok (map (\<lambda>(k, r). and_then r (\<lambda>e. Inr (encode_string k @ '':'' @ e)))
                 (sort_key fst (map (\<lambda>(k, v). (k, encode v)) m))))
       (\<lambda>parts. Inr (''{'' @ join '','' parts @ ''}''))"

definition to_canonical_bytes :: "json \<Rightarrow> (bytes, tuf_error) result" where
  "to_canonical_bytes v = and_then (encode v) (\<lambda>s. Inr (as_bytes s))"

subsection \<open>What a value means: the order of members is immaterial\<close>

text \<open>
  \<open>json_wf\<close> holds of every value that serde_json builds: the keys of an object are distinct and
  a negative integer is negative.
\<close>

fun json_wf :: "json \<Rightarrow> bool" where
  "json_wf (JNumber (NegInt i)) \<longleftrightarrow> i < 0"
| "json_wf (JArray xs) \<longleftrightarrow> list_all json_wf xs"
| "json_wf (JObject m) \<longleftrightarrow> distinct (map fst m) \<and> list_all json_wf (map snd m)"
| "json_wf _ \<longleftrightarrow> True"

fun sorted_json :: "json \<Rightarrow> json" where
  "sorted_json (JArray xs) = JArray (map sorted_json xs)"
| "sorted_json (JObject m) = JObject (sort_key fst (map (\<lambda>(k, v). (k, sorted_json v)) m))"
| "sorted_json v = v"

text \<open>A value without floats, and its serialization in the order its members have.\<close>

fun plain :: "json \<Rightarrow> bool" where
  "plain (JNumber n) \<longleftrightarrow> (case n of NegInt i \<Rightarrow> i < 0 | PosInt _ \<Rightarrow> True | Float \<Rightarrow> False)"
| "plain (JArray xs) \<longleftrightarrow> list_all plain xs"
| "plain (JObject m) \<longleftrightarrow> list_all plain (map snd m)"
| "plain _ \<longleftrightarrow> True"

fun flat :: "json \<Rightarrow> string" where
  "flat JNull = ''null''"
| "flat (JBool b) = (if b then ''true'' else ''false'')"
| "flat (JNumber n) = (case n of PosInt u \<Rightarrow> fmt_u64 u | NegInt i \<Rightarrow> fmt_int i | Float \<Rightarrow> [])"
| "flat (JString s) = encode_string s"
| "flat (JArray xs) = ''['' @ join '','' (map flat xs) @ '']''"
| "flat (JObject m) = ''{'' @ join '','' (map (\<lambda>(k, v). encode_string k @ '':'' @ flat v) m) @ ''}''"

subsection \<open>The serialization is read in one way only\<close>

definition no_digit :: "string \<Rightarrow> bool" where
  "no_digit r \<longleftrightarrow> (case r of [] \<Rightarrow> True | c # _ \<Rightarrow> \<not> is_digit c)"

lemma no_digit_Cons [simp]: "no_digit (c # r) \<longleftrightarrow> \<not> is_digit c"
  by (simp add: no_digit_def)

lemma escape_inject:
  "concat (map escape s) @ CHR 0x22 # r = concat (map escape t) @ CHR 0x22 # q \<Longrightarrow> s = t \<and> r = q"
proof (induction s arbitrary: t)
  case Nil
  then show ?case by (cases t) (auto simp: escape_def split: if_splits)
next
  case (Cons c s)
  then show ?case by (cases t) (auto simp: escape_def split: if_splits)
qed

lemma encode_string_inject:
  assumes "encode_string s @ r = encode_string t @ q" shows "s = t \<and> r = q"
proof (rule escape_inject)
  show "concat (map escape s) @ CHR 0x22 # r = concat (map escape t) @ CHR 0x22 # q"
    using assms by (simp add: encode_string_def)
qed

lemma fmt_nat_stop:
  assumes "no_digit r" "no_digit q" "fmt_nat m @ r = fmt_nat n @ q"
  shows "m = n \<and> r = q"
proof -
  have "xs = ys \<and> r = q" if "\<forall>c \<in> set xs. is_digit c" "\<forall>c \<in> set ys. is_digit c" "xs @ r = ys @ q"
    for xs ys
    using that
  proof (induction xs arbitrary: ys)
    case Nil
    then show ?case using assms by (cases ys) auto
  next
    case (Cons x xs)
    then show ?case using assms by (cases ys) auto
  qed
  from this [OF fmt_nat_digits fmt_nat_digits assms(3)] show ?thesis by simp
qed

text \<open>\<open>uniq ok f x\<close>: what \<open>f\<close> writes for \<open>x\<close> ends in one place and is written for nothing else.\<close>

definition uniq :: "('a \<Rightarrow> bool) \<Rightarrow> ('a \<Rightarrow> string) \<Rightarrow> 'a \<Rightarrow> bool" where
  "uniq ok f x \<longleftrightarrow> (\<forall>y r q. ok y \<longrightarrow> no_digit r \<longrightarrow> no_digit q \<longrightarrow> f x @ r = f y @ q \<longrightarrow> x = y \<and> r = q)"

lemma uniqD: "uniq ok f x \<Longrightarrow> ok y \<Longrightarrow> no_digit r \<Longrightarrow> no_digit q \<Longrightarrow> f x @ r = f y @ q \<Longrightarrow> x = y \<and> r = q"
  unfolding uniq_def by blast

fun list_tail :: "('a \<Rightarrow> string) \<Rightarrow> char \<Rightarrow> 'a list \<Rightarrow> string" where
  "list_tail f c [] = [c]"
| "list_tail f c (x # xs) = CHR '','' # f x @ list_tail f c xs"

lemma join_list_tail: "join '','' (map f (x # xs)) @ c # q = f x @ list_tail f c xs @ q"
  by (induction xs arbitrary: x) auto

lemma list_tail_inject:
  assumes "\<forall>x \<in> set xs. uniq ok f x" "\<forall>y \<in> set ys. ok y" "c = CHR '']'' \<or> c = CHR ''}''"
    "list_tail f c xs @ r = list_tail f c ys @ q"
  shows "xs = ys \<and> r = q"
proof -
  have nd: "no_digit (list_tail f c zs @ r)" for zs r
    using assms(3) by (cases zs) (auto simp: is_digit_def)
  show ?thesis using assms(1,2,4)
  proof (induction xs arbitrary: ys)
    case Nil
    then show ?case using assms(3) by (cases ys) auto
  next
    case (Cons x xs)
    then obtain y ys' where ys: "ys = y # ys'" using assms(3) by (cases ys) auto
    with Cons.prems have "f x @ list_tail f c xs @ r = f y @ list_tail f c ys' @ q"
      and u: "uniq ok f x" and o: "ok y" by auto
    from uniqD [OF u o nd nd this(1)] Cons ys show ?case by auto
  qed
qed

lemma join_inject:
  assumes "\<forall>x \<in> set xs. uniq ok f x" "\<forall>y \<in> set ys. ok y" "c = CHR '']'' \<or> c = CHR ''}''"
    and start: "\<And>z. ok z \<Longrightarrow> \<exists>a s. f z = a # s \<and> a \<noteq> c" and "\<forall>x \<in> set xs. ok x"
    and eq: "join '','' (map f xs) @ c # r = join '','' (map f ys) @ c # q"
  shows "xs = ys \<and> r = q"
proof (cases xs)
  case Nil
  show ?thesis
  proof (cases ys)
    case (Cons y ys')
    obtain a s where "f y = a # s" "a \<noteq> c" using start [of y] assms(2) Cons by auto
    moreover have "c # r = f y @ list_tail f c ys' @ q"
      using eq unfolding Nil Cons join_list_tail by simp
    ultimately show ?thesis by simp
  qed (use eq Nil in simp)
next
  case (Cons x xs')
  show ?thesis
  proof (cases ys)
    case Nil
    obtain a s where "f x = a # s" "a \<noteq> c" using start [of x] assms(5) Cons by auto
    moreover have "f x @ list_tail f c xs' @ r = c # q"
      using eq unfolding Nil Cons join_list_tail by simp
    ultimately show ?thesis by simp
  next
    case Y: (Cons y ys')
    have "list_tail f c (x # xs') @ r = list_tail f c (y # ys') @ q"
      using eq unfolding Cons Y join_list_tail by simp
    then show ?thesis using list_tail_inject [of xs ok f ys c r q] assms Cons Y by simp
  qed
qed

lemma fmt_nat_start: "\<exists>c s. fmt_nat n = c # s \<and> is_digit c"
  using fmt_nat_digits [of n] fmt_nat_nonempty [of n] by (cases "fmt_nat n") auto

lemma digit_neq: "is_digit c \<Longrightarrow> c \<noteq> CHR '']'' \<and> c \<noteq> CHR ''}'' \<and> c \<noteq> CHR ''-'' \<and> c \<noteq> CHR ''n''
    \<and> c \<noteq> CHR ''t'' \<and> c \<noteq> CHR ''f'' \<and> c \<noteq> CHR 0x22 \<and> c \<noteq> CHR ''['' \<and> c \<noteq> CHR ''{''"
  by (auto simp: is_digit_def)

text \<open>The first character tells the kind of a value.\<close>

fun kind_of :: "json \<Rightarrow> char set" where
  "kind_of JNull = {CHR ''n''}"
| "kind_of (JBool b) = {if b then CHR ''t'' else CHR ''f''}"
| "kind_of (JNumber n) = (case n of NegInt i \<Rightarrow> {CHR ''-''} | _ \<Rightarrow> Collect is_digit)"
| "kind_of (JString s) = {CHR 0x22}"
| "kind_of (JArray xs) = {CHR ''[''}"
| "kind_of (JObject m) = {CHR ''{''}"

lemma flat_start: "plain v \<Longrightarrow> \<exists>c s. flat v = c # s \<and> c \<in> kind_of v"
  using fmt_nat_start by (cases v) (auto simp: encode_string_def fmt_int_def split: json_number.splits)

lemma kind_not_close: "c \<in> kind_of v \<Longrightarrow> c \<noteq> CHR '']'' \<and> c \<noteq> CHR ''}''"
  using digit_neq by (cases v) (auto split: json_number.splits if_splits)

lemma member_inject:
  assumes u: "uniq plain flat (snd m)"
  shows "uniq (plain \<circ> snd) (\<lambda>(k, v). encode_string k @ '':'' @ flat v) m"
  unfolding uniq_def
proof (intro allI impI)
  fix y r q
  assume ok: "(plain \<circ> snd) y" "no_digit r" "no_digit q"
    and eq: "(\<lambda>(k, v). encode_string k @ '':'' @ flat v) m @ r
      = (\<lambda>(k, v). encode_string k @ '':'' @ flat v) y @ q"
  then have "encode_string (fst m) @ CHR '':'' # flat (snd m) @ r
      = encode_string (fst y) @ CHR '':'' # flat (snd y) @ q"
    by (simp add: case_prod_beta)
  from encode_string_inject [OF this]
  have "fst m = fst y" "flat (snd m) @ r = flat (snd y) @ q" by auto
  then show "m = y \<and> r = q" using uniqD [OF u _ ok(2,3)] ok(1) by (auto simp: prod_eq_iff)
qed

lemma kind_of_number:
  "CHR ''n'' \<notin> kind_of (JNumber n)" "CHR ''t'' \<notin> kind_of (JNumber n)" "CHR ''f'' \<notin> kind_of (JNumber n)"
  "CHR 0x22 \<notin> kind_of (JNumber n)" "CHR ''['' \<notin> kind_of (JNumber n)" "CHR ''{'' \<notin> kind_of (JNumber n)"
  by (cases n; simp add: is_digit_def)+

lemma flat_same_kind:
  assumes "plain v" "plain w" "flat v @ r = flat w @ q"
  shows "\<exists>c. c \<in> kind_of v \<and> c \<in> kind_of w"
  using flat_start [OF assms(1)] flat_start [OF assms(2)] assms(3) by auto

lemma flat_number_inject:
  assumes "plain (JNumber m)" "plain (JNumber n)" "no_digit r" "no_digit q"
    "flat (JNumber m) @ r = flat (JNumber n) @ q"
  shows "m = n \<and> r = q"
proof (cases m; cases n)
  fix a b assume mn: "m = PosInt a" "n = PosInt b"
  then have "fmt_nat (unat a) @ r = fmt_nat (unat b) @ q" using assms(5) by simp
  from fmt_nat_stop [OF assms(3,4) this] mn show ?thesis by (simp add: word_unat_eq_iff)
next
  fix i j assume mn: "m = NegInt i" "n = NegInt j"
  then have "i < 0" "j < 0" using assms by auto
  with mn have "fmt_nat (nat (- i)) @ r = fmt_nat (nat (- j)) @ q"
    using assms(5) by (simp add: fmt_int_def)
  from fmt_nat_stop [OF assms(3,4) this] mn \<open>i < 0\<close> \<open>j < 0\<close> show ?thesis
    by (simp add: eq_nat_nat_iff)
next
  fix a i assume mn: "m = PosInt a" "n = NegInt i"
  then have "i < 0" using assms by simp
  then have "\<exists>s. flat (JNumber n) = CHR ''-'' # s" using mn by (simp add: fmt_int_def)
  with mn assms(5) show ?thesis using fmt_nat_start [of "unat a"] by (auto simp: is_digit_def)
next
  fix i a assume mn: "m = NegInt i" "n = PosInt a"
  then have "i < 0" using assms by simp
  then have "\<exists>s. flat (JNumber m) = CHR ''-'' # s" using mn by (simp add: fmt_int_def)
  with mn assms(5) show ?thesis using fmt_nat_start [of "unat a"] by (auto simp: is_digit_def)
qed (use assms in auto)

lemma flat_inject: "plain v \<Longrightarrow> uniq plain flat v"
proof (induction v)
  case JNull
  show ?case unfolding uniq_def
  proof (intro allI impI)
    fix w r q assume "plain w" "flat JNull @ r = flat w @ q"
    from flat_same_kind [OF _ this] this show "JNull = w \<and> r = q"
      using kind_of_number by (cases w) (auto split: if_splits)
  qed
next
  case (JBool b)
  show ?case unfolding uniq_def
  proof (intro allI impI)
    fix w r q assume "plain w" "flat (JBool b) @ r = flat w @ q"
    from flat_same_kind [OF _ this] this show "JBool b = w \<and> r = q"
      using kind_of_number by (cases w) (auto split: if_splits)
  qed
next
  case (JNumber n)
  show ?case unfolding uniq_def
  proof (intro allI impI)
    fix w r q assume a: "plain w" "no_digit r" "no_digit q" "flat (JNumber n) @ r = flat w @ q"
    from flat_same_kind [OF JNumber a(1,4)] obtain m where "w = JNumber m"
      using kind_of_number [of n] by (cases w) (auto simp del: kind_of.simps(3) split: if_splits)
    with flat_number_inject [of n m r q] JNumber a show "JNumber n = w \<and> r = q" by simp
  qed
next
  case (JString s)
  show ?case unfolding uniq_def
  proof (intro allI impI)
    fix w r q assume a: "plain w" "flat (JString s) @ r = flat w @ q"
    from flat_same_kind [OF JString a] obtain t where "w = JString t"
      using kind_of_number by (cases w) (auto split: if_splits)
    with encode_string_inject [of s r t q] a show "JString s = w \<and> r = q" by simp
  qed
next
  case (JArray xs)
  have u: "\<forall>x \<in> set xs. uniq plain flat x" "\<forall>x \<in> set xs. plain x"
    using JArray by (auto simp: list_all_iff)
  have start: "\<exists>a s. flat z = a # s \<and> a \<noteq> CHR '']''" if "plain z" for z
    using flat_start [OF that] kind_not_close by blast
  show ?case unfolding uniq_def
  proof (intro allI impI)
    fix w r q assume a: "plain w" "flat (JArray xs) @ r = flat w @ q"
    from flat_same_kind [OF JArray.prems a] obtain ys where w: "w = JArray ys"
      using kind_of_number by (cases w) (auto split: if_splits)
    from a w have "\<forall>y \<in> set ys. plain y" by (simp add: list_all_iff)
    from join_inject [OF u(1) this _ start u(2), of r q] a w show "JArray xs = w \<and> r = q" by simp
  qed
next
  case (JObject m)
  let ?f = "\<lambda>(k, v). encode_string k @ '':'' @ flat v"
  have "uniq plain flat (snd x)" if "x \<in> set m" for x
    using JObject.IH [of x "snd x"] JObject.prems that by (cases x) (auto simp: list_all_iff)
  then have u: "\<forall>x \<in> set m. uniq (plain \<circ> snd) ?f x" by (intro ballI member_inject)
  have pl: "\<forall>x \<in> set m. (plain \<circ> snd) x" using JObject.prems by (auto simp: list_all_iff)
  have start: "\<exists>a s. ?f z = a # s \<and> a \<noteq> CHR ''}''" for z
    by (cases z) (simp add: encode_string_def)
  show ?case unfolding uniq_def
  proof (intro allI impI)
    fix w r q assume a: "plain w" "flat (JObject m) @ r = flat w @ q"
    from flat_same_kind [OF JObject.prems a] obtain l where w: "w = JObject l"
      using kind_of_number by (cases w) (auto split: if_splits)
    from a w have "\<forall>y \<in> set l. (plain \<circ> snd) y" by (simp add: list_all_iff)
    from join_inject [OF u this _ start pl, of r q] a w show "JObject m = w \<and> r = q" by simp
  qed
qed

text \<open>The encoder writes the sorted value.\<close>

lemma sort_key_fst_map:
  "sort_key fst (map (\<lambda>(k, v). (k, f v)) m) = map (\<lambda>(k, v). (k, f v)) (sort_key fst m)"
proof -
  have ins: "insort_key fst (k, f v) (map (\<lambda>(k, v). (k, f v)) m)
      = map (\<lambda>(k, v). (k, f v)) (insort_key fst (k, v) m)" for k :: "'a :: linorder" and v m
    by (induction m) auto
  show ?thesis by (induction m) (auto simp: ins)
qed

lemma number_encode:
  "encode (JNumber n) = Inr b \<Longrightarrow> json_wf (JNumber n) \<Longrightarrow> plain (JNumber n) \<and> b = flat (JNumber n)"
  by (cases n) (auto simp: fmt_int_def split: if_splits)

lemma encode_flat:
  "json_wf v \<Longrightarrow> encode v = Inr b \<Longrightarrow> plain (sorted_json v) \<and> b = flat (sorted_json v)"
proof (induction v arbitrary: b)
  case (JBool x)
  then show ?case by (cases x) auto
next
  case (JNumber n)
  then show ?case using number_encode by (metis sorted_json.simps(5))
next
  case (JArray xs)
  from JArray.prems(2) obtain parts where "map encode xs = map Inr parts"
    and b: "b = ''['' @ join '','' parts @ '']''" by (auto simp: result_simps)
  then have len: "length xs = length parts" and each: "i < length xs \<Longrightarrow> encode (xs ! i) = Inr (parts ! i)" for i
    by (metis length_map, metis length_map nth_map)
  have *: "plain (sorted_json (xs ! i)) \<and> parts ! i = flat (sorted_json (xs ! i))" if "i < length xs" for i
    using JArray.IH [of "xs ! i" "parts ! i"] JArray.prems(1) each that by (auto simp: list_all_length)
  then have "parts = map flat (map sorted_json xs)" by (intro nth_equalityI) (auto simp: len)
  with * b show ?case by (auto simp: list_all_length)
next
  case (JObject m)
  define n where "n = sort_key fst m"
  have in_m: "set n = set m" unfolding n_def by simp
  have eq: "sort_key fst (map (\<lambda>(k, v). (k, encode v)) m) = map (\<lambda>(k, v). (k, encode v)) n"
    "sort_key fst (map (\<lambda>(k, v). (k, sorted_json v)) m) = map (\<lambda>(k, v). (k, sorted_json v)) n"
    unfolding n_def by (rule sort_key_fst_map)+
  let ?g = "\<lambda>(k, r). and_then r (\<lambda>e. Inr (encode_string k @ '':'' @ e))"
  from JObject.prems(2) obtain parts where p: "map ?g (map (\<lambda>(k, v). (k, encode v)) n) = map Inr parts"
    and b: "b = ''{'' @ join '','' parts @ ''}''" by (auto simp: result_simps eq)
  then have len: "length n = length parts" by (metis length_map)
  have *: "plain (sorted_json (snd (n ! i)))
      \<and> parts ! i = encode_string (fst (n ! i)) @ '':'' @ flat (sorted_json (snd (n ! i)))"
    if i: "i < length n" for i
  proof -
    obtain k v where kv: "n ! i = (k, v)" by fastforce
    have "map ?g (map (\<lambda>(k, v). (k, encode v)) n) ! i = map Inr parts ! i" by (simp only: p)
    with i kv len obtain e where "encode v = Inr e" "parts ! i = encode_string k @ '':'' @ e"
      by (auto simp: result_simps)
    moreover have "(k, v) \<in> set m" using i kv in_m by (metis nth_mem)
    ultimately show ?thesis
      using JObject.IH [of "(k, v)" v e] JObject.prems(1) kv by (auto simp: list_all_iff)
  qed
  then have "parts = map (\<lambda>(k, v). encode_string k @ '':'' @ flat v) (map (\<lambda>(k, v). (k, sorted_json v)) n)"
    by (intro nth_equalityI) (auto simp: len case_prod_beta)
  with * b show ?case by (auto simp: eq list_all_length case_prod_beta)
qed simp_all

subsection \<open>Properties\<close>

text \<open>C32: the canonical bytes determine the value up to the order of object members: a signature
  over them can never be presented as a signature over a different value.\<close>

theorem to_canonical_bytes_injective:
  assumes "json_wf v" "json_wf w" "to_canonical_bytes v = Inr b" "to_canonical_bytes w = Inr b"
  shows "sorted_json v = sorted_json w"
proof -
  from assms(3,4) obtain s where "encode v = Inr s" "encode w = Inr s"
    by (auto simp: to_canonical_bytes_def result_simps)
  from encode_flat [OF assms(1) this(1)] encode_flat [OF assms(2) this(2)]
  have p: "plain (sorted_json v)" "plain (sorted_json w)"
    and e: "flat (sorted_json v) @ [] = flat (sorted_json w) @ []" by auto
  have "no_digit []" by (simp add: no_digit_def)
  from uniqD [OF flat_inject [OF p(1)] p(2) this this e] show ?thesis ..
qed

theorem to_canonical_bytes_injective_witness:
  "sorted_json (JObject [(''b'', JBool True), (''a'', JNull)])
   = sorted_json (JObject [(''a'', JNull), (''b'', JBool True)])"
proof (rule to_canonical_bytes_injective)
  show "to_canonical_bytes (JObject [(''b'', JBool True), (''a'', JNull)])
      = Inr (as_bytes (CHR ''{'' # CHR 0x22 # ''a'' @ CHR 0x22 # '':null,'' @ CHR 0x22 # ''b'' @ CHR 0x22 # '':true}''))"
    by code_simp
  show "to_canonical_bytes (JObject [(''a'', JNull), (''b'', JBool True)])
      = Inr (as_bytes (CHR ''{'' # CHR 0x22 # ''a'' @ CHR 0x22 # '':null,'' @ CHR 0x22 # ''b'' @ CHR 0x22 # '':true}''))"
    by code_simp
qed simp_all

end
