(* ===== verification/Tuf_Metadata.thy ===== *)
theory Tuf_Metadata
  imports Canonical_Json
begin

text \<open>
  The crate sigstore-tuf, part 2 (src/key.rs, src/metadata/): keys, the signed envelope and the
  role payloads, the parser of an envelope, and the check of a signature threshold.

  The typed payloads are what serde's derived \<open>Deserialize\<close> builds from a JSON value; that
  derived code is a parameter here, one function per type in \<open>tuf_externals\<close>, which \<open>Tuf_Json\<close>
  makes concrete.
  Fields a producer adds (\<open>extra\<close>) are kept, as in the code.
\<close>

subsection \<open>Keys (key.rs)\<close>

record key_val =
  kv_public :: string
  kv_extra :: "json btree_map"

record key =
  keytype :: string
  key_scheme :: string
  keyval :: key_val
  key_extra :: "json btree_map"

definition key_id :: "'z externals_scheme \<Rightarrow> key \<Rightarrow> (string, tuf_error) result" where
  "key_id X k =
     and_then (to_canonical_bytes (JObject
        [(''keytype'', JString (keytype k)), (''scheme'', JString (key_scheme k)),
         (''keyval'', JObject [(''public'', JString (kv_public (keyval k)))])]))
       (\<lambda>canonical. Inr (hex_encode X (sha256 X canonical)))"

definition key_id_or_default :: "'z externals_scheme \<Rightarrow> key \<Rightarrow> string" where
  "key_id_or_default X k = (case key_id X k of Inl _ \<Rightarrow> [] | Inr s \<Rightarrow> s)"

definition key_signing_scheme :: "key \<Rightarrow> (signing_scheme, tuf_error) result" where
  "key_signing_scheme k =
    (if key_scheme k = ''ecdsa-sha2-nistp256'' then Inr EcdsaP256Sha256
     else if key_scheme k = ''ecdsa-sha2-nistp384'' then Inr EcdsaP384Sha384
     else if key_scheme k = ''ed25519'' then Inr Ed25519
     else if key_scheme k = ''rsassa-pss-sha256'' then Inr RsaPssSha256
     else if key_scheme k = ''rsassa-pss-sha384'' then Inr RsaPssSha384
     else if key_scheme k = ''rsassa-pss-sha512'' then Inr RsaPssSha512
     else Inl (UnsupportedScheme (keytype k) (key_scheme k)))"

definition spki_prefix :: bytes where
  "spki_prefix = [0x30, 0x2a, 0x30, 0x05, 0x06, 0x03, 0x2b, 0x65, 0x70, 0x03, 0x21, 0x00]"

definition ed25519_spki :: "bytes \<Rightarrow> (bytes, tuf_error) result" where
  "ed25519_spki raw =
    (if length raw \<noteq> 32 then
       Inl (UnusableKey [] (''ed25519 public key must be 32 bytes, got '' @ fmt_nat (length raw)))
     else Inr (spki_prefix @ raw))"

definition key_verification_key :: "'z externals_scheme \<Rightarrow> key \<Rightarrow> (verification_key, tuf_error) result" where
  "key_verification_key X k =
    and_then (key_signing_scheme k) (\<lambda>scheme.
    let public = trim (kv_public (keyval k)) in
    and_then
      (if starts_with public ''-----BEGIN'' then
         map_err (\<lambda>e. UnusableKey (key_id_or_default X k) (''invalid PEM public key: '' @ fmt_types_error e))
           (public_key_from_pem X public)
       else if scheme = Ed25519 then
         and_then (map_err (\<lambda>e. UnusableKey (key_id_or_default X k)
                       (''ed25519 public key is not valid hex: '' @ e)) (hex_decode X public))
           ed25519_spki
       else Inl (UnusableKey (key_id_or_default X k) ''public key is neither PEM nor a hex ed25519 key''))
      (\<lambda>der. map_err Crypto_Error (from_spki X der scheme)))"

subsection \<open>Roles (metadata/role.rs, snapshot.rs, targets.rs)\<close>

record role_keys =
  rk_keyids :: "string list"
  rk_threshold :: nat
  rk_extra :: "json btree_map"

record root =
  root_type :: string
  root_spec_version :: string
  root_version :: u64
  root_expires :: string
  consistent_snapshot :: bool
  root_keys :: "key btree_map"
  root_roles :: "role_keys btree_map"
  root_extra :: "json btree_map"

definition root_role :: "root \<Rightarrow> string \<Rightarrow> role_keys option" where
  "root_role r nm = btm_get nm (root_roles r)"

record meta_file =
  mf_version :: u64
  mf_length :: "u64 option"
  mf_hashes :: "string btree_map option"
  mf_extra :: "json btree_map"

record timestamp_role =
  ts_type :: string
  ts_spec_version :: string
  ts_version :: u64
  ts_expires :: string
  ts_meta :: "meta_file btree_map"
  ts_extra :: "json btree_map"

definition snapshot_meta :: "timestamp_role \<Rightarrow> meta_file option" where
  "snapshot_meta t = btm_get ''snapshot.json'' (ts_meta t)"

record snapshot =
  snap_type :: string
  snap_spec_version :: string
  snap_version :: u64
  snap_expires :: string
  snap_meta :: "meta_file btree_map"
  snap_extra :: "json btree_map"

record delegated_role =
  dr_name :: string
  dr_keyids :: "string list"
  dr_threshold :: nat
  terminating :: bool
  dr_paths :: "string list option"
  path_hash_prefixes :: "string list option"
  dr_extra :: "json btree_map"

definition dr_role_keys :: "delegated_role \<Rightarrow> role_keys" where
  "dr_role_keys d = \<lparr>rk_keyids = dr_keyids d, rk_threshold = dr_threshold d, rk_extra = []\<rparr>"

text \<open>The \<open>for pattern in paths\<close> loop.\<close>

fun match_globs :: "'z externals_scheme \<Rightarrow> string \<Rightarrow> string \<Rightarrow> string list \<Rightarrow> (bool, tuf_error) result" where
  "match_globs X nm target_path [] = Inr False"
| "match_globs X nm target_path (pattern # rest) =
     (case glob_match X pattern target_path of
        Inl e \<Rightarrow> Inl (Malformed (''role '' @ debug_str nm @ '' has invalid delegation path pattern ''
                    @ debug_str pattern @ '': '' @ e))
      | Inr True \<Rightarrow> Inr True
      | Inr False \<Rightarrow> match_globs X nm target_path rest)"

definition matches_path :: "'z externals_scheme \<Rightarrow> delegated_role \<Rightarrow> string \<Rightarrow> (bool, tuf_error) result" where
  "matches_path X d target_path =
    (case path_hash_prefixes d of
       Some prefixes \<Rightarrow>
         let hash = hex_encode X (sha256 X (as_bytes target_path)) in
         Inr (list_ex (starts_with hash) prefixes)
     | None \<Rightarrow>
         (case dr_paths d of
            Some paths \<Rightarrow> match_globs X (dr_name d) target_path paths
          | None \<Rightarrow> Inr False))"

record delegations =
  del_keys :: "key btree_map"
  del_roles :: "delegated_role list"
  del_extra :: "json btree_map"

record target_file =
  tf_length :: u64
  tf_hashes :: "string btree_map"
  tf_custom :: "json option"
  tf_extra :: "json btree_map"

record targets =
  tg_type :: string
  tg_spec_version :: string
  tg_version :: u64
  tg_expires :: string
  tg_targets :: "target_file btree_map"
  tg_delegations :: "delegations option"
  tg_extra :: "json btree_map"

definition tg_target :: "targets \<Rightarrow> string \<Rightarrow> target_file option" where
  "tg_target t path = btm_get path (tg_targets t)"

subsection \<open>The trait Role\<close>

record 'r role =
  role_type :: string
  version_of :: "'r \<Rightarrow> u64"
  expires_of :: "'r \<Rightarrow> string"

definition Root_Role :: "root role" where
  "Root_Role = \<lparr>role_type = ''root'', version_of = root_version, expires_of = root_expires\<rparr>"

definition Timestamp_Role :: "timestamp_role role" where
  "Timestamp_Role = \<lparr>role_type = ''timestamp'', version_of = ts_version, expires_of = ts_expires\<rparr>"

definition Snapshot_Role :: "snapshot role" where
  "Snapshot_Role = \<lparr>role_type = ''snapshot'', version_of = snap_version, expires_of = snap_expires\<rparr>"

definition Targets_Role :: "targets role" where
  "Targets_Role = \<lparr>role_type = ''targets'', version_of = tg_version, expires_of = tg_expires\<rparr>"

definition expires_at :: "'z externals_scheme \<Rightarrow> 'r role \<Rightarrow> 'r \<Rightarrow> (timestamp, tuf_error) result" where
  "expires_at X R r = map_err (InvalidTimestamp (expires_of R r)) (parse_timestamp X (expires_of R r))"

definition is_expired :: "'z externals_scheme \<Rightarrow> 'r role \<Rightarrow> 'r \<Rightarrow> timestamp \<Rightarrow> (bool, tuf_error) result" where
  "is_expired X R r now = and_then (expires_at X R r) (\<lambda>t. Inr (t < now))"

subsection \<open>The signed envelope (metadata/mod.rs)\<close>

record signature =
  keyid :: string
  sig :: string

record 'r metadata =
  signatures :: "signature list"
  signed :: 'r
  canonical_signed :: bytes

record tuf_externals = externals +
  de_signatures :: "json \<Rightarrow> (signature list, string) result"
  de_root :: "json \<Rightarrow> (root, string) result"
  de_timestamp :: "json \<Rightarrow> (timestamp_role, string) result"
  de_snapshot :: "json \<Rightarrow> (snapshot, string) result"
  de_targets :: "json \<Rightarrow> (targets, string) result"

definition from_slice :: "'z tuf_externals_scheme \<Rightarrow> 'r role \<Rightarrow> (json \<Rightarrow> (('r, string) result)) \<Rightarrow> bytes
    \<Rightarrow> ('r metadata, tuf_error) result" where
  "from_slice X R de bs =
    and_then (map_err Json (json_parse X bs)) (\<lambda>value.
    and_then (ok_or (Malformed ''top level is not a JSON object'') (as_object value)) (\<lambda>obj.
    and_then (ok_or (Malformed ''missing `signed`'') (map_of obj ''signed'')) (\<lambda>signed_value.
    and_then (ok_or (Malformed ''missing `signatures`'') (map_of obj ''signatures'')) (\<lambda>signatures_value.
    and_then
      (case Option.bind (json_get ''_type'' signed_value) as_str of
         None \<Rightarrow> Inr ()
       | Some t \<Rightarrow> ensure (t = role_type R)
           (Malformed (''expected _type '' @ debug_str (role_type R) @ '', found '' @ debug_str t))) (\<lambda>_.
    and_then
      (case Option.bind (json_get ''spec_version'' signed_value) as_str of
         None \<Rightarrow> Inr ()
       | Some sv \<Rightarrow> ensure (takeWhile (\<lambda>c. c \<noteq> CHR ''.'') sv = ''1'')
           (Malformed (''unsupported TUF spec_version '' @ debug_str sv
              @ '' (this client implements 1.x)''))) (\<lambda>_.
    and_then (to_canonical_bytes signed_value) (\<lambda>canonical.
    and_then (map_err Json (de_signatures X signatures_value)) (\<lambda>sigs.
    and_then (map_err Json (de signed_value)) (\<lambda>payload.
    Inr \<lparr>signatures = sigs, signed = payload, canonical_signed = canonical\<rparr>)))))))))"

text \<open>The \<open>for sig in &self.signatures\<close> loop, with its two sets.\<close>

fun threshold_loop :: "'z externals_scheme \<Rightarrow> bytes \<Rightarrow> key btree_map \<Rightarrow> string set \<Rightarrow> string
    \<Rightarrow> string set \<Rightarrow> string set \<Rightarrow> signature list \<Rightarrow> (string set, tuf_error) result" where
  "threshold_loop X canonical keys authorized role_name good seen [] = Inr good"
| "threshold_loop X canonical keys authorized role_name good seen (s # rest) =
    (if keyid s \<notin> authorized then
       threshold_loop X canonical keys authorized role_name good seen rest
     else if sig s = [] then
       threshold_loop X canonical keys authorized role_name good seen rest
     else if keyid s \<in> seen then Inl (DuplicateSignature role_name (keyid s))
     else
       let seen = insert (keyid s) seen in
       (case btm_get (keyid s) keys of
          None \<Rightarrow> threshold_loop X canonical keys authorized role_name good seen rest
        | Some k \<Rightarrow>
            (case hex_decode X (sig s) of
               Inl _ \<Rightarrow> threshold_loop X canonical keys authorized role_name good seen rest
             | Inr raw \<Rightarrow>
                 (case key_verification_key X k of
                    Inl _ \<Rightarrow> threshold_loop X canonical keys authorized role_name good seen rest
                  | Inr vkey \<Rightarrow>
                      threshold_loop X canonical keys authorized role_name
                        (if is_ok (vk_verify X vkey canonical raw) then insert (keyid s) good else good)
                        seen rest))))"

definition verify_threshold :: "'z externals_scheme \<Rightarrow> 'r metadata \<Rightarrow> key btree_map \<Rightarrow> role_keys \<Rightarrow> string
    \<Rightarrow> (unit, tuf_error) result" where
  "verify_threshold X md keys rk role_name =
    (if rk_threshold rk = 0 then
       Inl (Malformed (''role '' @ role_name
              @ '' declares signature threshold 0; at least 1 is required''))
     else
       and_then (threshold_loop X (canonical_signed md) keys (set (rk_keyids rk)) role_name {} {}
                   (signatures md)) (\<lambda>good.
       if card good \<ge> rk_threshold rk then Inr ()
       else Inl (ThresholdNotMet role_name (card good) (rk_threshold rk))))"

subsection \<open>What the threshold check establishes\<close>

text \<open>A signature that counts, the keys that have one, and the signatures the loop considers.\<close>

definition signature_valid :: "'z externals_scheme \<Rightarrow> bytes \<Rightarrow> key btree_map \<Rightarrow> signature \<Rightarrow> bool" where
  "signature_valid X canonical keys s \<longleftrightarrow>
     (case btm_get (keyid s) keys of None \<Rightarrow> False
      | Some k \<Rightarrow> (case hex_decode X (sig s) of Inl _ \<Rightarrow> False
        | Inr raw \<Rightarrow> (case key_verification_key X k of Inl _ \<Rightarrow> False
          | Inr vkey \<Rightarrow> is_ok (vk_verify X vkey canonical raw))))"

definition considered :: "role_keys \<Rightarrow> 'r metadata \<Rightarrow> signature list" where
  "considered rk md = filter (\<lambda>s. keyid s \<in> set (rk_keyids rk) \<and> sig s \<noteq> []) (signatures md)"

definition valid_signers :: "'z externals_scheme \<Rightarrow> 'r metadata \<Rightarrow> key btree_map \<Rightarrow> role_keys \<Rightarrow> string set" where
  "valid_signers X md keys rk =
     keyid ` set (filter (signature_valid X (canonical_signed md) keys) (considered rk md))"

lemma threshold_loop_Inr:
  "threshold_loop X c keys authorized nm good seen sigs = Inr g \<longleftrightarrow>
     (let cs = filter (\<lambda>s. keyid s \<in> authorized \<and> sig s \<noteq> []) sigs in
      distinct (map keyid cs) \<and> keyid ` set cs \<inter> seen = {}
      \<and> g = good \<union> keyid ` set (filter (signature_valid X c keys) cs))"
proof (induction sigs arbitrary: good seen)
  case (Cons s sigs)
  show ?case
  proof (cases "keyid s \<in> authorized \<and> sig s \<noteq> []")
    case False
    then show ?thesis using Cons.IH [of good seen] by auto
  next
    case True
    show ?thesis
    proof (cases "keyid s \<in> seen")
      case True
      with \<open>keyid s \<in> authorized \<and> sig s \<noteq> []\<close> show ?thesis by (auto simp: Let_def)
    next
      case False
      have step: "threshold_loop X c keys authorized nm good seen (s # sigs)
          = threshold_loop X c keys authorized nm
              (if signature_valid X c keys s then insert (keyid s) good else good)
              (insert (keyid s) seen) sigs"
        using True False by (simp add: signature_valid_def split: option.splits sum.splits)
      show ?thesis
        unfolding step Cons.IH Let_def using True False
        by (auto simp: image_iff simp del: threshold_loop.simps)
    qed
  qed
qed (auto simp: Let_def)

lemma verify_threshold_Inr:
  "verify_threshold X md keys rk nm = Inr u \<longleftrightarrow>
     0 < rk_threshold rk \<and> distinct (map keyid (considered rk md))
     \<and> rk_threshold rk \<le> card (valid_signers X md keys rk)"
  by (auto simp: verify_threshold_def result_simps threshold_loop_Inr Let_def considered_def
      valid_signers_def)

lemma signature_validD:
  "signature_valid X c keys s \<longleftrightarrow>
     (\<exists>k raw vk. btm_get (keyid s) keys = Some k \<and> hex_decode X (sig s) = Inr raw
        \<and> key_verification_key X k = Inr vk
        \<and> aws_verify X (fst (verify_arm (vk_scheme vk))) (vk_bytes vk) c raw)"
  by (auto simp: signature_valid_def is_ok_iff result_simps split: option.splits sum.splits)

lemma from_slice_Inr:
  "from_slice X R de bs = Inr md \<Longrightarrow>
     \<exists>value obj v sv. json_parse X bs = Inr value \<and> as_object value = Some obj
       \<and> map_of obj ''signed'' = Some v \<and> map_of obj ''signatures'' = Some sv
       \<and> to_canonical_bytes v = Inr (canonical_signed md) \<and> de_signatures X sv = Inr (signatures md)
       \<and> de v = Inr (signed md)"
  by (auto simp: from_slice_def result_simps)

end
