(* ===== verification/Trusted.thy ===== *)
theory Trusted
  imports Tuf_Metadata
begin

text \<open>
  The crate sigstore-tuf, part 3 (src/trusted.rs): the set of trusted metadata and its update
  operations, as functions on the state.  An operation that fails leaves the state as it was
  (the code assigns to \<open>self\<close> after its last \<open>?\<close>), so a result is an error or the new state.
  The second half has the state machine: the invariant of every reachable state, the chain of
  root signatures, and the version checks along any sequence of updates.
\<close>

record trusted_set =
  t_root :: "root metadata"
  t_timestamp :: "timestamp_role metadata option"
  t_snapshot :: "snapshot metadata option"
  t_targets :: "targets metadata btree_map"

definition is_top_level_role :: "string \<Rightarrow> bool" where
  "is_top_level_role nm \<longleftrightarrow>
     nm = ''root'' \<or> nm = ''timestamp'' \<or> nm = ''snapshot'' \<or> nm = ''targets''"

definition verify_with_root :: "'z externals_scheme \<Rightarrow> 'r metadata \<Rightarrow> root \<Rightarrow> string
    \<Rightarrow> (unit, tuf_error) result" where
  "verify_with_root X md r role_name =
     and_then (ok_or (UnknownRole role_name) (root_role r role_name)) (\<lambda>rk.
     verify_threshold X md (root_keys r) rk role_name)"

definition verify_root_self_signed :: "'z externals_scheme \<Rightarrow> root metadata \<Rightarrow> (unit, tuf_error) result" where
  "verify_root_self_signed X r =
     and_then (ok_or (UnknownRole ''root'') (root_role (signed r) ''root'')) (\<lambda>rk.
     verify_threshold X r (root_keys (signed r)) rk ''root'')"

definition ensure_not_expired :: "'z externals_scheme \<Rightarrow> 'r role \<Rightarrow> 'r \<Rightarrow> string \<Rightarrow> timestamp
    \<Rightarrow> (unit, tuf_error) result" where
  "ensure_not_expired X R r nm now =
     and_then (is_expired X R r now) (\<lambda>e. if e then Inl (Expired nm (expires_of R r)) else Inr ())"

text \<open>The \<open>for (algo, expected_hex) in hashes\<close> loop; the flag is \<open>verified_any\<close>.\<close>

fun integrity_loop :: "'z externals_scheme \<Rightarrow> bytes \<Rightarrow> string \<Rightarrow> bool \<Rightarrow> (string \<times> string) list
    \<Rightarrow> (bool, tuf_error) result" where
  "integrity_loop X bs what verified_any [] = Inr verified_any"
| "integrity_loop X bs what verified_any ((algo, expected_hex) # rest) =
     (case (if algo = ''sha256'' then Some (hex_encode X (sha256 X bs))
            else if algo = ''sha512'' then Some (hex_encode X (sha512 X bs)) else None) of
        None \<Rightarrow> integrity_loop X bs what verified_any rest
      | Some actual \<Rightarrow>
          if \<not> eq_ignore_ascii_case actual expected_hex then
            Inl (IntegrityMismatch (what @ '': '' @ algo @ '' mismatch''))
          else integrity_loop X bs what True rest)"

definition debug_list :: "string list \<Rightarrow> string" where
  "debug_list xs = ''['' @ join '', '' (map debug_str xs) @ '']''"

definition check_integrity :: "'z externals_scheme \<Rightarrow> bytes \<Rightarrow> meta_file \<Rightarrow> string \<Rightarrow> (unit, tuf_error) result" where
  "check_integrity X bs mf what =
     and_then
       (case mf_length mf of None \<Rightarrow> Inr ()
        | Some expected_len \<Rightarrow> ensure (length bs = unat expected_len)
            (IntegrityMismatch (what @ '': length '' @ fmt_nat (length bs) @ '' != pinned ''
               @ fmt_u64 expected_len))) (\<lambda>_.
     case mf_hashes mf of None \<Rightarrow> Inr ()
     | Some hashes \<Rightarrow>
         and_then (integrity_loop X bs what False hashes) (\<lambda>verified_any.
         if \<not> verified_any then
           Inl (IntegrityMismatch (what @ '': no supported hash algorithm to verify (''
                  @ debug_list (map fst hashes) @ '')''))
         else Inr ()))"

subsection \<open>The operations\<close>

definition from_root :: "'z tuf_externals_scheme \<Rightarrow> bytes \<Rightarrow> (trusted_set, tuf_error) result" where
  "from_root X bs =
     and_then (from_slice X Root_Role (de_root X) bs) (\<lambda>r.
     and_then (verify_root_self_signed X r) (\<lambda>_.
     Inr \<lparr>t_root = r, t_timestamp = None, t_snapshot = None, t_targets = []\<rparr>))"

definition update_root :: "'z tuf_externals_scheme \<Rightarrow> trusted_set \<Rightarrow> bytes \<Rightarrow> (trusted_set, tuf_error) result" where
  "update_root X s bs =
     and_then (from_slice X Root_Role (de_root X) bs) (\<lambda>new_root.
     let trusted_version = root_version (signed (t_root s));
         new_version = root_version (signed new_root) in
     if new_version \<noteq> trusted_version + 1 then Inl (BadRootVersion trusted_version new_version)
     else
       and_then (verify_with_root X new_root (signed (t_root s)) ''root'') (\<lambda>_.
       and_then (verify_root_self_signed X new_root) (\<lambda>_.
       Inr \<lparr>t_root = new_root, t_timestamp = None, t_snapshot = None, t_targets = []\<rparr>)))"

definition check_root_expired :: "'z externals_scheme \<Rightarrow> trusted_set \<Rightarrow> timestamp \<Rightarrow> (unit, tuf_error) result" where
  "check_root_expired X s now = ensure_not_expired X Root_Role (signed (t_root s)) ''root'' now"

definition check_timestamp_expired :: "'z externals_scheme \<Rightarrow> trusted_set \<Rightarrow> timestamp \<Rightarrow> (unit, tuf_error) result" where
  "check_timestamp_expired X s now =
     (case t_timestamp s of
        Some ts \<Rightarrow> ensure_not_expired X Timestamp_Role (signed ts) ''timestamp'' now
      | None \<Rightarrow> Inr ())"

definition check_snapshot_expired :: "'z externals_scheme \<Rightarrow> trusted_set \<Rightarrow> timestamp \<Rightarrow> (unit, tuf_error) result" where
  "check_snapshot_expired X s now =
     (case t_snapshot s of
        Some snap \<Rightarrow> ensure_not_expired X Snapshot_Role (signed snap) ''snapshot'' now
      | None \<Rightarrow> Inr ())"

text \<open>The version checks of \<open>update_timestamp\<close> against the current timestamp.\<close>

definition timestamp_advances :: "timestamp_role \<Rightarrow> timestamp_role \<Rightarrow> (unit, tuf_error) result" where
  "timestamp_advances current new =
     (if ts_version new < ts_version current then
        Inl (Rollback ''timestamp'' (ts_version current) (ts_version new))
      else if ts_version new = ts_version current then Inl (EqualVersion ''timestamp'' (ts_version new))
      else
        (case (snapshot_meta new, snapshot_meta current) of
           (Some new_meta, Some cur_meta) \<Rightarrow>
             if mf_version new_meta < mf_version cur_meta then
               Inl (Rollback ''snapshot (via timestamp)'' (mf_version cur_meta) (mf_version new_meta))
             else Inr ()
         | _ \<Rightarrow> Inr ()))"

definition update_timestamp :: "'z tuf_externals_scheme \<Rightarrow> trusted_set \<Rightarrow> bytes \<Rightarrow> timestamp
    \<Rightarrow> (trusted_set, tuf_error) result" where
  "update_timestamp X s bs now =
     and_then (from_slice X Timestamp_Role (de_timestamp X) bs) (\<lambda>new.
     and_then (verify_with_root X new (signed (t_root s)) ''timestamp'') (\<lambda>_.
     and_then
       (case t_timestamp s of None \<Rightarrow> Inr ()
        | Some current \<Rightarrow> timestamp_advances (signed current) (signed new)) (\<lambda>_.
     and_then (ensure_not_expired X Timestamp_Role (signed new) ''timestamp'' now) (\<lambda>_.
     Inr (s\<lparr>t_timestamp := Some new\<rparr>)))))"

text \<open>The \<open>for (name, cur_meta) in &current.signed.meta\<close> loop of \<open>update_snapshot\<close>.\<close>

definition no_snapshot_rollback :: "snapshot \<Rightarrow> snapshot \<Rightarrow> (unit, tuf_error) result" where
  "no_snapshot_rollback current new =
     try_each (\<lambda>(nm, cur_meta).
       case btm_get nm (snap_meta new) of
         None \<Rightarrow> Inl (IntegrityMismatch (''snapshot removes '' @ nm @ '', which the trusted snapshot pins''))
       | Some new_meta \<Rightarrow>
           ensure (\<not> mf_version new_meta < mf_version cur_meta)
             (Rollback (nm @ '' (via snapshot)'') (mf_version cur_meta) (mf_version new_meta)))
       (snap_meta current)"

definition update_snapshot :: "'z tuf_externals_scheme \<Rightarrow> trusted_set \<Rightarrow> bytes \<Rightarrow> timestamp
    \<Rightarrow> (trusted_set, tuf_error) result" where
  "update_snapshot X s bs now =
     and_then (ok_or (Malformed ''cannot load snapshot before timestamp'') (t_timestamp s)) (\<lambda>ts.
     and_then (ensure_not_expired X Timestamp_Role (signed ts) ''timestamp'' now) (\<lambda>_.
     and_then (ok_or (Malformed ''timestamp does not pin snapshot.json'') (snapshot_meta (signed ts))) (\<lambda>pin.
     and_then (check_integrity X bs pin ''snapshot.json'') (\<lambda>_.
     and_then (from_slice X Snapshot_Role (de_snapshot X) bs) (\<lambda>new.
     and_then (verify_with_root X new (signed (t_root s)) ''snapshot'') (\<lambda>_.
     and_then (ensure (snap_version (signed new) = mf_version pin)
       (IntegrityMismatch (''snapshot version '' @ fmt_u64 (snap_version (signed new))
          @ '' does not match timestamp pin '' @ fmt_u64 (mf_version pin)))) (\<lambda>_.
     and_then
       (case t_snapshot s of None \<Rightarrow> Inr ()
        | Some current \<Rightarrow> no_snapshot_rollback (signed current) (signed new)) (\<lambda>_.
     and_then (ensure_not_expired X Snapshot_Role (signed new) ''snapshot'' now) (\<lambda>_.
     Inr (s\<lparr>t_snapshot := Some new, t_targets := []\<rparr>))))))))))"

definition targets_role :: "trusted_set \<Rightarrow> string \<Rightarrow> targets option" where
  "targets_role s nm = map_option signed (btm_get nm (t_targets s))"

definition verify_targets_pin :: "'z tuf_externals_scheme \<Rightarrow> trusted_set \<Rightarrow> bytes \<Rightarrow> string \<Rightarrow> timestamp
    \<Rightarrow> (targets metadata, tuf_error) result" where
  "verify_targets_pin X s bs role_name now =
     and_then (ok_or (Malformed ''cannot load targets before snapshot'') (t_snapshot s)) (\<lambda>snap.
     and_then (ensure_not_expired X Snapshot_Role (signed snap) ''snapshot'' now) (\<lambda>_.
     let meta_name = role_name @ ''.json'' in
     and_then (ok_or (Malformed (''snapshot does not pin '' @ meta_name))
       (btm_get meta_name (snap_meta (signed snap)))) (\<lambda>pin.
     and_then (check_integrity X bs pin meta_name) (\<lambda>_.
     and_then (from_slice X Targets_Role (de_targets X) bs) (\<lambda>new.
     and_then (ensure (tg_version (signed new) = mf_version pin)
       (IntegrityMismatch (meta_name @ '' version '' @ fmt_u64 (tg_version (signed new))
          @ '' does not match snapshot pin '' @ fmt_u64 (mf_version pin)))) (\<lambda>_.
     Inr new))))))"

definition update_targets :: "'z tuf_externals_scheme \<Rightarrow> trusted_set \<Rightarrow> bytes \<Rightarrow> timestamp
    \<Rightarrow> (trusted_set \<times> targets, tuf_error) result" where
  "update_targets X s bs now =
     and_then (verify_targets_pin X s bs ''targets'' now) (\<lambda>new.
     and_then (verify_with_root X new (signed (t_root s)) ''targets'') (\<lambda>_.
     and_then (ensure_not_expired X Targets_Role (signed new) ''targets'' now) (\<lambda>_.
     Inr (s\<lparr>t_targets := btm_insert ''targets'' new (t_targets s)\<rparr>, signed new))))"

text \<open>The keys a delegated role may use, out of the delegator's.\<close>

definition authority_keys :: "delegations \<Rightarrow> string list \<Rightarrow> key btree_map" where
  "authority_keys d kids =
     fold (\<lambda>kid keys. case btm_get kid (del_keys d) of
             Some k \<Rightarrow> btm_insert kid k keys | None \<Rightarrow> keys) kids []"

definition delegation_authority :: "trusted_set \<Rightarrow> string \<Rightarrow> string
    \<Rightarrow> (key btree_map \<times> role_keys, tuf_error) result" where
  "delegation_authority s delegator_name role_name =
     and_then (ok_or (UnknownRole delegator_name) (btm_get delegator_name (t_targets s))) (\<lambda>delegator.
     and_then (ok_or (Malformed (''role '' @ delegator_name @ '' delegates nothing''))
       (tg_delegations (signed delegator))) (\<lambda>d.
     and_then (ok_or (UnknownRole role_name) (find (\<lambda>r. dr_name r = role_name) (del_roles d))) (\<lambda>r.
     Inr (authority_keys d (dr_keyids r), dr_role_keys r))))"

definition update_delegated_targets :: "'z tuf_externals_scheme \<Rightarrow> trusted_set \<Rightarrow> bytes \<Rightarrow> string \<Rightarrow> string
    \<Rightarrow> timestamp \<Rightarrow> (trusted_set \<times> targets, tuf_error) result" where
  "update_delegated_targets X s bs role_name delegator_name now =
     (if is_top_level_role role_name then
        Inl (Malformed (''delegated role must not reuse top-level role name '' @ debug_str role_name))
      else
        and_then (delegation_authority s delegator_name role_name) (\<lambda>(keys, rk).
        and_then (verify_targets_pin X s bs role_name now) (\<lambda>new.
        and_then (verify_threshold X new keys rk role_name) (\<lambda>_.
        and_then (ensure_not_expired X Targets_Role (signed new) role_name now) (\<lambda>_.
        Inr (s\<lparr>t_targets := btm_insert role_name new (t_targets s)\<rparr>, signed new))))))"

subsection \<open>When the checks pass\<close>

lemma ensure_not_expired_Inr [result_simps]:
  "ensure_not_expired X R r nm now = Inr u \<longleftrightarrow>
     (\<exists>t. parse_timestamp X (expires_of R r) = Inr t \<and> now \<le> t)"
  by (cases "parse_timestamp X (expires_of R r)")
    (simp_all add: ensure_not_expired_def is_expired_def expires_at_def not_less)

lemma verify_with_root_Inr [result_simps]:
  "verify_with_root X md r nm = Inr u \<longleftrightarrow>
     (\<exists>rk. root_role r nm = Some rk \<and> verify_threshold X md (root_keys r) rk nm = Inr ())"
  by (auto simp: verify_with_root_def result_simps)

lemma verify_root_self_signed_iff:
  "verify_root_self_signed X r = verify_with_root X r (signed r) ''root''"
  by (simp add: verify_root_self_signed_def verify_with_root_def)

lemma no_snapshot_rollback_Inr [result_simps]:
  "no_snapshot_rollback current new = Inr u \<longleftrightarrow>
     (\<forall>(nm, cur) \<in> set (snap_meta current).
        \<exists>m. btm_get nm (snap_meta new) = Some m \<and> mf_version cur \<le> mf_version m)"
  by (simp add: no_snapshot_rollback_def result_simps case_prod_unfold not_less)

lemma timestamp_advances_Inr:
  "timestamp_advances current new = Inr u \<longleftrightarrow>
     ts_version current < ts_version new
     \<and> (\<forall>m n. snapshot_meta current = Some m \<longrightarrow> snapshot_meta new = Some n
          \<longrightarrow> mf_version m \<le> mf_version n)"
  by (auto simp: timestamp_advances_def not_less order_less_le split: option.splits)

text \<open>The digests that a supported algorithm name stands for.\<close>

definition pinned_digest :: "'z externals_scheme \<Rightarrow> bytes \<Rightarrow> string \<Rightarrow> string option" where
  "pinned_digest X bs algo =
     (if algo = ''sha256'' then Some (hex_encode X (sha256 X bs))
      else if algo = ''sha512'' then Some (hex_encode X (sha512 X bs)) else None)"

lemma integrity_loop_Inr:
  "integrity_loop X bs what v hashes = Inr w \<longleftrightarrow>
     (\<forall>(algo, h) \<in> set hashes. \<forall>d. pinned_digest X bs algo = Some d \<longrightarrow> eq_ignore_ascii_case d h)
     \<and> w = (v \<or> (\<exists>(algo, h) \<in> set hashes. pinned_digest X bs algo \<noteq> None))"
  by (induction X bs what v hashes rule: integrity_loop.induct)
    (auto simp: pinned_digest_def split: if_splits)

lemma check_integrity_Inr [result_simps]:
  "check_integrity X bs mf what = Inr u \<longleftrightarrow>
     (\<forall>n. mf_length mf = Some n \<longrightarrow> length bs = unat n)
     \<and> (\<forall>hashes. mf_hashes mf = Some hashes \<longrightarrow>
          (\<forall>(algo, h) \<in> set hashes. \<forall>d. pinned_digest X bs algo = Some d \<longrightarrow> eq_ignore_ascii_case d h)
          \<and> (\<exists>(algo, h) \<in> set hashes. pinned_digest X bs algo \<noteq> None))"
  by (auto simp: check_integrity_def integrity_loop_Inr result_simps split: option.splits prod.splits)

end
