(* ===== verification/Tuf_Store.thy ===== *)
theory Tuf_Store
  imports Trusted
begin

text \<open>
  The crate sigstore-tuf, part 4 (src/cache.rs, src/transport.rs, the module http of
  src/client.rs): the traits \<open>MetadataStore\<close> and \<open>Repository\<close> as locales with the contract their
  users rely on, the in-memory and the file store, the repository that reads a store, and the
  HTTP repository, each as an interpretation.

  The file system is a map from paths to contents together with the errors the operating system
  may report for each step of a write; a path is the list of its normal components.  Asynchronous
  methods are called and awaited in turn, so they are plain calls here.
\<close>

subsection \<open>UpdaterConfig\<close>

record updater_config =
  root_max_length :: u64
  timestamp_max_length :: u64
  snapshot_max_length :: u64
  targets_max_length :: u64
  target_max_length :: u64
  max_root_rotations :: u64
  max_delegations :: u32

definition default_config :: updater_config where
  "default_config = \<lparr>root_max_length = 512000, timestamp_max_length = 16384,
     snapshot_max_length = 2000000, targets_max_length = 5000000, target_max_length = 50000000,
     max_root_rotations = 32, max_delegations = 32\<rparr>"

subsection \<open>The trait MetadataStore\<close>

text \<open>
  \<open>same n m\<close>: the two names denote one entry.  A stored blob is read back, other entries keep
  their contents, and a failed write changes no entry.
\<close>

locale metadata_store =
  fixes load :: "'s \<Rightarrow> string \<Rightarrow> bytes option"
    and st_store :: "'s \<Rightarrow> string \<Rightarrow> bytes \<Rightarrow> 's \<times> (unit, tuf_error) result"
    and same :: "string \<Rightarrow> string \<Rightarrow> bool"
  assumes load_stored: "st_store s n b = (s', Inr ()) \<Longrightarrow> load s' n = Some b"
    and load_other: "st_store s n b = (s', r) \<Longrightarrow> \<not> same n m \<Longrightarrow> load s' m = load s m"
    and load_failed: "st_store s n b = (s', Inl e) \<Longrightarrow> load s' m = load s m"
    and load_same: "same n m \<Longrightarrow> load s n = load s m"
begin

text \<open>A sequence of writes: the last successful one to a name is what is read.\<close>

fun store_all :: "'s \<Rightarrow> (string \<times> bytes) list \<Rightarrow> 's" where
  "store_all s [] = s"
| "store_all s ((n, b) # ws) = store_all (fst (st_store s n b)) ws"

lemma load_after_write:
  "st_store s n b = (s', r) \<Longrightarrow> load s' m = Some c \<Longrightarrow> load s m = Some c \<or> (same n m \<and> c = b)"
proof (cases r)
  case (Inr u)
  assume "st_store s n b = (s', r)" "load s' m = Some c"
  with Inr show ?thesis using load_stored load_other load_same by (metis old.unit.exhaust option.inject)
qed (use load_failed in auto)

text \<open>What is read was there before or has been written: the store invents nothing.\<close>

lemma load_store_all:
  "load (store_all s ws) m = Some c \<Longrightarrow> load s m = Some c \<or> (\<exists>n. same n m \<and> (n, c) \<in> set ws)"
proof (induction s ws rule: store_all.induct)
  case (2 s n b ws)
  obtain s' r where st: "st_store s n b = (s', r)" by fastforce
  with 2 have "load s' m = Some c \<or> (\<exists>n. same n m \<and> (n, c) \<in> set ws)" by simp
  with load_after_write [OF st] show ?case by auto
qed simp

end

subsection \<open>MemoryStore\<close>

type_synonym memory_store = "(string, bytes) map"

definition memory_load :: "memory_store \<Rightarrow> string \<Rightarrow> bytes option" where
  "memory_load m nm = m nm"

definition memory_store :: "memory_store \<Rightarrow> string \<Rightarrow> bytes \<Rightarrow> memory_store \<times> (unit, tuf_error) result" where
  "memory_store m nm bs = (m(nm \<mapsto> bs), Inr ())"

interpretation mem: metadata_store memory_load memory_store "(=)"
  by unfold_locales (auto simp: memory_load_def memory_store_def)

subsection \<open>FileStore\<close>

type_synonym path = "string list"

record file_system =
  files :: "path \<Rightarrow> bytes option"
  mkdir_error :: "path \<Rightarrow> string option"
  temp_error :: "path \<Rightarrow> string option"
  write_error :: "path \<Rightarrow> string option"
  rename_error :: "path \<Rightarrow> nat \<Rightarrow> string option"

text \<open>\<open>Path::components\<close> of a relative Unix path: empty and \<open>.\<close> components are dropped.\<close>

definition components :: "string \<Rightarrow> string list" where
  "components nm = filter (\<lambda>c. c \<noteq> [] \<and> c \<noteq> ''.'') (split_on CHR ''/'' nm)"

definition safe_path :: "path \<Rightarrow> string \<Rightarrow> (path, tuf_error) result" where
  "safe_path dir nm =
     (if starts_with nm ''/'' \<or> ''..'' \<in> set (components nm) then
        Inl (Malformed (''unsafe cache name '' @ debug_str nm))
      else Inr (dir @ components nm))"

text \<open>The \<open>for attempt in 0..5\<close> loop of the rename.\<close>

fun persist_loop :: "file_system \<Rightarrow> path \<Rightarrow> bytes \<Rightarrow> nat list \<Rightarrow> file_system \<times> (unit, tuf_error) result" where
  "persist_loop fs p bs [] = (fs, Inl (Transport ''unreachable: loop returns on the final attempt''))"
| "persist_loop fs p bs (attempt # rest) =
     (case rename_error fs p attempt of
        None \<Rightarrow> (fs\<lparr>files := (files fs)(p \<mapsto> bs)\<rparr>, Inr ())
      | Some e \<Rightarrow>
          if attempt = 4 then (fs, Inl (Transport (''cache rename failed: '' @ e)))
          else persist_loop fs p bs rest)"

definition write_atomic :: "file_system \<Rightarrow> path \<Rightarrow> bytes \<Rightarrow> file_system \<times> (unit, tuf_error) result" where
  "write_atomic fs p bs =
     (case temp_error fs p of
        Some e \<Rightarrow> (fs, Inl (Transport (''cache temp create failed: '' @ e)))
      | None \<Rightarrow>
          (case write_error fs p of
             Some e \<Rightarrow> (fs, Inl (Transport (''cache write failed: '' @ e)))
           | None \<Rightarrow> persist_loop fs p bs [0, 1, 2, 3, 4]))"

definition file_load :: "path \<Rightarrow> file_system \<Rightarrow> string \<Rightarrow> bytes option" where
  "file_load dir fs nm = (case safe_path dir nm of Inl _ \<Rightarrow> None | Inr p \<Rightarrow> files fs p)"

definition file_store :: "path \<Rightarrow> file_system \<Rightarrow> string \<Rightarrow> bytes \<Rightarrow> file_system \<times> (unit, tuf_error) result" where
  "file_store dir fs nm bs =
     (case safe_path dir nm of
        Inl e \<Rightarrow> (fs, Inl e)
      | Inr p \<Rightarrow>
          (case mkdir_error fs p of
             Some e \<Rightarrow> (fs, Inl (Transport (''cache mkdir failed: '' @ e)))
           | None \<Rightarrow> write_atomic fs p bs))"

definition same_path :: "path \<Rightarrow> string \<Rightarrow> string \<Rightarrow> bool" where
  "same_path dir n m \<longleftrightarrow> map_sum (\<lambda>_. ()) id (safe_path dir n) = map_sum (\<lambda>_. ()) id (safe_path dir m)"

text \<open>A write either fails and changes nothing, or replaces exactly the file at its path.\<close>

lemma persist_loop_cases:
  "persist_loop fs p bs attempts = (fs', r) \<Longrightarrow>
     (\<exists>e. r = Inl e \<and> fs' = fs) \<or> (r = Inr () \<and> fs' = fs\<lparr>files := (files fs)(p \<mapsto> bs)\<rparr>)"
  by (induction fs p bs attempts rule: persist_loop.induct) (auto split: option.splits if_splits)

lemma file_store_cases:
  assumes "file_store dir fs n b = (fs', r)"
  shows "(\<exists>e. r = Inl e \<and> fs' = fs)
    \<or> (\<exists>p. r = Inr () \<and> safe_path dir n = Inr p \<and> fs' = fs\<lparr>files := (files fs)(p \<mapsto> b)\<rparr>)"
  using assms persist_loop_cases
  by (fastforce simp: file_store_def write_atomic_def split: sum.splits option.splits)

interpretation fstore: metadata_store "file_load dir" "file_store dir" "same_path dir"
proof
  show "file_load dir s' n = Some b" if "file_store dir s n b = (s', Inr ())" for s n b s'
    using file_store_cases [OF that] by (auto simp: file_load_def)
  show "file_load dir s' m = file_load dir s m"
    if "file_store dir s n b = (s', r)" "\<not> same_path dir n m" for s n b s' r m
    using file_store_cases [OF that(1)] that(2)
    by (auto simp: file_load_def same_path_def split: sum.splits)
  show "file_load dir s' m = file_load dir s m" if "file_store dir s n b = (s', Inl e)" for s n b s' e m
    using file_store_cases [OF that] by auto
  show "file_load dir s n = file_load dir s m" if "same_path dir n m" for s n m
    using that by (auto simp: file_load_def same_path_def split: sum.splits)
qed

subsection \<open>The trait Repository\<close>

text \<open>A fetch may change the state of the transport; what it returns respects the bound.\<close>

type_synonym 'r fetch = "'r \<Rightarrow> string \<Rightarrow> u64 \<Rightarrow> 'r \<times> (bytes option, tuf_error) result"

locale repository =
  fixes fetch_metadata :: "'r fetch"
    and fetch_target :: "'r fetch"
  assumes metadata_bound: "fetch_metadata r nm n = (r', Inr (Some b)) \<Longrightarrow> length b \<le> unat n"
    and target_bound: "fetch_target r path n = (r', Inr (Some b)) \<Longrightarrow> length b \<le> unat n"

definition store_read :: "('s \<Rightarrow> string \<Rightarrow> bytes option) \<Rightarrow> 's fetch" where
  "store_read ld s nm max_length =
     (s, case ld s nm of
           Some bs \<Rightarrow>
             if length bs > unat max_length then
               Inl (Transport (''cached '' @ nm @ '' exceeds max length '' @ fmt_u64 max_length))
             else Inr (Some bs)
         | None \<Rightarrow> Inr None)"

definition store_fetch_target :: "('s \<Rightarrow> string \<Rightarrow> bytes option) \<Rightarrow> 's fetch" where
  "store_fetch_target ld s path max_length = store_read ld s (''targets/'' @ path) max_length"

lemma store_read_bound: "store_read ld s nm n = (s', Inr (Some b)) \<Longrightarrow> length b \<le> unat n"
  by (auto simp: store_read_def split: option.splits if_splits)

interpretation mem_repo: repository "store_read memory_load" "store_fetch_target memory_load"
  by unfold_locales (auto simp: store_fetch_target_def intro: store_read_bound)

interpretation fstore_repo: repository "store_read (file_load dir)" "store_fetch_target (file_load dir)"
  by unfold_locales (auto simp: store_fetch_target_def intro: store_read_bound)

subsection \<open>HttpRepository\<close>

text \<open>
  A response of the HTTP client: its status, the advertised length, and the chunks of its body
  (an error ends them).  \<open>send\<close>, the joining of URLs and the texts are the client library's.
\<close>

record http_response =
  status :: nat
  content_length :: "u64 option"
  chunks :: "(bytes, string) result list"

record 'n http_client =
  http_send :: "'n \<Rightarrow> string \<Rightarrow> 'n \<times> (http_response, string) result"
  url_parse :: "string \<Rightarrow> (string, string) result"
  url_join :: "string \<Rightarrow> string \<Rightarrow> (string, string) result"
  client_build :: "(unit, string) result"
  status_text :: "nat \<Rightarrow> string"

record http_repository =
  metadata_base :: string
  targets_base :: string

definition normalize_base :: "'n http_client \<Rightarrow> string \<Rightarrow> (string, tuf_error) result" where
  "normalize_base C base_url =
     (let with_slash = if base_url \<noteq> [] \<and> last base_url = CHR ''/'' then base_url else base_url @ ''/'' in
      map_err (\<lambda>e. Transport (''invalid base URL: '' @ e)) (url_parse C with_slash))"

definition http_new :: "'n http_client \<Rightarrow> string \<Rightarrow> (http_repository, tuf_error) result" where
  "http_new C base_url =
     and_then (normalize_base C base_url) (\<lambda>base.
     and_then (map_err (\<lambda>e. Transport (''invalid targets base: '' @ e)) (url_join C base ''targets/'')) (\<lambda>tb.
     and_then (map_err (\<lambda>e. Transport (''failed to build HTTP client: '' @ e)) (client_build C)) (\<lambda>_.
     Inr \<lparr>metadata_base = base, targets_base = tb\<rparr>)))"

definition with_targets_base :: "'n http_client \<Rightarrow> http_repository \<Rightarrow> string
    \<Rightarrow> (http_repository, tuf_error) result" where
  "with_targets_base C h url = and_then (normalize_base C url) (\<lambda>b. Inr (h\<lparr>targets_base := b\<rparr>))"

fun read_chunks :: "string \<Rightarrow> u64 \<Rightarrow> bytes \<Rightarrow> (bytes, string) result list \<Rightarrow> (bytes, tuf_error) result" where
  "read_chunks url max_length buf [] = Inr buf"
| "read_chunks url max_length buf (Inl e # rest) = Inl (Transport (''reading '' @ url @ '' failed: '' @ e))"
| "read_chunks url max_length buf (Inr chunk # rest) =
     (if length buf + length chunk > unat max_length then
        Inl (Transport (url @ '': response exceeds max length '' @ fmt_u64 max_length))
      else read_chunks url max_length (buf @ chunk) rest)"

definition bounded_get :: "'n http_client \<Rightarrow> 'n \<Rightarrow> string \<Rightarrow> u64 \<Rightarrow> 'n \<times> (bytes option, tuf_error) result" where
  "bounded_get C net url max_length =
     (let (net', sent) = http_send C net url in
      (net',
       and_then (map_err (\<lambda>e. Transport (''GET '' @ url @ '' failed: '' @ e)) sent) (\<lambda>resp.
       if status resp = 404 \<or> status resp = 403 then Inr None
       else if \<not> (200 \<le> status resp \<and> status resp \<le> 299) then
         Inl (Transport (''GET '' @ url @ '' returned status '' @ status_text C (status resp)))
       else
         and_then
           (case content_length resp of
              Some len \<Rightarrow> ensure (\<not> len > max_length)
                (Transport (url @ '': content-length '' @ fmt_u64 len @ '' exceeds max '' @ fmt_u64 max_length))
            | None \<Rightarrow> Inr ()) (\<lambda>_.
         and_then (read_chunks url max_length [] (chunks resp)) (\<lambda>buf. Inr (Some buf))))))"

definition http_fetch :: "'n http_client \<Rightarrow> string \<Rightarrow> 'n fetch" where
  "http_fetch C base net nm max_length =
     (case url_join C base nm of
        Inl e \<Rightarrow> (net, Inl (Transport (''invalid URL '' @ debug_str nm @ '': '' @ e)))
      | Inr url \<Rightarrow> bounded_get C net url max_length)"

definition http_fetch_metadata :: "'n http_client \<Rightarrow> http_repository \<Rightarrow> 'n fetch" where
  "http_fetch_metadata C h = http_fetch C (metadata_base h)"

definition http_fetch_target :: "'n http_client \<Rightarrow> http_repository \<Rightarrow> 'n fetch" where
  "http_fetch_target C h = http_fetch C (targets_base h)"

lemma read_chunks_bound:
  "length buf \<le> unat n \<Longrightarrow> read_chunks url n buf cs = Inr b \<Longrightarrow> length b \<le> unat n"
  by (induction url n buf cs rule: read_chunks.induct) (auto split: if_splits)

lemma http_fetch_bound: "http_fetch C base net nm n = (net', Inr (Some b)) \<Longrightarrow> length b \<le> unat n"
  by (auto simp: http_fetch_def bounded_get_def result_simps Let_def
      split: sum.splits prod.splits if_splits dest!: read_chunks_bound [rotated])

interpretation http: repository "http_fetch_metadata C h" "http_fetch_target C h"
  by unfold_locales (auto simp: http_fetch_metadata_def http_fetch_target_def intro: http_fetch_bound)

subsection \<open>Properties\<close>

text \<open>C39: memory and download bounds.  Whatever the server sends, an HTTP fetch of metadata and one of
  a target return at most the requested number of bytes.\<close>

theorem http_fetch_bounded:
  assumes "http_fetch_metadata C h net nm n = (net', Inr (Some b)) \<or> http_fetch_target C h net nm n = (net', Inr (Some b))"
  shows "length b \<le> unat n"
  using assms by (auto dest: http.metadata_bound http.target_bound)

definition sample_http :: "unit http_client" where
  "sample_http = \<lparr>http_send = (\<lambda>n url. (n, Inr \<lparr>status = 200, content_length = None,
       chunks = [Inr [1, 2], Inr [3]]\<rparr>)),
     url_parse = Inr, url_join = (\<lambda>b n. Inr (b @ n)), client_build = Inr (), status_text = (\<lambda>_. [])\<rparr>"

theorem http_fetch_bounded_witness:
  "http_fetch_target sample_http \<lparr>metadata_base = ''m/'', targets_base = ''t/''\<rparr> () ''target.txt'' 3
    = ((), Inr (Some [1, 2, 3])) \<and> length [1, 2, 3 :: u8] \<le> unat (3 :: u64)"
proof -
  have fetch: "http_fetch_target sample_http \<lparr>metadata_base = ''m/'', targets_base = ''t/''\<rparr> () ''target.txt'' 3
      = ((), Inr (Some [1, 2, 3]))"
    by (simp add: http_fetch_target_def http_fetch_def bounded_get_def sample_http_def)
  from http_fetch_bounded [OF disjI2 [OF fetch]] fetch show ?thesis by blast
qed

text \<open>The file store stays inside its directory: the path of every name it accepts is the
  directory followed by components none of which is \<open>..\<close>, and a write changes that file only.\<close>

theorem file_store_confined:
  assumes "file_store dir fs nm bs = (fs', r)" "files fs' p \<noteq> files fs p"
  shows "\<exists>rest. p = dir @ rest \<and> ''..'' \<notin> set rest \<and> '''' \<notin> set rest \<and> rest = components nm
    \<and> files fs' p = Some bs"
  using file_store_cases [OF assms(1)] assms(2)
  by (auto simp: safe_path_def components_def split: if_splits)

definition sample_fs :: file_system where
  "sample_fs = \<lparr>files = (\<lambda>p. None), mkdir_error = (\<lambda>p. None), temp_error = (\<lambda>p. None),
     write_error = (\<lambda>p. None), rename_error = (\<lambda>p n. if n = 0 then Some ''busy'' else None)\<rparr>"

theorem file_store_confined_witness:
  "\<exists>rest. [''cache'', ''a'', ''b''] = [''cache''] @ rest \<and> ''..'' \<notin> set rest \<and> '''' \<notin> set rest
    \<and> rest = components ''a/./b'' \<and> files (fst (file_store [''cache''] sample_fs ''a/./b'' [7]))
        [''cache'', ''a'', ''b''] = Some [7]"
proof (rule file_store_confined)
  have st: "file_store [''cache''] sample_fs ''a/./b'' [7]
      = (sample_fs\<lparr>files := (files sample_fs)([''cache'', ''a'', ''b''] \<mapsto> [7])\<rparr>, Inr ())"
    by (simp add: file_store_def safe_path_def components_def starts_with_def write_atomic_def sample_fs_def)
  then show "file_store [''cache''] sample_fs ''a/./b'' [7]
      = (fst (file_store [''cache''] sample_fs ''a/./b'' [7]), Inr ())" by simp
  from st show "files (fst (file_store [''cache''] sample_fs ''a/./b'' [7])) [''cache'', ''a'', ''b'']
      \<noteq> files sample_fs [''cache'', ''a'', ''b'']" by (simp add: sample_fs_def)
qed

end
