(* ===== verification/Tuf_Sample.thy ===== *)
theory Tuf_Sample
  imports Trusted
begin

text \<open>
  A concrete repository for the theorems that apply a property of the TUF client at an input.
  A metadata file is three bytes, the payload a JSON string of them: version, the pinned version
  of the next role (0: no pin), and a padding byte.  Every role has one key, whose signature is
  the key itself; metadata expires at time 100.  The targets list the files \<open>a\<close> and \<open>trusted_root.json\<close>, of one byte.
\<close>

definition version_byte :: "string \<Rightarrow> nat \<Rightarrow> u64" where
  "version_byte s i = word_of_nat (of_char (s ! i))"

definition sample_key :: key where
  "sample_key = \<lparr>keytype = ''ed25519'', key_scheme = ''ed25519'',
     keyval = \<lparr>kv_public = ''-----BEGIN'', kv_extra = []\<rparr>, key_extra = []\<rparr>"

definition sample_role_keys :: role_keys where
  "sample_role_keys = \<lparr>rk_keyids = [''k''], rk_threshold = 1, rk_extra = []\<rparr>"

definition sample_root :: "string \<Rightarrow> root" where
  "sample_root s = \<lparr>root_type = ''root'', root_spec_version = ''1.0'', root_version = version_byte s 0,
     root_expires = ''x'', consistent_snapshot = True, root_keys = [(''k'', sample_key)],
     root_roles = map (\<lambda>n. (n, sample_role_keys)) [''root'', ''snapshot'', ''targets'', ''timestamp''],
     root_extra = []\<rparr>"

definition sample_pins :: "string \<Rightarrow> u64 \<Rightarrow> meta_file btree_map" where
  "sample_pins nm v = (if v = 0 then []
     else [(nm, \<lparr>mf_version = v, mf_length = Some 3, mf_hashes = None, mf_extra = []\<rparr>)])"

definition sample_timestamp :: "string \<Rightarrow> timestamp_role" where
  "sample_timestamp s = \<lparr>ts_type = ''timestamp'', ts_spec_version = ''1.0'', ts_version = version_byte s 0,
     ts_expires = ''x'', ts_meta = sample_pins ''snapshot.json'' (version_byte s 1), ts_extra = []\<rparr>"

definition sample_snapshot :: "string \<Rightarrow> snapshot" where
  "sample_snapshot s = \<lparr>snap_type = ''snapshot'', snap_spec_version = ''1.0'', snap_version = version_byte s 0,
     snap_expires = ''x'', snap_meta = sample_pins ''targets.json'' (version_byte s 1), snap_extra = []\<rparr>"

definition sample_file_a :: target_file where
  "sample_file_a = \<lparr>tf_length = 1, tf_hashes = [(''sha256'', ''h'')], tf_custom = None, tf_extra = []\<rparr>"

definition sample_targets :: "string \<Rightarrow> targets" where
  "sample_targets s = \<lparr>tg_type = ''targets'', tg_spec_version = ''1.0'', tg_version = version_byte s 0,
     tg_expires = ''x'', tg_targets = [(''a'', sample_file_a), (''trusted_root.json'', sample_file_a)], tg_delegations = None, tg_extra = []\<rparr>"

fun de_string :: "(string \<Rightarrow> 'a) \<Rightarrow> json \<Rightarrow> ('a, string) result" where
  "de_string f (JString s) = Inr (f s)"
| "de_string f v = Inl ''not a string''"

definition sample_tuf :: tuf_externals where
  "sample_tuf = externals.extend
     (sample_ext\<lparr>pem_parse := (\<lambda>s. Inr (''PUBLIC KEY'', as_bytes s)),
        aws_verify := (\<lambda>alg key msg sg. sg = key),
        json_parse := (\<lambda>b. Inr (JObject [(''signatures'', JNull), (''signed'', JString (of_bytes b))])),
        parse_timestamp := (\<lambda>s. Inr 100)\<rparr>)
     (tuf_externals.fields (\<lambda>v. Inr [\<lparr>keyid = ''k'', sig = ''-----BEGIN''\<rparr>])
        (de_string sample_root) (de_string sample_timestamp) (de_string sample_snapshot)
        (de_string sample_targets))"

lemma sample_tuf_simps [simp]:
  "json_parse sample_tuf b = Inr (JObject [(''signatures'', JNull), (''signed'', JString (of_bytes b))])"
  "de_signatures sample_tuf v = Inr [\<lparr>keyid = ''k'', sig = ''-----BEGIN''\<rparr>]"
  "de_root sample_tuf = de_string sample_root" "de_timestamp sample_tuf = de_string sample_timestamp"
  "de_snapshot sample_tuf = de_string sample_snapshot" "de_targets sample_tuf = de_string sample_targets"
  "parse_timestamp sample_tuf s = Inr 100" "hex_decode sample_tuf s = Inr (as_bytes s)"
  "aws_verify sample_tuf alg k m sg \<longleftrightarrow> sg = k" "spki_key_bits sample_tuf b = Inr b"
  "pem_parse sample_tuf s = Inr (''PUBLIC KEY'', as_bytes s)"
  by (simp_all add: sample_tuf_def sample_ext_def tuf_externals.defs externals.defs)

text \<open>Whatever the bytes, a file of this repository is signed.\<close>

lemma sample_key_usable:
  "key_verification_key sample_tuf sample_key
     = Inr \<lparr>vk_bytes = as_bytes ''-----BEGIN'', vk_scheme = Ed25519\<rparr>"
proof -
  have "trim ''-----BEGIN'' = ''-----BEGIN''" "starts_with ''-----BEGIN'' ''-----BEGIN''" by code_simp+
  then show ?thesis
    by (simp add: key_verification_key_def sample_key_def key_signing_scheme_def
        public_key_from_pem_def from_pem_tag_def from_spki_def)
qed

lemma sample_verify:
  assumes "signatures md = [\<lparr>keyid = ''k'', sig = ''-----BEGIN''\<rparr>]" "root_role (sample_root s) nm \<noteq> None"
  shows "verify_with_root sample_tuf md (sample_root s) nm = Inr ()"
proof -
  have "rk = sample_role_keys" if "root_role (sample_root s) nm = Some rk" for rk
    using that by (auto simp: root_role_def sample_root_def btm_get_def split: if_splits)
  moreover have "btm_get ''k'' (root_keys (sample_root s)) = Some sample_key"
    by (simp add: sample_root_def btm_get_def)
  then have "signature_valid sample_tuf (canonical_signed md) (root_keys (sample_root s))
      \<lparr>keyid = ''k'', sig = ''-----BEGIN''\<rparr>"
    by (simp add: signature_valid_def sample_key_usable vk_verify_def)
  then have "verify_threshold sample_tuf md (root_keys (sample_root s)) sample_role_keys nm = Inr ()"
    by (simp add: verify_threshold_Inr considered_def valid_signers_def assms(1) sample_role_keys_def)
  ultimately show ?thesis using assms(2) by (auto simp: verify_with_root_Inr)
qed

lemma sample_roles: "root_role (sample_root s) ''root'' \<noteq> None" "root_role (sample_root s) ''timestamp'' \<noteq> None"
  "root_role (sample_root s) ''snapshot'' \<noteq> None" "root_role (sample_root s) ''targets'' \<noteq> None"
  by (simp_all add: root_role_def sample_root_def btm_get_def)

definition sample_file :: "(string \<Rightarrow> 'r) \<Rightarrow> bytes \<Rightarrow> 'r metadata" where
  "sample_file f b = \<lparr>signatures = [\<lparr>keyid = ''k'', sig = ''-----BEGIN''\<rparr>], signed = f (of_bytes b),
     canonical_signed = as_bytes (encode_string (of_bytes b))\<rparr>"

lemma sample_from_slice: "from_slice sample_tuf R (de_string f) b = Inr (sample_file f b)"
  by (simp add: from_slice_def json_get_def to_canonical_bytes_def sample_file_def)

lemma sample_file_simps [simp]:
  "signed (sample_file f b) = f (of_bytes b)"
  "signatures (sample_file f b) = [\<lparr>keyid = ''k'', sig = ''-----BEGIN''\<rparr>]"
  by (simp_all add: sample_file_def)

lemma sample_versions [simp]:
  "root_version (sample_root s) = version_byte s 0" "ts_version (sample_timestamp s) = version_byte s 0"
  "snap_version (sample_snapshot s) = version_byte s 0" "tg_version (sample_targets s) = version_byte s 0"
  "snapshot_meta (sample_timestamp s) = (if version_byte s 1 = 0 then None else
     Some \<lparr>mf_version = version_byte s 1, mf_length = Some 3, mf_hashes = None, mf_extra = []\<rparr>)"
  "btm_get ''targets.json'' (snap_meta (sample_snapshot s)) = (if version_byte s 1 = 0 then None else
     Some \<lparr>mf_version = version_byte s 1, mf_length = Some 3, mf_hashes = None, mf_extra = []\<rparr>)"
  by (simp_all add: sample_root_def sample_timestamp_def sample_snapshot_def sample_targets_def
      snapshot_meta_def sample_pins_def btm_get_def)

definition version_of_byte :: "u8 \<Rightarrow> u64" where
  "version_of_byte v = word_of_nat (unat v)"

lemma version_byte_of_bytes [simp]:
  "version_byte (of_bytes (v # b)) 0 = version_of_byte v"
  "version_byte (of_bytes (u # v # b)) (Suc 0) = version_of_byte v"
proof -
  have "unat v mod 256 = unat v" using unsigned_less [of v, where ?'a = nat] by simp
  then show "version_byte (of_bytes (v # b)) 0 = version_of_byte v"
    "version_byte (of_bytes (u # v # b)) (Suc 0) = version_of_byte v"
    by (simp_all add: version_byte_def of_bytes_def version_of_byte_def)
qed

lemma version_of_byte_0 [simp]: "version_of_byte v = 0 \<longleftrightarrow> v = 0"
proof -
  have "unat v < 2 ^ 64" using unsigned_less [of v, where ?'a = nat] by simp
  then have "unat (version_of_byte v) = unat v" unfolding version_of_byte_def unat_of_nat by simp
  then show ?thesis by (metis unat_eq_zero)
qed

lemma sample_check_integrity: "check_integrity sample_tuf [a, b, c]
    \<lparr>mf_version = v, mf_length = Some 3, mf_hashes = None, mf_extra = []\<rparr> nm = Inr ()"
  by (simp add: check_integrity_def)

lemma sample_fresh: "now \<le> 100 \<Longrightarrow> ensure_not_expired sample_tuf R r nm now = Inr ()"
  by (simp add: ensure_not_expired_Inr)

text \<open>The updates of this repository.\<close>

definition sample_state :: "bytes \<Rightarrow> bytes option \<Rightarrow> bytes option \<Rightarrow> bytes option \<Rightarrow> trusted_set" where
  "sample_state r ts sn tg = \<lparr>t_root = sample_file sample_root r,
     t_timestamp = map_option (sample_file sample_timestamp) ts,
     t_snapshot = map_option (sample_file sample_snapshot) sn,
     t_targets = (case tg of None \<Rightarrow> [] | Some b \<Rightarrow> [(''targets'', sample_file sample_targets b)])\<rparr>"

lemma sample_from_root: "from_root sample_tuf b = Inr (sample_state b None None None)"
  by (simp add: from_root_def sample_from_slice verify_root_self_signed_def
      sample_verify [unfolded verify_with_root_def] sample_roles sample_state_def)

lemma sample_update_root:
  "version_of_byte w = version_of_byte v + 1 \<Longrightarrow>
   update_root sample_tuf (sample_state (v # b) ts sn tg) (w # c) = Inr (sample_state (w # c) None None None)"
  by (simp add: update_root_def sample_from_slice verify_root_self_signed_def Let_def
      sample_verify sample_verify [unfolded verify_with_root_def] sample_roles sample_state_def)

lemma sample_update_timestamp:
  assumes "\<forall>cur. ts = Some cur \<longrightarrow> timestamp_advances (sample_timestamp (of_bytes cur)) (sample_timestamp (of_bytes b)) = Inr ()"
    and "now \<le> 100"
  shows "update_timestamp sample_tuf (sample_state r ts sn tg) b now = Inr (sample_state r (Some b) sn tg)"
  using assms
  by (simp add: update_timestamp_def sample_from_slice sample_verify sample_roles sample_fresh
      sample_state_def split: option.splits)

lemma sample_update_snapshot:
  assumes "no_snapshot_rollback (sample_snapshot (of_bytes cur)) (sample_snapshot (of_bytes [v, p, a])) = Inr ()
      \<or> sn = None" "sn = None \<or> sn = Some cur" "v \<noteq> 0" "now \<le> 100"
  shows "update_snapshot sample_tuf (sample_state r (Some [t, v, d]) sn tg) [v, p, a] now
    = Inr (sample_state r (Some [t, v, d]) (Some [v, p, a]) None)"
  using assms
  by (auto simp: update_snapshot_def sample_from_slice sample_verify sample_roles sample_fresh
      sample_check_integrity sample_state_def split: option.splits)

lemma sample_update_targets:
  assumes "v \<noteq> 0" "now \<le> 100"
  shows "update_targets sample_tuf (sample_state r ts (Some [s, v, d]) tg) [v, p, a] now
    = Inr (sample_state r ts (Some [s, v, d]) (Some [v, p, a]), sample_targets (of_bytes [v, p, a]))"
  using assms
  by (simp add: update_targets_def verify_targets_pin_def sample_from_slice sample_verify sample_roles
      sample_fresh sample_check_integrity sample_state_def Let_def split: option.splits)

end
