(* ===== verification/Trusted_Correct.thy ===== *)
theory Trusted_Correct
  imports Tuf_Sample
begin

text \<open>
  The state machine of the trusted metadata: its steps are the successful update operations, its
  start is the pinned root.  The theorems are about every state it can reach: what is signed by
  whom, along which chain of roots and delegations, and which versions can never go backwards.
\<close>

subsection \<open>The steps\<close>

text \<open>The updates that keep the root.\<close>

inductive lower_step :: "'z tuf_externals_scheme \<Rightarrow> trusted_set \<Rightarrow> trusted_set \<Rightarrow> bool" for X where
  timestamp: "update_timestamp X s bs now = Inr s' \<Longrightarrow> lower_step X s s'"
| snapshot: "update_snapshot X s bs now = Inr s' \<Longrightarrow> lower_step X s s'"
| targets: "update_targets X s bs now = Inr (s', t) \<Longrightarrow> lower_step X s s'"
| delegated: "update_delegated_targets X s bs role_name delegator now = Inr (s', t) \<Longrightarrow> lower_step X s s'"

inductive trusted_step :: "'z tuf_externals_scheme \<Rightarrow> trusted_set \<Rightarrow> trusted_set \<Rightarrow> bool" for X where
  root: "update_root X s bs = Inr s' \<Longrightarrow> trusted_step X s s'"
| lower: "lower_step X s s' \<Longrightarrow> trusted_step X s s'"

inductive trusted_reach :: "'z tuf_externals_scheme \<Rightarrow> bytes \<Rightarrow> trusted_set \<Rightarrow> bool" for X b where
  start: "from_root X b = Inr s \<Longrightarrow> trusted_reach X b s"
| step: "trusted_reach X b s \<Longrightarrow> trusted_step X s s' \<Longrightarrow> trusted_reach X b s'"

inductive_cases trusted_stepE: "trusted_step X s s'"
inductive_cases lower_stepE: "lower_step X s s'"

subsection \<open>What a successful update does\<close>

lemma from_root_Inr:
  "from_root X bs = Inr s \<longleftrightarrow>
     (\<exists>r. from_slice X Root_Role (de_root X) bs = Inr r \<and> verify_root_self_signed X r = Inr ()
        \<and> s = \<lparr>t_root = r, t_timestamp = None, t_snapshot = None, t_targets = []\<rparr>)"
  by (auto simp: from_root_def result_simps)

lemma update_root_Inr:
  "update_root X s bs = Inr s' \<longleftrightarrow>
     (\<exists>r. from_slice X Root_Role (de_root X) bs = Inr r
        \<and> root_version (signed r) = root_version (signed (t_root s)) + 1
        \<and> verify_with_root X r (signed (t_root s)) ''root'' = Inr ()
        \<and> verify_root_self_signed X r = Inr ()
        \<and> s' = \<lparr>t_root = r, t_timestamp = None, t_snapshot = None, t_targets = []\<rparr>)"
  by (auto simp: update_root_def result_simps Let_def)

lemma update_timestamp_Inr:
  "update_timestamp X s bs now = Inr s' \<longleftrightarrow>
     (\<exists>new. from_slice X Timestamp_Role (de_timestamp X) bs = Inr new
        \<and> verify_with_root X new (signed (t_root s)) ''timestamp'' = Inr ()
        \<and> (\<forall>cur. t_timestamp s = Some cur \<longrightarrow>
             ts_version (signed cur) < ts_version (signed new)
             \<and> (\<forall>m n. snapshot_meta (signed cur) = Some m \<longrightarrow> snapshot_meta (signed new) = Some n
                  \<longrightarrow> mf_version m \<le> mf_version n))
        \<and> ensure_not_expired X Timestamp_Role (signed new) ''timestamp'' now = Inr ()
        \<and> s' = s\<lparr>t_timestamp := Some new\<rparr>)"
  unfolding update_timestamp_def and_then_Inr_iff
  by (cases "t_timestamp s") (auto simp: timestamp_advances_Inr)

lemma update_snapshot_Inr:
  "update_snapshot X s bs now = Inr s' \<longleftrightarrow>
     (\<exists>ts pin new. t_timestamp s = Some ts
        \<and> ensure_not_expired X Timestamp_Role (signed ts) ''timestamp'' now = Inr ()
        \<and> snapshot_meta (signed ts) = Some pin \<and> check_integrity X bs pin ''snapshot.json'' = Inr ()
        \<and> from_slice X Snapshot_Role (de_snapshot X) bs = Inr new
        \<and> verify_with_root X new (signed (t_root s)) ''snapshot'' = Inr ()
        \<and> snap_version (signed new) = mf_version pin
        \<and> (\<forall>cur. t_snapshot s = Some cur \<longrightarrow> no_snapshot_rollback (signed cur) (signed new) = Inr ())
        \<and> ensure_not_expired X Snapshot_Role (signed new) ''snapshot'' now = Inr ()
        \<and> s' = s\<lparr>t_snapshot := Some new, t_targets := []\<rparr>)"
  unfolding update_snapshot_def and_then_Inr_iff ok_or_Inr_iff ensure_Inr_iff
  by (cases "t_snapshot s") auto

definition pinned_targets :: "'z tuf_externals_scheme \<Rightarrow> snapshot \<Rightarrow> string \<Rightarrow> targets metadata \<Rightarrow> bool" where
  "pinned_targets X snap nm md \<longleftrightarrow>
     (\<exists>pin bs. btm_get (nm @ ''.json'') (snap_meta snap) = Some pin
        \<and> check_integrity X bs pin (nm @ ''.json'') = Inr ()
        \<and> from_slice X Targets_Role (de_targets X) bs = Inr md
        \<and> tg_version (signed md) = mf_version pin)"

lemma verify_targets_pin_Inr:
  "verify_targets_pin X s bs nm now = Inr new \<longleftrightarrow>
     (\<exists>snap pin. t_snapshot s = Some snap
        \<and> ensure_not_expired X Snapshot_Role (signed snap) ''snapshot'' now = Inr ()
        \<and> btm_get (nm @ ''.json'') (snap_meta (signed snap)) = Some pin
        \<and> check_integrity X bs pin (nm @ ''.json'') = Inr ()
        \<and> from_slice X Targets_Role (de_targets X) bs = Inr new
        \<and> tg_version (signed new) = mf_version pin)"
  unfolding verify_targets_pin_def and_then_Inr_iff ok_or_Inr_iff ensure_Inr_iff Let_def by auto

lemma verify_targets_pinD:
  "verify_targets_pin X s bs nm now = Inr new \<Longrightarrow>
     \<exists>snap. t_snapshot s = Some snap \<and> pinned_targets X (signed snap) nm new"
  unfolding verify_targets_pin_Inr pinned_targets_def by blast

lemma update_targets_Inr:
  "update_targets X s bs now = Inr (s', t) \<longleftrightarrow>
     (\<exists>new. verify_targets_pin X s bs ''targets'' now = Inr new
        \<and> verify_with_root X new (signed (t_root s)) ''targets'' = Inr ()
        \<and> ensure_not_expired X Targets_Role (signed new) ''targets'' now = Inr ()
        \<and> s' = s\<lparr>t_targets := btm_insert ''targets'' new (t_targets s)\<rparr> \<and> t = signed new)"
  unfolding update_targets_def and_then_Inr_iff by auto

lemma delegation_authority_Inr:
  "delegation_authority s dn nm = Inr (keys, rk) \<longleftrightarrow>
     (\<exists>md d r. btm_get dn (t_targets s) = Some md \<and> tg_delegations (signed md) = Some d
        \<and> find (\<lambda>r. dr_name r = nm) (del_roles d) = Some r
        \<and> keys = authority_keys d (dr_keyids r) \<and> rk = dr_role_keys r)"
  unfolding delegation_authority_def and_then_Inr_iff ok_or_Inr_iff by auto

lemma update_delegated_targets_Inr:
  "update_delegated_targets X s bs nm dn now = Inr (s', t) \<longleftrightarrow>
     \<not> is_top_level_role nm
     \<and> (\<exists>keys rk new. delegation_authority s dn nm = Inr (keys, rk)
        \<and> verify_targets_pin X s bs nm now = Inr new
        \<and> verify_threshold X new keys rk nm = Inr ()
        \<and> ensure_not_expired X Targets_Role (signed new) nm now = Inr ()
        \<and> s' = s\<lparr>t_targets := btm_insert nm new (t_targets s)\<rparr> \<and> t = signed new)"
  unfolding update_delegated_targets_def by (auto simp: and_then_Inr_iff split: prod.splits)

text \<open>The keys handed to a delegated role are the delegator's, under their declared ids.\<close>

lemma authority_keys_get:
  "btm_get k (authority_keys d kids) = (if k \<in> set kids then btm_get k (del_keys d) else None)"
proof -
  have "btm_get k (fold (\<lambda>kid keys. case btm_get kid (del_keys d) of
             Some x \<Rightarrow> btm_insert kid x keys | None \<Rightarrow> keys) kids m)
      = (if k \<in> set kids \<and> btm_get k (del_keys d) \<noteq> None then btm_get k (del_keys d) else btm_get k m)"
    for m
    by (induction kids arbitrary: m) (auto simp: map_simps split: option.splits)
  then show ?thesis by (auto simp: authority_keys_def)
qed

subsection \<open>A run of the sample repository\<close>

text \<open>Root 1; timestamp, snapshot and targets 1, then timestamp 2, which pins snapshot 2.\<close>

lemma sample_step_timestamp: "lower_step sample_tuf (sample_state r None sn tg) (sample_state r (Some b) sn tg)"
  by (rule lower_step.timestamp [OF sample_update_timestamp [where now = 0]]) simp_all

lemma sample_step_advance:
  "timestamp_advances (sample_timestamp (of_bytes c)) (sample_timestamp (of_bytes b)) = Inr () \<Longrightarrow>
   lower_step sample_tuf (sample_state r (Some c) sn tg) (sample_state r (Some b) sn tg)"
  by (rule lower_step.timestamp [OF sample_update_timestamp [where now = 0]]) simp_all

lemma sample_step_snapshot: "v \<noteq> 0 \<Longrightarrow>
   lower_step sample_tuf (sample_state r (Some [t, v, d]) None tg) (sample_state r (Some [t, v, d]) (Some [v, p, a]) None)"
  by (rule lower_step.snapshot [OF sample_update_snapshot [where now = 0]]) simp_all

lemma sample_step_next_snapshot:
  assumes "no_snapshot_rollback (sample_snapshot (of_bytes c)) (sample_snapshot (of_bytes [v, p, a])) = Inr ()" "v \<noteq> 0"
  shows "lower_step sample_tuf (sample_state r (Some [t, v, d]) (Some c) tg)
    (sample_state r (Some [t, v, d]) (Some [v, p, a]) None)"
  using assms by (intro lower_step.snapshot [OF sample_update_snapshot [where now = 0 and cur = c]]) simp_all

lemma sample_step_targets: "v \<noteq> 0 \<Longrightarrow>
   lower_step sample_tuf (sample_state r ts (Some [s, v, d]) tg) (sample_state r ts (Some [s, v, d]) (Some [v, p, a]))"
  by (rule lower_step.targets [OF sample_update_targets [where now = 0]]) simp_all

lemma sample_pinned_rollback:
  "p \<noteq> 0 \<Longrightarrow> q \<noteq> 0 \<Longrightarrow> version_of_byte p \<le> version_of_byte q \<Longrightarrow>
   no_snapshot_rollback (sample_snapshot (of_bytes [v, p, a])) (sample_snapshot (of_bytes [w, q, b])) = Inr ()"
proof -
  assume "p \<noteq> 0" "q \<noteq> 0" "version_of_byte p \<le> version_of_byte q"
  moreover from this have "snap_meta (sample_snapshot (of_bytes [v, p, a]))
      = [(''targets.json'', \<lparr>mf_version = version_of_byte p, mf_length = Some 3, mf_hashes = None, mf_extra = []\<rparr>)]"
    by (simp add: sample_snapshot_def sample_pins_def)
  ultimately show ?thesis by (simp add: no_snapshot_rollback_Inr)
qed

abbreviation "state1 \<equiv> sample_state [1, 0, 0] (Some [1, 1, 0]) (Some [1, 1, 0]) (Some [1, 0, 0])"
abbreviation "state2 \<equiv> sample_state [1, 0, 0] (Some [2, 2, 0]) (Some [2, 2, 0]) (Some [2, 0, 0])"

lemma sample_reach1: "trusted_reach sample_tuf [1, 0, 0] state1"
proof -
  have "trusted_reach sample_tuf [1, 0, 0] (sample_state [1, 0, 0] None None None)"
    by (rule trusted_reach.start [OF sample_from_root])
  from trusted_reach.step [OF this lower [OF sample_step_timestamp]]
  have "trusted_reach sample_tuf [1, 0, 0] (sample_state [1, 0, 0] (Some [1, 1, 0]) None None)" .
  from trusted_reach.step [OF this lower [OF sample_step_snapshot]]
  have "trusted_reach sample_tuf [1, 0, 0] (sample_state [1, 0, 0] (Some [1, 1, 0]) (Some [1, 1, 0]) None)" by simp
  from trusted_reach.step [OF this lower [OF sample_step_targets]] show ?thesis by simp
qed

lemma sample_reach2: "(lower_step sample_tuf)\<^sup>*\<^sup>* state1 state2"
proof -
  have v: "version_of_byte 1 < version_of_byte 2" "version_of_byte 1 \<le> version_of_byte 2"
    by (simp_all add: version_of_byte_def)
  have "lower_step sample_tuf state1 (sample_state [1, 0, 0] (Some [2, 2, 0]) (Some [1, 1, 0]) (Some [1, 0, 0]))"
    by (rule sample_step_advance) (simp add: timestamp_advances_Inr v)
  moreover have "lower_step sample_tuf (sample_state [1, 0, 0] (Some [2, 2, 0]) (Some [1, 1, 0]) (Some [1, 0, 0]))
      (sample_state [1, 0, 0] (Some [2, 2, 0]) (Some [2, 2, 0]) None)"
    by (rule sample_step_next_snapshot) (simp_all add: sample_pinned_rollback v)
  moreover have "lower_step sample_tuf (sample_state [1, 0, 0] (Some [2, 2, 0]) (Some [2, 2, 0]) None) state2"
    by (rule sample_step_targets) simp
  ultimately show ?thesis by (meson converse_rtranclp_into_rtranclp rtranclp.rtrancl_refl)
qed

subsection \<open>The invariant\<close>

text \<open>
  A targets role is trusted when its pin in the snapshot fits and it is signed by the root or by
  the authority that a trusted targets role delegates to it.
\<close>

inductive targets_trusted :: "'z tuf_externals_scheme \<Rightarrow> root \<Rightarrow> snapshot \<Rightarrow> string \<Rightarrow> targets metadata \<Rightarrow> bool"
  for X r snap where
  top: "verify_with_root X md r ''targets'' = Inr () \<Longrightarrow> pinned_targets X snap ''targets'' md
    \<Longrightarrow> targets_trusted X r snap ''targets'' md"
| delegated: "targets_trusted X r snap dn D \<Longrightarrow> tg_delegations (signed D) = Some d
    \<Longrightarrow> find (\<lambda>x. dr_name x = nm) (del_roles d) = Some dr \<Longrightarrow> \<not> is_top_level_role nm
    \<Longrightarrow> verify_threshold X md (authority_keys d (dr_keyids dr)) (dr_role_keys dr) nm = Inr ()
    \<Longrightarrow> pinned_targets X snap nm md \<Longrightarrow> targets_trusted X r snap nm md"

definition trusted_wf :: "'z tuf_externals_scheme \<Rightarrow> trusted_set \<Rightarrow> bool" where
  "trusted_wf X s \<longleftrightarrow>
     verify_root_self_signed X (t_root s) = Inr ()
     \<and> (\<forall>ts. t_timestamp s = Some ts \<longrightarrow> verify_with_root X ts (signed (t_root s)) ''timestamp'' = Inr ())
     \<and> (\<forall>sn. t_snapshot s = Some sn \<longrightarrow> verify_with_root X sn (signed (t_root s)) ''snapshot'' = Inr ())
     \<and> (\<forall>nm md. btm_get nm (t_targets s) = Some md \<longrightarrow>
          (\<exists>sn. t_snapshot s = Some sn
             \<and> targets_trusted X (signed (t_root s)) (signed sn) nm md))"

lemma trusted_wf_start:
  "verify_root_self_signed X r = Inr () \<Longrightarrow>
   trusted_wf X \<lparr>t_root = r, t_timestamp = None, t_snapshot = None, t_targets = []\<rparr>"
  by (simp add: trusted_wf_def)

lemma trusted_wf_timestamp: "trusted_wf X s \<Longrightarrow> update_timestamp X s bs now = Inr s' \<Longrightarrow> trusted_wf X s'"
  by (auto simp: trusted_wf_def update_timestamp_Inr)

lemma trusted_wf_snapshot: "trusted_wf X s \<Longrightarrow> update_snapshot X s bs now = Inr s' \<Longrightarrow> trusted_wf X s'"
  by (auto simp: trusted_wf_def update_snapshot_Inr)

lemma trusted_wf_insert:
  assumes "trusted_wf X s" "t_snapshot s = Some sn"
    "targets_trusted X (signed (t_root s)) (signed sn) nm md"
  shows "trusted_wf X (s\<lparr>t_targets := btm_insert nm md (t_targets s)\<rparr>)"
  using assms by (auto simp: trusted_wf_def map_simps split: if_splits)

lemma trusted_wf_targets: "trusted_wf X s \<Longrightarrow> update_targets X s bs now = Inr (s', t) \<Longrightarrow> trusted_wf X s'"
  by (auto simp: update_targets_Inr dest!: verify_targets_pinD intro!: trusted_wf_insert targets_trusted.top)

lemma trusted_wf_delegated:
  assumes "trusted_wf X s" "update_delegated_targets X s bs nm dn now = Inr (s', t)"
  shows "trusted_wf X s'"
proof -
  from assms(2) obtain keys rk md where a: "delegation_authority s dn nm = Inr (keys, rk)"
    and p: "verify_targets_pin X s bs nm now = Inr md" and v: "verify_threshold X md keys rk nm = Inr ()"
    and s': "s' = s\<lparr>t_targets := btm_insert nm md (t_targets s)\<rparr>" and n: "\<not> is_top_level_role nm"
    unfolding update_delegated_targets_Inr by blast
  from verify_targets_pinD [OF p] obtain sn where sn: "t_snapshot s = Some sn"
    and pin: "pinned_targets X (signed sn) nm md" by blast
  from a obtain D d r where D: "btm_get dn (t_targets s) = Some D" "tg_delegations (signed D) = Some d"
    "find (\<lambda>r. dr_name r = nm) (del_roles d) = Some r"
    "keys = authority_keys d (dr_keyids r)" "rk = dr_role_keys r"
    unfolding delegation_authority_Inr by blast
  have "targets_trusted X (signed (t_root s)) (signed sn) dn D"
    using assms(1) D(1) sn by (auto simp: trusted_wf_def)
  with D(2-5) n v pin have "targets_trusted X (signed (t_root s)) (signed sn) nm md"
    by (auto intro: targets_trusted.delegated)
  with assms(1) sn s' show ?thesis by (simp add: trusted_wf_insert)
qed

lemma trusted_wf_step:
  assumes "trusted_wf X s" "trusted_step X s s'" shows "trusted_wf X s'"
  using assms(2)
proof cases
  case (root bs)
  then show ?thesis by (auto simp: update_root_Inr intro: trusted_wf_start)
next
  case lower
  then show ?thesis
    using assms(1) trusted_wf_timestamp trusted_wf_snapshot trusted_wf_targets trusted_wf_delegated
    by (cases rule: lower_stepE) blast+
qed

lemma reach_wf: "trusted_reach X b s \<Longrightarrow> trusted_wf X s"
  by (induction rule: trusted_reach.induct) (auto simp: from_root_Inr intro: trusted_wf_start trusted_wf_step)

text \<open>C28: in every reachable state the root is signed by its own keys, timestamp and snapshot by the
  root, and every targets role is pinned by the snapshot (bytes, digests and version) and signed
  along a chain of delegations that starts at the root.\<close>

theorem trusted_reach_wf:
  assumes "trusted_reach X b s"
  shows "trusted_wf X s"
  using assms by (rule reach_wf)

theorem trusted_reach_wf_witness: "trusted_wf sample_tuf state1"
  by (rule trusted_reach_wf [OF sample_reach1])

text \<open>\<open>r'\<close> follows \<open>r\<close>: the next version, signed by the keys of both.\<close>

definition root_succ :: "'z externals_scheme \<Rightarrow> root metadata \<Rightarrow> root metadata \<Rightarrow> bool" where
  "root_succ X r r' \<longleftrightarrow>
     root_version (signed r') = root_version (signed r) + 1
     \<and> verify_with_root X r' (signed r) ''root'' = Inr ()
     \<and> verify_with_root X r' (signed r') ''root'' = Inr ()"

lemma lower_step_root: "lower_step X s s' \<Longrightarrow> t_root s' = t_root s"
  by (erule lower_stepE)
    (auto simp: update_timestamp_Inr update_snapshot_Inr update_targets_Inr update_delegated_targets_Inr)

text \<open>C5: the chain of trust.  The root of a reachable state is linked to the pinned root by a chain
  of roots, each signed to the threshold of its predecessor's and of its own root role, whose
  versions count up by one.\<close>

theorem root_chain:
  assumes "trusted_reach X b s"
  shows "\<exists>r0 n. from_slice X Root_Role (de_root X) b = Inr r0
    \<and> verify_with_root X r0 (signed r0) ''root'' = Inr ()
    \<and> (root_succ X ^^ n) r0 (t_root s)
    \<and> root_version (signed (t_root s)) = root_version (signed r0) + of_nat n"
  using assms
proof induction
  case (start s)
  then show ?case
    by (intro exI [of _ "t_root s"] exI [of _ 0]) (auto simp: from_root_Inr verify_root_self_signed_iff)
next
  case (step s s')
  then obtain r0 n where IH: "from_slice X Root_Role (de_root X) b = Inr r0"
    "verify_with_root X r0 (signed r0) ''root'' = Inr ()" "(root_succ X ^^ n) r0 (t_root s)"
    "root_version (signed (t_root s)) = root_version (signed r0) + of_nat n" by blast
  from step.hyps(2) show ?case
  proof cases
    case (root bs)
    then have "root_succ X (t_root s) (t_root s')"
      by (auto simp: update_root_Inr root_succ_def verify_root_self_signed_iff)
    with IH have "(root_succ X ^^ Suc n) r0 (t_root s')"
      "root_version (signed (t_root s')) = root_version (signed r0) + of_nat (Suc n)"
      by (auto simp: root_succ_def)
    with IH show ?thesis by blast
  next
    case lower
    then show ?thesis using IH lower_step_root by metis
  qed
qed

theorem root_chain_witness:
  "\<exists>r0 n. from_slice sample_tuf Root_Role (de_root sample_tuf) [1, 0, 0] = Inr r0
    \<and> verify_with_root sample_tuf r0 (signed r0) ''root'' = Inr ()
    \<and> (root_succ sample_tuf ^^ n) r0 (t_root (sample_state [2, 0, 0] None None None))
    \<and> root_version (signed (t_root (sample_state [2, 0, 0] None None None)))
        = root_version (signed r0) + of_nat n"
proof (rule root_chain)
  have "update_root sample_tuf state1 [2, 0, 0] = Inr (sample_state [2, 0, 0] None None None)"
    by (rule sample_update_root) (simp add: version_of_byte_def)
  from trusted_reach.step [OF sample_reach1 root [OF this]]
  show "trusted_reach sample_tuf [1, 0, 0] (sample_state [2, 0, 0] None None None)" .
qed

subsection \<open>Versions never go backwards while the root stays\<close>

lemma lower_step_timestamp:
  "lower_step X s s' \<Longrightarrow> t_timestamp s = Some ts \<Longrightarrow>
   \<exists>ts'. t_timestamp s' = Some ts' \<and> ts_version (signed ts) \<le> ts_version (signed ts')"
  by (erule lower_stepE)
    (auto simp: update_timestamp_Inr update_snapshot_Inr update_targets_Inr update_delegated_targets_Inr)

text \<open>C7: no timestamp rollback: along any sequence of successful updates that keeps the root, the
  version of the trusted timestamp does not decrease and the timestamp is never lost.\<close>

theorem timestamp_no_rollback:
  assumes "(lower_step X)\<^sup>*\<^sup>* s s'" "t_timestamp s = Some ts"
  shows "\<exists>ts'. t_timestamp s' = Some ts' \<and> ts_version (signed ts) \<le> ts_version (signed ts')"
  using assms(1)
proof induction
  case base
  with assms(2) show ?case by auto
next
  case (step u v)
  then show ?case using lower_step_timestamp order_trans by blast
qed

theorem timestamp_no_rollback_witness:
  "\<exists>ts'. t_timestamp state2 = Some ts'
    \<and> ts_version (signed (sample_file sample_timestamp [1, 1, 0])) \<le> ts_version (signed ts')"
  by (rule timestamp_no_rollback [OF sample_reach2]) (simp add: sample_state_def)

lemma lower_step_pins:
  assumes "lower_step X s s'" "t_snapshot s = Some sn" "btm_get nm (snap_meta (signed sn)) = Some m"
  shows "\<exists>sn' m'. t_snapshot s' = Some sn' \<and> btm_get nm (snap_meta (signed sn')) = Some m'
    \<and> mf_version m \<le> mf_version m'"
  using assms(1)
proof cases
  case (snapshot bs now)
  with assms(2) obtain new where "t_snapshot s' = Some new"
    "no_snapshot_rollback (signed sn) (signed new) = Inr ()"
    unfolding update_snapshot_Inr by auto
  with btm_get_in_set [OF assms(3)] show ?thesis by (auto simp: no_snapshot_rollback_Inr)
qed (use assms in \<open>auto simp: update_timestamp_Inr update_targets_Inr update_delegated_targets_Inr\<close>)

lemma pins_monotone:
  assumes "(lower_step X)\<^sup>*\<^sup>* s s'" "t_snapshot s = Some sn" "btm_get nm (snap_meta (signed sn)) = Some m"
  shows "\<exists>sn' m'. t_snapshot s' = Some sn' \<and> btm_get nm (snap_meta (signed sn')) = Some m'
    \<and> mf_version m \<le> mf_version m'"
  using assms(1)
proof induction
  case base
  with assms(2,3) show ?case by auto
next
  case (step u v)
  then obtain sn' m' where "t_snapshot u = Some sn'" "btm_get nm (snap_meta (signed sn')) = Some m'"
    "mf_version m \<le> mf_version m'" by blast
  with lower_step_pins [OF step.hyps(2)] show ?case by (meson order_trans)
qed

lemma targets_trusted_pinned: "targets_trusted X r snap nm md \<Longrightarrow> pinned_targets X snap nm md"
  by (erule targets_trusted.cases) auto

lemma trusted_wf_lower_steps: "(lower_step X)\<^sup>*\<^sup>* s s' \<Longrightarrow> trusted_wf X s \<Longrightarrow> trusted_wf X s'"
  by (induction rule: rtranclp_induct) (auto intro: trusted_wf_step trusted_step.lower)

text \<open>C6: no targets rollback: once a targets role, top-level or delegated, has been trusted at a
  version, no later state under the same root trusts that role at a lower one, however many
  timestamps and snapshots were exchanged in between.\<close>

theorem targets_no_rollback:
  assumes "trusted_reach X b s" "(lower_step X)\<^sup>*\<^sup>* s s'"
    and "btm_get nm (t_targets s) = Some md" "btm_get nm (t_targets s') = Some md'"
  shows "tg_version (signed md) \<le> tg_version (signed md')"
proof -
  have wf: "trusted_wf X s" using assms(1) by induction
    (auto simp: from_root_Inr intro: trusted_wf_start trusted_wf_step)
  have pin: "\<exists>sn m. t_snapshot u = Some sn \<and> btm_get (nm @ ''.json'') (snap_meta (signed sn)) = Some m
      \<and> tg_version (signed x) = mf_version m"
    if "trusted_wf X u" "btm_get nm (t_targets u) = Some x" for u x
  proof -
    from that obtain sn where "t_snapshot u = Some sn" "pinned_targets X (signed sn) nm x"
      using targets_trusted_pinned unfolding trusted_wf_def by blast
    then show ?thesis unfolding pinned_targets_def by blast
  qed
  from pin [OF wf assms(3)] obtain sn m where "t_snapshot s = Some sn"
    "btm_get (nm @ ''.json'') (snap_meta (signed sn)) = Some m" "tg_version (signed md) = mf_version m" by blast
  with pins_monotone [OF assms(2) this(1,2)] pin [OF trusted_wf_lower_steps [OF assms(2) wf] assms(4)]
  show ?thesis by auto
qed

theorem targets_no_rollback_witness:
  "tg_version (signed (sample_file sample_targets [1, 0, 0]))
   \<le> tg_version (signed (sample_file sample_targets [2, 0, 0]))"
  by (rule targets_no_rollback [OF sample_reach1 sample_reach2, where nm = "''targets''"])
    (simp_all add: sample_state_def btm_get_def)

text \<open>The snapshot itself is not protected that way.  A timestamp without a snapshot pin is
  accepted and drops the pinned version, so under one root the trusted snapshot can go from
  version 5 to version 3, although the update of the timestamp rejects a pin that goes backwards.\<close>

theorem snapshot_rollback_reachable:
  "\<exists>s s' sn sn'. trusted_reach sample_tuf [1, 0, 0] s \<and> (lower_step sample_tuf)\<^sup>*\<^sup>* s s'
     \<and> t_snapshot s = Some sn \<and> t_snapshot s' = Some sn'
     \<and> snap_version (signed sn') = 3 \<and> snap_version (signed sn) = 5"
proof -
  have v: "version_of_byte 5 < version_of_byte 6" "version_of_byte 6 < version_of_byte 7"
    by (simp_all add: version_of_byte_def)
  let ?init = "sample_state [1, 0, 0] None None None"
  let ?s = "sample_state [1, 0, 0] (Some [5, 5, 0]) (Some [5, 1, 0]) None"
  let ?s' = "sample_state [1, 0, 0] (Some [7, 3, 0]) (Some [3, 1, 0]) None"
  have "trusted_reach sample_tuf [1, 0, 0] ?init" by (rule trusted_reach.start [OF sample_from_root])
  from trusted_reach.step [OF this lower [OF sample_step_timestamp]]
  have "trusted_reach sample_tuf [1, 0, 0] (sample_state [1, 0, 0] (Some [5, 5, 0]) None None)" .
  moreover have "lower_step sample_tuf (sample_state [1, 0, 0] (Some [5, 5, 0]) None None) ?s"
    by (rule sample_step_snapshot) simp
  ultimately have r: "trusted_reach sample_tuf [1, 0, 0] ?s"
    by (blast intro: trusted_reach.step lower)
  have "lower_step sample_tuf ?s (sample_state [1, 0, 0] (Some [6, 0, 0]) (Some [5, 1, 0]) None)"
    by (rule sample_step_advance) (simp add: timestamp_advances_Inr v)
  moreover have "lower_step sample_tuf (sample_state [1, 0, 0] (Some [6, 0, 0]) (Some [5, 1, 0]) None)
      (sample_state [1, 0, 0] (Some [7, 3, 0]) (Some [5, 1, 0]) None)"
    by (rule sample_step_advance) (simp add: timestamp_advances_Inr v)
  moreover have "lower_step sample_tuf (sample_state [1, 0, 0] (Some [7, 3, 0]) (Some [5, 1, 0]) None) ?s'"
    by (rule sample_step_next_snapshot) (simp_all add: sample_pinned_rollback)
  ultimately have "(lower_step sample_tuf)\<^sup>*\<^sup>* ?s ?s'"
    by (meson converse_rtranclp_into_rtranclp rtranclp.rtrancl_refl)
  moreover have "t_snapshot ?s = Some (sample_file sample_snapshot [5, 1, 0])"
    "t_snapshot ?s' = Some (sample_file sample_snapshot [3, 1, 0])" by (simp_all add: sample_state_def)
  moreover have "snap_version (signed (sample_file sample_snapshot [3, 1, 0])) = 3"
    "snap_version (signed (sample_file sample_snapshot [5, 1, 0])) = 5" by (simp_all add: version_of_byte_def)
  ultimately show ?thesis using r by blast
qed


text \<open>C8: a threshold is a number of key ids.  Metadata passes exactly when the declared threshold is
  positive, no authorized id signs twice, and at least as many distinct authorized key ids as declared
  have a signature over its canonical bytes that the key registered under that id verifies.  The ids
  are counted, not the keys: ids are not tied to keys, so one key under two ids counts twice (see
  \<open>one_key_two_ids\<close>).\<close>

theorem threshold_exact:
  "verify_threshold X md keys rk nm = Inr () \<longleftrightarrow>
     0 < rk_threshold rk
     \<and> distinct (map keyid (filter (\<lambda>s. keyid s \<in> set (rk_keyids rk) \<and> sig s \<noteq> []) (signatures md)))
     \<and> rk_threshold rk \<le> card {id \<in> set (rk_keyids rk). \<exists>s \<in> set (signatures md). \<exists>k raw vk.
          keyid s = id \<and> sig s \<noteq> [] \<and> btm_get id keys = Some k
          \<and> hex_decode X (sig s) = Inr raw \<and> key_verification_key X k = Inr vk
          \<and> aws_verify X (fst (verify_arm (vk_scheme vk))) (vk_bytes vk) (canonical_signed md) raw}"
proof -
  have "valid_signers X md keys rk = {id \<in> set (rk_keyids rk). \<exists>s \<in> set (signatures md). \<exists>k raw vk.
          keyid s = id \<and> sig s \<noteq> [] \<and> btm_get id keys = Some k
          \<and> hex_decode X (sig s) = Inr raw \<and> key_verification_key X k = Inr vk
          \<and> aws_verify X (fst (verify_arm (vk_scheme vk))) (vk_bytes vk) (canonical_signed md) raw}"
    by (auto simp: valid_signers_def considered_def signature_validD image_iff)
  then show ?thesis by (simp add: verify_threshold_Inr considered_def)
qed

text \<open>One key, registered and signing under two ids, meets a threshold of two.\<close>

lemma one_key_two_ids:
  assumes "key_verification_key X k = Inr vk" "hex_decode X t = Inr raw" "t \<noteq> []"
    and "aws_verify X (fst (verify_arm (vk_scheme vk))) (vk_bytes vk) c raw"
  shows "verify_threshold X
    \<lparr>signatures = [\<lparr>keyid = ''a'', sig = t\<rparr>, \<lparr>keyid = ''b'', sig = t\<rparr>], signed = r, canonical_signed = c\<rparr>
    [(''a'', k), (''b'', k)] \<lparr>rk_keyids = [''a'', ''b''], rk_threshold = 2, rk_extra = []\<rparr> nm = Inr ()"
proof -
  have "signature_valid X c [(''a'', k), (''b'', k)] \<lparr>keyid = id, sig = t\<rparr>" if "id = ''a'' \<or> id = ''b''" for id
    using that assms by (auto simp: signature_validD btm_get_def)
  then show ?thesis using assms(3) by (simp add: verify_threshold_Inr valid_signers_def considered_def)
qed

text \<open>Signatures by keys that are not authorized have no effect.  Adding or removing them changes
  neither acceptance nor the error.\<close>

theorem unauthorized_signatures_inert:
  "verify_threshold X (md\<lparr>signatures := filter (\<lambda>s. keyid s \<in> set (rk_keyids rk)) (signatures md)\<rparr>) keys rk nm
     = verify_threshold X md keys rk nm"
proof -
  have "threshold_loop X c keys A nm good seen (filter (\<lambda>s. keyid s \<in> A) sigs)
      = threshold_loop X c keys A nm good seen sigs" for c A good seen sigs
    by (induction sigs arbitrary: good seen) (auto simp: Let_def split: option.splits sum.splits)
  then show ?thesis by (simp add: verify_threshold_def)
qed

end
