(* ===== verification/Updater.thy ===== *)
theory Updater
  imports Tuf_Store Trusted_Correct
begin

text \<open>
  The crate sigstore-tuf, part 5 (src/client.rs): the updater, which drives the trusted metadata
  with files of a repository and of a local store, and resolves and downloads targets.

  The repository and the store are values of any type with their operations in \<open>services\<close>; the
  updater's methods are actions on the updater, so that the cache writes and repository calls made
  before an error are part of the result.  The loops that end by themselves are structural or have
  a measure; adopting the cached roots is a partial function, since a store may hold a file for
  every version.
\<close>

record ('r, 's) services =
  fetch_metadata_of :: "'r fetch"
  fetch_target_of :: "'r fetch"
  load_of :: "'s \<Rightarrow> string \<Rightarrow> bytes option"
  store_of :: "'s \<Rightarrow> string \<Rightarrow> bytes \<Rightarrow> 's \<times> (unit, tuf_error) result"

record ('r, 's) updater =
  u_repo :: 'r
  u_trusted :: trusted_set
  u_config :: updater_config
  u_store :: "'s option"

type_synonym ('r, 's, 'a) updating = "(('r, 's) updater, 'a, tuf_error) action"

definition new_updater :: "'z tuf_externals_scheme \<Rightarrow> 'r \<Rightarrow> bytes \<Rightarrow> (('r, 's) updater, tuf_error) result" where
  "new_updater X rp root_bytes =
     and_then (from_root X root_bytes) (\<lambda>trusted.
     Inr \<lparr>u_repo = rp, u_trusted = trusted, u_config = default_config, u_store = None\<rparr>)"

definition with_config :: "('r, 's) updater \<Rightarrow> updater_config \<Rightarrow> ('r, 's) updater" where
  "with_config u c = u\<lparr>u_config := c\<rparr>"

text \<open>The loop of \<open>with_store\<close>.\<close>

definition root_history_name :: "u64 \<Rightarrow> string" where
  "root_history_name v = ''root_history/'' @ fmt_u64 v @ ''.root.json''"

partial_function (option) adopt_roots ::
  "'z tuf_externals_scheme \<Rightarrow> (string \<Rightarrow> bytes option) \<Rightarrow> trusted_set \<Rightarrow> trusted_set option" where
  "adopt_roots X ld t =
     (case ld (root_history_name (root_version (signed (t_root t)) + 1)) of
        None \<Rightarrow> Some t
      | Some bs \<Rightarrow>
          (case update_root X t bs of
             Inl _ \<Rightarrow> Some t
           | Inr t' \<Rightarrow> adopt_roots X ld t'))"

definition with_store :: "'z tuf_externals_scheme \<Rightarrow> ('r, 's) services \<Rightarrow> ('r, 's) updater \<Rightarrow> 's
    \<Rightarrow> ('r, 's) updater option" where
  "with_store X V u s =
     map_option (\<lambda>t. u\<lparr>u_trusted := t, u_store := Some s\<rparr>) (adopt_roots X (load_of V s) (u_trusted u))"

subsection \<open>Access to the parts\<close>

definition cache_put :: "('r, 's) services \<Rightarrow> string \<Rightarrow> bytes \<Rightarrow> ('r, 's) updater \<Rightarrow> ('r, 's) updater" where
  "cache_put V nm bs u =
     (case u_store u of
        Some s \<Rightarrow> u\<lparr>u_store := Some (fst (store_of V s nm bs))\<rparr>
      | None \<Rightarrow> u)"

definition fetch_metadata :: "('r, 's) services \<Rightarrow> string \<Rightarrow> u64 \<Rightarrow> ('r, 's, bytes option) updating" where
  "fetch_metadata V nm n u =
     (let (r, res) = fetch_metadata_of V (u_repo u) nm n in (u\<lparr>u_repo := r\<rparr>, res))"

definition fetch_target :: "('r, 's) services \<Rightarrow> string \<Rightarrow> u64 \<Rightarrow> ('r, 's, bytes option) updating" where
  "fetch_target V path n u =
     (let (r, res) = fetch_target_of V (u_repo u) path n in (u\<lparr>u_repo := r\<rparr>, res))"

text \<open>A call of a method of the trusted set: an error leaves the set as it is.\<close>

definition trust :: "(trusted_set \<Rightarrow> (trusted_set, tuf_error) result) \<Rightarrow> ('r, 's, unit) updating" where
  "trust f u = (case f (u_trusted u) of Inl e \<Rightarrow> (u, Inl e) | Inr t \<Rightarrow> (u\<lparr>u_trusted := t\<rparr>, Inr ()))"

definition or_transport :: "string \<Rightarrow> bytes option \<Rightarrow> (bytes, tuf_error) result" where
  "or_transport msg x = ok_or (Transport msg) x"

subsection \<open>refresh\<close>

text \<open>The \<open>for next in (start + 1)..=(start + max_root_rotations)\<close> loop.\<close>

fun refresh_root_loop :: "'z tuf_externals_scheme \<Rightarrow> ('r, 's) services \<Rightarrow> u64 \<Rightarrow> nat list
    \<Rightarrow> ('r, 's, unit) updating" where
  "refresh_root_loop X V max_rotations [] =
     throwS (Transport (''exceeded '' @ fmt_u64 max_rotations
       @ '' root rotations without reaching the latest root''))"
| "refresh_root_loop X V max_rotations (next # rest) =
     bindS (getS u_config) (\<lambda>c.
     bindS (fetch_metadata V (fmt_nat next @ ''.root.json'') (root_max_length c)) (\<lambda>found.
     case found of
       None \<Rightarrow> returnS ()
     | Some bs \<Rightarrow>
         bindS (trust (\<lambda>t. update_root X t bs)) (\<lambda>_.
         bindS (modifyS (cache_put V (''root_history/'' @ fmt_nat next @ ''.root.json'') bs)) (\<lambda>_.
         bindS (modifyS (cache_put V ''root.json'' bs)) (\<lambda>_.
         refresh_root_loop X V max_rotations rest)))))"

definition refresh_root :: "'z tuf_externals_scheme \<Rightarrow> ('r, 's) services \<Rightarrow> ('r, 's, unit) updating" where
  "refresh_root X V =
     bindS (getS u_config) (\<lambda>c.
     bindS (getS (\<lambda>u. root_version (signed (t_root (u_trusted u))))) (\<lambda>start.
     refresh_root_loop X V (max_root_rotations c)
       [unat (start + 1)..<Suc (unat (start + max_root_rotations c))]))"

definition seed_one :: "('s \<Rightarrow> string \<Rightarrow> bytes option) \<Rightarrow> 's \<Rightarrow> string
    \<Rightarrow> (trusted_set \<Rightarrow> bytes \<Rightarrow> (trusted_set, tuf_error) result) \<Rightarrow> trusted_set \<Rightarrow> trusted_set" where
  "seed_one ld s nm f t =
     (case ld s nm of None \<Rightarrow> t | Some bs \<Rightarrow> (case f t bs of Inl _ \<Rightarrow> t | Inr t' \<Rightarrow> t'))"

definition seed_lower_from_store :: "'z tuf_externals_scheme \<Rightarrow> ('r, 's) services \<Rightarrow> timestamp
    \<Rightarrow> ('r, 's) updater \<Rightarrow> ('r, 's) updater" where
  "seed_lower_from_store X V now u =
     (case u_store u of
        None \<Rightarrow> u
      | Some s \<Rightarrow>
          u\<lparr>u_trusted :=
             seed_one (load_of V) s ''targets.json''
               (\<lambda>t bs. map_sum id fst (update_targets X t bs now))
            (seed_one (load_of V) s ''snapshot.json'' (\<lambda>t bs. update_snapshot X t bs now)
            (seed_one (load_of V) s ''timestamp.json'' (\<lambda>t bs. update_timestamp X t bs now)
               (u_trusted u)))\<rparr>)"

definition refresh_timestamp :: "'z tuf_externals_scheme \<Rightarrow> ('r, 's) services \<Rightarrow> timestamp
    \<Rightarrow> ('r, 's, unit) updating" where
  "refresh_timestamp X V now =
     bindS (getS u_config) (\<lambda>c.
     bindS (fetch_metadata V ''timestamp.json'' (timestamp_max_length c)) (\<lambda>found.
     bindS (liftS (or_transport ''timestamp.json not found'' found)) (\<lambda>bs u.
     case update_timestamp X (u_trusted u) bs now of
       Inr t \<Rightarrow> (cache_put V ''timestamp.json'' bs (u\<lparr>u_trusted := t\<rparr>), Inr ())
     | Inl (EqualVersion _ _) \<Rightarrow> (u, Inr ())
     | Inl e \<Rightarrow> (u, Inl e))))"

definition pinned_snapshot_version :: "trusted_set \<Rightarrow> u64 option" where
  "pinned_snapshot_version t =
     map_option mf_version (Option.bind (t_timestamp t) (\<lambda>ts. snapshot_meta (signed ts)))"

definition refresh_snapshot :: "'z tuf_externals_scheme \<Rightarrow> ('r, 's) services \<Rightarrow> timestamp
    \<Rightarrow> ('r, 's, unit) updating" where
  "refresh_snapshot X V now =
     bindS (getS u_trusted) (\<lambda>t.
     let consistent = consistent_snapshot (signed (t_root t)) in
     bindS (liftS (ok_or (Malformed ''timestamp does not pin snapshot'') (pinned_snapshot_version t)))
       (\<lambda>version.
     bindS (liftS (check_timestamp_expired X t now)) (\<lambda>_.
     bindS (liftS (case t_snapshot t of
         None \<Rightarrow> Inr False
       | Some snap \<Rightarrow>
           if snap_version (signed snap) = version then
             and_then (is_expired X Snapshot_Role (signed snap) now) (\<lambda>e. Inr (\<not> e))
           else Inr False)) (\<lambda>reuse.
     if reuse then returnS ()
     else
       let nm = if consistent then fmt_u64 version @ ''.snapshot.json'' else ''snapshot.json'' in
       bindS (getS u_config) (\<lambda>c.
       bindS (fetch_metadata V nm (snapshot_max_length c)) (\<lambda>found.
       bindS (liftS (or_transport (nm @ '' not found'') found)) (\<lambda>bs.
       bindS (trust (\<lambda>t. update_snapshot X t bs now)) (\<lambda>_.
       bindS (modifyS (cache_put V nm bs)) (\<lambda>_.
       modifyS (cache_put V ''snapshot.json'' bs))))))))))"

definition hex_upper_digit :: "nat \<Rightarrow> char" where
  "hex_upper_digit d = (if d < 10 then digit d else char_of (55 + d))"

definition unreserved :: "char \<Rightarrow> bool" where
  "unreserved c \<longleftrightarrow> (CHR ''A'' \<le> c \<and> c \<le> CHR ''Z'') \<or> (CHR ''a'' \<le> c \<and> c \<le> CHR ''z'') \<or> is_digit c
     \<or> c = CHR ''-'' \<or> c = CHR ''_'' \<or> c = CHR ''.'' \<or> c = CHR ''~''"

definition encode_role :: "string \<Rightarrow> string" where
  "encode_role role = concat (map (\<lambda>c. if unreserved c then [c]
     else [CHR ''%'', hex_upper_digit (of_char c div 16), hex_upper_digit (of_char c mod 16)]) role)"

definition fetch_targets_metadata :: "('r, 's) services \<Rightarrow> string \<Rightarrow> ('r, 's, bytes) updating" where
  "fetch_targets_metadata V role_name =
     bindS (getS u_trusted) (\<lambda>t.
     let consistent = consistent_snapshot (signed (t_root t));
         pin_key = role_name @ ''.json'' in
     bindS (liftS (ok_or (Malformed (''snapshot does not pin '' @ pin_key))
       (map_option mf_version (Option.bind (t_snapshot t) (\<lambda>s. btm_get pin_key (snap_meta (signed s))))))) (\<lambda>version.
     let encoded = encode_role role_name;
         nm = (if consistent then fmt_u64 version @ ''.'' @ encoded @ ''.json'' else encoded @ ''.json'') in
     bindS (getS u_config) (\<lambda>c.
     bindS (fetch_metadata V nm (targets_max_length c)) (\<lambda>found.
     liftS (or_transport (nm @ '' not found'') found)))))"

definition refresh_targets :: "'z tuf_externals_scheme \<Rightarrow> ('r, 's) services \<Rightarrow> timestamp
    \<Rightarrow> ('r, 's, unit) updating" where
  "refresh_targets X V now =
     bindS (getS u_trusted) (\<lambda>t.
     bindS (liftS (check_snapshot_expired X t now)) (\<lambda>_.
     let pinned = map_option mf_version
           (Option.bind (t_snapshot t) (\<lambda>s. btm_get ''targets.json'' (snap_meta (signed s)))) in
     bindS (liftS (case (targets_role t ''targets'', pinned) of
         (Some tgt, Some pv) \<Rightarrow>
           if tg_version tgt = pv then
             and_then (is_expired X Targets_Role tgt now) (\<lambda>e. Inr (\<not> e))
           else Inr False
       | _ \<Rightarrow> Inr False)) (\<lambda>reuse.
     if reuse then returnS ()
     else
       bindS (fetch_targets_metadata V ''targets'') (\<lambda>bs.
       bindS (trust (\<lambda>t. map_sum id fst (update_targets X t bs now))) (\<lambda>_.
       modifyS (cache_put V ''targets.json'' bs))))))"

definition refresh :: "'z tuf_externals_scheme \<Rightarrow> ('r, 's) services \<Rightarrow> timestamp \<Rightarrow> ('r, 's, unit) updating" where
  "refresh X V now =
     bindS (refresh_root X V) (\<lambda>_.
     bindS (getS u_trusted) (\<lambda>t.
     bindS (liftS (check_root_expired X t now)) (\<lambda>_.
     bindS (modifyS (seed_lower_from_store X V now)) (\<lambda>_.
     bindS (refresh_timestamp X V now) (\<lambda>_.
     bindS (refresh_snapshot X V now) (\<lambda>_.
     refresh_targets X V now))))))"

subsection \<open>get\_targetinfo\<close>

text \<open>
  Loading a role that is visited: \<open>Inr False\<close> is the \<open>continue\<close> for a role the snapshot does not
  pin.
\<close>

definition load_role :: "'z tuf_externals_scheme \<Rightarrow> ('r, 's) services \<Rightarrow> string \<Rightarrow> string \<Rightarrow> timestamp
    \<Rightarrow> ('r, 's, bool) updating" where
  "load_role X V role delegator now =
     bindS (getS u_trusted) (\<lambda>t.
     if role \<noteq> ''targets'' \<and> targets_role t role = None then
       let pinned = (case t_snapshot t of None \<Rightarrow> False
             | Some s \<Rightarrow> btm_get (role @ ''.json'') (snap_meta (signed s)) \<noteq> None) in
       if \<not> pinned then returnS False
       else
         bindS (fetch_targets_metadata V role) (\<lambda>bs.
         bindS (trust (\<lambda>t. map_sum id fst (update_delegated_targets X t bs role delegator now))) (\<lambda>_.
         bindS (modifyS (cache_put V (encode_role role @ ''.json'') bs)) (\<lambda>_.
         returnS True)))
     else returnS True)"

text \<open>The children of a role that match the path, and whether one of them terminates the search.\<close>

fun child_loop :: "'z tuf_externals_scheme \<Rightarrow> string \<Rightarrow> string \<Rightarrow> delegated_role list
    \<Rightarrow> ((string \<times> string) list \<times> bool, tuf_error) result" where
  "child_loop X target_path role [] = Inr ([], False)"
| "child_loop X target_path role (child # rest) =
     (if is_top_level_role (dr_name child) then child_loop X target_path role rest
      else and_then (matches_path X child target_path) (\<lambda>m.
        if \<not> m then child_loop X target_path role rest
        else if terminating child then Inr ([(dr_name child, role)], True)
        else and_then (child_loop X target_path role rest) (\<lambda>(cs, cleared).
          Inr ((dr_name child, role) # cs, cleared))))"

definition children_of :: "'z tuf_externals_scheme \<Rightarrow> string \<Rightarrow> string \<Rightarrow> targets
    \<Rightarrow> ((string \<times> string) list \<times> bool, tuf_error) result" where
  "children_of X target_path role t =
     (case tg_delegations t of None \<Rightarrow> Inr ([], False)
      | Some d \<Rightarrow> child_loop X target_path role (del_roles d))"

text \<open>The configuration never changes, so the bound on the visits is a fixed one.\<close>

lemma keeps_config_basic [keeps_intros]:
  "keeps (\<lambda>u. u_config u = c) (trust g)" "keeps (\<lambda>u. u_config u = c) (fetch_metadata V nm n)"
  "keeps (\<lambda>u. u_config u = c) (fetch_target V nm n)"
  "keeps (\<lambda>u. u_config u = c) (modifyS (cache_put V nm bs))"
  by (auto simp: keeps_def trust_def fetch_metadata_def fetch_target_def modifyS_def cache_put_def Let_def
      split: sum.splits prod.splits option.splits)

lemma keeps_config_fetch_targets [keeps_intros]:
  "keeps (\<lambda>u. u_config u = c) (fetch_targets_metadata V role)"
  unfolding fetch_targets_metadata_def Let_def by (intro keeps_intros)

lemma keeps_config_load_role: "keeps (\<lambda>u. u_config u = c) (load_role X V role delegator now)"
  unfolding load_role_def Let_def by (intro keeps_intros)

lemma load_role_config: "load_role X V role delegator now u = (u', r) \<Longrightarrow> u_config u' = u_config u"
  by (rule keepsD [OF keeps_config_load_role refl])

lemma unat_Suc_u32: "(s :: u32) < m \<Longrightarrow> unat (s + 1) = unat s + 1"
proof -
  assume "s < m"
  then have "unat s + 1 < 2 ^ 32"
    using unsigned_less [of m, where ?'a = nat] by (simp add: word_less_nat_alt)
  then show ?thesis by (simp add: unat_word_ariths)
qed

lemma steps_decrease:
  assumes "\<not> max_delegations (u_config u) \<le> steps" "load_role X V role delegator now u = (u', r)"
  shows "unat (max_delegations (u_config u')) - unat (steps + 1) < unat (max_delegations (u_config u)) - unat steps"
  using assms(1) by (simp add: load_role_config [OF assms(2)] not_le unat_Suc_u32 word_less_nat_alt)

text \<open>
  The \<open>while !to_visit.is_empty()\<close> loop.  It ends because a step either uses up one of the
  \<open>max_delegations\<close> visits or shortens the list.  The \<open>expect\<close> on a role that was just loaded
  cannot fail (\<open>load_role_loaded\<close> below); its branch is an error here.
\<close>

function search :: "'z tuf_externals_scheme \<Rightarrow> ('r, 's) services \<Rightarrow> string \<Rightarrow> timestamp \<Rightarrow> u32
    \<Rightarrow> string set \<Rightarrow> (string \<times> string) list \<Rightarrow> ('r, 's, target_file option) updating" where
  "search X V target_path now steps visited [] u = (u, Inr None)"
| "search X V target_path now steps visited ((role, delegator) # to_visit) u =
     (if role \<in> visited then search X V target_path now steps visited to_visit u
      else if steps \<ge> max_delegations (u_config u) then (u, Inr None)
      else
        (case load_role X V role delegator now u of
           (u', Inl e) \<Rightarrow> (u', Inl e)
         | (u', Inr False) \<Rightarrow> search X V target_path now (steps + 1) visited to_visit u'
         | (u', Inr True) \<Rightarrow>
             (case targets_role (u_trusted u') role of
                None \<Rightarrow> (u', Inl (Malformed ''role just loaded''))
              | Some t \<Rightarrow>
                  (case tg_target t target_path of
                     Some found \<Rightarrow> (u', Inr (Some found))
                   | None \<Rightarrow>
                       (case children_of X target_path role t of
                          Inl e \<Rightarrow> (u', Inl e)
                        | Inr (children, cleared) \<Rightarrow>
                            search X V target_path now (steps + 1) (insert role visited)
                              (children @ (if cleared then [] else to_visit)) u')))))"
  by pat_completeness auto
termination
proof (relation "measures [\<lambda>(X, V, p, now, steps, visited, to_visit, u).
      unat (max_delegations (u_config u)) - unat steps, \<lambda>(X, V, p, now, steps, visited, to_visit, u). length to_visit]",
      goal_cases)
  case 3
  then show ?case using steps_decrease by (metis (no_types, lifting) case_prod_conv in_measures(2))
next
  case 4
  then show ?case using steps_decrease by (metis (no_types, lifting) case_prod_conv in_measures(2))
qed auto

declare search.simps [simp del]

definition get_targetinfo :: "'z tuf_externals_scheme \<Rightarrow> ('r, 's) services \<Rightarrow> string \<Rightarrow> timestamp
    \<Rightarrow> ('r, 's, target_file option) updating" where
  "get_targetinfo X V target_path now u =
     (if targets_role (u_trusted u) ''targets'' = None then
        (u, Inl (Malformed ''refresh() must be called before resolving targets''))
      else search X V target_path now 0 {} [(''targets'', ''root'')] u)"

subsection \<open>Targets\<close>

definition find_target :: "('r, 's) updater \<Rightarrow> string \<Rightarrow> target_file option" where
  "find_target u target_path =
     Option.bind (targets_role (u_trusted u) ''targets'') (\<lambda>t. tg_target t target_path)"

definition preferred_hash :: "string btree_map \<Rightarrow> (string \<times> string) option" where
  "preferred_hash hashes =
     (case btm_get ''sha256'' hashes of
        Some h \<Rightarrow> Some (''sha256'', h)
      | None \<Rightarrow>
          (case btm_get ''sha512'' hashes of
             Some h \<Rightarrow> Some (''sha512'', h)
           | None \<Rightarrow> (case hashes of [] \<Rightarrow> None | e # _ \<Rightarrow> Some e)))"

definition verify_target_bytes :: "'z externals_scheme \<Rightarrow> bytes \<Rightarrow> target_file \<Rightarrow> string
    \<Rightarrow> (unit, tuf_error) result" where
  "verify_target_bytes X bs target path =
     (if length bs \<noteq> unat (tf_length target) then
        Inl (IntegrityMismatch (path @ '': length '' @ fmt_nat (length bs) @ '' != pinned ''
               @ fmt_u64 (tf_length target)))
      else
        and_then (integrity_loop X bs path False (tf_hashes target)) (\<lambda>verified_any.
        if \<not> verified_any then
          Inl (IntegrityMismatch (path @ '': no supported hash to verify (''
                 @ debug_list (map fst (tf_hashes target)) @ '')''))
        else Inr ()))"

definition find_cached_target :: "'z externals_scheme \<Rightarrow> ('r, 's) services \<Rightarrow> ('r, 's) updater \<Rightarrow> target_file
    \<Rightarrow> string \<Rightarrow> bytes option" where
  "find_cached_target X V u target target_path =
     Option.bind (u_store u) (\<lambda>s.
     Option.bind (load_of V s (''targets/'' @ target_path)) (\<lambda>bs.
     case verify_target_bytes X bs target target_path of Inl _ \<Rightarrow> None | Inr _ \<Rightarrow> Some bs))"

text \<open>The path under which a target is fetched: with consistent snapshots its hash prefixes the name.\<close>

definition relative_path :: "bool \<Rightarrow> target_file \<Rightarrow> string \<Rightarrow> (string, tuf_error) result" where
  "relative_path consistent target target_path =
     (if consistent then
        and_then (ok_or (IntegrityMismatch (target_path @ '': no hash to locate consistent target''))
          (preferred_hash (tf_hashes target))) (\<lambda>(_, hash).
        case rsplit_once CHR ''/'' target_path of
          Some (dir, nm) \<Rightarrow> Inr (dir @ ''/'' @ hash @ ''.'' @ nm)
        | None \<Rightarrow> Inr (hash @ ''.'' @ target_path))
      else Inr target_path)"

definition download_target :: "'z tuf_externals_scheme \<Rightarrow> ('r, 's) services \<Rightarrow> target_file \<Rightarrow> string
    \<Rightarrow> ('r, 's, bytes) updating" where
  "download_target X V target target_path =
     bindS (getS u_config) (\<lambda>c.
     if tf_length target > target_max_length c then
       throwS (IntegrityMismatch (target_path @ '': pinned length '' @ fmt_u64 (tf_length target)
         @ '' exceeds configured max '' @ fmt_u64 (target_max_length c)))
     else
       bindS (getS u_trusted) (\<lambda>t.
       bindS (liftS (relative_path (consistent_snapshot (signed (t_root t))) target target_path)) (\<lambda>rel.
       bindS (fetch_target V rel (tf_length target)) (\<lambda>found.
       bindS (liftS (or_transport (''target '' @ rel @ '' not found'') found)) (\<lambda>bs.
       bindS (liftS (verify_target_bytes X bs target target_path)) (\<lambda>_.
       bindS (modifyS (cache_put V (''targets/'' @ target_path) bs)) (\<lambda>_.
       returnS bs)))))))"

definition get_target :: "'z tuf_externals_scheme \<Rightarrow> ('r, 's) services \<Rightarrow> string \<Rightarrow> timestamp
    \<Rightarrow> ('r, 's, bytes) updating" where
  "get_target X V target_path now =
     bindS (get_targetinfo X V target_path now) (\<lambda>found.
     bindS (liftS (ok_or (Malformed (''unknown target '' @ debug_str target_path)) found)) (\<lambda>target u.
     case find_cached_target X V u target target_path of
       Some cached \<Rightarrow> (u, Inr cached)
     | None \<Rightarrow> download_target X V target target_path u))"

end
