(* ===== verification/Updater_Correct.thy ===== *)
theory Updater_Correct
  imports Updater
begin

text \<open>
  What the updater guarantees for every repository, every store and every order of calls: the
  trusted metadata stays reachable by verified updates, a refresh ends with a consistent, fresh
  set, a target comes from a role that is authorized for its path, and its bytes are the pinned
  ones.  The two locales of \<open>Tuf_Store\<close> are combined for the statements that need a store or a
  repository to keep its contract.
\<close>

subsection \<open>Every operation keeps the trusted set reachable\<close>

definition trust_ok :: "'z tuf_externals_scheme \<Rightarrow> bytes \<Rightarrow> ('r, 's) updater \<Rightarrow> bool" where
  "trust_ok X b u \<longleftrightarrow> trusted_reach X b (u_trusted u)"

lemma trust_ok_frame [simp]:
  "trust_ok X b (u\<lparr>u_repo := r\<rparr>) = trust_ok X b u" "trust_ok X b (cache_put V nm bs u) = trust_ok X b u"
  by (auto simp: trust_ok_def cache_put_def split: option.splits)

lemma keeps_trust_ok_basic [keeps_intros]:
  "keeps (trust_ok X b) (fetch_metadata V nm n)" "keeps (trust_ok X b) (fetch_target V nm n)"
  "keeps (trust_ok X b) (modifyS (cache_put V nm bs))"
  by (auto simp: keeps_def fetch_metadata_def fetch_target_def modifyS_def Let_def split: prod.splits)

lemma map_sum_fst_Inr: "map_sum id fst r = Inr t \<longleftrightarrow> (\<exists>x. r = Inr (t, x))"
  by (cases r) auto

lemma reach_update_root: "trusted_reach X b t \<Longrightarrow> update_root X t bs = Inr t' \<Longrightarrow> trusted_reach X b t'"
  by (blast intro: trusted_reach.step trusted_step.root)

lemma reach_lower: "trusted_reach X b t \<Longrightarrow> lower_step X t t' \<Longrightarrow> trusted_reach X b t'"
  by (blast intro: trusted_reach.step trusted_step.lower)

lemma keeps_trust: "(\<And>t t'. trusted_reach X b t \<Longrightarrow> f t = Inr t' \<Longrightarrow> trusted_reach X b t') \<Longrightarrow>
    keeps (trust_ok X b) (trust f)"
  by (auto simp: keeps_def trust_ok_def trust_def split: sum.splits)

lemma keeps_trust_updates [keeps_intros]:
  "keeps (trust_ok X b) (trust (\<lambda>t. update_root X t bs))"
  "keeps (trust_ok X b) (trust (\<lambda>t. update_snapshot X t bs now))"
  "keeps (trust_ok X b) (trust (\<lambda>t. map_sum id fst (update_targets X t bs now)))"
  "keeps (trust_ok X b) (trust (\<lambda>t. map_sum id fst (update_delegated_targets X t bs role delegator now)))"
  by (auto intro!: keeps_trust simp: map_sum_fst_Inr
      intro: reach_update_root reach_lower [OF _ lower_step.snapshot] reach_lower [OF _ lower_step.targets]
        reach_lower [OF _ lower_step.delegated])

lemma keeps_refresh_root_loop [keeps_intros]: "keeps (trust_ok X b) (refresh_root_loop X V m ns)"
  by (induction ns) (auto intro!: keeps_intros)

lemma seed_one_reach:
  "trusted_reach X b t \<Longrightarrow> (\<And>t t' bs. f t bs = Inr t' \<Longrightarrow> lower_step X t t') \<Longrightarrow>
   trusted_reach X b (seed_one ld s nm f t)"
  by (auto simp: seed_one_def intro: reach_lower split: option.splits sum.splits)

lemma keeps_seed [keeps_intros]: "keeps (trust_ok X b) (modifyS (seed_lower_from_store X V now))"
  by (rule keeps_modifyS)
    (auto simp: trust_ok_def seed_lower_from_store_def map_sum_fst_Inr split: option.splits
      intro!: seed_one_reach intro: lower_step.intros)

lemma keeps_refresh_timestamp [keeps_intros]: "keeps (trust_ok X b) (refresh_timestamp X V now)"
proof -
  have "keeps (trust_ok X b) (\<lambda>u. case update_timestamp X (u_trusted u) bs now of
       Inr t \<Rightarrow> (cache_put V ''timestamp.json'' bs (u\<lparr>u_trusted := t\<rparr>), Inr ())
     | Inl (EqualVersion _ _) \<Rightarrow> (u, Inr ())
     | Inl e \<Rightarrow> (u, Inl e))" for bs
    unfolding keeps_def
    by (auto simp: trust_ok_def cache_put_def intro: reach_lower lower_step.intros
        split: sum.splits tuf_error.splits option.splits)
  then show ?thesis unfolding refresh_timestamp_def by (intro keeps_intros)
qed

lemma keeps_fetch_targets [keeps_intros]: "keeps (trust_ok X b) (fetch_targets_metadata V role)"
  unfolding fetch_targets_metadata_def Let_def by (intro keeps_intros)

lemma keeps_refresh_snapshot [keeps_intros]: "keeps (trust_ok X b) (refresh_snapshot X V now)"
  unfolding refresh_snapshot_def Let_def by (intro keeps_intros)

lemma keeps_refresh_targets [keeps_intros]: "keeps (trust_ok X b) (refresh_targets X V now)"
  unfolding refresh_targets_def Let_def by (intro keeps_intros)

lemma keeps_refresh [keeps_intros]: "keeps (trust_ok X b) (refresh X V now)"
  unfolding refresh_def refresh_root_def by (intro keeps_intros)

lemma keeps_load_role [keeps_intros]: "keeps (trust_ok X b) (load_role X V role delegator now)"
  unfolding load_role_def Let_def by (intro keeps_intros)

lemma search_trust_ok: "trust_ok X b u \<Longrightarrow> trust_ok X b (fst (search X V p now steps visited tv u))"
proof (induction X V p now steps visited tv u rule: search.induct)
  case (2 X V p now steps visited role delegator tv u)
  obtain u' r where l: "load_role X V role delegator now u = (u', r)" by fastforce
  have ok: "trust_ok X b u'" by (rule keepsD [OF keeps_load_role "2.prems" l])
  show ?case
    using 2 l ok
    by (subst search.simps) (auto split: sum.splits bool.splits option.splits prod.splits)
qed (simp add: search.simps)

lemma keeps_get_targetinfo [keeps_intros]: "keeps (trust_ok X b) (get_targetinfo X V p now)"
  unfolding keeps_def get_targetinfo_def using search_trust_ok by auto

lemma keeps_download_target [keeps_intros]: "keeps (trust_ok X b) (download_target X V target p)"
  unfolding download_target_def by (intro keeps_intros)

lemma keeps_get_target: "keeps (trust_ok X b) (get_target X V p now)"
proof -
  have "keeps (trust_ok X b) (\<lambda>u. case find_cached_target X V u target p of
       Some cached \<Rightarrow> (u, Inr cached) | None \<Rightarrow> download_target X V target p u)" for target
    using keeps_download_target [of X b V target p] by (auto simp: keeps_def split: option.splits)
  then show ?thesis unfolding get_target_def by (intro keeps_intros)
qed

lemma adopt_roots_reach:
  assumes "adopt_roots X ld t = Some t'" "trusted_reach X b t"
  shows "trusted_reach X b t'"
proof -
  have "trusted_reach X b t \<longrightarrow> trusted_reach X b t'"
  proof (rule adopt_roots.raw_induct [where P = "\<lambda>X ld t t'. trusted_reach X b t \<longrightarrow> trusted_reach X b t'", OF _ assms(1)])
    fix ar and X :: "'a tuf_externals_scheme" and ld t y
    assume IH: "\<And>X ld t y. ar X ld t = Some y \<Longrightarrow> trusted_reach X b t \<longrightarrow> trusted_reach X b y"
      and "(case ld (root_history_name (root_version (signed (t_root t)) + 1)) of None \<Rightarrow> Some t
        | Some bs \<Rightarrow> (case update_root X t bs of Inl _ \<Rightarrow> Some t | Inr t' \<Rightarrow> ar X ld t')) = Some y"
    then show "trusted_reach X b t \<longrightarrow> trusted_reach X b y"
      by (auto dest: IH intro: reach_update_root split: option.splits sum.splits)
  qed
  with assms(2) show ?thesis by simp
qed

text \<open>An updater over the sample repository: everything of version 1 is trusted, the repository offers
  the same timestamp and the target \<open>a\<close>, the store is an empty directory.\<close>

definition sample_services :: "(unit, file_system) services" where
  "sample_services = \<lparr>
     fetch_metadata_of = (\<lambda>r nm n. (r, Inr (if nm = ''timestamp.json'' then Some [1, 1, 0] else None))),
     fetch_target_of = (\<lambda>r nm n. (r, Inr (if nm = ''h.a'' then Some [104] else None))),
     load_of = file_load [''cache''], store_of = file_store [''cache'']\<rparr>"

definition sample_updater :: "(unit, file_system) updater" where
  "sample_updater = \<lparr>u_repo = (), u_trusted = state1, u_config = default_config, u_store = Some sample_fs\<rparr>"

lemma sample_updater_reach: "trusted_reach sample_tuf [1, 0, 0] (u_trusted sample_updater)"
  by (simp add: sample_updater_def sample_reach1)

lemma sample_load: "load_of sample_services sample_fs nm = None"
  by (simp add: sample_services_def file_load_def sample_fs_def split: sum.splits)

text \<open>C27: the store and the repository are never trusted.  Whatever bytes a store or a repository
  returns, the trusted metadata of an updater that adopts a store's roots, refreshes or fetches a
  target stays reachable from the pinned root by verified updates, on success and on failure.\<close>

theorem updater_trust_reachable:
  assumes "trusted_reach X b (u_trusted u)"
  shows "(\<forall>s u'. with_store X V u s = Some u' \<longrightarrow> trusted_reach X b (u_trusted u'))
    \<and> trusted_reach X b (u_trusted (fst (refresh X V now u)))
    \<and> trusted_reach X b (u_trusted (fst (get_target X V path now u)))"
proof (intro conjI allI impI)
  fix s u' assume "with_store X V u s = Some u'"
  then show "trusted_reach X b (u_trusted u')"
    using adopt_roots_reach [OF _ assms] by (auto simp: with_store_def)
next
  have ok: "trust_ok X b u" using assms by (simp add: trust_ok_def)
  show "trusted_reach X b (u_trusted (fst (refresh X V now u)))"
    using keeps_refresh ok unfolding keeps_def trust_ok_def by blast
  show "trusted_reach X b (u_trusted (fst (get_target X V path now u)))"
    using keeps_get_target ok unfolding keeps_def trust_ok_def by blast
qed

theorem updater_trust_reachable_witness:
  "trusted_reach sample_tuf [1, 0, 0] (u_trusted (fst (refresh sample_tuf sample_services 0 sample_updater)))"
  using updater_trust_reachable [OF sample_updater_reach] by blast

text \<open>C29: adopting cached roots ends.  When the store lacks a file for some version ahead, the loop
  of \<open>with_store\<close> returns.\<close>

theorem with_store_terminates:
  assumes "load_of V s (root_history_name (root_version (signed (t_root (u_trusted u))) + 1 + of_nat k)) = None"
  shows "\<exists>u'. with_store X V u s = Some u'"
proof -
  have "\<exists>t'. adopt_roots X ld t = Some t'"
    if "ld (root_history_name (root_version (signed (t_root t)) + 1 + of_nat k)) = None" for ld t k
    using that
  proof (induction k arbitrary: t)
    case 0
    then show ?case by (subst adopt_roots.simps) simp
  next
    case (Suc k)
    show ?case
    proof (cases "ld (root_history_name (root_version (signed (t_root t)) + 1))")
      case None
      then show ?thesis by (subst adopt_roots.simps) simp
    next
      case (Some bs)
      show ?thesis
      proof (cases "update_root X t bs")
        case (Inl e)
        with Some show ?thesis by (subst adopt_roots.simps) simp
      next
        case (Inr t')
        then have "root_version (signed (t_root t')) = root_version (signed (t_root t)) + 1"
          by (auto simp: update_root_Inr)
        with Suc.prems have "ld (root_history_name (root_version (signed (t_root t')) + 1 + of_nat k)) = None"
          by (simp add: ac_simps)
        from Suc.IH [OF this] Some Inr show ?thesis by (subst adopt_roots.simps) simp
      qed
    qed
  qed
  from this [of "load_of V s", OF assms] show ?thesis by (auto simp: with_store_def)
qed

theorem with_store_terminates_witness: "\<exists>u. with_store sample_tuf sample_services sample_updater sample_fs = Some u"
  by (rule with_store_terminates [where k = 0]) (simp add: sample_load)

subsection \<open>What a successful refresh leaves\<close>

lemma trust_Inr [result_simps]:
  "trust f u = (u', Inr x) \<longleftrightarrow> (\<exists>t. f (u_trusted u) = Inr t \<and> u' = u\<lparr>u_trusted := t\<rparr>)"
  by (auto simp: trust_def split: sum.splits)

lemma fetch_metadata_trusted: "fetch_metadata V nm n u = (u', r) \<Longrightarrow> u_trusted u' = u_trusted u"
  by (auto simp: fetch_metadata_def Let_def split: prod.splits)

lemma fetch_target_trusted: "fetch_target V nm n u = (u', r) \<Longrightarrow> u_trusted u' = u_trusted u"
  by (auto simp: fetch_target_def Let_def split: prod.splits)

lemma cache_put_trusted [simp]: "u_trusted (cache_put V nm bs u) = u_trusted u"
  by (auto simp: cache_put_def split: option.splits)

lemma fetch_targets_trusted: "fetch_targets_metadata V role u = (u', r) \<Longrightarrow> u_trusted u' = u_trusted u"
proof -
  have "keeps (\<lambda>u'. u_trusted u' = u_trusted u) (fetch_targets_metadata V role)"
    unfolding fetch_targets_metadata_def Let_def
    by (intro keeps_intros) (auto simp: keeps_def fetch_metadata_def Let_def split: prod.splits)
  then show "fetch_targets_metadata V role u = (u', r) \<Longrightarrow> u_trusted u' = u_trusted u"
    by (rule keepsD) simp_all
qed

definition fresh :: "'z externals_scheme \<Rightarrow> timestamp \<Rightarrow> string \<Rightarrow> bool" where
  "fresh X now expires \<longleftrightarrow> (\<exists>t. parse_timestamp X expires = Inr t \<and> now \<le> t)"

lemma is_expired_False [result_simps]: "is_expired X R r now = Inr False \<longleftrightarrow> fresh X now (expires_of R r)"
  by (auto simp: is_expired_def expires_at_def fresh_def result_simps)

lemma ensure_fresh: "ensure_not_expired X R r nm now = Inr u \<longleftrightarrow> fresh X now (expires_of R r)"
  by (simp add: ensure_not_expired_Inr fresh_def)

definition snapshot_current :: "'z externals_scheme \<Rightarrow> timestamp \<Rightarrow> trusted_set \<Rightarrow> bool" where
  "snapshot_current X now t \<longleftrightarrow>
     (\<exists>ts sn pin. t_timestamp t = Some ts \<and> fresh X now (ts_expires (signed ts))
        \<and> snapshot_meta (signed ts) = Some pin \<and> t_snapshot t = Some sn
        \<and> fresh X now (snap_expires (signed sn)) \<and> snap_version (signed sn) = mf_version pin)"

definition targets_current :: "'z externals_scheme \<Rightarrow> timestamp \<Rightarrow> trusted_set \<Rightarrow> bool" where
  "targets_current X now t \<longleftrightarrow>
     (\<exists>sn tg pin. t_snapshot t = Some sn \<and> btm_get ''targets'' (t_targets t) = Some tg
        \<and> btm_get ''targets.json'' (snap_meta (signed sn)) = Some pin
        \<and> tg_version (signed tg) = mf_version pin \<and> fresh X now (tg_expires (signed tg)))"

lemma refresh_snapshot_current:
  assumes "refresh_snapshot X V now u = (u', Inr r)"
  shows "snapshot_current X now (u_trusted u') \<and> t_root (u_trusted u') = t_root (u_trusted u)"
proof -
  let ?t = "u_trusted u"
  from assms obtain version reuse where v: "pinned_snapshot_version ?t = Some version"
    and ts: "check_timestamp_expired X ?t now = Inr ()"
    and reuse: "(case t_snapshot ?t of None \<Rightarrow> Inr False
       | Some snap \<Rightarrow> if snap_version (signed snap) = version then
             and_then (is_expired X Snapshot_Role (signed snap) now) (\<lambda>e. Inr (\<not> e))
           else Inr False) = Inr reuse"
    unfolding refresh_snapshot_def Let_def bindS_Inr_iff basic_Inr_iff ok_or_Inr_iff by auto
  from v obtain tsm pin where tsm: "t_timestamp ?t = Some tsm" "snapshot_meta (signed tsm) = Some pin"
    "version = mf_version pin"
    by (auto simp: pinned_snapshot_version_def split: bind_splits)
  with ts have f: "fresh X now (ts_expires (signed tsm))"
    by (simp add: check_timestamp_expired_def ensure_fresh Timestamp_Role_def)
  show ?thesis
  proof (cases reuse)
    case True
    with assms v ts reuse have "u' = u"
      unfolding refresh_snapshot_def Let_def bindS_Inr_iff basic_Inr_iff ok_or_Inr_iff
      by (auto simp: basic_Inr_iff)
    moreover from reuse True obtain snap where "t_snapshot ?t = Some snap"
      "snap_version (signed snap) = version" "is_expired X Snapshot_Role (signed snap) now = Inr False"
      by (auto simp: result_simps split: option.splits if_splits)
    ultimately show ?thesis
      using tsm f by (auto simp: snapshot_current_def result_simps Snapshot_Role_def)
  next
    case False
    with assms v ts reuse obtain bs t where t: "update_snapshot X ?t bs now = Inr t" and "u_trusted u' = t"
      unfolding refresh_snapshot_def Let_def bindS_Inr_iff basic_Inr_iff ok_or_Inr_iff trust_Inr
      by (auto simp: bindS_Inr_iff basic_Inr_iff trust_Inr dest!: fetch_metadata_trusted)
    with tsm f show ?thesis
      by (auto simp: snapshot_current_def update_snapshot_Inr ensure_fresh Snapshot_Role_def)
  qed
qed

lemma refresh_targets_current:
  assumes "refresh_targets X V now u = (u', Inr r)" "snapshot_current X now (u_trusted u)"
    "trust_ok X b u"
  shows "targets_current X now (u_trusted u') \<and> snapshot_current X now (u_trusted u')
    \<and> t_root (u_trusted u') = t_root (u_trusted u)"
proof -
  let ?t = "u_trusted u"
  let ?pinned = "map_option mf_version (Option.bind (t_snapshot ?t) (\<lambda>s. btm_get ''targets.json'' (snap_meta (signed s))))"
  from assms(1) obtain reuse where reuse: "(case (targets_role ?t ''targets'', ?pinned) of
         (Some tgt, Some pv) \<Rightarrow>
           if tg_version tgt = pv then and_then (is_expired X Targets_Role tgt now) (\<lambda>e. Inr (\<not> e))
           else Inr False
       | _ \<Rightarrow> Inr False) = Inr reuse"
    unfolding refresh_targets_def Let_def bindS_Inr_iff basic_Inr_iff by auto
  show ?thesis
  proof (cases reuse)
    case True
    with assms(1) reuse have "u' = u"
      unfolding refresh_targets_def Let_def bindS_Inr_iff basic_Inr_iff by (auto simp: basic_Inr_iff)
    moreover from reuse True obtain tg sn pin where "btm_get ''targets'' (t_targets ?t) = Some tg"
      "t_snapshot ?t = Some sn" "btm_get ''targets.json'' (snap_meta (signed sn)) = Some pin"
      "tg_version (signed tg) = mf_version pin" "is_expired X Targets_Role (signed tg) now = Inr False"
      by (auto simp: result_simps targets_role_def split: option.splits if_splits bind_splits)
    ultimately show ?thesis
      using assms(2) by (auto simp: targets_current_def is_expired_False Targets_Role_def)
  next
    case False
    with assms(1) reuse obtain bs t x where t: "update_targets X ?t bs now = Inr (t, x)" and "u_trusted u' = t"
      unfolding refresh_targets_def Let_def bindS_Inr_iff basic_Inr_iff trust_Inr map_sum_fst_Inr
      by (auto simp: result_simps map_sum_fst_Inr dest!: fetch_targets_trusted)
    with assms(2) show ?thesis
      by (auto simp: targets_current_def snapshot_current_def update_targets_Inr verify_targets_pin_Inr
          ensure_fresh Targets_Role_def map_simps)
  qed
qed

lemma refresh_timestamp_root: "refresh_timestamp X V now u = (u', r) \<Longrightarrow> t_root (u_trusted u') = t_root (u_trusted u)"
proof -
  let ?P = "\<lambda>u'. t_root (u_trusted u') = t_root (u_trusted u)"
  have "keeps ?P (\<lambda>u. case update_timestamp X (u_trusted u) bs now of
       Inr t \<Rightarrow> (cache_put V ''timestamp.json'' bs (u\<lparr>u_trusted := t\<rparr>), Inr ())
     | Inl (EqualVersion _ _) \<Rightarrow> (u, Inr ())
     | Inl e \<Rightarrow> (u, Inl e))" for bs
    unfolding keeps_def by (auto simp: update_timestamp_Inr split: sum.splits tuf_error.splits)
  moreover have "keeps ?P (fetch_metadata V nm n)" for nm n
    by (auto simp: keeps_def fetch_metadata_def Let_def split: prod.splits)
  ultimately have "keeps ?P (refresh_timestamp X V now)"
    unfolding refresh_timestamp_def by (intro keeps_intros)
  then show "refresh_timestamp X V now u = (u', r) \<Longrightarrow> ?P u'" by (rule keepsD) simp_all
qed

lemma seed_one_root: "(\<And>t t' bs. f t bs = Inr t' \<Longrightarrow> t_root t' = t_root t) \<Longrightarrow> t_root (seed_one ld s nm f t) = t_root t"
  by (auto simp: seed_one_def split: option.splits sum.splits)

lemma seed_root: "t_root (u_trusted (seed_lower_from_store X V now u)) = t_root (u_trusted u)"
proof -
  have "t_root (seed_one ld s nm (\<lambda>t bs. update_timestamp X t bs now) t) = t_root t"
    "t_root (seed_one ld s nm (\<lambda>t bs. update_snapshot X t bs now) t) = t_root t"
    "t_root (seed_one ld s nm (\<lambda>t bs. map_sum id fst (update_targets X t bs now)) t) = t_root t"
    for ld :: "'b \<Rightarrow> string \<Rightarrow> bytes option" and s nm t
    by (rule seed_one_root; auto simp: update_timestamp_Inr update_snapshot_Inr update_targets_Inr map_sum_fst_Inr)+
  then show ?thesis by (auto simp: seed_lower_from_store_def split: option.splits)
qed

text \<open>C26: a successful refresh leaves a complete and fresh view: the root, the timestamp, the
  snapshot and the targets are present and unexpired at \<open>now\<close>, the snapshot has the version the
  timestamp pins and the targets the version the snapshot pins, whether they were downloaded,
  reused or seeded from a store.\<close>

theorem refresh_consistent_and_fresh:
  assumes "trusted_reach X b (u_trusted u)" "refresh X V now u = (u', Inr r)"
  shows "fresh X now (root_expires (signed (t_root (u_trusted u'))))
    \<and> snapshot_current X now (u_trusted u') \<and> targets_current X now (u_trusted u')"
proof -
  from assms(2) obtain u1 r1 u2 r2 u3 r3 where
    root: "refresh_root X V u = (u1, Inr r1)" "check_root_expired X (u_trusted u1) now = Inr ()"
    and ts: "refresh_timestamp X V now (seed_lower_from_store X V now u1) = (u2, Inr r2)"
    and snap: "refresh_snapshot X V now u2 = (u3, Inr r3)"
    and tgt: "refresh_targets X V now u3 = (u', Inr r)"
    unfolding refresh_def bindS_Inr_iff basic_Inr_iff by (auto simp: basic_Inr_iff)
  have ok: "trust_ok X b u" using assms(1) by (simp add: trust_ok_def)
  have "keeps (trust_ok X b) (refresh_root X V)" unfolding refresh_root_def by (intro keeps_intros)
  from keepsD [OF this ok root(1)] have "trust_ok X b u1" .
  then have "trust_ok X b (seed_lower_from_store X V now u1)"
    using keeps_seed [of X b V now] by (simp add: keeps_def modifyS_def)
  from keepsD [OF keeps_refresh_timestamp this ts] have "trust_ok X b u2" .
  from keepsD [OF keeps_refresh_snapshot this snap] have ok3: "trust_ok X b u3" .
  note sc = refresh_snapshot_current [OF snap]
  note tc = refresh_targets_current [OF tgt conjunct1 [OF sc] ok3]
  have "t_root (u_trusted u') = t_root (u_trusted u1)"
    using tc sc refresh_timestamp_root [OF ts] seed_root [of X V now u1] by simp
  moreover have "fresh X now (root_expires (signed (t_root (u_trusted u1))))"
    using root(2) by (simp add: check_root_expired_def ensure_fresh Root_Role_def)
  ultimately show ?thesis using tc by simp
qed

lemma sample_state1_simps:
  "t_root state1 = sample_file sample_root [1, 0, 0]" "t_timestamp state1 = Some (sample_file sample_timestamp [1, 1, 0])"
  "t_snapshot state1 = Some (sample_file sample_snapshot [1, 1, 0])"
  "targets_role state1 ''targets'' = Some (sample_targets (of_bytes [1, 0, 0]))"
  by (simp_all add: sample_state_def targets_role_def btm_get_def)

lemma sample_expires: "is_expired sample_tuf R r 0 = Inr False"
  by (simp add: is_expired_def expires_at_def)

lemma sample_refresh: "refresh sample_tuf sample_services 0 sample_updater = (sample_updater, Inr ())"
proof -
  let ?u = sample_updater and ?V = sample_services
  have one: "version_of_byte 1 = 1" by (simp add: version_of_byte_def)
  have fetch: "fetch_metadata ?V nm n ?u = (?u, Inr (if nm = ''timestamp.json'' then Some [1, 1, 0] else None))" for nm n
    by (simp add: fetch_metadata_def sample_services_def sample_updater_def)
  have trusted: "u_trusted ?u = state1" "u_config ?u = default_config" by (simp_all add: sample_updater_def)
  have two: "fmt_nat 2 @ ''.root.json'' \<noteq> ''timestamp.json''" by code_simp
  have "refresh_root sample_tuf ?V ?u = (?u, Inr ())"
    by (simp add: refresh_root_def bindS_def getS_def trusted sample_state1_simps one upt_rec [of 2] default_config_def
        fetch two [simplified] returnS_def)
  moreover have "check_root_expired sample_tuf state1 0 = Inr ()"
    by (simp add: check_root_expired_def sample_fresh)
  moreover have "seed_lower_from_store sample_tuf ?V 0 ?u = ?u"
    by (simp add: seed_lower_from_store_def sample_updater_def seed_one_def sample_load)
  moreover have "update_timestamp sample_tuf state1 [1, 1, 0] 0 = Inl (EqualVersion ''timestamp'' 1)"
    by (simp add: update_timestamp_def sample_from_slice sample_verify sample_roles sample_state1_simps
        timestamp_advances_def one)
  then have "refresh_timestamp sample_tuf ?V 0 ?u = (?u, Inr ())"
    by (simp add: refresh_timestamp_def bindS_def getS_def trusted fetch liftS_def or_transport_def)
  moreover have "check_timestamp_expired sample_tuf state1 0 = Inr ()"
    by (simp add: check_timestamp_expired_def sample_fresh sample_state1_simps)
  then have "refresh_snapshot sample_tuf ?V 0 ?u = (?u, Inr ())"
    by (simp add: refresh_snapshot_def bindS_def getS_def trusted liftS_def sample_state1_simps
        pinned_snapshot_version_def one sample_expires returnS_def)
  moreover have "check_snapshot_expired sample_tuf state1 0 = Inr ()"
    by (simp add: check_snapshot_expired_def sample_fresh sample_state1_simps)
  then have "refresh_targets sample_tuf ?V 0 ?u = (?u, Inr ())"
    by (simp add: refresh_targets_def bindS_def getS_def trusted liftS_def sample_state1_simps one
        sample_expires returnS_def)
  ultimately show ?thesis
    by (simp add: refresh_def bindS_def getS_def trusted liftS_def modifyS_def)
qed

theorem refresh_consistent_and_fresh_witness: "snapshot_current sample_tuf 0 (u_trusted sample_updater)"
  using refresh_consistent_and_fresh [OF sample_updater_reach sample_refresh] by simp

subsection \<open>The search for a target\<close>

text \<open>The roles that may list a path: the targets role, and whom an authorized role delegates it to.\<close>

inductive authorized :: "'z externals_scheme \<Rightarrow> trusted_set \<Rightarrow> string \<Rightarrow> string \<Rightarrow> bool" for X t path where
  top: "authorized X t path ''targets''"
| delegated: "authorized X t path delegator \<Longrightarrow> targets_role t delegator = Some tg \<Longrightarrow>
    tg_delegations tg = Some d \<Longrightarrow> child \<in> set (del_roles d) \<Longrightarrow> \<not> is_top_level_role (dr_name child) \<Longrightarrow>
    matches_path X child path = Inr True \<Longrightarrow> authorized X t path (dr_name child)"

definition extends :: "trusted_set \<Rightarrow> trusted_set \<Rightarrow> bool" where
  "extends t t' \<longleftrightarrow> (\<forall>nm tg. targets_role t nm = Some tg \<longrightarrow> targets_role t' nm = Some tg)"

lemma extends_refl [simp]: "extends t t"
  by (simp add: extends_def)

lemma extends_trans: "extends t t' \<Longrightarrow> extends t' t'' \<Longrightarrow> extends t t''"
  by (simp add: extends_def)

lemma authorized_mono: "authorized X t path nm \<Longrightarrow> extends t t' \<Longrightarrow> authorized X t' path nm"
  by (induction rule: authorized.induct) (auto simp: extends_def intro: authorized.intros)

lemma load_role_extends: "load_role X V role delegator now u = (u', r) \<Longrightarrow> extends (u_trusted u) (u_trusted u')"
proof -
  have *: "keeps (\<lambda>u'. extends (u_trusted u) (u_trusted u')) (fetch_targets_metadata V role)"
    unfolding keeps_def using fetch_targets_trusted by (metis prod.collapse)
  show "load_role X V role delegator now u = (u', r) \<Longrightarrow> extends (u_trusted u) (u_trusted u')"
    by (cases "r"; cases "targets_role (u_trusted u) role")
      (auto simp: load_role_def Let_def bindS_def getS_def returnS_def modifyS_def trust_def map_sum_fst_Inr
        update_delegated_targets_Inr extends_def targets_role_def map_simps
        split: if_splits sum.splits prod.splits option.splits dest!: fetch_targets_trusted)
qed

text \<open>A role whose loading succeeded is there: the \<open>expect\<close> in the search cannot fail.\<close>

lemma load_role_loaded:
  assumes "load_role X V role delegator now u = (u', Inr True)" "targets_role (u_trusted u) ''targets'' \<noteq> None"
  shows "targets_role (u_trusted u') role \<noteq> None"
  using assms
  by (auto simp: load_role_def result_simps Let_def trust_Inr map_sum_fst_Inr update_delegated_targets_Inr
      targets_role_def map_simps split: if_splits option.splits dest!: fetch_targets_trusted)

lemma child_loop_sound:
  "child_loop X path role cs = Inr (ps, cleared) \<Longrightarrow>
     set ps \<subseteq> {(dr_name c, role) | c. c \<in> set cs \<and> \<not> is_top_level_role (dr_name c) \<and> matches_path X c path = Inr True}"
proof (induction X path role cs arbitrary: ps cleared rule: child_loop.induct)
  case (2 X path role c cs)
  let ?ok = "\<lambda>c. \<not> is_top_level_role (dr_name c) \<and> matches_path X c path = Inr True"
  consider (skip) "child_loop X path role cs = Inr (ps, cleared)"
    | (stop) "?ok c" "ps = [(dr_name c, role)]"
    | (go) ps' where "?ok c" "child_loop X path role cs = Inr (ps', cleared)" "ps = (dr_name c, role) # ps'"
    using "2.prems" by (auto simp: result_simps split: if_splits)
  then show ?case
  proof cases
    case skip
    then have "set ps \<subseteq> {(dr_name c, role) | c. c \<in> set cs \<and> ?ok c}"
      using "2.prems" "2.IH" by (auto simp: result_simps split: if_splits)
    then show ?thesis by auto
  next
    case (go ps')
    then have "set ps' \<subseteq> {(dr_name c, role) | c. c \<in> set cs \<and> ?ok c}"
      using "2.prems" "2.IH" by (auto simp: result_simps split: if_splits)
    with go show ?thesis by auto
  qed auto
qed simp

lemma children_authorized:
  assumes "children_of X path role tg = Inr (ps, cleared)" "(nm, del) \<in> set ps"
    "authorized X t path role" "targets_role t role = Some tg"
  shows "authorized X t path nm"
proof -
  from assms(1,2) obtain d where d: "tg_delegations tg = Some d"
    "child_loop X path role (del_roles d) = Inr (ps, cleared)"
    by (auto simp: children_of_def split: option.splits)
  from child_loop_sound [OF d(2)] assms(2) authorized.delegated [OF assms(3,4) d(1)]
  show ?thesis by blast
qed

lemma search_authorized:
  assumes "\<forall>(role, del) \<in> set tv. authorized X (u_trusted u) path role"
    "search X V path now steps visited tv u = (u', Inr (Some tf))"
  shows "\<exists>role tg. authorized X (u_trusted u') path role \<and> targets_role (u_trusted u') role = Some tg
    \<and> tg_target tg path = Some tf"
  using assms
proof (induction X V path now steps visited tv u rule: search.induct)
  case (2 X V path now steps visited role delegator tv u)
  show ?case
  proof (cases "role \<in> visited \<or> max_delegations (u_config u) \<le> steps")
    case True
    with "2.prems" "2.IH"(1) show ?thesis by (auto simp: search.simps split: if_splits)
  next
    case False
    obtain u1 r where l: "load_role X V role delegator now u = (u1, r)" by fastforce
    have ext: "\<forall>(role, del) \<in> set ((role, delegator) # tv). authorized X (u_trusted u1) path role"
      using "2.prems"(1) authorized_mono load_role_extends [OF l] by fastforce
    from False "2.prems"(2) l obtain b where r: "r = Inr b" by (cases r) (auto simp: search.simps)
    show ?thesis
    proof (cases b)
      case False': False
      with False "2.prems"(2) l r have "search X V path now (steps + 1) visited tv u1 = (u', Inr (Some tf))"
        by (auto simp: search.simps)
      moreover have "\<forall>(role, del) \<in> set tv. authorized X (u_trusted u1) path role" using ext by simp
      ultimately show ?thesis using False False' l r by (intro "2.IH"(3) [of u1 r b]) simp_all
    next
      case True
      with False "2.prems"(2) l r obtain tg where tg: "targets_role (u_trusted u1) role = Some tg"
        by (cases "targets_role (u_trusted u1) role") (auto simp: search.simps)
      show ?thesis
      proof (cases "tg_target tg path")
        case None
        with False True "2.prems"(2) l r tg obtain cs cl where c: "children_of X path role tg = Inr (cs, cl)"
          by (cases "children_of X path role tg") (auto simp: search.simps)
        have "\<forall>(role, del) \<in> set (cs @ (if cl then [] else tv)). authorized X (u_trusted u1) path role"
          using ext children_authorized [OF c _ _ tg] by auto
        with False True "2.prems"(2) l r tg None c show ?thesis
          by (intro "2.IH"(2)) (auto simp: search.simps)
      next
        case (Some found)
        with False True "2.prems"(2) l r tg ext show ?thesis by (auto simp: search.simps)
      qed
    qed
  qed
qed (simp add: search.simps)

subsection \<open>The bytes of a target\<close>

definition target_bytes_ok :: "'z externals_scheme \<Rightarrow> target_file \<Rightarrow> bytes \<Rightarrow> bool" where
  "target_bytes_ok X tf bs \<longleftrightarrow> length bs = unat (tf_length tf)
     \<and> (\<forall>(algo, h) \<in> set (tf_hashes tf). \<forall>d. pinned_digest X bs algo = Some d \<longrightarrow> eq_ignore_ascii_case d h)
     \<and> (\<exists>(algo, h) \<in> set (tf_hashes tf). pinned_digest X bs algo \<noteq> None)"

lemma verify_target_bytes_Inr [result_simps]:
  "verify_target_bytes X bs tf path = Inr u \<longleftrightarrow> target_bytes_ok X tf bs"
  by (auto simp: verify_target_bytes_def target_bytes_ok_def integrity_loop_Inr result_simps)

lemma download_target_Inr:
  "download_target X V tf path u = (u', Inr bs) \<longleftrightarrow>
     tf_length tf \<le> target_max_length (u_config u) \<and> target_bytes_ok X tf bs
     \<and> (\<exists>rel u1. relative_path (consistent_snapshot (signed (t_root (u_trusted u)))) tf path = Inr rel
          \<and> fetch_target V rel (tf_length tf) u = (u1, Inr (Some bs))
          \<and> u' = cache_put V (''targets/'' @ path) bs u1)"
  unfolding download_target_def
  by (auto simp: bindS_Inr_iff basic_Inr_iff or_transport_def ok_or_Inr_iff verify_target_bytes_Inr not_le
      split: if_splits)

lemma find_cached_Some:
  "find_cached_target X V u tf path = Some bs \<Longrightarrow> target_bytes_ok X tf bs"
proof -
  have "(case verify_target_bytes X c tf path of Inl _ \<Rightarrow> None | Inr _ \<Rightarrow> Some c) = Some bs \<longleftrightarrow>
      c = bs \<and> (\<exists>x. verify_target_bytes X bs tf path = Inr x)" for c
    by (auto split: sum.splits)
  then show "find_cached_target X V u tf path = Some bs \<Longrightarrow> target_bytes_ok X tf bs"
    by (auto simp: find_cached_target_def bind_eq_Some_conv verify_target_bytes_Inr)
qed

lemma get_target_listed:
  assumes "get_target X V path now u = (u', Inr bs)"
  shows "\<exists>role tg tf. authorized X (u_trusted u') path role \<and> targets_role (u_trusted u') role = Some tg
    \<and> tg_target tg path = Some tf \<and> target_bytes_ok X tf bs"
proof -
  from assms obtain tf u1 where info: "get_targetinfo X V path now u = (u1, Inr (Some tf))"
    and res: "(find_cached_target X V u1 tf path = Some bs \<and> u' = u1) \<or> download_target X V tf path u1 = (u', Inr bs)"
    unfolding get_target_def bindS_Inr_iff basic_Inr_iff ok_or_Inr_iff by (auto split: option.splits)
  from info have "\<exists>role tg. authorized X (u_trusted u1) path role \<and> targets_role (u_trusted u1) role = Some tg
      \<and> tg_target tg path = Some tf"
    by (intro search_authorized) (auto simp: get_targetinfo_def intro: authorized.top split: if_splits)
  moreover from res have "u_trusted u' = u_trusted u1" "target_bytes_ok X tf bs"
    by (auto simp: download_target_Inr dest: find_cached_Some fetch_target_trusted)
  ultimately show ?thesis by auto
qed

lemma get_target_reach:
  "trusted_reach X b (u_trusted u) \<Longrightarrow> get_target X V path now u = (u', r) \<Longrightarrow> trusted_reach X b (u_trusted u')"
  using keepsD [OF keeps_get_target] by (auto simp: trust_ok_def)

text \<open>C11: what \<open>get_target\<close> returns is what a trusted role lists.  The bytes have the length and
  every supported digest (and at least one) of a target file listed for the path by a role that is
  reached from the targets role by delegations matching the path, in a well-formed trusted set: each
  such role is signed by its delegator's authority.  The repository and the store are arbitrary.\<close>

theorem get_target_authentic:
  assumes "trusted_reach X b (u_trusted u)" "get_target X V path now u = (u', Inr bs)"
  shows "trusted_wf X (u_trusted u')
    \<and> (\<exists>role tg tf. authorized X (u_trusted u') path role \<and> targets_role (u_trusted u') role = Some tg
        \<and> tg_target tg path = Some tf \<and> target_bytes_ok X tf bs)"
  using reach_wf [OF get_target_reach [OF assms]] get_target_listed [OF assms(2)] by blast

lemma sample_download:
  "download_target sample_tuf sample_services sample_file_a ''a'' sample_updater
    = (cache_put sample_services ''targets/a'' [104] sample_updater, Inr [104])"
proof -
  have "consistent_snapshot (signed (t_root (u_trusted sample_updater)))"
    by (simp add: sample_updater_def sample_state1_simps sample_root_def)
  moreover have "relative_path True sample_file_a ''a'' = Inr ''h.a''"
    by (simp add: relative_path_def preferred_hash_def sample_file_a_def btm_get_def rsplit_once_def)
  moreover have "eq_ignore_ascii_case ''h'' ''h''" by code_simp
  moreover have "of_bytes [104] = ''h''" by code_simp
  ultimately show ?thesis
    by (simp add: download_target_Inr target_bytes_ok_def sample_file_a_def pinned_digest_def sample_tuf_def
        sample_ext_def tuf_externals.defs externals.defs fetch_target_def sample_services_def)
      (simp add: sample_updater_def default_config_def)
qed

theorem get_target_authentic_witness:
  "\<exists>role tg tf. authorized sample_tuf state1 ''a'' role \<and> targets_role state1 role = Some tg
    \<and> tg_target tg ''a'' = Some tf \<and> target_bytes_ok sample_tuf tf [104]"
proof -
  have "tg_target (sample_targets s) ''a'' = Some sample_file_a" for s
    by (simp add: tg_target_def sample_targets_def btm_get_def)
  then have "get_targetinfo sample_tuf sample_services ''a'' 0 sample_updater = (sample_updater, Inr (Some sample_file_a))"
    by (simp add: get_targetinfo_def search.simps load_role_def bindS_def getS_def returnS_def)
      (simp add: sample_updater_def sample_state1_simps default_config_def)
  moreover have "find_cached_target sample_tuf sample_services sample_updater sample_file_a ''a'' = None"
    using sample_load by (simp add: find_cached_target_def sample_updater_def)
  ultimately have "get_target sample_tuf sample_services ''a'' 0 sample_updater
      = (cache_put sample_services ''targets/a'' [104] sample_updater, Inr [104])"
    by (simp add: get_target_def bindS_def liftS_def sample_download)
  from get_target_authentic [OF sample_updater_reach this] show ?thesis by (simp add: sample_updater_def)
qed

subsection \<open>Stores that keep their contract\<close>

text \<open>An updater over a store with the laws of \<open>metadata_store\<close>.\<close>

locale stored_updater = metadata_store load store same
  for load :: "'s \<Rightarrow> string \<Rightarrow> bytes option"
    and store :: "'s \<Rightarrow> string \<Rightarrow> bytes \<Rightarrow> 's \<times> (unit, tuf_error) result"
    and same :: "string \<Rightarrow> string \<Rightarrow> bool" +
  fixes V :: "('r, 's) services"
  assumes load_of: "load_of V = load" and store_of: "store_of V = store"
begin

lemma cache_put_get:
  assumes "u_store u = Some s" "snd (store s nm bs) = Inr ()"
  shows "Option.bind (u_store (cache_put V nm bs u)) (\<lambda>s. load_of V s nm) = Some bs"
  using assms load_stored by (cases "store s nm bs") (auto simp: cache_put_def store_of load_of)

lemma download_then_cached:
  assumes d: "download_target X V tf path u = (u', Inr bs)"
    and s: "u_store u = Some s" "snd (store s (''targets/'' @ path) bs) = Inr ()"
  shows "find_cached_target X V u' tf path = Some bs"
proof -
  from d obtain rel u1 where u1: "fetch_target V rel (tf_length tf) u = (u1, Inr (Some bs))"
    and u': "u' = cache_put V (''targets/'' @ path) bs u1" and ok: "target_bytes_ok X tf bs"
    by (auto simp: download_target_Inr)
  from u1 s(1) have "u_store u1 = Some s" by (auto simp: fetch_target_def Let_def split: prod.splits)
  from cache_put_get [OF this s(2)] u'
  have "Option.bind (u_store u') (\<lambda>s. load_of V s (''targets/'' @ path)) = Some bs" by simp
  moreover from ok obtain x where "verify_target_bytes X bs tf path = Inr x"
    by (simp add: verify_target_bytes_Inr)
  ultimately show ?thesis by (auto simp: find_cached_target_def bind_eq_Some_conv)
qed

end

definition memory_services :: "'r fetch \<Rightarrow> 'r fetch \<Rightarrow> ('r, memory_store) services" where
  "memory_services fm ft = \<lparr>fetch_metadata_of = fm, fetch_target_of = ft,
     load_of = memory_load, store_of = memory_store\<rparr>"

definition file_services :: "path \<Rightarrow> 'r fetch \<Rightarrow> 'r fetch \<Rightarrow> ('r, file_system) services" where
  "file_services dir fm ft = \<lparr>fetch_metadata_of = fm, fetch_target_of = ft,
     load_of = file_load dir, store_of = file_store dir\<rparr>"

interpretation mem_updater: stored_updater memory_load memory_store "(=)" "memory_services fm ft"
  by unfold_locales (simp_all add: memory_services_def)

interpretation file_updater: stored_updater "file_load dir" "file_store dir" "same_path dir" "file_services dir fm ft"
  by unfold_locales (simp_all add: file_services_def)

text \<open>A downloaded target is found offline.  After a download whose cache write succeeded, the
  file store yields the same bytes for the target, without the repository.\<close>

theorem downloaded_target_cached:
  assumes "download_target X (file_services dir fm ft) tf path u = (u', Inr bs)"
    "u_store u = Some fs" "snd (file_store dir fs (''targets/'' @ path) bs) = Inr ()"
  shows "find_cached_target X (file_services dir fm ft) u' tf path = Some bs"
  using assms by (rule file_updater.download_then_cached)

theorem downloaded_target_cached_witness:
  "find_cached_target sample_tuf sample_services
     (cache_put sample_services ''targets/a'' [104] sample_updater) sample_file_a ''a'' = Some [104]"
proof -
  obtain fm ft where V: "sample_services = file_services [''cache''] fm ft"
    by (simp add: sample_services_def file_services_def)
  have "snd (file_store [''cache''] sample_fs (''targets/'' @ ''a'') [104]) = Inr ()"
    by (simp add: file_store_def safe_path_def components_def starts_with_def write_atomic_def sample_fs_def)
  from downloaded_target_cached [OF sample_download [unfolded V] _ this] show ?thesis
    by (simp add: V [symmetric] sample_updater_def)
qed

subsection \<open>The cached names of delegated roles\<close>

lemma hex_upper_digit_inject: "x < 16 \<Longrightarrow> y < 16 \<Longrightarrow> hex_upper_digit x = hex_upper_digit y \<Longrightarrow> x = y"
proof -
  have "\<forall>x \<in> set [0..<16]. \<forall>y \<in> set [0..<16]. hex_upper_digit x = hex_upper_digit y \<longrightarrow> x = y" by code_simp
  then show "x < 16 \<Longrightarrow> y < 16 \<Longrightarrow> hex_upper_digit x = hex_upper_digit y \<Longrightarrow> x = y" by simp
qed

definition encode_char :: "char \<Rightarrow> string" where
  "encode_char c = (if unreserved c then [c]
     else [CHR ''%'', hex_upper_digit (of_char c div 16), hex_upper_digit (of_char c mod 16)])"

lemma encode_role_Cons: "encode_role (c # cs) = encode_char c @ encode_role cs"
  by (simp add: encode_role_def encode_char_def)

lemma unreserved_percent: "\<not> unreserved CHR ''%''" "\<not> unreserved CHR ''/''"
  by code_simp+

lemma encode_char_prefix_free:
  assumes "encode_char c @ x = encode_char d @ y" shows "c = d \<and> x = y"
proof (cases "unreserved c \<or> unreserved d")
  case True
  with assms unreserved_percent show ?thesis by (auto simp: encode_char_def split: if_splits)
next
  case False
  have b: "of_char c div 16 < (16 :: nat)" "of_char d div 16 < (16 :: nat)"
    using nat_of_char_less_256 [of c] nat_of_char_less_256 [of d] by (auto simp: less_mult_imp_div_less)
  from assms False have xy: "x = y" and "hex_upper_digit (of_char c div 16) = hex_upper_digit (of_char d div 16)"
    "hex_upper_digit (of_char c mod 16) = hex_upper_digit (of_char d mod 16)"
    by (auto simp: encode_char_def)
  with b have "of_char c div 16 = (of_char d div 16 :: nat)" "of_char c mod 16 = (of_char d mod 16 :: nat)"
    using hex_upper_digit_inject by auto
  then have "of_char c = (of_char d :: nat)" by (metis div_mult_mod_eq)
  with xy show ?thesis by simp
qed

lemma encode_char_nonempty [simp]: "encode_char c \<noteq> []"
  by (simp add: encode_char_def)

lemma encode_role_inject: "encode_role r = encode_role s \<Longrightarrow> r = s"
proof (induction r arbitrary: s)
  case Nil
  then show ?case by (cases s) (auto simp: encode_role_def split: if_splits)
next
  case (Cons c r)
  then obtain d t where s: "s = d # t" by (cases s) (auto simp: encode_role_def split: if_splits)
  with Cons.prems encode_char_prefix_free have "c = d" "encode_role r = encode_role t"
    by (auto simp: encode_role_Cons dest!: encode_char_prefix_free)
  with Cons.IH s show ?case by simp
qed

lemma encode_role_chars: "c \<in> set (encode_role r) \<Longrightarrow> unreserved c \<or> c = CHR ''%''"
proof -
  have hex: "\<forall>d \<in> set [0..<16]. unreserved (hex_upper_digit d)" by code_simp
  have "of_char c div 16 < (16 :: nat)" for c
    using nat_of_char_less_256 [of c] by (auto simp: less_mult_imp_div_less)
  with hex show "c \<in> set (encode_role r) \<Longrightarrow> unreserved c \<or> c = CHR ''%''"
    by (auto simp: encode_role_def split: if_splits)
qed

lemma encode_role_plain: "\<forall>c \<in> set r. unreserved c \<Longrightarrow> encode_role r = r"
  by (induction r) (simp_all add: encode_role_def)

text \<open>Delegated roles cannot overwrite each other's or the top-level files of a store.  Role
  names map injectively to file names without a separator, so distinct roles use distinct files, none
  of them under \<open>targets/\<close> or \<open>root_history/\<close>, and a role outside the top-level names never uses
  the file of one.\<close>

theorem role_files_separate:
  "(encode_role r @ ''.json'' = encode_role s @ ''.json'' \<longleftrightarrow> r = s)
    \<and> CHR ''/'' \<notin> set (encode_role r @ ''.json'')
    \<and> (encode_role r @ ''.json'' \<in> {''root.json'', ''timestamp.json'', ''snapshot.json'', ''targets.json''}
        \<longrightarrow> is_top_level_role r)"
proof (intro conjI impI)
  show "encode_role r @ ''.json'' = encode_role s @ ''.json'' \<longleftrightarrow> r = s" using encode_role_inject by auto
  show "CHR ''/'' \<notin> set (encode_role r @ ''.json'')" using encode_role_chars unreserved_percent by fastforce
  assume "encode_role r @ ''.json'' \<in> {''root.json'', ''timestamp.json'', ''snapshot.json'', ''targets.json''}"
  then have "\<exists>t \<in> {''root'', ''timestamp'', ''snapshot'', ''targets''}. encode_role r @ ''.json'' = t @ ''.json''"
    by simp
  then obtain t where t: "t \<in> {''root'', ''timestamp'', ''snapshot'', ''targets''}" "encode_role r = t" by auto
  have "\<forall>t \<in> set [''root'', ''timestamp'', ''snapshot'', ''targets'']. \<forall>c \<in> set t. unreserved c" by code_simp
  with t have "encode_role r = encode_role t" using encode_role_plain by auto
  with t encode_role_inject show "is_top_level_role r" by (auto simp: is_top_level_role_def)
qed

theorem role_files_separate_witness: "is_top_level_role ''snapshot''"
proof -
  have "encode_role ''snapshot'' @ ''.json'' \<in> {''root.json'', ''timestamp.json'', ''snapshot.json'', ''targets.json''}"
    by code_simp
  with role_files_separate [of "''snapshot''" "[]"] show ?thesis by blast
qed

end
