(* ===== verification/Signed_Note.thy ===== *)
theory Signed_Note
  imports Crypto
begin

text \<open>
  Checkpoints of transparency logs: the parser of sigstore-types (src/checkpoint.rs) and the
  signature checks of sigstore-crypto (src/checkpoint.rs), with the parts of the standard
  library's string API the parser uses: \<open>lines\<close>, \<open>split\<close> at a blank line, \<open>split_whitespace\<close> and
  the parser of \<open>u64\<close>.
\<close>

subsection \<open>Strings\<close>

abbreviation newline :: char where
  "newline \<equiv> CHR 0x0A"

definition strip_cr :: "string \<Rightarrow> string" where
  "strip_cr l = (if l \<noteq> [] \<and> last l = CHR 0x0D then butlast l else l)"

text \<open>\<open>str::lines\<close>: a line ends with a newline, or a carriage return and a newline.\<close>

definition lines :: "string \<Rightarrow> string list" where
  "lines s =
     (let parts = split_on newline s in
      map strip_cr (butlast parts) @ (if last parts = [] then [] else [last parts]))"

text \<open>\<open>split("\n\n")\<close>\<close>

fun split_blank :: "string \<Rightarrow> string list" where
  "split_blank [] = [[]]"
| "split_blank [c] = [[c]]"
| "split_blank (c # d # s) =
     (if c = newline \<and> d = newline then [] # split_blank s
      else case split_blank (d # s) of [] \<Rightarrow> [[c]] | part # parts \<Rightarrow> (c # part) # parts)"

text \<open>\<open>split_whitespace\<close>; \<open>w\<close> is the word read so far, the number bounds the characters left.\<close>

fun words_from :: "nat \<Rightarrow> string \<Rightarrow> string \<Rightarrow> string list" where
  "words_from 0 w s = (if w = [] then [] else [w])"
| "words_from (Suc n) w [] = (if w = [] then [] else [w])"
| "words_from (Suc n) w (c # s) =
     (case find (starts_with (c # s)) white_space of
        Some sp \<Rightarrow> (if w = [] then [] else [w]) @ words_from n [] (drop (length sp) (c # s))
      | None \<Rightarrow> words_from n (w @ [c]) s)"

definition split_whitespace :: "string \<Rightarrow> string list" where
  "split_whitespace s = words_from (length s + 1) [] s"

text \<open>\<open>str::parse::<u64>\<close>: an optional plus sign and decimal digits.\<close>

definition parse_u64 :: "string \<Rightarrow> u64 option" where
  "parse_u64 s =
     (let d = (case s of [] \<Rightarrow> [] | c # r \<Rightarrow> if c = CHR ''+'' then r else s) in
      if d \<noteq> [] \<and> list_all is_digit d \<and> nat_of_digits 0 d < 2 ^ 64
      then Some (word_of_nat (nat_of_digits 0 d)) else None)"

definition em_dash :: string where
  "em_dash = [CHR 0xE2, CHR 0x80, CHR 0x94]"

subsection \<open>The checkpoint\<close>

record checkpoint_signature =
  cs_name :: string
  cs_key_id :: key_hint
  cs_signature :: signature_bytes

record checkpoint =
  cp_origin :: string
  cp_tree_size :: u64
  cp_root_hash :: sha256_hash
  cp_other_content :: "string list"
  cp_signatures :: "checkpoint_signature list"
  signed_note_text :: string

definition next_line :: "string \<Rightarrow> string list \<Rightarrow> (string \<times> string list, types_error) result" where
  "next_line what ls =
     (case ls of [] \<Rightarrow> Inl (InvalidCheckpoint (''missing '' @ what)) | l # rest \<Rightarrow> Inr (trim l, rest))"

text \<open>The body of the note: origin, size, root hash and other content.\<close>

definition parse_body :: "'z externals_scheme \<Rightarrow> string
    \<Rightarrow> (string \<times> u64 \<times> sha256_hash \<times> string list, types_error) result" where
  "parse_body X body =
     and_then (next_line ''origin'' (lines body)) (\<lambda>(origin, rest).
     and_then (ensure (origin \<noteq> []) (InvalidCheckpoint ''empty origin'')) (\<lambda>_.
     and_then (next_line ''tree size'' rest) (\<lambda>(size_str, rest).
     and_then (ok_or (InvalidCheckpoint ''invalid tree size'') (parse_u64 size_str)) (\<lambda>tree_size.
     and_then (next_line ''root hash'' rest) (\<lambda>(root_b64, rest).
     and_then (map_err (\<lambda>_. InvalidCheckpoint ''invalid root hash base64'') (b64_decode X root_b64)) (\<lambda>rb.
     and_then (map_err (\<lambda>e. InvalidCheckpoint (''invalid root hash: '' @ fmt_types_error e))
       (sha256_try_from_slice rb)) (\<lambda>root_hash.
     Inr (origin, tree_size, root_hash, filter (\<lambda>l. l \<noteq> []) (map trim rest)))))))))"

text \<open>One line of the signatures; a blank one gives none.\<close>

definition parse_signature_line :: "'z externals_scheme \<Rightarrow> string
    \<Rightarrow> (checkpoint_signature option, types_error) result" where
  "parse_signature_line X l =
     (let line = trim l in
      if line = [] then Inr None
      else
        and_then (ensure (starts_with line em_dash)
          (InvalidCheckpoint ''signature line must start with em dash (U+2014)'')) (\<lambda>_.
        case split_whitespace line of
          p0 # nm # key_and_sig # rest \<Rightarrow>
            and_then (map_err (\<lambda>_. InvalidCheckpoint ''invalid signature base64'') (b64_decode X key_and_sig))
              (\<lambda>decoded.
            and_then (ensure (5 \<le> length decoded) (InvalidCheckpoint
              ''signature too short (must be at least 5 bytes for key_id + signature)'')) (\<lambda>_.
            and_then (key_hint_try_from_slice (take 4 decoded)) (\<lambda>key_id.
            Inr (Some \<lparr>cs_name = nm, cs_key_id = key_id, cs_signature = drop 4 decoded\<rparr>))))
        | _ \<Rightarrow> Inl (InvalidCheckpoint (''signature line must have format: '' @ em_dash
                 @ '' <name> <base64_signature>''))))"

fun parse_signatures :: "'z externals_scheme \<Rightarrow> string list \<Rightarrow> (checkpoint_signature list, types_error) result" where
  "parse_signatures X [] = Inr []"
| "parse_signatures X (l # ls) =
     and_then (parse_signature_line X l) (\<lambda>s.
     and_then (parse_signatures X ls) (\<lambda>ss.
     Inr ((case s of None \<Rightarrow> [] | Some x \<Rightarrow> [x]) @ ss)))"

definition from_text :: "'z externals_scheme \<Rightarrow> string \<Rightarrow> (checkpoint, types_error) result" where
  "from_text X text =
     (if text = [] then Inl (InvalidCheckpoint ''empty checkpoint'')
      else
        (case split_blank text of
           body # sigs_text # rest \<Rightarrow>
             and_then (parse_body X body) (\<lambda>(origin, tree_size, root_hash, other).
             and_then (parse_signatures X (lines sigs_text)) (\<lambda>sigs.
             and_then (ensure (sigs \<noteq> []) (InvalidCheckpoint ''no signatures found'')) (\<lambda>_.
             Inr \<lparr>cp_origin = origin, cp_tree_size = tree_size, cp_root_hash = root_hash,
               cp_other_content = other, cp_signatures = sigs, signed_note_text = body @ [newline]\<rparr>)))
         | _ \<Rightarrow> Inl (InvalidCheckpoint ''missing blank line separator'')))"

definition to_signed_note_body :: "'z externals_scheme \<Rightarrow> checkpoint \<Rightarrow> string" where
  "to_signed_note_body X c =
     cp_origin c @ [newline] @ fmt_u64 (cp_tree_size c) @ [newline] @ b64_encode X (cp_root_hash c) @ [newline]
     @ concat (map (\<lambda>l. l @ [newline]) (cp_other_content c))"

definition find_signature_by_key_hint :: "checkpoint \<Rightarrow> key_hint \<Rightarrow> checkpoint_signature option" where
  "find_signature_by_key_hint c h = find (\<lambda>s. cs_key_id s = h) (cp_signatures c)"

definition signed_data :: "checkpoint \<Rightarrow> bytes" where
  "signed_data c = as_bytes (signed_note_text c)"

subsection \<open>Signatures over checkpoints (sigstore-crypto)\<close>

definition compute_key_hint :: "'z externals_scheme \<Rightarrow> der_public_key \<Rightarrow> key_hint" where
  "compute_key_hint X k = take 4 (sha256 X k)"

datatype key_type = KtEd25519 | KtEcdsaP256 | KtUnknown

definition detect_key_type :: "'z externals_scheme \<Rightarrow> der_public_key \<Rightarrow> key_type" where
  "detect_key_type X k =
     (case spki_key_bits X k of
        Inr _ \<Rightarrow>
          if spki_oid X k = ''1.3.101.112'' then KtEd25519
          else if spki_oid X k = ''1.2.840.10045.2.1'' then KtEcdsaP256
          else KtUnknown
      | Inl _ \<Rightarrow> if length k = 32 then KtEd25519 else KtUnknown)"

definition extract_raw_key :: "'z externals_scheme \<Rightarrow> der_public_key \<Rightarrow> (bytes, crypto_error) result" where
  "extract_raw_key X k = (case spki_key_bits X k of Inr raw \<Rightarrow> Inr raw | Inl _ \<Rightarrow> Inr k)"

definition verify_ed25519 :: "'z externals_scheme \<Rightarrow> der_public_key \<Rightarrow> signature_bytes \<Rightarrow> bytes
    \<Rightarrow> (unit, crypto_error) result" where
  "verify_ed25519 X k sg msg =
     and_then (extract_raw_key X k) (\<lambda>raw.
     ensure (aws_verify X ED25519 raw msg sg) (Verification ''Ed25519 verification failed''))"

definition verify_ecdsa_p256 :: "'z externals_scheme \<Rightarrow> der_public_key \<Rightarrow> signature_bytes \<Rightarrow> bytes
    \<Rightarrow> (unit, crypto_error) result" where
  "verify_ecdsa_p256 X k sg msg =
     ensure (aws_verify X ECDSA_P256_SHA256_ASN1 k msg sg) (Verification ''ECDSA P-256 verification failed'')"

definition verify_signature_auto :: "'z externals_scheme \<Rightarrow> der_public_key \<Rightarrow> signature_bytes \<Rightarrow> bytes
    \<Rightarrow> (unit, crypto_error) result" where
  "verify_signature_auto X k sg msg =
     (case detect_key_type X k of
        KtEd25519 \<Rightarrow> verify_ed25519 X k sg msg
      | KtEcdsaP256 \<Rightarrow> verify_ecdsa_p256 X k sg msg
      | KtUnknown \<Rightarrow> Inl (Verification ''unsupported or unrecognized public key type''))"

definition cp_verify_signature :: "'z externals_scheme \<Rightarrow> checkpoint \<Rightarrow> der_public_key
    \<Rightarrow> (unit, crypto_error) result" where
  "cp_verify_signature X c k =
     and_then (ok_or (Checkpoint ''No signature found matching key hint'')
       (find_signature_by_key_hint c (compute_key_hint X k))) (\<lambda>s.
     map_err (\<lambda>e. Checkpoint (''Signature verification failed: '' @ fmt_crypto_error e))
       (verify_signature_auto X k (cs_signature s) (signed_data c)))"

subsection \<open>Lemmas\<close>

lemma split_on_nonempty [simp]: "split_on d s \<noteq> []"
  by (cases s) (auto split: list.splits)

lemma split_blank_nonempty [simp]: "split_blank s \<noteq> []"
  by (cases s rule: split_blank.cases) (auto split: list.splits)

lemma from_text_Inr:
  "from_text X text = Inr c \<longleftrightarrow>
     (\<exists>body st rest. text \<noteq> [] \<and> split_blank text = body # st # rest
        \<and> parse_body X body = Inr (cp_origin c, cp_tree_size c, cp_root_hash c, cp_other_content c)
        \<and> parse_signatures X (lines st) = Inr (cp_signatures c) \<and> cp_signatures c \<noteq> []
        \<and> signed_note_text c = body @ [newline])"
  by (cases c)
    (auto simp: from_text_def result_simps and_then_Inr_iff split: list.splits prod.splits)

text \<open>What is read is in the text: body, blank line, signatures, and nothing else is covered.\<close>

lemma split_blank_parts:
  "split_blank s = b # st # rest \<Longrightarrow> \<exists>t. s = b @ [newline, newline] @ t \<and> split_blank t = st # rest"
proof (induction s arbitrary: b rule: split_blank.induct)
  case (3 c d s)
  show ?case
  proof (cases "c = newline \<and> d = newline")
    case True
    with "3.prems" show ?thesis by auto
  next
    case False
    with "3.prems" obtain b' where "split_blank (d # s) = b' # st # rest" "b = c # b'"
      by (cases "split_blank (d # s)") auto
    with "3.IH"(2) [OF False] show ?thesis by auto
  qed
qed auto

lemma parse_signatures_lengths:
  "parse_signatures X ls = Inr ss \<Longrightarrow> \<forall>s \<in> set ss. length (cs_key_id s) = 4 \<and> cs_signature s \<noteq> []"
proof (induction ls arbitrary: ss)
  case (Cons l ls)
  then obtain s ss' where s: "parse_signature_line X l = Inr s" and "parse_signatures X ls = Inr ss'"
    and ss: "ss = (case s of None \<Rightarrow> [] | Some x \<Rightarrow> [x]) @ ss'"
    by (auto simp: result_simps)
  with Cons.IH have IH: "\<forall>s \<in> set ss'. length (cs_key_id s) = 4 \<and> cs_signature s \<noteq> []" by blast
  have "length (cs_key_id x) = 4 \<and> cs_signature x \<noteq> []" if "s = Some x" for x
    using s that by (auto simp: parse_signature_line_def Let_def result_simps split: if_splits list.splits)
  with IH ss show ?case by (auto split: option.splits)
qed simp

lemma verify_signature_auto_Inr:
  "verify_signature_auto X k sg msg = Inr u \<longleftrightarrow>
     (detect_key_type X k = KtEd25519 \<and>
        (\<exists>raw. extract_raw_key X k = Inr raw \<and> aws_verify X ED25519 raw msg sg))
     \<or> (detect_key_type X k = KtEcdsaP256 \<and> aws_verify X ECDSA_P256_SHA256_ASN1 k msg sg)"
  by (auto simp: verify_signature_auto_def verify_ed25519_def verify_ecdsa_p256_def result_simps
      split: key_type.splits)

subsection \<open>Properties\<close>

text \<open>C36: what the signature covers is what is read.  The text of a parsed checkpoint is its signed
  text, a newline and the signatures; and two texts with the same signed bytes have the same origin,
  tree size, root hash and other content, whatever their signatures.\<close>

theorem checkpoint_header_signed:
  assumes "from_text X text = Inr c" "from_text X text' = Inr c'" "signed_data c = signed_data c'"
  shows "cp_origin c = cp_origin c' \<and> cp_tree_size c = cp_tree_size c' \<and> cp_root_hash c = cp_root_hash c'
    \<and> cp_other_content c = cp_other_content c' \<and> length (cp_root_hash c) = 32
    \<and> (\<exists>sigs. text = signed_note_text c @ [newline] @ sigs)"
proof -
  from assms(1) obtain body st rest where b: "split_blank text = body # st # rest"
    "parse_body X body = Inr (cp_origin c, cp_tree_size c, cp_root_hash c, cp_other_content c)"
    "signed_note_text c = body @ [newline]" by (auto simp: from_text_Inr)
  from assms(2) obtain body' where
    "parse_body X body' = Inr (cp_origin c', cp_tree_size c', cp_root_hash c', cp_other_content c')"
    "signed_note_text c' = body' @ [newline]" by (auto simp: from_text_Inr)
  moreover from this b(3) assms(3) have "body = body'" by (simp add: signed_data_def)
  moreover have "length (cp_root_hash c) = 32"
    using b(2) by (auto simp: parse_body_def result_simps split: prod.splits)
  moreover from split_blank_parts [OF b(1)] b(3) have "\<exists>sigs. text = signed_note_text c @ [newline] @ sigs"
    by auto
  ultimately show ?thesis using b(2) by simp
qed

definition sample_note :: "string \<Rightarrow> string" where
  "sample_note sg = ''log'' @ [newline] @ ''7'' @ [newline] @ replicate 32 CHR ''r'' @ [newline, newline]
     @ em_dash @ '' log keyh'' @ sg @ [newline]"

definition sample_checkpoint :: "string \<Rightarrow> checkpoint" where
  "sample_checkpoint sg = \<lparr>cp_origin = ''log'', cp_tree_size = 7, cp_root_hash = as_bytes (replicate 32 CHR ''r''),
     cp_other_content = [], cp_signatures = [\<lparr>cs_name = ''log'', cs_key_id = as_bytes ''keyh'', cs_signature = as_bytes sg\<rparr>],
     signed_note_text = ''log'' @ [newline] @ ''7'' @ [newline] @ replicate 32 CHR ''r'' @ [newline]\<rparr>"

lemma parse_sample_size: "parse_u64 ''7'' = Some 7"
  by (simp add: parse_u64_def is_digit_def)

lemma sample_body: "parse_body sample_ext (''log'' @ [newline] @ ''7'' @ [newline] @ replicate 32 CHR ''r'')
    = Inr (''log'', 7, as_bytes (replicate 32 CHR ''r''), [])"
proof -
  have "lines (''log'' @ [newline] @ ''7'' @ [newline] @ replicate 32 CHR ''r'') = [''log'', ''7'', replicate 32 CHR ''r'']"
    by code_simp
  moreover have "trim ''log'' = ''log''" "trim ''7'' = ''7''" "trim (replicate 32 CHR ''r'') = replicate 32 CHR ''r''"
    by code_simp+
  ultimately show ?thesis
    by (simp add: parse_body_def next_line_def parse_sample_size sample_ext_def sha256_try_from_slice_def)
qed

lemma sample_note_parses:
  "from_text sample_ext (sample_note ''x'') = Inr (sample_checkpoint ''x'')"
  "from_text sample_ext (sample_note ''y'') = Inr (sample_checkpoint ''y'')"
proof -
  have "from_text sample_ext (sample_note sg) = Inr (sample_checkpoint sg)" if "sg = ''x'' \<or> sg = ''y''" for sg
  proof -
    have "split_blank (sample_note sg)
        = [''log'' @ [newline] @ ''7'' @ [newline] @ replicate 32 CHR ''r'', em_dash @ '' log keyh'' @ sg @ [newline]]"
      using that by (elim disjE; hypsubst; code_simp)
    moreover have "lines (em_dash @ '' log keyh'' @ sg @ [newline]) = [em_dash @ '' log keyh'' @ sg]"
      "trim (em_dash @ '' log keyh'' @ sg) = em_dash @ '' log keyh'' @ sg"
      "split_whitespace (em_dash @ '' log keyh'' @ sg) = [em_dash, ''log'', ''keyh'' @ sg]"
      using that by (elim disjE; hypsubst; code_simp)+
    then have "parse_signatures sample_ext (lines (em_dash @ '' log keyh'' @ sg @ [newline]))
        = Inr [\<lparr>cs_name = ''log'', cs_key_id = as_bytes ''keyh'', cs_signature = as_bytes sg\<rparr>]"
      using that by (auto simp: parse_signature_line_def Let_def em_dash_def starts_with_def sample_ext_def
          key_hint_try_from_slice_def as_bytes_def)
    moreover have "sample_note sg \<noteq> []" by (simp add: sample_note_def)
    ultimately show ?thesis using sample_body by (simp add: from_text_Inr sample_checkpoint_def)
  qed
  then show "from_text sample_ext (sample_note ''x'') = Inr (sample_checkpoint ''x'')"
    "from_text sample_ext (sample_note ''y'') = Inr (sample_checkpoint ''y'')" by simp_all
qed

theorem checkpoint_header_signed_witness: "cp_tree_size (sample_checkpoint ''x'') = cp_tree_size (sample_checkpoint ''y'')"
  using checkpoint_header_signed [OF sample_note_parses] by (simp add: signed_data_def sample_checkpoint_def)

end
