(* ===== verification/Bundle_Types.thy ===== *)
theory Bundle_Types
  imports Signed_Note
begin

text \<open>
  The crate sigstore-types, part 3 (src/dsse.rs, src/intoto.rs, src/artifact.rs, src/bundle.rs):
  DSSE envelopes and the encoding that is signed, in-toto statements, the artifact to verify, and
  the bundle with its verification material and transparency log entries.  The conversions from
  and to JSON are in Bundle_Json.
\<close>

subsection \<open>DSSE envelopes\<close>

record dsse_signature =
  ds_sig :: signature_bytes
  ds_keyid :: string

record dsse_envelope =
  payload_type :: string
  payload :: bytes
  env_signatures :: "dsse_signature list"

definition pae :: "string \<Rightarrow> bytes \<Rightarrow> bytes" where
  "pae ptype body =
     as_bytes ''DSSEv1 '' @ as_bytes (fmt_nat (length ptype) @ '' '') @ as_bytes ptype @ as_bytes '' ''
     @ as_bytes (fmt_nat (length body) @ '' '') @ body"

definition env_pae :: "dsse_envelope \<Rightarrow> bytes" where
  "env_pae e = pae (payload_type e) (payload e)"

definition decode_payload :: "dsse_envelope \<Rightarrow> bytes" where
  "decode_payload e = payload e"

subsection \<open>In-toto statements\<close>

record digest_set =
  dg_sha256 :: "string option"
  dg_sha512 :: "string option"

record subject =
  subj_name :: string
  subj_digest :: digest_set

record statement =
  st_type :: string
  st_subject :: "subject list"
  predicate_type :: string
  st_predicate :: json

definition matches_sha256 :: "statement \<Rightarrow> string \<Rightarrow> bool" where
  "matches_sha256 s hash_hex \<longleftrightarrow>
     list_ex (\<lambda>sub. case dg_sha256 (subj_digest sub) of None \<Rightarrow> False | Some h \<Rightarrow> h = hash_hex) (st_subject s)"

subsection \<open>Artifacts\<close>

datatype artifact = Bytes bytes | Digest bytes

fun has_bytes :: "artifact \<Rightarrow> bool" where
  "has_bytes (Bytes b) = True"
| "has_bytes (Digest d) = False"

fun artifact_bytes :: "artifact \<Rightarrow> bytes option" where
  "artifact_bytes (Bytes b) = Some b"
| "artifact_bytes (Digest d) = None"

fun pre_computed_digest :: "artifact \<Rightarrow> bytes option" where
  "pre_computed_digest (Bytes b) = None"
| "pre_computed_digest (Digest d) = Some d"

subsection \<open>Bundles\<close>

datatype media_type = Bundle0_1 | Bundle0_2 | Bundle0_3

fun media_type_str :: "media_type \<Rightarrow> string" where
  "media_type_str Bundle0_1 = ''application/vnd.dev.sigstore.bundle+json;version=0.1''"
| "media_type_str Bundle0_2 = ''application/vnd.dev.sigstore.bundle+json;version=0.2''"
| "media_type_str Bundle0_3 = ''application/vnd.dev.sigstore.bundle.v0.3+json''"

definition media_type_from_str :: "string \<Rightarrow> (media_type, types_error) result" where
  "media_type_from_str s =
    (if s = ''application/vnd.dev.sigstore.bundle+json;version=0.1'' then Inr Bundle0_1
     else if s = ''application/vnd.dev.sigstore.bundle+json;version=0.2'' then Inr Bundle0_2
     else if s = ''application/vnd.dev.sigstore.bundle.v0.3+json'' then Inr Bundle0_3
     else if s = ''application/vnd.dev.sigstore.bundle+json;version=0.3'' then Inr Bundle0_3
     else Inl (InvalidMediaType s))"

record message_digest =
  md_algorithm :: hash_algorithm
  md_digest :: bytes

record message_signature =
  msg_digest :: "message_digest option"
  msg_signature :: signature_bytes

datatype signature_content = MessageSignature message_signature | DsseEnvelope dsse_envelope

datatype material_content =
    Certificate der_certificate
  | X509CertificateChain "der_certificate list"
  | PublicKey string

record inclusion_proof =
  ip_log_index :: log_index
  ip_root_hash :: sha256_hash
  ip_tree_size :: int
  ip_hashes :: "sha256_hash list"
  ip_checkpoint :: string

record tlog_entry =
  te_log_index :: log_index
  te_log_id :: string
  te_kind :: string
  te_version :: string
  te_integrated_time :: int
  te_promise :: "bytes option"
  te_proof :: "inclusion_proof option"
  te_body :: bytes

record verification_material =
  vm_content :: material_content
  tlog_entries :: "tlog_entry list"
  rfc3161_timestamps :: "bytes list"

record sigstore_bundle =
  b_media_type :: string
  b_material :: verification_material
  b_content :: signature_content

definition bundle_version :: "sigstore_bundle \<Rightarrow> (media_type, types_error) result" where
  "bundle_version b = media_type_from_str (b_media_type b)"

definition signing_certificate :: "sigstore_bundle \<Rightarrow> der_certificate option" where
  "signing_certificate b =
     (case vm_content (b_material b) of
        Certificate c \<Rightarrow> Some c
      | X509CertificateChain cs \<Rightarrow> (case cs of [] \<Rightarrow> None | c # _ \<Rightarrow> Some c)
      | PublicKey h \<Rightarrow> None)"

definition has_inclusion_proof :: "sigstore_bundle \<Rightarrow> bool" where
  "has_inclusion_proof b \<longleftrightarrow> list_ex (\<lambda>e. te_proof e \<noteq> None) (tlog_entries (b_material b))"

definition has_inclusion_promise :: "sigstore_bundle \<Rightarrow> bool" where
  "has_inclusion_promise b \<longleftrightarrow> list_ex (\<lambda>e. te_promise e \<noteq> None) (tlog_entries (b_material b))"

text \<open>\<open>CheckpointData::parse\<close>\<close>

definition checkpoint_parse :: "'z externals_scheme \<Rightarrow> inclusion_proof \<Rightarrow> (checkpoint, types_error) result" where
  "checkpoint_parse X p = from_text X (ip_checkpoint p)"

subsection \<open>Lemmas\<close>

lemma media_type_roundtrip: "media_type_from_str (media_type_str m) = Inr m"
  by (cases m) (simp_all add: media_type_from_str_def)

lemma as_bytes_append [simp]: "as_bytes (s @ t) = as_bytes s @ as_bytes t"
  by (simp add: as_bytes_def)

lemma as_bytes_Nil [simp]: "as_bytes [] = []"
  by (simp add: as_bytes_def)

lemma as_bytes_Cons: "as_bytes (c # s) = word_of_nat (of_char c) # as_bytes s"
  by (simp add: as_bytes_def)

lemma as_bytes_of_bytes [simp]: "as_bytes (of_bytes b) = b"
proof -
  have "(word_of_nat (of_char (char_of (unat x) :: char)) :: u8) = x" for x :: u8
    using unsigned_less [of x, where ?'a = nat] by (simp add: word_unat_eq_iff unat_of_nat)
  then show ?thesis by (simp add: as_bytes_def of_bytes_def map_idI)
qed

lemma length_of_bytes [simp]: "length (of_bytes b) = length b"
  by (simp add: of_bytes_def)

lemma matches_sha256_iff:
  "matches_sha256 s h \<longleftrightarrow> (\<exists>sub \<in> set (st_subject s). dg_sha256 (subj_digest sub) = Some h)"
  by (auto simp: matches_sha256_def list_ex_iff split: option.splits)

subsection \<open>Properties\<close>

text \<open>The pre-authentication encoding is injective.  A signature over the encoding of a payload
  and its type is a signature over no other payload or type.\<close>

lemma pae_injective: "pae t b = pae t' b' \<longleftrightarrow> t = t' \<and> b = b'"
proof
  assume eq: "pae t b = pae t' b'"
  define s where "s t b = fmt_nat (length t) @ CHR '' '' # t @ '' '' @ fmt_nat (length b) @ CHR '' '' # b" for t b
  have pae_s: "pae t b = as_bytes (''DSSEv1 '' @ s t (of_bytes b))" for t b
    by (simp add: pae_def s_def as_bytes_Cons)
  have nd: "\<not> is_digit CHR '' ''" by code_simp
  from eq have "s t (of_bytes b) = s t' (of_bytes b')" by (simp only: pae_s as_bytes_inject same_append_eq)
  from fmt_nat_sep_inject [OF nd this [unfolded s_def]] have "length t = length t'"
    and "t @ '' '' @ fmt_nat (length b) @ CHR '' '' # of_bytes b = t' @ '' '' @ fmt_nat (length b') @ CHR '' '' # of_bytes b'"
    by simp_all
  then have t: "t = t'" and "fmt_nat (length b) @ CHR '' '' # of_bytes b = fmt_nat (length b') @ CHR '' '' # of_bytes b'"
    by simp_all
  then have "of_bytes b = of_bytes b'" using fmt_nat_sep_inject [OF nd] by blast
  then have "b = b'" by (metis as_bytes_of_bytes)
  with t show "t = t' \<and> b = b'" by simp
qed simp

end
