(* ===== verification/Trust_Root.thy ===== *)
theory Trust_Root
  imports Bundle_Types
begin

text \<open>
  The crate sigstore-trust-root, part 1 (src/trusted_root.rs, src/error.rs): the trusted root with
  its certificate authorities, logs and timestamp authorities, and the keys and certificates it
  yields at a time.  \<open>Timestamp::now()\<close> is an argument, one reading per call.  Its JSON
  is in Trust_Json; the embedded documents are data.
\<close>

datatype trust_error =
    TJson string
  | TBase64 string
  | TCertificate string
  | TInvalidKey string
  | TMissingField string
  | UnsupportedMediaType string
  | KeyNotFound string
  | CertificateNotFound
  | TimeParse string
  | Tuf string

fun fmt_trust_error :: "trust_error \<Rightarrow> string" where
  "fmt_trust_error (TJson s) = ''failed to parse JSON: '' @ s"
| "fmt_trust_error (TBase64 s) = ''failed to decode base64: '' @ s"
| "fmt_trust_error (TCertificate s) = ''failed to parse certificate: '' @ s"
| "fmt_trust_error (TInvalidKey s) = ''invalid key format: '' @ s"
| "fmt_trust_error (TMissingField s) = ''missing required field: '' @ s"
| "fmt_trust_error (UnsupportedMediaType s) = ''unsupported media type: '' @ s"
| "fmt_trust_error (KeyNotFound s) = ''no matching key found for ID: '' @ s"
| "fmt_trust_error CertificateNotFound = ''no matching certificate found''"
| "fmt_trust_error (TimeParse s) = ''failed to parse time: '' @ s"
| "fmt_trust_error (Tuf s) = ''TUF error: '' @ s"

fun trust_error_of_types :: "types_error \<Rightarrow> trust_error" where
  "trust_error_of_types (types_error.Base64 e) = TBase64 e"
| "trust_error_of_types (types_error.Json e) = TJson e"
| "trust_error_of_types (InvalidEncoding s) = TInvalidKey s"
| "trust_error_of_types (types_error.InvalidCertificate s) = TCertificate s"
| "trust_error_of_types (MissingField s) = TMissingField s"
| "trust_error_of_types e = TInvalidKey (fmt_types_error e)"

subsection \<open>Validity periods\<close>

record validity_period =
  vp_start :: "string option"
  vp_end :: "string option"

definition parse_validity_timestamp :: "'z externals_scheme \<Rightarrow> string option \<Rightarrow> string
    \<Rightarrow> (timestamp option, trust_error) result" where
  "parse_validity_timestamp X v field =
     (case v of
        None \<Rightarrow> Inr None
      | Some s \<Rightarrow>
          (case parse_timestamp X s of
             Inr t \<Rightarrow> Inr (Some t)
           | Inl e \<Rightarrow> Inl (TimeParse (''invalid validFor.'' @ field @ '' timestamp '' @ debug_str s @ '': '' @ e))))"

definition period_start :: "'z externals_scheme \<Rightarrow> validity_period \<Rightarrow> (timestamp option, trust_error) result" where
  "period_start X p = parse_validity_timestamp X (vp_start p) ''start''"

definition period_end :: "'z externals_scheme \<Rightarrow> validity_period \<Rightarrow> (timestamp option, trust_error) result" where
  "period_end X p = parse_validity_timestamp X (vp_end p) ''end''"

definition period_contains :: "'z externals_scheme \<Rightarrow> validity_period \<Rightarrow> timestamp \<Rightarrow> (bool, trust_error) result" where
  "period_contains X p time =
     and_then (period_start X p) (\<lambda>s.
     let after_start = (case s of None \<Rightarrow> True | Some s \<Rightarrow> s \<le> time) in
     and_then (period_end X p) (\<lambda>e.
     let before_end = (case e of None \<Rightarrow> True | Some e \<Rightarrow> time \<le> e) in
     Inr (after_start \<and> before_end)))"

definition has_started_by :: "'z externals_scheme \<Rightarrow> validity_period \<Rightarrow> timestamp \<Rightarrow> (bool, trust_error) result" where
  "has_started_by X p time =
     and_then (period_start X p) (\<lambda>s. Inr (case s of None \<Rightarrow> True | Some s \<Rightarrow> s \<le> time))"

definition usable_for_verification :: "'z externals_scheme \<Rightarrow> validity_period option \<Rightarrow> timestamp
    \<Rightarrow> (bool, trust_error) result" where
  "usable_for_verification X vf now = (case vf of None \<Rightarrow> Inr True | Some p \<Rightarrow> has_started_by X p now)"

subsection \<open>The trusted root\<close>

record log_instance =
  li_base_url :: string
  li_hash_algorithm :: hash_algorithm
  li_raw_bytes :: der_public_key
  li_key_details :: string
  li_valid_for :: "validity_period option"
  li_key_id :: string

record authority =
  ca_organization :: "string option"
  ca_common_name :: "string option"
  ca_uri :: "string option"
  ca_chain :: "der_certificate list"
  ca_valid_for :: "validity_period option"

record trusted_root =
  tr_media_type :: string
  tlogs :: "log_instance list"
  certificate_authorities :: "authority list"
  ctlogs :: "log_instance list"
  timestamp_authorities :: "authority list"

text \<open>
  The loop shared by the accessors: an entry whose validity has not started is skipped, a
  malformed one ends the call, and a usable one contributes what \<open>f\<close> makes of it.
\<close>

fun collect_usable :: "'z externals_scheme \<Rightarrow> timestamp \<Rightarrow> ('a \<Rightarrow> validity_period option)
    \<Rightarrow> ('a \<Rightarrow> ('b list, trust_error) result) \<Rightarrow> 'a list \<Rightarrow> ('b list, trust_error) result" where
  "collect_usable X now vf f [] = Inr []"
| "collect_usable X now vf f (x # xs) =
     and_then (usable_for_verification X (vf x) now) (\<lambda>u.
     if \<not> u then collect_usable X now vf f xs
     else and_then (f x) (\<lambda>ys. and_then (collect_usable X now vf f xs) (\<lambda>zs. Inr (ys @ zs))))"

definition fulcio_certs :: "'z externals_scheme \<Rightarrow> timestamp \<Rightarrow> trusted_root \<Rightarrow> (der_certificate list, trust_error) result" where
  "fulcio_certs X now r = collect_usable X now ca_valid_for (\<lambda>ca. Inr (ca_chain ca)) (certificate_authorities r)"

text \<open>The inserts of a loop into a \<open>HashMap\<close>: a later entry replaces an earlier one.\<close>

definition rekor_keys :: "'z externals_scheme \<Rightarrow> timestamp \<Rightarrow> trusted_root
    \<Rightarrow> ((string, bytes) map, trust_error) result" where
  "rekor_keys X now r =
     and_then (collect_usable X now li_valid_for (\<lambda>l. Inr [(li_key_id l, li_raw_bytes l)]) (tlogs r))
       (\<lambda>ks. Inr (map_of (rev ks)))"

definition rekor_keys_with_hints :: "'z externals_scheme \<Rightarrow> timestamp \<Rightarrow> trusted_root
    \<Rightarrow> ((key_hint \<times> der_public_key) list, trust_error) result" where
  "rekor_keys_with_hints X now r =
     collect_usable X now li_valid_for (\<lambda>l.
       and_then (map_err trust_error_of_types (log_key_id_decode X (li_key_id l))) (\<lambda>key_id.
       Inr (if 4 \<le> length key_id then [(take 4 key_id, li_raw_bytes l)] else []))) (tlogs r)"

fun key_for_log :: "'z externals_scheme \<Rightarrow> timestamp \<Rightarrow> string \<Rightarrow> log_instance list
    \<Rightarrow> (der_public_key, trust_error) result" where
  "key_for_log X now log_id [] = Inl (KeyNotFound log_id)"
| "key_for_log X now log_id (l # ls) =
     (if li_key_id l = log_id then
        and_then (usable_for_verification X (li_valid_for l) now) (\<lambda>u.
        if \<not> u then key_for_log X now log_id ls else Inr (li_raw_bytes l))
      else key_for_log X now log_id ls)"

definition rekor_key_for_log :: "'z externals_scheme \<Rightarrow> timestamp \<Rightarrow> trusted_root \<Rightarrow> string
    \<Rightarrow> (der_public_key, trust_error) result" where
  "rekor_key_for_log X now r log_id = key_for_log X now log_id (tlogs r)"

fun key_for_log_at :: "'z externals_scheme \<Rightarrow> string \<Rightarrow> timestamp \<Rightarrow> log_instance list
    \<Rightarrow> (der_public_key, trust_error) result" where
  "key_for_log_at X log_id time [] = Inl (KeyNotFound log_id)"
| "key_for_log_at X log_id time (l # ls) =
     (if li_key_id l = log_id then
        and_then (case li_valid_for l of None \<Rightarrow> Inr True | Some p \<Rightarrow> period_contains X p time) (\<lambda>valid.
        if valid then Inr (li_raw_bytes l) else key_for_log_at X log_id time ls)
      else key_for_log_at X log_id time ls)"

definition rekor_key_for_log_at :: "'z externals_scheme \<Rightarrow> trusted_root \<Rightarrow> string \<Rightarrow> timestamp
    \<Rightarrow> (der_public_key, trust_error) result" where
  "rekor_key_for_log_at X r log_id time = key_for_log_at X log_id time (tlogs r)"

definition ctfe_keys :: "'z externals_scheme \<Rightarrow> timestamp \<Rightarrow> trusted_root
    \<Rightarrow> ((string, der_public_key) map, trust_error) result" where
  "ctfe_keys X now r =
     and_then (collect_usable X now li_valid_for (\<lambda>l. Inr [(li_key_id l, li_raw_bytes l)]) (ctlogs r))
       (\<lambda>ks. Inr (map_of (rev ks)))"

definition ctfe_keys_with_ids :: "'z externals_scheme \<Rightarrow> timestamp \<Rightarrow> trusted_root
    \<Rightarrow> ((bytes \<times> der_public_key) list, trust_error) result" where
  "ctfe_keys_with_ids X now r =
     collect_usable X now li_valid_for (\<lambda>l. Inr [(sha256 X (li_raw_bytes l), li_raw_bytes l)]) (ctlogs r)"

fun certs_with_validity :: "'z externals_scheme \<Rightarrow> authority list
    \<Rightarrow> ((der_certificate \<times> timestamp option \<times> timestamp option) list, trust_error) result" where
  "certs_with_validity X [] = Inr []"
| "certs_with_validity X (tsa # rest) =
     and_then (case ca_valid_for tsa of
         Some p \<Rightarrow> and_then (period_start X p) (\<lambda>s. and_then (period_end X p) (\<lambda>e. Inr (s, e)))
       | None \<Rightarrow> Inr (None, None)) (\<lambda>(s, e).
     and_then (certs_with_validity X rest) (\<lambda>cs.
     Inr (map (\<lambda>c. (c, s, e)) (ca_chain tsa) @ cs)))"

definition tsa_certs_with_validity :: "'z externals_scheme \<Rightarrow> trusted_root
    \<Rightarrow> ((der_certificate \<times> timestamp option \<times> timestamp option) list, trust_error) result" where
  "tsa_certs_with_validity X r = certs_with_validity X (timestamp_authorities r)"

definition tsa_root_certs :: "'z externals_scheme \<Rightarrow> timestamp \<Rightarrow> trusted_root \<Rightarrow> (der_certificate list, trust_error) result" where
  "tsa_root_certs X now r =
     collect_usable X now ca_valid_for (\<lambda>tsa. Inr (if ca_chain tsa = [] then [] else [last (ca_chain tsa)]))
       (timestamp_authorities r)"

definition tsa_intermediate_certs :: "'z externals_scheme \<Rightarrow> timestamp \<Rightarrow> trusted_root
    \<Rightarrow> (der_certificate list, trust_error) result" where
  "tsa_intermediate_certs X now r =
     collect_usable X now ca_valid_for (\<lambda>tsa.
       let chain_len = length (ca_chain tsa) in
       Inr (if chain_len > 2 then drop 1 (take (chain_len - 1) (ca_chain tsa)) else []))
       (timestamp_authorities r)"

definition tsa_leaf_certs :: "'z externals_scheme \<Rightarrow> timestamp \<Rightarrow> trusted_root \<Rightarrow> (der_certificate list, trust_error) result" where
  "tsa_leaf_certs X now r =
     collect_usable X now ca_valid_for (\<lambda>tsa. Inr (take 1 (ca_chain tsa))) (timestamp_authorities r)"

definition has_rekor_key :: "trusted_root \<Rightarrow> string \<Rightarrow> bool" where
  "has_rekor_key r key_id \<longleftrightarrow> list_ex (\<lambda>l. li_key_id l = key_id) (tlogs r)"

fun validity_for_time :: "'z externals_scheme \<Rightarrow> timestamp \<Rightarrow> authority list
    \<Rightarrow> ((timestamp \<times> timestamp) option, trust_error) result" where
  "validity_for_time X t [] = Inr None"
| "validity_for_time X t (tsa # rest) =
     (case ca_valid_for tsa of
        None \<Rightarrow> validity_for_time X t rest
      | Some p \<Rightarrow>
          and_then (period_start X p) (\<lambda>s.
          and_then (period_end X p) (\<lambda>e.
          case (s, e) of
            (Some st, Some en) \<Rightarrow> if st \<le> t \<and> t \<le> en then Inr (Some (st, en)) else validity_for_time X t rest
          | (Some st, None) \<Rightarrow> if st \<le> t then Inr None else validity_for_time X t rest
          | _ \<Rightarrow> validity_for_time X t rest)))"

definition tsa_validity_for_time :: "'z externals_scheme \<Rightarrow> trusted_root \<Rightarrow> timestamp
    \<Rightarrow> ((timestamp \<times> timestamp) option, trust_error) result" where
  "tsa_validity_for_time X r t = validity_for_time X t (timestamp_authorities r)"

fun within_some_tsa :: "'z externals_scheme \<Rightarrow> timestamp \<Rightarrow> authority list \<Rightarrow> (bool, trust_error) result" where
  "within_some_tsa X t [] = Inr False"
| "within_some_tsa X t (tsa # rest) =
     (case ca_valid_for tsa of
        None \<Rightarrow> Inr True
      | Some p \<Rightarrow> and_then (period_contains X p t) (\<lambda>c. if c then Inr True else within_some_tsa X t rest))"

definition is_timestamp_within_tsa_validity :: "'z externals_scheme \<Rightarrow> trusted_root \<Rightarrow> timestamp
    \<Rightarrow> (bool, trust_error) result" where
  "is_timestamp_within_tsa_validity X r t =
     (if timestamp_authorities r = [] then Inr True else within_some_tsa X t (timestamp_authorities r))"

subsection \<open>Lemmas\<close>

text \<open>A period that has started by a time, and one that contains it.\<close>

definition started :: "'z externals_scheme \<Rightarrow> validity_period option \<Rightarrow> timestamp \<Rightarrow> bool" where
  "started X vf now \<longleftrightarrow>
     (\<forall>p s. vf = Some p \<longrightarrow> vp_start p = Some s \<longrightarrow> (\<exists>t. parse_timestamp X s = Inr t \<and> t \<le> now))"

definition covers :: "'z externals_scheme \<Rightarrow> validity_period option \<Rightarrow> timestamp \<Rightarrow> bool" where
  "covers X vf time \<longleftrightarrow> started X vf time \<and>
     (\<forall>p s. vf = Some p \<longrightarrow> vp_end p = Some s \<longrightarrow> (\<exists>t. parse_timestamp X s = Inr t \<and> time \<le> t))"

lemma parse_validity_Inr [result_simps]:
  "parse_validity_timestamp X v field = Inr t \<longleftrightarrow>
     (case v of None \<Rightarrow> t = None | Some s \<Rightarrow> (\<exists>x. parse_timestamp X s = Inr x \<and> t = Some x))"
  by (auto simp: parse_validity_timestamp_def split: option.splits sum.splits)

lemma usable_True [result_simps]: "usable_for_verification X vf now = Inr True \<longleftrightarrow> started X vf now"
  by (cases vf; cases "vp_start (the vf)")
    (auto simp: usable_for_verification_def has_started_by_def period_start_def result_simps started_def)

lemma contains_True [result_simps]: "period_contains X p time = Inr True \<longleftrightarrow> covers X (Some p) time"
  by (cases "vp_start p"; cases "vp_end p")
    (auto simp: period_contains_def period_start_def period_end_def result_simps covers_def started_def Let_def)

lemma covers_None [simp]: "covers X None t"
  by (simp add: covers_def started_def)

lemma covers_started: "covers X vf t \<Longrightarrow> t \<le> now \<Longrightarrow> started X vf now"
  unfolding covers_def started_def by (blast intro: order_trans)

lemma collect_usable_set:
  assumes "collect_usable X now vf f xs = Inr ys"
  shows "set ys = {y. \<exists>x \<in> set xs. started X (vf x) now \<and> (\<exists>zs. f x = Inr zs \<and> y \<in> set zs)}"
  using assms
proof (induction xs arbitrary: ys)
  case (Cons x xs)
  then obtain u where u: "usable_for_verification X (vf x) now = Inr u" by (auto simp: result_simps)
  show ?case
  proof (cases u)
    case True
    with Cons.prems u obtain as bs where "f x = Inr as" "collect_usable X now vf f xs = Inr bs" "ys = as @ bs"
      by (auto simp: result_simps)
    with Cons.IH True u show ?thesis by (auto simp: usable_True)
  next
    case False
    with u have "\<not> started X (vf x) now" by (simp flip: usable_True)
    with Cons False u show ?thesis by auto
  qed
qed simp

lemma key_for_log_at_Inr:
  "key_for_log_at X log_id time ls = Inr k \<Longrightarrow>
     \<exists>l \<in> set ls. li_key_id l = log_id \<and> li_raw_bytes l = k \<and> covers X (li_valid_for l) time"
  by (induction X log_id time ls rule: key_for_log_at.induct)
    (auto simp: result_simps split: if_splits option.splits)

text \<open>
  What the validity check of one entry says, and when a list of entries yields a key: the
  entries before the one chosen are of other logs or parsed and found not to cover the time.
\<close>

definition valid_at :: "'z externals_scheme \<Rightarrow> timestamp \<Rightarrow> log_instance \<Rightarrow> (bool, trust_error) result" where
  "valid_at X time l = (case li_valid_for l of None \<Rightarrow> Inr True | Some p \<Rightarrow> period_contains X p time)"

lemma valid_at_True: "valid_at X time l = Inr True \<longleftrightarrow> covers X (li_valid_for l) time"
  by (cases "li_valid_for l") (auto simp: valid_at_def result_simps)

lemma key_for_log_at_Cons:
  "key_for_log_at X log_id time (l # ls) =
     (if li_key_id l = log_id then
        and_then (valid_at X time l) (\<lambda>v. if v then Inr (li_raw_bytes l) else key_for_log_at X log_id time ls)
      else key_for_log_at X log_id time ls)"
  by (simp add: valid_at_def)

lemma first_such_Cons:
  "(\<exists>xs y ys. l # ls = xs @ y # ys \<and> P y \<and> (\<forall>x \<in> set xs. Q x)) \<longleftrightarrow>
     P l \<or> Q l \<and> (\<exists>xs y ys. ls = xs @ y # ys \<and> P y \<and> (\<forall>x \<in> set xs. Q x))"
  (is "?L \<longleftrightarrow> P l \<or> Q l \<and> ?R")
proof
  assume ?L
  then obtain xs y ys where s: "l # ls = xs @ y # ys" "P y" "\<forall>x \<in> set xs. Q x" by blast
  then show "P l \<or> Q l \<and> ?R" by (cases xs) auto
next
  assume R: "P l \<or> Q l \<and> ?R"
  show ?L
  proof (cases "P l")
    case True
    then have "l # ls = [] @ l # ls \<and> P l \<and> (\<forall>x \<in> set []. Q x)" by simp
    then show ?thesis by blast
  next
    case False
    with R obtain xs y ys where "Q l" "ls = xs @ y # ys" "P y" "\<forall>x \<in> set xs. Q x" by blast
    then have "l # ls = (l # xs) @ y # ys \<and> P y \<and> (\<forall>x \<in> set (l # xs). Q x)" by simp
    then show ?thesis by blast
  qed
qed

lemma key_for_log_at_iff:
  "key_for_log_at X log_id time ls = Inr k \<longleftrightarrow>
     (\<exists>xs l ys. ls = xs @ l # ys
        \<and> (li_key_id l = log_id \<and> li_raw_bytes l = k \<and> valid_at X time l = Inr True)
        \<and> (\<forall>x \<in> set xs. li_key_id x \<noteq> log_id \<or> valid_at X time x = Inr False))"
proof (induction ls)
  case (Cons l ls)
  let ?first = "li_key_id l = log_id \<and> li_raw_bytes l = k \<and> valid_at X time l = Inr True"
  let ?skip = "li_key_id l \<noteq> log_id \<or> valid_at X time l = Inr False"
  have "key_for_log_at X log_id time (l # ls) = Inr k \<longleftrightarrow>
      ?first \<or> (?skip \<and> key_for_log_at X log_id time ls = Inr k)"
    unfolding key_for_log_at_Cons by (cases "valid_at X time l") auto
  then show ?case
    unfolding Cons.IH first_such_Cons .
qed simp

lemma key_for_log_Inr:
  "key_for_log X now log_id ls = Inr k \<Longrightarrow>
     \<exists>l \<in> set ls. li_key_id l = log_id \<and> li_raw_bytes l = k \<and> started X (li_valid_for l) now"
  by (induction X now log_id ls rule: key_for_log.induct) (auto simp: result_simps split: if_splits)

lemma within_some_tsa_covers:
  "within_some_tsa X t tsas = Inr True \<Longrightarrow> \<exists>tsa \<in> set tsas. covers X (ca_valid_for tsa) t"
proof (induction tsas)
  case (Cons tsa tsas)
  then show ?case
    by (cases "ca_valid_for tsa"; cases "covers X (ca_valid_for tsa) t") (auto simp: result_simps split: if_splits)
qed simp

subsection \<open>Properties\<close>

text \<open>The key the trusted root yields for a log at a time is that of the first entry with the
  log's key id whose validity period, both ends included, parses and contains the time; every
  entry of that log before it parses and does not contain it.  A malformed period ends the
  search with an error, and no key is yielded outside every period.
\<close>
theorem rekor_key_for_log_at_exact:
  "rekor_key_for_log_at X r log_id time = Inr k \<longleftrightarrow>
     (\<exists>xs l ys. tlogs r = xs @ l # ys \<and> li_key_id l = log_id \<and> li_raw_bytes l = k
        \<and> covers X (li_valid_for l) time
        \<and> (\<forall>x \<in> set xs. li_key_id x \<noteq> log_id \<or>
             (\<exists>p. li_valid_for x = Some p \<and> period_contains X p time = Inr False)))"
proof -
  have "valid_at X time x = Inr False \<longleftrightarrow>
      (\<exists>p. li_valid_for x = Some p \<and> period_contains X p time = Inr False)" for x
    by (cases "li_valid_for x") (auto simp: valid_at_def)
  then show ?thesis
    by (simp add: rekor_key_for_log_at_def key_for_log_at_iff valid_at_True)
qed

text \<open>A log whose key was replaced at second 3: the second entry answers for second 4.\<close>

definition sample_log :: "string \<Rightarrow> string option \<Rightarrow> bytes \<Rightarrow> log_instance" where
  "sample_log start stop key =
     \<lparr>li_base_url = [], li_hash_algorithm = Sha2256, li_raw_bytes = key, li_key_details = [],
      li_valid_for = Some \<lparr>vp_start = Some start, vp_end = stop\<rparr>, li_key_id = ''k''\<rparr>"

definition sample_root :: trusted_root where
  "sample_root =
     \<lparr>tr_media_type = [], tlogs = [sample_log [] (Some ''aaa'') [1], sample_log ''aaa'' None [2]],
      certificate_authorities = [], ctlogs = [], timestamp_authorities = []\<rparr>"

theorem rekor_key_for_log_at_exact_witness:
  "\<exists>xs l ys. tlogs sample_root = xs @ l # ys \<and> li_key_id l = ''k'' \<and> li_raw_bytes l = [2]
        \<and> covers sample_ext (li_valid_for l) 4
        \<and> (\<forall>x \<in> set xs. li_key_id x \<noteq> ''k'' \<or>
             (\<exists>p. li_valid_for x = Some p \<and> period_contains sample_ext p 4 = Inr False))"
proof -
  have "rekor_key_for_log_at sample_ext sample_root ''k'' 4 = Inr [2]" by code_simp
  then show ?thesis using rekor_key_for_log_at_exact [of sample_ext sample_root "''k''" 4 "[2]"] by simp
qed

end
