(* ===== verification/Rekor_Entry.thy ===== *)
theory Rekor_Entry
  imports Bundle_Types
begin

text \<open>
  The crate sigstore-rekor, part 1 (src/body.rs, src/entry.rs, src/error.rs): the typed bodies of
  log entries and their parser, the entries the client submits, the entry a log returns, and the
  conversion of a version 2 response (in src/client.rs).  A struct of the code that only nests
  another one, as the JSON does, is flattened into the fields the code reads; the derived
  deserializers of the bodies are parameters.
\<close>

datatype rekor_error =
    Http string
  | Api string
  | RJson string
  | RMerkle string
  | InvalidResponse string
  | RBase64 string

fun fmt_rekor_error :: "rekor_error \<Rightarrow> string" where
  "fmt_rekor_error (Http s) = ''HTTP error: '' @ s"
| "fmt_rekor_error (Api s) = ''API error: '' @ s"
| "fmt_rekor_error (RJson s) = ''JSON error: '' @ s"
| "fmt_rekor_error (RMerkle s) = ''Merkle proof error: '' @ s"
| "fmt_rekor_error (InvalidResponse s) = ''Invalid response: '' @ s"
| "fmt_rekor_error (RBase64 s) = ''Base64 error: '' @ s"

subsection \<open>Entry bodies (body.rs)\<close>

record hashedrekord_v001 =
  h1_algorithm :: hash_algorithm
  h1_value :: string
  h1_signature :: signature_bytes
  h1_public_key :: bytes

record hashedrekord_v002 =
  h2_digest :: bytes
  h2_signature :: signature_bytes
  h2_certificate :: "der_certificate option"
  h2_public_key :: "der_public_key option"

record dsse_v001_signature =
  d1_signature :: signature_bytes
  d1_verifier :: bytes

record dsse_v001 =
  d1_envelope_hash :: string
  d1_payload_hash :: string
  d1_signatures :: "dsse_v001_signature list"

record dsse_v002 =
  d2_payload_digest :: bytes
  d2_signatures :: "(signature_bytes \<times> string \<times> der_certificate) list"

record intoto_v002 =
  it_payload :: bytes
  it_signatures :: "signature_bytes list"

datatype rekor_body =
    HashedRekordV001 hashedrekord_v001
  | HashedRekordV002 hashedrekord_v002
  | DsseV001 dsse_v001
  | DsseV002 dsse_v002
  | IntotoV002 intoto_v002

record rekor_externals = externals +
  de_hashedrekord_v001 :: "string \<Rightarrow> (hashedrekord_v001, string) result"
  de_hashedrekord_v002 :: "string \<Rightarrow> (hashedrekord_v002, string) result"
  de_dsse_v001 :: "string \<Rightarrow> (dsse_v001, string) result"
  de_dsse_v002 :: "string \<Rightarrow> (dsse_v002, string) result"
  de_intoto_v002 :: "string \<Rightarrow> (intoto_v002, string) result"

definition from_utf8 :: "'z externals_scheme \<Rightarrow> bytes \<Rightarrow> (string, string) result" where
  "from_utf8 X b = (case utf8_error X b of None \<Rightarrow> Inr (of_bytes b) | Some e \<Rightarrow> Inl e)"

text \<open>\<open>PublicKeyContent::to_certificate\<close> and \<open>DsseV001Signature::to_certificate\<close>.\<close>

definition pem_to_certificate :: "'z externals_scheme \<Rightarrow> bytes \<Rightarrow> (der_certificate, rekor_error) result" where
  "pem_to_certificate X pem =
     and_then (map_err (\<lambda>e. InvalidResponse (''PEM not valid UTF-8: '' @ e)) (from_utf8 X pem)) (\<lambda>s.
     map_err (\<lambda>e. InvalidResponse (''failed to parse certificate PEM: '' @ fmt_types_error e))
       (certificate_from_pem X s))"

definition from_base64_json :: "'z rekor_externals_scheme \<Rightarrow> string \<Rightarrow> string \<Rightarrow> string
    \<Rightarrow> (rekor_body, rekor_error) result" where
  "from_base64_json X base64_body kind version =
     and_then (map_err (\<lambda>e. InvalidResponse (''failed to decode body: '' @ e)) (b64_decode X base64_body))
       (\<lambda>body_bytes.
     and_then (map_err (\<lambda>e. InvalidResponse (''body is not valid UTF-8: '' @ e)) (from_utf8 X body_bytes))
       (\<lambda>body_str.
     if kind = ''hashedrekord'' \<and> version = ''0.0.1'' then
       map_sum (\<lambda>e. InvalidResponse (''failed to parse hashedrekord v0.0.1 body: '' @ e)) HashedRekordV001
         (de_hashedrekord_v001 X body_str)
     else if kind = ''hashedrekord'' \<and> version = ''0.0.2'' then
       map_sum (\<lambda>e. InvalidResponse (''failed to parse hashedrekord v0.0.2 body: '' @ e)) HashedRekordV002
         (de_hashedrekord_v002 X body_str)
     else if kind = ''dsse'' \<and> version = ''0.0.1'' then
       map_sum (\<lambda>e. InvalidResponse (''failed to parse dsse v0.0.1 body: '' @ e)) DsseV001
         (de_dsse_v001 X body_str)
     else if kind = ''dsse'' \<and> version = ''0.0.2'' then
       map_sum (\<lambda>e. InvalidResponse (''failed to parse dsse v0.0.2 body: '' @ e)) DsseV002
         (de_dsse_v002 X body_str)
     else if kind = ''intoto'' \<and> version = ''0.0.2'' then
       map_sum (\<lambda>e. InvalidResponse (''failed to parse intoto v0.0.2 body: '' @ e)) IntotoV002
         (de_intoto_v002 X body_str)
     else Inl (InvalidResponse (''unsupported entry kind/version: '' @ kind @ ''/'' @ version))))"

subsection \<open>Entries (entry.rs)\<close>

datatype rekor_api_version = V1 | V2

fun rekor_default_url :: "rekor_api_version \<Rightarrow> string" where
  "rekor_default_url V1 = ''https://rekor.sigstore.dev''"
| "rekor_default_url V2 = ''https://log2025-1.rekor.sigstore.dev''"

fun rekor_default_staging_url :: "rekor_api_version \<Rightarrow> string" where
  "rekor_default_staging_url V1 = ''https://rekor.sigstage.dev''"
| "rekor_default_staging_url V2 = ''https://log2025-alpha2.rekor.sigstage.dev''"

record rekor_inclusion_proof =
  rp_checkpoint :: string
  rp_hashes :: "string list"
  rp_log_index :: int
  rp_root_hash :: string
  rp_tree_size :: int

record log_verification =
  lv_proof :: "rekor_inclusion_proof option"
  lv_set :: "bytes option"

record log_entry =
  le_uuid :: string
  le_body :: bytes
  le_integrated_time :: int
  le_log_id :: string
  le_log_index :: int
  le_verification :: "log_verification option"

record dsse_entry =
  de_api_version :: string
  de_kind :: string
  de_envelope :: string
  de_verifiers :: "string list"

definition dsse_entry_new :: "'z externals_scheme \<Rightarrow> (dsse_envelope \<Rightarrow> string) \<Rightarrow> dsse_envelope
    \<Rightarrow> der_certificate \<Rightarrow> dsse_entry" where
  "dsse_entry_new X envelope_json envelope cert =
     \<lparr>de_api_version = ''0.0.1'', de_kind = ''dsse'', de_envelope = envelope_json envelope,
      de_verifiers = [b64_encode X (as_bytes (certificate_to_pem X cert))]\<rparr>"

record hashed_rekord =
  hr_api_version :: string
  hr_kind :: string
  hr_algorithm :: hash_algorithm
  hr_value :: string
  hr_signature :: signature_bytes
  hr_public_key :: bytes

definition hashed_rekord_new :: "'z externals_scheme \<Rightarrow> sha256_hash \<Rightarrow> signature_bytes \<Rightarrow> der_certificate
    \<Rightarrow> hashed_rekord" where
  "hashed_rekord_new X h sg cert =
     \<lparr>hr_api_version = ''0.0.1'', hr_kind = ''hashedrekord'', hr_algorithm = Sha2256,
      hr_value = hex_encode X h, hr_signature = sg, hr_public_key = as_bytes (certificate_to_pem X cert)\<rparr>"

record hashed_rekord_v2 =
  hr2_digest :: sha256_hash
  hr2_signature :: signature_bytes
  hr2_key_details :: string
  hr2_certificate :: "der_certificate option"
  hr2_public_key :: "bytes option"

definition hashed_rekord_v2_new :: "sha256_hash \<Rightarrow> signature_bytes \<Rightarrow> der_certificate \<Rightarrow> hashed_rekord_v2" where
  "hashed_rekord_v2_new h sg cert =
     \<lparr>hr2_digest = h, hr2_signature = sg, hr2_key_details = ''PKIX_ECDSA_P256_SHA_256'',
      hr2_certificate = Some cert, hr2_public_key = None\<rparr>"

record dsse_verifier_v2 =
  dv_key_details :: string
  dv_certificate :: "der_certificate option"
  dv_public_key :: "bytes option"

record dsse_entry_v2 =
  de2_envelope :: dsse_envelope
  de2_verifiers :: "dsse_verifier_v2 list"

definition dsse_entry_v2_new :: "dsse_envelope \<Rightarrow> der_certificate \<Rightarrow> dsse_entry_v2" where
  "dsse_entry_v2_new envelope cert =
     \<lparr>de2_envelope = envelope, de2_verifiers = [\<lparr>dv_key_details = ''PKIX_ECDSA_P256_SHA_256'',
        dv_certificate = Some cert, dv_public_key = None\<rparr>]\<rparr>"

record inclusion_proof_v2 =
  p2_log_index :: string
  p2_root_hash :: sha256_hash
  p2_tree_size :: string
  p2_hashes :: "sha256_hash list"
  p2_checkpoint :: string

record log_entry_v2 =
  e2_log_index :: string
  e2_log_id :: string
  e2_integrated_time :: string
  e2_promise :: "bytes option"
  e2_proof :: "inclusion_proof_v2 option"
  e2_body :: bytes

subsection \<open>The conversion of a version 2 response (client.rs)\<close>

text \<open>\<open>str::parse::<i64>\<close>, and its \<open>unwrap_or_default\<close>.\<close>

definition parse_i64 :: "string \<Rightarrow> int option" where
  "parse_i64 s =
     (let neg = (s \<noteq> [] \<and> hd s = CHR ''-'');
          d = (case s of [] \<Rightarrow> [] | c # r \<Rightarrow> if c = CHR ''+'' \<or> c = CHR ''-'' then r else s);
          v = (if neg then - int (nat_of_digits 0 d) else int (nat_of_digits 0 d)) in
      if d \<noteq> [] \<and> list_all is_digit d \<and> - (2 ^ 63) \<le> v \<and> v < 2 ^ 63 then Some v else None)"

definition parse_i64_or_default :: "string \<Rightarrow> int" where
  "parse_i64_or_default s = (case parse_i64 s of None \<Rightarrow> 0 | Some v \<Rightarrow> v)"

definition proof_of_v2 :: "'z externals_scheme \<Rightarrow> inclusion_proof_v2 \<Rightarrow> rekor_inclusion_proof" where
  "proof_of_v2 X p =
     \<lparr>rp_checkpoint = p2_checkpoint p, rp_hashes = map (hex_encode X) (p2_hashes p),
      rp_log_index = parse_i64_or_default (p2_log_index p), rp_root_hash = hex_encode X (p2_root_hash p),
      rp_tree_size = parse_i64_or_default (p2_tree_size p)\<rparr>"

definition log_entry_of_v2 :: "'z externals_scheme \<Rightarrow> log_entry_v2 \<Rightarrow> log_entry" where
  "log_entry_of_v2 X e =
     \<lparr>le_uuid = [], le_body = e2_body e, le_integrated_time = parse_i64_or_default (e2_integrated_time e),
      le_log_id = e2_log_id e, le_log_index = parse_i64_or_default (e2_log_index e),
      le_verification = Some \<lparr>lv_proof = map_option (proof_of_v2 X) (e2_proof e), lv_set = e2_promise e\<rparr>\<rparr>"

subsection \<open>Lemmas\<close>

lemma map_sum_Inr_iff [result_simps]: "map_sum f g r = Inr y \<longleftrightarrow> (\<exists>x. r = Inr x \<and> y = g x)"
  by (cases r) auto

lemma from_utf8_Inr [result_simps]: "from_utf8 X b = Inr s \<longleftrightarrow> utf8_error X b = None \<and> s = of_bytes b"
  by (auto simp: from_utf8_def split: option.splits)

text \<open>Which body is parsed is decided by the kind and the version the bundle declares.\<close>

lemma from_base64_json_kind:
  "from_base64_json X s kind version = Inr body \<Longrightarrow>
     (case body of
        HashedRekordV001 _ \<Rightarrow> kind = ''hashedrekord'' \<and> version = ''0.0.1''
      | HashedRekordV002 _ \<Rightarrow> kind = ''hashedrekord'' \<and> version = ''0.0.2''
      | DsseV001 _ \<Rightarrow> kind = ''dsse'' \<and> version = ''0.0.1''
      | DsseV002 _ \<Rightarrow> kind = ''dsse'' \<and> version = ''0.0.2''
      | IntotoV002 _ \<Rightarrow> kind = ''intoto'' \<and> version = ''0.0.2'')"
proof -
  define A B C D E where "A \<longleftrightarrow> kind = ''hashedrekord'' \<and> version = ''0.0.1''"
    and "B \<longleftrightarrow> kind = ''hashedrekord'' \<and> version = ''0.0.2''" and "C \<longleftrightarrow> kind = ''dsse'' \<and> version = ''0.0.1''"
    and "D \<longleftrightarrow> kind = ''dsse'' \<and> version = ''0.0.2''" and "E \<longleftrightarrow> kind = ''intoto'' \<and> version = ''0.0.2''"
  note abbr = A_def [symmetric] B_def [symmetric] C_def [symmetric] D_def [symmetric] E_def [symmetric]
  show "from_base64_json X s kind version = Inr body \<Longrightarrow> ?thesis"
    unfolding from_base64_json_def and_then_Inr_iff abbr
    by (auto simp: map_sum_Inr_iff split: if_splits)
qed

lemma digit_not_sign: "is_digit c \<Longrightarrow> c \<noteq> CHR ''-'' \<and> c \<noteq> CHR ''+''"
  by (auto simp: is_digit_def)

lemma parse_i64_fmt: "n < 2 ^ 63 \<Longrightarrow> parse_i64 (fmt_nat n) = Some (int n)"
proof -
  assume n: "n < 2 ^ 63"
  then have m: "int n < 2 ^ 63" by (metis of_nat_less_iff of_nat_numeral of_nat_power)
  obtain c r where f: "fmt_nat n = c # r" by (cases "fmt_nat n") auto
  with fmt_nat_digits [of n] have "c \<noteq> CHR ''-'' \<and> c \<noteq> CHR ''+''" by (auto dest: digit_not_sign)
  then have "parse_i64 (fmt_nat n) = (if list_all is_digit (fmt_nat n) \<and> int (nat_of_digits 0 (fmt_nat n)) < 2 ^ 63
      then Some (int (nat_of_digits 0 (fmt_nat n))) else None)"
    unfolding parse_i64_def Let_def f by (simp add: order.trans [of _ 0])
  with m fmt_nat_digits [of n] show ?thesis by (simp add: list_all_iff)
qed

end
