(* ===== verification/Bundle_Build.thy ===== *)
theory Bundle_Build
  imports Rekor_Entry
begin

text \<open>
  The crate sigstore-bundle (src/validation.rs, src/builder.rs, src/error.rs): the structural
  validation of bundles per media type, and the builders of bundles and of their log entries.
\<close>

datatype bundle_error = BValidation string | BJson string

fun fmt_bundle_error :: "bundle_error \<Rightarrow> string" where
  "fmt_bundle_error (BValidation s) = ''Bundle validation error: '' @ s"
| "fmt_bundle_error (BJson s) = ''JSON error: '' @ s"

subsection \<open>Validation\<close>

record validation_options =
  require_inclusion_proof :: bool
  require_timestamp :: bool

definition default_validation_options :: validation_options where
  "default_validation_options = \<lparr>require_inclusion_proof = True, require_timestamp = False\<rparr>"

text \<open>\<open>u64::try_from\<close> of an i64.\<close>

definition u64_of_i64 :: "int \<Rightarrow> u64 option" where
  "u64_of_i64 i = (if 0 \<le> i then Some (word_of_int i) else None)"

definition validate_proof :: "'z externals_scheme \<Rightarrow> inclusion_proof \<Rightarrow> (unit, bundle_error) result" where
  "validate_proof X p =
     and_then (map_err (\<lambda>e. BValidation (''failed to parse checkpoint: '' @ fmt_types_error e))
       (checkpoint_parse X p)) (\<lambda>cp.
     and_then (ok_or (BValidation ''invalid log_index in proof'') (log_index_as_u64 (ip_log_index p))) (\<lambda>leaf_index.
     and_then (ok_or (BValidation ''invalid tree_size in proof'') (u64_of_i64 (ip_tree_size p))) (\<lambda>tree_size.
     and_then (ensure (\<not> leaf_index \<ge> tree_size)
       (BValidation (''inclusion proof log_index '' @ fmt_u64 leaf_index @ '' out of range for tree_size ''
          @ fmt_u64 tree_size))) (\<lambda>_.
     ensure (cp_root_hash cp = ip_root_hash p)
       (BValidation ''inclusion proof root hash does not match checkpoint root hash'')))))"

definition validate_inclusion_proof_structure :: "'z externals_scheme \<Rightarrow> sigstore_bundle
    \<Rightarrow> (unit, bundle_error) result" where
  "validate_inclusion_proof_structure X b =
     try_each (\<lambda>e. case te_proof e of None \<Rightarrow> Inr () | Some p \<Rightarrow> validate_proof X p) (tlog_entries (b_material b))"

definition validate_common :: "sigstore_bundle \<Rightarrow> validation_options \<Rightarrow> (unit, bundle_error) result" where
  "validate_common b opts =
     (let has_tlog_entries = (tlog_entries (b_material b) \<noteq> []);
          has_timestamp = (rfc3161_timestamps (b_material b) \<noteq> []) in
      and_then (ensure (\<not> (\<not> has_tlog_entries \<and> (require_inclusion_proof opts \<or> \<not> has_timestamp)))
        (BValidation ''bundle must have at least one tlog entry or timestamp verification data'')) (\<lambda>_.
      ensure (\<not> (require_timestamp opts \<and> \<not> has_timestamp))
        (BValidation ''bundle must have timestamp verification data'')))"

definition validate_v0_1 :: "'z externals_scheme \<Rightarrow> sigstore_bundle \<Rightarrow> validation_options
    \<Rightarrow> (unit, bundle_error) result" where
  "validate_v0_1 X b opts =
     and_then (ensure (has_inclusion_promise b) (BValidation ''v0.1 bundle must have inclusion promise'')) (\<lambda>_.
     and_then (validate_inclusion_proof_structure X b) (\<lambda>_.
     validate_common b opts))"

definition validate_v0_2 :: "'z externals_scheme \<Rightarrow> sigstore_bundle \<Rightarrow> validation_options
    \<Rightarrow> (unit, bundle_error) result" where
  "validate_v0_2 X b opts =
     and_then (ensure (\<not> (require_inclusion_proof opts \<and> \<not> has_inclusion_proof b))
       (BValidation ''v0.2 bundle must have inclusion proof'')) (\<lambda>_.
     and_then (validate_inclusion_proof_structure X b) (\<lambda>_.
     validate_common b opts))"

definition validate_v0_3 :: "'z externals_scheme \<Rightarrow> sigstore_bundle \<Rightarrow> validation_options
    \<Rightarrow> (unit, bundle_error) result" where
  "validate_v0_3 X b opts =
     and_then (case vm_content (b_material b) of
         Certificate c \<Rightarrow> Inr ()
       | X509CertificateChain cs \<Rightarrow> Inl (BValidation ''v0.3 bundle must use single certificate, not chain'')
       | PublicKey h \<Rightarrow> Inr ()) (\<lambda>_.
     and_then (ensure (\<not> (require_inclusion_proof opts \<and> \<not> has_inclusion_proof b))
       (BValidation ''v0.3 bundle must have inclusion proof'')) (\<lambda>_.
     and_then (validate_inclusion_proof_structure X b) (\<lambda>_.
     validate_common b opts)))"

definition validate_bundle_with_options :: "'z externals_scheme \<Rightarrow> sigstore_bundle \<Rightarrow> validation_options
    \<Rightarrow> (unit, bundle_error) result" where
  "validate_bundle_with_options X b opts =
     and_then (map_err (\<lambda>e. BValidation (''invalid media type: '' @ fmt_types_error e)) (bundle_version b))
       (\<lambda>version.
     case version of
       Bundle0_1 \<Rightarrow> validate_v0_1 X b opts
     | Bundle0_2 \<Rightarrow> validate_v0_2 X b opts
     | Bundle0_3 \<Rightarrow> validate_v0_3 X b opts)"

definition validate_bundle :: "'z externals_scheme \<Rightarrow> sigstore_bundle \<Rightarrow> (unit, bundle_error) result" where
  "validate_bundle X b = validate_bundle_with_options X b default_validation_options"

subsection \<open>Building bundles\<close>

datatype material_v03 = V03Certificate der_certificate | V03PublicKey string

record bundle_v03 =
  v3_verification :: material_v03
  v3_content :: signature_content
  v3_tlog_entries :: "tlog_entry list"
  v3_timestamps :: "bytes list"

definition v03_new :: "material_v03 \<Rightarrow> signature_content \<Rightarrow> bundle_v03" where
  "v03_new m c = \<lparr>v3_verification = m, v3_content = c, v3_tlog_entries = [], v3_timestamps = []\<rparr>"

definition with_certificate_and_signature :: "der_certificate \<Rightarrow> signature_bytes \<Rightarrow> sha256_hash \<Rightarrow> bundle_v03" where
  "with_certificate_and_signature cert sg digest =
     v03_new (V03Certificate cert) (MessageSignature
       \<lparr>msg_digest = Some \<lparr>md_algorithm = Sha2256, md_digest = digest\<rparr>, msg_signature = sg\<rparr>)"

definition with_certificate_and_dsse :: "der_certificate \<Rightarrow> dsse_envelope \<Rightarrow> bundle_v03" where
  "with_certificate_and_dsse cert e = v03_new (V03Certificate cert) (DsseEnvelope e)"

definition with_tlog_entry :: "bundle_v03 \<Rightarrow> tlog_entry \<Rightarrow> bundle_v03" where
  "with_tlog_entry b e = b\<lparr>v3_tlog_entries := v3_tlog_entries b @ [e]\<rparr>"

definition with_rfc3161_timestamp :: "bundle_v03 \<Rightarrow> bytes \<Rightarrow> bundle_v03" where
  "with_rfc3161_timestamp b t = b\<lparr>v3_timestamps := v3_timestamps b @ [t]\<rparr>"

definition into_bundle :: "bundle_v03 \<Rightarrow> sigstore_bundle" where
  "into_bundle b =
     \<lparr>b_media_type = media_type_str Bundle0_3,
      b_material = \<lparr>vm_content = (case v3_verification b of V03Certificate c \<Rightarrow> Certificate c | V03PublicKey h \<Rightarrow> PublicKey h),
        tlog_entries = v3_tlog_entries b, rfc3161_timestamps = v3_timestamps b\<rparr>,
      b_content = v3_content b\<rparr>"

text \<open>
  \<open>TlogEntryBuilder\<close> has the fields of the entry it builds, so the builder is the entry and
  \<open>build\<close>, which only wraps them in their types, is the identity.
\<close>

definition builder_new :: tlog_entry where
  "builder_new = \<lparr>te_log_index = 0, te_log_id = [], te_kind = ''hashedrekord'', te_version = ''0.0.1'',
     te_integrated_time = 0, te_promise = None, te_proof = None, te_body = []\<rparr>"

definition proof_of_rekor :: "'z externals_scheme \<Rightarrow> rekor_inclusion_proof \<Rightarrow> inclusion_proof" where
  "proof_of_rekor X p =
     \<lparr>ip_log_index = rp_log_index p,
      ip_root_hash = (case sha256_from_hex X (rp_root_hash p) of Inr h \<Rightarrow> h | Inl _ \<Rightarrow> replicate 32 0),
      ip_tree_size = rp_tree_size p,
      ip_hashes = concat (map (\<lambda>h. case sha256_from_hex X h of Inr x \<Rightarrow> [x] | Inl _ \<Rightarrow> []) (rp_hashes p)),
      ip_checkpoint = rp_checkpoint p\<rparr>"

definition from_log_entry :: "'z externals_scheme \<Rightarrow> log_entry \<Rightarrow> string \<Rightarrow> string \<Rightarrow> tlog_entry" where
  "from_log_entry X e kind version =
     \<lparr>te_log_index = le_log_index e,
      te_log_id = (case hex_log_id_to_base64 X (le_log_id e) of Inr s \<Rightarrow> s | Inl _ \<Rightarrow> le_log_id e),
      te_kind = kind, te_version = version, te_integrated_time = le_integrated_time e,
      te_promise = Option.bind (le_verification e) lv_set,
      te_proof = map_option (proof_of_rekor X) (Option.bind (le_verification e) lv_proof),
      te_body = le_body e\<rparr>"

definition builder_log_index :: "tlog_entry \<Rightarrow> int \<Rightarrow> tlog_entry" where
  "builder_log_index b i = b\<lparr>te_log_index := i\<rparr>"

definition builder_integrated_time :: "tlog_entry \<Rightarrow> int \<Rightarrow> tlog_entry" where
  "builder_integrated_time b t = b\<lparr>te_integrated_time := t\<rparr>"

definition builder_inclusion_promise :: "tlog_entry \<Rightarrow> bytes \<Rightarrow> tlog_entry" where
  "builder_inclusion_promise b s = b\<lparr>te_promise := Some s\<rparr>"

definition builder_inclusion_proof :: "tlog_entry \<Rightarrow> int \<Rightarrow> sha256_hash \<Rightarrow> int \<Rightarrow> sha256_hash list \<Rightarrow> string
    \<Rightarrow> tlog_entry" where
  "builder_inclusion_proof b i root tsize hs cp =
     b\<lparr>te_proof := Some \<lparr>ip_log_index = i, ip_root_hash = root, ip_tree_size = tsize, ip_hashes = hs,
        ip_checkpoint = cp\<rparr>\<rparr>"

subsection \<open>Lemmas\<close>

text \<open>A proof that passes: its checkpoint parses and has its root, its index is below its size.\<close>

definition proof_well_formed :: "'z externals_scheme \<Rightarrow> inclusion_proof \<Rightarrow> bool" where
  "proof_well_formed X p \<longleftrightarrow> (\<exists>cp. from_text X (ip_checkpoint p) = Inr cp \<and> cp_root_hash cp = ip_root_hash p)
     \<and> 0 \<le> ip_log_index p \<and> 0 \<le> ip_tree_size p
     \<and> (word_of_int (ip_log_index p) :: u64) < word_of_int (ip_tree_size p)"

lemma validate_proof_Inr [result_simps]: "validate_proof X p = Inr u \<longleftrightarrow> proof_well_formed X p"
  by (auto simp: validate_proof_def proof_well_formed_def result_simps checkpoint_parse_def log_index_as_u64_def
      u64_of_i64_def not_le split: if_splits)

lemma validate_structure_Inr [result_simps]:
  "validate_inclusion_proof_structure X b = Inr u \<longleftrightarrow>
     (\<forall>e \<in> set (tlog_entries (b_material b)). \<forall>p. te_proof e = Some p \<longrightarrow> proof_well_formed X p)"
  by (auto simp: validate_inclusion_proof_structure_def result_simps split: option.splits)

lemma validate_common_Inr [result_simps]:
  "validate_common b opts = Inr u \<longleftrightarrow>
     (tlog_entries (b_material b) \<noteq> [] \<or> (\<not> require_inclusion_proof opts \<and> rfc3161_timestamps (b_material b) \<noteq> []))
     \<and> (require_timestamp opts \<longrightarrow> rfc3161_timestamps (b_material b) \<noteq> [])"
  by (auto simp: validate_common_def result_simps Let_def)

subsection \<open>Properties\<close>

text \<open>What a bundle has to have, by its version and the options.\<close>

definition bundle_well_formed :: "'z externals_scheme \<Rightarrow> sigstore_bundle \<Rightarrow> validation_options \<Rightarrow> bool" where
  "bundle_well_formed X b opts \<longleftrightarrow>
     (\<exists>m. media_type_from_str (b_media_type b) = Inr m
        \<and> (m = Bundle0_1 \<longrightarrow> (\<exists>e \<in> set (tlog_entries (b_material b)). te_promise e \<noteq> None))
        \<and> (m \<noteq> Bundle0_1 \<and> require_inclusion_proof opts \<longrightarrow> (\<exists>e \<in> set (tlog_entries (b_material b)). te_proof e \<noteq> None))
        \<and> (m = Bundle0_3 \<longrightarrow> (\<forall>cs. vm_content (b_material b) \<noteq> X509CertificateChain cs)))
     \<and> (\<forall>e \<in> set (tlog_entries (b_material b)). \<forall>p. te_proof e = Some p \<longrightarrow> proof_well_formed X p)
     \<and> (tlog_entries (b_material b) \<noteq> [] \<or> (\<not> require_inclusion_proof opts \<and> rfc3161_timestamps (b_material b) \<noteq> []))
     \<and> (require_timestamp opts \<longrightarrow> rfc3161_timestamps (b_material b) \<noteq> [])"

lemma validate_bundle_ok: "is_ok (validate_bundle_with_options X b opts) = bundle_well_formed X b opts"
proof (cases "media_type_from_str (b_media_type b)")
  case (Inl e)
  then show ?thesis by (simp add: validate_bundle_with_options_def bundle_version_def bundle_well_formed_def)
next
  case (Inr m)
  have inc: "has_inclusion_promise b \<longleftrightarrow> (\<exists>e \<in> set (tlog_entries (b_material b)). te_promise e \<noteq> None)"
    "has_inclusion_proof b \<longleftrightarrow> (\<exists>e \<in> set (tlog_entries (b_material b)). te_proof e \<noteq> None)"
    by (simp_all add: has_inclusion_promise_def has_inclusion_proof_def list_ex_iff)
  have chain: "(case vm_content (b_material b) of Certificate c \<Rightarrow> Inr () | X509CertificateChain cs \<Rightarrow> Inl e
      | PublicKey h \<Rightarrow> Inr ()) = Inr u \<longleftrightarrow> (\<forall>cs. vm_content (b_material b) \<noteq> X509CertificateChain cs)" for e :: bundle_error and u
    by (cases "vm_content (b_material b)") auto
  show ?thesis
    unfolding is_ok_iff bundle_well_formed_def Inr
    by (cases m; simp add: validate_bundle_with_options_def bundle_version_def Inr validate_v0_1_def
        validate_v0_2_def validate_v0_3_def result_simps inc chain; blast)
qed

text \<open>C37: the validation decides its specification.  A bundle passes exactly when its media type is
  known, it has the material its version asks for, every inclusion proof is well formed, and it has
  a log entry or, when no proof is required, a timestamp.\<close>

theorem validate_bundle_exact: "is_ok (validate_bundle_with_options X b opts) = bundle_well_formed X b opts"
  by (rule validate_bundle_ok)

text \<open>Building the log entry of a bundle from a version 2 response keeps its material.  With a hex
  codec that decodes what it encodes and refuses the base64 log id, the entry has the log id, index,
  body, promise and proof of the response, hash by hash.\<close>

theorem v2_entry_preserved:
  assumes hex: "\<And>b. hex_decode X (hex_encode X b) = Inr b" and id: "hex_decode X (e2_log_id e) = Inl err"
    and wf: "\<And>p. e2_proof e = Some p \<Longrightarrow> length (p2_root_hash p) = 32 \<and> (\<forall>h \<in> set (p2_hashes p). length h = 32)"
  shows "from_log_entry X (log_entry_of_v2 X e) kind version =
    \<lparr>te_log_index = parse_i64_or_default (e2_log_index e), te_log_id = e2_log_id e, te_kind = kind,
     te_version = version, te_integrated_time = parse_i64_or_default (e2_integrated_time e),
     te_promise = e2_promise e,
     te_proof = map_option (\<lambda>p. \<lparr>ip_log_index = parse_i64_or_default (p2_log_index p),
         ip_root_hash = p2_root_hash p, ip_tree_size = parse_i64_or_default (p2_tree_size p),
         ip_hashes = p2_hashes p, ip_checkpoint = p2_checkpoint p\<rparr>) (e2_proof e),
     te_body = e2_body e\<rparr>"
proof -
  have h: "sha256_from_hex X (hex_encode X b) = Inr b" if "length b = 32" for b
    using that by (simp add: sha256_from_hex_def hex sha256_try_from_slice_def)
  have hs: "concat (map (\<lambda>h. case sha256_from_hex X h of Inr x \<Rightarrow> [x] | Inl _ \<Rightarrow> []) (map (hex_encode X) hs)) = hs"
    if "\<forall>h \<in> set hs. length h = 32" for hs
    using that by (induction hs) (simp_all add: h)
  have "hex_log_id_to_base64 X (e2_log_id e) = Inl (InvalidEncoding (''invalid hex: '' @ err))"
    by (simp add: hex_log_id_to_base64_def hex_log_id_decode_def id)
  with wf hs h show ?thesis
    by (cases "e2_proof e") (simp_all add: from_log_entry_def log_entry_of_v2_def proof_of_rekor_def proof_of_v2_def)
qed

definition sample_hex :: externals where
  "sample_hex = sample_ext\<lparr>hex_encode := (\<lambda>b. CHR ''0'' # of_bytes b),
     hex_decode := (\<lambda>s. case s of c # r \<Rightarrow> if c = CHR ''0'' then Inr (as_bytes r) else Inl ''odd'' | [] \<Rightarrow> Inl ''odd'')\<rparr>"

definition sample_v2 :: log_entry_v2 where
  "sample_v2 = \<lparr>e2_log_index = ''7'', e2_log_id = ''key='', e2_integrated_time = [], e2_promise = None,
     e2_proof = Some \<lparr>p2_log_index = ''7'', p2_root_hash = replicate 32 1, p2_tree_size = ''8'',
       p2_hashes = [replicate 32 2], p2_checkpoint = ''note''\<rparr>, e2_body = [1]\<rparr>"

theorem v2_entry_preserved_witness:
  "te_log_id (from_log_entry sample_hex (log_entry_of_v2 sample_hex sample_v2) ''hashedrekord'' ''0.0.2'') = ''key=''"
proof -
  have "hex_decode sample_hex (hex_encode sample_hex b) = Inr b" for b by (simp add: sample_hex_def)
  moreover have "hex_decode sample_hex (e2_log_id sample_v2) = Inl ''odd''"
    by (simp add: sample_hex_def sample_v2_def)
  moreover have "length (p2_root_hash p) = 32 \<and> (\<forall>h \<in> set (p2_hashes p). length h = 32)"
    if "e2_proof sample_v2 = Some p" for p
    using that by (auto simp: sample_v2_def)
  ultimately have "from_log_entry sample_hex (log_entry_of_v2 sample_hex sample_v2) ''hashedrekord'' ''0.0.2'' =
    \<lparr>te_log_index = parse_i64_or_default (e2_log_index sample_v2), te_log_id = e2_log_id sample_v2,
     te_kind = ''hashedrekord'', te_version = ''0.0.2'',
     te_integrated_time = parse_i64_or_default (e2_integrated_time sample_v2), te_promise = e2_promise sample_v2,
     te_proof = map_option (\<lambda>p. \<lparr>ip_log_index = parse_i64_or_default (p2_log_index p),
         ip_root_hash = p2_root_hash p, ip_tree_size = parse_i64_or_default (p2_tree_size p),
         ip_hashes = p2_hashes p, ip_checkpoint = p2_checkpoint p\<rparr>) (e2_proof sample_v2),
     te_body = e2_body sample_v2\<rparr>"
    by (rule v2_entry_preserved)
  then show ?thesis by (simp add: sample_v2_def)
qed

end
