(* ===== verification/Pki.thy ===== *)
theory Pki
  imports Rekor_Entry
begin

text \<open>
  Certificates: the parts of an X.509 certificate and of a CMS message the code reads, the
  functions of x509-cert, der, cms, x509-tsp and webpki it calls on them (parameters, as in
  Externals), and the module of sigstore-crypto that reads a certificate (src/x509.rs).

  A point in time of a certificate is the number of seconds since the Unix epoch, which is what
  \<open>to_unix_duration\<close> returns and what \<open>to_system_time\<close> adds to the epoch, so the code's
  \<open>duration_since(UNIX_EPOCH)\<close> of the latter is \<open>Ok\<close>.  A name is an opaque value that is only compared.
\<close>

subsection \<open>Parsed certificates\<close>

record der_any =
  any_tag :: u8
  any_value :: bytes

record spki_info =
  spki_algorithm :: string
  spki_parameters :: "der_any option"
  spki_key :: "bytes option"

record x509_extension =
  extn_id :: string
  extn_critical :: bool
  extn_value :: bytes

record x509_certificate =
  x_issuer :: string
  x_subject :: string
  x_serial :: bytes
  x_not_before :: u64
  x_not_after :: u64
  x_spki :: spki_info
  x_extensions :: "x509_extension list option"

datatype general_name = Rfc822Name string | UniformResourceIdentifier string | OtherName

text \<open>An SCT; its version has the one value V1.\<close>

record sct =
  sct_log_id :: bytes
  sct_timestamp :: u64
  sct_extensions :: bytes
  sct_hash_alg :: u8
  sct_sig_alg :: u8
  sct_signature :: bytes

subsection \<open>Parsed timestamp tokens\<close>

record content_info =
  ci_content_type :: string
  ci_content :: der_any

datatype certificate_choice = CertificateChoice x509_certificate | OtherCertificate

datatype signer_identifier = IssuerAndSerialNumber string bytes | SubjectKeyIdentifier bytes

record attribute =
  at_oid :: string
  at_values :: "der_any list"

record signer_info =
  si_sid :: signer_identifier
  si_digest_alg :: string
  si_signed_attrs :: "attribute list option"
  si_signature :: bytes

record signed_data =
  sd_econtent_type :: string
  sd_econtent :: "der_any option"
  sd_certificates :: "certificate_choice list option"
  sd_signer_infos :: "signer_info list"

record message_imprint =
  mi_algorithm :: string
  mi_hashed_message :: bytes

record tst_info =
  tst_imprint :: message_imprint
  tst_gen_time :: u64
  tst_nonce :: "bytes option"

record time_stamp_resp =
  tr_status :: u8
  tr_token :: "der_any option"

subsection \<open>The functions called\<close>

text \<open>
  A trust anchor of webpki is an opaque value.  \<open>webpki_verify\<close> is \<open>verify_for_usage\<close> with the
  extended key usage (its object identifier), the anchors, the intermediates, the end-entity
  certificate and the time in seconds; all algorithms are allowed, and no revocation list is given.
  \<open>tls_length_error\<close> is the text of the error of tls\_codec for a vector too long for its length field.
\<close>

type_synonym trust_anchor = bytes

record pki_externals = rekor_externals +
  x509_from_der :: "bytes \<Rightarrow> (x509_certificate, string) result"
  x509_to_der :: "x509_certificate \<Rightarrow> (bytes, string) result"
  tbs_to_der :: "x509_certificate \<Rightarrow> (bytes, string) result"
  spki_to_der :: "spki_info \<Rightarrow> (der_public_key, string) result"
  get_san :: "x509_certificate \<Rightarrow> (general_name list option, string) result"
  get_sct_list :: "x509_certificate \<Rightarrow> (bytes option, string) result"
  parse_timestamps :: "bytes \<Rightarrow> (bytes list, string) result"
  parse_sct :: "bytes \<Rightarrow> (sct, string) result"
  oid_from_bytes :: "bytes \<Rightarrow> (string, string) result"
  any_decode_oid :: "der_any \<Rightarrow> (string, string) result"
  any_to_der :: "der_any \<Rightarrow> (bytes, string) result"
  utf8_string_from_der :: "bytes \<Rightarrow> string option"
  ski_from_der :: "bytes \<Rightarrow> bytes option"
  octet_string_from_der :: "bytes \<Rightarrow> (bytes, string) result"
  set_of_attributes :: "attribute list \<Rightarrow> (attribute list, string) result"
  attributes_to_der :: "attribute list \<Rightarrow> (bytes, string) result"
  time_stamp_resp_from_der :: "bytes \<Rightarrow> time_stamp_resp option"
  content_info_from_der :: "bytes \<Rightarrow> (content_info, string) result"
  signed_data_from_der :: "bytes \<Rightarrow> (signed_data, string) result"
  tst_info_from_der :: "bytes \<Rightarrow> (tst_info, string) result"
  ts_from_system_time :: "u64 \<Rightarrow> timestamp option"
  anchor_from_trusted_cert :: "bytes \<Rightarrow> (trust_anchor, string) result"
  end_entity_cert :: "bytes \<Rightarrow> (unit, string) result"
  webpki_verify :: "string \<Rightarrow> trust_anchor list \<Rightarrow> bytes list \<Rightarrow> bytes \<Rightarrow> u64 \<Rightarrow> (unit, string) result"
  de_statement :: "string \<Rightarrow> (statement, string) result"
  tls_length_error :: string

subsection \<open>Object identifiers (const-oid)\<close>

definition ID_EC_PUBLIC_KEY :: string where "ID_EC_PUBLIC_KEY = ''1.2.840.10045.2.1''"
definition SECP_256_R_1 :: string where "SECP_256_R_1 = ''1.2.840.10045.3.1.7''"
definition SECP_384_R_1 :: string where "SECP_384_R_1 = ''1.3.132.0.34''"
definition RSA_ENCRYPTION :: string where "RSA_ENCRYPTION = ''1.2.840.113549.1.1.1''"
definition ID_ED_25519 :: string where "ID_ED_25519 = ''1.3.101.112''"
definition ID_SHA_256 :: string where "ID_SHA_256 = ''2.16.840.1.101.3.4.2.1''"
definition ID_SHA_384 :: string where "ID_SHA_384 = ''2.16.840.1.101.3.4.2.2''"
definition ID_SHA_512 :: string where "ID_SHA_512 = ''2.16.840.1.101.3.4.2.3''"
definition ID_KP_CODE_SIGNING :: string where "ID_KP_CODE_SIGNING = ''1.3.6.1.5.5.7.3.3''"
definition ID_KP_TIME_STAMPING :: string where "ID_KP_TIME_STAMPING = ''1.3.6.1.5.5.7.3.8''"
definition CT_PRECERT_SCTS :: string where "CT_PRECERT_SCTS = ''1.3.6.1.4.1.11129.2.4.2''"
definition FULCIO_ISSUER_OID :: string where "FULCIO_ISSUER_OID = ''1.3.6.1.4.1.57264.1.1''"

subsection \<open>Certificate information (x509.rs)\<close>

record certificate_info =
  ci_identity :: "string option"
  ci_issuer :: "string option"
  ci_not_before :: int
  ci_not_after :: int
  ci_public_key :: der_public_key
  ci_key_algorithm :: key_algorithm

definition determine_key_algorithm :: "'z pki_externals_scheme \<Rightarrow> spki_info \<Rightarrow> (key_algorithm, crypto_error) result" where
  "determine_key_algorithm X spki =
    (let alg_oid = spki_algorithm spki in
     if alg_oid = ID_EC_PUBLIC_KEY then
       (case spki_parameters spki of
          Some params \<Rightarrow>
            and_then (map_err (\<lambda>e. crypto_error.InvalidCertificate (''failed to parse EC curve OID: '' @ e))
              (oid_from_bytes X (any_value params))) (\<lambda>curve_oid.
            if curve_oid = SECP_256_R_1 then Inr KaEcdsaP256
            else if curve_oid = SECP_384_R_1 then Inr KaEcdsaP384
            else Inl (crypto_error.InvalidCertificate (''unsupported EC curve OID: '' @ curve_oid)))
        | None \<Rightarrow> Inl (crypto_error.InvalidCertificate ''EC key missing curve parameters''))
     else if alg_oid = RSA_ENCRYPTION then Inr KaRsa
     else if alg_oid = ID_ED_25519 then Inr KaEd25519
     else Inl (crypto_error.InvalidCertificate (''unsupported public key algorithm OID: '' @ alg_oid)))"

fun first_identity :: "general_name list \<Rightarrow> string option" where
  "first_identity [] = None"
| "first_identity (Rfc822Name email # ns) = Some email"
| "first_identity (UniformResourceIdentifier uri # ns) = Some uri"
| "first_identity (OtherName # ns) = first_identity ns"

definition extract_san_identity :: "'z pki_externals_scheme \<Rightarrow> x509_certificate \<Rightarrow> (string option, crypto_error) result" where
  "extract_san_identity X cert =
     and_then (map_err (\<lambda>e. crypto_error.InvalidCertificate (''failed to get SAN extension: '' @ e)) (get_san X cert)) (\<lambda>san_opt.
     case san_opt of None \<Rightarrow> Inr None | Some san \<Rightarrow> Inr (first_identity san))"

fun fulcio_issuer_of :: "'z pki_externals_scheme \<Rightarrow> x509_extension list \<Rightarrow> (string option, crypto_error) result" where
  "fulcio_issuer_of X [] = Inr None"
| "fulcio_issuer_of X (ext # exts) =
     (if extn_id ext = FULCIO_ISSUER_OID then
        (case utf8_string_from_der X (extn_value ext) of
           Some s \<Rightarrow> Inr (Some s)
         | None \<Rightarrow>
             (case from_utf8 X (extn_value ext) of
                Inr s \<Rightarrow> Inr (Some s)
              | Inl _ \<Rightarrow> Inl (crypto_error.InvalidCertificate ''malformed Fulcio issuer extension'')))
      else fulcio_issuer_of X exts)"

definition extract_fulcio_issuer :: "'z pki_externals_scheme \<Rightarrow> x509_certificate \<Rightarrow> (string option, crypto_error) result" where
  "extract_fulcio_issuer X cert =
     (case x_extensions cert of None \<Rightarrow> Inr None | Some exts \<Rightarrow> fulcio_issuer_of X exts)"

definition parse_certificate_info :: "'z pki_externals_scheme \<Rightarrow> bytes \<Rightarrow> (certificate_info, crypto_error) result" where
  "parse_certificate_info X cert_der =
     and_then (map_err (\<lambda>e. crypto_error.InvalidCertificate (''failed to parse certificate: '' @ e)) (x509_from_der X cert_der)) (\<lambda>cert.
     let not_before = sint (x_not_before cert); not_after = sint (x_not_after cert) in
     and_then (map_err (\<lambda>e. crypto_error.InvalidCertificate (''failed to encode SPKI: '' @ e)) (spki_to_der X (x_spki cert))) (\<lambda>public_key.
     and_then (determine_key_algorithm X (x_spki cert)) (\<lambda>key_algorithm.
     and_then (extract_san_identity X cert) (\<lambda>identity.
     and_then (extract_fulcio_issuer X cert) (\<lambda>issuer.
     Inr \<lparr>ci_identity = identity, ci_issuer = issuer, ci_not_before = not_before, ci_not_after = not_after,
          ci_public_key = public_key, ci_key_algorithm = key_algorithm\<rparr>)))))"

subsection \<open>Lemmas\<close>

text \<open>The identity is the first name of a certificate that is an email address or a URI.\<close>

lemma first_identity_in:
  "first_identity ns = Some s \<Longrightarrow> Rfc822Name s \<in> set ns \<or> UniformResourceIdentifier s \<in> set ns"
  by (induction ns rule: first_identity.induct) auto

lemma parse_certificate_info_Inr:
  "parse_certificate_info X der = Inr ci \<longleftrightarrow>
     (\<exists>cert. x509_from_der X der = Inr cert
        \<and> ci_not_before ci = sint (x_not_before cert) \<and> ci_not_after ci = sint (x_not_after cert)
        \<and> spki_to_der X (x_spki cert) = Inr (ci_public_key ci)
        \<and> determine_key_algorithm X (x_spki cert) = Inr (ci_key_algorithm ci)
        \<and> extract_san_identity X cert = Inr (ci_identity ci)
        \<and> extract_fulcio_issuer X cert = Inr (ci_issuer ci))"
  by (cases ci) (auto simp: parse_certificate_info_def result_simps Let_def)

end
