(* ===== verification/Pki_Sample.thy ===== *)
theory Pki_Sample
  imports Pki
begin

text \<open>
  A concrete choice of the functions of Externals, Rekor_Entry and Pki, for the theorems that
  apply a property at an input.  It keeps the choices of \<open>sample_ext\<close> except for SHA-256, which
  is cut or filled to 32 bytes, and for signatures, which are the key and the length of the message.
  A certificate is encoded as its public key; a timestamp token
  is the signature it stamps, made at second 100 by the authority whose key is 5; webpki
  accepts every certificate from second 50 to second 200, if there is an anchor.  The one text that is
  a statement is \<open>st\<close>.
\<close>

definition fill32 :: "bytes \<Rightarrow> bytes" where
  "fill32 b = take 32 (b @ replicate 32 0x61)"

definition sample_certificate :: "bytes \<Rightarrow> x509_certificate" where
  "sample_certificate k =
     \<lparr>x_issuer = ''ca'', x_subject = (if k = [4] then ''ca'' else of_bytes k), x_serial = k,
      x_not_before = 50, x_not_after = 200,
      x_spki = \<lparr>spki_algorithm = ID_EC_PUBLIC_KEY, spki_parameters = Some \<lparr>any_tag = 6, any_value = []\<rparr>,
                spki_key = Some k\<rparr>,
      x_extensions = Some [\<lparr>extn_id = FULCIO_ISSUER_OID, extn_critical = False, extn_value = as_bytes ''idp''\<rparr>,
        \<lparr>extn_id = CT_PRECERT_SCTS, extn_critical = False, extn_value = [1]\<rparr>]\<rparr>"

definition sample_key_of :: "x509_certificate \<Rightarrow> bytes" where
  "sample_key_of c = (case spki_key (x_spki c) of None \<Rightarrow> [] | Some k \<Rightarrow> k)"

definition sample_signed_data :: "bytes \<Rightarrow> signed_data" where
  "sample_signed_data b =
     \<lparr>sd_econtent_type = ''1.2.840.113549.1.9.16.1.4'', sd_econtent = Some \<lparr>any_tag = 4, any_value = b\<rparr>,
      sd_certificates = Some [CertificateChoice (sample_certificate [5])],
      sd_signer_infos = [\<lparr>si_sid = IssuerAndSerialNumber ''ca'' [5], si_digest_alg = ID_SHA_256,
        si_signed_attrs = Some [\<lparr>at_oid = ''1.2.840.113549.1.9.4'', at_values = [\<lparr>any_tag = 4, any_value = fill32 b\<rparr>]\<rparr>],
        si_signature = [5, 32]\<rparr>]\<rparr>"

text \<open>The SCT in a certificate: the log with key 9 signed the structure of RFC 6962.\<close>

definition sample_sct :: sct where
  "sample_sct = \<lparr>sct_log_id = fill32 [9], sct_timestamp = 99, sct_extensions = [], sct_hash_alg = 4,
     sct_sig_alg = 3,
     sct_signature = [9, 50]\<rparr>"

definition sample_statement :: statement where
  "sample_statement = \<lparr>st_type = ''https://in-toto.io/Statement/v1'',
     st_subject = [\<lparr>subj_name = ''a'', subj_digest = \<lparr>dg_sha256 = Some (of_bytes (fill32 [1, 2])), dg_sha512 = None\<rparr>\<rparr>],
     predicate_type = ''p'', st_predicate = JNull\<rparr>"

definition sample_pki :: pki_externals where
  "sample_pki = \<lparr>
     sha256 = fill32, sha384 = (\<lambda>b. b), sha512 = (\<lambda>b. b),
     hex_encode = of_bytes, hex_decode = (\<lambda>s. Inr (as_bytes s)),
     b64_encode = of_bytes, b64_decode = (\<lambda>s. Inr (as_bytes s)),
     pem_parse = (\<lambda>s. Inr (''CERTIFICATE'', as_bytes s)), pem_encode = (\<lambda>tag b. of_bytes b),
     spki_key_bits = Inr,
     aws_verify = (\<lambda>alg key msg sig. sig = key @ [word_of_nat (length msg)]),
     aws_verify_digest = (\<lambda>alg dalg key dig sig. sig = key @ [word_of_nat (length dig)]),
     json_parse = (\<lambda>b. Inr (JString (of_bytes b))),
     parse_timestamp = (\<lambda>s. Inr (int (length s))),
     ts_as_second = (\<lambda>t. t), ts_from_second = Inr, fmt_timestamp = fmt_int,
     glob_match = (\<lambda>p t. Inr (p = t)),
     spki_oid = (\<lambda>b. ''1.3.101.112''), utf8_error = (\<lambda>b. None),
     json_canonicalize = (\<lambda>v. Inr []),
     de_hashedrekord_v001 = (\<lambda>s. Inl ''no''),
     de_hashedrekord_v002 = (\<lambda>s. Inr \<lparr>h2_digest = fill32 [1, 2], h2_signature = [6, 2],
       h2_certificate = Some [6], h2_public_key = None\<rparr>),
     de_dsse_v001 = (\<lambda>s. Inl ''no''), de_dsse_v002 = (\<lambda>s. Inl ''no''), de_intoto_v002 = (\<lambda>s. Inl ''no''),
     x509_from_der = (\<lambda>b. Inr (sample_certificate b)), x509_to_der = (\<lambda>c. Inr (sample_key_of c)),
     tbs_to_der = (\<lambda>c. Inr (sample_key_of c)), spki_to_der = (\<lambda>s. ok_or [] (spki_key s)),
     get_san = (\<lambda>c. Inr (Some [OtherName, Rfc822Name ''me''])),
     get_sct_list = (\<lambda>c. Inr (Some [])), parse_timestamps = (\<lambda>b. Inr [[]]), parse_sct = (\<lambda>b. Inr sample_sct),
     oid_from_bytes = (\<lambda>b. Inr SECP_256_R_1), any_decode_oid = (\<lambda>a. Inr SECP_256_R_1),
     any_to_der = (\<lambda>a. Inr (any_value a)),
     utf8_string_from_der = (\<lambda>b. Some (of_bytes b)), ski_from_der = Some, octet_string_from_der = Inr,
     set_of_attributes = Inr, attributes_to_der = (\<lambda>as. Inr (concat (map any_value (concat (map at_values as))))),
     time_stamp_resp_from_der = (\<lambda>b. None),
     content_info_from_der = (\<lambda>b. Inr \<lparr>ci_content_type = ''1.2.840.113549.1.7.2'', ci_content = \<lparr>any_tag = 48, any_value = b\<rparr>\<rparr>),
     signed_data_from_der = (\<lambda>b. Inr (sample_signed_data b)),
     tst_info_from_der = (\<lambda>b. Inr \<lparr>tst_imprint = \<lparr>mi_algorithm = ID_SHA_256, mi_hashed_message = fill32 b\<rparr>,
       tst_gen_time = 100, tst_nonce = Some []\<rparr>),
     ts_from_system_time = (\<lambda>s. Some (uint s)),
     anchor_from_trusted_cert = Inr, end_entity_cert = (\<lambda>b. Inr ()),
     webpki_verify = (\<lambda>eku anchors certs ee t. if anchors \<noteq> [] \<and> 50 \<le> t \<and> t \<le> 200 then Inr () else Inl ''expired''),
     de_statement = (\<lambda>s. if s = ''st'' then Inr sample_statement else Inl ''no''), tls_length_error = ''long''\<rparr>"

end
