(* ===== verification/Tlog_Verify.thy ===== *)
theory Tlog_Verify
  imports Trust_Root Bundle_Build Merkle Pki_Sample
begin

text \<open>
  The crate sigstore-verify, part 1 (src/error.rs, src/verify\_impl/tlog.rs): the inclusion proof,
  the checkpoint, the signed entry timestamp and the integrated time of the log entries of a bundle.

  The code reads the clock anew at each call of an accessor of the trusted root and for each
  entry, so a definition takes one argument for each reading it makes, and a loop takes a
  function from the place of the reading to the time.
\<close>

datatype verify_error =
    VVerification string
  | VTypes types_error
  | VCrypto crypto_error
  | VBundle bundle_error

fun fmt_verify_error :: "verify_error \<Rightarrow> string" where
  "fmt_verify_error (VVerification s) = ''Verification error: '' @ s"
| "fmt_verify_error (VTypes e) = ''Types error: '' @ fmt_types_error e"
| "fmt_verify_error (VCrypto e) = ''Crypto error: '' @ fmt_crypto_error e"
| "fmt_verify_error (VBundle e) = ''Bundle error: '' @ fmt_bundle_error e"

fun fmt_merkle_error :: "merkle_error \<Rightarrow> string" where
  "fmt_merkle_error (InvalidProof s) = ''Invalid proof: '' @ s"
| "fmt_merkle_error (VerificationFailed s) = ''Proof verification failed: '' @ s"
| "fmt_merkle_error (InvalidTreeSize s) = ''Invalid tree size: '' @ s"
| "fmt_merkle_error (InvalidLeafIndex s) = ''Invalid leaf index: '' @ s"
| "fmt_merkle_error (HashMismatch e a) = ''Hash mismatch: expected '' @ e @ '', got '' @ a"
| "fmt_merkle_error merkle_error.Base64 = ''Base64 decoding error''"

text \<open>No function of sigstore-merkle makes its Base64 error, so its text is left out.\<close>

text \<open>The places where the clock is read; the number is that of the entry or the timestamp.\<close>

datatype clock_site =
    RekorKeys nat | LogKey nat | EntryNow nat
  | FulcioChain | FulcioIssuer | CtKeys
  | TsaRoots nat | TsaIntermediates nat | TsaLeaves nat

type_synonym clock = "clock_site \<Rightarrow> timestamp"

subsection \<open>Inclusion\<close>

definition verify_merkle_inclusion :: "'z externals_scheme \<Rightarrow> tlog_entry \<Rightarrow> inclusion_proof
    \<Rightarrow> (unit, verify_error) result" where
  "verify_merkle_inclusion X entry proof =
     and_then (ok_or (VVerification ''invalid log_index in inclusion proof'')
       (log_index_as_u64 (ip_log_index proof))) (\<lambda>leaf_index.
     and_then (ok_or (VVerification ''invalid tree_size in inclusion proof'')
       (u64_of_i64 (ip_tree_size proof))) (\<lambda>tree_size.
     let leaf_hash = hash_leaf X (te_body entry) in
     map_err (\<lambda>e. VVerification (''inclusion proof verification failed: '' @ fmt_merkle_error e))
       (verify_inclusion_proof X leaf_hash leaf_index tree_size (ip_hashes proof) (ip_root_hash proof))))"

text \<open>The loop over the signatures of the checkpoint: the first one with a known key decides.\<close>

fun checkpoint_loop :: "'z externals_scheme \<Rightarrow> checkpoint \<Rightarrow> (key_hint \<times> der_public_key) list
    \<Rightarrow> checkpoint_signature list \<Rightarrow> (unit, verify_error) result" where
  "checkpoint_loop X cp keys [] =
     Inl (VVerification ''No matching Rekor key found for checkpoint signature'')"
| "checkpoint_loop X cp keys (sig # sigs) =
     (case find (\<lambda>(key_hint, public_key). cs_key_id sig = key_hint) keys of
        Some (key_hint, public_key) \<Rightarrow>
          map_err (\<lambda>e. VVerification (''Checkpoint signature verification failed: '' @ fmt_crypto_error e))
            (verify_signature_auto X public_key (cs_signature sig) (signed_data cp))
      | None \<Rightarrow> checkpoint_loop X cp keys sigs)"

definition verify_checkpoint :: "'z externals_scheme \<Rightarrow> timestamp \<Rightarrow> string \<Rightarrow> inclusion_proof \<Rightarrow> trusted_root
    \<Rightarrow> (unit, verify_error) result" where
  "verify_checkpoint X now envelope proof root =
     and_then (map_err (\<lambda>e. VVerification (''Failed to parse checkpoint: '' @ fmt_types_error e))
       (from_text X envelope)) (\<lambda>checkpoint.
     and_then (ensure (cp_root_hash checkpoint = ip_root_hash proof)
       (VVerification (''Checkpoint root hash mismatch: expected '' @ hex_encode X (cp_root_hash checkpoint)
          @ '', got '' @ hex_encode X (ip_root_hash proof)))) (\<lambda>_.
     and_then (map_err (\<lambda>e. VVerification (''Failed to get Rekor keys: '' @ fmt_trust_error e))
       (rekor_keys_with_hints X now root)) (\<lambda>keys.
     checkpoint_loop X checkpoint keys (cp_signatures checkpoint))))"

text \<open>The payload of the signed entry timestamp, as serde gives it to the canonicalizer.\<close>

definition json_i64 :: "int \<Rightarrow> json" where
  "json_i64 i = JNumber (if 0 \<le> i then PosInt (word_of_int i) else NegInt i)"

definition rekor_payload :: "string \<Rightarrow> int \<Rightarrow> int \<Rightarrow> string \<Rightarrow> json" where
  "rekor_payload body integrated_time log_index log_id =
     JObject [(''body'', JString body), (''integratedTime'', json_i64 integrated_time),
              (''logIndex'', json_i64 log_index), (''logID'', JString log_id)]"

definition set_log_key :: "'z externals_scheme \<Rightarrow> timestamp \<Rightarrow> tlog_entry \<Rightarrow> trusted_root
    \<Rightarrow> (der_public_key, verify_error) result" where
  "set_log_key X now entry root =
     (let integrated_time = te_integrated_time entry in
      if integrated_time > 0 then
        and_then (map_err (\<lambda>e. VVerification (''Invalid integrated time '' @ fmt_int integrated_time @ '': '' @ e))
          (ts_from_second X integrated_time)) (\<lambda>integrated_ts.
        map_err (\<lambda>e. VVerification (''No log key valid at integrated time '' @ fmt_timestamp X integrated_ts
            @ '' for log ID '' @ te_log_id entry @ '': '' @ fmt_trust_error e))
          (rekor_key_for_log_at X root (te_log_id entry) integrated_ts))
      else
        map_err (\<lambda>_. VVerification (''Unknown log ID: '' @ te_log_id entry))
          (rekor_key_for_log X now root (te_log_id entry)))"

definition verify_set :: "'z externals_scheme \<Rightarrow> timestamp \<Rightarrow> tlog_entry \<Rightarrow> trusted_root
    \<Rightarrow> (unit, verify_error) result" where
  "verify_set X now entry root =
     and_then (ok_or (VVerification ''Missing inclusion promise'') (te_promise entry)) (\<lambda>promise.
     and_then (set_log_key X now entry root) (\<lambda>log_key.
     let body = to_base64 X (te_body entry) in
     and_then (ok_or (VVerification ''Invalid log index'') (log_index_as_u64 (te_log_index entry))) (\<lambda>log_index.
     and_then (map_err (\<lambda>_. VVerification ''Invalid base64 log ID'') (b64_decode X (te_log_id entry))) (\<lambda>log_id_bytes.
     let payload = rekor_payload body (te_integrated_time entry) (sint log_index) (hex_encode X log_id_bytes) in
     and_then (map_err (\<lambda>e. VVerification (''Canonicalization failed: '' @ e)) (json_canonicalize X payload)) (\<lambda>canonical_json.
     map_err (\<lambda>e. VVerification (''SET verification failed: '' @ fmt_crypto_error e))
       (verify_signature_auto X log_key promise canonical_json))))))"

definition verify_entry_inclusion :: "'z externals_scheme \<Rightarrow> timestamp \<Rightarrow> timestamp \<Rightarrow> tlog_entry \<Rightarrow> trusted_root
    \<Rightarrow> (unit, verify_error) result" where
  "verify_entry_inclusion X now1 now2 entry root =
     and_then (case te_proof entry of
         Some proof \<Rightarrow>
           and_then (verify_merkle_inclusion X entry proof) (\<lambda>_.
           verify_checkpoint X now1 (ip_checkpoint proof) proof root)
       | None \<Rightarrow> Inr ()) (\<lambda>_.
     if te_promise entry \<noteq> None then verify_set X now2 entry root else Inr ())"

subsection \<open>The entries of a bundle\<close>

definition check_integrated_time :: "'z externals_scheme \<Rightarrow> timestamp \<Rightarrow> int \<Rightarrow> int \<Rightarrow> int \<Rightarrow> int
    \<Rightarrow> (unit, verify_error) result" where
  "check_integrated_time X now_ts not_before not_after clock_skew_seconds time =
     (let now = ts_as_second X now_ts in
      and_then (ensure (\<not> time > wrap_i64 (now + clock_skew_seconds))
        (VVerification (''integrated time '' @ fmt_int time @ '' is in the future (current time: '' @ fmt_int now
           @ '', tolerance: '' @ fmt_int clock_skew_seconds @ ''s)''))) (\<lambda>_.
      and_then (ensure (\<not> time < not_before)
        (VVerification (''integrated time '' @ fmt_int time @ '' is before certificate validity (not_before: ''
           @ fmt_int not_before @ '')''))) (\<lambda>_.
      ensure (\<not> time > not_after)
        (VVerification (''integrated time '' @ fmt_int time @ '' is after certificate validity (not_after: ''
           @ fmt_int not_after @ '')'')))))"

text \<open>\<open>i\<close> is the number of the entry.\<close>

fun tlog_loop :: "'z externals_scheme \<Rightarrow> clock \<Rightarrow> trusted_root \<Rightarrow> int \<Rightarrow> int \<Rightarrow> int \<Rightarrow> nat \<Rightarrow> int option
    \<Rightarrow> tlog_entry list \<Rightarrow> (int option, verify_error) result" where
  "tlog_loop X clock root not_before not_after skew i result [] = Inr result"
| "tlog_loop X clock root not_before not_after skew i result (entry # entries) =
     and_then (verify_entry_inclusion X (clock (RekorKeys i)) (clock (LogKey i)) entry root) (\<lambda>_.
     let time = te_integrated_time entry in
     if time > 0 then
       and_then (check_integrated_time X (clock (EntryNow i)) not_before not_after skew time) (\<lambda>_.
       tlog_loop X clock root not_before not_after skew (Suc i) (Some time) entries)
     else tlog_loop X clock root not_before not_after skew (Suc i) result entries)"

definition verify_tlog_entries :: "'z externals_scheme \<Rightarrow> clock \<Rightarrow> sigstore_bundle \<Rightarrow> trusted_root \<Rightarrow> int \<Rightarrow> int \<Rightarrow> int
    \<Rightarrow> (int option, verify_error) result" where
  "verify_tlog_entries X clock b root not_before not_after clock_skew_seconds =
     tlog_loop X clock root not_before not_after clock_skew_seconds 0 None (tlog_entries (b_material b))"

subsection \<open>Lemmas\<close>

text \<open>
  A checkpoint is signed by a log of the trusted root that has started by \<open>now\<close>: the key hint
  of the signature is the first four bytes of the log's id.
\<close>

definition checkpoint_trusted :: "'z externals_scheme \<Rightarrow> timestamp \<Rightarrow> trusted_root \<Rightarrow> checkpoint \<Rightarrow> bool" where
  "checkpoint_trusted X now root cp \<longleftrightarrow>
     (\<exists>sig \<in> set (cp_signatures cp). \<exists>l \<in> set (tlogs root). \<exists>id.
        started X (li_valid_for l) now \<and> log_key_id_decode X (li_key_id l) = Inr id
        \<and> cs_key_id sig = take 4 id
        \<and> verify_signature_auto X (li_raw_bytes l) (cs_signature sig) (signed_data cp) = Inr ())"

lemma rekor_keys_with_hints_in:
  assumes "rekor_keys_with_hints X now root = Inr ks" "(h, k) \<in> set ks"
  shows "\<exists>l \<in> set (tlogs root). \<exists>id. started X (li_valid_for l) now \<and> li_raw_bytes l = k
     \<and> log_key_id_decode X (li_key_id l) = Inr id \<and> h = take 4 id"
  using collect_usable_set [OF assms(1) [unfolded rekor_keys_with_hints_def]] assms(2)
  by (auto simp: result_simps split: if_splits)

lemma checkpoint_loop_Inr:
  assumes "checkpoint_loop X cp keys sigs = Inr u"
  shows "\<exists>sig \<in> set sigs. \<exists>k. (cs_key_id sig, k) \<in> set keys
     \<and> verify_signature_auto X k (cs_signature sig) (signed_data cp) = Inr ()"
  using assms
proof (induction sigs)
  case (Cons sig sigs)
  show ?case
  proof (cases "find (\<lambda>(h, k). cs_key_id sig = h) keys")
    case None
    with Cons show ?thesis by auto
  next
    case (Some hk)
    then have "hk \<in> set keys" "cs_key_id sig = fst hk"
      by (auto dest!: find_SomeD split: prod.splits)
    with Cons.prems Some show ?thesis
      by (auto simp: result_simps split: prod.splits intro!: bexI [of _ sig] exI [of _ "snd hk"])
  qed
qed simp

lemma verify_checkpoint_Inr:
  assumes "verify_checkpoint X now envelope proof root = Inr u"
  shows "\<exists>cp. from_text X envelope = Inr cp \<and> cp_root_hash cp = ip_root_hash proof
     \<and> checkpoint_trusted X now root cp"
proof -
  from assms obtain cp ks where cp: "from_text X envelope = Inr cp" "cp_root_hash cp = ip_root_hash proof"
    and ks: "rekor_keys_with_hints X now root = Inr ks" and loop: "checkpoint_loop X cp ks (cp_signatures cp) = Inr ()"
    by (auto simp: verify_checkpoint_def result_simps)
  from checkpoint_loop_Inr [OF loop] obtain sig k where sig: "sig \<in> set (cp_signatures cp)"
    "(cs_key_id sig, k) \<in> set ks" "verify_signature_auto X k (cs_signature sig) (signed_data cp) = Inr ()" by blast
  from rekor_keys_with_hints_in [OF ks sig(2)] sig cp show ?thesis
    unfolding checkpoint_trusted_def by blast
qed

text \<open>
  A signed entry timestamp is made by the log the entry names, with a key that is valid at the
  integrated time (or has started, when there is none), over the entry's body, time and index.
\<close>

definition set_trusted :: "'z externals_scheme \<Rightarrow> timestamp \<Rightarrow> trusted_root \<Rightarrow> tlog_entry \<Rightarrow> bytes \<Rightarrow> bool" where
  "set_trusted X now root e sg \<longleftrightarrow>
     (\<exists>l \<in> set (tlogs root). \<exists>id m.
        li_key_id l = te_log_id e \<and> b64_decode X (te_log_id e) = Inr id
        \<and> (if te_integrated_time e > 0
           then \<exists>t. ts_from_second X (te_integrated_time e) = Inr t \<and> covers X (li_valid_for l) t
           else started X (li_valid_for l) now)
        \<and> 0 \<le> te_log_index e
        \<and> json_canonicalize X (rekor_payload (to_base64 X (te_body e)) (te_integrated_time e)
            (sint (word_of_int (te_log_index e) :: u64)) (hex_encode X id)) = Inr m
        \<and> verify_signature_auto X (li_raw_bytes l) sg m = Inr ())"

lemma set_log_key_Inr:
  assumes "set_log_key X now e root = Inr k"
  shows "\<exists>l \<in> set (tlogs root). li_key_id l = te_log_id e \<and> li_raw_bytes l = k
     \<and> (if te_integrated_time e > 0
        then \<exists>t. ts_from_second X (te_integrated_time e) = Inr t \<and> covers X (li_valid_for l) t
        else started X (li_valid_for l) now)"
proof (cases "te_integrated_time e > 0")
  case True
  with assms obtain t where t: "ts_from_second X (te_integrated_time e) = Inr t"
    and "rekor_key_for_log_at X root (te_log_id e) t = Inr k"
    by (auto simp: set_log_key_def result_simps Let_def)
  from key_for_log_at_Inr [OF this(2) [unfolded rekor_key_for_log_at_def]] t True show ?thesis by auto
next
  case False
  with assms have "rekor_key_for_log X now root (te_log_id e) = Inr k"
    by (auto simp: set_log_key_def result_simps Let_def)
  from key_for_log_Inr [OF this [unfolded rekor_key_for_log_def]] False show ?thesis by auto
qed

lemma verify_set_Inr:
  assumes "verify_set X now e root = Inr u" "te_promise e = Some sg"
  shows "set_trusted X now root e sg"
proof -
  from assms obtain k id m where k: "set_log_key X now e root = Inr k"
    and rest: "0 \<le> te_log_index e" "b64_decode X (te_log_id e) = Inr id"
      "json_canonicalize X (rekor_payload (to_base64 X (te_body e)) (te_integrated_time e)
         (sint (word_of_int (te_log_index e) :: u64)) (hex_encode X id)) = Inr m"
      "verify_signature_auto X k sg m = Inr ()"
    by (auto simp: verify_set_def result_simps Let_def log_index_as_u64_def split: if_splits)
  from set_log_key_Inr [OF k] rest show ?thesis
    unfolding set_trusted_def by (elim bexE conjE) (intro bexI conjI exI, auto)
qed

text \<open>What it means for an entry that its proof, and its promise, were accepted.\<close>

definition proof_trusted :: "'z externals_scheme \<Rightarrow> timestamp \<Rightarrow> trusted_root \<Rightarrow> tlog_entry \<Rightarrow> inclusion_proof \<Rightarrow> bool" where
  "proof_trusted X now root e p \<longleftrightarrow>
     0 \<le> ip_log_index p \<and> 0 \<le> ip_tree_size p
     \<and> verify_inclusion_proof X (hash_leaf X (te_body e)) (word_of_int (ip_log_index p))
         (word_of_int (ip_tree_size p)) (ip_hashes p) (ip_root_hash p) = Inr ()
     \<and> (\<exists>cp. from_text X (ip_checkpoint p) = Inr cp \<and> cp_root_hash cp = ip_root_hash p
          \<and> checkpoint_trusted X now root cp)"

text \<open>
  The evidence an entry carries is trusted.  An entry with neither proof nor promise carries none: the
  code verifies nothing of it, and nothing is said of it here.
\<close>

definition evidence_trusted :: "'z externals_scheme \<Rightarrow> timestamp \<Rightarrow> timestamp \<Rightarrow> trusted_root \<Rightarrow> tlog_entry \<Rightarrow> bool" where
  "evidence_trusted X now1 now2 root e \<longleftrightarrow>
     (case te_proof e of None \<Rightarrow> True | Some p \<Rightarrow> proof_trusted X now1 root e p)
     \<and> (case te_promise e of None \<Rightarrow> True | Some sg \<Rightarrow> set_trusted X now2 root e sg)"

lemma verify_entry_inclusion_Inr:
  assumes "verify_entry_inclusion X now1 now2 e root = Inr u"
  shows "evidence_trusted X now1 now2 root e"
proof -
  have "proof_trusted X now1 root e p" if p: "te_proof e = Some p" for p
  proof -
    from assms p have "verify_merkle_inclusion X e p = Inr ()"
      and cp: "verify_checkpoint X now1 (ip_checkpoint p) p root = Inr ()"
      by (auto simp: verify_entry_inclusion_def result_simps)
    then have "0 \<le> ip_log_index p \<and> 0 \<le> ip_tree_size p
     \<and> verify_inclusion_proof X (hash_leaf X (te_body e)) (word_of_int (ip_log_index p))
         (word_of_int (ip_tree_size p)) (ip_hashes p) (ip_root_hash p) = Inr ()"
      by (auto simp: verify_merkle_inclusion_def result_simps Let_def log_index_as_u64_def u64_of_i64_def
          split: if_splits)
    with verify_checkpoint_Inr [OF cp] show ?thesis by (simp add: proof_trusted_def)
  qed
  moreover have "set_trusted X now2 root e sg" if sg: "te_promise e = Some sg" for sg
  proof -
    from assms sg have "verify_set X now2 e root = Inr ()"
      by (auto simp: verify_entry_inclusion_def result_simps)
    then show ?thesis using sg by (rule verify_set_Inr)
  qed
  ultimately show ?thesis by (simp add: evidence_trusted_def split: option.splits)
qed

lemma tlog_loop_Inr:
  assumes "tlog_loop X clock root nb na skew i r es = Inr r'" "j < length es"
  shows "evidence_trusted X (clock (RekorKeys (i + j))) (clock (LogKey (i + j))) root (es ! j)
     \<and> (te_integrated_time (es ! j) > 0 \<longrightarrow> nb \<le> te_integrated_time (es ! j) \<and> te_integrated_time (es ! j) \<le> na
          \<and> te_integrated_time (es ! j) \<le> wrap_i64 (ts_as_second X (clock (EntryNow (i + j))) + skew))"
  using assms
proof (induction es arbitrary: i r j)
  case (Cons e es)
  from Cons.prems(1) obtain r'' where
    head: "verify_entry_inclusion X (clock (RekorKeys i)) (clock (LogKey i)) e root = Inr ()"
      "te_integrated_time e > 0 \<Longrightarrow> check_integrated_time X (clock (EntryNow i)) nb na skew (te_integrated_time e) = Inr ()"
    and tail: "tlog_loop X clock root nb na skew (Suc i) r'' es = Inr r'"
    by (auto simp: result_simps Let_def split: if_splits)
  show ?case
  proof (cases j)
    case 0
    with head show ?thesis
      by (auto simp: verify_entry_inclusion_Inr check_integrated_time_def result_simps Let_def)
  next
    case (Suc m)
    with Cons.IH [OF tail, of m] Cons.prems(2) show ?thesis by simp
  qed
qed simp

end
