(* ===== verification/Sct_Verify.thy ===== *)
theory Sct_Verify
  imports Tlog_Verify
begin

text \<open>
  The crate sigstore-verify, part 3 (src/verify\_impl/sct.rs): the signed certificate timestamp
  embedded in a certificate, and the TLS encoding of RFC 6962 its signature covers.
\<close>

subsection \<open>The TLS encoding\<close>

text \<open>Integers are big-endian; a vector is preceded by its length in two or three bytes.\<close>

definition be_bytes :: "nat \<Rightarrow> nat \<Rightarrow> bytes" where
  "be_bytes n v = map (\<lambda>i. word_of_nat (v div 256 ^ i)) (rev [0..<n])"

definition tls_vec :: "'z pki_externals_scheme \<Rightarrow> nat \<Rightarrow> bytes \<Rightarrow> (bytes, string) result" where
  "tls_vec X n b = (if length b < 256 ^ n then Inr (be_bytes n (length b) @ b) else Inl (tls_length_error X))"

datatype signature_type = CertificateTimestamp | TreeHash

fun signature_type_code :: "signature_type \<Rightarrow> u8" where
  "signature_type_code CertificateTimestamp = 0"
| "signature_type_code TreeHash = 1"

datatype signed_entry = X509Entry bytes | PrecertEntry bytes bytes

text \<open>The version has the one value V1; the skipped fields come last.\<close>

record digitally_signed =
  dsn_type :: signature_type
  dsn_timestamp :: u64
  dsn_entry :: signed_entry
  dsn_extensions :: bytes
  dsn_log_id :: bytes
  dsn_signature :: bytes

fun tls_signed_entry :: "'z pki_externals_scheme \<Rightarrow> signed_entry \<Rightarrow> (bytes, string) result" where
  "tls_signed_entry X (X509Entry cert) = and_then (tls_vec X 3 cert) (\<lambda>c. Inr (be_bytes 2 0 @ c))"
| "tls_signed_entry X (PrecertEntry issuer_key_hash tbs) =
     and_then (tls_vec X 3 tbs) (\<lambda>t. Inr (be_bytes 2 1 @ issuer_key_hash @ t))"

definition tls_serialize :: "'z pki_externals_scheme \<Rightarrow> digitally_signed \<Rightarrow> (bytes, string) result" where
  "tls_serialize X d =
     and_then (tls_signed_entry X (dsn_entry d)) (\<lambda>entry.
     and_then (tls_vec X 2 (dsn_extensions d)) (\<lambda>exts.
     Inr ([0] @ [signature_type_code (dsn_type d)] @ be_bytes 8 (unat (dsn_timestamp d)) @ entry @ exts)))"

subsection \<open>The signed structure\<close>

definition from_embedded_sct :: "'z pki_externals_scheme \<Rightarrow> x509_certificate \<Rightarrow> sct \<Rightarrow> bytes
    \<Rightarrow> (digitally_signed, verify_error) result" where
  "from_embedded_sct X cert s issuer_key_hash =
     (let tbs_precert = cert\<lparr>x_extensions :=
        map_option (filter (\<lambda>ext. extn_id ext \<noteq> CT_PRECERT_SCTS)) (x_extensions cert)\<rparr> in
      and_then (map_err (\<lambda>e. VVerification (''failed to encode precert TBS: '' @ e)) (tbs_to_der X tbs_precert)) (\<lambda>tbs_der.
      Inr \<lparr>dsn_type = CertificateTimestamp, dsn_timestamp = sct_timestamp s,
           dsn_entry = PrecertEntry issuer_key_hash tbs_der, dsn_extensions = sct_extensions s,
           dsn_log_id = sct_log_id s, dsn_signature = sct_signature s\<rparr>))"

definition sct_scheme :: "u16 \<Rightarrow> signing_scheme option" where
  "sct_scheme sig_alg =
     (if sig_alg = 0x0403 then Some EcdsaP256Sha256
      else if sig_alg = 0x0503 then Some EcdsaP384Sha384
      else if sig_alg = 0x0401 then Some RsaPkcs1Sha256
      else if sig_alg = 0x0501 then Some RsaPkcs1Sha384
      else if sig_alg = 0x0601 then Some RsaPkcs1Sha512
      else None)"

definition fmt_hex4 :: "u16 \<Rightarrow> string" where
  "fmt_hex4 w = map (\<lambda>i. hex_digit (unat w div 16 ^ i mod 16)) [3, 2, 1, 0]"

definition dsn_verify :: "'z pki_externals_scheme \<Rightarrow> digitally_signed \<Rightarrow> der_public_key \<Rightarrow> u16 \<Rightarrow> signature_bytes
    \<Rightarrow> (unit, verify_error) result" where
  "dsn_verify X d public_key sig_alg signature =
     and_then (map_err (\<lambda>e. VVerification (''failed to serialize SCT data: '' @ e)) (tls_serialize X d)) (\<lambda>signed_data.
     and_then (ok_or (VVerification (''unsupported SCT signature algorithm: 0x'' @ fmt_hex4 sig_alg))
       (sct_scheme sig_alg)) (\<lambda>scheme.
     map_err (\<lambda>e. VVerification (''SCT signature verification failed: '' @ fmt_crypto_error e))
       (verify_signature X public_key signed_data signature scheme)))"

definition extract_sct :: "'z pki_externals_scheme \<Rightarrow> x509_certificate \<Rightarrow> bytes \<Rightarrow> (sct \<times> bytes, verify_error) result" where
  "extract_sct X cert issuer_spki_der =
     and_then (case get_sct_list X cert of
         Inr (Some ext) \<Rightarrow> Inr ext
       | _ \<Rightarrow> Inl (VVerification ''certificate is missing SCT extension (Signed Certificate Timestamp)'')) (\<lambda>scts.
     and_then (map_err (\<lambda>e. VVerification (''failed to parse SCT list: '' @ e)) (parse_timestamps X scts)) (\<lambda>timestamps.
     and_then (case timestamps of
         [single] \<Rightarrow> map_err (\<lambda>e. VVerification (''failed to parse SCT: '' @ e)) (parse_sct X single)
       | [] \<Rightarrow> Inl (VVerification ''no SCTs found in certificate'')
       | _ \<Rightarrow> Inl (VVerification ''certificate contains multiple SCTs, expected exactly one'')) (\<lambda>s.
     Inr (s, sha256 X issuer_spki_der))))"

text \<open>\<open>verify_sct\<close> of sct.rs.  The algorithm of an SCT is two bytes, so its serialization is.\<close>

definition sct_verify :: "'z pki_externals_scheme \<Rightarrow> timestamp \<Rightarrow> bytes \<Rightarrow> bytes \<Rightarrow> trusted_root \<Rightarrow> (unit, verify_error) result" where
  "sct_verify X now cert_der issuer_spki_der root =
     and_then (map_err (\<lambda>e. VVerification (''failed to parse certificate: '' @ e)) (x509_from_der X cert_der)) (\<lambda>cert.
     and_then (extract_sct X cert issuer_spki_der) (\<lambda>(s, issuer_key_hash).
     and_then (map_err (\<lambda>e. VVerification (''failed to get CT log keys: '' @ fmt_trust_error e))
       (ctfe_keys_with_ids X now root)) (\<lambda>ct_keys.
     and_then (ensure (ct_keys \<noteq> []) (VVerification ''no CT log keys in trusted root'')) (\<lambda>_.
     and_then (ok_or (VVerification (''SCT log ID '' @ debug_str (hex_encode X (sct_log_id s))
         @ '' not found in trusted root CT logs'')) (find (\<lambda>(id, _). id = sct_log_id s) ct_keys)) (\<lambda>(_, public_key).
     and_then (from_embedded_sct X cert s issuer_key_hash) (\<lambda>digitally_signed.
     let sig_alg = word_cat (sct_hash_alg s) (sct_sig_alg s) in
     dsn_verify X digitally_signed public_key sig_alg (sct_signature s)))))))"

subsection \<open>Lemmas\<close>

lemma length_be_bytes [simp]: "length (be_bytes n v) = n"
  by (simp add: be_bytes_def)

lemma be_bytes_Suc: "be_bytes (Suc n) v = be_bytes n (v div 256) @ [word_of_nat v]"
proof -
  have "rev [0..<Suc n] = map Suc (rev [0..<n]) @ [0]"
    by (simp add: upt_conv_Cons map_Suc_upt [symmetric] rev_map del: upt_Suc)
  then show ?thesis by (simp add: be_bytes_def div_mult2_eq)
qed

lemma be_bytes_inject: "v < 256 ^ n \<Longrightarrow> w < 256 ^ n \<Longrightarrow> be_bytes n v = be_bytes n w \<Longrightarrow> v = w"
proof (induction n arbitrary: v w)
  case (Suc n)
  from Suc.prems(3) have init: "be_bytes n (v div 256) = be_bytes n (w div 256)"
    and "(word_of_nat v :: u8) = word_of_nat w" by (simp_all add: be_bytes_Suc)
  then have "v mod 256 = w mod 256" by (simp add: word_unat_eq_iff unat_of_nat)
  moreover have "v div 256 < 256 ^ n" "w div 256 < 256 ^ n"
    using Suc.prems by (simp_all add: less_mult_imp_div_less mult.commute)
  then have "v div 256 = w div 256" using init by (rule Suc.IH)
  ultimately show ?case by (metis div_mult_mod_eq)
qed simp

text \<open>A vector ends where its length says, so it is read in one way only.\<close>

lemma tls_vec_inject:
  assumes "tls_vec X n a = Inr u" "tls_vec X n b = Inr v" "u @ x = v @ y"
  shows "a = b \<and> x = y"
proof -
  from assms have len: "length a < 256 ^ n" "length b < 256 ^ n"
    and eq: "be_bytes n (length a) @ a @ x = be_bytes n (length b) @ b @ y"
    by (auto simp: tls_vec_def split: if_splits)
  then have "be_bytes n (length a) = be_bytes n (length b)" "a @ x = b @ y" by simp_all
  with be_bytes_inject [OF len] show ?thesis by simp
qed

lemma tls_signed_entry_inject:
  assumes "tls_signed_entry X a = Inr u" "tls_signed_entry X b = Inr v" "u @ x = v @ y"
    and hashes: "\<And>h t. a = PrecertEntry h t \<Longrightarrow> length h = 32" "\<And>h t. b = PrecertEntry h t \<Longrightarrow> length h = 32"
  shows "a = b \<and> x = y"
proof -
  have code: "be_bytes 2 0 \<noteq> be_bytes 2 1" using be_bytes_inject [of 0 2 1] by auto
  show ?thesis
  proof (cases a; cases b)
    fix c c' assume ab: "a = X509Entry c" "b = X509Entry c'"
    with assms obtain cv cv' where "tls_vec X 3 c = Inr cv" "tls_vec X 3 c' = Inr cv'" "cv @ x = cv' @ y"
      by (auto simp: result_simps)
    from tls_vec_inject [OF this] ab show ?thesis by simp
  next
    fix h t h' t' assume ab: "a = PrecertEntry h t" "b = PrecertEntry h' t'"
    with assms obtain tv tv' where "tls_vec X 3 t = Inr tv" "tls_vec X 3 t' = Inr tv'"
      and "h @ tv @ x = h' @ tv' @ y" by (auto simp: result_simps)
    moreover from this ab hashes have "h = h'" "tv @ x = tv' @ y" by simp_all
    ultimately show ?thesis using tls_vec_inject [of X 3 t tv t' tv' x y] ab by simp
  qed (use assms code in \<open>auto simp: result_simps\<close>)
qed

subsection \<open>Properties\<close>

text \<open>What the log signed is one certificate at one time.  When the encodings of two structures
  are equal, their types, timestamps, entries and extensions are (the issuer key hash being a
  SHA-256 digest), so an SCT for one precertificate verifies for no other.\<close>

theorem sct_payload_injective:
  assumes "tls_serialize X d = Inr bs" "tls_serialize X d' = Inr bs"
    and "\<And>h t. dsn_entry d = PrecertEntry h t \<Longrightarrow> length h = 32"
    and "\<And>h t. dsn_entry d' = PrecertEntry h t \<Longrightarrow> length h = 32"
  shows "dsn_type d = dsn_type d' \<and> dsn_timestamp d = dsn_timestamp d' \<and> dsn_entry d = dsn_entry d'
     \<and> dsn_extensions d = dsn_extensions d'"
proof -
  from assms(1,2) obtain e e' v v' where
    entry: "tls_signed_entry X (dsn_entry d) = Inr e" "tls_signed_entry X (dsn_entry d') = Inr e'"
    and ext: "tls_vec X 2 (dsn_extensions d) = Inr v" "tls_vec X 2 (dsn_extensions d') = Inr v'"
    and eq: "signature_type_code (dsn_type d) = signature_type_code (dsn_type d')"
      "be_bytes 8 (unat (dsn_timestamp d)) @ e @ v = be_bytes 8 (unat (dsn_timestamp d')) @ e' @ v'"
    by (auto simp: tls_serialize_def result_simps)
  from eq(1) have "dsn_type d = dsn_type d'" by (cases "dsn_type d"; cases "dsn_type d'") simp_all
  moreover from eq(2) have be: "be_bytes 8 (unat (dsn_timestamp d)) = be_bytes 8 (unat (dsn_timestamp d'))"
    and rest: "e @ v = e' @ v'" by simp_all
  have lt: "unat w < 256 ^ 8" for w :: u64 using unsigned_less [of w, where ?'a = nat] by simp
  from be_bytes_inject [OF lt lt be] have "dsn_timestamp d = dsn_timestamp d'" by (simp add: word_unat_eq_iff)
  moreover from tls_signed_entry_inject [OF entry rest assms(3,4)]
  have "dsn_entry d = dsn_entry d'" "v = v'" by simp_all
  moreover from tls_vec_inject [OF ext, of "[]" "[]"] \<open>v = v'\<close>
  have "dsn_extensions d = dsn_extensions d'" by simp
  ultimately show ?thesis by simp
qed

definition sample_signed :: "bytes \<Rightarrow> digitally_signed" where
  "sample_signed lg = \<lparr>dsn_type = CertificateTimestamp, dsn_timestamp = 99, dsn_entry = PrecertEntry (fill32 [4]) [6],
     dsn_extensions = [], dsn_log_id = lg, dsn_signature = []\<rparr>"

theorem sct_payload_injective_witness: "dsn_entry (sample_signed [1]) = dsn_entry (sample_signed [2])"
proof -
  have "tls_serialize sample_pki (sample_signed [1]) =
      Inr ([0, 0] @ be_bytes 8 99 @ be_bytes 2 1 @ fill32 [4] @ be_bytes 3 1 @ [6] @ be_bytes 2 0)"
    "tls_serialize sample_pki (sample_signed [2]) =
      Inr ([0, 0] @ be_bytes 8 99 @ be_bytes 2 1 @ fill32 [4] @ be_bytes 3 1 @ [6] @ be_bytes 2 0)"
    by (simp_all add: tls_serialize_def sample_signed_def tls_vec_def)
  then show ?thesis
    by (rule sct_payload_injective [THEN conjunct2, THEN conjunct2, THEN conjunct1])
      (simp_all add: sample_signed_def fill32_def)
qed

end
