(* ===== verification/Tsa_Verify.thy ===== *)
theory Tsa_Verify
  imports Pki_Sample
begin

text \<open>
  The crate sigstore-tsa (src/verify.rs, src/error.rs, and the hash algorithms and statuses of
  src/asn1.rs): the verification of an RFC 3161 timestamp over a signature.  The ASN.1 decoders
  are derived or belong to the cms and der crates, and are parameters; the client, which sends a
  request over HTTP, is in Tsa\_Client.
\<close>

datatype tsa_error =
    TsaHttp string
  | Asn1 string
  | TsaVerification string
  | TsaInvalidResponse string
  | ParseError string
  | SignatureVerificationError string
  | TsaHashMismatch string string
  | ResponseFailure
  | NoToken
  | NoTstInfo
  | InvalidEKU
  | CertificateValidationError string
  | TsaParse string

fun fmt_tsa_error :: "tsa_error \<Rightarrow> string" where
  "fmt_tsa_error (TsaHttp s) = ''HTTP error: '' @ s"
| "fmt_tsa_error (Asn1 s) = ''ASN.1 error: '' @ s"
| "fmt_tsa_error (TsaVerification s) = ''Timestamp verification error: '' @ s"
| "fmt_tsa_error (TsaInvalidResponse s) = ''Invalid timestamp response: '' @ s"
| "fmt_tsa_error (ParseError s) = ''Failed to parse timestamp response: '' @ s"
| "fmt_tsa_error (SignatureVerificationError s) = ''Failed to verify timestamp signature: '' @ s"
| "fmt_tsa_error (TsaHashMismatch e a) = ''Timestamp message hash mismatch: expected '' @ e @ '', got '' @ a"
| "fmt_tsa_error ResponseFailure = ''Timestamp response indicates failure status''"
| "fmt_tsa_error NoToken = ''No timestamp token in response''"
| "fmt_tsa_error NoTstInfo = ''No TSTInfo in timestamp token''"
| "fmt_tsa_error InvalidEKU = ''Leaf certificate does not have TimeStamping Extended Key Usage''"
| "fmt_tsa_error (CertificateValidationError s) = ''TSA certificate validation failed: '' @ s"
| "fmt_tsa_error (TsaParse s) = ''Timestamp parsing error: '' @ s"

subsection \<open>Hash algorithms and statuses (asn1.rs)\<close>

fun oid_of_hash_algorithm :: "hash_algorithm \<Rightarrow> string" where
  "oid_of_hash_algorithm Sha2256 = ID_SHA_256"
| "oid_of_hash_algorithm Sha2384 = ID_SHA_384"
| "oid_of_hash_algorithm Sha2512 = ID_SHA_512"

definition to_hash_algorithm :: "string \<Rightarrow> hash_algorithm option" where
  "to_hash_algorithm oid =
     (if oid = ID_SHA_256 then Some Sha2256
      else if oid = ID_SHA_384 then Some Sha2384
      else if oid = ID_SHA_512 then Some Sha2512
      else None)"

datatype pki_status = Granted | GrantedWithMods | Rejection | Waiting | RevocationWarning | RevocationNotification

fun status_code :: "pki_status \<Rightarrow> u8" where
  "status_code Granted = 0"
| "status_code GrantedWithMods = 1"
| "status_code Rejection = 2"
| "status_code Waiting = 3"
| "status_code RevocationWarning = 4"
| "status_code RevocationNotification = 5"

definition status_of_code :: "u8 \<Rightarrow> pki_status option" where
  "status_of_code v =
     (if v = 0 then Some Granted else if v = 1 then Some GrantedWithMods else if v = 2 then Some Rejection
      else if v = 3 then Some Waiting else if v = 4 then Some RevocationWarning
      else if v = 5 then Some RevocationNotification else None)"

definition status_is_success :: "u8 \<Rightarrow> bool" where
  "status_is_success s \<longleftrightarrow> s = status_code Granted \<or> s = status_code GrantedWithMods"

definition resp_is_success :: "time_stamp_resp \<Rightarrow> bool" where
  "resp_is_success r \<longleftrightarrow> status_is_success (tr_status r) \<and> tr_token r \<noteq> None"

subsection \<open>Options\<close>

record verify_opts =
  vo_roots :: "bytes list"
  vo_intermediates :: "bytes list"
  vo_tsa_certificates :: "bytes list"

definition verify_opts_new :: verify_opts where
  "verify_opts_new = \<lparr>vo_roots = [], vo_intermediates = [], vo_tsa_certificates = []\<rparr>"

definition with_root :: "verify_opts \<Rightarrow> bytes \<Rightarrow> verify_opts" where
  "with_root opts root = opts\<lparr>vo_roots := vo_roots opts @ [root]\<rparr>"

definition with_roots :: "verify_opts \<Rightarrow> bytes list \<Rightarrow> verify_opts" where
  "with_roots opts roots = opts\<lparr>vo_roots := roots\<rparr>"

definition with_intermediate :: "verify_opts \<Rightarrow> bytes \<Rightarrow> verify_opts" where
  "with_intermediate opts c = opts\<lparr>vo_intermediates := vo_intermediates opts @ [c]\<rparr>"

definition with_intermediates :: "verify_opts \<Rightarrow> bytes list \<Rightarrow> verify_opts" where
  "with_intermediates opts cs = opts\<lparr>vo_intermediates := cs\<rparr>"

definition with_tsa_certificates :: "verify_opts \<Rightarrow> bytes list \<Rightarrow> verify_opts" where
  "with_tsa_certificates opts cs = opts\<lparr>vo_tsa_certificates := cs\<rparr>"

subsection \<open>Parsing the token\<close>

definition ID_SIGNED_DATA :: string where "ID_SIGNED_DATA = ''1.2.840.113549.1.7.2''"
definition OID_TST_INFO :: string where "OID_TST_INFO = ''1.2.840.113549.1.9.16.1.4''"
definition OID_MESSAGE_DIGEST :: string where "OID_MESSAGE_DIGEST = ''1.2.840.113549.1.9.4''"

definition content_info_of_token :: "'z pki_externals_scheme \<Rightarrow> bytes \<Rightarrow> (content_info, tsa_error) result" where
  "content_info_of_token X token =
     (case time_stamp_resp_from_der X token of
        Some resp \<Rightarrow>
          and_then (ensure (\<not> (tr_status resp \<noteq> status_code Granted \<and> tr_status resp \<noteq> status_code GrantedWithMods))
            (ParseError (''Timestamp request not granted: '' @ fmt_nat (unat (tr_status resp))))) (\<lambda>_.
          and_then (ok_or (ParseError ''TimeStampResp missing timeStampToken'') (tr_token resp)) (\<lambda>token_any.
          and_then (map_err (\<lambda>e. ParseError (''failed to re-encode token: '' @ e)) (any_to_der X token_any)) (\<lambda>bs.
          map_err (\<lambda>e. ParseError (''failed to decode ContentInfo from token: '' @ e)) (content_info_from_der X bs))))
      | None \<Rightarrow>
          map_err (\<lambda>e. ParseError (''failed to decode TimeStampToken: '' @ e)) (content_info_from_der X token))"

definition parse_timestamp_token :: "'z pki_externals_scheme \<Rightarrow> bytes \<Rightarrow> (tst_info \<times> signed_data, tsa_error) result" where
  "parse_timestamp_token X token =
     and_then (content_info_of_token X token) (\<lambda>ci.
     and_then (ensure (ci_content_type ci = ID_SIGNED_DATA)
       (ParseError ''ContentInfo content type is not SignedData'')) (\<lambda>_.
     and_then (map_err (\<lambda>e. ParseError (''failed to encode SignedData content: '' @ e))
       (any_to_der X (ci_content ci))) (\<lambda>der.
     and_then (map_err (\<lambda>e. ParseError (''failed to decode SignedData: '' @ e)) (signed_data_from_der X der)) (\<lambda>sd.
     and_then (ensure (sd_econtent_type sd = OID_TST_INFO) (ParseError ''encap content type is not TSTInfo'')) (\<lambda>_.
     case sd_econtent sd of
       Some content \<Rightarrow>
         and_then (map_err (\<lambda>e. ParseError (''failed to decode TSTInfo: '' @ e))
           (tst_info_from_der X (any_value content))) (\<lambda>tst. Inr (tst, sd))
     | None \<Rightarrow> Inl NoTstInfo)))))"

subsection \<open>The checks\<close>

text \<open>The digest of aws-lc-rs an object identifier selects, in two functions of the code.\<close>

definition digest_by_oid :: "'z externals_scheme \<Rightarrow> string \<Rightarrow> bytes \<Rightarrow> bytes option" where
  "digest_by_oid X oid data =
     (if oid = ID_SHA_256 then Some (sha256 X data)
      else if oid = ID_SHA_384 then Some (sha384 X data)
      else if oid = ID_SHA_512 then Some (sha512 X data)
      else None)"

definition verify_message_imprint :: "'z pki_externals_scheme \<Rightarrow> tst_info \<Rightarrow> bytes \<Rightarrow> (unit, tsa_error) result" where
  "verify_message_imprint X tst signature =
     (let hash_alg_oid = mi_algorithm (tst_imprint tst);
          expected_hash = mi_hashed_message (tst_imprint tst) in
      and_then (ok_or (ParseError (''unsupported hash algorithm: '' @ hash_alg_oid))
        (digest_by_oid X hash_alg_oid signature)) (\<lambda>computed_hash.
      ensure (computed_hash = expected_hash)
        (TsaHashMismatch (hex_encode X expected_hash) (hex_encode X computed_hash))))"

definition extract_certificates :: "signed_data \<Rightarrow> x509_certificate list" where
  "extract_certificates sd =
     (case sd_certificates sd of
        None \<Rightarrow> []
      | Some cs \<Rightarrow> concat (map (\<lambda>c. case c of CertificateChoice cert \<Rightarrow> [cert] | OtherCertificate \<Rightarrow> []) cs))"

definition has_ski :: "'z pki_externals_scheme \<Rightarrow> bytes \<Rightarrow> x509_certificate \<Rightarrow> bool" where
  "has_ski X ski cert \<longleftrightarrow>
     (case x_extensions cert of
        None \<Rightarrow> False
      | Some exts \<Rightarrow>
          list_ex (\<lambda>ext. extn_id ext = ''2.5.29.14'' \<and> ski_from_der X (extn_value ext) = Some ski) exts)"

fun find_signer_certificate :: "'z pki_externals_scheme \<Rightarrow> signer_identifier \<Rightarrow> x509_certificate list
    \<Rightarrow> (x509_certificate, tsa_error) result" where
  "find_signer_certificate X (IssuerAndSerialNumber issuer serial) certs =
     ok_or (SignatureVerificationError ''no certificate matches issuer and serial number'')
       (find (\<lambda>cert. x_issuer cert = issuer \<and> x_serial cert = serial) certs)"
| "find_signer_certificate X (SubjectKeyIdentifier ski) certs =
     ok_or (SignatureVerificationError ''no certificate matches subject key identifier'')
       (find (has_ski X ski) certs)"

definition get_signed_attrs_for_verification :: "'z pki_externals_scheme \<Rightarrow> attribute list \<Rightarrow> (bytes, tsa_error) result" where
  "get_signed_attrs_for_verification X attrs =
     and_then (map_err (\<lambda>e. SignatureVerificationError (''failed to create SetOfVec: '' @ e))
       (set_of_attributes X attrs)) (\<lambda>generic_set.
     map_err (\<lambda>e. SignatureVerificationError (''failed to re-encode attributes: '' @ e))
       (attributes_to_der X generic_set))"

definition verify_message_digest_attribute :: "'z pki_externals_scheme \<Rightarrow> attribute list \<Rightarrow> bytes \<Rightarrow> string
    \<Rightarrow> (unit, tsa_error) result" where
  "verify_message_digest_attribute X attrs tst_info_der digest_alg_oid =
     and_then (ok_or (SignatureVerificationError ''message-digest attribute not found in signed_attrs'')
       (find (\<lambda>a. at_oid a = OID_MESSAGE_DIGEST) attrs)) (\<lambda>attr.
     and_then (ensure (length (at_values attr) = 1)
       (SignatureVerificationError ''message-digest attribute should have exactly one value'')) (\<lambda>_.
     and_then (ok_or (SignatureVerificationError ''failed to get message-digest attribute value'')
       (case at_values attr of [] \<Rightarrow> None | v # vs \<Rightarrow> Some v)) (\<lambda>v.
     and_then (map_err (\<lambda>e. SignatureVerificationError (''failed to encode message-digest attribute value: '' @ e))
       (any_to_der X v)) (\<lambda>der.
     and_then (map_err (\<lambda>e. SignatureVerificationError (''failed to decode message-digest as OCTET STRING: '' @ e))
       (octet_string_from_der X der)) (\<lambda>message_digest.
     and_then (ok_or (ParseError (''unsupported signer digest algorithm: '' @ digest_alg_oid))
       (digest_by_oid X digest_alg_oid tst_info_der)) (\<lambda>content_hash.
     ensure (content_hash = message_digest)
       (TsaHashMismatch (hex_encode X message_digest) (hex_encode X content_hash))))))))"

text \<open>The algorithm the curve of the key and the digest of the signer select.\<close>

definition ecdsa_algorithm :: "string \<Rightarrow> string \<Rightarrow> aws_alg option" where
  "ecdsa_algorithm curve_oid digest_alg_oid =
     (if curve_oid = SECP_256_R_1 \<and> digest_alg_oid = ID_SHA_256 then Some ECDSA_P256_SHA256_ASN1
      else if curve_oid = SECP_384_R_1 \<and> digest_alg_oid = ID_SHA_256 then Some ECDSA_P384_SHA256_ASN1
      else if curve_oid = SECP_384_R_1 \<and> digest_alg_oid = ID_SHA_384 then Some ECDSA_P384_SHA384_ASN1
      else None)"

definition verify_ecdsa_signature :: "'z pki_externals_scheme \<Rightarrow> bytes \<Rightarrow> bytes \<Rightarrow> x509_certificate \<Rightarrow> string
    \<Rightarrow> (unit, tsa_error) result" where
  "verify_ecdsa_signature X signature message cert digest_alg_oid =
     (let spki = x_spki cert in
      and_then (ok_or (SignatureVerificationError ''invalid public key encoding'') (spki_key spki)) (\<lambda>key.
      and_then (ensure (spki_algorithm spki = ID_EC_PUBLIC_KEY)
        (SignatureVerificationError (''not an EC key: '' @ spki_algorithm spki))) (\<lambda>_.
      and_then (ok_or (SignatureVerificationError ''missing EC curve parameters'') (spki_parameters spki)) (\<lambda>params.
      and_then (map_err (\<lambda>e. SignatureVerificationError (''failed to decode curve OID: '' @ e))
        (any_decode_oid X params)) (\<lambda>curve_oid.
      and_then (ok_or (SignatureVerificationError
          (''unsupported curve/digest combination: '' @ curve_oid @ '' / '' @ digest_alg_oid))
        (ecdsa_algorithm curve_oid digest_alg_oid)) (\<lambda>alg.
      ensure (aws_verify X alg key message signature)
        (SignatureVerificationError ''signature verification failed'')))))))"

definition verify_cms_signature :: "'z pki_externals_scheme \<Rightarrow> signed_data \<Rightarrow> bytes \<Rightarrow> verify_opts
    \<Rightarrow> (x509_certificate, tsa_error) result" where
  "verify_cms_signature X sd tst_info_der opts =
     and_then (ok_or (SignatureVerificationError ''no signer info found'')
       (case sd_signer_infos sd of [] \<Rightarrow> None | si # rest \<Rightarrow> Some si)) (\<lambda>si.
     let all_certs = extract_certificates sd @ concat (map (\<lambda>c.
           case x509_from_der X c of Inr cert \<Rightarrow> [cert] | Inl _ \<Rightarrow> []) (vo_tsa_certificates opts)) in
     and_then (find_signer_certificate X (si_sid si) all_certs) (\<lambda>signer_cert.
     and_then (ok_or (SignatureVerificationError ''no signed attributes found'') (si_signed_attrs si)) (\<lambda>attrs.
     and_then (verify_message_digest_attribute X attrs tst_info_der (si_digest_alg si)) (\<lambda>_.
     and_then (get_signed_attrs_for_verification X attrs) (\<lambda>attrs_bytes.
     and_then (verify_ecdsa_signature X (si_signature si) attrs_bytes signer_cert (si_digest_alg si)) (\<lambda>_.
     Inr signer_cert))))))"

definition validate_tsa_certificate_chain :: "'z pki_externals_scheme \<Rightarrow> x509_certificate \<Rightarrow> timestamp \<Rightarrow> verify_opts
    \<Rightarrow> x509_certificate list \<Rightarrow> (unit, tsa_error) result" where
  "validate_tsa_certificate_chain X signer_cert t opts embedded =
     and_then (ensure (vo_roots opts \<noteq> [])
       (CertificateValidationError ''No trusted roots provided for TSA certificate validation'')) (\<lambda>_.
     and_then (map_err (\<lambda>e. CertificateValidationError (''failed to encode signer certificate to DER: '' @ e))
       (x509_to_der X signer_cert)) (\<lambda>signer_der.
     and_then (map_err (\<lambda>e. CertificateValidationError (''failed to parse end-entity certificate: '' @ e))
       (end_entity_cert X signer_der)) (\<lambda>_.
     and_then (collect_ok (map (\<lambda>c. map_err (\<lambda>e. CertificateValidationError (''failed to create trust anchor: '' @ e))
       (anchor_from_trusted_cert X c)) (vo_roots opts))) (\<lambda>anchors.
     and_then (collect_ok (map (\<lambda>c. map_err (\<lambda>e. CertificateValidationError
         (''failed to encode embedded certificate to DER: '' @ e)) (x509_to_der X c))
       (filter (\<lambda>c. c \<noteq> signer_cert) embedded))) (\<lambda>intermediates.
     map_err (\<lambda>e. CertificateValidationError (''TSA certificate chain validation failed: '' @ e))
       (webpki_verify X ID_KP_TIME_STAMPING anchors (intermediates @ vo_intermediates opts) signer_der
         (word_of_int (ts_as_second X t))))))))"

text \<open>The result is the time of the token (\<open>TimestampResult\<close> has that one field).\<close>

definition verify_timestamp_response :: "'z pki_externals_scheme \<Rightarrow> bytes \<Rightarrow> bytes \<Rightarrow> verify_opts
    \<Rightarrow> (timestamp, tsa_error) result" where
  "verify_timestamp_response X token signature opts =
     and_then (parse_timestamp_token X token) (\<lambda>(tst, sd).
     and_then (verify_message_imprint X tst signature) (\<lambda>_.
     and_then (ok_or (ParseError ''invalid timestamp in TSTInfo'') (ts_from_system_time X (tst_gen_time tst))) (\<lambda>t.
     and_then (ensure (\<not> t < 0) (ParseError ''timestamp before epoch'')) (\<lambda>_.
     and_then (ok_or NoTstInfo (sd_econtent sd)) (\<lambda>content.
     and_then (verify_cms_signature X sd (any_value content) opts) (\<lambda>signer_cert.
     and_then (validate_tsa_certificate_chain X signer_cert t opts (extract_certificates sd)) (\<lambda>_.
     Inr t)))))))"

subsection \<open>Lemmas\<close>

lemma status_roundtrip: "status_of_code (status_code s) = Some s"
  by (cases s) (simp_all add: status_of_code_def)

lemma hash_algorithm_oid_roundtrip: "to_hash_algorithm (oid_of_hash_algorithm h) = Some h"
  by (cases h) (simp_all add: to_hash_algorithm_def ID_SHA_256_def ID_SHA_384_def ID_SHA_512_def)

text \<open>
  \<open>cms_signed\<close>: the signer signed attributes one of which is the digest of the content, with the
  key of the certificate.  \<open>tsa_trusted\<close>: webpki builds a chain from the certificate to the roots
  for time stamping, at the time.
\<close>

definition cms_signed :: "'z pki_externals_scheme \<Rightarrow> signer_info \<Rightarrow> bytes \<Rightarrow> x509_certificate \<Rightarrow> bool" where
  "cms_signed X si content cert \<longleftrightarrow>
     (\<exists>attrs attr v d md signed params curve alg key.
        si_signed_attrs si = Some attrs \<and> attr \<in> set attrs \<and> at_oid attr = OID_MESSAGE_DIGEST
        \<and> at_values attr = [v] \<and> any_to_der X v = Inr d \<and> octet_string_from_der X d = Inr md
        \<and> digest_by_oid X (si_digest_alg si) content = Some md
        \<and> get_signed_attrs_for_verification X attrs = Inr signed
        \<and> spki_algorithm (x_spki cert) = ID_EC_PUBLIC_KEY \<and> spki_parameters (x_spki cert) = Some params
        \<and> any_decode_oid X params = Inr curve \<and> ecdsa_algorithm curve (si_digest_alg si) = Some alg
        \<and> spki_key (x_spki cert) = Some key \<and> aws_verify X alg key signed (si_signature si))"

definition tsa_trusted :: "'z pki_externals_scheme \<Rightarrow> verify_opts \<Rightarrow> x509_certificate \<Rightarrow> timestamp \<Rightarrow> bool" where
  "tsa_trusted X opts cert t \<longleftrightarrow> vo_roots opts \<noteq> [] \<and>
     (\<exists>der anchors intermediates. x509_to_der X cert = Inr der
        \<and> map (anchor_from_trusted_cert X) (vo_roots opts) = map Inr anchors
        \<and> webpki_verify X ID_KP_TIME_STAMPING anchors intermediates der (word_of_int (ts_as_second X t)) = Inr ())"

lemma map_map_err_Inr: "map (\<lambda>c. map_err g (f c)) xs = map Inr ys \<longleftrightarrow> map f xs = map Inr ys"
  by (induction xs arbitrary: ys) (auto simp: result_simps Cons_eq_map_conv)

lemma verify_message_digest_attribute_Inr:
  assumes "verify_message_digest_attribute X attrs content oid = Inr u"
  shows "\<exists>attr v d md. attr \<in> set attrs \<and> at_oid attr = OID_MESSAGE_DIGEST \<and> at_values attr = [v]
     \<and> any_to_der X v = Inr d \<and> octet_string_from_der X d = Inr md \<and> digest_by_oid X oid content = Some md"
  using assms
  by (auto simp: verify_message_digest_attribute_def result_simps find_Some_iff length_Suc_conv in_set_conv_nth)

lemma verify_ecdsa_signature_Inr:
  assumes "verify_ecdsa_signature X sg msg cert oid = Inr u"
  shows "\<exists>params curve alg key. spki_algorithm (x_spki cert) = ID_EC_PUBLIC_KEY
     \<and> spki_parameters (x_spki cert) = Some params \<and> any_decode_oid X params = Inr curve
     \<and> ecdsa_algorithm curve oid = Some alg
     \<and> spki_key (x_spki cert) = Some key \<and> aws_verify X alg key msg sg"
  using assms by (auto simp: verify_ecdsa_signature_def result_simps Let_def)

lemma find_signer_certificate_set:
  "find_signer_certificate X sid certs = Inr cert \<Longrightarrow> cert \<in> set certs"
  by (cases sid) (auto simp: result_simps find_Some_iff in_set_conv_nth)

lemma verify_cms_signature_Inr:
  assumes "verify_cms_signature X sd content opts = Inr cert"
  shows "\<exists>si \<in> set (sd_signer_infos sd). cms_signed X si content cert"
proof -
  from assms obtain si rest attrs signed where si: "sd_signer_infos sd = si # rest"
    and attrs: "si_signed_attrs si = Some attrs"
    and md: "verify_message_digest_attribute X attrs content (si_digest_alg si) = Inr ()"
    and signed: "get_signed_attrs_for_verification X attrs = Inr signed"
    and sig: "verify_ecdsa_signature X (si_signature si) signed cert (si_digest_alg si) = Inr ()"
    by (auto simp: verify_cms_signature_def result_simps Let_def split: list.splits)
  have "cms_signed X si content cert"
    unfolding cms_signed_def
    using attrs signed verify_message_digest_attribute_Inr [OF md] verify_ecdsa_signature_Inr [OF sig] by blast
  with si show ?thesis by simp
qed

lemma validate_tsa_certificate_chain_Inr:
  assumes "validate_tsa_certificate_chain X cert t opts embedded = Inr u"
  shows "tsa_trusted X opts cert t"
  using assms
  by (auto simp: validate_tsa_certificate_chain_def tsa_trusted_def result_simps map_map_err_Inr)

subsection \<open>Properties\<close>

text \<open>C13: an accepted timestamp is authentic.  Its content names a digest of the signature and the
  time returned, which is not before the epoch; a signer of the token signed the digest of that content
  with the key of a certificate, and the certificate chains to one of the roots given, for time
  stamping, at that very time.\<close>

theorem timestamp_authentic:
  assumes "verify_timestamp_response X token signature opts = Inr t"
  shows "\<exists>tst sd content si cert.
     parse_timestamp_token X token = Inr (tst, sd) \<and> sd_econtent sd = Some content
     \<and> tst_info_from_der X (any_value content) = Inr tst
     \<and> digest_by_oid X (mi_algorithm (tst_imprint tst)) signature = Some (mi_hashed_message (tst_imprint tst))
     \<and> ts_from_system_time X (tst_gen_time tst) = Some t \<and> 0 \<le> t
     \<and> si \<in> set (sd_signer_infos sd) \<and> cms_signed X si (any_value content) cert
     \<and> tsa_trusted X opts cert t"
proof -
  from assms obtain tst sd content cert where parse: "parse_timestamp_token X token = Inr (tst, sd)"
    and imprint: "verify_message_imprint X tst signature = Inr ()"
    and t: "ts_from_system_time X (tst_gen_time tst) = Some t" "0 \<le> t"
    and content: "sd_econtent sd = Some content"
    and cms: "verify_cms_signature X sd (any_value content) opts = Inr cert"
    and chain: "validate_tsa_certificate_chain X cert t opts (extract_certificates sd) = Inr ()"
    by (auto simp: verify_timestamp_response_def result_simps)
  from parse content have "tst_info_from_der X (any_value content) = Inr tst"
    by (auto simp: parse_timestamp_token_def result_simps)
  moreover from imprint have
    "digest_by_oid X (mi_algorithm (tst_imprint tst)) signature = Some (mi_hashed_message (tst_imprint tst))"
    by (auto simp: verify_message_imprint_def result_simps Let_def)
  ultimately show ?thesis
    using parse t content verify_cms_signature_Inr [OF cms] validate_tsa_certificate_chain_Inr [OF chain] by blast
qed

definition sample_opts :: verify_opts where
  "sample_opts = with_roots verify_opts_new [[4]]"

lemma sample_stamp_verifies: "verify_timestamp_response sample_pki [6, 2] [6, 2] sample_opts = Inr 100"
  by code_simp

theorem timestamp_authentic_witness:
  "\<exists>si cert. cms_signed sample_pki si [6, 2] cert \<and> tsa_trusted sample_pki sample_opts cert 100"
proof -
  have "parse_timestamp_token sample_pki [6, 2] =
      Inr (\<lparr>tst_imprint = \<lparr>mi_algorithm = ID_SHA_256, mi_hashed_message = fill32 [6, 2]\<rparr>,
         tst_gen_time = 100, tst_nonce = Some []\<rparr>, sample_signed_data [6, 2])"
    by code_simp
  with timestamp_authentic [OF sample_stamp_verifies] show ?thesis
    by (auto simp: sample_signed_data_def)
qed

end
