(* ===== verification/Verify_Helpers.thy ===== *)
theory Verify_Helpers
  imports Sct_Verify Tsa_Verify
begin

text \<open>
  The crate sigstore-verify, part 4 (src/verify\_impl/helpers.rs): certificate and signature of a
  bundle, the time of the signature from its timestamps, the certificate chain, and the SCT.
\<close>

definition extract_certificate :: "material_content \<Rightarrow> (der_certificate, verify_error) result" where
  "extract_certificate material =
     (case material of
        Certificate cert \<Rightarrow> Inr cert
      | X509CertificateChain certificates \<Rightarrow>
          (case certificates of [] \<Rightarrow> Inl (VVerification ''no certificates in chain'') | c # cs \<Rightarrow> Inr c)
      | PublicKey hint \<Rightarrow> Inl (VVerification ''public key verification not yet supported''))"

definition extract_signature :: "signature_content \<Rightarrow> (signature_bytes, verify_error) result" where
  "extract_signature content =
     (case content of
        MessageSignature ms \<Rightarrow> Inr (msg_signature ms)
      | DsseEnvelope envelope \<Rightarrow>
          (case env_signatures envelope of
             [] \<Rightarrow> Inl (VVerification ''no signatures in DSSE envelope'')
           | s # ss \<Rightarrow> Inr (ds_sig s)))"

subsection \<open>The time of the signature\<close>

text \<open>The options built for timestamp \<open>i\<close>; certificates that cannot be read are left out.\<close>

definition tsa_opts :: "'z pki_externals_scheme \<Rightarrow> clock \<Rightarrow> nat \<Rightarrow> trusted_root \<Rightarrow> verify_opts" where
  "tsa_opts X clock i root =
    (let opts = verify_opts_new;
         opts = (case tsa_root_certs X (clock (TsaRoots i)) root of Inr rs \<Rightarrow> with_roots opts rs | Inl _ \<Rightarrow> opts);
         opts = (case tsa_intermediate_certs X (clock (TsaIntermediates i)) root of
                   Inr is \<Rightarrow> with_intermediates opts is | Inl _ \<Rightarrow> opts)
     in (case tsa_leaf_certs X (clock (TsaLeaves i)) root of
           Inr ls \<Rightarrow> with_tsa_certificates opts ls | Inl _ \<Rightarrow> opts))"

fun tsa_loop :: "'z pki_externals_scheme \<Rightarrow> clock \<Rightarrow> bytes \<Rightarrow> trusted_root \<Rightarrow> nat \<Rightarrow> int option \<Rightarrow> bool \<Rightarrow> bytes list
    \<Rightarrow> (int option \<times> bool, verify_error) result" where
  "tsa_loop X clock sg root i earliest any_verified [] = Inr (earliest, any_verified)"
| "tsa_loop X clock sg root i earliest any_verified (ts_bytes # rest) =
     and_then (map_err (\<lambda>e. VVerification (''TSA timestamp verification failed: '' @ fmt_tsa_error e))
       (verify_timestamp_response X ts_bytes sg (tsa_opts X clock i root))) (\<lambda>time.
     and_then (map_err (\<lambda>e. VVerification (''invalid TSA validity period in trusted root: '' @ fmt_trust_error e))
       (is_timestamp_within_tsa_validity X root time)) (\<lambda>within_validity.
     and_then (ensure within_validity (VVerification (''TSA timestamp '' @ fmt_timestamp X time
         @ '' is outside the trust root's TSA validity period''))) (\<lambda>_.
     let timestamp = ts_as_second X time in
     tsa_loop X clock sg root (Suc i)
       (case earliest of
          Some e \<Rightarrow> if timestamp < e then Some timestamp else earliest
        | None \<Rightarrow> Some timestamp) True rest)))"

definition extract_tsa_timestamp :: "'z pki_externals_scheme \<Rightarrow> clock \<Rightarrow> sigstore_bundle \<Rightarrow> bytes \<Rightarrow> trusted_root
    \<Rightarrow> (int option, verify_error) result" where
  "extract_tsa_timestamp X clock b sg root =
    (let timestamps = rfc3161_timestamps (b_material b) in
     if timestamps = [] then Inr None
     else
       and_then (tsa_loop X clock sg root 0 None False timestamps) (\<lambda>(earliest_timestamp, any_timestamp_verified).
       if \<not> any_timestamp_verified \<and> timestamps \<noteq> [] then
         Inl (VVerification ''TSA timestamps present but none could be verified against trusted root'')
       else Inr earliest_timestamp))"

definition has_v2_tlog_entries :: "sigstore_bundle \<Rightarrow> bool" where
  "has_v2_tlog_entries b \<longleftrightarrow> list_ex (\<lambda>entry. te_version entry = ''0.0.2'') (tlog_entries (b_material b))"

fun v1_time_loop :: "int option \<Rightarrow> tlog_entry list \<Rightarrow> int option" where
  "v1_time_loop earliest [] = earliest"
| "v1_time_loop earliest (entry # entries) =
    (let is_v1 = (te_version entry = ''0.0.1'' \<and> (te_kind entry = ''hashedrekord'' \<or> te_kind entry = ''dsse'')) in
     if \<not> is_v1 \<or> te_promise entry = None then v1_time_loop earliest entries
     else
       let time = te_integrated_time entry in
       if time > 0 then
         v1_time_loop (case earliest of
             Some e \<Rightarrow> if time < e then Some time else earliest
           | None \<Rightarrow> Some time) entries
       else v1_time_loop earliest entries)"

definition extract_v1_integrated_time_with_promise :: "sigstore_bundle \<Rightarrow> int option" where
  "extract_v1_integrated_time_with_promise b = v1_time_loop None (tlog_entries (b_material b))"

definition determine_validation_time :: "'z pki_externals_scheme \<Rightarrow> clock \<Rightarrow> sigstore_bundle \<Rightarrow> signature_bytes
    \<Rightarrow> trusted_root \<Rightarrow> (int, verify_error) result" where
  "determine_validation_time X clock b signature root =
     and_then (extract_tsa_timestamp X clock b signature root) (\<lambda>tsa.
     case tsa of
       Some tsa_time \<Rightarrow> Inr tsa_time
     | None \<Rightarrow>
         (case extract_v1_integrated_time_with_promise b of
            Some integrated_time \<Rightarrow> Inr integrated_time
          | None \<Rightarrow>
              if has_v2_tlog_entries b then
                Inl (VVerification (''V2 bundle requires RFC3161 timestamp but none could be verified. ''
                  @ ''V2 tlog entries have integrated_time=0 by design. ''
                  @ ''Ensure TSA certificates are present in the trusted root.''))
              else
                Inl (VVerification (''No verified timestamp found. V1 bundles require either an RFC3161 timestamp ''
                  @ ''or a tlog entry with both integrated_time > 0 and an inclusion_promise (SET).''))))"

subsection \<open>The certificate\<close>

definition validate_certificate_time :: "int \<Rightarrow> certificate_info \<Rightarrow> (unit, verify_error) result" where
  "validate_certificate_time validation_time cert_info =
     and_then (ensure (\<not> validation_time < ci_not_before cert_info)
       (VVerification (''certificate not yet valid: validation time '' @ fmt_int validation_time
          @ '' is before not_before '' @ fmt_int (ci_not_before cert_info)))) (\<lambda>_.
     ensure (\<not> validation_time > ci_not_after cert_info)
       (VVerification (''certificate has expired: validation time '' @ fmt_int validation_time
          @ '' is after not_after '' @ fmt_int (ci_not_after cert_info))))"

text \<open>The end-entity certificate and the intermediates of the bundle.\<close>

definition chain_parts :: "material_content \<Rightarrow> (bytes \<times> bytes list, verify_error) result" where
  "chain_parts material =
     (case material of
        Certificate cert \<Rightarrow> Inr (cert, [])
      | X509CertificateChain certificates \<Rightarrow>
          (case certificates of [] \<Rightarrow> Inl (VVerification ''no certificates in chain'') | c # cs \<Rightarrow> Inr (c, cs))
      | PublicKey hint \<Rightarrow> Inl (VVerification ''public key verification not yet supported''))"

definition trust_anchors_of :: "'z pki_externals_scheme \<Rightarrow> bytes list \<Rightarrow> trust_anchor list" where
  "trust_anchors_of X certs =
     concat (map (\<lambda>c. case anchor_from_trusted_cert X c of Inr a \<Rightarrow> [a] | Inl _ \<Rightarrow> []) certs)"

definition verify_certificate_chain :: "'z pki_externals_scheme \<Rightarrow> timestamp \<Rightarrow> material_content \<Rightarrow> int \<Rightarrow> trusted_root
    \<Rightarrow> (unit, verify_error) result" where
  "verify_certificate_chain X now material validation_time root =
     and_then (chain_parts material) (\<lambda>(ee_cert_der, intermediate_ders).
     and_then (map_err (\<lambda>e. VVerification (''failed to get Fulcio certs: '' @ fmt_trust_error e))
       (fulcio_certs X now root)) (\<lambda>certs.
     and_then (ensure (certs \<noteq> []) (VVerification ''no Fulcio certificates in trusted root'')) (\<lambda>_.
     let trust_anchors = trust_anchors_of X certs in
     and_then (ensure (trust_anchors \<noteq> [])
       (VVerification ''failed to create trust anchors from Fulcio certificates'')) (\<lambda>_.
     and_then (map_err (\<lambda>e. VVerification (''failed to parse end-entity certificate: '' @ e))
       (end_entity_cert X ee_cert_der)) (\<lambda>_.
     map_err (\<lambda>e. VVerification (''certificate chain validation failed: '' @ e))
       (webpki_verify X ID_KP_CODE_SIGNING trust_anchors intermediate_ders ee_cert_der
          (word_of_int validation_time)))))))"

fun issuer_spki_of :: "'z pki_externals_scheme \<Rightarrow> string \<Rightarrow> bytes list \<Rightarrow> (der_public_key, verify_error) result" where
  "issuer_spki_of X issuer_name [] =
     Inl (VVerification ''could not find issuer certificate for SCT verification'')"
| "issuer_spki_of X issuer_name (ca_der # rest) =
     (case x509_from_der X ca_der of
        Inr ca_cert \<Rightarrow>
          if x_subject ca_cert = issuer_name then
            map_err (\<lambda>e. VVerification (''failed to encode issuer SPKI: '' @ e)) (spki_to_der X (x_spki ca_cert))
          else issuer_spki_of X issuer_name rest
      | Inl _ \<Rightarrow> issuer_spki_of X issuer_name rest)"

definition get_issuer_spki :: "'z pki_externals_scheme \<Rightarrow> timestamp \<Rightarrow> material_content \<Rightarrow> der_certificate \<Rightarrow> trusted_root
    \<Rightarrow> (der_public_key, verify_error) result" where
  "get_issuer_spki X now material cert root =
    (let from_root =
       and_then (map_err (\<lambda>e. VVerification (''failed to parse certificate: '' @ e)) (x509_from_der X cert)) (\<lambda>parsed_cert.
       and_then (map_err (\<lambda>e. VVerification (''failed to get Fulcio certs: '' @ fmt_trust_error e))
         (fulcio_certs X now root)) (\<lambda>certs.
       issuer_spki_of X (x_issuer parsed_cert) certs)) in
     case material of
       X509CertificateChain (c # issuer_der # rest) \<Rightarrow>
         and_then (map_err (\<lambda>e. VVerification (''failed to parse issuer certificate: '' @ e)) (x509_from_der X issuer_der))
           (\<lambda>issuer_cert.
         map_err (\<lambda>e. VVerification (''failed to encode issuer SPKI: '' @ e)) (spki_to_der X (x_spki issuer_cert)))
     | _ \<Rightarrow> from_root)"

definition verify_sct_of :: "'z pki_externals_scheme \<Rightarrow> timestamp \<Rightarrow> timestamp \<Rightarrow> material_content \<Rightarrow> trusted_root
    \<Rightarrow> (unit, verify_error) result" where
  "verify_sct_of X now1 now2 material root =
     and_then (extract_certificate material) (\<lambda>cert.
     and_then (get_issuer_spki X now1 material cert root) (\<lambda>issuer_spki.
     sct_verify X now2 cert issuer_spki root))"

subsection \<open>Lemmas\<close>

text \<open>Both loops keep the least time they have seen.\<close>

fun keep_least :: "int option \<Rightarrow> int list \<Rightarrow> int option" where
  "keep_least e [] = e"
| "keep_least e (x # xs) =
     keep_least (case e of Some y \<Rightarrow> if x < y then Some x else e | None \<Rightarrow> Some x) xs"

lemma Min_insert_insert: "finite S \<Longrightarrow> Min (insert y (insert x S)) = Min (insert (min y x) S)"
  by (cases "S = {}") (simp_all add: min.assoc)

lemma keep_least_Some: "keep_least (Some y) xs = Some (Min (insert y (set xs)))"
proof (induction xs arbitrary: y)
  case (Cons x xs)
  have "(if x < y then Some x else Some y) = Some (min y x)" by (simp add: min_def)
  then show ?case
    by (simp only: keep_least.simps option.case Cons.IH list.set Min_insert_insert finite_set)
qed simp

lemma keep_least_None: "keep_least None xs = (if xs = [] then None else Some (Min (set xs)))"
  by (cases xs) (simp_all add: keep_least_Some)

definition stamped :: "tlog_entry \<Rightarrow> bool" where
  "stamped e \<longleftrightarrow> te_version e = ''0.0.1'' \<and> (te_kind e = ''hashedrekord'' \<or> te_kind e = ''dsse'')
     \<and> te_promise e \<noteq> None \<and> te_integrated_time e > 0"

lemma v1_time_loop_eq: "v1_time_loop e es = keep_least e (map te_integrated_time (filter stamped es))"
proof (induction es arbitrary: e)
  case (Cons x es)
  define V K K' where "V \<longleftrightarrow> te_version x = ''0.0.1''" and "K \<longleftrightarrow> te_kind x = ''hashedrekord''"
    and "K' \<longleftrightarrow> te_kind x = ''dsse''"
  note fold = V_def [symmetric] K_def [symmetric] K'_def [symmetric]
  have "v1_time_loop e (x # es) =
      v1_time_loop (if stamped x then keep_least e [te_integrated_time x] else e) es"
    unfolding v1_time_loop.simps stamped_def fold by (auto simp: Let_def)
  then show ?case by (simp add: Cons.IH split: option.splits)
qed simp

text \<open>The timestamp number \<open>j\<close> is verified, and some authority's validity contains its time.\<close>

definition stamp_ok :: "'z pki_externals_scheme \<Rightarrow> clock \<Rightarrow> bytes \<Rightarrow> trusted_root \<Rightarrow> nat \<Rightarrow> bytes \<Rightarrow> timestamp \<Rightarrow> bool" where
  "stamp_ok X clock sg root j token time \<longleftrightarrow>
     verify_timestamp_response X token sg (tsa_opts X clock j root) = Inr time
     \<and> is_timestamp_within_tsa_validity X root time = Inr True"

fun stamps_ok :: "'z pki_externals_scheme \<Rightarrow> clock \<Rightarrow> bytes \<Rightarrow> trusted_root \<Rightarrow> nat \<Rightarrow> bytes list \<Rightarrow> timestamp list \<Rightarrow> bool" where
  "stamps_ok X clock sg root i [] [] \<longleftrightarrow> True"
| "stamps_ok X clock sg root i (token # tokens) (time # stamps) \<longleftrightarrow>
     stamp_ok X clock sg root i token time \<and> stamps_ok X clock sg root (Suc i) tokens stamps"
| "stamps_ok X clock sg root i _ _ \<longleftrightarrow> False"

lemma stamps_ok_length: "stamps_ok X clock sg root i tokens stamps \<Longrightarrow> length stamps = length tokens"
  by (induction X clock sg root i tokens stamps rule: stamps_ok.induct) auto

lemma stamps_ok_Cons:
  "stamps_ok X clock sg root i (token # tokens) stamps \<longleftrightarrow>
     (\<exists>time stamps'. stamps = time # stamps' \<and> stamp_ok X clock sg root i token time
        \<and> stamps_ok X clock sg root (Suc i) tokens stamps')"
  by (cases stamps) auto

lemma stamps_ok_ex_Cons:
  "(\<exists>stamps. stamps_ok X clock sg root i (token # tokens) stamps \<and> Q stamps) \<longleftrightarrow>
     (\<exists>t stamps. stamp_ok X clock sg root i token t \<and> stamps_ok X clock sg root (Suc i) tokens stamps \<and> Q (t # stamps))"
  by (auto simp: stamps_ok_Cons)

lemma tsa_loop_Inr:
  "tsa_loop X clock sg root i e any tokens = Inr (r, a) \<longleftrightarrow>
     (\<exists>stamps. stamps_ok X clock sg root i tokens stamps \<and> r = keep_least e (map (ts_as_second X) stamps)
        \<and> a = (any \<or> tokens \<noteq> []))"
proof (induction tokens arbitrary: i e any)
  case Nil
  have "stamps_ok X clock sg root i [] stamps \<longleftrightarrow> stamps = []" for stamps by (cases stamps) auto
  then show ?case by auto
next
  case (Cons token tokens)
  show ?case
    unfolding stamps_ok_ex_Cons by (auto simp: result_simps Cons.IH Let_def stamp_ok_def)
qed

lemma extract_tsa_timestamp_Inr:
  "extract_tsa_timestamp X clock b sg root = Inr r \<longleftrightarrow>
     (let tokens = rfc3161_timestamps (b_material b) in
      if tokens = [] then r = None
      else \<exists>stamps. stamps_ok X clock sg root 0 tokens stamps \<and> r = Some (Min (ts_as_second X ` set stamps)))"
proof (cases "rfc3161_timestamps (b_material b) = []")
  case False
  define tokens where "tokens = rfc3161_timestamps (b_material b)"
  with False have ne: "tokens \<noteq> []" by simp
  let ?loop = "tsa_loop X clock sg root 0 None False tokens"
  have least: "keep_least None (map (ts_as_second X) stamps) = Some (Min (ts_as_second X ` set stamps))"
    if "stamps_ok X clock sg root 0 tokens stamps" for stamps
    using stamps_ok_length [OF that] ne by (simp add: keep_least_None) (metis length_0_conv)
  have loop: "?loop = Inr (e, a) \<longleftrightarrow> a \<and> (\<exists>stamps. stamps_ok X clock sg root 0 tokens stamps
      \<and> e = Some (Min (ts_as_second X ` set stamps)))" for e a
    using least ne unfolding tsa_loop_Inr by auto
  have "extract_tsa_timestamp X clock b sg root = Inr r \<longleftrightarrow> ?loop = Inr (r, True)"
    using ne by (cases ?loop) (auto simp: extract_tsa_timestamp_def tokens_def [symmetric] loop)
  with ne show ?thesis by (simp add: loop tokens_def [symmetric])
qed (simp add: extract_tsa_timestamp_def eq_commute)

text \<open>
  The sources of time of a bundle, in order: the timestamps, all of which must verify, and
  without any the entries with a signed entry timestamp.
\<close>

definition signing_time :: "'z pki_externals_scheme \<Rightarrow> clock \<Rightarrow> sigstore_bundle \<Rightarrow> bytes \<Rightarrow> trusted_root \<Rightarrow> int \<Rightarrow> bool" where
  "signing_time X clock b sg root t \<longleftrightarrow>
     (let tokens = rfc3161_timestamps (b_material b);
          entries = filter stamped (tlog_entries (b_material b)) in
      if tokens \<noteq> [] then
        \<exists>stamps. stamps_ok X clock sg root 0 tokens stamps \<and> t = Min (ts_as_second X ` set stamps)
      else entries \<noteq> [] \<and> t = Min (te_integrated_time ` set entries))"

lemma determine_validation_time_Inr:
  "determine_validation_time X clock b sg root = Inr t \<longleftrightarrow> signing_time X clock b sg root t"
proof -
  have v1: "extract_v1_integrated_time_with_promise b =
      (let es = filter stamped (tlog_entries (b_material b)) in
       if es = [] then None else Some (Min (te_integrated_time ` set es)))"
    by (simp add: extract_v1_integrated_time_with_promise_def v1_time_loop_eq keep_least_None Let_def)
  show ?thesis
  proof (cases "rfc3161_timestamps (b_material b) = []")
    case True
    then show ?thesis
      by (auto simp: determine_validation_time_def signing_time_def result_simps extract_tsa_timestamp_Inr v1 Let_def)
  next
    case False
    then show ?thesis
      by (auto simp: determine_validation_time_def signing_time_def result_simps extract_tsa_timestamp_Inr Let_def)
  qed
qed

text \<open>What an accepted certificate and SCT satisfy.\<close>

definition certificate_trusted :: "'z pki_externals_scheme \<Rightarrow> timestamp \<Rightarrow> trusted_root \<Rightarrow> material_content \<Rightarrow> int \<Rightarrow> bool" where
  "certificate_trusted X now root material t \<longleftrightarrow>
     (\<exists>ee intermediates anchors. chain_parts material = Inr (ee, intermediates) \<and> anchors \<noteq> []
        \<and> (\<forall>a \<in> set anchors. \<exists>ca \<in> set (certificate_authorities root). \<exists>c \<in> set (ca_chain ca).
             started X (ca_valid_for ca) now \<and> anchor_from_trusted_cert X c = Inr a)
        \<and> webpki_verify X ID_KP_CODE_SIGNING anchors intermediates ee (word_of_int t) = Inr ())"

definition sct_trusted :: "'z pki_externals_scheme \<Rightarrow> timestamp \<Rightarrow> trusted_root \<Rightarrow> der_certificate \<Rightarrow> der_public_key \<Rightarrow> bool" where
  "sct_trusted X now root cert issuer \<longleftrightarrow>
     (\<exists>c s d data scheme. \<exists>l \<in> set (ctlogs root).
        x509_from_der X cert = Inr c \<and> extract_sct X c issuer = Inr (s, sha256 X issuer)
        \<and> started X (li_valid_for l) now \<and> sct_log_id s = sha256 X (li_raw_bytes l)
        \<and> from_embedded_sct X c s (sha256 X issuer) = Inr d \<and> tls_serialize X d = Inr data
        \<and> sct_scheme (word_cat (sct_hash_alg s) (sct_sig_alg s)) = Some scheme
        \<and> verify_signature X (li_raw_bytes l) data (sct_signature s) scheme = Inr ())"

lemma trust_anchors_of_set: "set (trust_anchors_of X cs) = {a. \<exists>c \<in> set cs. anchor_from_trusted_cert X c = Inr a}"
  by (auto simp: trust_anchors_of_def split: sum.splits)

lemma verify_certificate_chain_Inr:
  assumes "verify_certificate_chain X now material t root = Inr u"
  shows "certificate_trusted X now root material t"
proof -
  from assms obtain ee ints certs where parts: "chain_parts material = Inr (ee, ints)"
    and certs: "fulcio_certs X now root = Inr certs" and ne: "trust_anchors_of X certs \<noteq> []"
    and chain: "webpki_verify X ID_KP_CODE_SIGNING (trust_anchors_of X certs) ints ee (word_of_int t) = Inr ()"
    by (auto simp: verify_certificate_chain_def result_simps Let_def)
  from collect_usable_set [OF certs [unfolded fulcio_certs_def]]
  have "\<forall>a \<in> set (trust_anchors_of X certs). \<exists>ca \<in> set (certificate_authorities root). \<exists>c \<in> set (ca_chain ca).
      started X (ca_valid_for ca) now \<and> anchor_from_trusted_cert X c = Inr a"
    by (auto simp: trust_anchors_of_set)
  with parts ne chain show ?thesis unfolding certificate_trusted_def by blast
qed

lemma extract_sct_hash: "extract_sct X c issuer = Inr (s, h) \<Longrightarrow> h = sha256 X issuer"
  by (auto simp: extract_sct_def result_simps)

lemma sct_verify_Inr:
  assumes "sct_verify X now cert issuer root = Inr u"
  shows "sct_trusted X now root cert issuer"
proof -
  from assms obtain c s h ks id key d where c: "x509_from_der X cert = Inr c" and s: "extract_sct X c issuer = Inr (s, h)"
    and ks: "ctfe_keys_with_ids X now root = Inr ks" and f: "find (\<lambda>(id, _). id = sct_log_id s) ks = Some (id, key)"
    and d: "from_embedded_sct X c s h = Inr d"
    and v: "dsn_verify X d key (word_cat (sct_hash_alg s) (sct_sig_alg s)) (sct_signature s) = Inr ()"
    by (auto simp: sct_verify_def result_simps Let_def split: prod.splits)
  from find_SomeD [OF f] collect_usable_set [OF ks [unfolded ctfe_keys_with_ids_def]]
  obtain l where "l \<in> set (ctlogs root)" "started X (li_valid_for l) now" "sct_log_id s = sha256 X (li_raw_bytes l)"
    "key = li_raw_bytes l" by auto
  moreover from v obtain data scheme where "tls_serialize X d = Inr data"
    "sct_scheme (word_cat (sct_hash_alg s) (sct_sig_alg s)) = Some scheme"
    "verify_signature X key data (sct_signature s) scheme = Inr ()"
    by (auto simp: dsn_verify_def result_simps)
  moreover note extract_sct_hash [OF s]
  ultimately show ?thesis
    using c s d unfolding sct_trusted_def by blast
qed

end
