(* ===== verification/Tlog_Consistency.thy ===== *)
theory Tlog_Consistency
  imports Tlog_Verify
begin

text \<open>
  The crate sigstore-verify, part 2 (src/verify\_impl/rekor.rs, src/verify\_impl/hashedrekord.rs):
  the log entries of a bundle must record what the bundle holds - the digest, the signatures and
  the certificate.
\<close>

subsection \<open>hashedrekord entries (hashedrekord.rs)\<close>

definition parse_entry_body :: "'z rekor_externals_scheme \<Rightarrow> tlog_entry \<Rightarrow> (rekor_body, verify_error) result" where
  "parse_entry_body X entry =
     map_err (\<lambda>e. VVerification (''failed to parse Rekor body: '' @ fmt_rekor_error e))
       (from_base64_json X (to_base64 X (te_body entry)) (te_kind entry) (te_version entry))"

fun compute_artifact_digest :: "'z externals_scheme \<Rightarrow> artifact \<Rightarrow> (sha256_hash, verify_error) result" where
  "compute_artifact_digest X (Bytes b) = Inr (sha256 X b)"
| "compute_artifact_digest X (Digest h) =
     map_err (\<lambda>_. VVerification ''Rekor entry verification requires a 32-byte SHA-256 digest'')
       (sha256_try_from_slice h)"

definition validate_artifact_hash :: "sha256_hash \<Rightarrow> sha256_hash \<Rightarrow> (unit, verify_error) result" where
  "validate_artifact_hash artifact_hash expected_hash =
     ensure (artifact_hash = expected_hash) (VVerification ''artifact hash mismatch for hashedrekord entry'')"

text \<open>The certificate of the bundle's verification material, as three functions read it.\<close>

definition bundle_cert :: "sigstore_bundle \<Rightarrow> der_certificate option" where
  "bundle_cert b =
     (case vm_content (b_material b) of
        X509CertificateChain certificates \<Rightarrow> (case certificates of [] \<Rightarrow> None | c # cs \<Rightarrow> Some c)
      | Certificate cert \<Rightarrow> Some cert
      | PublicKey hint \<Rightarrow> None)"

definition validate_certificate_match :: "'z externals_scheme \<Rightarrow> rekor_body \<Rightarrow> sigstore_bundle
    \<Rightarrow> (unit, verify_error) result" where
  "validate_certificate_match X body b =
     (case bundle_cert b of
        None \<Rightarrow> Inr ()
      | Some cert \<Rightarrow>
          and_then (case body of
              HashedRekordV001 rekord \<Rightarrow>
                map_sum (\<lambda>e. VVerification (fmt_rekor_error e)) Some (pem_to_certificate X (h1_public_key rekord))
            | HashedRekordV002 rekord \<Rightarrow> Inr (h2_certificate rekord)
            | _ \<Rightarrow> Inr None) (\<lambda>rekor_cert_der_opt.
          case rekor_cert_der_opt of
            None \<Rightarrow> Inr ()
          | Some rekor_cert_der \<Rightarrow>
              ensure (cert = rekor_cert_der)
                (VVerification ''certificate in bundle does not match certificate in Rekor entry'')))"

fun rekor_signature :: "rekor_body \<Rightarrow> signature_bytes option" where
  "rekor_signature (HashedRekordV001 rekord) = Some (h1_signature rekord)"
| "rekor_signature (HashedRekordV002 rekord) = Some (h2_signature rekord)"
| "rekor_signature _ = None"

definition validate_signature_match :: "rekor_body \<Rightarrow> sigstore_bundle \<Rightarrow> (unit, verify_error) result" where
  "validate_signature_match body b =
     (case rekor_signature body of
        None \<Rightarrow> Inr ()
      | Some rekor_sig \<Rightarrow>
          (case b_content b of
             MessageSignature ms \<Rightarrow>
               ensure (msg_signature ms = rekor_sig)
                 (VVerification ''signature in bundle does not match signature in Rekor entry'')
           | DsseEnvelope envelope \<Rightarrow>
               (case env_signatures envelope of
                  first_sig # rest \<Rightarrow>
                    ensure (ds_sig first_sig = rekor_sig)
                      (VVerification ''DSSE signature in bundle does not match signature in Rekor entry'')
                | [] \<Rightarrow> Inl (VVerification ''No signatures found in DSSE envelope''))))"

definition validate_integrated_time :: "'z pki_externals_scheme \<Rightarrow> tlog_entry \<Rightarrow> sigstore_bundle
    \<Rightarrow> (unit, verify_error) result" where
  "validate_integrated_time X entry b =
     (case bundle_cert b of
        None \<Rightarrow> Inr ()
      | Some cert_der \<Rightarrow>
          if te_version entry = ''0.0.1'' \<and> te_integrated_time entry \<noteq> 0 then
            and_then (map_err (\<lambda>e. VVerification (''failed to parse certificate for time validation: '' @ e))
              (x509_from_der X cert_der)) (\<lambda>cert.
            let not_before = sint (x_not_before cert); not_after = sint (x_not_after cert);
                integrated_time = te_integrated_time entry in
            ensure (\<not> (integrated_time < not_before \<or> integrated_time > not_after))
              (VVerification (''integrated time '' @ fmt_int integrated_time
                @ '' is outside certificate validity period ('' @ fmt_int not_before @ '' to '' @ fmt_int not_after @ '')'')))
          else Inr ())"

text \<open>The match on the body: the hash it records, in hex or in bytes, must be the one computed.\<close>

definition validate_body_hash :: "'z externals_scheme \<Rightarrow> sha256_hash \<Rightarrow> rekor_body \<Rightarrow> string
    \<Rightarrow> (unit, verify_error) result" where
  "validate_body_hash X hash body version =
     (case body of
         HashedRekordV001 rekord \<Rightarrow>
           and_then (map_err (\<lambda>e. VVerification (''invalid hash in Rekor entry: '' @ fmt_types_error e))
             (sha256_from_hex X (h1_value rekord))) (validate_artifact_hash hash)
       | HashedRekordV002 rekord \<Rightarrow>
           and_then (map_err (\<lambda>e. VVerification (''invalid digest in Rekor entry: '' @ fmt_types_error e))
             (sha256_try_from_slice (h2_digest rekord))) (validate_artifact_hash hash)
       | _ \<Rightarrow> Inl (VVerification (''expected HashedRekord body, got different type for version '' @ version)))"

definition verify_hashedrekord_entry :: "'z pki_externals_scheme \<Rightarrow> tlog_entry \<Rightarrow> sigstore_bundle \<Rightarrow> artifact
    \<Rightarrow> (unit, verify_error) result" where
  "verify_hashedrekord_entry X entry b artifact =
     and_then (parse_entry_body X entry) (\<lambda>body.
     and_then (case b_content b of
         MessageSignature ms \<Rightarrow> compute_artifact_digest X artifact
       | DsseEnvelope envelope \<Rightarrow> Inr (sha256 X (env_pae envelope))) (\<lambda>hash.
     and_then (validate_body_hash X hash body (te_version entry)) (\<lambda>_.
     and_then (validate_certificate_match X body b) (\<lambda>_.
     and_then (validate_signature_match body b) (\<lambda>_.
     validate_integrated_time X entry b)))))"

subsection \<open>dsse and intoto entries (rekor.rs)\<close>

text \<open>Whether one of the entry's signatures is that of the envelope, made with the certificate.\<close>

fun sig_in_rekor :: "'z externals_scheme \<Rightarrow> der_certificate option \<Rightarrow> signature_bytes \<Rightarrow> dsse_v001_signature list
    \<Rightarrow> (bool, verify_error) result" where
  "sig_in_rekor X cert_opt sg [] = Inr False"
| "sig_in_rekor X cert_opt sg (rekor_sig # rekor_sigs) =
     (if sg \<noteq> d1_signature rekor_sig then sig_in_rekor X cert_opt sg rekor_sigs
      else
        (case cert_opt of
           Some cert \<Rightarrow>
             and_then (map_err (\<lambda>e. VVerification (fmt_rekor_error e)) (pem_to_certificate X (d1_verifier rekor_sig)))
               (\<lambda>rekor_cert_der. if cert = rekor_cert_der then Inr True else sig_in_rekor X cert_opt sg rekor_sigs)
         | None \<Rightarrow> Inr True))"

definition verify_dsse_v001 :: "'z rekor_externals_scheme \<Rightarrow> tlog_entry \<Rightarrow> dsse_envelope \<Rightarrow> sigstore_bundle
    \<Rightarrow> (unit, verify_error) result" where
  "verify_dsse_v001 X entry envelope b =
     and_then (parse_entry_body X entry) (\<lambda>body.
     and_then (case body of
         DsseV001 d \<Rightarrow> Inr (d1_payload_hash d, d1_signatures d)
       | _ \<Rightarrow> Inl (VVerification ''expected DSSE v0.0.1 body, got different type'')) (\<lambda>(expected_hash, rekor_signatures).
     let payload_hash_hex = hex_encode X (sha256 X (payload envelope)) in
     and_then (ensure (payload_hash_hex = expected_hash)
       (VVerification (''DSSE payload hash mismatch: computed '' @ payload_hash_hex @ '', expected '' @ expected_hash))) (\<lambda>_.
     and_then (ensure (length (env_signatures envelope) = length rekor_signatures)
       (VVerification (''DSSE signature count mismatch: bundle has '' @ fmt_nat (length (env_signatures envelope))
          @ '', Rekor entry has '' @ fmt_nat (length rekor_signatures)))) (\<lambda>_.
     try_each (\<lambda>bundle_sig.
       and_then (sig_in_rekor X (bundle_cert b) (ds_sig bundle_sig) rekor_signatures) (\<lambda>found.
       ensure found (VVerification (''DSSE signature in bundle does not match any signature in Rekor entry '' @
         ''(signature or verifier mismatch)'')))) (env_signatures envelope)))))"

fun intoto_inner :: "'z externals_scheme \<Rightarrow> signature_bytes \<Rightarrow> signature_bytes list \<Rightarrow> (bool, verify_error) result" where
  "intoto_inner X sg [] = Inr False"
| "intoto_inner X sg (rekor_sig # rekor_sigs) =
     and_then (map_err (\<lambda>e. VVerification (''failed to decode Rekor signature: '' @ e))
       (b64_decode X (of_bytes rekor_sig))) (\<lambda>decoded.
     if sg = decoded then Inr True else intoto_inner X sg rekor_sigs)"

fun intoto_outer :: "'z externals_scheme \<Rightarrow> signature_bytes list \<Rightarrow> dsse_signature list \<Rightarrow> (bool, verify_error) result" where
  "intoto_outer X rekor_sigs [] = Inr False"
| "intoto_outer X rekor_sigs (bundle_sig # bundle_sigs) =
     and_then (intoto_inner X (ds_sig bundle_sig) rekor_sigs) (\<lambda>found_match.
     if found_match then Inr True else intoto_outer X rekor_sigs bundle_sigs)"

definition verify_intoto_v002 :: "'z rekor_externals_scheme \<Rightarrow> tlog_entry \<Rightarrow> dsse_envelope \<Rightarrow> (unit, verify_error) result" where
  "verify_intoto_v002 X entry envelope =
     and_then (parse_entry_body X entry) (\<lambda>body.
     and_then (case body of
         IntotoV002 r \<Rightarrow> Inr (it_payload r, it_signatures r)
       | _ \<Rightarrow> Inl (VVerification ''expected Intoto v0.0.2 body, got different type'')) (\<lambda>(rekor_payload_b64, rekor_signatures).
     and_then (map_err (\<lambda>e. VVerification (''failed to decode Rekor payload: '' @ e))
       (b64_decode X (of_bytes rekor_payload_b64))) (\<lambda>rekor_payload_bytes.
     and_then (ensure (payload envelope = rekor_payload_bytes)
       (VVerification ''DSSE payload in bundle does not match intoto Rekor entry'')) (\<lambda>_.
     and_then (intoto_outer X rekor_signatures (env_signatures envelope)) (\<lambda>found_match.
     ensure found_match (VVerification ''DSSE signature in bundle does not match intoto Rekor entry''))))))"

definition consistent_dsse :: "'z pki_externals_scheme \<Rightarrow> sigstore_bundle \<Rightarrow> artifact \<Rightarrow> dsse_envelope \<Rightarrow> tlog_entry
    \<Rightarrow> (unit, verify_error) result" where
  "consistent_dsse X b artifact envelope entry =
    (let kind = te_kind entry; version = te_version entry in
     if kind = ''hashedrekord'' then
       (if version = ''0.0.2'' then verify_hashedrekord_entry X entry b artifact
        else Inl (VVerification (''unsupported hashedrekord entry version for DSSE envelope: '' @ version)))
     else if kind = ''dsse'' then
       (if version = ''0.0.1'' then verify_dsse_v001 X entry envelope b
        else Inl (VVerification (''unsupported dsse entry version: '' @ version)))
     else if kind = ''intoto'' then
       (if version = ''0.0.2'' then verify_intoto_v002 X entry envelope
        else Inl (VVerification (''unsupported intoto entry version: '' @ version)))
     else Inl (VVerification (''unsupported log entry kind for DSSE envelope: '' @ kind)))"

definition consistent_message :: "'z pki_externals_scheme \<Rightarrow> sigstore_bundle \<Rightarrow> artifact \<Rightarrow> tlog_entry
    \<Rightarrow> (unit, verify_error) result" where
  "consistent_message X b artifact entry =
    (let kind = te_kind entry; version = te_version entry in
     if kind = ''hashedrekord'' then
       (if version = ''0.0.1'' \<or> version = ''0.0.2'' then verify_hashedrekord_entry X entry b artifact
        else Inl (VVerification (''unsupported hashedrekord entry version: '' @ version)))
     else Inl (VVerification (''unsupported log entry kind for MessageSignature: '' @ kind)))"

definition verify_tlog_consistency :: "'z pki_externals_scheme \<Rightarrow> sigstore_bundle \<Rightarrow> artifact \<Rightarrow> (unit, verify_error) result" where
  "verify_tlog_consistency X b artifact =
     try_each (\<lambda>entry.
       case b_content b of
         DsseEnvelope envelope \<Rightarrow> consistent_dsse X b artifact envelope entry
       | MessageSignature ms \<Rightarrow> consistent_message X b artifact entry) (tlog_entries (b_material b))"

subsection \<open>What a consistent entry records\<close>

fun rekor_digest :: "'z externals_scheme \<Rightarrow> rekor_body \<Rightarrow> sha256_hash option" where
  "rekor_digest X (HashedRekordV001 r) = (case sha256_from_hex X (h1_value r) of Inr d \<Rightarrow> Some d | Inl _ \<Rightarrow> None)"
| "rekor_digest X (HashedRekordV002 r) = (if length (h2_digest r) = 32 then Some (h2_digest r) else None)"
| "rekor_digest X _ = None"

fun rekor_certificate :: "'z externals_scheme \<Rightarrow> rekor_body \<Rightarrow> der_certificate option" where
  "rekor_certificate X (HashedRekordV001 r) = (case pem_to_certificate X (h1_public_key r) of Inr c \<Rightarrow> Some c | Inl _ \<Rightarrow> None)"
| "rekor_certificate X (HashedRekordV002 r) = h2_certificate r"
| "rekor_certificate X _ = None"

definition same_certificate :: "'z externals_scheme \<Rightarrow> rekor_body \<Rightarrow> sigstore_bundle \<Rightarrow> bool" where
  "same_certificate X body b \<longleftrightarrow>
     (case (bundle_cert b, rekor_certificate X body) of (Some c, Some c') \<Rightarrow> c = c' | _ \<Rightarrow> True)"

definition first_signature :: "sigstore_bundle \<Rightarrow> signature_bytes option" where
  "first_signature b =
     (case b_content b of
        MessageSignature ms \<Rightarrow> Some (msg_signature ms)
      | DsseEnvelope env \<Rightarrow> (case env_signatures env of [] \<Rightarrow> None | s # ss \<Rightarrow> Some (ds_sig s)))"

definition signed_digest :: "'z externals_scheme \<Rightarrow> sigstore_bundle \<Rightarrow> artifact \<Rightarrow> sha256_hash" where
  "signed_digest X b artifact =
     (case b_content b of
        MessageSignature ms \<Rightarrow> (case artifact of Bytes d \<Rightarrow> sha256 X d | Digest h \<Rightarrow> h)
      | DsseEnvelope env \<Rightarrow> sha256 X (env_pae env))"

text \<open>A hashedrekord entry records the digest of what is signed, the signature and the certificate.\<close>

definition hashedrekord_records :: "'z externals_scheme \<Rightarrow> sigstore_bundle \<Rightarrow> artifact \<Rightarrow> rekor_body \<Rightarrow> bool" where
  "hashedrekord_records X b artifact body \<longleftrightarrow>
     rekor_digest X body = Some (signed_digest X b artifact)
     \<and> rekor_signature body \<noteq> None \<and> rekor_signature body = first_signature b \<and> same_certificate X body b"

text \<open>A dsse entry records the payload and every signature; an intoto entry the payload and one of them.\<close>

definition dsse_records :: "'z externals_scheme \<Rightarrow> sigstore_bundle \<Rightarrow> dsse_envelope \<Rightarrow> dsse_v001 \<Rightarrow> bool" where
  "dsse_records X b env d \<longleftrightarrow>
     d1_payload_hash d = hex_encode X (sha256 X (payload env))
     \<and> length (env_signatures env) = length (d1_signatures d)
     \<and> (\<forall>s \<in> set (env_signatures env). \<exists>r \<in> set (d1_signatures d). d1_signature r = ds_sig s
          \<and> (case bundle_cert b of None \<Rightarrow> True | Some c \<Rightarrow> pem_to_certificate X (d1_verifier r) = Inr c))"

definition intoto_records :: "'z externals_scheme \<Rightarrow> dsse_envelope \<Rightarrow> intoto_v002 \<Rightarrow> bool" where
  "intoto_records X env r \<longleftrightarrow>
     b64_decode X (of_bytes (it_payload r)) = Inr (payload env)
     \<and> (\<exists>s \<in> set (env_signatures env). \<exists>sg \<in> set (it_signatures r). b64_decode X (of_bytes sg) = Inr (ds_sig s))"

definition entry_records :: "'z rekor_externals_scheme \<Rightarrow> sigstore_bundle \<Rightarrow> artifact \<Rightarrow> tlog_entry \<Rightarrow> bool" where
  "entry_records X b artifact e \<longleftrightarrow>
     (\<exists>body. parse_entry_body X e = Inr body \<and>
        (case (b_content b, body) of
           (DsseEnvelope env, DsseV001 d) \<Rightarrow> dsse_records X b env d
         | (DsseEnvelope env, IntotoV002 r) \<Rightarrow> intoto_records X env r
         | _ \<Rightarrow> hashedrekord_records X b artifact body))"

subsection \<open>Lemmas\<close>

lemma validate_signature_match_Inr:
  "validate_signature_match body b = Inr u \<longleftrightarrow>
     rekor_signature body = None \<or> rekor_signature body = first_signature b"
  by (auto simp: validate_signature_match_def first_signature_def ensure_def
      split: option.splits signature_content.splits list.splits)

lemma validate_certificate_match_Inr:
  "validate_certificate_match X body b = Inr u \<Longrightarrow> same_certificate X body b"
  by (cases body; cases "bundle_cert b")
    (auto simp: validate_certificate_match_def same_certificate_def result_simps ensure_def
      split: option.splits sum.splits if_splits)

lemma compute_artifact_digest_Inr:
  "compute_artifact_digest X a = Inr h \<longleftrightarrow>
     (case a of Bytes d \<Rightarrow> h = sha256 X d | Digest d \<Rightarrow> length d = 32 \<and> h = d)"
  by (cases a) (auto simp: result_simps sha256_try_from_slice_def)

lemma verify_hashedrekord_entry_Inr:
  assumes "verify_hashedrekord_entry X e b artifact = Inr u"
  shows "\<exists>body. parse_entry_body X e = Inr body \<and> hashedrekord_records X b artifact body"
proof -
  from assms obtain body hash where body: "parse_entry_body X e = Inr body"
    and hash: "(case b_content b of MessageSignature ms \<Rightarrow> compute_artifact_digest X artifact
       | DsseEnvelope envelope \<Rightarrow> Inr (sha256 X (env_pae envelope))) = Inr hash"
    and check: "validate_body_hash X hash body (te_version e) = Inr ()"
    and cert: "validate_certificate_match X body b = Inr ()" and sig: "validate_signature_match body b = Inr ()"
    by (auto simp: verify_hashedrekord_entry_def result_simps)
  from hash have h: "hash = signed_digest X b artifact"
    by (auto simp: signed_digest_def compute_artifact_digest_Inr split: signature_content.splits artifact.splits)
  from check have "rekor_digest X body = Some hash \<and> rekor_signature body \<noteq> None"
    by (cases body) (auto simp: validate_body_hash_def result_simps validate_artifact_hash_def sha256_try_from_slice_def)
  with body h sig validate_certificate_match_Inr [OF cert] show ?thesis
    by (auto simp: hashedrekord_records_def validate_signature_match_Inr)
qed

lemma Inr_bool: "(\<exists>x. r = Inr x \<and> x) \<longleftrightarrow> r = Inr True"
  by (cases r) auto

lemma sig_in_rekor_True:
  "sig_in_rekor X co sg rs = Inr True \<Longrightarrow> \<exists>r \<in> set rs. d1_signature r = sg
     \<and> (case co of None \<Rightarrow> True | Some c \<Rightarrow> pem_to_certificate X (d1_verifier r) = Inr c)"
  by (induction X co sg rs rule: sig_in_rekor.induct)
    (auto simp: result_simps split: if_splits option.splits)

lemma verify_dsse_v001_Inr:
  assumes "verify_dsse_v001 X e env b = Inr u"
  shows "\<exists>d. parse_entry_body X e = Inr (DsseV001 d) \<and> dsse_records X b env d"
proof -
  from assms obtain body where body: "parse_entry_body X e = Inr body"
    by (auto simp: verify_dsse_v001_def result_simps)
  with assms show ?thesis
    by (cases body)
      (auto simp: verify_dsse_v001_def dsse_records_def result_simps Inr_bool Let_def dest!: sig_in_rekor_True)
qed

lemma intoto_inner_True:
  "intoto_inner X sg rs = Inr True \<Longrightarrow> \<exists>r \<in> set rs. b64_decode X (of_bytes r) = Inr sg"
  by (induction rs) (auto simp: result_simps split: if_splits)

lemma intoto_outer_True:
  "intoto_outer X rs ss = Inr True \<Longrightarrow> \<exists>s \<in> set ss. \<exists>r \<in> set rs. b64_decode X (of_bytes r) = Inr (ds_sig s)"
  by (induction ss) (auto simp: result_simps split: if_splits dest: intoto_inner_True)

lemma verify_intoto_v002_Inr:
  assumes "verify_intoto_v002 X e env = Inr u"
  shows "\<exists>r. parse_entry_body X e = Inr (IntotoV002 r) \<and> intoto_records X env r"
proof -
  from assms obtain body where body: "parse_entry_body X e = Inr body"
    by (auto simp: verify_intoto_v002_def result_simps)
  with assms show ?thesis
    by (cases body)
      (auto simp: verify_intoto_v002_def intoto_records_def result_simps Inr_bool dest!: intoto_outer_True)
qed

lemma hashedrekord_body: "hashedrekord_records X b a body \<Longrightarrow>
    (\<exists>r. body = HashedRekordV001 r) \<or> (\<exists>r. body = HashedRekordV002 r)"
  by (cases body) (auto simp: hashedrekord_records_def)

lemma consistent_entry_records:
  assumes "(case b_content b of DsseEnvelope envelope \<Rightarrow> consistent_dsse X b artifact envelope e
     | MessageSignature ms \<Rightarrow> consistent_message X b artifact e) = Inr u"
  shows "entry_records X b artifact e"
proof (cases "b_content b")
  case (MessageSignature ms)
  with assms have "verify_hashedrekord_entry X e b artifact = Inr u"
    unfolding consistent_message_def Let_def by (simp split: if_splits)
  then show ?thesis using MessageSignature by (auto dest!: verify_hashedrekord_entry_Inr simp: entry_records_def)
next
  case (DsseEnvelope env)
  with assms consider "verify_hashedrekord_entry X e b artifact = Inr u" | "verify_dsse_v001 X e env b = Inr u"
    | "verify_intoto_v002 X e env = Inr u"
    unfolding consistent_dsse_def Let_def by (auto split: if_splits)
  then show ?thesis
  proof cases
    case 1
    with DsseEnvelope show ?thesis
      by (auto dest!: verify_hashedrekord_entry_Inr dest: hashedrekord_body simp: entry_records_def
          split: rekor_body.split)
  qed (use DsseEnvelope in \<open>auto dest!: verify_dsse_v001_Inr verify_intoto_v002_Inr simp: entry_records_def\<close>)
qed

lemma verify_tlog_consistency_Inr:
  "verify_tlog_consistency X b artifact = Inr u \<Longrightarrow> \<forall>e \<in> set (tlog_entries (b_material b)). entry_records X b artifact e"
  by (auto simp: verify_tlog_consistency_def result_simps intro: consistent_entry_records)

end
