(* ===== verification/Verifier.thy ===== *)
theory Verifier
  imports Verify_Helpers Tlog_Consistency
begin

text \<open>
  The crate sigstore-verify, part 5 (src/verify.rs): policies, the verification of an artifact
  against a bundle with a certificate (\<open>Verifier::verify\<close> and \<open>verify\<close>), and against a bundle with
  a key (\<open>verify_with_key\<close>).  A \<open>Verifier\<close> holds the trusted root and nothing else, and is that
  argument here.
\<close>

subsection \<open>Policies\<close>

definition DEFAULT_CLOCK_SKEW_SECONDS :: int where
  "DEFAULT_CLOCK_SKEW_SECONDS = 60"

record verification_policy =
  p_identity :: "string option"
  p_issuer :: "string option"
  p_verify_tlog :: bool
  p_verify_timestamp :: bool
  p_verify_certificate :: bool
  p_verify_sct :: bool
  p_clock_skew_seconds :: int

definition default_policy :: verification_policy where
  "default_policy =
     \<lparr>p_identity = None, p_issuer = None, p_verify_tlog = True, p_verify_timestamp = True,
      p_verify_certificate = True, p_verify_sct = True, p_clock_skew_seconds = DEFAULT_CLOCK_SKEW_SECONDS\<rparr>"

definition policy_with_identity :: "string \<Rightarrow> verification_policy" where
  "policy_with_identity identity = default_policy\<lparr>p_identity := Some identity\<rparr>"

definition policy_with_issuer :: "string \<Rightarrow> verification_policy" where
  "policy_with_issuer issuer = default_policy\<lparr>p_issuer := Some issuer\<rparr>"

definition require_identity :: "verification_policy \<Rightarrow> string \<Rightarrow> verification_policy" where
  "require_identity p identity = p\<lparr>p_identity := Some identity\<rparr>"

definition require_issuer :: "verification_policy \<Rightarrow> string \<Rightarrow> verification_policy" where
  "require_issuer p issuer = p\<lparr>p_issuer := Some issuer\<rparr>"

definition skip_tlog :: "verification_policy \<Rightarrow> verification_policy" where
  "skip_tlog p = p\<lparr>p_verify_tlog := False\<rparr>"

definition skip_timestamp :: "verification_policy \<Rightarrow> verification_policy" where
  "skip_timestamp p = p\<lparr>p_verify_timestamp := False\<rparr>"

definition skip_certificate_chain :: "verification_policy \<Rightarrow> verification_policy" where
  "skip_certificate_chain p = p\<lparr>p_verify_certificate := False, p_verify_sct := False\<rparr>"

definition skip_sct :: "verification_policy \<Rightarrow> verification_policy" where
  "skip_sct p = p\<lparr>p_verify_sct := False\<rparr>"

definition with_clock_skew_seconds :: "verification_policy \<Rightarrow> int \<Rightarrow> verification_policy" where
  "with_clock_skew_seconds p seconds = p\<lparr>p_clock_skew_seconds := seconds\<rparr>"

record verification_result =
  r_success :: bool
  r_identity :: "string option"
  r_issuer :: "string option"
  r_integrated_time :: "int option"
  r_warnings :: "string list"

definition result_success :: verification_result where
  "result_success = \<lparr>r_success = True, r_identity = None, r_issuer = None, r_integrated_time = None, r_warnings = []\<rparr>"

definition result_failure :: verification_result where
  "result_failure = \<lparr>r_success = False, r_identity = None, r_issuer = None, r_integrated_time = None, r_warnings = []\<rparr>"

subsection \<open>The artifact and its signature\<close>

fun compute_artifact_digest_algo :: "'z externals_scheme \<Rightarrow> artifact \<Rightarrow> hash_algorithm \<Rightarrow> (bytes, verify_error) result" where
  "compute_artifact_digest_algo X (Bytes b) algo =
     (case algo of
        Sha2256 \<Rightarrow> Inr (sha256 X b)
      | Sha2384 \<Rightarrow> Inr (sha384 X b)
      | Sha2512 \<Rightarrow> Inr (sha512 X b))"
| "compute_artifact_digest_algo X (Digest h) algo =
     (let expected_len = digest_size algo in
      if length h \<noteq> expected_len then
        Inl (VVerification (''expected digest length '' @ fmt_nat expected_len @ '' for '' @ debug_hash_algorithm algo
          @ '', got '' @ fmt_nat (length h)))
      else Inr h)"

definition verify_dsse_artifact_binding :: "'z pki_externals_scheme \<Rightarrow> dsse_envelope \<Rightarrow> artifact
    \<Rightarrow> (unit, verify_error) result" where
  "verify_dsse_artifact_binding X envelope artifact =
     and_then (ensure (payload_type envelope = ''application/vnd.in-toto+json'')
       (VVerification (''unsupported DSSE payload type '' @ debug_str (payload_type envelope)
          @ '': cannot bind artifact to attestation''))) (\<lambda>_.
     and_then (compute_artifact_digest_algo X artifact Sha2256) (\<lambda>artifact_hash.
     and_then (map_err (\<lambda>_. VVerification ''invalid SHA-256 hash length'') (sha256_try_from_slice artifact_hash)) (\<lambda>hash.
     let artifact_hash_hex = hex_encode X hash in
     and_then (map_err (\<lambda>e. VVerification (''payload is not valid UTF-8: '' @ e)) (from_utf8 X (payload envelope))) (\<lambda>payload_str.
     and_then (map_err (\<lambda>e. VVerification (''failed to parse in-toto statement: '' @ e)) (de_statement X payload_str)) (\<lambda>st.
     and_then (ensure (st_subject st \<noteq> [])
       (VVerification ''in-toto statement has no subjects: cannot bind artifact to attestation'')) (\<lambda>_.
     ensure (matches_sha256 st artifact_hash_hex)
       (VVerification ''artifact hash does not match any subject in attestation'')))))))"

definition verify_signature_over_artifact :: "'z externals_scheme \<Rightarrow> der_public_key \<Rightarrow> signing_scheme \<Rightarrow> signature_bytes
    \<Rightarrow> artifact \<Rightarrow> (unit, verify_error) result" where
  "verify_signature_over_artifact X public_key scheme signature artifact =
     and_then (case artifact of
         Bytes b \<Rightarrow> Inr (verify_signature X public_key b signature scheme)
       | Digest h \<Rightarrow>
           if \<not> supports_prehashed scheme then
             Inl (VVerification (''cannot verify signature with digest-only - scheme '' @ scheme_name scheme
               @ '' does not support prehashed mode''))
           else Inr (verify_signature_prehashed X public_key h signature scheme)) (\<lambda>result.
     map_err (\<lambda>e. VVerification (''signature verification failed: '' @ fmt_crypto_error e)) result)"

definition verify_message_signature_crypto :: "'z externals_scheme \<Rightarrow> certificate_info \<Rightarrow> message_signature \<Rightarrow> artifact
    \<Rightarrow> (unit, verify_error) result" where
  "verify_message_signature_crypto X cert_info ms artifact =
     and_then (case msg_digest ms of
         Some digest \<Rightarrow> map_err VCrypto (resolve_signing_scheme (ci_key_algorithm cert_info) (md_algorithm digest))
       | None \<Rightarrow> Inr (default_signing_scheme (ci_key_algorithm cert_info))) (\<lambda>scheme.
     verify_signature_over_artifact X (ci_public_key cert_info) scheme (msg_signature ms) artifact)"

text \<open>The digest a message signature declares, and the signatures of an envelope over its encoding.\<close>

definition check_message_digest :: "'z externals_scheme \<Rightarrow> message_signature \<Rightarrow> artifact \<Rightarrow> (unit, verify_error) result" where
  "check_message_digest X ms artifact =
     (case msg_digest ms of
        Some digest \<Rightarrow>
          and_then (compute_artifact_digest_algo X artifact (md_algorithm digest)) (\<lambda>artifact_hash.
          ensure (md_digest digest = artifact_hash)
            (VVerification ''message digest in bundle does not match artifact hash''))
      | None \<Rightarrow> Inr ())"

definition check_dsse_signatures :: "'z externals_scheme \<Rightarrow> der_public_key \<Rightarrow> signing_scheme \<Rightarrow> dsse_envelope
    \<Rightarrow> (unit, verify_error) result" where
  "check_dsse_signatures X public_key scheme envelope =
    (let payload_bytes = decode_payload envelope;
         encoded = pae (payload_type envelope) payload_bytes;
         any_sig_valid = list_ex (\<lambda>sig. is_ok (verify_signature X public_key encoded (ds_sig sig) scheme))
           (env_signatures envelope) in
     ensure any_sig_valid (VVerification ''DSSE signature verification failed: no valid signatures found''))"

subsection \<open>Verification with a certificate\<close>

text \<open>Step (3), for the identity and for the issuer; the texts differ in two places.\<close>

definition check_expected :: "string \<Rightarrow> string \<Rightarrow> string option \<Rightarrow> string option \<Rightarrow> (unit, verify_error) result" where
  "check_expected what field wanted found =
     (case wanted of
        None \<Rightarrow> Inr ()
      | Some e \<Rightarrow>
          (case found of
             Some a \<Rightarrow>
               if a = e then Inr ()
               else Inl (VVerification (what @ '' mismatch: expected '' @ e @ '', got '' @ a))
           | None \<Rightarrow> Inl (VVerification (''certificate is missing '' @ what @ '' ('' @ field
               @ ''), but policy requires: '' @ e))))"

definition verifier_verify :: "'z pki_externals_scheme \<Rightarrow> clock \<Rightarrow> trusted_root \<Rightarrow> artifact \<Rightarrow> sigstore_bundle
    \<Rightarrow> verification_policy \<Rightarrow> (verification_result, verify_error) result" where
  "verifier_verify X clock root artifact b policy =
    (let options = \<lparr>require_inclusion_proof = p_verify_tlog policy, require_timestamp = False\<rparr>;
         material = vm_content (b_material b) in
     and_then (map_err (\<lambda>e. VVerification (''bundle validation failed: '' @ fmt_bundle_error e))
       (validate_bundle_with_options X b options)) (\<lambda>_.
     and_then (extract_certificate material) (\<lambda>cert.
     and_then (map_err (\<lambda>e. VVerification (''failed to parse certificate: '' @ fmt_crypto_error e))
       (parse_certificate_info X cert)) (\<lambda>cert_info.
     let result = result_success\<lparr>r_identity := ci_identity cert_info, r_issuer := ci_issuer cert_info\<rparr> in
     and_then (extract_signature (b_content b)) (\<lambda>signature.
     and_then (determine_validation_time X clock b signature root) (\<lambda>validation_time.
     and_then (if p_verify_certificate policy then
         and_then (verify_certificate_chain X (clock FulcioChain) material validation_time root) (\<lambda>_.
         validate_certificate_time validation_time cert_info)
       else Inr ()) (\<lambda>_.
     and_then (if p_verify_sct policy then verify_sct_of X (clock FulcioIssuer) (clock CtKeys) material root
       else Inr ()) (\<lambda>_.
     and_then (check_expected ''identity'' ''SAN'' (p_identity policy) (r_identity result)) (\<lambda>_.
     and_then (check_expected ''issuer'' ''Fulcio OID extension'' (p_issuer policy) (r_issuer result)) (\<lambda>_.
     and_then (if p_verify_tlog policy then
         and_then (verify_tlog_entries X clock b root (ci_not_before cert_info) (ci_not_after cert_info)
           (p_clock_skew_seconds policy)) (\<lambda>integrated_time.
         Inr (case integrated_time of Some time \<Rightarrow> result\<lparr>r_integrated_time := Some time\<rparr> | None \<Rightarrow> result))
       else Inr result) (\<lambda>result.
     and_then (case b_content b of
         DsseEnvelope envelope \<Rightarrow>
           and_then (check_dsse_signatures X (ci_public_key cert_info)
             (default_signing_scheme (ci_key_algorithm cert_info)) envelope) (\<lambda>_.
           verify_dsse_artifact_binding X envelope artifact)
       | MessageSignature ms \<Rightarrow>
           and_then (check_message_digest X ms artifact) (\<lambda>_.
           verify_message_signature_crypto X cert_info ms artifact)) (\<lambda>_.
     and_then (if p_verify_tlog policy then verify_tlog_consistency X b artifact else Inr ()) (\<lambda>_.
     Inr result)))))))))))))"

definition verify :: "'z pki_externals_scheme \<Rightarrow> clock \<Rightarrow> artifact \<Rightarrow> sigstore_bundle \<Rightarrow> verification_policy \<Rightarrow> trusted_root
    \<Rightarrow> (verification_result, verify_error) result" where
  "verify X clock artifact b policy root = verifier_verify X clock root artifact b policy"

subsection \<open>Verification with a key\<close>

definition scheme_of_key :: "'z externals_scheme \<Rightarrow> der_public_key \<Rightarrow> (signing_scheme, verify_error) result" where
  "scheme_of_key X public_key =
     (case detect_key_type X public_key of
        KtEd25519 \<Rightarrow> Inr Ed25519
      | KtEcdsaP256 \<Rightarrow> Inr EcdsaP256Sha256
      | KtUnknown \<Rightarrow> Inl (VVerification ''unsupported or unrecognized public key type''))"

text \<open>The loop over the entries; \<open>i\<close> is the number of the entry.\<close>

fun key_tlog_loop :: "'z externals_scheme \<Rightarrow> clock \<Rightarrow> trusted_root \<Rightarrow> nat \<Rightarrow> tlog_entry list \<Rightarrow> (unit, verify_error) result" where
  "key_tlog_loop X clock root i [] = Inr ()"
| "key_tlog_loop X clock root i (entry # entries) =
     and_then (verify_entry_inclusion X (clock (RekorKeys i)) (clock (LogKey i)) entry root) (\<lambda>_.
     key_tlog_loop X clock root (Suc i) entries)"

definition verify_with_key :: "'z pki_externals_scheme \<Rightarrow> clock \<Rightarrow> artifact \<Rightarrow> sigstore_bundle \<Rightarrow> der_public_key \<Rightarrow> trusted_root
    \<Rightarrow> (verification_result, verify_error) result" where
  "verify_with_key X clock artifact b public_key root =
    (let options = \<lparr>require_inclusion_proof = True, require_timestamp = False\<rparr> in
     and_then (map_err (\<lambda>e. VVerification (''bundle validation failed: '' @ fmt_bundle_error e))
       (validate_bundle_with_options X b options)) (\<lambda>_.
     and_then (scheme_of_key X public_key) (\<lambda>signing_scheme.
     and_then (key_tlog_loop X clock root 0 (tlog_entries (b_material b))) (\<lambda>_.
     and_then (case b_content b of
         MessageSignature ms \<Rightarrow>
           and_then (check_message_digest X ms artifact) (\<lambda>_.
           verify_signature_over_artifact X public_key signing_scheme (msg_signature ms) artifact)
       | DsseEnvelope envelope \<Rightarrow>
           and_then (check_dsse_signatures X public_key signing_scheme envelope) (\<lambda>_.
           verify_dsse_artifact_binding X envelope artifact)) (\<lambda>_.
     and_then (verify_tlog_consistency X b artifact) (\<lambda>_.
     Inr result_success))))))"

end
