(* ===== verification/Verify_Sample.thy ===== *)
theory Verify_Sample
  imports Verifier
begin

text \<open>
  A bundle that the verifier accepts over the functions of Pki_Sample, for the theorems that
  apply a property at an input: the key 6, certified for \<open>me\<close>, signed the artifact 1, 2.  The log
  with key 8 holds the one entry \<open>body\<close>; the authority with key 5 stamped the signature.
\<close>

definition sample_instance :: "bytes \<Rightarrow> log_instance" where
  "sample_instance key =
     \<lparr>li_base_url = [], li_hash_algorithm = Sha2256, li_raw_bytes = key, li_key_details = [],
      li_valid_for = None, li_key_id = ''rekor''\<rparr>"

definition sample_authority :: "bytes list \<Rightarrow> authority" where
  "sample_authority chain =
     \<lparr>ca_organization = None, ca_common_name = None, ca_uri = None, ca_chain = chain, ca_valid_for = None\<rparr>"

definition sample_trust :: trusted_root where
  "sample_trust =
     \<lparr>tr_media_type = [], tlogs = [sample_instance [8]], certificate_authorities = [sample_authority [[4]]],
      ctlogs = [sample_instance [9]], timestamp_authorities = [sample_authority [[5], [4]]]\<rparr>"

text \<open>The root hash of a log with the one entry \<open>body\<close>, and the text of its checkpoint.\<close>

definition sample_root_hash :: bytes where
  "sample_root_hash = fill32 (0 # as_bytes ''body'')"

definition sample_signed_text :: "string \<Rightarrow> string" where
  "sample_signed_text size_str = ''log'' @ [newline] @ size_str @ [newline] @ of_bytes sample_root_hash @ [newline]"

definition sample_envelope :: "string \<Rightarrow> string" where
  "sample_envelope size_str = sample_signed_text size_str @ [newline] @ em_dash @ '' log reko''
     @ of_bytes [8, word_of_nat (length (sample_signed_text size_str))] @ [newline]"

definition sample_entry :: "string \<Rightarrow> tlog_entry" where
  "sample_entry size_str =
     \<lparr>te_log_index = 0, te_log_id = ''rekor'', te_kind = ''hashedrekord'', te_version = ''0.0.2'',
      te_integrated_time = 0, te_promise = None,
      te_proof = Some \<lparr>ip_log_index = 0, ip_root_hash = sample_root_hash, ip_tree_size = 1, ip_hashes = [],
        ip_checkpoint = sample_envelope size_str\<rparr>,
      te_body = as_bytes ''body''\<rparr>"

definition sample_bundle :: sigstore_bundle where
  "sample_bundle =
     \<lparr>b_media_type = media_type_str Bundle0_3,
      b_material = \<lparr>vm_content = Certificate [6], tlog_entries = [sample_entry ''1''], rfc3161_timestamps = [[6, 2]]\<rparr>,
      b_content = MessageSignature \<lparr>msg_digest = Some \<lparr>md_algorithm = Sha2256, md_digest = fill32 [1, 2]\<rparr>,
        msg_signature = [6, 2]\<rparr>\<rparr>"

definition sample_policy :: verification_policy where
  "sample_policy = require_issuer (policy_with_identity ''me'') ''idp''"

abbreviation sample_clock :: clock where
  "sample_clock \<equiv> (\<lambda>site. 100)"

abbreviation sample_info :: certificate_info where
  "sample_info \<equiv> \<lparr>ci_identity = Some ''me'', ci_issuer = Some ''idp'', ci_not_before = 50, ci_not_after = 200,
     ci_public_key = [6], ci_key_algorithm = KaEcdsaP256\<rparr>"

abbreviation sample_message :: message_signature where
  "sample_message \<equiv> \<lparr>msg_digest = Some \<lparr>md_algorithm = Sha2256, md_digest = fill32 [1, 2]\<rparr>, msg_signature = [6, 2]\<rparr>"

abbreviation sample_proof :: "string \<Rightarrow> inclusion_proof" where
  "sample_proof size_str \<equiv> \<lparr>ip_log_index = 0, ip_root_hash = sample_root_hash, ip_tree_size = 1, ip_hashes = [],
     ip_checkpoint = sample_envelope size_str\<rparr>"

subsection \<open>Its checkpoint\<close>

definition sample_sig_line :: string where
  "sample_sig_line = em_dash @ '' log reko'' @ [CHR 0x8, CHR 0x27]"

definition sample_sig_text :: string where
  "sample_sig_text = sample_sig_line @ [newline]"

lemma sample_sizes: "parse_u64 ''1'' = Some 1" "parse_u64 ''7'' = Some 7"
  by (simp_all add: parse_u64_def is_digit_def)

lemma sample_texts_1: "split_blank (sample_envelope ''1'')
     = [butlast (sample_signed_text ''1''), sample_sig_text]"
  by code_simp
lemma sample_texts_2: "split_blank (sample_envelope ''7'')
     = [butlast (sample_signed_text ''7''), sample_sig_text]"
  by code_simp
lemma sample_texts_3: "lines (butlast (sample_signed_text ''1'')) = [''log'', ''1'', of_bytes sample_root_hash]"
  by code_simp
lemma sample_texts_4: "lines (butlast (sample_signed_text ''7'')) = [''log'', ''7'', of_bytes sample_root_hash]"
  by code_simp
lemma sample_texts_5: "butlast (sample_signed_text ''1'') @ [newline] = sample_signed_text ''1''"
  by code_simp
lemma sample_texts_6: "butlast (sample_signed_text ''7'') @ [newline] = sample_signed_text ''7''"
  by code_simp
lemma sample_texts_7: "trim ''log'' = ''log''"
  by code_simp
lemma sample_texts_8: "trim ''1'' = ''1''"
  by code_simp
lemma sample_texts_9: "trim ''7'' = ''7''"
  by code_simp
lemma sample_texts_10: "trim (of_bytes sample_root_hash) = of_bytes sample_root_hash"
  by code_simp
lemma sample_texts_11: "length sample_root_hash = 32"
  by code_simp

lemmas sample_texts = sample_texts_1 sample_texts_2 sample_texts_3 sample_texts_4 sample_texts_5 sample_texts_6 sample_texts_7 sample_texts_8 sample_texts_9 sample_texts_10 sample_texts_11

lemma sample_signature_line_1: "lines sample_sig_text = [sample_sig_line]"
  by code_simp
lemma sample_signature_line_2: "parse_signature_line sample_pki sample_sig_line
    = Inr (Some \<lparr>cs_name = ''log'', cs_key_id = as_bytes ''reko'', cs_signature = [8, 0x27]\<rparr>)"
  by code_simp

lemmas sample_signature_line = sample_signature_line_1 sample_signature_line_2

definition sample_parsed :: "string \<Rightarrow> u64 \<Rightarrow> checkpoint" where
  "sample_parsed size_str n =
     \<lparr>cp_origin = ''log'', cp_tree_size = n, cp_root_hash = sample_root_hash, cp_other_content = [],
      cp_signatures = [\<lparr>cs_name = ''log'', cs_key_id = as_bytes ''reko'', cs_signature = [8, 0x27]\<rparr>],
      signed_note_text = sample_signed_text size_str\<rparr>"

lemma sample_b64: "b64_decode sample_pki s = Inr (as_bytes s)"
  by (simp add: sample_pki_def)

lemma sample_bodies:
  "parse_body sample_pki (butlast (sample_signed_text ''1'')) = Inr (''log'', 1, sample_root_hash, [])"
  "parse_body sample_pki (butlast (sample_signed_text ''7'')) = Inr (''log'', 7, sample_root_hash, [])"
  by (simp_all add: parse_body_def next_line_def sample_texts sample_sizes sha256_try_from_slice_def sample_b64)

lemma sample_envelope_parses:
  "from_text sample_pki (sample_envelope ''1'') = Inr (sample_parsed ''1'' 1)"
  "from_text sample_pki (sample_envelope ''7'') = Inr (sample_parsed ''7'' 7)"
proof -
  have "sample_envelope s \<noteq> []" for s by (simp add: sample_envelope_def sample_signed_text_def)
  then show "from_text sample_pki (sample_envelope ''1'') = Inr (sample_parsed ''1'' 1)"
    "from_text sample_pki (sample_envelope ''7'') = Inr (sample_parsed ''7'' 7)"
    by (simp_all add: from_text_Inr sample_texts sample_signature_line sample_bodies sample_parsed_def)
qed

subsection \<open>The steps of its verification\<close>

lemma sample_loop_1: "checkpoint_loop sample_pki (sample_parsed ''1'' 1) [(as_bytes ''reko'', [8])] (cp_signatures (sample_parsed ''1'' 1)) = Inr ()"
  by code_simp
lemma sample_loop_2: "checkpoint_loop sample_pki (sample_parsed ''7'' 7) [(as_bytes ''reko'', [8])] (cp_signatures (sample_parsed ''7'' 7)) = Inr ()"
  by code_simp
lemma sample_loop_3: "rekor_keys_with_hints sample_pki 100 sample_trust = Inr [(as_bytes ''reko'', [8])]"
  by code_simp

lemmas sample_loop = sample_loop_1 sample_loop_2 sample_loop_3

lemma sample_checkpoint_ok:
  assumes "size_str = ''1'' \<or> size_str = ''7''"
  shows "verify_checkpoint sample_pki 100 (sample_envelope size_str) (sample_proof size_str) sample_trust = Inr ()"
  using assms
proof
  assume "size_str = ''1''"
  then show ?thesis
    using sample_loop by (simp add: verify_checkpoint_def sample_envelope_parses) (simp add: sample_parsed_def)
next
  assume "size_str = ''7''"
  then show ?thesis
    using sample_loop by (simp add: verify_checkpoint_def sample_envelope_parses) (simp add: sample_parsed_def)
qed

lemma sample_inclusion:
  "log_index_as_u64 0 = Some 0" "u64_of_i64 1 = Some 1"
  "verify_inclusion_proof sample_pki h 0 1 [] h = Inr ()"
  "hash_leaf sample_pki (as_bytes ''body'') = sample_root_hash"
  by (simp_all add: log_index_as_u64_def u64_of_i64_def verify_inclusion_proof_def
      expected_inclusion_proof_length_def hash_leaf_def sample_pki_def sample_root_hash_def LEAF_HASH_PREFIX_def)

lemma sample_entry_ok:
  assumes "size_str = ''1'' \<or> size_str = ''7''"
  shows "verify_entry_inclusion sample_pki 100 100 (sample_entry size_str) sample_trust = Inr ()"
  using sample_checkpoint_ok [OF assms]
  by (simp add: verify_entry_inclusion_def verify_merkle_inclusion_def sample_entry_def sample_inclusion)

lemma sample_valid:
  "validate_bundle_with_options sample_pki sample_bundle \<lparr>require_inclusion_proof = True, require_timestamp = False\<rparr> = Inr ()"
proof -
  have "validate_proof sample_pki (sample_proof ''1'') = Inr ()"
    by (simp add: validate_proof_def checkpoint_parse_def sample_envelope_parses sample_inclusion sample_parsed_def)
  moreover have "bundle_version sample_bundle = Inr Bundle0_3" by code_simp
  ultimately show ?thesis
    by (simp add: validate_bundle_with_options_def validate_v0_3_def validate_common_def
        validate_inclusion_proof_structure_def has_inclusion_proof_def sample_bundle_def sample_entry_def)
qed

lemma sample_steps_1: "parse_certificate_info sample_pki [6] = Inr sample_info"
  by code_simp
lemma sample_steps_2: "determine_validation_time sample_pki sample_clock sample_bundle [6, 2] sample_trust = Inr 100"
  by code_simp
lemma sample_steps_3: "verify_certificate_chain sample_pki 100 (Certificate [6]) 100 sample_trust = Inr ()"
  by code_simp
lemma sample_steps_4: "validate_certificate_time 100 sample_info = Inr ()"
  by code_simp
lemma sample_sct_data:
  "tls_serialize sample_pki \<lparr>dsn_type = CertificateTimestamp, dsn_timestamp = 99, dsn_entry = PrecertEntry (fill32 [4]) [6],
     dsn_extensions = [], dsn_log_id = fill32 [9], dsn_signature = [9, 50]\<rparr> = Inr data \<Longrightarrow> length data = 50"
  by (auto simp: tls_serialize_def tls_vec_def fill32_def)

lemma sample_steps_5: "verify_sct_of sample_pki 100 100 (Certificate [6]) sample_trust = Inr ()"
proof -
  let ?d = "\<lparr>dsn_type = CertificateTimestamp, dsn_timestamp = 99, dsn_entry = PrecertEntry (fill32 [4]) [6],
     dsn_extensions = [], dsn_log_id = fill32 [9], dsn_signature = [9, 50]\<rparr>"
  have steps: "extract_certificate (Certificate [6]) = Inr [6]"
    "get_issuer_spki sample_pki 100 (Certificate [6]) [6] sample_trust = Inr [4]"
    "x509_from_der sample_pki [6] = Inr (sample_certificate [6])"
    "extract_sct sample_pki (sample_certificate [6]) [4] = Inr (sample_sct, fill32 [4])"
    "ctfe_keys_with_ids sample_pki 100 sample_trust = Inr [(fill32 [9], [9])]"
    "from_embedded_sct sample_pki (sample_certificate [6]) sample_sct (fill32 [4]) = Inr ?d"
    "sct_scheme (word_cat (sct_hash_alg sample_sct) (sct_sig_alg sample_sct)) = Some EcdsaP256Sha256"
    "sct_log_id sample_sct = fill32 [9]" "sct_signature sample_sct = [9, 50]"
    by code_simp+
  obtain data where data: "tls_serialize sample_pki ?d = Inr data"
    by (simp add: tls_serialize_def tls_vec_def)
  have "verify_signature sample_pki [9] data [9, 50] EcdsaP256Sha256 = Inr ()"
    using sample_sct_data [OF data] by (simp add: verify_signature_def from_spki_def vk_verify_def sample_pki_def)
  with data show ?thesis
    by (simp add: verify_sct_of_def sct_verify_def steps dsn_verify_def)
qed
lemma sample_steps_6: "check_expected ''identity'' ''SAN'' (p_identity sample_policy) (Some ''me'') = Inr ()"
  by code_simp
lemma sample_steps_7: "check_expected ''issuer'' ''Fulcio OID extension'' (p_issuer sample_policy) (Some ''idp'') = Inr ()"
  by code_simp
lemma sample_steps_8: "check_message_digest sample_pki sample_message (Bytes [1, 2]) = Inr ()"
  by code_simp
lemma sample_steps_9: "verify_message_signature_crypto sample_pki sample_info sample_message (Bytes [1, 2]) = Inr ()"
  by code_simp
lemma sample_steps_10: "verify_tlog_consistency sample_pki sample_bundle (Bytes [1, 2]) = Inr ()"
  by code_simp

lemmas sample_steps = sample_steps_1 sample_steps_2 sample_steps_3 sample_steps_4 sample_steps_5 sample_steps_6 sample_steps_7 sample_steps_8 sample_steps_9 sample_steps_10

lemma sample_tlog:
  "verify_tlog_entries sample_pki sample_clock sample_bundle sample_trust 50 200 60 = Inr None"
  using sample_entry_ok [of "''1''"]
  by (simp add: verify_tlog_entries_def sample_bundle_def sample_entry_def)

definition sample_result :: verification_result where
  "sample_result = result_success\<lparr>r_identity := Some ''me'', r_issuer := Some ''idp''\<rparr>"

lemma sample_accepted:
  "verifier_verify sample_pki sample_clock sample_trust (Bytes [1, 2]) sample_bundle sample_policy = Inr sample_result"
proof -
  have fields: "vm_content (b_material sample_bundle) = Certificate [6]" "b_content sample_bundle = MessageSignature sample_message"
    "p_verify_tlog sample_policy" "p_verify_sct sample_policy" "p_verify_certificate sample_policy"
    "p_clock_skew_seconds sample_policy = 60"
    by (simp_all add: sample_bundle_def sample_policy_def policy_with_identity_def require_issuer_def default_policy_def
        DEFAULT_CLOCK_SKEW_SECONDS_def)
  show ?thesis
    by (simp add: verifier_verify_def Let_def fields sample_valid extract_certificate_def extract_signature_def
        sample_steps sample_tlog sample_result_def result_success_def)
qed

end
