(* ===== verification/Verify_Correct.thy ===== *)
theory Verify_Correct
  imports Verify_Sample Merkle_Correct
begin

text \<open>
  What an accepted bundle guarantees: the theorems on \<open>Verifier::verify\<close> and \<open>verify_with_key\<close>,
  over the lemmas of the theories that model their steps.
\<close>

subsection \<open>The steps of an accepting run\<close>

definition check_content :: "'z pki_externals_scheme \<Rightarrow> certificate_info \<Rightarrow> sigstore_bundle \<Rightarrow> artifact \<Rightarrow> (unit, verify_error) result" where
  "check_content X ci b artifact =
     (case b_content b of
         DsseEnvelope envelope \<Rightarrow>
           and_then (check_dsse_signatures X (ci_public_key ci)
             (default_signing_scheme (ci_key_algorithm ci)) envelope) (\<lambda>_.
           verify_dsse_artifact_binding X envelope artifact)
       | MessageSignature ms \<Rightarrow>
           and_then (check_message_digest X ms artifact) (\<lambda>_.
           verify_message_signature_crypto X ci ms artifact))"

lemma if_check_Inr: "(if c then r else Inr ()) = Inr u \<longleftrightarrow> (c \<longrightarrow> r = Inr ())"
  by auto

lemma if_result_Inr: "(if c then r else Inr x) = Inr y \<longleftrightarrow> (if c then r = Inr y else y = x)"
  by auto

lemma verifier_verify_Inr:
  assumes "verifier_verify X clock root artifact b p = Inr r"
  obtains cert ci sg t where
    "validate_bundle_with_options X b \<lparr>require_inclusion_proof = p_verify_tlog p, require_timestamp = False\<rparr> = Inr ()"
    "extract_certificate (vm_content (b_material b)) = Inr cert" "parse_certificate_info X cert = Inr ci"
    "extract_signature (b_content b) = Inr sg" "determine_validation_time X clock b sg root = Inr t"
    "p_verify_certificate p \<longrightarrow> verify_certificate_chain X (clock FulcioChain) (vm_content (b_material b)) t root = Inr ()
       \<and> validate_certificate_time t ci = Inr ()"
    "p_verify_sct p \<longrightarrow> verify_sct_of X (clock FulcioIssuer) (clock CtKeys) (vm_content (b_material b)) root = Inr ()"
    "check_expected ''identity'' ''SAN'' (p_identity p) (ci_identity ci) = Inr ()"
    "check_expected ''issuer'' ''Fulcio OID extension'' (p_issuer p) (ci_issuer ci) = Inr ()"
    "p_verify_tlog p \<longrightarrow> (\<exists>it. verify_tlog_entries X clock b root (ci_not_before ci) (ci_not_after ci)
       (p_clock_skew_seconds p) = Inr it \<and> r_integrated_time r = it)"
    "check_content X ci b artifact = Inr ()"
    "p_verify_tlog p \<longrightarrow> verify_tlog_consistency X b artifact = Inr ()"
    "r_success r" "r_identity r = ci_identity ci" "r_issuer r = ci_issuer ci"
proof -
  have fold: "(case b_content b of
         DsseEnvelope envelope \<Rightarrow>
           and_then (check_dsse_signatures X (ci_public_key ci)
             (default_signing_scheme (ci_key_algorithm ci)) envelope) (\<lambda>_.
           verify_dsse_artifact_binding X envelope artifact)
       | MessageSignature ms \<Rightarrow>
           and_then (check_message_digest X ms artifact) (\<lambda>_.
           verify_message_signature_crypto X ci ms artifact)) = check_content X ci b artifact" for ci
    by (simp add: check_content_def)
  let ?res = "\<lambda>ci. result_success\<lparr>r_identity := ci_identity ci, r_issuer := ci_issuer ci\<rparr>"
  from assms obtain u1 cert ci sg t u2 u3 u4 u5 res u6 u7 where
    "validate_bundle_with_options X b \<lparr>require_inclusion_proof = p_verify_tlog p, require_timestamp = False\<rparr> = Inr u1"
    "extract_certificate (vm_content (b_material b)) = Inr cert" "parse_certificate_info X cert = Inr ci"
    "extract_signature (b_content b) = Inr sg" "determine_validation_time X clock b sg root = Inr t"
    and steps: "(if p_verify_certificate p then
         and_then (verify_certificate_chain X (clock FulcioChain) (vm_content (b_material b)) t root) (\<lambda>_.
         validate_certificate_time t ci) else Inr ()) = Inr u2"
    "(if p_verify_sct p then verify_sct_of X (clock FulcioIssuer) (clock CtKeys) (vm_content (b_material b)) root
       else Inr ()) = Inr u3"
    and "check_expected ''identity'' ''SAN'' (p_identity p) (r_identity (?res ci)) = Inr u4"
    "check_expected ''issuer'' ''Fulcio OID extension'' (p_issuer p) (r_issuer (?res ci)) = Inr u5"
    and res: "(if p_verify_tlog p then
         and_then (verify_tlog_entries X clock b root (ci_not_before ci) (ci_not_after ci) (p_clock_skew_seconds p))
           (\<lambda>integrated_time.
         Inr (case integrated_time of Some time \<Rightarrow> (?res ci)\<lparr>r_integrated_time := Some time\<rparr> | None \<Rightarrow> ?res ci))
       else Inr (?res ci)) = Inr res"
    and "check_content X ci b artifact = Inr u6"
    "(if p_verify_tlog p then verify_tlog_consistency X b artifact else Inr ()) = Inr u7" and r: "r = res"
    unfolding verifier_verify_def Let_def fold and_then_Inr_iff map_err_Inr_iff sum.inject
    by (elim exE conjE) (rule that, (assumption | rule sym, assumption)+)
  moreover from res r have "r_success r" "r_identity r = ci_identity ci" "r_issuer r = ci_issuer ci"
    "p_verify_tlog p \<longrightarrow> (\<exists>it. verify_tlog_entries X clock b root (ci_not_before ci) (ci_not_after ci)
       (p_clock_skew_seconds p) = Inr it \<and> r_integrated_time r = it)"
    by (auto simp: and_then_Inr_iff result_success_def split: if_splits option.splits)
  ultimately show ?thesis
    by (intro that [of cert ci sg t]) (simp_all add: if_check_Inr and_then_Inr_iff result_success_def)
qed

subsection \<open>The signature over the artifact\<close>

text \<open>
  A signature over the bytes of an artifact, or over its digest when only that is given, by a
  key with one of the schemes \<open>S\<close>; and what ties a bundle to an artifact.
\<close>

definition signature_valid :: "'z externals_scheme \<Rightarrow> der_public_key \<Rightarrow> signing_scheme set \<Rightarrow> signature_bytes
    \<Rightarrow> artifact \<Rightarrow> bool" where
  "signature_valid X key S sg artifact \<longleftrightarrow>
     (\<exists>scheme \<in> S. \<exists>raw. spki_key_bits X key = Inr raw \<and>
        (case artifact of
           Bytes d \<Rightarrow> aws_verify X (fst (verify_arm scheme)) raw d sg
         | Digest h \<Rightarrow> (\<exists>dalg alg. prehashed_algs scheme = Some (dalg, alg) \<and> length h = output_len dalg
             \<and> aws_verify_digest X alg dalg raw h sg)))"

definition artifact_sha256 :: "'z externals_scheme \<Rightarrow> artifact \<Rightarrow> bytes" where
  "artifact_sha256 X artifact = (case artifact of Bytes d \<Rightarrow> sha256 X d | Digest h \<Rightarrow> h)"

definition statement_names :: "'z pki_externals_scheme \<Rightarrow> dsse_envelope \<Rightarrow> artifact \<Rightarrow> bool" where
  "statement_names X env artifact \<longleftrightarrow>
     payload_type env = ''application/vnd.in-toto+json'' \<and> length (artifact_sha256 X artifact) = 32
     \<and> (\<exists>st sub. de_statement X (of_bytes (payload env)) = Inr st \<and> sub \<in> set (st_subject st)
          \<and> dg_sha256 (subj_digest sub) = Some (hex_encode X (artifact_sha256 X artifact)))"

definition artifact_signed :: "'z pki_externals_scheme \<Rightarrow> der_public_key \<Rightarrow> signing_scheme set \<Rightarrow> sigstore_bundle
    \<Rightarrow> artifact \<Rightarrow> bool" where
  "artifact_signed X key S b artifact \<longleftrightarrow>
     (case b_content b of
        MessageSignature ms \<Rightarrow> signature_valid X key S (msg_signature ms) artifact
          \<and> (case msg_digest ms of None \<Rightarrow> True
             | Some d \<Rightarrow> compute_artifact_digest_algo X artifact (md_algorithm d) = Inr (md_digest d))
      | DsseEnvelope env \<Rightarrow>
          (\<exists>s \<in> set (env_signatures env). signature_valid X key S (ds_sig s) (Bytes (env_pae env)))
          \<and> statement_names X env artifact)"

definition schemes_of :: "key_algorithm \<Rightarrow> signing_scheme set" where
  "schemes_of ka = insert (default_signing_scheme ka) {s. \<exists>h. resolve_signing_scheme ka h = Inr s}"

lemma verify_signature_Inr:
  "verify_signature X key data sg scheme = Inr u \<longleftrightarrow>
     (\<exists>raw. spki_key_bits X key = Inr raw \<and> aws_verify X (fst (verify_arm scheme)) raw data sg)"
  by (auto simp: verify_signature_def result_simps)

lemma verify_signature_over_artifact_Inr:
  assumes "verify_signature_over_artifact X key scheme sg artifact = Inr u" "scheme \<in> S"
  shows "signature_valid X key S sg artifact"
proof (cases artifact)
  case (Bytes d)
  with assms show ?thesis
    by (auto simp: verify_signature_over_artifact_def signature_valid_def verify_signature_Inr result_simps)
next
  case (Digest h)
  with assms have "verify_signature_prehashed X key h sg scheme = Inr ()"
    by (auto simp: verify_signature_over_artifact_def result_simps)
  with assms Digest show ?thesis
    by (auto simp: verify_signature_prehashed_def signature_valid_def result_simps intro!: bexI [of _ scheme])
qed

lemma check_message_digest_Inr:
  "check_message_digest X ms artifact = Inr u \<longleftrightarrow>
     (case msg_digest ms of None \<Rightarrow> True
      | Some d \<Rightarrow> compute_artifact_digest_algo X artifact (md_algorithm d) = Inr (md_digest d))"
  by (auto simp: check_message_digest_def result_simps split: option.splits)

lemma check_dsse_signatures_Inr:
  assumes "check_dsse_signatures X key scheme env = Inr u" "scheme \<in> S"
  shows "\<exists>s \<in> set (env_signatures env). signature_valid X key S (ds_sig s) (Bytes (env_pae env))"
  using assms
  by (auto simp: check_dsse_signatures_def Let_def result_simps list_ex_iff is_ok_iff verify_signature_Inr
      signature_valid_def env_pae_def decode_payload_def)

lemma compute_sha256_Inr:
  "compute_artifact_digest_algo X artifact Sha2256 = Inr h \<Longrightarrow> h = artifact_sha256 X artifact"
  by (cases artifact) (auto simp: artifact_sha256_def Let_def split: if_splits)

lemma verify_dsse_artifact_binding_Inr:
  assumes "verify_dsse_artifact_binding X env artifact = Inr u"
  shows "statement_names X env artifact"
proof -
  define ptype where "ptype = ''application/vnd.in-toto+json''"
  note fold = ptype_def [symmetric]
  from assms obtain h hash js st where "payload_type env = ptype"
    and h: "compute_artifact_digest_algo X artifact Sha2256 = Inr h" "sha256_try_from_slice h = Inr hash"
    and js: "from_utf8 X (payload env) = Inr js" and st: "de_statement X js = Inr st" "matches_sha256 st (hex_encode X hash)"
    unfolding verify_dsse_artifact_binding_def Let_def fold by (auto simp: result_simps)
  moreover from h have "hash = artifact_sha256 X artifact" "length hash = 32"
    by (auto dest: compute_sha256_Inr simp: sha256_try_from_slice_def split: if_splits)
  moreover from js have "js = of_bytes (payload env)" by (simp add: result_simps)
  ultimately show ?thesis
    unfolding statement_names_def fold matches_sha256_iff by blast
qed

lemma check_content_Inr:
  assumes "check_content X ci b artifact = Inr u"
  shows "artifact_signed X (ci_public_key ci) (schemes_of (ci_key_algorithm ci)) b artifact"
proof (cases "b_content b")
  case (MessageSignature ms)
  with assms have d: "check_message_digest X ms artifact = Inr ()"
    and v: "verify_message_signature_crypto X ci ms artifact = Inr ()"
    by (auto simp: check_content_def result_simps)
  from v obtain scheme where "scheme \<in> schemes_of (ci_key_algorithm ci)"
    "verify_signature_over_artifact X (ci_public_key ci) scheme (msg_signature ms) artifact = Inr ()"
    by (cases "msg_digest ms") (auto simp: verify_message_signature_crypto_def schemes_of_def result_simps)
  with d MessageSignature show ?thesis
    by (auto simp: artifact_signed_def check_message_digest_Inr intro: verify_signature_over_artifact_Inr)
next
  case (DsseEnvelope env)
  with assms show ?thesis
    by (auto simp: check_content_def artifact_signed_def result_simps schemes_of_def
        intro: check_dsse_signatures_Inr verify_dsse_artifact_binding_Inr)
qed

subsection \<open>Properties of an accepted bundle\<close>

text \<open>C1: whatever the policy skips, an accepted bundle is a signature over the artifact.  The key of the
  bundle's certificate verifies, with a scheme of its algorithm, the message signature over the
  artifact (its bytes or, if only that is given, its digest), whose declared digest is the
  artifact's; or one of the envelope's signatures over the encoding of its payload, an in-toto
  statement that names the artifact's SHA-256 digest.\<close>

theorem accepted_artifact_signed:
  assumes "verifier_verify X clock root artifact b policy = Inr r"
  shows "\<exists>cert ci. extract_certificate (vm_content (b_material b)) = Inr cert
     \<and> parse_certificate_info X cert = Inr ci
     \<and> artifact_signed X (ci_public_key ci) (schemes_of (ci_key_algorithm ci)) b artifact"
  using assms by (elim verifier_verify_Inr) (blast intro: check_content_Inr)

theorem accepted_artifact_signed_witness:
  "artifact_signed sample_pki [6] (schemes_of KaEcdsaP256) sample_bundle (Bytes [1, 2])"
  using accepted_artifact_signed [OF sample_accepted]
  by (auto simp: sample_bundle_def extract_certificate_def sample_steps(1))

lemma check_expected_Inr: "check_expected what field e a = Inr u \<longleftrightarrow> e = None \<or> a = e"
  by (auto simp: check_expected_def split: option.splits)

lemma validate_certificate_time_Inr:
  "validate_certificate_time t ci = Inr u \<longleftrightarrow> ci_not_before ci \<le> t \<and> t \<le> ci_not_after ci"
  by (auto simp: validate_certificate_time_def result_simps)

lemma verify_sct_of_Inr:
  assumes "verify_sct_of X now1 now2 material root = Inr u" "extract_certificate material = Inr cert"
  shows "\<exists>issuer. get_issuer_spki X now1 material cert root = Inr issuer \<and> sct_trusted X now2 root cert issuer"
  using assms by (auto simp: verify_sct_of_def result_simps intro: sct_verify_Inr)

lemma identity_trusted:
  assumes "verifier_verify X clock root artifact b policy = Inr r"
  shows "\<exists>cert ci sg t. extract_certificate (vm_content (b_material b)) = Inr cert
     \<and> parse_certificate_info X cert = Inr ci \<and> extract_signature (b_content b) = Inr sg
     \<and> signing_time X clock b sg root t
     \<and> r_success r \<and> r_identity r = ci_identity ci \<and> r_issuer r = ci_issuer ci
     \<and> (p_identity policy = None \<or> p_identity policy = ci_identity ci)
     \<and> (p_issuer policy = None \<or> p_issuer policy = ci_issuer ci)
     \<and> (p_verify_certificate policy \<longrightarrow> ci_not_before ci \<le> t \<and> t \<le> ci_not_after ci
          \<and> certificate_trusted X (clock FulcioChain) root (vm_content (b_material b)) t)
     \<and> (p_verify_sct policy \<longrightarrow> (\<exists>issuer. get_issuer_spki X (clock FulcioIssuer) (vm_content (b_material b)) cert root
          = Inr issuer \<and> sct_trusted X (clock CtKeys) root cert issuer))"
  using assms
proof (rule verifier_verify_Inr)
  fix cert ci sg t
  assume cert: "extract_certificate (vm_content (b_material b)) = Inr cert"
    and chain: "p_verify_certificate policy \<longrightarrow> verify_certificate_chain X (clock FulcioChain) (vm_content (b_material b)) t root = Inr ()
       \<and> validate_certificate_time t ci = Inr ()"
    and sct: "p_verify_sct policy \<longrightarrow> verify_sct_of X (clock FulcioIssuer) (clock CtKeys) (vm_content (b_material b)) root = Inr ()"
    and id: "check_expected ''identity'' ''SAN'' (p_identity policy) (ci_identity ci) = Inr ()"
      "check_expected ''issuer'' ''Fulcio OID extension'' (p_issuer policy) (ci_issuer ci) = Inr ()"
    and rest: "parse_certificate_info X cert = Inr ci" "extract_signature (b_content b) = Inr sg"
      "determine_validation_time X clock b sg root = Inr t"
      "r_success r" "r_identity r = ci_identity ci" "r_issuer r = ci_issuer ci"
  from id have "(p_identity policy = None \<or> p_identity policy = ci_identity ci)
     \<and> (p_issuer policy = None \<or> p_issuer policy = ci_issuer ci)" by (auto simp: check_expected_Inr)
  moreover from chain have "p_verify_certificate policy \<longrightarrow> ci_not_before ci \<le> t \<and> t \<le> ci_not_after ci
          \<and> certificate_trusted X (clock FulcioChain) root (vm_content (b_material b)) t"
    by (auto simp: validate_certificate_time_Inr intro: verify_certificate_chain_Inr)
  moreover from sct verify_sct_of_Inr [OF _ cert] have "p_verify_sct policy \<longrightarrow>
      (\<exists>issuer. get_issuer_spki X (clock FulcioIssuer) (vm_content (b_material b)) cert root = Inr issuer
         \<and> sct_trusted X (clock CtKeys) root cert issuer)" by blast
  ultimately show ?thesis
    using cert rest by (auto simp: determine_validation_time_Inr)
qed

text \<open>C2: the signer of an accepted bundle is who the policy names.  The identity and issuer reported are
  those of the certificate and the ones required; unless the policy skips it, webpki chained the
  certificate, for code signing and at the signing time, to authorities of the trusted root that
  had started, the signing time is within its validity, and its SCT is signed by a log of the
  trusted root that had started.\<close>

theorem accepted_identity_trusted:
  assumes "verifier_verify X clock root artifact b policy = Inr r"
  shows "\<exists>cert ci sg t. extract_certificate (vm_content (b_material b)) = Inr cert
     \<and> parse_certificate_info X cert = Inr ci \<and> extract_signature (b_content b) = Inr sg
     \<and> signing_time X clock b sg root t
     \<and> r_success r \<and> r_identity r = ci_identity ci \<and> r_issuer r = ci_issuer ci
     \<and> (p_identity policy = None \<or> p_identity policy = ci_identity ci)
     \<and> (p_issuer policy = None \<or> p_issuer policy = ci_issuer ci)
     \<and> (p_verify_certificate policy \<longrightarrow> ci_not_before ci \<le> t \<and> t \<le> ci_not_after ci
          \<and> certificate_trusted X (clock FulcioChain) root (vm_content (b_material b)) t)
     \<and> (p_verify_sct policy \<longrightarrow> (\<exists>issuer. get_issuer_spki X (clock FulcioIssuer) (vm_content (b_material b)) cert root
          = Inr issuer \<and> sct_trusted X (clock CtKeys) root cert issuer))"
  using assms by (rule identity_trusted)

theorem accepted_identity_trusted_witness:
  "r_identity sample_result = Some ''me'' \<and> certificate_trusted sample_pki 100 sample_trust (Certificate [6]) 100"
proof -
  have t: "signing_time sample_pki sample_clock sample_bundle [6, 2] sample_trust t \<longleftrightarrow> t = 100" for t
    using sample_steps(2) by (simp flip: determine_validation_time_Inr)
  have fields: "vm_content (b_material sample_bundle) = Certificate [6]" "b_content sample_bundle = MessageSignature sample_message"
    "p_verify_certificate sample_policy"
    by (simp_all add: sample_bundle_def sample_policy_def policy_with_identity_def require_issuer_def default_policy_def)
  from accepted_identity_trusted [OF sample_accepted] show ?thesis
    by (auto simp: fields extract_certificate_def extract_signature_def t sample_steps(1))
qed

lemma entries_logged:
  assumes "verifier_verify X clock root artifact b policy = Inr r" "p_verify_tlog policy"
    and "i < length (tlog_entries (b_material b))" "e = tlog_entries (b_material b) ! i"
  shows "evidence_trusted X (clock (RekorKeys i)) (clock (LogKey i)) root e \<and> entry_records X b artifact e
     \<and> (\<exists>cert ci. extract_certificate (vm_content (b_material b)) = Inr cert \<and> parse_certificate_info X cert = Inr ci
          \<and> (te_integrated_time e > 0 \<longrightarrow> ci_not_before ci \<le> te_integrated_time e
               \<and> te_integrated_time e \<le> ci_not_after ci
               \<and> te_integrated_time e \<le> wrap_i64 (ts_as_second X (clock (EntryNow i)) + p_clock_skew_seconds policy)))"
  using assms(1)
proof (rule verifier_verify_Inr)
  fix cert ci
  assume cert: "extract_certificate (vm_content (b_material b)) = Inr cert" "parse_certificate_info X cert = Inr ci"
    and tlog: "p_verify_tlog policy \<longrightarrow> (\<exists>it. verify_tlog_entries X clock b root (ci_not_before ci) (ci_not_after ci)
       (p_clock_skew_seconds policy) = Inr it \<and> r_integrated_time r = it)"
    and "p_verify_tlog policy \<longrightarrow> verify_tlog_consistency X b artifact = Inr ()"
  with assms have "entry_records X b artifact e" by (auto dest!: verify_tlog_consistency_Inr)
  moreover from tlog assms(2) obtain it where
    "tlog_loop X clock root (ci_not_before ci) (ci_not_after ci) (p_clock_skew_seconds policy) 0 None
       (tlog_entries (b_material b)) = Inr it" by (auto simp: verify_tlog_entries_def)
  from tlog_loop_Inr [OF this assms(3)] assms(4) cert show ?thesis
    using \<open>entry_records X b artifact e\<close> by auto
qed

text \<open>
  At least one entry is in a trusted log: in a bundle of version 0.1 one with a signed entry timestamp
  that its log signed, in any other version one with an inclusion proof that leads to a root hash in a
  checkpoint a log signed.
\<close>

definition some_entry_logged :: "'z externals_scheme \<Rightarrow> clock \<Rightarrow> trusted_root \<Rightarrow> sigstore_bundle \<Rightarrow> bool" where
  "some_entry_logged X clock root b \<longleftrightarrow>
     (let es = tlog_entries (b_material b) in
      if media_type_from_str (b_media_type b) = Inr Bundle0_1
      then list_ex (\<lambda>i. case te_promise (es ! i) of
             Some sg \<Rightarrow> set_trusted X (clock (LogKey i)) root (es ! i) sg | None \<Rightarrow> False) [0..<length es]
      else list_ex (\<lambda>i. case te_proof (es ! i) of
             Some p \<Rightarrow> proof_trusted X (clock (RekorKeys i)) root (es ! i) p | None \<Rightarrow> False) [0..<length es])"

lemma some_entry_loggedI:
  assumes "validate_bundle_with_options X b opts = Inr u" "require_inclusion_proof opts"
    and "\<And>i. i < length (tlog_entries (b_material b)) \<Longrightarrow>
      evidence_trusted X (clock (RekorKeys i)) (clock (LogKey i)) root (tlog_entries (b_material b) ! i)"
  shows "some_entry_logged X clock root b"
proof -
  let ?es = "tlog_entries (b_material b)"
  have wf: "bundle_well_formed X b opts" using validate_bundle_ok [of X b opts] assms(1) by (simp add: is_ok_iff)
  show ?thesis
  proof (cases "media_type_from_str (b_media_type b) = Inr Bundle0_1")
    case True
    with wf obtain i where i: "i < length ?es" "te_promise (?es ! i) \<noteq> None"
      by (auto simp: bundle_well_formed_def in_set_conv_nth)
    then obtain sg where "te_promise (?es ! i) = Some sg" by blast
    with assms(3) [OF i(1)] i(1) True show ?thesis
      by (auto simp: some_entry_logged_def evidence_trusted_def list_ex_iff Let_def intro!: bexI [of _ i])
  next
    case False
    with wf assms(2) obtain i where i: "i < length ?es" "te_proof (?es ! i) \<noteq> None"
      by (auto simp: bundle_well_formed_def in_set_conv_nth)
    then obtain p where "te_proof (?es ! i) = Some p" by blast
    with assms(3) [OF i(1)] i(1) False show ?thesis
      by (auto simp: some_entry_logged_def evidence_trusted_def list_ex_iff Let_def intro!: bexI [of _ i])
  qed
qed

lemma accepted_some_logged:
  assumes "verifier_verify X clock root artifact b policy = Inr r" "p_verify_tlog policy"
  shows "some_entry_logged X clock root b"
  using assms(1)
proof (rule verifier_verify_Inr)
  assume "validate_bundle_with_options X b \<lparr>require_inclusion_proof = p_verify_tlog policy, require_timestamp = False\<rparr> = Inr ()"
  then show ?thesis
    by (rule some_entry_loggedI) (use assms(2) entries_logged [OF assms _ refl] in simp_all)
qed

text \<open>C3: unless the policy skips the log, an accepted bundle is logged.  At least one entry is in a trusted
  log: it has an inclusion proof to a root hash in a checkpoint signed by a log of the trusted root, or,
  in a bundle of version 0.1, a signed entry timestamp of its log.  Of every entry the proof and the
  timestamp it carries are verified in this way, its time (if any) lies within the certificate's
  validity and not after the clock plus the tolerance, and its body holds the digest, signatures and
  certificate of the bundle.  An entry that carries neither proof nor timestamp, beside one that does,
  is accepted without a log having it (see the gap below).\<close>

theorem accepted_entries_logged:
  assumes "verifier_verify X clock root artifact b policy = Inr r" "p_verify_tlog policy"
  shows "some_entry_logged X clock root b
     \<and> (\<exists>cert ci. extract_certificate (vm_content (b_material b)) = Inr cert \<and> parse_certificate_info X cert = Inr ci
          \<and> list_all (\<lambda>i. let e = tlog_entries (b_material b) ! i in
               evidence_trusted X (clock (RekorKeys i)) (clock (LogKey i)) root e \<and> entry_records X b artifact e
               \<and> (te_integrated_time e > 0 \<longrightarrow> ci_not_before ci \<le> te_integrated_time e
                    \<and> te_integrated_time e \<le> ci_not_after ci
                    \<and> te_integrated_time e \<le> wrap_i64 (ts_as_second X (clock (EntryNow i)) + p_clock_skew_seconds policy)))
             [0..<length (tlog_entries (b_material b))])"
proof -
  from assms(1) obtain cert ci where "extract_certificate (vm_content (b_material b)) = Inr cert"
    "parse_certificate_info X cert = Inr ci" by (rule verifier_verify_Inr)
  with entries_logged [OF assms _ refl] accepted_some_logged [OF assms] show ?thesis
    by (fastforce simp: list_all_iff Let_def)
qed

theorem accepted_entries_logged_witness:
  "proof_trusted sample_pki 100 sample_trust (sample_entry ''1'') (sample_proof ''1'')
   \<and> entry_records sample_pki sample_bundle (Bytes [1, 2]) (sample_entry ''1'')"
proof -
  have fields: "tlog_entries (b_material sample_bundle) = [sample_entry ''1'']"
    "media_type_from_str (b_media_type sample_bundle) \<noteq> Inr Bundle0_1" "te_proof (sample_entry ''1'') = Some (sample_proof ''1'')"
    by (simp_all add: sample_bundle_def sample_entry_def media_type_from_str_def)
  have p: "p_verify_tlog sample_policy"
    by (simp add: sample_policy_def policy_with_identity_def require_issuer_def default_policy_def)
  from accepted_entries_logged [OF sample_accepted p] show ?thesis
    by (auto simp: some_entry_logged_def fields Let_def)
qed

text \<open>C14: the time of a signature comes from verified timestamps, or else from stamped entries, and nothing
  else.  With timestamps in the bundle all of them must verify and lie in an authority's validity,
  and the time is the earliest; without any it is the earliest integrated time of the version 0.0.1
  entries with a signed entry timestamp, and without such an entry there is no time.\<close>

theorem validation_time_exact:
  "determine_validation_time X clock b sg root = Inr t \<longleftrightarrow>
     (let tokens = rfc3161_timestamps (b_material b);
          entries = filter stamped (tlog_entries (b_material b)) in
      if tokens \<noteq> [] then
        \<exists>stamps. stamps_ok X clock sg root 0 tokens stamps \<and> t = Min (ts_as_second X ` set stamps)
      else entries \<noteq> [] \<and> t = Min (te_integrated_time ` set entries))"
  by (simp add: determine_validation_time_Inr signing_time_def)

lemma key_tlog_loop_Inr:
  "key_tlog_loop X clock root i es = Inr u \<Longrightarrow> j < length es \<Longrightarrow>
     evidence_trusted X (clock (RekorKeys (i + j))) (clock (LogKey (i + j))) root (es ! j)"
proof (induction es arbitrary: i j)
  case (Cons e es)
  from Cons.prems(1) have head: "verify_entry_inclusion X (clock (RekorKeys i)) (clock (LogKey i)) e root = Inr ()"
    and tail: "key_tlog_loop X clock root (Suc i) es = Inr u" by (auto simp: result_simps)
  show ?case
    using verify_entry_inclusion_Inr [OF head] Cons.IH [OF tail] Cons.prems(2) by (cases j) auto
qed simp

lemma verify_with_key_Inr:
  assumes "verify_with_key X clock artifact b key root = Inr r"
  obtains scheme where "scheme_of_key X key = Inr scheme" "r = result_success" "artifact_signed X key {scheme} b artifact"
    "validate_bundle_with_options X b \<lparr>require_inclusion_proof = True, require_timestamp = False\<rparr> = Inr ()"
    "key_tlog_loop X clock root 0 (tlog_entries (b_material b)) = Inr ()" "verify_tlog_consistency X b artifact = Inr ()"
proof -
  from assms obtain scheme where scheme: "scheme_of_key X key = Inr scheme" and r: "r = result_success"
    and valid: "validate_bundle_with_options X b \<lparr>require_inclusion_proof = True, require_timestamp = False\<rparr> = Inr ()"
    and loop: "key_tlog_loop X clock root 0 (tlog_entries (b_material b)) = Inr ()"
    and content: "(case b_content b of
         MessageSignature ms \<Rightarrow>
           and_then (check_message_digest X ms artifact) (\<lambda>_.
           verify_signature_over_artifact X key scheme (msg_signature ms) artifact)
       | DsseEnvelope envelope \<Rightarrow>
           and_then (check_dsse_signatures X key scheme envelope) (\<lambda>_.
           verify_dsse_artifact_binding X envelope artifact)) = Inr ()"
    and cons: "verify_tlog_consistency X b artifact = Inr ()"
    unfolding verify_with_key_def Let_def and_then_Inr_iff map_err_Inr_iff by auto
  have "artifact_signed X key {scheme} b artifact"
    using content
    by (auto simp: artifact_signed_def result_simps check_message_digest_Inr split: signature_content.splits
        intro: verify_signature_over_artifact_Inr check_dsse_signatures_Inr verify_dsse_artifact_binding_Inr)
  with scheme r valid loop cons that show ?thesis by blast
qed

text \<open>C15: verification with a key needs no certificate and is as strict on the rest.  The key given verifies,
  with the one scheme of its type, the signature over the artifact or the attestation naming it; at
  least one entry is in a trusted log; of every entry the proof and the signed entry timestamp it
  carries are verified, and it records the bundle.\<close>

theorem verify_with_key_sound:
  assumes "verify_with_key X clock artifact b key root = Inr r"
  shows "\<exists>scheme. scheme_of_key X key = Inr scheme \<and> artifact_signed X key {scheme} b artifact
     \<and> r = result_success \<and> some_entry_logged X clock root b
     \<and> list_all (\<lambda>i. let e = tlog_entries (b_material b) ! i in
          evidence_trusted X (clock (RekorKeys i)) (clock (LogKey i)) root e \<and> entry_records X b artifact e)
        [0..<length (tlog_entries (b_material b))]"
  using assms
proof (rule verify_with_key_Inr)
  fix scheme
  assume scheme: "scheme_of_key X key = Inr scheme" "r = result_success" "artifact_signed X key {scheme} b artifact"
    and valid: "validate_bundle_with_options X b \<lparr>require_inclusion_proof = True, require_timestamp = False\<rparr> = Inr ()"
    and loop: "key_tlog_loop X clock root 0 (tlog_entries (b_material b)) = Inr ()"
    and cons: "verify_tlog_consistency X b artifact = Inr ()"
  have "some_entry_logged X clock root b"
    by (rule some_entry_loggedI [OF valid]) (use key_tlog_loop_Inr [OF loop] in simp_all)
  with scheme verify_tlog_consistency_Inr [OF cons] key_tlog_loop_Inr [OF loop] show ?thesis
    by (auto simp: list_all_iff Let_def)
qed

lemma sample_key_accepted:
  "verify_with_key sample_pki sample_clock (Bytes [1, 2]) sample_bundle [6] sample_trust = Inr result_success"
proof -
  have fields: "b_content sample_bundle = MessageSignature sample_message"
    "tlog_entries (b_material sample_bundle) = [sample_entry ''1'']" by (simp_all add: sample_bundle_def)
  have steps: "scheme_of_key sample_pki [6] = Inr Ed25519"
    "verify_signature_over_artifact sample_pki [6] Ed25519 [6, 2] (Bytes [1, 2]) = Inr ()" by code_simp+
  show ?thesis
    using sample_entry_ok [of "''1''"]
    by (simp add: verify_with_key_def Let_def fields sample_valid steps sample_steps)
qed

theorem verify_with_key_sound_witness: "artifact_signed sample_pki [6] {Ed25519} sample_bundle (Bytes [1, 2])"
proof -
  have "scheme_of_key sample_pki [6] = Inr scheme \<longleftrightarrow> scheme = Ed25519" for scheme
    by (auto simp: scheme_of_key_def detect_key_type_def sample_pki_def)
  then show ?thesis using verify_with_key_sound [OF sample_key_accepted] by auto
qed

lemma dsse_binding_digest:
  assumes "length (sha256 X d) = 32"
  shows "verify_dsse_artifact_binding X env (Digest (sha256 X d)) = verify_dsse_artifact_binding X env (Bytes d)"
proof -
  have "compute_artifact_digest_algo X (Digest (sha256 X d)) Sha2256 = compute_artifact_digest_algo X (Bytes d) Sha2256"
    using assms by simp
  then show ?thesis by (simp only: verify_dsse_artifact_binding_def)
qed

lemma consistency_dsse_any:
  assumes "b_content b = DsseEnvelope env"
  shows "verify_tlog_consistency X b a = verify_tlog_consistency X b a'"
proof -
  have "verify_hashedrekord_entry X e b a = verify_hashedrekord_entry X e b a'" for e
    by (simp only: verify_hashedrekord_entry_def assms signature_content.case)
  then show ?thesis by (simp only: verify_tlog_consistency_def assms signature_content.case consistent_dsse_def)
qed

text \<open>C25: for attestations, the digest of an artifact stands for its bytes: both verifications give the same
  result, error texts included, whether the bytes or their SHA-256 digest are given.\<close>

theorem attestation_digest_equals_bytes:
  assumes "b_content b = DsseEnvelope env" "length (sha256 X d) = 32"
  shows "verifier_verify X clock root (Digest (sha256 X d)) b policy = verifier_verify X clock root (Bytes d) b policy
     \<and> verify_with_key X clock (Digest (sha256 X d)) b key root = verify_with_key X clock (Bytes d) b key root"
proof -
  note cons = consistency_dsse_any [OF assms(1), of X "Digest (sha256 X d)" "Bytes d"]
  show ?thesis
    by (simp only: verifier_verify_def verify_with_key_def assms(1) signature_content.case
        dsse_binding_digest [OF assms(2)] cons)
qed

definition sample_attestation :: sigstore_bundle where
  "sample_attestation = sample_bundle\<lparr>b_content := DsseEnvelope
     \<lparr>payload_type = ''application/vnd.in-toto+json'', payload = [1], env_signatures = []\<rparr>\<rparr>"

theorem attestation_digest_equals_bytes_witness:
  "verify_with_key sample_pki sample_clock (Digest (fill32 [1])) sample_attestation [7] sample_trust
   = verify_with_key sample_pki sample_clock (Bytes [1]) sample_attestation [7] sample_trust"
proof -
  have "b_content sample_attestation = DsseEnvelope
     \<lparr>payload_type = ''application/vnd.in-toto+json'', payload = [1], env_signatures = []\<rparr>"
    by (simp add: sample_attestation_def)
  moreover have sha: "sha256 sample_pki [1] = fill32 [1]" by (simp add: sample_pki_def)
  moreover have "length (sha256 sample_pki [1]) = 32" unfolding sha by code_simp
  ultimately show ?thesis
    using attestation_digest_equals_bytes [of sample_attestation _ sample_pki "[1]" sample_clock sample_trust _ "[7]"] by metis
qed

text \<open>C24: what cannot be tied to the artifact is refused.  An attestation of a type other than in-toto, and a
  message signature by an Ed25519 key when only the artifact's digest is given, are rejected under every
  policy: verification ends with an error, never with a result.\<close>

theorem unbindable_rejected:
  assumes "(\<exists>env. b_content b = DsseEnvelope env \<and> payload_type env \<noteq> ''application/vnd.in-toto+json'')
     \<or> (\<exists>ms h cert ci. b_content b = MessageSignature ms \<and> artifact = Digest h
          \<and> extract_certificate (vm_content (b_material b)) = Inr cert \<and> parse_certificate_info X cert = Inr ci
          \<and> ci_key_algorithm ci = KaEd25519)"
  shows "\<exists>e. verifier_verify X clock root artifact b policy = Inl e"
proof (cases "verifier_verify X clock root artifact b policy")
  case (Inr r)
  then obtain cert ci where ci: "extract_certificate (vm_content (b_material b)) = Inr cert" "parse_certificate_info X cert = Inr ci"
    and signed: "artifact_signed X (ci_public_key ci) (schemes_of (ci_key_algorithm ci)) b artifact"
    by (rule verifier_verify_Inr) (blast intro: check_content_Inr)
  have "prehashed_algs scheme = None" if "scheme \<in> schemes_of KaEd25519" for scheme
    using that by (auto simp: schemes_of_def)
  with assms ci signed show ?thesis
    by (auto simp: artifact_signed_def statement_names_def signature_valid_def)
qed blast

theorem unbindable_rejected_witness:
  "\<exists>e. verifier_verify sample_pki sample_clock sample_trust (Bytes [1])
     (sample_bundle\<lparr>b_content := DsseEnvelope \<lparr>payload_type = ''text/plain'', payload = [], env_signatures = []\<rparr>\<rparr>)
     sample_policy = Inl e"
  by (rule unbindable_rejected) simp

text \<open>
  No collision among the values hashed: the pairs on the walk of the proof and under the tree hash of
  the log are told apart by the node hash, none of their hashes is the leaf hash of the body or of an
  entry of the log, and the leaf hash tells the body apart from the entries.
\<close>

definition log_without_collisions :: "'z externals_scheme \<Rightarrow> bytes list \<Rightarrow> bytes \<Rightarrow> inclusion_proof \<Rightarrow> bool" where
  "log_without_collisions X log body p \<longleftrightarrow>
     (let H = hash_children X;
          pairs = up_pairs H (nat (ip_log_index p)) (nat (ip_tree_size p) - 1) (hash_leaf X body) (ip_hashes p)
            @ tree_pairs H (map (hash_leaf X) log) in
      collision_free H pairs
      \<and> list_all (\<lambda>(a, b). list_all (\<lambda>d. H a b \<noteq> hash_leaf X d) (body # log)) pairs
      \<and> list_all (\<lambda>d. hash_leaf X d = hash_leaf X body \<longrightarrow> d = body) log)"

text \<open>C4: an accepted entry is in the log.  Let the root hash its checkpoint signs be the tree hash of the
  entries of a log, and let the hashes not collide on the values compared.  Then the body of the entry
  is an entry of the log, whatever index and tree size its proof claims.  The code compares the tree
  size with nothing (see the gap below), so the index is the entry's own only if the size claimed is
  that of the log; then the body is the entry at that index.\<close>

theorem accepted_entry_in_log:
  assumes "verify_entry_inclusion X now1 now2 e root = Inr ()" "te_proof e = Some p"
    and "ip_root_hash p = mth (hash_children X) (map (hash_leaf X) log)" "log \<noteq> []" "length log < 2 ^ 63"
    and "ip_log_index p < 2 ^ 63" "ip_tree_size p < 2 ^ 63"
    and "log_without_collisions X log (te_body e) p"
  shows "te_body e \<in> set log
    \<and> (ip_tree_size p = int (length log) \<longrightarrow>
         nat (ip_log_index p) < length log \<and> te_body e = log ! nat (ip_log_index p))"
proof -
  let ?H = "hash_children X" and ?D = "map (hash_leaf X) log" and ?i = "word_of_int (ip_log_index p) :: u64"
  let ?walk = "up_pairs ?H (nat (ip_log_index p)) (nat (ip_tree_size p) - 1) (hash_leaf X (te_body e)) (ip_hashes p)"
  from verify_entry_inclusion_Inr [OF assms(1)] assms(2) have "proof_trusted X now1 root e p"
    by (simp add: evidence_trusted_def)
  then have nonneg: "0 \<le> ip_log_index p" "0 \<le> ip_tree_size p"
    and v: "verify_inclusion_proof X (hash_leaf X (te_body e)) ?i (word_of_int (ip_tree_size p)) (ip_hashes p)
        (mth ?H ?D) = Inr ()"
    by (simp_all add: proof_trusted_def assms(3))
  have i: "unat ?i = nat (ip_log_index p)" and n: "unat (word_of_int (ip_tree_size p) :: u64) = nat (ip_tree_size p)"
    using nonneg assms(6,7) by (simp_all add: unat_eq_nat_uint uint_word_of_int_eq take_bit_int_eq_self)
  from v have walk: "up ?H (nat (ip_log_index p)) (nat (ip_tree_size p) - 1) (hash_leaf X (te_body e)) (ip_hashes p) = mth ?H ?D"
    by (simp add: verify_inclusion_proof_iff i n)
  have cf: "collision_free ?H (?walk @ tree_pairs ?H ?D)"
    and apart: "\<And>a b d. (a, b) \<in> set (?walk @ tree_pairs ?H ?D) \<Longrightarrow> d \<in> set (te_body e # log) \<Longrightarrow> ?H a b \<noteq> hash_leaf X d"
    and leaf: "\<And>d. d \<in> set log \<Longrightarrow> hash_leaf X d = hash_leaf X (te_body e) \<Longrightarrow> d = te_body e"
    using assms(8) unfolding log_without_collisions_def Let_def list_all_iff by blast+
  have "hash_leaf X (te_body e) \<in> set ?D"
    by (rule up_in_tree [OF walk _ cf]) (use assms(4) apart in auto)
  with leaf have "te_body e \<in> set log" by auto
  moreover have "nat (ip_log_index p) < length log \<and> te_body e = log ! nat (ip_log_index p)"
    if size: "ip_tree_size p = int (length log)"
  proof -
    have "nat (ip_log_index p) < nat (ip_tree_size p)"
      using v by (simp only: verify_inclusion_proof_iff word_less_nat_alt i n)
    then have "nat (ip_log_index p) < length ?D" by (simp add: size)
    then have "collision_free ?H (up_pairs ?H (unat ?i) (length ?D - 1) (hash_leaf X (te_body e)) (ip_hashes p)
        @ up_pairs ?H (unat ?i) (length ?D - 1) (?D ! unat ?i) (audit_path ?H (unat ?i) ?D))"
      using audit_path_pairs [of "nat (ip_log_index p)" ?D ?H]
      by (intro collision_free_mono [OF cf]) (auto simp: i size)
    moreover have "(word_of_int (ip_tree_size p) :: u64) = of_nat (length ?D)" by (simp add: size)
    ultimately have "nat (ip_log_index p) < length log" "hash_leaf X (te_body e) = ?D ! nat (ip_log_index p)"
      using inclusion_proof_sound_aux [of X "hash_leaf X (te_body e)" ?i ?D "ip_hashes p"] v assms(5) by (simp_all add: i)
    then show ?thesis using leaf [of "log ! nat (ip_log_index p)"] by simp
  qed
  ultimately show ?thesis by blast
qed

theorem accepted_entry_in_log_witness:
  "te_body (sample_entry ''1'') \<in> set [as_bytes ''body'']
   \<and> te_body (sample_entry ''1'') = [as_bytes ''body''] ! nat (ip_log_index (sample_proof ''1''))"
proof -
  have proof_of: "te_proof (sample_entry ''1'') = Some (sample_proof ''1'')" "te_body (sample_entry ''1'') = as_bytes ''body''"
    by (simp_all add: sample_entry_def)
  have root: "ip_root_hash (sample_proof ''1'') = mth (hash_children sample_pki) (map (hash_leaf sample_pki) [as_bytes ''body''])"
    by (simp add: sample_inclusion)
  have "log_without_collisions sample_pki [as_bytes ''body''] (te_body (sample_entry ''1'')) (sample_proof ''1'')"
    by (simp add: log_without_collisions_def tree_pairs.simps collision_free_def proof_of)
  from accepted_entry_in_log [OF sample_entry_ok proof_of(1) root _ _ _ _ this] show ?thesis by simp
qed

subsection \<open>Three gaps\<close>

text \<open>
  The tree size a checkpoint signs is not compared with the one of the inclusion proof: a
  checkpoint for seven entries is accepted with a proof for a tree of one.
\<close>

lemma checkpoint_size_unchecked:
  "verify_entry_inclusion sample_pki 100 100 (sample_entry ''7'') sample_trust = Inr ()
   \<and> te_proof (sample_entry ''7'') = Some (sample_proof ''7'') \<and> ip_tree_size (sample_proof ''7'') = 1
   \<and> from_text sample_pki (ip_checkpoint (sample_proof ''7'')) = Inr (sample_parsed ''7'' 7)
   \<and> cp_tree_size (sample_parsed ''7'' 7) = 7"
  using sample_entry_ok [of "''7''"] by (simp add: sample_entry_def sample_envelope_parses sample_parsed_def)

text \<open>
  An inclusion proof is required of some entry, not of every one, and of an entry with neither proof
  nor promise nothing is verified: beside an entry that is proven, one that no log has is accepted.
\<close>

definition unlogged_entry :: tlog_entry where
  "unlogged_entry = (sample_entry ''1'')\<lparr>te_log_index := 9, te_log_id := ''no log'', te_proof := None\<rparr>"

definition unlogged_bundle :: sigstore_bundle where
  "unlogged_bundle = sample_bundle\<lparr>b_material := \<lparr>vm_content = Certificate [6],
     tlog_entries = [sample_entry ''1'', unlogged_entry], rfc3161_timestamps = [[6, 2]]\<rparr>\<rparr>"

lemma unlogged_entry_accepted:
  "verifier_verify sample_pki sample_clock sample_trust (Bytes [1, 2]) unlogged_bundle sample_policy = Inr sample_result
   \<and> unlogged_entry \<in> set (tlog_entries (b_material unlogged_bundle))
   \<and> te_proof unlogged_entry = None \<and> te_promise unlogged_entry = None"
proof -
  have entries: "tlog_entries (b_material unlogged_bundle) = [sample_entry ''1'', unlogged_entry]"
    and bare: "te_proof unlogged_entry = None" "te_promise unlogged_entry = None" "te_integrated_time unlogged_entry = 0"
    by (simp_all add: unlogged_bundle_def unlogged_entry_def sample_entry_def)
  have fields: "vm_content (b_material unlogged_bundle) = Certificate [6]" "b_content unlogged_bundle = MessageSignature sample_message"
    "b_media_type unlogged_bundle = b_media_type sample_bundle" "p_verify_tlog sample_policy" "p_verify_sct sample_policy"
    "p_verify_certificate sample_policy" "p_clock_skew_seconds sample_policy = 60"
    by (simp_all add: unlogged_bundle_def sample_bundle_def sample_policy_def policy_with_identity_def require_issuer_def
        default_policy_def DEFAULT_CLOCK_SKEW_SECONDS_def)
  have "bundle_well_formed sample_pki unlogged_bundle \<lparr>require_inclusion_proof = True, require_timestamp = False\<rparr>"
    using validate_bundle_ok [of sample_pki sample_bundle "\<lparr>require_inclusion_proof = True, require_timestamp = False\<rparr>"]
    by (simp add: sample_valid is_ok_iff bundle_well_formed_def fields entries bare) (simp add: sample_bundle_def)
  then have valid: "validate_bundle_with_options sample_pki unlogged_bundle \<lparr>require_inclusion_proof = True, require_timestamp = False\<rparr> = Inr ()"
    by (simp add: is_ok_iff flip: validate_bundle_ok)
  have time: "determine_validation_time sample_pki sample_clock unlogged_bundle [6, 2] sample_trust = Inr 100" by code_simp
  have records: "verify_tlog_consistency sample_pki unlogged_bundle (Bytes [1, 2]) = Inr ()" by code_simp
  have unverified: "verify_entry_inclusion sample_pki 100 100 unlogged_entry sample_trust = Inr ()"
    by (simp add: verify_entry_inclusion_def bare)
  have sample_time: "te_integrated_time (sample_entry ''1'') = 0" by (simp add: sample_entry_def)
  have tlog: "verify_tlog_entries sample_pki sample_clock unlogged_bundle sample_trust 50 200 60 = Inr None"
    using sample_entry_ok [of "''1''"] unverified by (simp add: verify_tlog_entries_def entries bare sample_time)
  show ?thesis
    by (simp add: entries bare verifier_verify_def Let_def fields valid extract_certificate_def extract_signature_def
        sample_steps time records tlog sample_result_def result_success_def)
qed

text \<open>
  When the policy skips the log, the time of an entry with a signed entry timestamp still dates the
  signature, and nothing verifies that timestamp.
\<close>

definition unverified_entry :: tlog_entry where
  "unverified_entry =
     \<lparr>te_log_index = 0, te_log_id = ''rekor'', te_kind = ''hashedrekord'', te_version = ''0.0.1'',
      te_integrated_time = 120, te_promise = Some [0], te_proof = None, te_body = []\<rparr>"

definition unverified_bundle :: sigstore_bundle where
  "unverified_bundle = sample_bundle\<lparr>b_material := \<lparr>vm_content = Certificate [6], tlog_entries = [unverified_entry],
     rfc3161_timestamps = []\<rparr>\<rparr>"

lemma unverified_time_used:
  "determine_validation_time sample_pki sample_clock unverified_bundle [6, 2] sample_trust = Inr 120
   \<and> \<not> is_ok (verify_set sample_pki 100 unverified_entry sample_trust)"
proof -
  have "determine_validation_time sample_pki sample_clock unverified_bundle [6, 2] sample_trust = Inr 120" by code_simp
  moreover have "\<not> is_ok (verify_set sample_pki 100 unverified_entry sample_trust)" by code_simp
  ultimately show ?thesis by blast
qed

end
