(* ===== verification/Cache.thy ===== *)
theory Cache
  imports Encoding
begin

text \<open>
  The crate sigstore-cache (src/lib.rs, src/error.rs, src/memory.rs, src/noop.rs): the trait
  \<open>CacheAdapter\<close> as a locale, what its users rely on as a second one, and the caches that keep
  nothing and that keep values in memory; the cache on the file system is in Cache_Files.  Times and
  durations are nanoseconds; a clock reading is an argument.  A sum of a time and a duration that is
  beyond the last time of its type panics: the result of a set that panics is \<open>None\<close>, and so is that
  of every operation that calls it.
\<close>

datatype cache_error = CIo string | CSerialization string | CExpired

fun fmt_cache_error :: "cache_error \<Rightarrow> string" where
  "fmt_cache_error (CIo s) = ''I/O error: '' @ s"
| "fmt_cache_error (CSerialization s) = ''Serialization error: '' @ s"
| "fmt_cache_error CExpired = ''Cache entry has expired''"

datatype cache_key = RekorPublicKey | RekorLogInfo | FulcioTrustBundle | FulcioConfiguration | TrustedRootKey

fun key_str :: "cache_key \<Rightarrow> string" where
  "key_str RekorPublicKey = ''rekor_public_key''"
| "key_str RekorLogInfo = ''rekor_log_info''"
| "key_str FulcioTrustBundle = ''fulcio_trust_bundle''"
| "key_str FulcioConfiguration = ''fulcio_configuration''"
| "key_str TrustedRootKey = ''trusted_root''"

definition from_secs :: "int \<Rightarrow> int" where
  "from_secs s = s * 10 ^ 9"

fun default_ttl :: "cache_key \<Rightarrow> int" where
  "default_ttl RekorPublicKey = from_secs (24 * 60 * 60)"
| "default_ttl FulcioTrustBundle = from_secs (24 * 60 * 60)"
| "default_ttl TrustedRootKey = from_secs (24 * 60 * 60)"
| "default_ttl FulcioConfiguration = from_secs (7 * 24 * 60 * 60)"
| "default_ttl RekorLogInfo = from_secs (60 * 60)"

type_synonym 's cache_get = "timestamp \<Rightarrow> cache_key \<Rightarrow> 's \<Rightarrow> 's \<times> (bytes option, cache_error) result"
type_synonym 's cache_set = "timestamp \<Rightarrow> cache_key \<Rightarrow> bytes \<Rightarrow> int \<Rightarrow> 's
    \<Rightarrow> ('s \<times> (unit, cache_error) result) option"
type_synonym 's cache_remove = "cache_key \<Rightarrow> 's \<Rightarrow> 's \<times> (unit, cache_error) result"
type_synonym 's cache_clear = "'s \<Rightarrow> 's \<times> (unit, cache_error) result"

subsection \<open>The trait\<close>

text \<open>
  \<open>CacheAdapter\<close>: \<open>view\<close> is what a cache holds for a key at a time, in the states \<open>inv\<close> its own
  operations leave.  A get returns it; an operation adds to it nothing but the value set, for its
  time to live, and a get changes it at no later time.
\<close>

locale cache_adapter =
  fixes getc :: "'s cache_get" and setc :: "'s cache_set" and removec :: "'s cache_remove"
    and clearc :: "'s cache_clear"
    and view :: "'s \<Rightarrow> timestamp \<Rightarrow> cache_key \<Rightarrow> bytes option" and inv :: "'s \<Rightarrow> bool"
  assumes get_result: "inv s \<Longrightarrow> snd (getc now k s) = Inr (view s now k)"
    and get_view: "inv s \<Longrightarrow> now \<le> t \<Longrightarrow> view (fst (getc now k s)) t k' = view s t k'"
    and set_sound: "inv s \<Longrightarrow> now \<le> t \<Longrightarrow> setc now k v ttl s = Some (s', r) \<Longrightarrow> view s' t k' = Some w \<Longrightarrow>
       (k' = k \<and> w = v \<and> t < now + ttl) \<or> (k' \<noteq> k \<and> view s t k' = Some w)"
    and set_ok: "setc now k v ttl s = Some (s', r) \<Longrightarrow> r = Inr ()"
    and remove_view: "inv s \<Longrightarrow> view (fst (removec k s)) t k' = (if k' = k then None else view s t k')"
    and remove_ok: "snd (removec k s) = Inr ()"
    and clear_view: "inv s \<Longrightarrow> view (fst (clearc s)) t k' = None"
    and clear_ok: "snd (clearc s) = Inr ()"
    and inv_get: "inv s \<Longrightarrow> inv (fst (getc now k s))"
    and inv_set: "inv s \<Longrightarrow> setc now k v ttl s = Some (s', r) \<Longrightarrow> inv s'"
    and inv_remove: "inv s \<Longrightarrow> inv (fst (removec k s))"
    and inv_clear: "inv s \<Longrightarrow> inv (fst (clearc s))"
begin

text \<open>What a get returns was in the cache before an operation, or was set by it and has not expired.\<close>

lemma get_after_set:
  assumes "inv s" "now \<le> t" "setc now k v ttl s = Some (s', r)" "snd (getc t k' s') = Inr (Some w)"
  shows "(k' = k \<and> w = v \<and> t < now + ttl) \<or> (k' \<noteq> k \<and> snd (getc t k' s) = Inr (Some w))"
  using assms set_sound [OF assms(1-3)] inv_set [OF assms(1,3)] by (auto simp: get_result)

lemma get_after_remove: "inv s \<Longrightarrow> snd (getc t k (fst (removec k s))) = Inr None"
  by (simp add: get_result inv_remove remove_view)

lemma get_after_clear: "inv s \<Longrightarrow> snd (getc t k (fst (clearc s))) = Inr None"
  by (simp add: get_result inv_clear clear_view)

end

text \<open>
  A cache that keeps what it is given until the time \<open>expiry\<close> tells, and panics when that is none.
\<close>

locale ttl_cache = cache_adapter +
  fixes expiry :: "timestamp \<Rightarrow> int \<Rightarrow> timestamp option"
  assumes set_panics: "setc now k v ttl s = None \<longleftrightarrow> expiry now ttl = None"
    and set_view: "inv s \<Longrightarrow> expiry now ttl = Some e \<Longrightarrow> now \<le> t \<Longrightarrow> setc now k v ttl s = Some (s', r) \<Longrightarrow>
      view s' t k' = (if k' = k then (if t < e then Some v else None) else view s t k')"
begin

lemma set_runs:
  assumes "expiry now ttl = Some e"
  obtains s' where "setc now k v ttl s = Some (s', Inr ())"
  using assms set_panics [of now k v ttl s] set_ok [of now k v ttl s] by (cases "setc now k v ttl s") auto

lemma get_hit: "inv s \<Longrightarrow> expiry now ttl = Some e \<Longrightarrow> now \<le> t \<Longrightarrow> t < e \<Longrightarrow> setc now k v ttl s = Some (s', r) \<Longrightarrow>
    snd (getc t k s') = Inr (Some v)"
  using inv_set set_view by (simp add: get_result)

lemma get_expired: "inv s \<Longrightarrow> expiry now ttl = Some e \<Longrightarrow> now \<le> t \<Longrightarrow> e \<le> t \<Longrightarrow> setc now k v ttl s = Some (s', r) \<Longrightarrow>
    snd (getc t k s') = Inr None"
  using inv_set set_view by (simp add: get_result)

end

text \<open>
  \<open>CacheAdapterExt::get_or_set\<close>, over the operations of any cache; \<open>compute\<close> is what the caller's
  closure returns, and the second reading of the clock is that of the set.
\<close>

definition get_or_set :: "'s cache_get \<Rightarrow> 's cache_set \<Rightarrow> timestamp \<Rightarrow> timestamp \<Rightarrow> cache_key \<Rightarrow> int
    \<Rightarrow> (bytes, cache_error) result \<Rightarrow> 's \<Rightarrow> ('s \<times> (bytes, cache_error) result) option" where
  "get_or_set getc setc now now' key ttl compute s =
     (case getc now key s of
        (s', Inl e) \<Rightarrow> Some (s', Inl e)
      | (s', Inr (Some cached)) \<Rightarrow> Some (s', Inr cached)
      | (s', Inr None) \<Rightarrow>
          (case compute of
             Inl e \<Rightarrow> Some (s', Inl e)
           | Inr v \<Rightarrow> map_option (\<lambda>(s'', _). (s'', Inr v)) (setc now' key v ttl s')))"

definition get_or_set_default :: "'s cache_get \<Rightarrow> 's cache_set \<Rightarrow> timestamp \<Rightarrow> timestamp \<Rightarrow> cache_key
    \<Rightarrow> (bytes, cache_error) result \<Rightarrow> 's \<Rightarrow> ('s \<times> (bytes, cache_error) result) option" where
  "get_or_set_default getc setc now now' key compute s =
     get_or_set getc setc now now' key (default_ttl key) compute s"

context cache_adapter begin

text \<open>The value is what the cache holds, or else what was computed.\<close>

lemma get_or_set_result:
  assumes "inv s" "get_or_set getc setc now now' k ttl compute s = Some (s', r)"
  shows "r = (case view s now k of Some v \<Rightarrow> Inr v | None \<Rightarrow> compute)" and "inv s'"
  using assms get_result [of s now k] inv_get [of s now k] inv_set
  by (cases "getc now k s"; auto simp: get_or_set_def split: option.splits sum.splits)+

text \<open>A value that is held is returned, without a set that could panic.\<close>

lemma get_or_set_hit:
  "inv s \<Longrightarrow> view s now k = Some v \<Longrightarrow> get_or_set getc setc now now' k ttl compute s = Some (fst (getc now k s), Inr v)"
  using get_result [of s now k] by (cases "getc now k s") (simp add: get_or_set_def)

end

context ttl_cache begin

text \<open>Until the expiry a second call returns the same value and computes nothing.\<close>

lemma get_or_set_cached:
  assumes inv: "inv s" and e: "expiry now' ttl = Some e" and miss: "view s now k = None"
    and "now \<le> now'" "now' \<le> t" "t < e"
  shows "\<exists>s' s''. get_or_set getc setc now now' k ttl (Inr v) s = Some (s', Inr v)
    \<and> get_or_set getc setc t t' k ttl' c s' = Some (s'', Inr v)"
proof -
  obtain s1 where g: "getc now k s = (s1, Inr None)"
    using get_result [OF inv, of now k] miss by (cases "getc now k s") simp
  with inv_get [OF inv, of now k] have inv1: "inv s1" by simp
  obtain s' where s': "setc now' k v ttl s1 = Some (s', Inr ())" by (rule set_runs [OF e])
  with g have "get_or_set getc setc now now' k ttl (Inr v) s = Some (s', Inr v)" by (simp add: get_or_set_def)
  moreover have "view s' t k = Some v" using set_view [OF inv1 e assms(5) s'] assms(6) by simp
  ultimately show ?thesis using get_or_set_hit [OF inv_set [OF inv1 s']] by blast
qed

end

subsection \<open>Histories\<close>

text \<open>
  The reference: a cache is a map from keys to a value and the time it expires at, as \<open>expiry\<close> tells,
  and operations on a history of calls, each at its time, answer from it.  A history in which a call
  panics has no answers.
\<close>

datatype cache_op = OGet cache_key | OSet cache_key bytes int | ORemove cache_key | OClear

type_synonym ref_cache = "(cache_key, bytes \<times> timestamp) map"
type_synonym answers = "(bytes option, cache_error) result list option"

definition ref_get :: "timestamp \<Rightarrow> cache_key \<Rightarrow> ref_cache \<Rightarrow> bytes option" where
  "ref_get t k m = (case m k of Some (v, e) \<Rightarrow> if t < e then Some v else None | None \<Rightarrow> None)"

definition answer :: "(bytes option, cache_error) result \<Rightarrow> answers \<Rightarrow> answers" where
  "answer r rest = map_option (Cons r) rest"

fun run_ref :: "(timestamp \<Rightarrow> int \<Rightarrow> timestamp option) \<Rightarrow> (timestamp \<times> cache_op) list \<Rightarrow> ref_cache \<Rightarrow> answers" where
  "run_ref ex [] m = Some []"
| "run_ref ex ((now, OGet k) # ops) m = answer (Inr (ref_get now k m)) (run_ref ex ops m)"
| "run_ref ex ((now, OSet k v ttl) # ops) m =
     (case ex now ttl of None \<Rightarrow> None | Some e \<Rightarrow> answer (Inr None) (run_ref ex ops (m(k \<mapsto> (v, e)))))"
| "run_ref ex ((now, ORemove k) # ops) m = answer (Inr None) (run_ref ex ops (m(k := None)))"
| "run_ref ex ((now, OClear) # ops) m = answer (Inr None) (run_ref ex ops Map.empty)"

definition no_value :: "(unit, cache_error) result \<Rightarrow> (bytes option, cache_error) result" where
  "no_value r = and_then r (\<lambda>u. Inr None)"

fun run_cache :: "'s cache_get \<Rightarrow> 's cache_set \<Rightarrow> 's cache_remove \<Rightarrow> 's cache_clear
    \<Rightarrow> (timestamp \<times> cache_op) list \<Rightarrow> 's \<Rightarrow> answers" where
  "run_cache g st r c [] s = Some []"
| "run_cache g st r c ((now, OGet k) # ops) s =
     (case g now k s of (s', x) \<Rightarrow> answer x (run_cache g st r c ops s'))"
| "run_cache g st r c ((now, OSet k v ttl) # ops) s =
     (case st now k v ttl s of None \<Rightarrow> None | Some (s', x) \<Rightarrow> answer (no_value x) (run_cache g st r c ops s'))"
| "run_cache g st r c ((now, ORemove k) # ops) s =
     (case r k s of (s', x) \<Rightarrow> answer (no_value x) (run_cache g st r c ops s'))"
| "run_cache g st r c ((now, OClear) # ops) s =
     (case c s of (s', x) \<Rightarrow> answer (no_value x) (run_cache g st r c ops s'))"

context ttl_cache begin

lemma run_cache_ref_from:
  assumes "sorted (map fst ops)" "inv s" "\<forall>(t, x) \<in> set ops. t0 \<le> t"
    "\<And>t k. t0 \<le> t \<Longrightarrow> view s t k = ref_get t k m"
  shows "run_cache getc setc removec clearc ops s = run_ref expiry ops m"
  using assms
proof (induction ops arbitrary: s m t0)
  case (Cons top ops)
  obtain now top' where top: "top = (now, top')" by force
  have h: "sorted (map fst ops)" "\<forall>(t, x) \<in> set ops. now \<le> t" "t0 \<le> now"
    using Cons.prems(1, 3) by (auto simp: top)
  note view = Cons.prems(4) [OF order_trans [OF h(3)]]
  note inv = Cons.prems(2)
  note IH = Cons.IH [OF h(1) _ h(2)]
  show ?case
  proof (cases top')
    case (OGet k)
    have "run_cache getc setc removec clearc ops (fst (getc now k s)) = run_ref expiry ops m"
      by (rule IH) (simp_all add: inv_get inv get_view view)
    with OGet show ?thesis
      by (simp add: top split: prod.split) (metis get_result inv fst_conv snd_conv view order_refl)
  next
    case (OSet k v ttl)
    show ?thesis
    proof (cases "expiry now ttl")
      case None
      with OSet set_panics [of now k v ttl s] show ?thesis by (simp add: top)
    next
      case (Some e)
      then obtain s' where s': "setc now k v ttl s = Some (s', Inr ())" by (rule set_runs)
      have "run_cache getc setc removec clearc ops s' = run_ref expiry ops (m(k \<mapsto> (v, e)))"
        by (rule IH) (auto simp: inv_set [OF inv s'] set_view [OF inv Some _ s'] view ref_get_def)
      with OSet Some s' show ?thesis by (simp add: top no_value_def)
    qed
  next
    case (ORemove k)
    have "run_cache getc setc removec clearc ops (fst (removec k s)) = run_ref expiry ops (m(k := None))"
      by (rule IH) (auto simp: inv_remove inv remove_view view ref_get_def)
    with ORemove remove_ok [of k s] show ?thesis
      by (auto simp: top no_value_def split: prod.split)
  next
    case OClear
    have "run_cache getc setc removec clearc ops (fst (clearc s)) = run_ref expiry ops Map.empty"
      by (rule IH) (auto simp: inv_clear inv clear_view ref_get_def)
    with OClear clear_ok [of s] show ?thesis
      by (auto simp: top no_value_def split: prod.split)
  qed
qed simp

text \<open>Every history of calls on a cache that starts empty answers as the reference does.\<close>

lemma run_cache_ref:
  assumes "sorted (map fst ops)" "inv s" "\<And>t k. view s t k = None"
  shows "run_cache getc setc removec clearc ops s = run_ref expiry ops Map.empty"
proof (cases ops)
  case (Cons x xs)
  with assms(1) have "\<forall>(t, y) \<in> set ops. fst x \<le> t" by auto
  from run_cache_ref_from [OF assms(1, 2) this] show ?thesis by (simp add: assms(3) ref_get_def)
qed simp

end

subsection \<open>No cache (noop.rs)\<close>

definition no_get :: "unit cache_get" where
  "no_get now k s = (s, Inr None)"

definition no_set :: "unit cache_set" where
  "no_set now k v ttl s = Some (s, Inr ())"

definition no_remove :: "unit cache_remove" where
  "no_remove k s = (s, Inr ())"

definition no_clear :: "unit cache_clear" where
  "no_clear s = (s, Inr ())"

interpretation nc: cache_adapter no_get no_set no_remove no_clear "\<lambda>s t k. None" "\<lambda>s. True"
  by unfold_locales (simp_all add: no_get_def no_set_def no_remove_def no_clear_def)

subsection \<open>The cache in memory (memory.rs)\<close>

record cache_entry =
  en_data :: bytes
  en_expires_at :: timestamp

definition is_expired :: "timestamp \<Rightarrow> cache_entry \<Rightarrow> bool" where
  "is_expired now e \<longleftrightarrow> now \<ge> en_expires_at e"

type_synonym memory_cache = "(cache_key, cache_entry) map"

definition memory_new :: memory_cache where
  "memory_new = Map.empty"

definition memory_remove :: "memory_cache cache_remove" where
  "memory_remove k m = (m(k := None), Inr ())"

text \<open>
  A get holds the lock for reading; when the entry is expired it releases it and takes it for
  writing to remove the entry, so another task can run between the two steps.
\<close>

definition memory_read :: "timestamp \<Rightarrow> cache_key \<Rightarrow> memory_cache \<Rightarrow> bytes option \<times> bool" where
  "memory_read now k m =
     (case m k of
        Some e \<Rightarrow> if \<not> is_expired now e then (Some (en_data e), False) else (None, True)
      | None \<Rightarrow> (None, False))"

definition memory_get :: "memory_cache cache_get" where
  "memory_get now k m =
     (case memory_read now k m of
        (r, evict) \<Rightarrow> (if evict then fst (memory_remove k m) else m, Inr r))"

text \<open>The sum of an \<open>Instant\<close> and a \<open>Duration\<close>, where \<open>latest\<close> is the last the platform has.\<close>

definition checked_add :: "timestamp \<Rightarrow> timestamp \<Rightarrow> int \<Rightarrow> timestamp option" where
  "checked_add latest now d = (if now + d \<le> latest then Some (now + d) else None)"

definition memory_set :: "timestamp \<Rightarrow> memory_cache cache_set" where
  "memory_set latest now k v ttl m =
     map_option (\<lambda>e. (m(k := Some \<lparr>en_data = v, en_expires_at = e\<rparr>), Inr ())) (checked_add latest now ttl)"

definition memory_clear :: "memory_cache cache_clear" where
  "memory_clear m = (Map.empty, Inr ())"

text \<open>The clock is read for each entry.\<close>

definition cleanup_expired :: "(cache_key \<Rightarrow> timestamp) \<Rightarrow> memory_cache \<Rightarrow> memory_cache" where
  "cleanup_expired now m = (\<lambda>k. case m k of Some e \<Rightarrow> if is_expired (now k) e then None else Some e | None \<Rightarrow> None)"

definition cache_keys :: "cache_key list" where
  "cache_keys = [RekorPublicKey, RekorLogInfo, FulcioTrustBundle, FulcioConfiguration, TrustedRootKey]"

definition memory_len :: "memory_cache \<Rightarrow> nat" where
  "memory_len m = length (filter (\<lambda>k. m k \<noteq> None) cache_keys)"

definition memory_is_empty :: "memory_cache \<Rightarrow> bool" where
  "memory_is_empty m \<longleftrightarrow> list_all (\<lambda>k. m k = None) cache_keys"

definition memory_view :: "memory_cache \<Rightarrow> timestamp \<Rightarrow> cache_key \<Rightarrow> bytes option" where
  "memory_view m t k = (case m k of Some e \<Rightarrow> if t < en_expires_at e then Some (en_data e) else None | None \<Rightarrow> None)"

lemma checked_add_Some [simp]: "checked_add latest now d = Some e \<longleftrightarrow> now + d \<le> latest \<and> e = now + d"
  by (auto simp: checked_add_def)

interpretation mc: ttl_cache memory_get "memory_set latest" memory_remove memory_clear memory_view "\<lambda>m. True"
    "checked_add latest" for latest
  by unfold_locales
    (auto simp: memory_get_def memory_read_def memory_set_def memory_remove_def memory_clear_def memory_view_def
      is_expired_def split: option.splits if_splits)

lemma memory_is_empty_len: "memory_is_empty m \<longleftrightarrow> memory_len m = 0"
  by (auto simp: memory_is_empty_def memory_len_def cache_keys_def)

lemma cleanup_expired_view: "(\<And>k. now k \<le> t) \<Longrightarrow> memory_view (cleanup_expired now m) t k = memory_view m t k"
  by (fastforce simp: memory_view_def cleanup_expired_def is_expired_def split: option.splits dest: order_trans)

text \<open>
  The two steps of a get are not one.  Between the first step of a get that found an expired entry
  and its second, another task sets the key; the second step removes the value just set.
\<close>

lemma memory_get_race:
  assumes "memory_read now k m = (r, True)"
  shows "r = None"
    and "memory_set latest now' k v ttl m = Some (m', x) \<Longrightarrow> memory_view (fst (memory_remove k m')) t k = None"
    and "now' \<le> t \<Longrightarrow> t < now' + ttl \<Longrightarrow> memory_set latest now' k v ttl (fst (memory_get now k m)) = Some (m', x) \<Longrightarrow>
      memory_view m' t k = Some v"
  using assms by (auto simp: memory_read_def memory_remove_def memory_set_def memory_view_def memory_get_def
    split: option.splits if_splits)

end
