(* ===== verification/Cache_Files.thy ===== *)
theory Cache_Files
  imports Cache
begin

text \<open>
  src/filesystem.rs of sigstore-cache: the cache that keeps a value and its metadata in two files
  of a directory.

  A directory is the files in it, by name.  The content of a \<open>*.meta\<close> file is kept as what reading
  and parsing it gives, that of any other as its bytes.  What the file system does beyond that is
  an environment: which operation on which file fails, with the text of its error (a failed write
  leaves the file as it was), and what a listing of the directory delivers before it ends.  The
  environment also has the last \<open>Timestamp\<close> there is; a set whose sum is beyond it panics (\<open>None\<close>).
\<close>

subsection \<open>Names of directories\<close>

definition hex_upper :: "nat \<Rightarrow> char" where
  "hex_upper d = ''0123456789ABCDEF'' ! d"

definition percent_byte :: "char \<Rightarrow> string" where
  "percent_byte c = [CHR ''%'', hex_upper (of_char c div 16), hex_upper (of_char c mod 16)]"

definition is_safe_char :: "char \<Rightarrow> bool" where
  "is_safe_char c \<longleftrightarrow> (CHR ''a'' \<le> c \<and> c \<le> CHR ''z'') \<or> (CHR ''A'' \<le> c \<and> c \<le> CHR ''Z'')
     \<or> (CHR ''0'' \<le> c \<and> c \<le> CHR ''9'') \<or> c = CHR ''-'' \<or> c = CHR ''_'' \<or> c = CHR ''.''"

fun url_to_dirname :: "string \<Rightarrow> string" where
  "url_to_dirname [] = []"
| "url_to_dirname (c # cs) = (if is_safe_char c then [c] else percent_byte c) @ url_to_dirname cs"

text \<open>\<open>Path::join\<close>.\<close>

definition path_join :: "string \<Rightarrow> string \<Rightarrow> string" where
  "path_join d n = (if n \<noteq> [] \<and> hd n = CHR ''/'' then n
     else if d = [] \<or> last d = CHR ''/'' then d @ n else d @ ''/'' @ n)"

definition SIGSTORE_PRODUCTION_URL :: string where
  "SIGSTORE_PRODUCTION_URL = ''https://sigstore.dev''"

definition SIGSTORE_STAGING_URL :: string where
  "SIGSTORE_STAGING_URL = ''https://sigstage.dev''"

text \<open>\<open>project_dirs\<close> is the cache directory the platform gives the program.\<close>

definition default_cache_dir :: "string option \<Rightarrow> (string, cache_error) result" where
  "default_cache_dir project_dirs = ok_or (CIo ''Could not determine cache directory'') project_dirs"

definition cache_for_instance :: "string option \<Rightarrow> string \<Rightarrow> (string, cache_error) result" where
  "cache_for_instance project_dirs base_url =
     and_then (default_cache_dir project_dirs) (\<lambda>d. Inr (path_join d (url_to_dirname base_url)))"

definition cache_production :: "string option \<Rightarrow> (string, cache_error) result" where
  "cache_production project_dirs = cache_for_instance project_dirs SIGSTORE_PRODUCTION_URL"

definition cache_staging :: "string option \<Rightarrow> (string, cache_error) result" where
  "cache_staging project_dirs = cache_for_instance project_dirs SIGSTORE_STAGING_URL"

subsection \<open>Files\<close>

record cache_metadata =
  created_at :: timestamp
  expires_at :: timestamp

record cache_dir =
  cd_meta :: "(string, (cache_metadata, cache_error) result) map"
  cd_data :: "(string, bytes) map"

datatype fs_op = CreateDirAll | ReadDir | ReadFile | WriteFile | RemoveFile

record fs_env =
  env_fault :: "fs_op \<Rightarrow> string \<Rightarrow> string option"
  env_listed :: "string \<Rightarrow> bool"
  env_list_end :: "string option"
  env_last :: timestamp

definition fs_ok :: "timestamp \<Rightarrow> fs_env" where
  "fs_ok latest = \<lparr>env_fault = (\<lambda>f n. None), env_listed = (\<lambda>n. True), env_list_end = None, env_last = latest\<rparr>"

definition attempt :: "fs_env \<Rightarrow> fs_op \<Rightarrow> string \<Rightarrow> (unit, cache_error) result" where
  "attempt E f n = (case env_fault E f n of Some e \<Rightarrow> Inl (CIo e) | None \<Rightarrow> Inr ())"

definition cache_path :: "cache_key \<Rightarrow> string" where
  "cache_path k = key_str k @ ''.cache''"

definition meta_path :: "cache_key \<Rightarrow> string" where
  "meta_path k = key_str k @ ''.meta''"

definition remove_file :: "fs_env \<Rightarrow> string \<Rightarrow> cache_dir \<Rightarrow> cache_dir" where
  "remove_file E n d = (case attempt E RemoveFile n of Inl e \<Rightarrow> d
     | Inr u \<Rightarrow> d\<lparr>cd_meta := (cd_meta d)(n := None), cd_data := (cd_data d)(n := None)\<rparr>)"

definition file_remove :: "fs_env \<Rightarrow> cache_dir cache_remove" where
  "file_remove E k d = (remove_file E (meta_path k) (remove_file E (cache_path k) d), Inr ())"

definition read_valid_metadata ::
  "fs_env \<Rightarrow> timestamp \<Rightarrow> cache_key \<Rightarrow> cache_dir \<Rightarrow> cache_dir \<times> (cache_metadata option, cache_error) result" where
  "read_valid_metadata E now k d =
     (case attempt E ReadFile (meta_path k) of
        Inl e \<Rightarrow> (d, Inl e)
      | Inr u \<Rightarrow>
          (case cd_meta d (meta_path k) of
             None \<Rightarrow> (d, Inr None)
           | Some (Inl e) \<Rightarrow> (d, Inl e)
           | Some (Inr md) \<Rightarrow>
               if now < expires_at md then (d, Inr (Some md))
               else (fst (file_remove E k d), Inr None)))"

definition file_get :: "fs_env \<Rightarrow> cache_dir cache_get" where
  "file_get E now k d =
     (case read_valid_metadata E now k d of
        (d', Inl e) \<Rightarrow> (d', Inl e)
      | (d', Inr None) \<Rightarrow> (d', Inr None)
      | (d', Inr (Some md)) \<Rightarrow>
          (case attempt E ReadFile (cache_path k) of
             Inl e \<Rightarrow> (d', Inl e)
           | Inr u \<Rightarrow> (d', Inr (cd_data d' (cache_path k)))))"

text \<open>A \<open>Duration\<close> whose seconds exceed an \<open>i64\<close> is not a \<open>SignedDuration\<close> and becomes a day.\<close>

definition fits_signed_duration :: "int \<Rightarrow> bool" where
  "fits_signed_duration ttl \<longleftrightarrow> ttl < from_secs (2 ^ 63)"

definition file_ttl :: "int \<Rightarrow> int" where
  "file_ttl ttl = (if fits_signed_duration ttl then ttl else from_secs (24 * 60 * 60))"

definition file_set :: "fs_env \<Rightarrow> cache_dir cache_set" where
  "file_set E now k v ttl d =
     (case attempt E CreateDirAll [] of
        Inl e \<Rightarrow> Some (d, Inl e)
      | Inr u \<Rightarrow>
          map_option (\<lambda>expires.
            case attempt E WriteFile (meta_path k) of
              Inl e \<Rightarrow> (d, Inl e)
            | Inr u \<Rightarrow>
                let d = d\<lparr>cd_meta := (cd_meta d)(meta_path k := Some (Inr \<lparr>created_at = now, expires_at = expires\<rparr>))\<rparr> in
                (case attempt E WriteFile (cache_path k) of
                   Inl e \<Rightarrow> (d, Inl e)
                 | Inr u \<Rightarrow> (d\<lparr>cd_data := (cd_data d)(cache_path k := Some v)\<rparr>, Inr ())))
            (checked_add (env_last E) now (file_ttl ttl)))"

text \<open>\<open>Path::extension\<close>: what follows the last dot, unless that dot is the first character.\<close>

definition extension :: "string \<Rightarrow> string option" where
  "extension n =
     (let r = takeWhile (\<lambda>c. c \<noteq> CHR ''.'') (rev n); p = drop (length r) (rev n)
      in if n = ''..'' \<or> length p \<le> 1 then None else Some (rev r))"

definition cleared :: "fs_env \<Rightarrow> string \<Rightarrow> bool" where
  "cleared E n \<longleftrightarrow> env_listed E n \<and> env_fault E RemoveFile n = None \<and>
     (extension n = Some ''cache'' \<or> extension n = Some ''meta'')"

definition file_clear :: "fs_env \<Rightarrow> cache_dir cache_clear" where
  "file_clear E d =
     (case attempt E ReadDir [] of
        Inl e \<Rightarrow> (d, Inl e)
      | Inr u \<Rightarrow>
          (d\<lparr>cd_meta := (\<lambda>n. if cleared E n then None else cd_meta d n),
             cd_data := (\<lambda>n. if cleared E n then None else cd_data d n)\<rparr>,
           case env_list_end E of Some e \<Rightarrow> Inl (CIo e) | None \<Rightarrow> Inr ()))"

text \<open>What a directory holds for a key, and the directories whose metadata parses.\<close>

definition file_view :: "cache_dir \<Rightarrow> timestamp \<Rightarrow> cache_key \<Rightarrow> bytes option" where
  "file_view d t k = (case cd_meta d (meta_path k) of
     Some (Inr md) \<Rightarrow> if t < expires_at md then cd_data d (cache_path k) else None | _ \<Rightarrow> None)"

definition meta_parses :: "cache_dir \<Rightarrow> bool" where
  "meta_parses d \<longleftrightarrow> (\<forall>k e. cd_meta d (meta_path k) \<noteq> Some (Inl e))"

subsection \<open>Names are apart\<close>

lemma key_str_inject [simp]: "key_str k = key_str k' \<longleftrightarrow> k = k'"
  by (cases k; cases k') simp_all

lemma cache_path_inject [simp]: "cache_path k = cache_path k' \<longleftrightarrow> k = k'"
  by (simp add: cache_path_def)

lemma meta_path_inject [simp]: "meta_path k = meta_path k' \<longleftrightarrow> k = k'"
  by (simp add: meta_path_def)

lemma rev_paths: "rev (cache_path k) = ''ehcac.'' @ rev (key_str k)" "rev (meta_path k) = ''atem.'' @ rev (key_str k)"
  by (simp_all add: cache_path_def meta_path_def)

lemma cache_meta_path [simp]: "cache_path k \<noteq> meta_path k'" "meta_path k' \<noteq> cache_path k"
proof -
  have "rev (cache_path k) \<noteq> rev (meta_path k')" by (simp add: rev_paths)
  then show "cache_path k \<noteq> meta_path k'" "meta_path k' \<noteq> cache_path k" by metis+
qed

lemma key_str_nonempty: "key_str k \<noteq> []"
  by (cases k) simp_all

lemma extension_cache_path [simp]: "extension (cache_path k) = Some ''cache''"
  and extension_meta_path [simp]: "extension (meta_path k) = Some ''meta''"
  using key_str_nonempty [of k]
  by (simp_all add: extension_def rev_paths) (simp_all add: cache_path_def meta_path_def Let_def)

subsection \<open>The cache on a file system without faults is a cache\<close>

lemma attempt_ok [simp]: "attempt (fs_ok latest) f n = Inr ()"
  by (simp add: attempt_def fs_ok_def)

lemma remove_file_ok:
  "remove_file (fs_ok latest) n d = d\<lparr>cd_meta := (cd_meta d)(n := None), cd_data := (cd_data d)(n := None)\<rparr>"
  by (simp add: remove_file_def)

lemma cleared_ok [simp]: "cleared (fs_ok latest) (cache_path k)" "cleared (fs_ok latest) (meta_path k)"
  by (simp_all add: cleared_def) (simp_all add: fs_ok_def)

lemmas file_ops_ok = file_get_def read_valid_metadata_def file_remove_def remove_file_ok file_set_def file_view_def
  Let_def

definition file_expiry :: "timestamp \<Rightarrow> timestamp \<Rightarrow> int \<Rightarrow> timestamp option" where
  "file_expiry latest now ttl = checked_add latest now (file_ttl ttl)"

lemma file_set_ok:
  "file_set (fs_ok latest) now k v ttl d = map_option (\<lambda>e.
     (d\<lparr>cd_meta := (cd_meta d)(meta_path k := Some (Inr \<lparr>created_at = now, expires_at = e\<rparr>)),
        cd_data := (cd_data d)(cache_path k := Some v)\<rparr>, Inr ())) (file_expiry latest now ttl)"
  by (cases "file_expiry latest now ttl") (simp_all add: file_set_def file_expiry_def Let_def fs_ok_def [of latest, THEN arg_cong, of env_last])

interpretation fc: ttl_cache "file_get (fs_ok latest)" "file_set (fs_ok latest)" "file_remove (fs_ok latest)" "file_clear (fs_ok latest)"
  file_view meta_parses "file_expiry latest" for latest
proof unfold_locales
  fix s s' :: cache_dir and now t ttl e k k' v w r
  show "(file_set (fs_ok latest) now k v ttl s = None) = (file_expiry latest now ttl = None)"
    by (simp add: file_set_ok)
  show "file_set (fs_ok latest) now k v ttl s = Some (s', r) \<Longrightarrow> r = Inr ()" by (auto simp: file_set_ok)
  show "snd (file_remove (fs_ok latest) k s) = Inr ()" by (simp add: file_ops_ok)
  show "snd (file_clear (fs_ok latest) s) = Inr ()" by (simp add: file_clear_def) (simp add: fs_ok_def)
  assume inv: "meta_parses s"
  then show "snd (file_get (fs_ok latest) now k s) = Inr (file_view s now k)"
    by (auto simp: file_ops_ok meta_parses_def split: option.splits sum.splits)
  show "now \<le> t \<Longrightarrow> file_view (fst (file_get (fs_ok latest) now k s)) t k' = file_view s t k'"
    by (auto simp: file_ops_ok split: option.splits sum.splits)
  show "file_expiry latest now ttl = Some e \<Longrightarrow> now \<le> t \<Longrightarrow> file_set (fs_ok latest) now k v ttl s = Some (s', r) \<Longrightarrow>
      file_view s' t k' = (if k' = k then (if t < e then Some v else None) else file_view s t k')"
    by (auto simp: file_set_ok file_view_def split: option.splits sum.splits)
  show "now \<le> t \<Longrightarrow> file_set (fs_ok latest) now k v ttl s = Some (s', r) \<Longrightarrow> file_view s' t k' = Some w \<Longrightarrow>
      (k' = k \<and> w = v \<and> t < now + ttl) \<or> (k' \<noteq> k \<and> file_view s t k' = Some w)"
    by (auto simp: file_set_ok file_view_def file_expiry_def file_ttl_def fits_signed_duration_def from_secs_def
        split: option.splits sum.splits if_splits)
  show "file_view (fst (file_remove (fs_ok latest) k s)) t k' = (if k' = k then None else file_view s t k')"
    by (auto simp: file_ops_ok split: option.splits sum.splits)
  show "file_view (fst (file_clear (fs_ok latest) s)) t k' = None"
    by (simp add: file_clear_def file_view_def)
  show "meta_parses (fst (file_get (fs_ok latest) now k s))" "meta_parses (fst (file_remove (fs_ok latest) k s))"
    "meta_parses (fst (file_clear (fs_ok latest) s))"
    using inv by (auto simp: file_ops_ok meta_parses_def file_clear_def split: option.splits sum.splits if_splits)
  show "file_set (fs_ok latest) now k v ttl s = Some (s', r) \<Longrightarrow> meta_parses s'"
    using inv by (auto simp: file_set_ok meta_parses_def split: if_splits)
qed

subsection \<open>What the cache promises\<close>

definition dir_new :: cache_dir where
  "dir_new = \<lparr>cd_meta = Map.empty, cd_data = Map.empty\<rparr>"

text \<open>C40: The cache in memory and the cache on a file system without faults, each starting empty,
  answer every history of gets, sets, removals and clearings in order of time as the reference map
  from keys to a value and its expiry does: values are returned as they were set, until they expire
  and no longer.  A value expires after its time to live, in files after a day if that exceeds a
  signed duration; a set whose expiry is beyond the last time of the platform panics, and with it
  the history.  What faults of the file system do is \<open>file_set_paths\<close>.\<close>

theorem caches_refine_map:
  assumes "sorted (map fst ops)"
  shows "run_cache memory_get (memory_set latest) memory_remove memory_clear ops memory_new
      = run_ref (checked_add latest) ops Map.empty
    \<and> run_cache (file_get (fs_ok latest)) (file_set (fs_ok latest)) (file_remove (fs_ok latest)) (file_clear (fs_ok latest)) ops dir_new
      = run_ref (file_expiry latest) ops Map.empty"
proof
  show "run_cache memory_get (memory_set latest) memory_remove memory_clear ops memory_new
      = run_ref (checked_add latest) ops Map.empty"
    using assms by (rule mc.run_cache_ref) (simp_all add: memory_view_def memory_new_def)
  show "run_cache (file_get (fs_ok latest)) (file_set (fs_ok latest)) (file_remove (fs_ok latest)) (file_clear (fs_ok latest)) ops dir_new
      = run_ref (file_expiry latest) ops Map.empty"
    using assms by (rule fc.run_cache_ref) (simp_all add: meta_parses_def file_view_def dir_new_def)
qed

definition sample_history :: "(timestamp \<times> cache_op) list" where
  "sample_history = [(0, OGet RekorLogInfo), (1, OSet RekorLogInfo [7] 10), (5, OGet RekorLogInfo),
     (6, OSet TrustedRootKey [8] 3), (9, OGet TrustedRootKey), (10, OGet RekorLogInfo), (11, OGet RekorLogInfo)]"

theorem caches_refine_map_witness:
  "run_cache (file_get (fs_ok 20)) (file_set (fs_ok 20)) (file_remove (fs_ok 20)) (file_clear (fs_ok 20)) sample_history dir_new
    = Some [Inr None, Inr None, Inr (Some [7]), Inr None, Inr None, Inr (Some [7]), Inr None]
   \<and> run_cache memory_get (memory_set 20) memory_remove memory_clear [(1, OSet RekorLogInfo [7] 30)] memory_new = None"
proof -
  have h: "sorted (map fst sample_history)" "sorted (map fst [(1, OSet RekorLogInfo [7] 30)])"
    by (simp_all add: sample_history_def)
  have expiry: "file_expiry 20 1 10 = Some 11" "file_expiry 20 6 3 = Some 9"
    by (simp_all add: file_expiry_def file_ttl_def fits_signed_duration_def from_secs_def)
  show ?thesis
    using caches_refine_map [OF h(1), of 20] caches_refine_map [OF h(2), of 20]
    by (simp add: sample_history_def ref_get_def expiry answer_def) (simp add: checked_add_def)
qed

text \<open>What a set leaves, on every path through it.  A failure to create the directory or to
  write the metadata leaves the directory as it was, the old entry included, and an expiry beyond the
  last timestamp panics.  A failure to write the data leaves the old data under the new expiry, so
  what the key held, even if expired, is returned again until then.  Otherwise the key holds the
  value.\<close>

theorem file_set_paths:
  "let s = file_set E now k v ttl d in
     (case (env_fault E CreateDirAll [], file_expiry (env_last E) now ttl) of
        (Some e, _) \<Rightarrow> s = Some (d, Inl (CIo e))
      | (None, None) \<Rightarrow> s = None
      | (None, Some expires) \<Rightarrow>
          (case (env_fault E WriteFile (meta_path k), env_fault E WriteFile (cache_path k)) of
             (Some e, _) \<Rightarrow> s = Some (d, Inl (CIo e))
           | (None, Some e) \<Rightarrow> (\<exists>d'. s = Some (d', Inl (CIo e))
               \<and> file_view d' t k = (if t < expires then cd_data d (cache_path k) else None))
           | (None, None) \<Rightarrow> (\<exists>d'. s = Some (d', Inr ())
               \<and> file_view d' t k = (if t < expires then Some v else None))))"
  by (simp add: Let_def file_set_def file_expiry_def attempt_def file_view_def split: option.split)

text \<open>An entry whose metadata does not parse is not replaced: \<open>get_or_set\<close> returns the error and computes nothing.\<close>

lemma corrupt_metadata_stays:
  assumes "cd_meta d (meta_path k) = Some (Inl e)"
  shows "get_or_set (file_get (fs_ok latest)) (file_set (fs_ok latest)) now now' k ttl compute d = Some (d, Inl e)"
  using assms by (simp add: get_or_set_def file_get_def read_valid_metadata_def)

subsection \<open>Directories of instances\<close>

fun hex_value :: "char \<Rightarrow> nat" where
  "hex_value c = (if c \<le> CHR ''9'' then of_char c - 48 else of_char c - 55)"

fun dirname_to_url :: "string \<Rightarrow> string" where
  "dirname_to_url (c # cs) =
     (if c = CHR ''%'' then (case cs of h # l # r \<Rightarrow> char_of (16 * hex_value h + hex_value l) # dirname_to_url r | _ \<Rightarrow> [])
      else c # dirname_to_url cs)"
| "dirname_to_url [] = []"

lemma hex_upper_value: "d < 16 \<Longrightarrow> hex_value (hex_upper d) = d \<and> hex_upper d \<noteq> CHR ''/''"
proof -
  have "\<forall>d \<in> set [0..<16]. hex_value (hex_upper d) = d \<and> hex_upper d \<noteq> CHR ''/''" by code_simp
  then show "d < 16 \<Longrightarrow> hex_value (hex_upper d) = d \<and> hex_upper d \<noteq> CHR ''/''" by simp
qed

lemma of_char_div_16: "(of_char c :: nat) div 16 < 16"
  using nat_of_char_less_256 [of c] by (simp add: less_mult_imp_div_less)

lemma percent_not_safe: "\<not> is_safe_char CHR ''%''" "\<not> is_safe_char CHR ''/''"
  by code_simp+

lemma dirname_to_url_inverse [simp]: "dirname_to_url (url_to_dirname u) = u"
proof (induction u)
  case (Cons c cs)
  then show ?case
    using percent_not_safe(1) hex_upper_value [OF of_char_div_16, of c]
      hex_upper_value [of "of_char c mod 16"]
    by (auto simp: percent_byte_def simp del: hex_value.simps)
qed simp

lemma url_to_dirname_no_slash: "CHR ''/'' \<notin> set (url_to_dirname u)"
proof (induction u)
  case (Cons c cs)
  then show ?case
    using percent_not_safe(2) hex_upper_value [OF of_char_div_16, of c]
      hex_upper_value [of "of_char c mod 16"]
    by (auto simp: percent_byte_def)
qed simp

lemma path_join_dirname:
  "path_join d (url_to_dirname u) = d @ (if d = [] \<or> last d = CHR ''/'' then [] else ''/'') @ url_to_dirname u"
  using url_to_dirname_no_slash [of u] by (cases "url_to_dirname u") (auto simp: path_join_def)

text \<open>The directory of an instance is one name below the cache directory and determines the
  instance: the name has no separator, so a URL cannot name a directory elsewhere by one, and two
  instances with different URLs never share a directory.\<close>

theorem instance_directories_apart:
  assumes "cache_for_instance (Some d) u = Inr p" "cache_for_instance (Some d) v = Inr q"
  shows "(p = q \<longleftrightarrow> u = v) \<and> CHR ''/'' \<notin> set (url_to_dirname u)
    \<and> (\<exists>sep \<in> {[], ''/''}. p = d @ sep @ url_to_dirname u)"
  using assms url_to_dirname_no_slash [of u]
  by (auto simp: cache_for_instance_def default_cache_dir_def path_join_dirname)
    (metis dirname_to_url_inverse)+

theorem instance_directories_apart_witness:
  "\<exists>p q. cache_production (Some ''/c'') = Inr p \<and> cache_staging (Some ''/c'') = Inr q \<and> p \<noteq> q"
proof -
  obtain p q where pq: "cache_for_instance (Some ''/c'') SIGSTORE_PRODUCTION_URL = Inr p"
    "cache_for_instance (Some ''/c'') SIGSTORE_STAGING_URL = Inr q"
    by (simp add: cache_for_instance_def default_cache_dir_def)
  moreover have "SIGSTORE_PRODUCTION_URL \<noteq> SIGSTORE_STAGING_URL"
    by (simp add: SIGSTORE_PRODUCTION_URL_def SIGSTORE_STAGING_URL_def)
  ultimately show ?thesis
    using instance_directories_apart [OF pq] by (auto simp: cache_production_def cache_staging_def)
qed

text \<open>A name of dots is kept, so that of some URLs is the cache directory itself or its parent.\<close>

lemma dots_escape:
  "cache_for_instance (Some ''/c'') ''..'' = Inr ''/c/..''"
  "cache_for_instance (Some ''/c'') [] = Inr ''/c/''"
  by code_simp+

end
