(* ===== verification/Rekor_Client.thy ===== *)
theory Rekor_Client
  imports Pki Cache
begin

text \<open>
  The crate sigstore-rekor, part 2 (src/client.rs): the requests of the client to a log and what
  it makes of the answers.  The services are a parameter \<open>net\<close>: the answer to a request, or the
  text of the error of the transport.  A body that serde cannot write fails the sending.  The
  writers and readers of JSON are parameters, and the members of an object that the code reads
  into a hash map are listed in the order the map iterates them.
\<close>

subsection \<open>Requests and answers\<close>

datatype http_body = NoBody | Body string bytes

record http_request =
  rq_method :: string
  rq_url :: string
  rq_body :: http_body

record http_response =
  rs_status :: nat
  rs_status_text :: string
  rs_body :: "(bytes, string) result"

type_synonym net = "http_request \<Rightarrow> (http_response, string) result"

definition http_get :: "net \<Rightarrow> string \<Rightarrow> (http_response, string) result" where
  "http_get net url = net \<lparr>rq_method = ''GET'', rq_url = url, rq_body = NoBody\<rparr>"

definition http_post :: "net \<Rightarrow> string \<Rightarrow> string \<Rightarrow> bytes \<Rightarrow> (http_response, string) result" where
  "http_post net url content_type b = net \<lparr>rq_method = ''POST'', rq_url = url, rq_body = Body content_type b\<rparr>"

definition http_post_json :: "net \<Rightarrow> string \<Rightarrow> (bytes, string) result \<Rightarrow> (http_response, string) result" where
  "http_post_json net url json = and_then json (http_post net url ''application/json'')"

definition is_success :: "http_response \<Rightarrow> bool" where
  "is_success r \<longleftrightarrow> 200 \<le> rs_status r \<and> rs_status r < 300"

subsection \<open>The client\<close>

record inactive_shard =
  is_root_hash :: string
  is_signed_tree_head :: string
  is_tree_id :: string
  is_tree_size :: int

record log_info =
  li_root_hash :: string
  li_signed_tree_head :: string
  li_tree_id :: string
  li_tree_size :: int
  li_inactive_shards :: "inactive_shard list"

record search_index =
  sx_email :: "string option"
  sx_public_key :: "(string \<times> string) option"
  sx_hash :: "string option"

record rekor_client_externals = pki_externals +
  body_text :: "bytes \<Rightarrow> string"
  ser_hashed_rekord :: "hashed_rekord \<Rightarrow> (bytes, string) result"
  ser_hashed_rekord_v2 :: "hashed_rekord_v2 \<Rightarrow> (bytes, string) result"
  ser_dsse_entry :: "dsse_entry \<Rightarrow> (bytes, string) result"
  ser_dsse_entry_v2 :: "dsse_entry_v2 \<Rightarrow> (bytes, string) result"
  ser_search_index :: "search_index \<Rightarrow> (bytes, string) result"
  ser_log_info :: "log_info \<Rightarrow> (bytes, string) result"
  de_log_info :: "bytes \<Rightarrow> (log_info, string) result"
  de_log_entries :: "bytes \<Rightarrow> ((string \<times> log_entry) list, string) result"
  de_log_entry_v2 :: "string \<Rightarrow> (log_entry_v2, string) result"
  de_string_list :: "bytes \<Rightarrow> (string list, string) result"

definition response_json :: "(bytes \<Rightarrow> ('a, string) result) \<Rightarrow> http_response \<Rightarrow> ('a, rekor_error) result" where
  "response_json de r = map_err (\<lambda>e. Http (''failed to parse JSON: '' @ e)) (and_then (rs_body r) de)"

definition response_text :: "'z rekor_client_externals_scheme \<Rightarrow> http_response \<Rightarrow> (string, string) result" where
  "response_text X r = map_sum (\<lambda>e. e) (body_text X) (rs_body r)"

text \<open>The text of the answer in the message of an error, empty when it cannot be read.\<close>

definition response_text_or_default :: "'z rekor_client_externals_scheme \<Rightarrow> http_response \<Rightarrow> string" where
  "response_text_or_default X r = (case response_text X r of Inr s \<Rightarrow> s | Inl e \<Rightarrow> [])"

definition fetch_log_info :: "'z rekor_client_externals_scheme \<Rightarrow> net \<Rightarrow> string \<Rightarrow> (log_info, rekor_error) result" where
  "fetch_log_info X net url =
     and_then (map_err Http (http_get net (url @ ''/api/v1/log''))) (\<lambda>response.
     and_then (ensure (is_success response) (Api (''failed to get log info: '' @ rs_status_text response))) (\<lambda>_.
     response_json (de_log_info X) response))"

definition fetch_public_key :: "'z rekor_client_externals_scheme \<Rightarrow> net \<Rightarrow> string \<Rightarrow> (string, rekor_error) result" where
  "fetch_public_key X net url =
     and_then (map_err Http (http_get net (url @ ''/api/v1/log/publicKey''))) (\<lambda>response.
     and_then (ensure (is_success response) (Api (''failed to get public key: '' @ rs_status_text response))) (\<lambda>_.
     map_err Http (response_text X response)))"

text \<open>
  Reading through the optional cache, as the clients do it for each resource: a value that the
  cache has and that parses is returned; otherwise the value is fetched and stored, errors of the
  cache being ignored, but not a panic of it (\<open>None\<close>).  \<open>enc\<close> writes the value for the cache, if it
  can be written.
\<close>

definition through_cache :: "('s cache_get \<times> 's cache_set) option \<Rightarrow> cache_key \<Rightarrow> timestamp \<Rightarrow> timestamp
    \<Rightarrow> (bytes \<Rightarrow> ('a, 'd) result) \<Rightarrow> ('a \<Rightarrow> (bytes, 'e) result) \<Rightarrow> ('a, 'f) result \<Rightarrow> 's
    \<Rightarrow> ('s \<times> ('a, 'f) result) option" where
  "through_cache cache key now now' dec enc fetch s =
     (case cache of
        None \<Rightarrow> Some (s, fetch)
      | Some (getc, setc) \<Rightarrow>
          (case getc now key s of (s', cached) \<Rightarrow>
             let hit = (case cached of
                 Inr (Some b) \<Rightarrow> (case dec b of Inr v \<Rightarrow> Some v | Inl _ \<Rightarrow> None)
               | _ \<Rightarrow> None) in
             (case hit of
                Some v \<Rightarrow> Some (s', Inr v)
              | None \<Rightarrow>
                  (case fetch of
                     Inl e \<Rightarrow> Some (s', Inl e)
                   | Inr v \<Rightarrow>
                       (case enc v of
                          Inr b \<Rightarrow> map_option (\<lambda>(s'', _). (s'', Inr v)) (setc now' key b (default_ttl key) s')
                        | Inl _ \<Rightarrow> Some (s', Inr v))))))"

definition get_log_info :: "'z rekor_client_externals_scheme \<Rightarrow> net \<Rightarrow> string \<Rightarrow> ('s cache_get \<times> 's cache_set) option
    \<Rightarrow> timestamp \<Rightarrow> timestamp \<Rightarrow> 's \<Rightarrow> ('s \<times> (log_info, rekor_error) result) option" where
  "get_log_info X net url cache now now' s =
     through_cache cache RekorLogInfo now now' (de_log_info X) (ser_log_info X) (fetch_log_info X net url) s"

definition get_public_key :: "'z rekor_client_externals_scheme \<Rightarrow> net \<Rightarrow> string \<Rightarrow> ('s cache_get \<times> 's cache_set) option
    \<Rightarrow> timestamp \<Rightarrow> timestamp \<Rightarrow> 's \<Rightarrow> ('s \<times> (string, rekor_error) result) option" where
  "get_public_key X net url cache now now' s =
     through_cache cache RekorPublicKey now now' (from_utf8 X) (\<lambda>key. Inr (as_bytes key) :: (bytes, unit) result)
       (fetch_public_key X net url) s"

text \<open>The first entry of an answer, with the identifier it is listed under.\<close>

definition single_entry :: "(string \<times> log_entry) list \<Rightarrow> (log_entry, rekor_error) result" where
  "single_entry entries =
     (case entries of
        [] \<Rightarrow> Inl (Api ''empty response'')
      | (entry_uuid, entry) # rest \<Rightarrow> Inr (entry\<lparr>le_uuid := entry_uuid\<rparr>))"

definition get_entry_by_uuid :: "'z rekor_client_externals_scheme \<Rightarrow> net \<Rightarrow> string \<Rightarrow> string \<Rightarrow> (log_entry, rekor_error) result" where
  "get_entry_by_uuid X net url uuid =
     and_then (map_err Http (http_get net (url @ ''/api/v1/log/entries/'' @ uuid))) (\<lambda>response.
     and_then (ensure (is_success response)
       (Api (''failed to get entry '' @ uuid @ '': '' @ rs_status_text response))) (\<lambda>_.
     and_then (response_json (de_log_entries X) response) single_entry))"

definition get_entry_by_index :: "'z rekor_client_externals_scheme \<Rightarrow> net \<Rightarrow> string \<Rightarrow> int \<Rightarrow> (log_entry, rekor_error) result" where
  "get_entry_by_index X net url index =
     and_then (map_err Http (http_get net (url @ ''/api/v1/log/entries?logIndex='' @ fmt_int index))) (\<lambda>response.
     and_then (ensure (is_success response)
       (Api (''failed to get entry at index '' @ fmt_int index @ '': '' @ rs_status_text response))) (\<lambda>_.
     and_then (response_json (de_log_entries X) response) single_entry))"

text \<open>The answer to a submission, or the error with the status and the text of a refusal.\<close>

definition submit :: "'z rekor_client_externals_scheme \<Rightarrow> net \<Rightarrow> string \<Rightarrow> (bytes, string) result \<Rightarrow> string
    \<Rightarrow> (http_response, rekor_error) result" where
  "submit X net url json what =
     and_then (map_err Http (http_post_json net url json)) (\<lambda>response.
     if is_success response then Inr response
     else Inl (Api (what @ '': '' @ rs_status_text response @ '' - '' @ response_text_or_default X response)))"

definition create_entry :: "'z rekor_client_externals_scheme \<Rightarrow> net \<Rightarrow> string \<Rightarrow> hashed_rekord \<Rightarrow> (log_entry, rekor_error) result" where
  "create_entry X net url entry =
     and_then (submit X net (url @ ''/api/v1/log/entries'') (ser_hashed_rekord X entry) ''failed to create entry'') (\<lambda>response.
     and_then (response_json (de_log_entries X) response) single_entry)"

definition create_dsse_entry :: "'z rekor_client_externals_scheme \<Rightarrow> net \<Rightarrow> string \<Rightarrow> dsse_entry \<Rightarrow> (log_entry, rekor_error) result" where
  "create_dsse_entry X net url entry =
     and_then (submit X net (url @ ''/api/v1/log/entries'') (ser_dsse_entry X entry) ''failed to create DSSE entry'') (\<lambda>response.
     and_then (response_json (de_log_entries X) response) single_entry)"

text \<open>An answer of version 2, read as text, parsed, and converted to a log entry.\<close>

definition entry_of_v2_response :: "'z rekor_client_externals_scheme \<Rightarrow> http_response \<Rightarrow> (log_entry, rekor_error) result" where
  "entry_of_v2_response X response =
     and_then (map_err Http (response_text X response)) (\<lambda>response_text.
     and_then (map_err (\<lambda>e. Http (''failed to parse JSON: '' @ e)) (de_log_entry_v2 X response_text)) (\<lambda>entry_v2.
     Inr (log_entry_of_v2 X entry_v2)))"

definition create_entry_v2 :: "'z rekor_client_externals_scheme \<Rightarrow> net \<Rightarrow> string \<Rightarrow> hashed_rekord_v2 \<Rightarrow> (log_entry, rekor_error) result" where
  "create_entry_v2 X net url entry =
     and_then (submit X net (url @ ''/api/v2/log/entries'') (ser_hashed_rekord_v2 X entry) ''failed to create entry'')
       (entry_of_v2_response X)"

definition create_dsse_entry_v2 :: "'z rekor_client_externals_scheme \<Rightarrow> net \<Rightarrow> string \<Rightarrow> dsse_entry_v2 \<Rightarrow> (log_entry, rekor_error) result" where
  "create_dsse_entry_v2 X net url entry =
     and_then (submit X net (url @ ''/api/v2/log/entries'') (ser_dsse_entry_v2 X entry) ''failed to create DSSE entry'')
       (entry_of_v2_response X)"

definition search_index_of :: "'z rekor_client_externals_scheme \<Rightarrow> net \<Rightarrow> string \<Rightarrow> search_index \<Rightarrow> (string list, rekor_error) result" where
  "search_index_of X net url query =
     and_then (map_err Http (http_post_json net (url @ ''/api/v1/index/retrieve'') (ser_search_index X query))) (\<lambda>response.
     and_then (ensure (is_success response) (Api (''search failed: '' @ rs_status_text response))) (\<lambda>_.
     response_json (de_string_list X) response))"

definition search_by_hash :: "'z rekor_client_externals_scheme \<Rightarrow> net \<Rightarrow> string \<Rightarrow> string \<Rightarrow> (string list, rekor_error) result" where
  "search_by_hash X net url hash =
     search_index_of X net url \<lparr>sx_email = None, sx_public_key = None, sx_hash = Some (''sha256:'' @ hash)\<rparr>"

subsection \<open>Lemmas\<close>

text \<open>The body of an accepted version 2 answer is in the entry, whatever its numbers are.\<close>

lemma entry_of_v2_response_Inr:
  "entry_of_v2_response X r = Inr e \<longleftrightarrow>
     (\<exists>b v2. rs_body r = Inr b \<and> de_log_entry_v2 X (body_text X b) = Inr v2 \<and> e = log_entry_of_v2 X v2)"
  by (auto simp: entry_of_v2_response_def response_text_def result_simps)

lemma single_entry_Inr: "single_entry es = Inr e \<longleftrightarrow> (\<exists>u x rest. es = (u, x) # rest \<and> e = x\<lparr>le_uuid := u\<rparr>)"
  by (auto simp: single_entry_def split: list.splits)

context cache_adapter begin

text \<open>Through a cache the answer is the value cached, when that parses, or else what is fetched.\<close>

lemma through_cache_result:
  "inv s \<Longrightarrow> through_cache (Some (getc, setc)) key now now' dec enc fetch s = Some (s', r) \<Longrightarrow>
     r = (case view s now key of
        Some b \<Rightarrow> (case dec b of Inr v \<Rightarrow> Inr v | Inl _ \<Rightarrow> fetch)
      | None \<Rightarrow> fetch)"
  using get_result [of s now key]
  by (cases "getc now key s") (auto simp: through_cache_def Let_def split: option.splits sum.splits)

lemma through_cache_hit:
  "inv s \<Longrightarrow> view s now key = Some b \<Longrightarrow> dec b = Inr v \<Longrightarrow>
     through_cache (Some (getc, setc)) key now now' dec enc fetch s = Some (fst (getc now key s), Inr v)"
  using get_result [of s now key] by (cases "getc now key s") (simp add: through_cache_def)

end

context ttl_cache begin

text \<open>After a fetch, a second call before the expiry does not ask the service.\<close>

lemma through_cache_again:
  fixes fetch' :: "('v, 'f) result"
  assumes inv: "inv s" and e: "expiry now' (default_ttl key) = Some e" and miss: "view s now key = None"
    and "now \<le> now'" "now' \<le> t" "t < e" and enc: "enc v = Inr b" and dec: "dec b = Inr v"
  shows "\<exists>s' s''. through_cache (Some (getc, setc)) key now now' dec enc (Inr v :: ('v, 'f) result) s = Some (s', Inr v)
    \<and> through_cache (Some (getc, setc)) key t t' dec enc fetch' s' = Some (s'', Inr v)"
proof -
  obtain s1 where g: "getc now key s = (s1, Inr None)"
    using get_result [OF inv, of now key] miss by (cases "getc now key s") simp
  with inv_get [OF inv, of now key] have inv1: "inv s1" by simp
  obtain s' where s': "setc now' key b (default_ttl key) s1 = Some (s', Inr ())" by (rule set_runs [OF e])
  with g enc have "through_cache (Some (getc, setc)) key now now' dec enc (Inr v :: ('v, 'f) result) s = Some (s', Inr v)"
    by (simp add: through_cache_def)
  moreover have "view s' t key = Some b" using set_view [OF inv1 e assms(5) s'] assms(6) by simp
  ultimately show ?thesis
    using through_cache_hit [OF inv_set [OF inv1 s'], of t key b dec v t' enc fetch'] dec by blast
qed

end

end
