(* ===== verification/Tsa_Client.thy ===== *)
theory Tsa_Client
  imports Rekor_Client Tsa_Verify
begin

text \<open>
  The crate sigstore-tsa, part 2 (src/client.rs and the request of src/asn1.rs): the request for a
  timestamp over a signature and what the client checks of the answer.  The nonce is drawn by the
  caller of the model; its encoding as a DER integer, and that of the request, are parameters.
\<close>

record time_stamp_req =
  tq_version :: u8
  tq_imprint :: message_imprint
  tq_policy :: "string option"
  tq_nonce :: "bytes option"
  tq_cert_req :: bool

record tsa_client_externals = rekor_client_externals +
  der_uint :: "u64 \<Rightarrow> bytes"
  time_stamp_req_to_der :: "time_stamp_req \<Rightarrow> (bytes, string) result"
  debug_int :: "bytes \<Rightarrow> string"

definition imprint_new :: "string \<Rightarrow> bytes \<Rightarrow> message_imprint" where
  "imprint_new algorithm digest = \<lparr>mi_algorithm = algorithm, mi_hashed_message = digest\<rparr>"

text \<open>\<open>generate_nonce\<close> of a random u64.\<close>

definition generate_nonce :: "'z tsa_client_externals_scheme \<Rightarrow> u64 \<Rightarrow> bytes" where
  "generate_nonce X random = der_uint X random"

definition req_new :: "'z tsa_client_externals_scheme \<Rightarrow> u64 \<Rightarrow> message_imprint \<Rightarrow> time_stamp_req" where
  "req_new X random imprint = \<lparr>tq_version = 1, tq_imprint = imprint, tq_policy = None,
     tq_nonce = Some (generate_nonce X random), tq_cert_req = True\<rparr>"

definition req_new_without_nonce :: "message_imprint \<Rightarrow> time_stamp_req" where
  "req_new_without_nonce imprint = \<lparr>tq_version = 1, tq_imprint = imprint, tq_policy = None,
     tq_nonce = None, tq_cert_req = True\<rparr>"

definition with_nonce :: "'z tsa_client_externals_scheme \<Rightarrow> u64 \<Rightarrow> time_stamp_req \<Rightarrow> time_stamp_req" where
  "with_nonce X nonce r = r\<lparr>tq_nonce := Some (der_uint X nonce)\<rparr>"

definition with_cert_req :: "bool \<Rightarrow> time_stamp_req \<Rightarrow> time_stamp_req" where
  "with_cert_req b r = r\<lparr>tq_cert_req := b\<rparr>"

definition debug_nonce :: "'z tsa_client_externals_scheme \<Rightarrow> bytes option \<Rightarrow> string" where
  "debug_nonce X n = (case n of None \<Rightarrow> ''None'' | Some b \<Rightarrow> ''Some('' @ debug_int X b @ '')'')"

definition request_tsa :: "'z tsa_client_externals_scheme \<Rightarrow> net \<Rightarrow> string \<Rightarrow> u64 \<Rightarrow> bytes \<Rightarrow> string
    \<Rightarrow> (bytes, tsa_error) result" where
  "request_tsa X net url random digest algorithm =
    (let request = req_new X random (imprint_new algorithm digest) in
     and_then (map_err (\<lambda>e. Asn1 (''failed to encode request: '' @ e)) (time_stamp_req_to_der X request)) (\<lambda>request_der.
     and_then (map_err TsaHttp (http_post net url ''application/timestamp-query'' request_der)) (\<lambda>response.
     and_then (ensure (is_success response)
       (TsaHttp (''TSA returned status '' @ rs_status_text response))) (\<lambda>_.
     and_then (map_err TsaHttp (rs_body response)) (\<lambda>response_bytes.
     and_then (parse_timestamp_token X response_bytes) (\<lambda>(tst, _).
     and_then (case tq_nonce request of
         None \<Rightarrow> Inr ()
       | Some req_nonce \<Rightarrow>
           ensure (tst_nonce tst = Some req_nonce)
             (TsaInvalidResponse (''TSA response nonce mismatch: expected '' @ debug_int X req_nonce
               @ '', got '' @ debug_nonce X (tst_nonce tst)))) (\<lambda>_.
     Inr response_bytes)))))))"

definition timestamp_signature :: "'z tsa_client_externals_scheme \<Rightarrow> net \<Rightarrow> string \<Rightarrow> u64 \<Rightarrow> bytes
    \<Rightarrow> (bytes, tsa_error) result" where
  "timestamp_signature X net url random signature =
     request_tsa X net url random (sha256 X signature) (oid_of_hash_algorithm Sha2256)"

text \<open>
  A token the client returns carries the nonce of its request.  Nothing is required of the imprint:
  the token of another message with that nonce is returned too.
\<close>

lemma timestamp_signature_Inr:
  "timestamp_signature X net url random sg = Inr token \<longleftrightarrow>
     (\<exists>der r tst sd.
        time_stamp_req_to_der X (req_new X random (imprint_new ID_SHA_256 (sha256 X sg))) = Inr der
        \<and> http_post net url ''application/timestamp-query'' der = Inr r \<and> is_success r
        \<and> rs_body r = Inr token \<and> parse_timestamp_token X token = Inr (tst, sd)
        \<and> tst_nonce tst = Some (der_uint X random))"
  by (auto simp: timestamp_signature_def request_tsa_def result_simps req_new_def generate_nonce_def Let_def)

end
