(* ===== verification/Fulcio_Client.thy ===== *)
theory Fulcio_Client
  imports Tsa_Client
begin

text \<open>
  Three parts the signer calls: identity tokens (sigstore-oidc, src/token.rs), key pairs
  (sigstore-crypto, src/signing.rs) and the client of the certificate authority (sigstore-fulcio,
  src/client.rs).  Key generation and signing are functions of the randomness they draw; the JSON
  of requests and answers is written and read by parameters.
\<close>

subsection \<open>Identity tokens\<close>

datatype oidc_error = OHttp string | Token string | OAuth string | OJson string

fun fmt_oidc_error :: "oidc_error \<Rightarrow> string" where
  "fmt_oidc_error (OHttp s) = ''HTTP error: '' @ s"
| "fmt_oidc_error (Token s) = ''Token error: '' @ s"
| "fmt_oidc_error (OAuth s) = ''OAuth error: '' @ s"
| "fmt_oidc_error (OJson s) = ''JSON error: '' @ s"

datatype audience = NoAudience | Single string | Multiple "string list"

fun audience_contains :: "audience \<Rightarrow> string \<Rightarrow> bool" where
  "audience_contains NoAudience v = False"
| "audience_contains (Single s) v = (s = v)"
| "audience_contains (Multiple xs) v = list_ex (\<lambda>s. s = v) xs"

record federated_claims =
  fc_connector_id :: "string option"
  fc_user_id :: "string option"

record token_claims =
  tc_iss :: string
  tc_sub :: string
  tc_aud :: audience
  tc_exp :: u64
  tc_iat :: u64
  tc_email :: "string option"
  tc_email_verified :: "bool option"
  tc_federated :: "federated_claims option"

record identity_token =
  it_raw :: string
  it_claims :: token_claims

record p256_externals =
  p256_generate_pkcs8 :: "bytes \<Rightarrow> bytes option"
  p256_from_pkcs8 :: "bytes \<Rightarrow> (bytes, string) result"
  p256_public_key :: "bytes \<Rightarrow> bytes"
  p256_sign :: "bytes \<Rightarrow> bytes \<Rightarrow> bytes \<Rightarrow> bytes option"

record certificate_request =
  cq_oidc_identity_token :: string
  cq_algorithm :: string
  cq_content :: string
  cq_proof_of_possession :: bytes

record signing_certificate =
  sc_embedded_sct :: "string list option"
  sc_detached_sct :: "(string list \<times> string) option"

record oidc_issuer =
  oi_issuer_url :: string
  oi_audience :: string
  oi_challenge_claim :: "string option"
  oi_spiffe_trust_domain :: "string option"

record fulcio_externals = tsa_client_externals +
  p256 :: p256_externals
  any_of_oid :: "string \<Rightarrow> (der_any, string) result"
  bit_string_from_bytes :: "bytes \<Rightarrow> (bytes, string) result"
  b64url_decode :: "string \<Rightarrow> (bytes, string) result"
  de_claims :: "bytes \<Rightarrow> (token_claims, string) result"
  ser_certificate_request :: "certificate_request \<Rightarrow> (bytes, string) result"
  de_signing_certificate :: "bytes \<Rightarrow> (signing_certificate, string) result"
  ser_configuration :: "oidc_issuer list \<Rightarrow> (bytes, string) result"
  de_configuration :: "bytes \<Rightarrow> (oidc_issuer list, string) result"
  ser_trust_bundle :: "string list list \<Rightarrow> (bytes, string) result"
  de_trust_bundle :: "bytes \<Rightarrow> (string list list, string) result"

definition from_jwt :: "'z fulcio_externals_scheme \<Rightarrow> string \<Rightarrow> (identity_token, oidc_error) result" where
  "from_jwt X token =
    (let parts = split_on CHR ''.'' token in
     and_then (ensure (length parts = 3) (Token ''invalid JWT format'')) (\<lambda>_.
     and_then (map_err (\<lambda>e. Token (''failed to decode payload: '' @ e)) (b64url_decode X (parts ! 1))) (\<lambda>pl.
     and_then (map_err (\<lambda>e. Token (''failed to parse claims: '' @ e)) (de_claims X pl)) (\<lambda>claims.
     Inr \<lparr>it_raw = token, it_claims = claims\<rparr>))))"

text \<open>\<open>detected\<close> is what the detector of ambient credentials finds.\<close>

definition detect_ambient :: "'z fulcio_externals_scheme \<Rightarrow> (string option, string) result
    \<Rightarrow> (identity_token option, oidc_error) result" where
  "detect_ambient X detected =
     (case detected of
        Inr (Some token) \<Rightarrow> map_sum (\<lambda>e. e) Some (from_jwt X token)
      | Inr None \<Rightarrow> Inr None
      | Inl e \<Rightarrow> Inl (Token (''failed to detect ambient credentials: '' @ e)))"

definition identity_of_token :: "identity_token \<Rightarrow> string" where
  "identity_of_token t = (case tc_email (it_claims t) of Some e \<Rightarrow> e | None \<Rightarrow> tc_sub (it_claims t))"

definition email_verified :: "identity_token \<Rightarrow> bool" where
  "email_verified t = (case tc_email_verified (it_claims t) of Some b \<Rightarrow> b | None \<Rightarrow> False)"

text \<open>\<open>now\<close> is the system time in seconds; before the epoch it counts as 0.\<close>

definition token_is_expired :: "int \<Rightarrow> identity_token \<Rightarrow> bool" where
  "token_is_expired now t \<longleftrightarrow> int (unat (tc_exp (it_claims t))) < (if now < 0 then 0 else now)"

subsection \<open>Key pairs\<close>

definition generate_ecdsa_p256 :: "'z fulcio_externals_scheme \<Rightarrow> bytes \<Rightarrow> (bytes, crypto_error) result" where
  "generate_ecdsa_p256 X random =
     and_then (ok_or (KeyGeneration ''failed to generate ECDSA P-256 key'') (p256_generate_pkcs8 (p256 X) random)) (\<lambda>pkcs8.
     map_err InvalidKeyFormat (p256_from_pkcs8 (p256 X) pkcs8))"

definition key_sign :: "'z fulcio_externals_scheme \<Rightarrow> bytes \<Rightarrow> bytes \<Rightarrow> bytes \<Rightarrow> (signature_bytes, crypto_error) result" where
  "key_sign X random kp data = ok_or (AwsLc ''unspecified error'') (p256_sign (p256 X) random kp data)"

definition public_key_der :: "'z fulcio_externals_scheme \<Rightarrow> bytes \<Rightarrow> (der_public_key, crypto_error) result" where
  "public_key_der X kp =
     and_then (map_err Der (any_of_oid X SECP_256_R_1)) (\<lambda>curve.
     and_then (map_err Der (bit_string_from_bytes X (p256_public_key (p256 X) kp))) (\<lambda>bits.
     map_err Der (spki_to_der X \<lparr>spki_algorithm = ID_EC_PUBLIC_KEY, spki_parameters = Some curve, spki_key = Some bits\<rparr>)))"

subsection \<open>The certificate authority\<close>

datatype fulcio_error = FHttp string | FApi string | FCertificate string | FJson string

fun fmt_fulcio_error :: "fulcio_error \<Rightarrow> string" where
  "fmt_fulcio_error (FHttp s) = ''HTTP error: '' @ s"
| "fmt_fulcio_error (FApi s) = ''API error: '' @ s"
| "fmt_fulcio_error (FCertificate s) = ''Certificate error: '' @ s"
| "fmt_fulcio_error (FJson s) = ''JSON error: '' @ s"

definition fulcio_json :: "(bytes \<Rightarrow> ('a, string) result) \<Rightarrow> http_response \<Rightarrow> ('a, fulcio_error) result" where
  "fulcio_json de r = map_err (\<lambda>e. FHttp (''failed to parse JSON: '' @ e)) (and_then (rs_body r) de)"

definition fetch_configuration :: "'z fulcio_externals_scheme \<Rightarrow> net \<Rightarrow> string \<Rightarrow> (oidc_issuer list, fulcio_error) result" where
  "fetch_configuration X net url =
     and_then (map_err FHttp (http_get net (url @ ''/api/v2/configuration''))) (\<lambda>response.
     and_then (ensure (is_success response) (FApi (''failed to get configuration: '' @ rs_status_text response))) (\<lambda>_.
     fulcio_json (de_configuration X) response))"

definition get_configuration :: "'z fulcio_externals_scheme \<Rightarrow> net \<Rightarrow> string \<Rightarrow> ('s cache_get \<times> 's cache_set) option
    \<Rightarrow> timestamp \<Rightarrow> timestamp \<Rightarrow> 's \<Rightarrow> ('s \<times> (oidc_issuer list, fulcio_error) result) option" where
  "get_configuration X net url cache now now' s =
     through_cache cache FulcioConfiguration now now' (de_configuration X) (ser_configuration X)
       (fetch_configuration X net url) s"

definition fetch_trust_bundle :: "'z fulcio_externals_scheme \<Rightarrow> net \<Rightarrow> string \<Rightarrow> (string list list, fulcio_error) result" where
  "fetch_trust_bundle X net url =
     and_then (map_err FHttp (http_get net (url @ ''/api/v2/trustBundle''))) (\<lambda>response.
     and_then (ensure (is_success response) (FApi (''failed to get trust bundle: '' @ rs_status_text response))) (\<lambda>_.
     fulcio_json (de_trust_bundle X) response))"

definition get_trust_bundle :: "'z fulcio_externals_scheme \<Rightarrow> net \<Rightarrow> string \<Rightarrow> ('s cache_get \<times> 's cache_set) option
    \<Rightarrow> timestamp \<Rightarrow> timestamp \<Rightarrow> 's \<Rightarrow> ('s \<times> (string list list, fulcio_error) result) option" where
  "get_trust_bundle X net url cache now now' s =
     through_cache cache FulcioTrustBundle now now' (de_trust_bundle X) (ser_trust_bundle X)
       (fetch_trust_bundle X net url) s"

definition create_signing_certificate :: "'z fulcio_externals_scheme \<Rightarrow> net \<Rightarrow> string \<Rightarrow> bytes \<Rightarrow> identity_token
    \<Rightarrow> bytes \<Rightarrow> (signing_certificate, fulcio_error) result" where
  "create_signing_certificate X net url random token kp =
     and_then (map_err (\<lambda>e. FApi (''failed to export public key: '' @ fmt_crypto_error e)) (public_key_der X kp)) (\<lambda>der.
     let public_key_pem = public_key_to_pem X der in
     and_then (map_err (\<lambda>e. FApi (''failed to create proof of possession: '' @ fmt_crypto_error e))
       (key_sign X random kp (as_bytes (identity_of_token token)))) (\<lambda>proof_of_possession.
     let request = \<lparr>cq_oidc_identity_token = it_raw token, cq_algorithm = [], cq_content = public_key_pem,
       cq_proof_of_possession = proof_of_possession\<rparr> in
     and_then (map_err FHttp (http_post_json net (url @ ''/api/v2/signingCert'') (ser_certificate_request X request))) (\<lambda>response.
     and_then (ensure (is_success response) (FApi (''failed to create signing certificate: ''
         @ rs_status_text response @ '' - '' @ response_text_or_default X response))) (\<lambda>_.
     fulcio_json (de_signing_certificate X) response))))"

definition pem_certificates :: "signing_certificate \<Rightarrow> string list option" where
  "pem_certificates c =
     (case sc_embedded_sct c of Some cs \<Rightarrow> Some cs | None \<Rightarrow> map_option fst (sc_detached_sct c))"

definition leaf_certificate :: "'z externals_scheme \<Rightarrow> signing_certificate \<Rightarrow> (der_certificate, fulcio_error) result" where
  "leaf_certificate X c =
     and_then (ok_or (FApi ''No certificate in response'')
       (case pem_certificates c of None \<Rightarrow> None | Some [] \<Rightarrow> None | Some (p # ps) \<Rightarrow> Some p)) (\<lambda>pem.
     map_err (\<lambda>e. FApi (''Invalid certificate PEM: '' @ fmt_types_error e)) (certificate_from_pem X pem))"

definition certificate_chain :: "'z externals_scheme \<Rightarrow> signing_certificate \<Rightarrow> (der_certificate list, fulcio_error) result" where
  "certificate_chain X c =
     and_then (ok_or (FApi ''No certificate chain in response'') (pem_certificates c)) (\<lambda>pems.
     collect_ok (map (\<lambda>pem. map_err (\<lambda>e. FApi (''Invalid certificate PEM: '' @ fmt_types_error e))
       (certificate_from_pem X pem)) pems))"

subsection \<open>Lemmas\<close>

text \<open>The leaf is the first certificate of the chain.\<close>

lemma leaf_certificate_chain:
  "certificate_chain X c = Inr cs \<Longrightarrow> cs \<noteq> [] \<Longrightarrow> leaf_certificate X c = Inr (hd cs)"
  by (cases cs) (auto simp: certificate_chain_def leaf_certificate_def result_simps map_eq_Cons_conv)

text \<open>A token is raw text of three parts whose middle one decodes to its claims.\<close>

lemma from_jwt_Inr:
  "from_jwt X s = Inr t \<longleftrightarrow>
     (\<exists>h p g pl. split_on CHR ''.'' s = [h, p, g] \<and> b64url_decode X p = Inr pl
        \<and> de_claims X pl = Inr (it_claims t) \<and> it_raw t = s)"
  by (cases t) (auto simp: from_jwt_def result_simps Let_def length_Suc_conv eval_nat_numeral)

end
