(* ===== verification/Signing_Config.thy ===== *)
theory Signing_Config
  imports Trust_Root
begin

text \<open>
  The crate sigstore-trust-root, part 2 (src/signing_config.rs): the endpoints of the services a
  signer uses, and how the best of them is selected.  The time is read for each endpoint; \<open>now\<close>
  gives the reading made when an endpoint is checked.
\<close>

definition SUPPORTED_REKOR_VERSIONS :: "nat list" where "SUPPORTED_REKOR_VERSIONS = [1, 2]"
definition SUPPORTED_TSA_VERSIONS :: "nat list" where "SUPPORTED_TSA_VERSIONS = [1]"
definition SUPPORTED_FULCIO_VERSIONS :: "nat list" where "SUPPORTED_FULCIO_VERSIONS = [1]"

definition SIGNING_CONFIG_MEDIA_TYPE :: string where
  "SIGNING_CONFIG_MEDIA_TYPE = ''application/vnd.dev.sigstore.signingconfig.v0.2+json''"

record service_validity =
  sv_start :: timestamp
  sv_end :: "timestamp option"

record service_endpoint =
  se_url :: string
  se_major_api_version :: nat
  se_valid_for :: service_validity
  se_operator :: "string option"

datatype service_selector = Any | Exact

record service_configuration =
  sc_selector :: service_selector
  sc_count :: "nat option"

record tuf_signing_config =
  tsc_media_type :: string
  tsc_ca_urls :: "service_endpoint list"
  tsc_oidc_urls :: "service_endpoint list"
  tsc_rekor_tlog_urls :: "service_endpoint list"
  tsc_tsa_urls :: "service_endpoint list"
  tsc_rekor_tlog_config :: service_configuration
  tsc_tsa_config :: service_configuration

type_synonym endpoint_clock = "service_endpoint \<Rightarrow> timestamp"

definition validity_is_valid :: "timestamp \<Rightarrow> service_validity \<Rightarrow> bool" where
  "validity_is_valid now v \<longleftrightarrow>
     (if now < sv_start v then False
      else case sv_end v of Some e \<Rightarrow> if now \<ge> e then False else True | None \<Rightarrow> True)"

definition endpoint_is_valid :: "endpoint_clock \<Rightarrow> service_endpoint \<Rightarrow> bool" where
  "endpoint_is_valid now e = validity_is_valid (now e) (se_valid_for e)"

text \<open>\<open>de\<close> is the derived deserializer, with the text of its error.\<close>

definition signing_config_from_json :: "(string \<Rightarrow> (tuf_signing_config, string) result) \<Rightarrow> string
    \<Rightarrow> (tuf_signing_config, trust_error) result" where
  "signing_config_from_json de json =
     and_then (map_err TJson (de json)) (\<lambda>config.
     if tsc_media_type config \<noteq> SIGNING_CONFIG_MEDIA_TYPE then Inl (UnsupportedMediaType (tsc_media_type config))
     else Inr config)"

text \<open>\<open>read\<close> is the content of the file, or the text of the error of reading it.\<close>

definition signing_config_from_file :: "(string \<Rightarrow> (tuf_signing_config, string) result) \<Rightarrow> string
    \<Rightarrow> (string, string) result \<Rightarrow> (tuf_signing_config, trust_error) result" where
  "signing_config_from_file de path read =
     and_then (map_err (\<lambda>e. TMissingField (''Failed to read file '' @ path @ '': '' @ e)) read)
       (signing_config_from_json de)"

definition get_rekor_urls :: "endpoint_clock \<Rightarrow> nat option \<Rightarrow> tuf_signing_config \<Rightarrow> service_endpoint list" where
  "get_rekor_urls now force_version config =
     sort_key (\<lambda>e. - int (se_major_api_version e)) (filter (\<lambda>e.
       if \<not> endpoint_is_valid now e then False
       else if se_major_api_version e \<notin> set SUPPORTED_REKOR_VERSIONS then False
       else case force_version of Some v \<Rightarrow> se_major_api_version e = v | None \<Rightarrow> True) (tsc_rekor_tlog_urls config))"

definition first_of :: "'a list \<Rightarrow> 'a option" where
  "first_of xs = (case xs of [] \<Rightarrow> None | x # _ \<Rightarrow> Some x)"

definition get_rekor_url :: "endpoint_clock \<Rightarrow> nat option \<Rightarrow> tuf_signing_config \<Rightarrow> service_endpoint option" where
  "get_rekor_url now force_version config = first_of (get_rekor_urls now force_version config)"

definition get_fulcio_urls :: "endpoint_clock \<Rightarrow> tuf_signing_config \<Rightarrow> service_endpoint list" where
  "get_fulcio_urls now config = filter (\<lambda>e. endpoint_is_valid now e
     \<and> se_major_api_version e \<in> set SUPPORTED_FULCIO_VERSIONS) (tsc_ca_urls config)"

definition get_fulcio_url :: "endpoint_clock \<Rightarrow> tuf_signing_config \<Rightarrow> service_endpoint option" where
  "get_fulcio_url now config = first_of (get_fulcio_urls now config)"

definition get_tsa_urls :: "endpoint_clock \<Rightarrow> tuf_signing_config \<Rightarrow> service_endpoint list" where
  "get_tsa_urls now config = filter (\<lambda>e. endpoint_is_valid now e
     \<and> se_major_api_version e \<in> set SUPPORTED_TSA_VERSIONS) (tsc_tsa_urls config)"

definition get_tsa_url :: "endpoint_clock \<Rightarrow> tuf_signing_config \<Rightarrow> service_endpoint option" where
  "get_tsa_url now config = first_of (get_tsa_urls now config)"

definition get_oidc_urls :: "endpoint_clock \<Rightarrow> tuf_signing_config \<Rightarrow> service_endpoint list" where
  "get_oidc_urls now config = filter (endpoint_is_valid now) (tsc_oidc_urls config)"

definition get_oidc_url :: "endpoint_clock \<Rightarrow> tuf_signing_config \<Rightarrow> service_endpoint option" where
  "get_oidc_url now config = first_of (get_oidc_urls now config)"

subsection \<open>The endpoint selected\<close>

definition usable_rekor :: "endpoint_clock \<Rightarrow> nat option \<Rightarrow> tuf_signing_config \<Rightarrow> service_endpoint set" where
  "usable_rekor now fv config = {e \<in> set (tsc_rekor_tlog_urls config). endpoint_is_valid now e
     \<and> se_major_api_version e \<in> {1, 2} \<and> (\<forall>v. fv = Some v \<longrightarrow> se_major_api_version e = v)}"

lemma set_get_rekor_urls: "set (get_rekor_urls now fv config) = usable_rekor now fv config"
  by (cases fv) (auto simp: get_rekor_urls_def usable_rekor_def SUPPORTED_REKOR_VERSIONS_def)

text \<open>
  The log selected is usable and no usable log has a later version; one is selected exactly when
  there is a usable one, and among those of its version it is the one the configuration lists first.
\<close>

lemma get_rekor_url_best:
  "(case get_rekor_url now fv config of
      None \<Rightarrow> usable_rekor now fv config = {}
    | Some e \<Rightarrow> e \<in> usable_rekor now fv config
        \<and> (\<forall>e' \<in> usable_rekor now fv config. se_major_api_version e' \<le> se_major_api_version e))"
proof (cases "get_rekor_urls now fv config")
  case Nil
  then show ?thesis
    using set_get_rekor_urls [of now fv config] by (simp add: get_rekor_url_def first_of_def)
next
  case (Cons e es)
  have "sorted (map (\<lambda>e. - int (se_major_api_version e)) (get_rekor_urls now fv config))"
    unfolding get_rekor_urls_def by (rule sorted_sort_key)
  with Cons show ?thesis
    using set_get_rekor_urls [of now fv config] by (force simp: get_rekor_url_def first_of_def)
qed

lemma get_rekor_url_first:
  assumes "get_rekor_url now fv config = Some e"
  shows "first_of (filter (\<lambda>x. se_major_api_version x = se_major_api_version e \<and> x \<in> usable_rekor now fv config)
    (tsc_rekor_tlog_urls config)) = Some e"
proof -
  let ?key = "\<lambda>e. - int (se_major_api_version e)"
  define P where "P = (\<lambda>e. if \<not> endpoint_is_valid now e then False
       else if se_major_api_version e \<notin> set SUPPORTED_REKOR_VERSIONS then False
       else case fv of Some v \<Rightarrow> se_major_api_version e = v | None \<Rightarrow> True)"
  obtain es where es: "sort_key ?key (filter P (tsc_rekor_tlog_urls config)) = e # es"
    using assms by (auto simp: get_rekor_url_def first_of_def get_rekor_urls_def P_def split: list.splits)
  have "e # filter (\<lambda>x. ?key x = ?key e) es = filter (\<lambda>x. ?key x = ?key e) (sort_key ?key (filter P (tsc_rekor_tlog_urls config)))"
    by (simp add: es)
  also have "\<dots> = filter (\<lambda>x. ?key x = ?key e) (filter P (tsc_rekor_tlog_urls config))"
    by (rule sort_key_stable)
  also have "\<dots> = filter (\<lambda>x. se_major_api_version x = se_major_api_version e \<and> x \<in> usable_rekor now fv config)
      (tsc_rekor_tlog_urls config)"
    unfolding filter_filter
  proof (rule filter_cong [OF refl])
    fix x assume "x \<in> set (tsc_rekor_tlog_urls config)"
    then have "x \<in> usable_rekor now fv config \<longleftrightarrow> P x"
      by (cases fv) (simp_all add: P_def usable_rekor_def SUPPORTED_REKOR_VERSIONS_def)
    then show "P x \<and> ?key x = ?key e \<longleftrightarrow>
        se_major_api_version x = se_major_api_version e \<and> x \<in> usable_rekor now fv config" by auto
  qed
  finally have "filter (\<lambda>x. se_major_api_version x = se_major_api_version e \<and> x \<in> usable_rekor now fv config)
      (tsc_rekor_tlog_urls config) = e # filter (\<lambda>x. ?key x = ?key e) es" by (rule sym)
  then show ?thesis by (simp only: first_of_def list.case)
qed

end
