(* ===== verification/Signer.thy ===== *)
theory Signer
  imports Fulcio_Client Signing_Config Bundle_Build
begin

text \<open>
  The crate sigstore-sign (src/sign.rs, src/error.rs): the configuration of a signer, signing an
  artifact, attestations and statements, and the entries submitted to the log.  The services are
  the parameter \<open>net\<close>; the randomness a signing draws is a record.  The embedded signing
  configurations are data files and are passed to \<open>production\<close> and \<open>staging\<close>, whose \<open>expect\<close> is \<open>None\<close>.
\<close>

datatype sign_error =
    SSigning string
  | SConfig string
  | STypes types_error
  | SCrypto crypto_error
  | SBundle bundle_error
  | SRekor rekor_error
  | SFulcio fulcio_error
  | SOidc oidc_error

fun fmt_sign_error :: "sign_error \<Rightarrow> string" where
  "fmt_sign_error (SSigning s) = ''Signing error: '' @ s"
| "fmt_sign_error (SConfig s) = ''Config error: '' @ s"
| "fmt_sign_error (STypes e) = ''Types error: '' @ fmt_types_error e"
| "fmt_sign_error (SCrypto e) = ''Crypto error: '' @ fmt_crypto_error e"
| "fmt_sign_error (SBundle e) = ''Bundle error: '' @ fmt_bundle_error e"
| "fmt_sign_error (SRekor e) = ''Rekor error: '' @ fmt_rekor_error e"
| "fmt_sign_error (SFulcio e) = ''Fulcio error: '' @ fmt_fulcio_error e"
| "fmt_sign_error (SOidc e) = ''OIDC error: '' @ fmt_oidc_error e"

subsection \<open>Configuration\<close>

record sign_config =
  cfg_fulcio_url :: string
  cfg_rekor_url :: string
  cfg_tsa_url :: "string option"
  cfg_signing_scheme :: signing_scheme
  cfg_rekor_api_version :: rekor_api_version
  cfg_oidc_url :: "string option"

definition default_rekor_api_version :: rekor_api_version where
  "default_rekor_api_version = V1"

definition default_sign_config :: sign_config where
  "default_sign_config =
     \<lparr>cfg_fulcio_url = ''https://fulcio.sigstore.dev'', cfg_rekor_url = rekor_default_url default_rekor_api_version,
      cfg_tsa_url = Some ''https://timestamp.sigstore.dev/api/v1/timestamp'',
      cfg_signing_scheme = EcdsaP256Sha256, cfg_rekor_api_version = default_rekor_api_version,
      cfg_oidc_url = Some ''https://oauth2.sigstore.dev/auth''\<rparr>"

definition from_tuf_config_with_rekor_version :: "endpoint_clock \<Rightarrow> tuf_signing_config \<Rightarrow> nat option
    \<Rightarrow> (sign_config, sign_error) result" where
  "from_tuf_config_with_rekor_version now tuf_config force_rekor_version =
     and_then (ok_or (SConfig ''Missing Fulcio URL in TUF config'')
       (map_option se_url (get_fulcio_url now tuf_config))) (\<lambda>fulcio_url.
     and_then (case get_rekor_url now force_rekor_version tuf_config of
         Some rekor \<Rightarrow> Inr (se_url rekor, if se_major_api_version rekor = 2 then V2 else V1)
       | None \<Rightarrow> Inl (SConfig ''Missing Rekor URL in TUF config'')) (\<lambda>(rekor_url, rekor_api_version).
     Inr \<lparr>cfg_fulcio_url = fulcio_url, cfg_rekor_url = rekor_url,
       cfg_tsa_url = map_option se_url (get_tsa_url now tuf_config), cfg_signing_scheme = EcdsaP256Sha256,
       cfg_rekor_api_version = rekor_api_version,
       cfg_oidc_url = map_option se_url (get_oidc_url now tuf_config)\<rparr>))"

definition from_tuf_config :: "endpoint_clock \<Rightarrow> tuf_signing_config \<Rightarrow> (sign_config, sign_error) result" where
  "from_tuf_config now tuf_config = from_tuf_config_with_rekor_version now tuf_config None"

definition embedded_config :: "(string \<Rightarrow> (tuf_signing_config, string) result) \<Rightarrow> endpoint_clock \<Rightarrow> string
    \<Rightarrow> sign_config option" where
  "embedded_config de now json =
     (case signing_config_from_json de json of
        Inl e \<Rightarrow> None
      | Inr tuf_config \<Rightarrow> (case from_tuf_config now tuf_config of Inl e \<Rightarrow> None | Inr config \<Rightarrow> Some config))"

definition with_rekor_version :: "sign_config \<Rightarrow> rekor_api_version \<Rightarrow> sign_config" where
  "with_rekor_version c version = c\<lparr>cfg_rekor_api_version := version, cfg_rekor_url := rekor_default_url version\<rparr>"

record signer =
  sg_identity_token :: identity_token
  sg_signing_scheme :: signing_scheme
  sg_fulcio_url :: string
  sg_rekor_url :: string
  sg_tsa_url :: "string option"
  sg_rekor_api_version :: rekor_api_version

text \<open>A \<open>SigningContext\<close> is its configuration.\<close>

definition signer_of :: "sign_config \<Rightarrow> identity_token \<Rightarrow> signer" where
  "signer_of config token =
     \<lparr>sg_identity_token = token, sg_signing_scheme = cfg_signing_scheme config,
      sg_fulcio_url = cfg_fulcio_url config, sg_rekor_url = cfg_rekor_url config,
      sg_tsa_url = cfg_tsa_url config, sg_rekor_api_version = cfg_rekor_api_version config\<rparr>"

subsection \<open>The services\<close>

record draws =
  dr_key :: bytes
  dr_proof :: bytes
  dr_signature :: bytes
  dr_nonce :: u64

record signer_externals = fulcio_externals +
  ser_statement :: "statement \<Rightarrow> (bytes, string) result"
  ser_envelope :: "dsse_envelope \<Rightarrow> string"

fun debug_scheme :: "signing_scheme \<Rightarrow> string" where
  "debug_scheme EcdsaP256Sha256 = ''EcdsaP256Sha256''"
| "debug_scheme EcdsaP256Sha384 = ''EcdsaP256Sha384''"
| "debug_scheme EcdsaP384Sha256 = ''EcdsaP384Sha256''"
| "debug_scheme EcdsaP384Sha384 = ''EcdsaP384Sha384''"
| "debug_scheme Ed25519 = ''Ed25519''"
| "debug_scheme RsaPssSha256 = ''RsaPssSha256''"
| "debug_scheme RsaPssSha384 = ''RsaPssSha384''"
| "debug_scheme RsaPssSha512 = ''RsaPssSha512''"
| "debug_scheme RsaPkcs1Sha256 = ''RsaPkcs1Sha256''"
| "debug_scheme RsaPkcs1Sha384 = ''RsaPkcs1Sha384''"
| "debug_scheme RsaPkcs1Sha512 = ''RsaPkcs1Sha512''"

definition generate_ephemeral_keypair :: "'z fulcio_externals_scheme \<Rightarrow> signer \<Rightarrow> bytes \<Rightarrow> (bytes, sign_error) result" where
  "generate_ephemeral_keypair X sg random =
     (if sg_signing_scheme sg = EcdsaP256Sha256 then
        map_err (\<lambda>e. SSigning (''Failed to generate ECDSA P-256 key pair: '' @ fmt_crypto_error e))
          (generate_ecdsa_p256 X random)
      else Inl (SSigning (''Signing scheme '' @ debug_scheme (sg_signing_scheme sg) @ '' not yet supported'')))"

definition request_certificate :: "'z fulcio_externals_scheme \<Rightarrow> net \<Rightarrow> signer \<Rightarrow> bytes \<Rightarrow> bytes
    \<Rightarrow> (der_certificate, sign_error) result" where
  "request_certificate X net sg random key_pair =
     and_then (map_err (\<lambda>e. SSigning (''Failed to get certificate from Fulcio: '' @ fmt_fulcio_error e))
       (create_signing_certificate X net (sg_fulcio_url sg) random (sg_identity_token sg) key_pair)) (\<lambda>cert_response.
     map_err (\<lambda>e. SSigning (''Failed to get certificate: '' @ fmt_fulcio_error e)) (leaf_certificate X cert_response))"

definition create_rekor_entry :: "'z rekor_client_externals_scheme \<Rightarrow> net \<Rightarrow> signer \<Rightarrow> sha256_hash \<Rightarrow> signature_bytes
    \<Rightarrow> der_certificate \<Rightarrow> (tlog_entry, sign_error) result" where
  "create_rekor_entry X net sg artifact_hash signature certificate =
     and_then (map_err (\<lambda>e. SSigning (''Failed to create Rekor entry: '' @ fmt_rekor_error e))
       (case sg_rekor_api_version sg of
          V1 \<Rightarrow> map_sum (\<lambda>e. e) (\<lambda>entry. (entry, ''0.0.1''))
            (create_entry X net (sg_rekor_url sg) (hashed_rekord_new X artifact_hash signature certificate))
        | V2 \<Rightarrow> map_sum (\<lambda>e. e) (\<lambda>entry. (entry, ''0.0.2''))
            (create_entry_v2 X net (sg_rekor_url sg) (hashed_rekord_v2_new artifact_hash signature certificate))))
       (\<lambda>(log_entry, version). Inr (from_log_entry X log_entry ''hashedrekord'' version))"

definition request_timestamp :: "'z tsa_client_externals_scheme \<Rightarrow> net \<Rightarrow> u64 \<Rightarrow> string \<Rightarrow> signature_bytes
    \<Rightarrow> (bytes, sign_error) result" where
  "request_timestamp X net random tsa_url signature =
     map_err (\<lambda>e. SSigning (''Failed to get timestamp: '' @ fmt_tsa_error e))
       (timestamp_signature X net tsa_url random signature)"

definition optional_timestamp :: "'z tsa_client_externals_scheme \<Rightarrow> net \<Rightarrow> signer \<Rightarrow> u64 \<Rightarrow> signature_bytes
    \<Rightarrow> (bytes option, sign_error) result" where
  "optional_timestamp X net sg random signature =
     (case sg_tsa_url sg of
        Some tsa_url \<Rightarrow> map_sum (\<lambda>e. e) Some (request_timestamp X net random tsa_url signature)
      | None \<Rightarrow> Inr None)"

definition create_dsse_rekor_entry :: "'z signer_externals_scheme \<Rightarrow> net \<Rightarrow> signer \<Rightarrow> dsse_envelope
    \<Rightarrow> der_certificate \<Rightarrow> (tlog_entry, sign_error) result" where
  "create_dsse_rekor_entry X net sg envelope certificate =
     (if length (env_signatures envelope) \<noteq> 1 then
        Inl (SSigning (''DSSE envelope must contain exactly one signature, found ''
          @ fmt_nat (length (env_signatures envelope))))
      else
        and_then (case sg_rekor_api_version sg of
            V1 \<Rightarrow> map_sum (\<lambda>e. SSigning (''Failed to create DSSE Rekor entry: '' @ fmt_rekor_error e))
              (\<lambda>entry. (entry, ''dsse'', ''0.0.1''))
              (create_dsse_entry X net (sg_rekor_url sg) (dsse_entry_new X (ser_envelope X) envelope certificate))
          | V2 \<Rightarrow> map_sum (\<lambda>e. SSigning (''Failed to create Rekor entry for DSSE: '' @ fmt_rekor_error e))
              (\<lambda>entry. (entry, ''hashedrekord'', ''0.0.2''))
              (create_entry_v2 X net (sg_rekor_url sg) (hashed_rekord_v2_new (sha256 X (env_pae envelope))
                (ds_sig (env_signatures envelope ! 0)) certificate)))
          (\<lambda>(log_entry, kind, version). Inr (from_log_entry X log_entry kind version)))"

subsection \<open>Signing\<close>

definition add_timestamp :: "bundle_v03 \<Rightarrow> bytes option \<Rightarrow> bundle_v03" where
  "add_timestamp b ts = (case ts of Some t \<Rightarrow> with_rfc3161_timestamp b t | None \<Rightarrow> b)"

definition sign :: "'z signer_externals_scheme \<Rightarrow> net \<Rightarrow> signer \<Rightarrow> draws \<Rightarrow> artifact
    \<Rightarrow> (sigstore_bundle, sign_error) result" where
  "sign X net sg rnd artifact =
     and_then (case artifact of
         Bytes b \<Rightarrow> Inr b
       | Digest h \<Rightarrow> Inl (SSigning (''Cannot create hashedrekord bundle with only a digest. ''
           @ ''The raw artifact bytes are required to create the signature. ''
           @ ''Use sign_attestation() to create a DSSE bundle with just a digest.''))) (\<lambda>bs.
     and_then (generate_ephemeral_keypair X sg (dr_key rnd)) (\<lambda>key_pair.
     and_then (request_certificate X net sg (dr_proof rnd) key_pair) (\<lambda>leaf_cert_der.
     and_then (map_err SCrypto (key_sign X (dr_signature rnd) key_pair bs)) (\<lambda>signature.
     let artifact_hash = sha256 X bs in
     and_then (create_rekor_entry X net sg artifact_hash signature leaf_cert_der) (\<lambda>tlog_entry.
     and_then (optional_timestamp X net sg (dr_nonce rnd) signature) (\<lambda>timestamp.
     let b = with_tlog_entry (with_certificate_and_signature leaf_cert_der signature artifact_hash) tlog_entry in
     Inr (into_bundle (add_timestamp b timestamp))))))))"

definition sign_raw_statement :: "'z signer_externals_scheme \<Rightarrow> net \<Rightarrow> signer \<Rightarrow> draws \<Rightarrow> bytes
    \<Rightarrow> (sigstore_bundle, sign_error) result" where
  "sign_raw_statement X net sg rnd statement_bytes =
     and_then (generate_ephemeral_keypair X sg (dr_key rnd)) (\<lambda>key_pair.
     and_then (request_certificate X net sg (dr_proof rnd) key_pair) (\<lambda>leaf_cert_der.
     and_then (ensure (is_ok (and_then (from_utf8 X statement_bytes) (de_statement X)))
       (SSigning ''Provided statement is not a valid in-toto Statement'')) (\<lambda>_.
     let ptype = ''application/vnd.in-toto+json'' in
     and_then (map_err SCrypto (key_sign X (dr_signature rnd) key_pair (pae ptype statement_bytes))) (\<lambda>signature.
     let envelope = \<lparr>payload_type = ptype, payload = statement_bytes,
       env_signatures = [\<lparr>ds_sig = signature, ds_keyid = []\<rparr>]\<rparr> in
     and_then (create_dsse_rekor_entry X net sg envelope leaf_cert_der) (\<lambda>tlog_entry.
     and_then (optional_timestamp X net sg (dr_nonce rnd) signature) (\<lambda>timestamp.
     let b = with_tlog_entry (with_certificate_and_dsse leaf_cert_der envelope) tlog_entry in
     Inr (into_bundle (add_timestamp b timestamp))))))))"

subsection \<open>Attestations\<close>

record attestation =
  att_subjects :: "(string \<times> sha256_hash) list"
  att_predicate_type :: string
  att_predicate :: json

definition attestation_new :: "string \<Rightarrow> json \<Rightarrow> attestation" where
  "attestation_new ptype pred = \<lparr>att_subjects = [], att_predicate_type = ptype, att_predicate = pred\<rparr>"

definition add_subject :: "attestation \<Rightarrow> string \<Rightarrow> sha256_hash \<Rightarrow> attestation" where
  "add_subject a name digest = a\<lparr>att_subjects := att_subjects a @ [(name, digest)]\<rparr>"

fun with_subjects :: "attestation \<Rightarrow> (string \<times> sha256_hash) list \<Rightarrow> attestation" where
  "with_subjects a [] = a"
| "with_subjects a ((name, digest) # subjects) = with_subjects (add_subject a name digest) subjects"

definition build_statement :: "'z externals_scheme \<Rightarrow> attestation \<Rightarrow> statement" where
  "build_statement X a =
     \<lparr>st_type = ''https://in-toto.io/Statement/v1'',
      st_subject = map (\<lambda>(name, digest). \<lparr>subj_name = name,
        subj_digest = \<lparr>dg_sha256 = Some (hex_encode X digest), dg_sha512 = None\<rparr>\<rparr>) (att_subjects a),
      predicate_type = att_predicate_type a, st_predicate = att_predicate a\<rparr>"

definition sign_attestation :: "'z signer_externals_scheme \<Rightarrow> net \<Rightarrow> signer \<Rightarrow> draws \<Rightarrow> attestation
    \<Rightarrow> (sigstore_bundle, sign_error) result" where
  "sign_attestation X net sg rnd attestation =
     and_then (map_err (\<lambda>e. SSigning (''Failed to serialize statement: '' @ e))
       (ser_statement X (build_statement X attestation))) (\<lambda>statement_json.
     sign_raw_statement X net sg rnd statement_json)"

subsection \<open>Lemmas\<close>

lemma with_subjects_all: "with_subjects a xs = a\<lparr>att_subjects := att_subjects a @ xs\<rparr>"
  by (induction a xs rule: with_subjects.induct) (simp_all add: add_subject_def)

lemma build_statement_names:
  "(name, d) \<in> set (att_subjects a) \<Longrightarrow> matches_sha256 (build_statement X a) (hex_encode X d)"
  by (force simp: matches_sha256_def build_statement_def list_ex_iff)

text \<open>The bundle a signing returns, from the certificate, signature, entry and timestamp obtained.\<close>

definition made_bundle :: "der_certificate \<Rightarrow> signature_content \<Rightarrow> tlog_entry \<Rightarrow> bytes option \<Rightarrow> sigstore_bundle" where
  "made_bundle cert content entry ts =
     \<lparr>b_media_type = media_type_str Bundle0_3,
      b_material = \<lparr>vm_content = Certificate cert, tlog_entries = [entry],
        rfc3161_timestamps = (case ts of None \<Rightarrow> [] | Some t \<Rightarrow> [t])\<rparr>,
      b_content = content\<rparr>"

definition signed_message :: "'z externals_scheme \<Rightarrow> signature_bytes \<Rightarrow> bytes \<Rightarrow> signature_content" where
  "signed_message X sg d = MessageSignature
     \<lparr>msg_digest = Some \<lparr>md_algorithm = Sha2256, md_digest = sha256 X d\<rparr>, msg_signature = sg\<rparr>"

definition signed_envelope :: "signature_bytes \<Rightarrow> bytes \<Rightarrow> dsse_envelope" where
  "signed_envelope sg statement = \<lparr>payload_type = ''application/vnd.in-toto+json'', payload = statement,
     env_signatures = [\<lparr>ds_sig = sg, ds_keyid = []\<rparr>]\<rparr>"

lemma into_made_bundle:
  "into_bundle (add_timestamp (with_tlog_entry (with_certificate_and_signature cert sg (sha256 X d)) entry) ts)
     = made_bundle cert (signed_message X sg d) entry ts"
  "into_bundle (add_timestamp (with_tlog_entry (with_certificate_and_dsse cert (signed_envelope sg d)) entry) ts)
     = made_bundle cert (DsseEnvelope (signed_envelope sg d)) entry ts"
  by (simp_all add: into_bundle_def add_timestamp_def with_tlog_entry_def with_certificate_and_signature_def
      with_certificate_and_dsse_def v03_new_def made_bundle_def signed_message_def with_rfc3161_timestamp_def
      split: option.split)

text \<open>
  The steps of a signing that succeeds: a fresh P-256 key, the certificate for it, a signature
  with it, and the log entry and timestamp for the signature.
\<close>

definition signing_steps :: "'z signer_externals_scheme \<Rightarrow> net \<Rightarrow> signer \<Rightarrow> draws \<Rightarrow> bytes
    \<Rightarrow> bytes \<Rightarrow> der_certificate \<Rightarrow> signature_bytes \<Rightarrow> bytes option \<Rightarrow> bool" where
  "signing_steps X net sg rnd data kp cert s ts \<longleftrightarrow>
     sg_signing_scheme sg = EcdsaP256Sha256 \<and> generate_ecdsa_p256 X (dr_key rnd) = Inr kp
     \<and> request_certificate X net sg (dr_proof rnd) kp = Inr cert
     \<and> p256_sign (p256 X) (dr_signature rnd) kp data = Some s
     \<and> optional_timestamp X net sg (dr_nonce rnd) s = Inr ts"

lemma generate_ephemeral_keypair_Inr [result_simps]:
  "generate_ephemeral_keypair X sg r = Inr kp \<longleftrightarrow>
     sg_signing_scheme sg = EcdsaP256Sha256 \<and> generate_ecdsa_p256 X r = Inr kp"
  by (auto simp: generate_ephemeral_keypair_def result_simps)

lemma key_sign_Inr [result_simps]: "key_sign X r kp d = Inr s \<longleftrightarrow> p256_sign (p256 X) r kp d = Some s"
  by (simp add: key_sign_def result_simps)

lemma sign_Inr:
  "sign X net sg rnd artifact = Inr b \<longleftrightarrow>
     (\<exists>d kp cert s entry ts. artifact = Bytes d \<and> signing_steps X net sg rnd d kp cert s ts
        \<and> create_rekor_entry X net sg (sha256 X d) s cert = Inr entry
        \<and> b = made_bundle cert (signed_message X s d) entry ts)"
  by (auto simp: sign_def signing_steps_def result_simps Let_def into_made_bundle split: artifact.splits)

lemma sign_raw_statement_Inr:
  "sign_raw_statement X net sg rnd d = Inr b \<longleftrightarrow>
     (\<exists>kp cert s entry ts st. signing_steps X net sg rnd (pae ''application/vnd.in-toto+json'' d) kp cert s ts
        \<and> utf8_error X d = None \<and> de_statement X (of_bytes d) = Inr st
        \<and> create_dsse_rekor_entry X net sg (signed_envelope s d) cert = Inr entry
        \<and> b = made_bundle cert (DsseEnvelope (signed_envelope s d)) entry ts)"
  unfolding sign_raw_statement_def Let_def signed_envelope_def [symmetric] into_made_bundle
  by (auto simp: signing_steps_def result_simps is_ok_iff)

end
