(* ===== verification/Sign_Correct.thy ===== *)
theory Sign_Correct
  imports Signer Verify_Correct
begin

text \<open>
  The signer and the verifier agree: over services that do what they promise, the verification of
  a bundle that a signing returned depends on the evidence of the services alone, never on the
  content of the bundle.
\<close>

subsection \<open>When verification accepts\<close>

text \<open>The evidence of the services in a bundle, as the verifier checks it for a certificate \<open>ci\<close>.\<close>

definition services_evidence :: "'z pki_externals_scheme \<Rightarrow> clock \<Rightarrow> trusted_root \<Rightarrow> sigstore_bundle
    \<Rightarrow> verification_policy \<Rightarrow> certificate_info \<Rightarrow> bool" where
  "services_evidence X clock root b p ci \<longleftrightarrow>
     validate_bundle_with_options X b \<lparr>require_inclusion_proof = p_verify_tlog p, require_timestamp = False\<rparr> = Inr ()
     \<and> (\<exists>sg t. extract_signature (b_content b) = Inr sg \<and> determine_validation_time X clock b sg root = Inr t
          \<and> (p_verify_certificate p \<longrightarrow>
               verify_certificate_chain X (clock FulcioChain) (vm_content (b_material b)) t root = Inr ()
               \<and> validate_certificate_time t ci = Inr ()))
     \<and> (p_verify_sct p \<longrightarrow>
          verify_sct_of X (clock FulcioIssuer) (clock CtKeys) (vm_content (b_material b)) root = Inr ())
     \<and> (p_identity p = None \<or> p_identity p = ci_identity ci) \<and> (p_issuer p = None \<or> p_issuer p = ci_issuer ci)
     \<and> (p_verify_tlog p \<longrightarrow>
          (\<exists>it. verify_tlog_entries X clock b root (ci_not_before ci) (ci_not_after ci)
             (p_clock_skew_seconds p) = Inr it)
          \<and> (\<forall>e \<in> set (tlog_entries (b_material b)).
               te_kind e = ''hashedrekord'' \<longrightarrow> validate_integrated_time X e b = Inr ()))"

lemma and_then_Inr_right [simp]: "and_then r Inr = r"
  by (cases r) simp_all

lemma check_expected_unit: "check_expected what field e a = Inr () \<longleftrightarrow> e = None \<or> e = a"
  by (auto simp: check_expected_Inr)

lemma verifier_verify_accepts:
  assumes "extract_certificate (vm_content (b_material b)) = Inr cert" "parse_certificate_info X cert = Inr ci"
    and content: "check_content X ci b artifact = Inr ()"
    and logged: "p_verify_tlog p \<Longrightarrow> verify_tlog_consistency X b artifact = Inr () \<longleftrightarrow>
       (\<forall>e \<in> set (tlog_entries (b_material b)).
          te_kind e = ''hashedrekord'' \<longrightarrow> validate_integrated_time X e b = Inr ())"
  shows "(\<exists>r. verifier_verify X clock root artifact b p = Inr r) \<longleftrightarrow> services_evidence X clock root b p ci"
proof
  assume "\<exists>r. verifier_verify X clock root artifact b p = Inr r"
  then show "services_evidence X clock root b p ci"
    using assms(1,2) logged
    by (elim exE verifier_verify_Inr) (auto simp: services_evidence_def check_expected_unit)
next
  assume ev: "services_evidence X clock root b p ci"
  then obtain sg t where sg: "extract_signature (b_content b) = Inr sg" "determine_validation_time X clock b sg root = Inr t"
    "p_verify_certificate p \<longrightarrow> verify_certificate_chain X (clock FulcioChain) (vm_content (b_material b)) t root = Inr ()
       \<and> validate_certificate_time t ci = Inr ()"
    by (auto simp: services_evidence_def)
  from ev logged have log: "p_verify_tlog p \<longrightarrow>
      (\<exists>it. verify_tlog_entries X clock b root (ci_not_before ci) (ci_not_after ci) (p_clock_skew_seconds p) = Inr it)
      \<and> verify_tlog_consistency X b artifact = Inr ()"
    by (auto simp: services_evidence_def)
  have fold: "(case b_content b of
         DsseEnvelope envelope \<Rightarrow>
           and_then (check_dsse_signatures X (ci_public_key ci)
             (default_signing_scheme (ci_key_algorithm ci)) envelope) (\<lambda>_.
           verify_dsse_artifact_binding X envelope artifact)
       | MessageSignature ms \<Rightarrow>
           and_then (check_message_digest X ms artifact) (\<lambda>_.
           verify_message_signature_crypto X ci ms artifact)) = Inr ()"
    using content by (simp add: check_content_def)
  show "\<exists>r. verifier_verify X clock root artifact b p = Inr r"
    using ev sg log
    by (auto simp: verifier_verify_def Let_def assms(1,2) fold services_evidence_def check_expected_unit
        and_then_Inr_iff if_check_Inr result_success_def)
qed

subsection \<open>What the services and the codecs promise\<close>

text \<open>A signature made with a P-256 key verifies with its exported public key.\<close>

definition p256_correct :: "'z fulcio_externals_scheme \<Rightarrow> bool" where
  "p256_correct X \<longleftrightarrow>
     (\<forall>r kp data s key. p256_sign (p256 X) r kp data = Some s \<longrightarrow> public_key_der X kp = Inr key \<longrightarrow>
        (\<exists>raw. spki_key_bits X key = Inr raw \<and> aws_verify X ECDSA_P256_SHA256_ASN1 raw data s))"

text \<open>Hex and the PEM of a certificate decode to what was encoded, and digests have their length.\<close>

definition codecs_ok :: "'z externals_scheme \<Rightarrow> der_certificate \<Rightarrow> bool" where
  "codecs_ok X cert \<longleftrightarrow>
     (\<forall>b. hex_decode X (hex_encode X b) = Inr b) \<and> (\<forall>b. length (sha256 X b) = 32)
     \<and> utf8_error X (as_bytes (certificate_to_pem X cert)) = None
     \<and> certificate_from_pem X (certificate_to_pem X cert) = Inr cert"

text \<open>The body that a log recorded holds what the request for it submitted.\<close>

fun records_request :: "'z externals_scheme \<Rightarrow> sha256_hash \<Rightarrow> bytes \<Rightarrow> signature_bytes \<Rightarrow> der_certificate
    \<Rightarrow> rekor_body \<Rightarrow> bool" where
  "records_request X h pl s cert (HashedRekordV001 r) \<longleftrightarrow>
     (let q = hashed_rekord_new X h s cert in
      h1_value r = hr_value q \<and> h1_signature r = hr_signature q \<and> h1_public_key r = hr_public_key q)"
| "records_request X h pl s cert (HashedRekordV002 r) \<longleftrightarrow>
     (let q = hashed_rekord_v2_new h s cert in
      h2_digest r = hr2_digest q \<and> h2_signature r = hr2_signature q \<and> h2_certificate r = hr2_certificate q)"
| "records_request X h pl s cert (DsseV001 r) \<longleftrightarrow>
     d1_payload_hash r = hex_encode X (sha256 X pl)
     \<and> d1_signatures r = [\<lparr>d1_signature = s, d1_verifier = as_bytes (certificate_to_pem X cert)\<rparr>]"
| "records_request X h pl s cert _ \<longleftrightarrow> False"

definition log_recorded :: "'z rekor_externals_scheme \<Rightarrow> sha256_hash \<Rightarrow> bytes \<Rightarrow> signature_bytes \<Rightarrow> der_certificate
    \<Rightarrow> tlog_entry \<Rightarrow> bool" where
  "log_recorded X h pl s cert e \<longleftrightarrow>
     (\<exists>body. parse_entry_body X e = Inr body \<and> records_request X h pl s cert body)"

text \<open>
  What is asked of the services that made a bundle of \<open>data\<close>: the certificate is for the key of the
  signing, and when the log is to be checked, it recorded the request (\<open>pl\<close> is a payload).
\<close>

definition services_honest :: "'z signer_externals_scheme \<Rightarrow> draws \<Rightarrow> sigstore_bundle \<Rightarrow> verification_policy
    \<Rightarrow> der_certificate \<Rightarrow> certificate_info \<Rightarrow> bytes \<Rightarrow> bytes \<Rightarrow> bool" where
  "services_honest X rnd b policy cert ci data pl \<longleftrightarrow>
     bundle_cert b = Some cert \<and> parse_certificate_info X cert = Inr ci \<and> ci_key_algorithm ci = KaEcdsaP256
     \<and> (\<forall>kp. generate_ecdsa_p256 X (dr_key rnd) = Inr kp \<longrightarrow> public_key_der X kp = Inr (ci_public_key ci))
     \<and> (p_verify_tlog policy \<longrightarrow> (\<forall>e s. e \<in> set (tlog_entries (b_material b)) \<longrightarrow> first_signature b = Some s
          \<longrightarrow> log_recorded X (sha256 X data) pl s cert e))"

subsection \<open>The content of a bundle that was made verifies\<close>

lemma parse_entry_body_kind:
  "parse_entry_body X e = Inr body \<Longrightarrow>
     (case body of
        HashedRekordV001 _ \<Rightarrow> te_kind e = ''hashedrekord'' \<and> te_version e = ''0.0.1''
      | HashedRekordV002 _ \<Rightarrow> te_kind e = ''hashedrekord'' \<and> te_version e = ''0.0.2''
      | DsseV001 _ \<Rightarrow> te_kind e = ''dsse'' \<and> te_version e = ''0.0.1''
      | DsseV002 _ \<Rightarrow> te_kind e = ''dsse'' \<and> te_version e = ''0.0.2''
      | IntotoV002 _ \<Rightarrow> te_kind e = ''intoto'' \<and> te_version e = ''0.0.2'')"
  using from_base64_json_kind [of X "to_base64 X (te_body e)" "te_kind e" "te_version e" body]
  by (simp add: parse_entry_body_def result_simps)

lemma pem_of_certificate: "codecs_ok X cert \<Longrightarrow> pem_to_certificate X (as_bytes (certificate_to_pem X cert)) = Inr cert"
  by (simp add: codecs_ok_def pem_to_certificate_def from_utf8_def)

lemma sha256_of_hex: "codecs_ok X cert \<Longrightarrow> sha256_from_hex X (hex_encode X (sha256 X d)) = Inr (sha256 X d)"
  by (simp add: codecs_ok_def sha256_from_hex_def sha256_try_from_slice_def)

text \<open>A hashedrekord entry that records the request is consistent up to its integrated time.\<close>

lemma made_hashedrekord_consistent:
  assumes "parse_entry_body X e = Inr body" "records_request X (sha256 X d) pl s cert body"
    "\<not> (\<exists>r. body = DsseV001 r)" "codecs_ok X cert"
    and "bundle_cert b = Some cert" "first_signature b = Some s" "signed_digest X b artifact = sha256 X d"
    and "\<And>ms. b_content b = MessageSignature ms \<Longrightarrow> artifact = Bytes d"
  shows "verify_hashedrekord_entry X e b artifact = validate_integrated_time X e b"
proof -
  have hash: "(case b_content b of MessageSignature ms \<Rightarrow> compute_artifact_digest X artifact
       | DsseEnvelope envelope \<Rightarrow> Inr (sha256 X (env_pae envelope))) = Inr (sha256 X d)"
    using assms(7,8) by (cases "b_content b") (auto simp: signed_digest_def)
  have sig: "validate_signature_match body b = Inr ()"
    using assms(2,3,6) by (cases body) (auto simp: validate_signature_match_Inr hashed_rekord_new_def
      hashed_rekord_v2_new_def Let_def)
  show ?thesis
    using assms(1-5) sig sha256_of_hex [OF assms(4)] pem_of_certificate [OF assms(4)]
    by (cases body) (auto simp: verify_hashedrekord_entry_def hash validate_body_hash_def validate_artifact_hash_def
        validate_certificate_match_def hashed_rekord_new_def hashed_rekord_v2_new_def Let_def
        sha256_try_from_slice_def codecs_ok_def)
qed

lemma made_fields [simp]:
  "b_content (made_bundle cert c e ts) = c" "bundle_cert (made_bundle cert c e ts) = Some cert"
  "tlog_entries (b_material (made_bundle cert c e ts)) = [e]"
  "vm_content (b_material (made_bundle cert c e ts)) = Certificate cert"
  by (simp_all add: made_bundle_def bundle_cert_def)

lemma made_message_consistent:
  assumes codecs: "codecs_ok X cert" and rec: "log_recorded X (sha256 X d) pl s cert e" and kind: "te_kind e = ''hashedrekord''"
  shows "verify_tlog_consistency X (made_bundle cert (signed_message X s d) e ts) (Bytes d) = Inr ()
    \<longleftrightarrow> validate_integrated_time X e (made_bundle cert (signed_message X s d) e ts) = Inr ()"
proof -
  from rec obtain body where body: "parse_entry_body X e = Inr body" "records_request X (sha256 X d) pl s cert body"
    unfolding log_recorded_def by blast
  with parse_entry_body_kind [OF body(1)] kind
  have v: "te_version e = ''0.0.1'' \<or> te_version e = ''0.0.2''" "\<not> (\<exists>r. body = DsseV001 r)" by (cases body; simp)+
  have "verify_hashedrekord_entry X e (made_bundle cert (signed_message X s d) e ts) (Bytes d)
      = validate_integrated_time X e (made_bundle cert (signed_message X s d) e ts)"
    by (rule made_hashedrekord_consistent [OF body v(2) codecs])
      (simp_all add: first_signature_def signed_digest_def signed_message_def)
  with v kind show ?thesis
    by (auto simp: verify_tlog_consistency_def signed_message_def consistent_message_def)
qed

lemma made_envelope_consistent:
  assumes codecs: "codecs_ok X cert" and rec: "log_recorded X (sha256 X (env_pae (signed_envelope s st))) st s cert e"
    and sub: "te_kind e = ''dsse'' \<or> (te_kind e = ''hashedrekord'' \<and> te_version e = ''0.0.2'')"
  shows "verify_tlog_consistency X (made_bundle cert (DsseEnvelope (signed_envelope s st)) e ts) artifact = Inr ()
    \<longleftrightarrow> (te_kind e = ''hashedrekord'' \<longrightarrow>
         validate_integrated_time X e (made_bundle cert (DsseEnvelope (signed_envelope s st)) e ts) = Inr ())"
proof -
  let ?b = "made_bundle cert (DsseEnvelope (signed_envelope s st)) e ts"
  from rec obtain body where body: "parse_entry_body X e = Inr body"
    "records_request X (sha256 X (env_pae (signed_envelope s st))) st s cert body"
    unfolding log_recorded_def by blast
  show ?thesis
  proof (cases "\<exists>r. body = DsseV001 r")
    case True
    then obtain r where r: "body = DsseV001 r" by blast
    with body parse_entry_body_kind [OF body(1)] have "te_kind e = ''dsse''" "te_version e = ''0.0.1''"
      "verify_dsse_v001 X e (signed_envelope s st) ?b = Inr ()"
      by (simp_all add: verify_dsse_v001_def signed_envelope_def pem_of_certificate [OF codecs])
    then show ?thesis by (simp add: verify_tlog_consistency_def consistent_dsse_def)
  next
    case False
    with body parse_entry_body_kind [OF body(1)] sub have v: "te_kind e = ''hashedrekord''" "te_version e = ''0.0.2''"
      by (cases body; auto)+
    have "verify_hashedrekord_entry X e ?b artifact = validate_integrated_time X e ?b"
      by (rule made_hashedrekord_consistent [OF body False codecs])
        (simp_all add: first_signature_def signed_digest_def signed_envelope_def)
    with v show ?thesis by (auto simp: verify_tlog_consistency_def consistent_dsse_def)
  qed
qed

text \<open>The key of a signing verifies what was signed with it.\<close>

lemma signing_signature_verifies:
  assumes steps: "signing_steps X net sg rnd data kp cert s ts" and "p256_correct X"
    and "public_key_der X kp = Inr key"
  shows "verify_signature X key data s EcdsaP256Sha256 = Inr ()"
  using assms by (fastforce simp: p256_correct_def signing_steps_def verify_signature_Inr)

lemma made_message_content:
  assumes "verify_signature X (ci_public_key ci) d s EcdsaP256Sha256 = Inr ()" "ci_key_algorithm ci = KaEcdsaP256"
  shows "check_content X ci (made_bundle cert (signed_message X s d) e ts) (Bytes d) = Inr ()"
  using assms
  by (simp add: check_content_def signed_message_def check_message_digest_def verify_message_signature_crypto_def
      verify_signature_over_artifact_def)

lemma made_envelope_content:
  assumes "verify_signature X (ci_public_key ci) (env_pae (signed_envelope s d)) s EcdsaP256Sha256 = Inr ()"
    "ci_key_algorithm ci = KaEcdsaP256"
    and "compute_artifact_digest_algo X artifact Sha2256 = Inr h" "length h = 32"
    and "utf8_error X d = None" "de_statement X (of_bytes d) = Inr st" "matches_sha256 st (hex_encode X h)"
  shows "check_content X ci (made_bundle cert (DsseEnvelope (signed_envelope s d)) e ts) artifact = Inr ()"
  using assms
  by (cases "st_subject st") (auto simp: check_content_def signed_envelope_def check_dsse_signatures_def env_pae_def decode_payload_def
      verify_dsse_artifact_binding_def sha256_try_from_slice_def from_utf8_def matches_sha256_def)

lemma create_rekor_entry_kind:
  "create_rekor_entry X net sg h s cert = Inr e \<Longrightarrow> te_kind e = ''hashedrekord''"
  by (auto simp: create_rekor_entry_def result_simps from_log_entry_def)

lemma create_dsse_rekor_entry_kind:
  "create_dsse_rekor_entry X net sg env cert = Inr e \<Longrightarrow>
     te_kind e = ''dsse'' \<or> (te_kind e = ''hashedrekord'' \<and> te_version e = ''0.0.2'')"
  by (auto simp: create_dsse_rekor_entry_def result_simps from_log_entry_def
      split: if_splits rekor_api_version.splits)

subsection \<open>A sample signer\<close>

text \<open>
  A signer over the functions of Pki_Sample, for the theorems that apply a property at an input: a
  key is the randomness it is drawn from, a signature the key and the length of what is signed.
  Every service answers with status 200: the authority with the certificate of the key 6, the log
  with the entry of Verify_Sample, the timestamp authority with a token.
\<close>

definition sample_p256 :: p256_externals where
  "sample_p256 = \<lparr>p256_generate_pkcs8 = Some, p256_from_pkcs8 = Inr, p256_public_key = (\<lambda>kp. kp),
     p256_sign = (\<lambda>r kp data. Some (kp @ [word_of_nat (length data)]))\<rparr>"

definition sample_token :: identity_token where
  "sample_token = \<lparr>it_raw = ''a.b.c'', it_claims = \<lparr>tc_iss = ''idp'', tc_sub = ''me'', tc_aud = NoAudience, tc_exp = 0,
     tc_iat = 0, tc_email = None, tc_email_verified = None, tc_federated = None\<rparr>\<rparr>"

definition sample_signer :: signer_externals where
  "sample_signer = pki_externals.extend sample_pki (rekor_client_externals_ext
     of_bytes (\<lambda>q. Inr []) (\<lambda>q. Inr []) (\<lambda>q. Inr []) (\<lambda>q. Inr []) (\<lambda>q. Inr []) (\<lambda>q. Inr [])
     (\<lambda>b. Inl ''no'') (\<lambda>b. Inl ''no'')
     (\<lambda>s. Inr \<lparr>e2_log_index = ''0'', e2_log_id = ''rekor'', e2_integrated_time = ''0'', e2_promise = None,
        e2_proof = Some \<lparr>p2_log_index = ''0'', p2_root_hash = sample_root_hash, p2_tree_size = ''1'', p2_hashes = [],
          p2_checkpoint = sample_envelope ''1''\<rparr>, e2_body = as_bytes ''body''\<rparr>)
     (\<lambda>b. Inr [])
     (tsa_client_externals_ext (\<lambda>n. []) (\<lambda>q. Inr []) of_bytes
     (fulcio_externals_ext sample_p256 (\<lambda>s. Inr \<lparr>any_tag = 6, any_value = []\<rparr>) Inr (\<lambda>s. Inr (as_bytes s)) (\<lambda>b. Inr (it_claims sample_token))
        (\<lambda>q. Inr []) (\<lambda>b. Inr \<lparr>sc_embedded_sct = Some [of_bytes [6]], sc_detached_sct = None\<rparr>)
        (\<lambda>c. Inr []) (\<lambda>b. Inl ''no'') (\<lambda>c. Inr []) (\<lambda>b. Inl ''no'')
     (signer_externals_ext (\<lambda>st. Inr (as_bytes ''st'')) (\<lambda>e. []) ()))))"

definition sample_net :: "bytes \<Rightarrow> net" where
  "sample_net token q = Inr \<lparr>rs_status = 200, rs_status_text = ''200 OK'',
     rs_body = Inr (if rq_url q = ''tsa'' then token else [])\<rparr>"

definition sample_signer_config :: signer where
  "sample_signer_config = \<lparr>sg_identity_token = sample_token, sg_signing_scheme = EcdsaP256Sha256, sg_fulcio_url = ''ca'',
     sg_rekor_url = ''log'', sg_tsa_url = Some ''tsa'', sg_rekor_api_version = V2\<rparr>"

definition sample_draws :: draws where
  "sample_draws = \<lparr>dr_key = [6], dr_proof = [], dr_signature = [], dr_nonce = 0\<rparr>"


lemma sample_signer_fields:
  "sha256 sample_signer = fill32" "hex_encode sample_signer = of_bytes" "hex_decode sample_signer = (\<lambda>s. Inr (as_bytes s))"
  "utf8_error sample_signer = (\<lambda>b. None)" "pem_encode sample_signer = (\<lambda>tag b. of_bytes b)"
  "pem_parse sample_signer = (\<lambda>s. Inr (''CERTIFICATE'', as_bytes s))" "spki_key_bits sample_signer = Inr"
  "aws_verify sample_signer = (\<lambda>alg key msg sig. sig = key @ [word_of_nat (length msg)])"
  "spki_to_der sample_signer = (\<lambda>s. ok_or [] (spki_key s))" "p256 sample_signer = sample_p256"
  "any_of_oid sample_signer = (\<lambda>s. Inr \<lparr>any_tag = 6, any_value = []\<rparr>)" "bit_string_from_bytes sample_signer = Inr"
  by (simp_all add: sample_signer_def pki_externals.defs sample_pki_def)

lemma sample_generated: "generate_ecdsa_p256 sample_signer (dr_key sample_draws) = Inr [6]"
  by code_simp

lemma sample_stamped:
  "timestamp_signature sample_signer (sample_net [6, 2]) ''tsa'' 0 [6, 2] = Inr [6, 2]"
  "timestamp_signature sample_signer (sample_net [6, 43]) ''tsa'' 0 [6, 43] = Inr [6, 43]"
  by code_simp+

lemma sample_certified: "request_certificate sample_signer (sample_net token) sample_signer_config [] [6] = Inr [6]"
  by code_simp

lemma sample_signing_steps:
  assumes "[6, word_of_nat (length data)] = token" "token = [6, 2] \<or> token = [6, 43]"
  shows "signing_steps sample_signer (sample_net token) sample_signer_config sample_draws data [6] [6] token (Some token)"
  using assms sample_generated sample_certified sample_stamped
  by (auto simp: signing_steps_def sample_signer_fields optional_timestamp_def request_timestamp_def
      sample_signer_config_def sample_draws_def)
    (auto simp: sample_p256_def)

lemma sample_signs:
  "sign sample_signer (sample_net [6, 2]) sample_signer_config sample_draws (Bytes [1, 2]) = Inr sample_bundle"
proof -
  have "create_rekor_entry sample_signer (sample_net [6, 2]) sample_signer_config (fill32 [1, 2]) [6, 2] [6]
      = Inr (sample_entry ''1'')"
    by code_simp
  moreover have "sample_bundle = made_bundle [6] (signed_message sample_signer [6, 2] [1, 2]) (sample_entry ''1'') (Some [6, 2])"
    by (simp add: sample_bundle_def made_bundle_def signed_message_def sample_signer_fields)
  moreover have "signing_steps sample_signer (sample_net [6, 2]) sample_signer_config sample_draws [1, 2] [6] [6] [6, 2] (Some [6, 2])"
    by (rule sample_signing_steps) simp_all
  ultimately show ?thesis
    unfolding sign_Inr sample_signer_fields(1) [symmetric] by blast
qed

lemma sample_public_key: "public_key_der sample_signer kp = Inr kp"
  by (simp add: public_key_der_def sample_signer_fields sample_p256_def)

lemma sample_p256_correct: "p256_correct sample_signer"
  by (auto simp: p256_correct_def sample_public_key sample_signer_fields sample_p256_def)

lemma length_fill32 [simp]: "length (fill32 b) = 32"
  by (simp add: fill32_def)

lemma sample_codecs: "codecs_ok sample_signer cert"
  by (simp add: codecs_ok_def sample_signer_fields certificate_to_pem_def certificate_from_pem_def from_pem_tag_def)

lemma sample_info_of: "parse_certificate_info sample_signer [6] = Inr sample_info"
  by code_simp

lemma sample_recorded: "log_recorded sample_signer (fill32 [1, 2]) [] [6, 2] [6] (sample_entry ''1'')"
proof -
  have "parse_entry_body sample_signer (sample_entry ''1'') = Inr (HashedRekordV002 \<lparr>h2_digest = fill32 [1, 2],
      h2_signature = [6, 2], h2_certificate = Some [6], h2_public_key = None\<rparr>)"
    by code_simp
  then show ?thesis by (simp add: log_recorded_def hashed_rekord_v2_new_def)
qed

text \<open>Checkpoints are read with the base64 decoder alone.\<close>

lemma from_text_cong:
  assumes "b64_decode X = b64_decode Y"
  shows "from_text X t = from_text Y t"
proof -
  have "parse_signature_line X l = parse_signature_line Y l" "parse_body X l = parse_body Y l" for l
    unfolding parse_signature_line_def parse_body_def assms by (rule refl)+
  moreover from this(1) have "parse_signatures X ls = parse_signatures Y ls" for ls
    by (induction ls) simp_all
  ultimately show ?thesis by (simp add: from_text_def split: list.split)
qed

lemma sample_signer_envelope: "from_text sample_signer (sample_envelope ''1'') = Inr (sample_parsed ''1'' 1)"
  using from_text_cong [of sample_signer sample_pki "sample_envelope ''1''"] sample_envelope_parses(1)
  by (simp add: sample_signer_def pki_externals.defs)

lemma sample_made_valid:
  assumes "b_media_type b = media_type_str Bundle0_3" "vm_content (b_material b) = Certificate cert"
    "tlog_entries (b_material b) = [sample_entry ''1'']"
  shows "validate_bundle_with_options sample_signer b opts =
    ensure (\<not> (require_timestamp opts \<and> rfc3161_timestamps (b_material b) = []))
      (BValidation ''bundle must have timestamp verification data'')"
proof -
  have "validate_proof sample_signer (sample_proof ''1'') = Inr ()"
    by (simp add: validate_proof_def checkpoint_parse_def sample_signer_envelope sample_inclusion sample_parsed_def)
  moreover have "media_type_from_str (media_type_str Bundle0_3) = Inr Bundle0_3" by code_simp
  ultimately show ?thesis
    using assms
    by (simp add: validate_bundle_with_options_def bundle_version_def validate_v0_3_def validate_common_def
        validate_inclusion_proof_structure_def has_inclusion_proof_def sample_entry_def)
qed

lemma sample_honest: "services_honest sample_signer sample_draws sample_bundle sample_policy [6] sample_info [1, 2] []"
  using sample_recorded
  by (simp add: services_honest_def sample_info_of sample_generated sample_public_key sample_signer_fields)
    (simp add: sample_bundle_def bundle_cert_def first_signature_def)

subsection \<open>Properties\<close>

lemma sign_verifies:
  assumes "sign X net sg rnd (Bytes d) = Inr b" and "p256_correct X" and "codecs_ok X cert"
    and "services_honest X rnd b policy cert ci d []"
  shows "(\<exists>r. verifier_verify X clock root (Bytes d) b policy = Inr r)
    \<longleftrightarrow> services_evidence X clock root b policy ci"
proof -
  from assms(1) obtain kp c s e ts where steps: "signing_steps X net sg rnd d kp c s ts"
    and e: "create_rekor_entry X net sg (sha256 X d) s c = Inr e"
    and b: "b = made_bundle c (signed_message X s d) e ts"
    by (auto simp: sign_Inr)
  note honest = assms(4) [unfolded services_honest_def b made_fields]
  from honest steps signing_signature_verifies [OF steps assms(2), of "ci_public_key ci"]
  have sig: "verify_signature X (ci_public_key ci) d s EcdsaP256Sha256 = Inr ()" and c: "c = cert"
    by (auto simp: signing_steps_def)
  show ?thesis
    unfolding b
  proof (rule verifier_verify_accepts)
    show "extract_certificate (vm_content (b_material (made_bundle c (signed_message X s d) e ts))) = Inr cert"
      by (simp add: extract_certificate_def c)
    show "parse_certificate_info X cert = Inr ci" using honest by blast
    show "check_content X ci (made_bundle c (signed_message X s d) e ts) (Bytes d) = Inr ()"
      using sig honest by (intro made_message_content) auto
    assume "p_verify_tlog policy"
    with honest have "log_recorded X (sha256 X d) [] s cert e"
      by (simp add: first_signature_def signed_message_def)
    from made_message_consistent [OF assms(3) this create_rekor_entry_kind [OF e]]
    show "verify_tlog_consistency X (made_bundle c (signed_message X s d) e ts) (Bytes d) = Inr () \<longleftrightarrow>
       (\<forall>e' \<in> set (tlog_entries (b_material (made_bundle c (signed_message X s d) e ts))).
          te_kind e' = ''hashedrekord'' \<longrightarrow>
            validate_integrated_time X e' (made_bundle c (signed_message X s d) e ts) = Inr ())"
      using create_rekor_entry_kind [OF e] by (simp add: c)
  qed
qed

text \<open>C18: What the signer makes, the verifier accepts.  Let P-256 signatures verify with their key, the
  codecs decode what they encode, the authority certify the key of the signing and the log record
  the request.  Then the bundle of a signing verifies for the artifact under a policy exactly when
  the services' evidence in it does: structure, time, certificate chain, SCT, log entries, and the
  identity required.  Its signature, digest and consistency with its log entry never fail.\<close>

theorem signed_artifact_verifies:
  assumes "sign X net sg rnd (Bytes d) = Inr b" and "p256_correct X" and "codecs_ok X cert"
    and "services_honest X rnd b policy cert ci d []"
  shows "(\<exists>r. verifier_verify X clock root (Bytes d) b policy = Inr r)
    \<longleftrightarrow> services_evidence X clock root b policy ci"
  using assms by (rule sign_verifies)

definition sample_lax_policy :: verification_policy where
  "sample_lax_policy = skip_tlog (skip_sct sample_policy)"

lemma sample_evidence: "services_evidence sample_signer sample_clock sample_trust sample_bundle sample_lax_policy sample_info"
proof -
  have "validate_bundle_with_options sample_signer sample_bundle
      \<lparr>require_inclusion_proof = p_verify_tlog sample_lax_policy, require_timestamp = False\<rparr> = Inr ()"
    by (subst sample_made_valid) (simp_all add: sample_bundle_def)
  moreover have "determine_validation_time sample_signer sample_clock sample_bundle [6, 2] sample_trust = Inr 100"
    by code_simp
  moreover have "verify_certificate_chain sample_signer 100 (Certificate [6]) 100 sample_trust = Inr ()"
    by code_simp
  moreover have "validate_certificate_time 100 sample_info = Inr ()" by code_simp
  ultimately show ?thesis
    by (auto simp: services_evidence_def sample_lax_policy_def skip_tlog_def skip_sct_def sample_policy_def
        require_issuer_def policy_with_identity_def default_policy_def sample_bundle_def extract_signature_def)
qed

lemma sample_honest_lax:
  "services_honest sample_signer sample_draws sample_bundle sample_lax_policy [6] sample_info [1, 2] []"
  using sample_honest by (simp add: services_honest_def sample_lax_policy_def skip_tlog_def)

theorem signed_artifact_verifies_witness:
  "(\<exists>r. verifier_verify sample_signer sample_clock sample_trust (Bytes [1, 2]) sample_bundle sample_lax_policy = Inr r)
    \<and> ((\<exists>r. verifier_verify sample_signer sample_clock sample_trust (Bytes [1, 2]) sample_bundle sample_policy = Inr r)
        \<longleftrightarrow> services_evidence sample_signer sample_clock sample_trust sample_bundle sample_policy sample_info)"
  using signed_artifact_verifies [OF sample_signs sample_p256_correct sample_codecs sample_honest_lax] sample_evidence
    signed_artifact_verifies [OF sample_signs sample_p256_correct sample_codecs sample_honest] by blast

lemma raw_statement_verifies:
  assumes "sign_raw_statement X net sg rnd stmt = Inr b" and "p256_correct X" and "codecs_ok X cert"
    and "de_statement X (of_bytes stmt) = Inr st"
    and "services_honest X rnd b policy cert ci (pae ''application/vnd.in-toto+json'' stmt) stmt"
    and "matches_sha256 st (hex_encode X h)" and "compute_artifact_digest_algo X artifact Sha2256 = Inr h"
    and "length h = 32"
  shows "(\<exists>r. verifier_verify X clock root artifact b policy = Inr r)
    \<longleftrightarrow> services_evidence X clock root b policy ci"
proof -
  let ?pae = "pae ''application/vnd.in-toto+json'' stmt"
  from assms(1) obtain kp c s e ts where steps: "signing_steps X net sg rnd ?pae kp c s ts"
    and e: "create_dsse_rekor_entry X net sg (signed_envelope s stmt) c = Inr e"
    and b: "b = made_bundle c (DsseEnvelope (signed_envelope s stmt)) e ts" and utf: "utf8_error X stmt = None"
    by (auto simp: sign_raw_statement_Inr)
  note honest = assms(5) [unfolded services_honest_def b made_fields]
  have pae: "env_pae (signed_envelope s stmt) = ?pae" by (simp add: env_pae_def signed_envelope_def)
  from honest steps signing_signature_verifies [OF steps assms(2), of "ci_public_key ci"]
  have sig: "verify_signature X (ci_public_key ci) ?pae s EcdsaP256Sha256 = Inr ()" and c: "c = cert"
    by (auto simp: signing_steps_def)
  show ?thesis
    unfolding b
  proof (rule verifier_verify_accepts)
    let ?b = "made_bundle c (DsseEnvelope (signed_envelope s stmt)) e ts"
    show "extract_certificate (vm_content (b_material ?b)) = Inr cert"
      by (simp add: extract_certificate_def c)
    show "parse_certificate_info X cert = Inr ci" using honest by blast
    show "check_content X ci ?b artifact = Inr ()"
      using sig honest assms(4,6-8) utf
      by (intro made_envelope_content) (auto simp: pae)
    assume "p_verify_tlog policy"
    with honest have "log_recorded X (sha256 X (env_pae (signed_envelope s stmt))) stmt s cert e"
      by (simp add: first_signature_def signed_envelope_def env_pae_def)
    from made_envelope_consistent [OF assms(3) this create_dsse_rekor_entry_kind [OF e]]
    show "verify_tlog_consistency X ?b artifact = Inr () \<longleftrightarrow>
       (\<forall>e' \<in> set (tlog_entries (b_material ?b)).
          te_kind e' = ''hashedrekord'' \<longrightarrow> validate_integrated_time X e' ?b = Inr ())"
      by (simp add: c)
  qed
qed

lemma attestation_verifies:
  assumes "sign_attestation X net sg rnd a = Inr b" and "p256_correct X" and "codecs_ok X cert"
    and "ser_statement X (build_statement X a) = Inr stmt"
    and "de_statement X (of_bytes stmt) = Inr (build_statement X a)"
    and "services_honest X rnd b policy cert ci (pae ''application/vnd.in-toto+json'' stmt) stmt"
    and "(name, h) \<in> set (att_subjects a)" and "compute_artifact_digest_algo X artifact Sha2256 = Inr h"
    and "length h = 32"
  shows "(\<exists>r. verifier_verify X clock root artifact b policy = Inr r)
    \<longleftrightarrow> services_evidence X clock root b policy ci"
proof -
  from assms(1,4) have "sign_raw_statement X net sg rnd stmt = Inr b" by (simp add: sign_attestation_def)
  from raw_statement_verifies [OF this assms(2,3,5,6) build_statement_names [OF assms(7)] assms(8,9)]
  show ?thesis .
qed

text \<open>C19: Attestations that the signer makes verify likewise.  Let the writer of statements be undone by
  their parser.  Then the bundle of an attestation with a subject of a digest verifies for the
  artifact of that digest, given as bytes or as the digest, exactly when the services' evidence
  does.\<close>

theorem signed_attestation_verifies:
  assumes "sign_attestation X net sg rnd a = Inr b" and "p256_correct X" and "codecs_ok X cert"
    and "ser_statement X (build_statement X a) = Inr stmt"
    and "de_statement X (of_bytes stmt) = Inr (build_statement X a)"
    and "services_honest X rnd b policy cert ci (pae ''application/vnd.in-toto+json'' stmt) stmt"
    and "(name, h) \<in> set (att_subjects a)" and "compute_artifact_digest_algo X artifact Sha2256 = Inr h"
    and "length h = 32"
  shows "(\<exists>r. verifier_verify X clock root artifact b policy = Inr r)
    \<longleftrightarrow> services_evidence X clock root b policy ci"
  using assms by (rule attestation_verifies)

definition sample_attestation :: attestation where
  "sample_attestation = add_subject (attestation_new ''p'' JNull) ''a'' (fill32 [1, 2])"

definition sample_attested :: sigstore_bundle where
  "sample_attested = made_bundle [6] (DsseEnvelope (signed_envelope [6, 43] (as_bytes ''st''))) (sample_entry ''1'') (Some [6, 43])"

lemma sample_attests:
  "sign_attestation sample_signer (sample_net [6, 43]) sample_signer_config sample_draws sample_attestation = Inr sample_attested"
proof -
  let ?pae = "pae ''application/vnd.in-toto+json'' (as_bytes ''st'')"
  have "signing_steps sample_signer (sample_net [6, 43]) sample_signer_config sample_draws ?pae [6] [6] [6, 43] (Some [6, 43])"
  proof (rule sample_signing_steps)
    have "length ?pae = 43" by code_simp
    then show "[6, word_of_nat (length ?pae)] = [6, 43 :: 8 word]" by simp
  qed simp
  moreover have "create_dsse_rekor_entry sample_signer (sample_net [6, 43]) sample_signer_config
      (signed_envelope [6, 43] (as_bytes ''st'')) [6] = Inr (sample_entry ''1'')"
    by code_simp
  moreover have "de_statement sample_signer (of_bytes (as_bytes ''st'')) = Inr sample_statement"
    by code_simp
  moreover have "ser_statement sample_signer x = Inr (as_bytes ''st'')" for x
    by (simp add: sample_signer_def pki_externals.defs)
  ultimately show ?thesis
    by (simp add: sign_attestation_def sign_raw_statement_Inr sample_attested_def sample_signer_fields) blast
qed

lemma sample_attestation_evidence:
  "services_evidence sample_signer sample_clock sample_trust sample_attested sample_lax_policy sample_info"
proof -
  have "validate_bundle_with_options sample_signer sample_attested
      \<lparr>require_inclusion_proof = p_verify_tlog sample_lax_policy, require_timestamp = False\<rparr> = Inr ()"
    by (subst sample_made_valid) (simp_all add: sample_attested_def, simp add: made_bundle_def)
  moreover have "determine_validation_time sample_signer sample_clock sample_attested [6, 43] sample_trust = Inr 100"
    by code_simp
  moreover have "verify_certificate_chain sample_signer 100 (Certificate [6]) 100 sample_trust = Inr ()"
    by code_simp
  moreover have "validate_certificate_time 100 sample_info = Inr ()" by code_simp
  ultimately show ?thesis
    by (auto simp: services_evidence_def sample_lax_policy_def skip_tlog_def skip_sct_def sample_policy_def
        require_issuer_def policy_with_identity_def default_policy_def sample_attested_def signed_envelope_def
        extract_signature_def)
qed

theorem signed_attestation_verifies_witness:
  "\<exists>r. verifier_verify sample_signer sample_clock sample_trust (Bytes [1, 2]) sample_attested sample_lax_policy = Inr r"
proof -
  have st: "ser_statement sample_signer (build_statement sample_signer sample_attestation) = Inr (as_bytes ''st'')"
    by (simp add: sample_signer_def pki_externals.defs)
  have "build_statement sample_signer sample_attestation = sample_statement"
    by (simp add: build_statement_def sample_attestation_def add_subject_def attestation_new_def sample_statement_def
        sample_signer_fields)
  moreover have "de_statement sample_signer (of_bytes (as_bytes ''st'')) = Inr sample_statement" by code_simp
  ultimately have de: "de_statement sample_signer (of_bytes (as_bytes ''st'')) = Inr (build_statement sample_signer sample_attestation)"
    by simp
  have honest: "services_honest sample_signer sample_draws sample_attested sample_lax_policy [6] sample_info
      (pae ''application/vnd.in-toto+json'' (as_bytes ''st'')) (as_bytes ''st'')"
    by (simp add: services_honest_def sample_info_of sample_generated sample_public_key sample_attested_def
        sample_lax_policy_def skip_tlog_def)
  have sub: "(''a'', fill32 [1, 2]) \<in> set (att_subjects sample_attestation)"
    by (simp add: sample_attestation_def add_subject_def)
  have dig: "compute_artifact_digest_algo sample_signer (Bytes [1, 2]) Sha2256 = Inr (fill32 [1, 2])"
    by (simp add: sample_signer_fields)
  from signed_attestation_verifies [OF sample_attests sample_p256_correct sample_codecs st de honest sub dig]
    sample_attestation_evidence show ?thesis by simp
qed

subsection \<open>What signing does not check\<close>

text \<open>
  A signer for logs of version 2 without a timestamp authority makes bundles that the verifier
  rejects under every policy: nothing in them dates the signature.
\<close>

lemma v2_without_timestamp_rejected:
  assumes "sign X net sg rnd artifact = Inr b" "sg_rekor_api_version sg = V2" "sg_tsa_url sg = None"
  shows "\<exists>e. verifier_verify Y clock root artifact b policy = Inl e"
proof -
  from assms obtain d cert s entry where b: "b = made_bundle cert (signed_message X s d) entry None"
    and e: "create_rekor_entry X net sg (sha256 X d) s cert = Inr entry"
    by (auto simp: sign_Inr signing_steps_def optional_timestamp_def)
  from e assms(2) have "te_version entry = ''0.0.2''"
    by (auto simp: create_rekor_entry_def result_simps from_log_entry_def)
  then have "determine_validation_time Y clock b sg' root \<noteq> Inr t" for sg' t
    by (simp add: b determine_validation_time_def extract_tsa_timestamp_def made_bundle_def
        extract_v1_integrated_time_with_promise_def)
  then have "verifier_verify Y clock root artifact b policy \<noteq> Inr r" for r
    by (auto elim: verifier_verify_Inr)
  then show ?thesis by (cases "verifier_verify Y clock root artifact b policy") auto
qed

text \<open>The default configuration signs for logs of version 1.\<close>

lemma default_config_v1: "cfg_rekor_api_version default_sign_config = V1"
  by (simp add: default_sign_config_def default_rekor_api_version_def)

end
