(* ===== verification/Serde.thy ===== *)
theory Serde
  imports Rekor_Entry
begin

text \<open>
  The serde implementations of the crate sigstore-types, part 1 (src/encoding.rs, src/hash.rs): how
  bytes, digests, identifiers, log indices and algorithm names are written to JSON and read from
  it, and the combinators the structs of part 2 (\<open>Bundle_Json\<close>) are assembled from.

  A \<open>Serializer\<close> gets one value, so a \<open>serialize\<close> is a function to \<open>json\<close>; a \<open>deserialize\<close> is a
  function from \<open>json\<close> to a value or an error.  What the code does not contain is a parameter: the
  reader and the writer of serde\_json, and of the code the derive macro generates how it collects
  the members of a struct and how it picks the member of a flattened enum.  \<open>serde_laws\<close> states what
  their documentation promises.  The text of an error is the one the code or the derive macro gives;
  serde\_json appends the position in the document to it.
\<close>

record serde_externals = externals +
  json_read :: "string \<Rightarrow> (json, string) result"
  json_write :: "json \<Rightarrow> (string, string) result"
  struct_members :: "string list \<Rightarrow> json \<Rightarrow> (string \<Rightarrow> json option, string) result"
  flat_variant :: "string list \<Rightarrow> json \<Rightarrow> (string \<times> json, string) result"
  invalid_type :: "string \<Rightarrow> json \<Rightarrow> string"

text \<open>
  Base64 decodes to the encoded bytes and pads with \<open>=\<close> when their number is no multiple of
  three; the written text is read as the value written; of an object with distinct members a
  struct is given those it declares, and a flattened enum the one whose name is a variant.
\<close>

definition serde_laws :: "'z serde_externals_scheme \<Rightarrow> bool" where
  "serde_laws X \<longleftrightarrow>
     (\<forall>b. b64_decode X (b64_encode X b) = Inr b) \<and>
     (\<forall>b. length b mod 3 \<noteq> 0 \<longrightarrow> CHR ''='' \<in> set (b64_encode X b)) \<and>
     (\<forall>v t. json_write X v = Inr t \<longrightarrow> json_read X t = Inr v) \<and>
     (\<forall>names m. distinct (map fst m) \<longrightarrow>
        struct_members X names (JObject m) = Inr (\<lambda>k. if k \<in> set names then map_of m k else None)) \<and>
     (\<forall>variants m kv. distinct (map fst m) \<longrightarrow> filter (\<lambda>(k, v). k \<in> set variants) m = [kv] \<longrightarrow>
        flat_variant X variants (JObject m) = Inr kv)"

named_theorems codec_simps \<open>a value is read back from what is written for it\<close>

subsection \<open>Writers and readers\<close>

text \<open>An object of the members that are not skipped.\<close>

definition present :: "(string \<times> json option) list \<Rightarrow> (string \<times> json) list" where
  "present fs = concat (map (\<lambda>(k, x). case x of None \<Rightarrow> [] | Some v \<Rightarrow> [(k, v)]) fs)"

definition obj :: "(string \<times> json option) list \<Rightarrow> json" where
  "obj fs = JObject (present fs)"

text \<open>\<open>skip_serializing_if\<close>: the member is left out when the condition holds.\<close>

definition skip_if :: "bool \<Rightarrow> json \<Rightarrow> json option" where
  "skip_if b v = (if b then None else Some v)"

text \<open>\<open>skip_serializing_if = "Option::is_none"\<close>.\<close>

definition opt_member :: "('a \<Rightarrow> json) \<Rightarrow> 'a option \<Rightarrow> json option" where
  "opt_member f x = map_option f x"

definition de_string :: "'z serde_externals_scheme \<Rightarrow> json \<Rightarrow> (string, string) result" where
  "de_string X v = (case v of JString s \<Rightarrow> Inr s | _ \<Rightarrow> Inl (invalid_type X ''a string'' v))"

definition ser_list :: "('a \<Rightarrow> json) \<Rightarrow> 'a list \<Rightarrow> json" where
  "ser_list f xs = JArray (map f xs)"

definition de_list ::
  "'z serde_externals_scheme \<Rightarrow> (json \<Rightarrow> (string + 'a)) \<Rightarrow> json \<Rightarrow> ('a list, string) result" where
  "de_list X f v = (case v of JArray vs \<Rightarrow> collect_ok (map f vs) | _ \<Rightarrow> Inl (invalid_type X ''a sequence'' v))"

definition ser_option :: "('a \<Rightarrow> json) \<Rightarrow> 'a option \<Rightarrow> json" where
  "ser_option f x = (case x of None \<Rightarrow> JNull | Some y \<Rightarrow> f y)"

definition de_option :: "(json \<Rightarrow> (string + 'a)) \<Rightarrow> json \<Rightarrow> ('a option, string) result" where
  "de_option f v = (if v = JNull then Inr None else map_sum id Some (f v))"

text \<open>A field without attributes, one with \<open>default\<close>, and one of type \<open>Option\<close>.\<close>

definition required :: "string \<Rightarrow> (json \<Rightarrow> (string + 'a)) \<Rightarrow> (string \<Rightarrow> json option) \<Rightarrow> (string + 'a)" where
  "required k f m = (case m k of None \<Rightarrow> Inl (''missing field `'' @ k @ ''`'') | Some v \<Rightarrow> f v)"

definition defaulted :: "'a \<Rightarrow> string \<Rightarrow> (json \<Rightarrow> (string + 'a)) \<Rightarrow> (string \<Rightarrow> json option) \<Rightarrow> (string + 'a)" where
  "defaulted d k f m = (case m k of None \<Rightarrow> Inr d | Some v \<Rightarrow> f v)"

definition opt_field :: "string \<Rightarrow> (json \<Rightarrow> (string + 'a)) \<Rightarrow> (string \<Rightarrow> json option) \<Rightarrow> (string + 'a option)" where
  "opt_field k f m = (case m k of None \<Rightarrow> Inr None | Some v \<Rightarrow> de_option f v)"

definition de_struct ::
  "'z serde_externals_scheme \<Rightarrow> string list \<Rightarrow> ((string \<Rightarrow> json option) \<Rightarrow> (string + 'a)) \<Rightarrow> json \<Rightarrow> (string + 'a)" where
  "de_struct X names f v = and_then (struct_members X names v) f"

text \<open>\<open>deserialize_null_as_default\<close> (src/bundle.rs).\<close>

definition null_as_default :: "'a \<Rightarrow> (json \<Rightarrow> (string + 'a)) \<Rightarrow> json \<Rightarrow> (string + 'a)" where
  "null_as_default d f v = map_sum id (\<lambda>x. case x of None \<Rightarrow> d | Some y \<Rightarrow> y) (de_option f v)"

subsection \<open>base64\_bytes, base64\_bytes\_option, hex\_bytes, string\_i64\<close>

definition base64_bytes_ser :: "'z serde_externals_scheme \<Rightarrow> bytes \<Rightarrow> json" where
  "base64_bytes_ser X b = JString (b64_encode X b)"

definition base64_bytes_de :: "'z serde_externals_scheme \<Rightarrow> json \<Rightarrow> (bytes, string) result" where
  "base64_bytes_de X v = and_then (de_string X v) (b64_decode X)"

definition base64_bytes_option_ser :: "'z serde_externals_scheme \<Rightarrow> bytes option \<Rightarrow> json" where
  "base64_bytes_option_ser X x = (case x of Some b \<Rightarrow> JString (b64_encode X b) | None \<Rightarrow> JNull)"

definition base64_bytes_option_de :: "'z serde_externals_scheme \<Rightarrow> json \<Rightarrow> (bytes option, string) result" where
  "base64_bytes_option_de X v =
     and_then (de_option (de_string X) v)
       (\<lambda>x. case x of Some s \<Rightarrow> map_sum id Some (b64_decode X s) | None \<Rightarrow> Inr None)"

definition hex_bytes_ser :: "'z serde_externals_scheme \<Rightarrow> bytes \<Rightarrow> json" where
  "hex_bytes_ser X b = JString (hex_encode X b)"

definition hex_bytes_de :: "'z serde_externals_scheme \<Rightarrow> json \<Rightarrow> (bytes, string) result" where
  "hex_bytes_de X v = and_then (de_string X v) (hex_decode X)"

definition string_i64_ser :: "int \<Rightarrow> json" where
  "string_i64_ser i = JString (fmt_int i)"

definition string_i64_de :: "'z serde_externals_scheme \<Rightarrow> json \<Rightarrow> (int, string) result" where
  "string_i64_de X v =
     and_then (de_string X v) (\<lambda>s. ok_or (''invalid integer: '' @ s) (parse_i64 s))"

subsection \<open>The newtypes\<close>

text \<open>The implementations of \<open>base64_newtype!\<close>, shared by the types it generates.\<close>

definition newtype_ser :: "'z serde_externals_scheme \<Rightarrow> bytes \<Rightarrow> json" where
  "newtype_ser X b = JString (to_base64 X b)"

definition newtype_de :: "'z serde_externals_scheme \<Rightarrow> json \<Rightarrow> (bytes, string) result" where
  "newtype_de X v = and_then (de_string X v) (\<lambda>s. map_err fmt_types_error (from_base64 X s))"

text \<open>
  \<open>LogIndex\<close>: written as a string; read from an integer, which as a u64 is cast, or from a string.
  \<open>NegInt\<close> and \<open>PosInt\<close> are the visitor's \<open>visit_i64\<close> and \<open>visit_u64\<close>.
\<close>

definition log_index_ser :: "log_index \<Rightarrow> json" where
  "log_index_ser i = JString (fmt_int i)"

definition log_index_de :: "'z serde_externals_scheme \<Rightarrow> json \<Rightarrow> (log_index, string) result" where
  "log_index_de X v =
     (case v of
        JNumber (NegInt i) \<Rightarrow> Inr i
      | JNumber (PosInt w) \<Rightarrow> Inr (sint w)
      | JString s \<Rightarrow> ok_or (''invalid log index: '' @ s) (parse_i64 s)
      | _ \<Rightarrow> Inl (invalid_type X ''an integer or string representing a log index'' v))"

text \<open>\<open>KeyHint\<close>, by way of \<open>base64_bytes_array4\<close>.\<close>

definition key_hint_ser :: "'z serde_externals_scheme \<Rightarrow> key_hint \<Rightarrow> json" where
  "key_hint_ser X h = JString (b64_encode X h)"

definition key_hint_de :: "'z serde_externals_scheme \<Rightarrow> json \<Rightarrow> (key_hint, string) result" where
  "key_hint_de X v =
     and_then (de_string X v) (\<lambda>s.
     and_then (map_err (\<lambda>e. ''invalid base64: '' @ e) (b64_decode X s)) (\<lambda>bs.
       if length bs \<noteq> 4 then Inl (''expected 4 bytes, got '' @ fmt_nat (length bs)) else Inr bs))"

definition sha256_ser :: "'z serde_externals_scheme \<Rightarrow> sha256_hash \<Rightarrow> json" where
  "sha256_ser X h = JString (b64_encode X h)"

definition sha256_de :: "'z serde_externals_scheme \<Rightarrow> json \<Rightarrow> (sha256_hash, string) result" where
  "sha256_de X v =
     and_then (de_string X v) (\<lambda>s. map_err fmt_types_error (sha256_from_hex_or_base64 X s))"

text \<open>\<open>DigestBytes\<close>: hex when the text can be hex, base64 otherwise.\<close>

definition digest_bytes_ser :: "'z serde_externals_scheme \<Rightarrow> bytes \<Rightarrow> json" where
  "digest_bytes_ser X b = JString (b64_encode X b)"

definition looks_hex :: "string \<Rightarrow> bool" where
  "looks_hex s \<longleftrightarrow> length s mod 2 = 0 \<and> list_all is_ascii_hexdigit s"

definition digest_bytes_de :: "'z serde_externals_scheme \<Rightarrow> json \<Rightarrow> (bytes, string) result" where
  "digest_bytes_de X v =
     and_then (de_string X v) (\<lambda>s. if looks_hex s then hex_decode X s else b64_decode X s)"

text \<open>\<open>Sha256Hash\<close> from a \<open>DigestBytes\<close>, and the comparisons between the two and raw bytes.\<close>

definition sha256_of_digest :: "bytes \<Rightarrow> (sha256_hash, types_error) result" where
  "sha256_of_digest d = sha256_try_from_slice d"

definition digest_of_sha256 :: "sha256_hash \<Rightarrow> bytes" where
  "digest_of_sha256 h = h"

definition sha256_eq_digest :: "sha256_hash \<Rightarrow> bytes \<Rightarrow> bool" where
  "sha256_eq_digest h d \<longleftrightarrow> h = d"

text \<open>\<open>HexLogId\<close> and \<open>HexHash\<close> from bytes; their texts are kept as they are.\<close>

definition hex_log_id_from_bytes :: "'z externals_scheme \<Rightarrow> bytes \<Rightarrow> string" where
  "hex_log_id_from_bytes X b = hex_encode X b"

definition hex_hash_from_bytes :: "'z externals_scheme \<Rightarrow> bytes \<Rightarrow> string" where
  "hex_hash_from_bytes X b = hex_encode X b"

definition hex_hash_decode :: "'z externals_scheme \<Rightarrow> string \<Rightarrow> (bytes, types_error) result" where
  "hex_hash_decode X s = map_err (\<lambda>e. InvalidEncoding (''invalid hex: '' @ e)) (hex_decode X s)"

text \<open>\<open>HashAlgorithm\<close> and \<open>hash_algorithm_lowercase\<close> (src/hash.rs).\<close>

definition hash_algorithm_ser :: "hash_algorithm \<Rightarrow> json" where
  "hash_algorithm_ser h = JString (fmt_hash_algorithm h)"

definition hash_algorithm_de :: "'z serde_externals_scheme \<Rightarrow> json \<Rightarrow> (hash_algorithm, string) result" where
  "hash_algorithm_de X v =
     and_then (de_string X v) (\<lambda>s. ok_or (''unknown hash algorithm: '' @ s) (from_str_flexible s))"

definition hash_algorithm_lowercase_ser :: "hash_algorithm \<Rightarrow> json" where
  "hash_algorithm_lowercase_ser h = JString (as_lowercase h)"

definition hash_algorithm_lowercase_de :: "'z serde_externals_scheme \<Rightarrow> json \<Rightarrow> (hash_algorithm, string) result" where
  "hash_algorithm_lowercase_de X v =
     and_then (de_string X v) (\<lambda>s. ok_or (''unknown hash algorithm: '' @ s) (from_str_flexible s))"

subsection \<open>Codecs\<close>

text \<open>
  A writer and a reader that undo each other on the values \<open>ok\<close> admits.  A written value is never
  \<open>null\<close>, which an optional field reads as absent.
\<close>

locale codec =
  fixes enc :: "'a \<Rightarrow> json"
    and dec :: "json \<Rightarrow> (string + 'a)"
    and ok :: "'a \<Rightarrow> bool"
  assumes dec_enc: "ok x \<Longrightarrow> dec (enc x) = Inr x"
    and enc_not_null: "enc x \<noteq> JNull"
begin

lemma enc_inject: "ok x \<Longrightarrow> ok y \<Longrightarrow> enc x = enc y \<longleftrightarrow> x = y"
  by (metis dec_enc sum.inject(2))

lemma collect: "list_all ok xs \<Longrightarrow> collect_ok (map dec (map enc xs)) = Inr xs"
  by (induction xs) (simp_all add: dec_enc)

lemma list_codec: "list_all ok xs \<Longrightarrow> de_list X dec (ser_list enc xs) = Inr xs"
  using collect by (simp add: de_list_def ser_list_def)

lemma option_codec: "pred_option ok x \<Longrightarrow> de_option dec (ser_option enc x) = Inr x"
  by (cases x) (simp_all add: de_option_def ser_option_def dec_enc enc_not_null)

lemma null_as_default_codec: "ok x \<Longrightarrow> null_as_default d dec (enc x) = Inr x"
  by (simp add: null_as_default_def de_option_def dec_enc enc_not_null)

text \<open>A member that may be skipped, as a field with the default it is skipped for reads it.\<close>

lemma skipped_codec:
  "(b \<Longrightarrow> x = d) \<Longrightarrow> ok x \<Longrightarrow> (case skip_if b (enc x) of None \<Rightarrow> Inr d | Some v \<Rightarrow> dec v) = Inr x"
  by (cases b) (simp_all add: skip_if_def dec_enc)

lemma opt_member_codec:
  "pred_option ok x \<Longrightarrow>
     (case opt_member enc x of None \<Rightarrow> Inr None | Some v \<Rightarrow> de_option dec v) = Inr x"
  by (cases x) (simp_all add: opt_member_def de_option_def dec_enc enc_not_null)

end

definition is_i64 :: "int \<Rightarrow> bool" where
  "is_i64 i \<longleftrightarrow> - (2 ^ 63) \<le> i \<and> i < 2 ^ 63"

lemma if_SomeD: "(if b then Some x else None) = Some y \<Longrightarrow> b \<and> x = y"
  by (cases b) simp_all

lemma parse_i64_range:
  assumes "parse_i64 s = Some i"
  shows "is_i64 i"
proof -
  define v where "v = (if s \<noteq> [] \<and> hd s = CHR ''-''
    then - int (nat_of_digits 0 (case s of [] \<Rightarrow> [] | c # r \<Rightarrow> if c = CHR ''+'' \<or> c = CHR ''-'' then r else s))
    else int (nat_of_digits 0 (case s of [] \<Rightarrow> [] | c # r \<Rightarrow> if c = CHR ''+'' \<or> c = CHR ''-'' then r else s)))"
  from if_SomeD [OF assms [unfolded parse_i64_def Let_def, folded v_def]] show ?thesis
    by (simp add: is_i64_def)
qed

lemma parse_i64_fmt_int [codec_simps]: "is_i64 i \<Longrightarrow> parse_i64 (fmt_int i) = Some i"
proof (cases "i < 0")
  case True
  assume "is_i64 i"
  with True fmt_nat_digits [of "nat (- i)"] show ?thesis
    by (simp add: is_i64_def fmt_int_def parse_i64_def list_all_iff)
next
  case False
  assume "is_i64 i"
  with False have "nat i < 2 ^ 63" by (simp add: is_i64_def)
  with False parse_i64_fmt [of "nat i"] show ?thesis by (simp add: fmt_int_def)
qed

lemma serde_laws_b64 [codec_simps]: "serde_laws X \<Longrightarrow> b64_decode X (b64_encode X b) = Inr b"
  by (simp add: serde_laws_def)

lemma serde_laws_padding: "serde_laws X \<Longrightarrow> length b mod 3 \<noteq> 0 \<Longrightarrow> CHR ''='' \<in> set (b64_encode X b)"
  by (simp add: serde_laws_def)

lemma serde_laws_text: "serde_laws X \<Longrightarrow> json_write X v = Inr t \<Longrightarrow> json_read X t = Inr v"
  by (simp add: serde_laws_def)

lemma serde_laws_members: "serde_laws X \<Longrightarrow> distinct (map fst m) \<Longrightarrow>
    struct_members X names (JObject m) = Inr (\<lambda>k. if k \<in> set names then map_of m k else None)"
  by (simp add: serde_laws_def)

lemma serde_laws_variant: "serde_laws X \<Longrightarrow> distinct (map fst m) \<Longrightarrow>
    filter (\<lambda>(k, v). k \<in> set variants) m = [kv] \<Longrightarrow> flat_variant X variants (JObject m) = Inr kv"
  unfolding serde_laws_def by blast

lemma present_set: "set (present fs) = {(k, v). (k, Some v) \<in> set fs}"
  unfolding present_def by (auto split: option.splits)

lemma present_Cons: "present ((k, x) # fs) = (case x of None \<Rightarrow> [] | Some v \<Rightarrow> [(k, v)]) @ present fs"
  by (simp add: present_def)

lemma present_distinct: "distinct (map fst fs) \<Longrightarrow> distinct (map fst (present fs))"
proof (induction fs)
  case (Cons kx fs)
  obtain k x where kx: "kx = (k, x)" by (cases kx)
  with Cons.prems have "\<forall>v. (k, Some v) \<notin> set fs" by (auto simp: image_iff)
  with Cons kx show ?case by (cases x) (auto simp: present_Cons present_set image_iff)
qed (simp add: present_def)

lemma present_map_of: "distinct (map fst fs) \<Longrightarrow> map_of (present fs) k = Option.bind (map_of fs k) (\<lambda>x. x)"
proof (induction fs)
  case (Cons kx fs)
  obtain k' x where kx: "kx = (k', x)" by (cases kx)
  with Cons.prems have "map_of fs k' = None" by (simp add: map_of_eq_None_iff)
  with Cons kx show ?case by (cases x) (auto simp: present_Cons)
qed (simp add: present_def)

text \<open>What a struct reads of the object another one of its shape was written to.\<close>

lemma de_struct_obj:
  "serde_laws X \<Longrightarrow> distinct (map fst fs) \<Longrightarrow>
     de_struct X names f (obj fs) = f (\<lambda>k. if k \<in> set names then Option.bind (map_of fs k) (\<lambda>x. x) else None)"
  by (simp add: de_struct_def obj_def serde_laws_members present_distinct present_map_of cong: if_cong)

lemmas field_defs = required_def defaulted_def opt_field_def

lemma padding_not_hexdigit: "\<not> is_ascii_hexdigit (CHR ''='')"
  by code_simp

text \<open>Padded base64 is never taken for hex.\<close>

lemma padded_not_hex:
  assumes "serde_laws X" "length b mod 3 \<noteq> 0"
  shows "\<not> list_all is_ascii_hexdigit (b64_encode X b)"
  using serde_laws_padding [OF assms] padding_not_hexdigit by (auto simp: list_all_iff)

definition digest_ok :: "'z serde_externals_scheme \<Rightarrow> bytes \<Rightarrow> bool" where
  "digest_ok X d \<longleftrightarrow> length d mod 3 \<noteq> 0 \<or> \<not> looks_hex (b64_encode X d)"

interpretation str_codec: codec JString "de_string X" "\<lambda>s. True" for X
  by unfold_locales (simp_all add: de_string_def)

interpretation newtype_codec: codec "newtype_ser X" "newtype_de X" "\<lambda>b. serde_laws X" for X
  by unfold_locales (simp_all add: newtype_ser_def newtype_de_def de_string_def to_base64_def from_base64_def codec_simps)

interpretation base64_bytes_codec: codec "base64_bytes_ser X" "base64_bytes_de X" "\<lambda>b. serde_laws X" for X
  by unfold_locales (simp_all add: base64_bytes_ser_def base64_bytes_de_def de_string_def codec_simps)

interpretation hex_bytes_codec: codec "hex_bytes_ser X" "hex_bytes_de X"
    "\<lambda>b. hex_decode X (hex_encode X b) = Inr b" for X
  by unfold_locales (simp_all add: hex_bytes_ser_def hex_bytes_de_def de_string_def)

interpretation i64_codec: codec string_i64_ser "string_i64_de X" is_i64 for X
  by unfold_locales (simp_all add: string_i64_ser_def string_i64_de_def de_string_def codec_simps)

interpretation log_index_codec: codec log_index_ser "log_index_de X" is_i64 for X
  by unfold_locales (simp_all add: log_index_ser_def log_index_de_def codec_simps)

interpretation key_hint_codec: codec "key_hint_ser X" "key_hint_de X" "\<lambda>h. serde_laws X \<and> length h = 4" for X
  by unfold_locales (simp_all add: key_hint_ser_def key_hint_de_def de_string_def codec_simps)

interpretation sha256_codec: codec "sha256_ser X" "sha256_de X" "\<lambda>h. serde_laws X \<and> length h = 32" for X
proof unfold_locales
  fix h :: sha256_hash assume h: "serde_laws X \<and> length h = 32"
  then have "\<not> list_all is_ascii_hexdigit (b64_encode X h)" by (intro padded_not_hex) simp_all
  with h show "sha256_de X (sha256_ser X h) = Inr h"
    by (simp add: sha256_ser_def sha256_de_def de_string_def sha256_from_hex_or_base64_def
        sha256_from_base64_def sha256_try_from_slice_def codec_simps)
qed (simp add: sha256_ser_def)

interpretation digest_codec: codec "digest_bytes_ser X" "digest_bytes_de X" "\<lambda>d. serde_laws X \<and> digest_ok X d" for X
proof unfold_locales
  fix d :: bytes assume d: "serde_laws X \<and> digest_ok X d"
  then have "\<not> looks_hex (b64_encode X d)"
    using padded_not_hex [of X d] by (auto simp: digest_ok_def looks_hex_def)
  with d show "digest_bytes_de X (digest_bytes_ser X d) = Inr d"
    by (simp add: digest_bytes_ser_def digest_bytes_de_def de_string_def codec_simps)
qed (simp add: digest_bytes_ser_def)

interpretation hash_alg_codec: codec hash_algorithm_ser "hash_algorithm_de X" "\<lambda>h. True" for X
  by unfold_locales
    (simp_all add: hash_algorithm_ser_def hash_algorithm_de_def de_string_def from_str_flexible_roundtrip)

interpretation hash_lower_codec: codec hash_algorithm_lowercase_ser "hash_algorithm_lowercase_de X" "\<lambda>h. True" for X
  by unfold_locales (simp_all add: hash_algorithm_lowercase_ser_def hash_algorithm_lowercase_de_def
      de_string_def from_str_flexible_roundtrip)

text \<open>A digest whose base64 text looks like hex is decoded as hex, and so read as other bytes.\<close>

lemma hex_looking_digest:
  "looks_hex (b64_encode X d) \<Longrightarrow> digest_bytes_de X (digest_bytes_ser X d) = hex_decode X (b64_encode X d)"
  by (simp add: digest_bytes_ser_def digest_bytes_de_def de_string_def)

text \<open>An index above the largest i64 becomes a negative one.\<close>

lemma log_index_de_wraps:
  assumes "log_index_de X (JNumber (PosInt w)) = Inr i" "2 ^ 63 \<le> unat w"
  shows "i < 0"
proof -
  have "int (2 ^ 63) \<le> int (unat w)" using assms(2) by (simp only: of_nat_le_iff)
  then have "2 ^ 63 \<le> uint w" by simp
  moreover have "uint w < 2 ^ 64" using uint_lt2p [of w] by simp
  ultimately have "uint w div 2 ^ 63 = 1" by simp
  then have "bit (uint w) 63" by (simp add: bit_iff_odd)
  then have "sint w < 0" by (simp add: sint_uint)
  with assms(1) show ?thesis by (simp add: log_index_de_def)
qed

subsection \<open>Fixed-size values\<close>

text \<open>Whatever the text, the readers of the fixed-size types give values of their size.\<close>

lemma sha256_de_length: "sha256_de X v = Inr h \<Longrightarrow> length h = 32"
  by (auto simp: sha256_de_def result_simps dest: sha256_from_hex_or_base64_length)

lemma key_hint_de_length: "key_hint_de X v = Inr h \<Longrightarrow> length h = 4"
  by (auto simp: key_hint_de_def result_simps split: if_splits)

lemma string_i64_de_range: "string_i64_de X v = Inr i \<Longrightarrow> is_i64 i"
  by (auto simp: string_i64_de_def result_simps dest: parse_i64_range)

end
