(* ===== verification/Bundle_Json.thy ===== *)
theory Bundle_Json
  imports Serde
begin

text \<open>
  The serde implementations of the crate sigstore-types, part 2 (src/dsse.rs, src/bundle.rs): for
  each struct of the bundle format the members its attributes declare, with their camelCase names,
  defaults and conditions for being skipped, and \<open>Bundle::from_json\<close> and \<open>to_json\<close> on top.  A
  field of the record of \<open>Bundle_Types\<close> that stands for a nested struct (logId, kindVersion,
  checkpoint and the like) has the writer and the reader of that struct.  When several members are
  wrong the error is that of the first field here, of the first member of the text in the code.
\<close>

subsection \<open>DSSE envelopes (dsse.rs)\<close>

definition dsse_signature_ser :: "'z serde_externals_scheme \<Rightarrow> dsse_signature \<Rightarrow> json" where
  "dsse_signature_ser X s = obj
     [(''sig'', Some (newtype_ser X (ds_sig s))),
      (''keyid'', skip_if (ds_keyid s = '''') (JString (ds_keyid s)))]"

definition dsse_signature_de :: "'z serde_externals_scheme \<Rightarrow> json \<Rightarrow> (dsse_signature, string) result" where
  "dsse_signature_de X = de_struct X [''sig'', ''keyid''] (\<lambda>m.
     and_then (required ''sig'' (newtype_de X) m) (\<lambda>sig.
     and_then (defaulted '''' ''keyid'' (de_string X) m) (\<lambda>keyid.
       Inr \<lparr>ds_sig = sig, ds_keyid = keyid\<rparr>)))"

definition dsse_envelope_ser :: "'z serde_externals_scheme \<Rightarrow> dsse_envelope \<Rightarrow> json" where
  "dsse_envelope_ser X e = obj
     [(''payloadType'', Some (JString (payload_type e))),
      (''payload'', Some (newtype_ser X (payload e))),
      (''signatures'', Some (ser_list (dsse_signature_ser X) (env_signatures e)))]"

definition dsse_envelope_de :: "'z serde_externals_scheme \<Rightarrow> json \<Rightarrow> (dsse_envelope, string) result" where
  "dsse_envelope_de X = de_struct X [''payloadType'', ''payload'', ''signatures''] (\<lambda>m.
     and_then (required ''payloadType'' (de_string X) m) (\<lambda>ptype.
     and_then (required ''payload'' (newtype_de X) m) (\<lambda>p.
     and_then (required ''signatures'' (de_list X (dsse_signature_de X)) m) (\<lambda>sigs.
       Inr \<lparr>payload_type = ptype, payload = p, env_signatures = sigs\<rparr>))))"

subsection \<open>Message signatures\<close>

definition message_digest_ser :: "'z serde_externals_scheme \<Rightarrow> message_digest \<Rightarrow> json" where
  "message_digest_ser X d = obj
     [(''algorithm'', Some (hash_algorithm_ser (md_algorithm d))),
      (''digest'', Some (digest_bytes_ser X (md_digest d)))]"

definition message_digest_de :: "'z serde_externals_scheme \<Rightarrow> json \<Rightarrow> (message_digest, string) result" where
  "message_digest_de X = de_struct X [''algorithm'', ''digest''] (\<lambda>m.
     and_then (required ''algorithm'' (hash_algorithm_de X) m) (\<lambda>alg.
     and_then (required ''digest'' (digest_bytes_de X) m) (\<lambda>d.
       Inr \<lparr>md_algorithm = alg, md_digest = d\<rparr>)))"

definition message_signature_ser :: "'z serde_externals_scheme \<Rightarrow> message_signature \<Rightarrow> json" where
  "message_signature_ser X s = obj
     [(''messageDigest'', opt_member (message_digest_ser X) (msg_digest s)),
      (''signature'', Some (newtype_ser X (msg_signature s)))]"

definition message_signature_de :: "'z serde_externals_scheme \<Rightarrow> json \<Rightarrow> (message_signature, string) result" where
  "message_signature_de X = de_struct X [''messageDigest'', ''signature''] (\<lambda>m.
     and_then (opt_field ''messageDigest'' (message_digest_de X) m) (\<lambda>d.
     and_then (required ''signature'' (newtype_de X) m) (\<lambda>sig.
       Inr \<lparr>msg_digest = d, msg_signature = sig\<rparr>)))"

text \<open>\<open>SignatureContent\<close>, an enum whose variant is the name of a member of the bundle.\<close>

fun content_ser :: "'z serde_externals_scheme \<Rightarrow> signature_content \<Rightarrow> string \<times> json" where
  "content_ser X (MessageSignature s) = (''messageSignature'', message_signature_ser X s)"
| "content_ser X (DsseEnvelope e) = (''dsseEnvelope'', dsse_envelope_ser X e)"

definition content_de :: "'z serde_externals_scheme \<Rightarrow> json \<Rightarrow> (signature_content, string) result" where
  "content_de X v =
     and_then (flat_variant X [''messageSignature'', ''dsseEnvelope''] v) (\<lambda>(name, w).
       if name = ''messageSignature'' then map_sum id MessageSignature (message_signature_de X w)
       else map_sum id DsseEnvelope (dsse_envelope_de X w))"

subsection \<open>Log entries\<close>

definition log_id_ser :: "string \<Rightarrow> json" where
  "log_id_ser k = obj [(''keyId'', Some (JString k))]"

definition log_id_de :: "'z serde_externals_scheme \<Rightarrow> json \<Rightarrow> (string, string) result" where
  "log_id_de X = de_struct X [''keyId''] (required ''keyId'' (de_string X))"

definition kind_version_ser :: "string \<times> string \<Rightarrow> json" where
  "kind_version_ser kv = obj [(''kind'', Some (JString (fst kv))), (''version'', Some (JString (snd kv)))]"

definition kind_version_de :: "'z serde_externals_scheme \<Rightarrow> json \<Rightarrow> (string \<times> string, string) result" where
  "kind_version_de X = de_struct X [''kind'', ''version''] (\<lambda>m.
     and_then (required ''kind'' (de_string X) m) (\<lambda>kind.
     and_then (required ''version'' (de_string X) m) (\<lambda>version. Inr (kind, version))))"

definition promise_ser :: "'z serde_externals_scheme \<Rightarrow> bytes \<Rightarrow> json" where
  "promise_ser X s = obj [(''signedEntryTimestamp'', Some (newtype_ser X s))]"

definition promise_de :: "'z serde_externals_scheme \<Rightarrow> json \<Rightarrow> (bytes, string) result" where
  "promise_de X = de_struct X [''signedEntryTimestamp''] (required ''signedEntryTimestamp'' (newtype_de X))"

definition checkpoint_ser :: "string \<Rightarrow> json" where
  "checkpoint_ser c = obj [(''envelope'', Some (JString c))]"

definition checkpoint_de :: "'z serde_externals_scheme \<Rightarrow> json \<Rightarrow> (string, string) result" where
  "checkpoint_de X = de_struct X [''envelope''] (defaulted '''' ''envelope'' (de_string X))"

definition proof_ser :: "'z serde_externals_scheme \<Rightarrow> inclusion_proof \<Rightarrow> json" where
  "proof_ser X p = obj
     [(''logIndex'', Some (log_index_ser (ip_log_index p))),
      (''rootHash'', Some (sha256_ser X (ip_root_hash p))),
      (''treeSize'', Some (string_i64_ser (ip_tree_size p))),
      (''hashes'', Some (ser_list (sha256_ser X) (ip_hashes p))),
      (''checkpoint'', skip_if (ip_checkpoint p = '''') (checkpoint_ser (ip_checkpoint p)))]"

definition proof_de :: "'z serde_externals_scheme \<Rightarrow> json \<Rightarrow> (inclusion_proof, string) result" where
  "proof_de X = de_struct X [''logIndex'', ''rootHash'', ''treeSize'', ''hashes'', ''checkpoint''] (\<lambda>m.
     and_then (defaulted 0 ''logIndex'' (log_index_de X) m) (\<lambda>i.
     and_then (required ''rootHash'' (sha256_de X) m) (\<lambda>root.
     and_then (required ''treeSize'' (string_i64_de X) m) (\<lambda>n.
     and_then (defaulted [] ''hashes'' (de_list X (sha256_de X)) m) (\<lambda>hs.
     and_then (defaulted '''' ''checkpoint'' (checkpoint_de X) m) (\<lambda>c.
       Inr \<lparr>ip_log_index = i, ip_root_hash = root, ip_tree_size = n, ip_hashes = hs, ip_checkpoint = c\<rparr>))))))"

definition entry_ser :: "'z serde_externals_scheme \<Rightarrow> tlog_entry \<Rightarrow> json" where
  "entry_ser X e = obj
     [(''logIndex'', Some (log_index_ser (te_log_index e))),
      (''logId'', Some (log_id_ser (te_log_id e))),
      (''kindVersion'', Some (kind_version_ser (te_kind e, te_version e))),
      (''integratedTime'', skip_if (te_integrated_time e = 0) (string_i64_ser (te_integrated_time e))),
      (''inclusionPromise'', opt_member (promise_ser X) (te_promise e)),
      (''inclusionProof'', opt_member (proof_ser X) (te_proof e)),
      (''canonicalizedBody'', Some (newtype_ser X (te_body e)))]"

definition entry_de :: "'z serde_externals_scheme \<Rightarrow> json \<Rightarrow> (tlog_entry, string) result" where
  "entry_de X = de_struct X
     [''logIndex'', ''logId'', ''kindVersion'', ''integratedTime'', ''inclusionPromise'', ''inclusionProof'',
      ''canonicalizedBody''] (\<lambda>m.
     and_then (defaulted 0 ''logIndex'' (log_index_de X) m) (\<lambda>i.
     and_then (required ''logId'' (log_id_de X) m) (\<lambda>lid.
     and_then (required ''kindVersion'' (kind_version_de X) m) (\<lambda>(kind, version).
     and_then (defaulted 0 ''integratedTime'' (string_i64_de X) m) (\<lambda>time.
     and_then (opt_field ''inclusionPromise'' (promise_de X) m) (\<lambda>promise.
     and_then (opt_field ''inclusionProof'' (proof_de X) m) (\<lambda>prf.
     and_then (required ''canonicalizedBody'' (newtype_de X) m) (\<lambda>body.
       Inr \<lparr>te_log_index = i, te_log_id = lid, te_kind = kind, te_version = version, te_integrated_time = time,
            te_promise = promise, te_proof = prf, te_body = body\<rparr>))))))))"

subsection \<open>Verification material\<close>

text \<open>\<open>CertificateContent\<close> and \<open>X509Certificate\<close> have the same form.\<close>

definition certificate_ser :: "'z serde_externals_scheme \<Rightarrow> der_certificate \<Rightarrow> json" where
  "certificate_ser X c = obj [(''rawBytes'', Some (newtype_ser X c))]"

definition certificate_de :: "'z serde_externals_scheme \<Rightarrow> json \<Rightarrow> (der_certificate, string) result" where
  "certificate_de X = de_struct X [''rawBytes''] (required ''rawBytes'' (newtype_de X))"

fun material_content_ser :: "'z serde_externals_scheme \<Rightarrow> material_content \<Rightarrow> string \<times> json" where
  "material_content_ser X (Certificate c) = (''certificate'', certificate_ser X c)"
| "material_content_ser X (X509CertificateChain cs) =
     (''x509CertificateChain'', obj [(''certificates'', Some (ser_list (certificate_ser X) cs))])"
| "material_content_ser X (PublicKey h) = (''publicKey'', obj [(''hint'', Some (JString h))])"

definition material_content_de :: "'z serde_externals_scheme \<Rightarrow> json \<Rightarrow> (material_content, string) result" where
  "material_content_de X v =
     and_then (flat_variant X [''certificate'', ''x509CertificateChain'', ''publicKey''] v) (\<lambda>(name, w).
       if name = ''certificate'' then map_sum id Certificate (certificate_de X w)
       else if name = ''x509CertificateChain'' then
         map_sum id X509CertificateChain
           (de_struct X [''certificates''] (required ''certificates'' (de_list X (certificate_de X))) w)
       else map_sum id PublicKey (de_struct X [''hint''] (required ''hint'' (de_string X)) w))"

text \<open>\<open>Rfc3161Timestamp\<close> and \<open>TimestampVerificationData\<close>.\<close>

definition timestamp_ser :: "'z serde_externals_scheme \<Rightarrow> bytes \<Rightarrow> json" where
  "timestamp_ser X t = obj [(''signedTimestamp'', Some (newtype_ser X t))]"

definition timestamp_de :: "'z serde_externals_scheme \<Rightarrow> json \<Rightarrow> (bytes, string) result" where
  "timestamp_de X = de_struct X [''signedTimestamp''] (required ''signedTimestamp'' (newtype_de X))"

definition timestamp_data_ser :: "'z serde_externals_scheme \<Rightarrow> bytes list \<Rightarrow> json" where
  "timestamp_data_ser X ts = obj [(''rfc3161Timestamps'', skip_if (ts = []) (ser_list (timestamp_ser X) ts))]"

definition timestamp_data_de :: "'z serde_externals_scheme \<Rightarrow> json \<Rightarrow> (bytes list, string) result" where
  "timestamp_data_de X =
     de_struct X [''rfc3161Timestamps''] (defaulted [] ''rfc3161Timestamps'' (de_list X (timestamp_de X)))"

definition material_ser :: "'z serde_externals_scheme \<Rightarrow> verification_material \<Rightarrow> json" where
  "material_ser X m = obj
     [map_prod id Some (material_content_ser X (vm_content m)),
      (''tlogEntries'', Some (ser_list (entry_ser X) (tlog_entries m))),
      (''timestampVerificationData'', Some (timestamp_data_ser X (rfc3161_timestamps m)))]"

definition material_de :: "'z serde_externals_scheme \<Rightarrow> json \<Rightarrow> (verification_material, string) result" where
  "material_de X v = de_struct X [''tlogEntries'', ''timestampVerificationData''] (\<lambda>m.
     and_then (defaulted [] ''tlogEntries'' (de_list X (entry_de X)) m) (\<lambda>es.
     and_then (defaulted [] ''timestampVerificationData'' (null_as_default [] (timestamp_data_de X)) m) (\<lambda>ts.
     and_then (material_content_de X v) (\<lambda>c.
       Inr \<lparr>vm_content = c, tlog_entries = es, rfc3161_timestamps = ts\<rparr>)))) v"

subsection \<open>The bundle\<close>

definition default_media_type :: string where
  "default_media_type = ''application/vnd.dev.sigstore.bundle+json;version=0.1''"

definition bundle_ser :: "'z serde_externals_scheme \<Rightarrow> sigstore_bundle \<Rightarrow> json" where
  "bundle_ser X b = obj
     [(''mediaType'', Some (JString (b_media_type b))),
      (''verificationMaterial'', Some (material_ser X (b_material b))),
      map_prod id Some (content_ser X (b_content b))]"

definition bundle_de :: "'z serde_externals_scheme \<Rightarrow> json \<Rightarrow> (sigstore_bundle, string) result" where
  "bundle_de X v = de_struct X [''mediaType'', ''verificationMaterial''] (\<lambda>m.
     and_then (defaulted default_media_type ''mediaType'' (de_string X) m) (\<lambda>mt.
     and_then (required ''verificationMaterial'' (material_de X) m) (\<lambda>vm.
     and_then (content_de X v) (\<lambda>c.
       Inr \<lparr>b_media_type = mt, b_material = vm, b_content = c\<rparr>)))) v"

definition bundle_from_json :: "'z serde_externals_scheme \<Rightarrow> string \<Rightarrow> (sigstore_bundle, types_error) result" where
  "bundle_from_json X s = map_err Json (and_then (json_read X s) (bundle_de X))"

definition bundle_to_json :: "'z serde_externals_scheme \<Rightarrow> sigstore_bundle \<Rightarrow> (string, types_error) result" where
  "bundle_to_json X b = map_err Json (json_write X (bundle_ser X b))"

subsection \<open>Values that survive\<close>

definition hash_ok :: "bytes \<Rightarrow> bool" where
  "hash_ok h \<longleftrightarrow> length h = 32"

definition proof_ok :: "inclusion_proof \<Rightarrow> bool" where
  "proof_ok p \<longleftrightarrow> is_i64 (ip_log_index p) \<and> hash_ok (ip_root_hash p) \<and> is_i64 (ip_tree_size p) \<and> list_all hash_ok (ip_hashes p)"

definition entry_ok :: "tlog_entry \<Rightarrow> bool" where
  "entry_ok e \<longleftrightarrow> is_i64 (te_log_index e) \<and> is_i64 (te_integrated_time e) \<and> pred_option proof_ok (te_proof e)"

fun content_ok :: "'z serde_externals_scheme \<Rightarrow> signature_content \<Rightarrow> bool" where
  "content_ok X (MessageSignature s) = pred_option (\<lambda>d. digest_ok X (md_digest d)) (msg_digest s)"
| "content_ok X (DsseEnvelope e) = True"

text \<open>
  The conditions the Rust types give (hashes of 32 bytes, 64-bit integers), and one they do not:
  a message digest whose base64 text could be taken for hex is excluded.
\<close>

definition bundle_ok :: "'z serde_externals_scheme \<Rightarrow> sigstore_bundle \<Rightarrow> bool" where
  "bundle_ok X b \<longleftrightarrow> list_all entry_ok (tlog_entries (b_material b)) \<and> content_ok X (b_content b)"

subsection \<open>Codecs\<close>

lemma obj_not_null [simp]: "obj fs \<noteq> JNull"
  by (simp add: obj_def)

lemma obj_filter: "distinct (map fst fs) \<Longrightarrow> filter (\<lambda>(k, x). k \<in> set ns \<and> x \<noteq> None) fs = [(k, Some v)] \<Longrightarrow>
    filter (\<lambda>(k, v). k \<in> set ns) (present fs) = [(k, v)]"
proof (induction fs)
  case (Cons kx fs)
  obtain k' x where kx: "kx = (k', x)" by (cases kx)
  have none: "filter (\<lambda>(k, v). k \<in> set ns) (present gs) = []"
    if "filter (\<lambda>(k, x). k \<in> set ns \<and> x \<noteq> None) gs = []" for gs :: "(string \<times> json option) list"
    using that by (auto simp: filter_empty_conv present_set)
  from Cons kx none [of fs] show ?case by (cases x) (auto simp: present_Cons split: if_splits)
qed simp

lemma flat_variant_obj:
  "serde_laws X \<Longrightarrow> distinct (map fst fs) \<Longrightarrow>
     filter (\<lambda>(k, x). k \<in> set ns \<and> x \<noteq> None) fs = [(k, Some v)] \<Longrightarrow> flat_variant X ns (obj fs) = Inr (k, v)"
  by (simp add: obj_def serde_laws_variant present_distinct obj_filter)

lemmas read_members = de_struct_obj field_defs

interpretation dsse_signature_codec: codec "dsse_signature_ser X" "dsse_signature_de X" "\<lambda>s. serde_laws X" for X
  by unfold_locales
    (simp_all add: dsse_signature_ser_def dsse_signature_de_def read_members newtype_codec.dec_enc
      str_codec.skipped_codec)

interpretation dsse_envelope_codec: codec "dsse_envelope_ser X" "dsse_envelope_de X" "\<lambda>e. serde_laws X" for X
  by unfold_locales
    (simp_all add: dsse_envelope_ser_def dsse_envelope_de_def read_members newtype_codec.dec_enc
      str_codec.dec_enc dsse_signature_codec.list_codec list_all_iff)

interpretation message_digest_codec:
  codec "message_digest_ser X" "message_digest_de X" "\<lambda>d. serde_laws X \<and> digest_ok X (md_digest d)" for X
  by unfold_locales
    (simp_all add: message_digest_ser_def message_digest_de_def read_members hash_alg_codec.dec_enc
      digest_codec.dec_enc)

interpretation message_signature_codec:
  codec "message_signature_ser X" "message_signature_de X"
    "\<lambda>s. serde_laws X \<and> pred_option (\<lambda>d. digest_ok X (md_digest d)) (msg_digest s)" for X
proof unfold_locales
  fix s :: message_signature
  assume s: "serde_laws X \<and> pred_option (\<lambda>d. digest_ok X (md_digest d)) (msg_digest s)"
  then have "pred_option (\<lambda>d. serde_laws X \<and> digest_ok X (md_digest d)) (msg_digest s)"
    by (cases "msg_digest s") simp_all
  with s show "message_signature_de X (message_signature_ser X s) = Inr s"
    by (simp add: message_signature_ser_def message_signature_de_def read_members newtype_codec.dec_enc
        message_digest_codec.opt_member_codec)
qed (simp add: message_signature_ser_def)

interpretation log_id_codec: codec log_id_ser "log_id_de X" "\<lambda>k. serde_laws X" for X
  by unfold_locales (simp_all add: log_id_ser_def log_id_de_def read_members str_codec.dec_enc)

interpretation kind_version_codec: codec kind_version_ser "kind_version_de X" "\<lambda>kv. serde_laws X" for X
  by unfold_locales (simp_all add: kind_version_ser_def kind_version_de_def read_members str_codec.dec_enc)

interpretation promise_codec: codec "promise_ser X" "promise_de X" "\<lambda>s. serde_laws X" for X
  by unfold_locales (simp_all add: promise_ser_def promise_de_def read_members newtype_codec.dec_enc)

interpretation checkpoint_codec: codec checkpoint_ser "checkpoint_de X" "\<lambda>c. serde_laws X" for X
  by unfold_locales (simp_all add: checkpoint_ser_def checkpoint_de_def read_members str_codec.dec_enc)

interpretation proof_codec: codec "proof_ser X" "proof_de X" "\<lambda>p. serde_laws X \<and> proof_ok p" for X
proof unfold_locales
  fix p :: inclusion_proof assume p: "serde_laws X \<and> proof_ok p"
  then have "list_all (\<lambda>h. serde_laws X \<and> length h = 32) (ip_hashes p)"
    by (simp add: proof_ok_def hash_ok_def list_all_iff)
  with p show "proof_de X (proof_ser X p) = Inr p"
    by (simp add: proof_ser_def proof_de_def read_members proof_ok_def hash_ok_def log_index_codec.dec_enc
        sha256_codec.dec_enc sha256_codec.list_codec i64_codec.dec_enc checkpoint_codec.skipped_codec)
qed (simp add: proof_ser_def)

interpretation entry_codec: codec "entry_ser X" "entry_de X" "\<lambda>e. serde_laws X \<and> entry_ok e" for X
proof unfold_locales
  fix e :: tlog_entry assume e: "serde_laws X \<and> entry_ok e"
  then have "pred_option (\<lambda>p. serde_laws X \<and> proof_ok p) (te_proof e)"
    by (cases "te_proof e") (simp_all add: entry_ok_def)
  moreover from e have "pred_option (\<lambda>s. serde_laws X) (te_promise e)" by (cases "te_promise e") simp_all
  ultimately show "entry_de X (entry_ser X e) = Inr e" using e
    by (simp add: entry_ser_def entry_de_def read_members entry_ok_def log_index_codec.dec_enc
        log_id_codec.dec_enc kind_version_codec.dec_enc i64_codec.skipped_codec promise_codec.opt_member_codec
        proof_codec.opt_member_codec newtype_codec.dec_enc)
qed (simp add: entry_ser_def)

interpretation certificate_codec: codec "certificate_ser X" "certificate_de X" "\<lambda>c. serde_laws X" for X
  by unfold_locales (simp_all add: certificate_ser_def certificate_de_def read_members newtype_codec.dec_enc)

interpretation timestamp_codec: codec "timestamp_ser X" "timestamp_de X" "\<lambda>t. serde_laws X" for X
  by unfold_locales (simp_all add: timestamp_ser_def timestamp_de_def read_members newtype_codec.dec_enc)

interpretation timestamp_data_codec: codec "timestamp_data_ser X" "timestamp_data_de X" "\<lambda>ts. serde_laws X" for X
proof unfold_locales
  fix ts assume "serde_laws X"
  then show "timestamp_data_de X (timestamp_data_ser X ts) = Inr ts"
    by (cases ts) (simp_all add: timestamp_data_ser_def timestamp_data_de_def read_members skip_if_def
        timestamp_codec.list_codec list_all_iff)
qed (simp add: timestamp_data_ser_def)

lemma material_content_roundtrip:
  assumes "serde_laws X" "obj (map_prod id Some (material_content_ser X c) # fs) = v"
    and "distinct (map fst fs)" "set (map fst fs) \<subseteq> {''tlogEntries'', ''timestampVerificationData''}"
  shows "material_content_de X v = Inr c"
proof -
  have none: "filter (\<lambda>(k, x). k \<in> set [''certificate'', ''x509CertificateChain'', ''publicKey''] \<and> x \<noteq> None) fs = []"
    using assms(4) by (auto simp: filter_empty_conv)
  obtain k w where kw: "material_content_ser X c = (k, w)" by fastforce
  then have k: "k \<in> set [''certificate'', ''x509CertificateChain'', ''publicKey'']" by (cases c) auto
  then have "k \<notin> set (map fst fs)" using assms(4) by auto
  with assms none k kw have "flat_variant X [''certificate'', ''x509CertificateChain'', ''publicKey''] v = Inr (k, w)"
    by (auto intro: flat_variant_obj)
  with kw show ?thesis using assms(1)
    by (cases c) (auto simp: material_content_de_def read_members certificate_codec.dec_enc
        certificate_codec.list_codec str_codec.dec_enc list_all_iff)
qed

interpretation material_codec: codec "material_ser X" "material_de X"
    "\<lambda>m. serde_laws X \<and> list_all entry_ok (tlog_entries m)" for X
proof unfold_locales
  fix m :: verification_material assume m: "serde_laws X \<and> list_all entry_ok (tlog_entries m)"
  then have es: "list_all (\<lambda>e. serde_laws X \<and> entry_ok e) (tlog_entries m)" by (simp add: list_all_iff)
  obtain k w where kw: "material_content_ser X (vm_content m) = (k, w)" by fastforce
  then have k: "''tlogEntries'' \<noteq> k" "''timestampVerificationData'' \<noteq> k" "k \<noteq> ''tlogEntries''"
      "k \<noteq> ''timestampVerificationData''"
    by (cases "vm_content m"; auto)+
  have "material_content_de X (material_ser X m) = Inr (vm_content m)"
    using m by (intro material_content_roundtrip) (auto simp: material_ser_def)
  with m es k show "material_de X (material_ser X m) = Inr m"
    by (simp add: material_de_def material_ser_def kw read_members entry_codec.list_codec
        timestamp_data_codec.null_as_default_codec)
qed (simp add: material_ser_def)

lemma content_roundtrip:
  assumes "serde_laws X" "content_ok X c" "obj (fs @ [map_prod id Some (content_ser X c)]) = v"
    and "distinct (map fst fs)" "set (map fst fs) \<subseteq> {''mediaType'', ''verificationMaterial''}"
  shows "content_de X v = Inr c"
proof -
  have none: "filter (\<lambda>(k, x). k \<in> set [''messageSignature'', ''dsseEnvelope''] \<and> x \<noteq> None) fs = []"
    using assms(5) by (auto simp: filter_empty_conv)
  obtain k w where kw: "content_ser X c = (k, w)" by fastforce
  then have k: "k \<in> set [''messageSignature'', ''dsseEnvelope'']" by (cases c) auto
  then have "k \<notin> set (map fst fs)" using assms(5) by auto
  with assms none k kw have "flat_variant X [''messageSignature'', ''dsseEnvelope''] v = Inr (k, w)"
    by (auto intro: flat_variant_obj)
  with kw show ?thesis using assms(1,2)
    by (cases c) (auto simp: content_de_def message_signature_codec.dec_enc dsse_envelope_codec.dec_enc)
qed

interpretation bundle_codec: codec "bundle_ser X" "bundle_de X" "\<lambda>b. serde_laws X \<and> bundle_ok X b" for X
proof unfold_locales
  fix b :: sigstore_bundle assume b: "serde_laws X \<and> bundle_ok X b"
  obtain k w where kw: "content_ser X (b_content b) = (k, w)" by fastforce
  then have k: "''mediaType'' \<noteq> k" "''verificationMaterial'' \<noteq> k" "k \<noteq> ''mediaType''" "k \<noteq> ''verificationMaterial''"
    by (cases "b_content b"; auto)+
  have "content_de X (bundle_ser X b) = Inr (b_content b)"
    using b by (intro content_roundtrip [where fs = "[(''mediaType'', Some (JString (b_media_type b))),
      (''verificationMaterial'', Some (material_ser X (b_material b)))]"]) (auto simp: bundle_ser_def bundle_ok_def)
  with b k show "bundle_de X (bundle_ser X b) = Inr b"
    by (simp add: bundle_de_def bundle_ser_def kw read_members str_codec.dec_enc material_codec.dec_enc bundle_ok_def)
qed (simp add: bundle_ser_def)

subsection \<open>What a parsed bundle satisfies\<close>

lemma de_struct_Inr [result_simps]:
  "de_struct X names f v = Inr x \<longleftrightarrow> (\<exists>m. struct_members X names v = Inr m \<and> f m = Inr x)"
  by (simp add: de_struct_def result_simps)

lemma required_InrD: "required k f m = Inr x \<Longrightarrow> \<exists>v. f v = Inr x"
  by (auto simp: required_def split: option.splits)

lemma defaulted_InrD: "defaulted d k f m = Inr x \<Longrightarrow> x = d \<or> (\<exists>v. f v = Inr x)"
  by (auto simp: defaulted_def split: option.splits)

lemma opt_field_InrD: "opt_field k f m = Inr x \<Longrightarrow> pred_option (\<lambda>y. \<exists>v. f v = Inr y) x"
  by (auto simp: opt_field_def de_option_def result_simps split: option.splits if_splits)

lemma de_list_InrD: "de_list X f v = Inr xs \<Longrightarrow> list_all (\<lambda>x. \<exists>w. f w = Inr x) xs"
proof -
  assume "de_list X f v = Inr xs"
  then obtain vs where "map f vs = map Inr xs"
    by (auto simp: de_list_def result_simps split: json.splits)
  then have "f (vs ! i) = Inr (xs ! i)" if "i < length xs" for i
    using that by (metis length_map nth_map)
  then show ?thesis by (auto simp: list_all_length)
qed

definition proof_typed :: "inclusion_proof \<Rightarrow> bool" where
  "proof_typed p \<longleftrightarrow> hash_ok (ip_root_hash p) \<and> is_i64 (ip_tree_size p) \<and> list_all hash_ok (ip_hashes p)"

definition entry_typed :: "tlog_entry \<Rightarrow> bool" where
  "entry_typed e \<longleftrightarrow> is_i64 (te_integrated_time e) \<and> pred_option proof_typed (te_proof e)"

lemma defaulted_list_InrD:
  assumes "defaulted [] k (de_list X f) m = Inr xs" "\<And>v x. f v = Inr x \<Longrightarrow> P x"
  shows "list_all P xs"
proof (cases "xs = []")
  case False
  with defaulted_InrD [OF assms(1)] obtain v where "de_list X f v = Inr xs" by auto
  with de_list_InrD have "list_all (\<lambda>x. \<exists>w. f w = Inr x) xs" by blast
  then show ?thesis by (rule list.pred_mono_strong) (use assms(2) in blast)
qed simp

lemma proof_de_typed:
  assumes "proof_de X v = Inr p"
  shows "proof_typed p"
proof -
  from assms obtain m where "required ''rootHash'' (sha256_de X) m = Inr (ip_root_hash p)"
    "required ''treeSize'' (string_i64_de X) m = Inr (ip_tree_size p)"
    and hs: "defaulted [] ''hashes'' (de_list X (sha256_de X)) m = Inr (ip_hashes p)"
    by (auto simp: proof_de_def result_simps)
  then have "hash_ok (ip_root_hash p)" "is_i64 (ip_tree_size p)"
    by (auto simp: hash_ok_def dest!: required_InrD dest: sha256_de_length string_i64_de_range)
  moreover from hs have "list_all hash_ok (ip_hashes p)"
    by (rule defaulted_list_InrD) (simp add: hash_ok_def sha256_de_length)
  ultimately show ?thesis by (simp add: proof_typed_def)
qed

lemma entry_de_typed: "entry_de X v = Inr e \<Longrightarrow> entry_typed e"
proof -
  assume "entry_de X v = Inr e"
  then obtain m where t: "defaulted 0 ''integratedTime'' (string_i64_de X) m = Inr (te_integrated_time e)"
    and p: "opt_field ''inclusionProof'' (proof_de X) m = Inr (te_proof e)"
    by (auto simp: entry_de_def result_simps)
  from t have "is_i64 (te_integrated_time e)"
    by (auto simp: is_i64_def dest!: defaulted_InrD string_i64_de_range)
  with opt_field_InrD [OF p] show ?thesis
    by (auto simp: entry_typed_def proof_de_typed elim!: option.pred_mono_strong)
qed

lemma material_de_typed:
  assumes "material_de X w = Inr vm"
  shows "list_all entry_typed (tlog_entries vm)"
proof -
  from assms obtain m where "defaulted [] ''tlogEntries'' (de_list X (entry_de X)) m = Inr (tlog_entries vm)"
    unfolding material_de_def de_struct_Inr and_then_Inr_iff by fastforce
  then show ?thesis by (rule defaulted_list_InrD) (rule entry_de_typed)
qed

lemma bundle_de_typed: "bundle_de X v = Inr b \<Longrightarrow> list_all entry_typed (tlog_entries (b_material b))"
proof -
  assume "bundle_de X v = Inr b"
  then obtain m where "required ''verificationMaterial'' (material_de X) m = Inr (b_material b)"
    unfolding bundle_de_def de_struct_Inr and_then_Inr_iff by fastforce
  then obtain w where "material_de X w = Inr (b_material b)" by (elim required_InrD [THEN exE])
  then show ?thesis by (rule material_de_typed)
qed

subsection \<open>A concrete reader and writer\<close>

text \<open>
  One instance of the parameters, with one document: base64 is a padding character and the bytes,
  and the text of the document is empty.
\<close>

definition sample_serde :: "json \<Rightarrow> serde_externals" where
  "sample_serde d = externals.extend
     (sample_ext \<lparr>b64_encode := \<lambda>b. (if length b mod 3 \<noteq> 0 then CHR ''='' else CHR ''+'') # of_bytes b,
                  b64_decode := \<lambda>s. Inr (as_bytes (tl s))\<rparr>)
     \<lparr>json_read = \<lambda>s. if s = [] then Inr d else Inl ''expected value'',
      json_write = \<lambda>v. if v = d then Inr [] else Inl ''number out of range'',
      struct_members = \<lambda>names v. case v of
          JObject m \<Rightarrow> Inr (\<lambda>k. if k \<in> set names then map_of m k else None)
        | _ \<Rightarrow> Inl ''invalid type, expected struct'',
      flat_variant = \<lambda>variants v. case v of
          JObject m \<Rightarrow> (case filter (\<lambda>(k, w). k \<in> set variants) m of
             [] \<Rightarrow> Inl ''no variant of enum found in flattened data'' | kw # _ \<Rightarrow> Inr kw)
        | _ \<Rightarrow> Inl ''invalid type, expected struct'',
      invalid_type = \<lambda>e v. ''invalid type, expected '' @ e\<rparr>"

lemma sample_serde_laws: "serde_laws (sample_serde d)"
  by (auto simp: serde_laws_def sample_serde_def externals.defs split: if_splits)

definition sample_json_bundle :: sigstore_bundle where
  "sample_json_bundle =
     \<lparr>b_media_type = ''application/vnd.dev.sigstore.bundle.v0.3+json'',
      b_material = \<lparr>vm_content = Certificate [1, 2],
        tlog_entries = [\<lparr>te_log_index = 7, te_log_id = ''log'', te_kind = ''hashedrekord'', te_version = ''0.0.1'',
          te_integrated_time = 0, te_promise = None,
          te_proof = Some \<lparr>ip_log_index = 7, ip_root_hash = replicate 32 1, ip_tree_size = 9,
            ip_hashes = [replicate 32 2], ip_checkpoint = ''''\<rparr>,
          te_body = [3]\<rparr>],
        rfc3161_timestamps = []\<rparr>,
      b_content = MessageSignature \<lparr>msg_digest = Some \<lparr>md_algorithm = Sha2256, md_digest = replicate 32 5\<rparr>,
        msg_signature = [6]\<rparr>\<rparr>"

definition sample_document :: json where
  "sample_document = bundle_ser (sample_serde JNull) sample_json_bundle"

lemma sample_bundle_ok: "bundle_ok X sample_json_bundle"
  by (simp add: bundle_ok_def sample_json_bundle_def entry_ok_def proof_ok_def hash_ok_def is_i64_def digest_ok_def)

lemma sample_document_written:
  "bundle_to_json (sample_serde sample_document) sample_json_bundle = Inr []"
proof -
  have "bundle_ser (sample_serde sample_document) sample_json_bundle = sample_document"
    by (simp add: sample_document_def sample_serde_def bundle_ser_def material_ser_def entry_ser_def
      proof_ser_def newtype_ser_def sha256_ser_def certificate_ser_def message_signature_ser_def sample_json_bundle_def
      message_digest_ser_def digest_bytes_ser_def timestamp_data_ser_def skip_if_def to_base64_def
      externals.defs promise_ser_def ser_list_def opt_member_def)
  then show ?thesis by (simp add: bundle_to_json_def sample_serde_def externals.defs)
qed

subsection \<open>Properties\<close>

text \<open>C34: a bundle written as JSON is read back as the same bundle: certificates, signatures, log
  entries with their proofs and promises, timestamps and content, with the members that are skipped
  when writing restored by the defaults of reading.  Of the digests of messages the theorem needs
  that their base64 text could not be taken for hex, which padding excludes for SHA-256 and SHA-512.\<close>

theorem bundle_json_roundtrip:
  assumes "serde_laws X" "bundle_ok X b" "bundle_to_json X b = Inr t"
  shows "bundle_from_json X t = Inr b"
proof -
  from assms(3) have "json_write X (bundle_ser X b) = Inr t"
    by (simp add: bundle_to_json_def result_simps)
  with assms show ?thesis
    by (simp add: bundle_from_json_def serde_laws_text bundle_codec.dec_enc)
qed

theorem bundle_json_roundtrip_witness:
  "bundle_from_json (sample_serde sample_document) [] = Inr sample_json_bundle"
  by (rule bundle_json_roundtrip [OF sample_serde_laws sample_bundle_ok sample_document_written])

text \<open>C35: whatever text a bundle is parsed from, its log entries are well typed: every hash of
  an inclusion proof has the 32 bytes its type says, the root hash and those of the path alike, and
  the tree size and the integrated time are 64-bit integers.\<close>

theorem bundle_from_json_typed:
  assumes "bundle_from_json X t = Inr b"
  shows "list_all entry_typed (tlog_entries (b_material b))"
  using assms by (auto simp: bundle_from_json_def result_simps intro: bundle_de_typed)

theorem bundle_from_json_typed_witness:
  "list_all entry_typed (tlog_entries (b_material sample_json_bundle))"
proof (rule bundle_from_json_typed)
  show "bundle_from_json (sample_serde sample_document) [] = Inr sample_json_bundle"
    using bundle_codec.dec_enc [of "sample_serde sample_document" sample_json_bundle]
      sample_document_written sample_serde_laws sample_bundle_ok
    by (auto simp: bundle_from_json_def bundle_to_json_def result_simps serde_laws_text)
qed

end
