(* ===== verification/Trust_Fetch.thy ===== *)
theory Trust_Fetch
  imports Updater_Correct Cache_Files Signing_Config Rekor_Entry
begin

text \<open>
  The crate sigstore-trust-root, part 3 (src/tuf.rs, and SigstoreInstance of src/trusted_root.rs):
  how the trusted root and the signing configuration are obtained through TUF, from the network
  with a cache, or offline from the cache and the documents the crate embeds.

  It drives the updater of \<open>Updater\<close> over the HTTP repository and the file store of \<open>Tuf_Store\<close>.
  The state is the network and the file system; a result is \<open>None\<close> where the loop that adopts
  cached roots does not end.  The embedded documents, the cache directory of the platform and the
  creation of directories are the environment.  Each reading of the clock is an argument.
\<close>

subsection \<open>The errors of sigstore-tuf as text\<close>

fun fmt_tuf_error :: "tuf_error \<Rightarrow> string" where
  "fmt_tuf_error (tuf_error.Json e) = ''failed to parse JSON: '' @ e"
| "fmt_tuf_error (Malformed s) = ''malformed metadata: '' @ s"
| "fmt_tuf_error NonIntegerNumber = ''canonical JSON only supports integers, found a non-integer number''"
| "fmt_tuf_error (UnusableKey kid reason) = ''unusable key '' @ kid @ '': '' @ reason"
| "fmt_tuf_error (UnsupportedScheme kt s) =
     ''unsupported key scheme: keytype='' @ debug_str kt @ '' scheme='' @ debug_str s"
| "fmt_tuf_error (UnknownRole s) = ''unknown role: '' @ s"
| "fmt_tuf_error (DuplicateSignature role kid) = ''duplicate signature key id '' @ kid @ '' for role '' @ role"
| "fmt_tuf_error (ThresholdNotMet role found threshold) =
     ''signature threshold not met for role '' @ role @ '': '' @ fmt_nat found @ ''/'' @ fmt_nat threshold
       @ '' valid signatures''"
| "fmt_tuf_error (Rollback role trusted new) =
     ''rollback detected for '' @ role @ '': trusted version '' @ fmt_u64 trusted @ '' > new version '' @ fmt_u64 new"
| "fmt_tuf_error (EqualVersion role version) =
     role @ '' version '' @ fmt_u64 version @ '' equals the trusted version; no update''"
| "fmt_tuf_error (BadRootVersion trusted new) =
     ''root version must increment by one: trusted '' @ fmt_u64 trusted @ '', got '' @ fmt_u64 new"
| "fmt_tuf_error (Expired role expires) = role @ '' metadata expired at '' @ expires"
| "fmt_tuf_error (IntegrityMismatch s) = ''integrity check failed: '' @ s"
| "fmt_tuf_error (InvalidTimestamp value e) = ''invalid timestamp '' @ debug_str value @ '': '' @ e"
| "fmt_tuf_error (InvalidSignatureEncoding kid e) =
     ''signature for key '' @ kid @ '' is not valid hex: '' @ e"
| "fmt_tuf_error (Crypto_Error e) = ''crypto error: '' @ fmt_crypto_error e"
| "fmt_tuf_error (Transport s) = ''transport error: '' @ s"

subsection \<open>Instances and environment\<close>

datatype sigstore_instance = PublicGood | Staging | GitHub

record 'n trust_env =
  te_http :: "'n http_client"
  te_project_cache :: "path option"
  te_create_dir :: "path \<Rightarrow> string option"
  te_tuf_root :: "sigstore_instance \<Rightarrow> bytes"
  te_trusted_root_json :: "sigstore_instance \<Rightarrow> string"
  te_signing_config :: "sigstore_instance \<Rightarrow> bytes"
  te_de_trusted_root :: "string \<Rightarrow> (trusted_root, string) result"
  te_de_signing_config :: "string \<Rightarrow> (tuf_signing_config, string) result"

definition trusted_root_from_json :: "'n trust_env \<Rightarrow> string \<Rightarrow> (trusted_root, trust_error) result" where
  "trusted_root_from_json E json = map_err TJson (te_de_trusted_root E json)"

definition trusted_root_from_file ::
  "'n trust_env \<Rightarrow> (string, string) result \<Rightarrow> (trusted_root, trust_error) result" where
  "trusted_root_from_file E read = and_then (map_err TJson read) (trusted_root_from_json E)"

definition embedded_trusted_root_json :: "'n trust_env \<Rightarrow> sigstore_instance \<Rightarrow> string" where
  "embedded_trusted_root_json E i = te_trusted_root_json E i"

definition embedded_trusted_root :: "'n trust_env \<Rightarrow> sigstore_instance \<Rightarrow> (trusted_root, trust_error) result" where
  "embedded_trusted_root E i = trusted_root_from_json E (embedded_trusted_root_json E i)"

definition from_embedded :: "'n trust_env \<Rightarrow> sigstore_instance \<Rightarrow> (trusted_root, trust_error) result" where
  "from_embedded E i = embedded_trusted_root E i"

definition DEFAULT_TUF_URL :: string where "DEFAULT_TUF_URL = ''https://tuf-repo-cdn.sigstore.dev''"
definition STAGING_TUF_URL :: string where "STAGING_TUF_URL = ''https://tuf-repo-cdn.sigstage.dev''"
definition GITHUB_TUF_URL :: string where "GITHUB_TUF_URL = ''https://tuf-repo.github.com''"
definition TRUSTED_ROOT_TARGET :: string where "TRUSTED_ROOT_TARGET = ''trusted_root.json''"
definition SIGNING_CONFIG_TARGET :: string where "SIGNING_CONFIG_TARGET = ''signing_config.v0.2.json''"

definition trim_end_slashes :: "string \<Rightarrow> string" where
  "trim_end_slashes s = rev (dropWhile (\<lambda>c. c = CHR ''/'') (rev s))"

text \<open>\<open>url_to_dirname\<close>: after the trimming, the loop is that of the crate sigstore-cache.\<close>

definition tuf_dirname :: "string \<Rightarrow> string" where
  "tuf_dirname url = url_to_dirname (trim_end_slashes url)"

subsection \<open>TufConfig\<close>

record tuf_config =
  tc_url :: string
  tc_cache_dir :: "path option"
  tc_disable_cache :: bool
  tc_offline :: bool
  tc_root_json :: "bytes option"

definition tuf_default :: tuf_config where
  "tuf_default = \<lparr>tc_url = DEFAULT_TUF_URL, tc_cache_dir = None, tc_disable_cache = False, tc_offline = False,
     tc_root_json = None\<rparr>"

definition tuf_production :: tuf_config where
  "tuf_production = tuf_default"

definition tuf_staging :: tuf_config where
  "tuf_staging = tuf_default\<lparr>tc_url := STAGING_TUF_URL\<rparr>"

definition tuf_github :: tuf_config where
  "tuf_github = tuf_default\<lparr>tc_url := GITHUB_TUF_URL\<rparr>"

definition tuf_custom :: "string \<Rightarrow> bytes \<Rightarrow> tuf_config" where
  "tuf_custom url root_json = \<lparr>tc_url = url, tc_cache_dir = None, tc_disable_cache = False, tc_offline = False,
     tc_root_json = Some root_json\<rparr>"

definition tuf_custom_from_file :: "string \<Rightarrow> (bytes, string) result \<Rightarrow> (tuf_config, string) result" where
  "tuf_custom_from_file url read = and_then read (\<lambda>root_json. Inr (tuf_custom url root_json))"

definition with_cache_dir :: "path \<Rightarrow> tuf_config \<Rightarrow> tuf_config" where
  "with_cache_dir p c = c\<lparr>tc_cache_dir := Some p\<rparr>"

definition without_cache :: "tuf_config \<Rightarrow> tuf_config" where
  "without_cache c = c\<lparr>tc_disable_cache := True\<rparr>"

definition offline :: "tuf_config \<Rightarrow> tuf_config" where
  "offline c = c\<lparr>tc_offline := True\<rparr>"

fun instance_tuf_config :: "sigstore_instance \<Rightarrow> tuf_config" where
  "instance_tuf_config PublicGood = tuf_production"
| "instance_tuf_config Staging = tuf_staging"
| "instance_tuf_config GitHub = tuf_github"

definition get_root_json :: "'n trust_env \<Rightarrow> tuf_config \<Rightarrow> (bytes, trust_error) result" where
  "get_root_json E c =
     (case tc_root_json c of
        Some root \<Rightarrow> Inr root
      | None \<Rightarrow>
          if tc_url c = DEFAULT_TUF_URL \<or> starts_with (tc_url c) DEFAULT_TUF_URL then Inr (te_tuf_root E PublicGood)
          else if tc_url c = STAGING_TUF_URL \<or> starts_with (tc_url c) STAGING_TUF_URL then Inr (te_tuf_root E Staging)
          else if tc_url c = GITHUB_TUF_URL \<or> starts_with (tc_url c) GITHUB_TUF_URL then Inr (te_tuf_root E GitHub)
          else Inl (Tuf (''No root.json provided for custom URL: '' @ tc_url c
            @ ''. Use TufConfig::custom() to provide one.'')))"

subsection \<open>TufClient\<close>

definition embedded_targets :: "'n trust_env \<Rightarrow> tuf_config \<Rightarrow> (string \<times> bytes) list" where
  "embedded_targets E c =
     (if tc_url c = DEFAULT_TUF_URL \<or> starts_with (tc_url c) DEFAULT_TUF_URL then
        [(TRUSTED_ROOT_TARGET, as_bytes (te_trusted_root_json E PublicGood)),
         (SIGNING_CONFIG_TARGET, te_signing_config E PublicGood)]
      else if tc_url c = STAGING_TUF_URL \<or> starts_with (tc_url c) STAGING_TUF_URL then
        [(TRUSTED_ROOT_TARGET, as_bytes (te_trusted_root_json E Staging)),
         (SIGNING_CONFIG_TARGET, te_signing_config E Staging)]
      else if tc_url c = GITHUB_TUF_URL \<or> starts_with (tc_url c) GITHUB_TUF_URL then
        [(TRUSTED_ROOT_TARGET, as_bytes (te_trusted_root_json E GitHub))]
      else [])"

definition get_cache_dir :: "'n trust_env \<Rightarrow> tuf_config \<Rightarrow> (path, trust_error) result" where
  "get_cache_dir E c =
     (case tc_cache_dir c of
        Some dir \<Rightarrow> Inr dir
      | None \<Rightarrow>
          and_then (ok_or (Tuf ''Could not determine cache directory'') (te_project_cache E))
            (\<lambda>d. Inr (d @ [''tuf''] @ components (tuf_dirname (tc_url c)))))"

text \<open>\<open>Path::join\<close> on lists of components: an absolute name replaces the path.\<close>

definition join_path :: "path \<Rightarrow> string \<Rightarrow> path" where
  "join_path dir nm = (if starts_with nm ''/'' then components nm else dir @ components nm)"

definition fetch_target_offline ::
  "'n trust_env \<Rightarrow> tuf_config \<Rightarrow> file_system \<Rightarrow> string \<Rightarrow> (bytes, trust_error) result" where
  "fetch_target_offline E c fs target_name =
     (let cached =
        (if \<not> tc_disable_cache c then
           (case get_cache_dir E c of
              Inr cache_dir \<Rightarrow> files fs (join_path (join_path cache_dir ''targets'') target_name)
            | Inl _ \<Rightarrow> None)
         else None) in
      case cached of
        Some bs \<Rightarrow> Inr bs
      | None \<Rightarrow>
          (case map_of (embedded_targets E c) target_name of
             Some d \<Rightarrow> Inr d
           | None \<Rightarrow> Inl (Tuf (''Target '' @ [CHR 0x27] @ target_name @ [CHR 0x27]
               @ '' not found in cache or embedded data (offline mode)''))))"

text \<open>The services of an updater over HTTP with a cache in \<open>dir\<close>.\<close>

definition tuf_services :: "'n trust_env \<Rightarrow> http_repository \<Rightarrow> path \<Rightarrow> ('n, file_system) services" where
  "tuf_services E h dir = file_services dir (http_fetch_metadata (te_http E) h) (http_fetch_target (te_http E) h)"

definition tuf_err :: "string \<Rightarrow> (tuf_error + 'a) \<Rightarrow> (trust_error + 'a)" where
  "tuf_err msg r = map_err (\<lambda>e. Tuf (msg @ fmt_tuf_error e)) r"

type_synonym 'n updater_session = "('n, file_system) services \<times> ('n, file_system) updater"

text \<open>The network and the file system an updater leaves; without a store it has not touched the files.\<close>

definition session_state :: "file_system \<Rightarrow> ('n, file_system) updater \<Rightarrow> 'n \<times> file_system" where
  "session_state fs u = (u_repo u, case u_store u of Some s \<Rightarrow> s | None \<Rightarrow> fs)"

text \<open>\<open>build_updater\<close> up to the cache: the repository and the updater over the pinned root.\<close>

definition open_updater ::
  "'z tuf_externals_scheme \<Rightarrow> 'n trust_env \<Rightarrow> tuf_config \<Rightarrow> 'n
    \<Rightarrow> (http_repository \<times> ('n, file_system) updater, trust_error) result" where
  "open_updater X E c net =
     and_then (tuf_err '''' (http_new (te_http E) (tc_url c))) (\<lambda>rp.
     and_then (get_root_json E c) (\<lambda>root_bytes.
     and_then (tuf_err '''' (new_updater X net root_bytes)) (\<lambda>u. Inr (rp, u))))"

text \<open>Its end: the refresh.\<close>

definition refresh_session ::
  "'z tuf_externals_scheme \<Rightarrow> timestamp \<Rightarrow> file_system \<Rightarrow> ('n, file_system) services \<Rightarrow> ('n, file_system) updater
    \<Rightarrow> ('n \<times> file_system) \<times> ('n updater_session, trust_error) result" where
  "refresh_session X now fs V u =
     (case refresh X V now u of
        (u', r) \<Rightarrow> (session_state fs u', and_then (tuf_err ''TUF repository load failed: '' r) (\<lambda>_. Inr (V, u'))))"

definition build_updater ::
  "'z tuf_externals_scheme \<Rightarrow> 'n trust_env \<Rightarrow> tuf_config \<Rightarrow> timestamp \<Rightarrow> 'n \<times> file_system
    \<Rightarrow> (('n \<times> file_system) \<times> ('n updater_session, trust_error) result) option" where
  "build_updater X E c now st =
     (case st of (net, fs) \<Rightarrow>
      case open_updater X E c net of
        Inl e \<Rightarrow> Some (st, Inl e)
      | Inr (rp, u) \<Rightarrow>
          if tc_disable_cache c then Some (refresh_session X now fs (tuf_services E rp []) u)
          else
            (case get_cache_dir E c of
               Inl e \<Rightarrow> Some (st, Inl e)
             | Inr cache_dir \<Rightarrow>
                 (case te_create_dir E cache_dir of
                    Some e \<Rightarrow> Some (st, Inl (Tuf (''Failed to create cache directory: '' @ e)))
                  | None \<Rightarrow> map_option (refresh_session X now fs (tuf_services E rp cache_dir))
                      (with_store X (tuf_services E rp cache_dir) u fs))))"

definition fetch_online ::
  "'z tuf_externals_scheme \<Rightarrow> file_system \<Rightarrow> 'n updater_session \<Rightarrow> timestamp \<Rightarrow> string
    \<Rightarrow> ('n, file_system) updater \<times> (bytes, trust_error) result" where
  "fetch_online X fs su now name =
     (case get_target X (fst su) name now (snd su) of
        (u', r) \<Rightarrow> (u', tuf_err (''Failed to fetch target '' @ name @ '': '') r))"

text \<open>\<open>fetch_target\<close>: the clock is read for the refresh and again for the target.\<close>

definition tuf_fetch_target ::
  "'z tuf_externals_scheme \<Rightarrow> 'n trust_env \<Rightarrow> tuf_config \<Rightarrow> timestamp \<Rightarrow> timestamp \<Rightarrow> string \<Rightarrow> 'n \<times> file_system
    \<Rightarrow> (('n \<times> file_system) \<times> (bytes, trust_error) result) option" where
  "tuf_fetch_target X E c now now' target_name st =
     (if tc_offline c then Some (st, fetch_target_offline E c (snd st) target_name)
      else
        (case build_updater X E c now st of
           None \<Rightarrow> None
         | Some (st', Inl e) \<Rightarrow> Some (st', Inl e)
         | Some (st', Inr su) \<Rightarrow>
             (case fetch_online X (snd st') su now' target_name of
                (u', r) \<Rightarrow> Some (session_state (snd st') u', r))))"

text \<open>The loop of \<open>fetch_targets\<close> over one updater.\<close>

fun fetch_each ::
  "'z tuf_externals_scheme \<Rightarrow> file_system \<Rightarrow> timestamp \<Rightarrow> string list \<Rightarrow> 'n updater_session
    \<Rightarrow> ('n, file_system) updater \<times> (bytes list, trust_error) result" where
  "fetch_each X fs now [] su = (snd su, Inr [])"
| "fetch_each X fs now (name # names) su =
     (case fetch_online X fs su now name of
        (u', Inl e) \<Rightarrow> (u', Inl e)
      | (u', Inr bs) \<Rightarrow>
          (case fetch_each X fs now names (fst su, u') of
             (u'', r) \<Rightarrow> (u'', and_then r (\<lambda>rest. Inr (bs # rest)))))"

definition tuf_fetch_targets ::
  "'z tuf_externals_scheme \<Rightarrow> 'n trust_env \<Rightarrow> tuf_config \<Rightarrow> timestamp \<Rightarrow> timestamp \<Rightarrow> string list \<Rightarrow> 'n \<times> file_system
    \<Rightarrow> (('n \<times> file_system) \<times> (bytes list, trust_error) result) option" where
  "tuf_fetch_targets X E c now now' target_names st =
     (if tc_offline c then Some (st, collect_ok (map (fetch_target_offline E c (snd st)) target_names))
      else
        (case build_updater X E c now st of
           None \<Rightarrow> None
         | Some (st', Inl e) \<Rightarrow> Some (st', Inl e)
         | Some (st', Inr su) \<Rightarrow>
             (case fetch_each X (snd st') now' target_names su of
                (u', r) \<Rightarrow> Some (session_state (snd st') u', r))))"

subsection \<open>The trusted root and the signing configuration\<close>

definition target_text :: "'z externals_scheme \<Rightarrow> string \<Rightarrow> bytes \<Rightarrow> (string, trust_error) result" where
  "target_text X name bs = map_err (\<lambda>e. Tuf (''Invalid UTF-8 in '' @ name @ '': '' @ e)) (from_utf8 X bs)"

definition trusted_root_from_tuf ::
  "'z tuf_externals_scheme \<Rightarrow> 'n trust_env \<Rightarrow> tuf_config \<Rightarrow> timestamp \<Rightarrow> timestamp \<Rightarrow> 'n \<times> file_system
    \<Rightarrow> (('n \<times> file_system) \<times> (trusted_root, trust_error) result) option" where
  "trusted_root_from_tuf X E c now now' st =
     map_option (\<lambda>(st', r). (st', and_then r (\<lambda>bs.
         and_then (target_text X TRUSTED_ROOT_TARGET bs) (trusted_root_from_json E))))
       (tuf_fetch_target X E c now now' TRUSTED_ROOT_TARGET st)"

definition signing_config_from_tuf ::
  "'z tuf_externals_scheme \<Rightarrow> 'n trust_env \<Rightarrow> tuf_config \<Rightarrow> timestamp \<Rightarrow> timestamp \<Rightarrow> 'n \<times> file_system
    \<Rightarrow> (('n \<times> file_system) \<times> (tuf_signing_config, trust_error) result) option" where
  "signing_config_from_tuf X E c now now' st =
     map_option (\<lambda>(st', r). (st', and_then r (\<lambda>bs.
         and_then (target_text X SIGNING_CONFIG_TARGET bs) (signing_config_from_json (te_de_signing_config E)))))
       (tuf_fetch_target X E c now now' SIGNING_CONFIG_TARGET st)"

definition fetch_trust_material ::
  "'z tuf_externals_scheme \<Rightarrow> 'n trust_env \<Rightarrow> tuf_config \<Rightarrow> timestamp \<Rightarrow> timestamp \<Rightarrow> 'n \<times> file_system
    \<Rightarrow> (('n \<times> file_system) \<times> (trusted_root \<times> tuf_signing_config, trust_error) result) option" where
  "fetch_trust_material X E c now now' st =
     map_option (\<lambda>(st', r). (st', and_then r (\<lambda>results.
         and_then (target_text X TRUSTED_ROOT_TARGET (results ! 0)) (\<lambda>root_json.
         and_then (target_text X SIGNING_CONFIG_TARGET (results ! 1)) (\<lambda>config_json.
         and_then (trusted_root_from_json E root_json) (\<lambda>root.
         and_then (signing_config_from_json (te_de_signing_config E) config_json) (\<lambda>config.
           Inr (root, config))))))))
       (tuf_fetch_targets X E c now now' [TRUSTED_ROOT_TARGET, SIGNING_CONFIG_TARGET] st)"

text \<open>\<open>TrustedRoot::production\<close>, \<open>SigningConfig::production\<close> and their staging counterparts.\<close>

definition root_production where "root_production X E = trusted_root_from_tuf X E tuf_production"
definition root_staging where "root_staging X E = trusted_root_from_tuf X E tuf_staging"
definition config_production where "config_production X E = signing_config_from_tuf X E tuf_production"
definition config_staging where "config_staging X E = signing_config_from_tuf X E tuf_staging"

subsection \<open>The store through a run of the updater\<close>

text \<open>A property of the store that its writes keep is kept by every action of an updater on it.\<close>

definition stored :: "('s \<Rightarrow> bool) \<Rightarrow> ('r, 's) updater \<Rightarrow> bool" where
  "stored Q u \<longleftrightarrow> (\<exists>s. u_store u = Some s \<and> Q s)"

lemma stored_frame [simp]:
  "stored Q (u\<lparr>u_repo := r\<rparr>) = stored Q u" "stored Q (u\<lparr>u_trusted := t\<rparr>) = stored Q u"
  by (simp_all add: stored_def)

locale store_invariant =
  fixes V :: "('r, 's) services" and Q :: "'s \<Rightarrow> bool"
  assumes store_keeps: "Q s \<Longrightarrow> Q (fst (store_of V s nm bs))"
begin

lemma cache_put_stored: "stored Q u \<Longrightarrow> stored Q (cache_put V nm bs u)"
  by (auto simp: stored_def cache_put_def store_keeps)

lemma keeps_cache [keeps_intros]: "keeps (stored Q) (modifyS (cache_put V nm bs))"
  by (rule keeps_modifyS) (rule cache_put_stored)

lemma keeps_parts [keeps_intros]:
  "keeps (stored Q) (fetch_metadata V nm n)" "keeps (stored Q) (fetch_target V nm n)" "keeps (stored Q) (trust f)"
  by (auto simp: keeps_def fetch_metadata_def fetch_target_def trust_def split: prod.splits sum.splits)

lemma keeps_root_loop [keeps_intros]: "keeps (stored Q) (refresh_root_loop X V m ns)"
  by (induction ns) (auto intro!: keeps_intros)

lemma keeps_seeding [keeps_intros]: "keeps (stored Q) (modifyS (seed_lower_from_store X V now))"
  by (rule keeps_modifyS) (auto simp: seed_lower_from_store_def stored_def)

lemma keeps_timestamp [keeps_intros]: "keeps (stored Q) (refresh_timestamp X V now)"
proof -
  have "keeps (stored Q) (\<lambda>u. case update_timestamp X (u_trusted u) bs now of
       Inr t \<Rightarrow> (cache_put V ''timestamp.json'' bs (u\<lparr>u_trusted := t\<rparr>), Inr ())
     | Inl (EqualVersion _ _) \<Rightarrow> (u, Inr ())
     | Inl e \<Rightarrow> (u, Inl e))" for bs
    unfolding keeps_def by (auto split: sum.splits tuf_error.splits intro!: cache_put_stored)
  then show ?thesis unfolding refresh_timestamp_def by (intro keeps_intros)
qed

lemma keeps_targets_metadata [keeps_intros]: "keeps (stored Q) (fetch_targets_metadata V role)"
  unfolding fetch_targets_metadata_def Let_def by (intro keeps_intros)

lemma keeps_snapshot [keeps_intros]: "keeps (stored Q) (refresh_snapshot X V now)"
  unfolding refresh_snapshot_def Let_def by (intro keeps_intros)

lemma keeps_targets [keeps_intros]: "keeps (stored Q) (refresh_targets X V now)"
  unfolding refresh_targets_def Let_def by (intro keeps_intros)

lemma keeps_refreshing: "keeps (stored Q) (refresh X V now)"
  unfolding refresh_def refresh_root_def by (intro keeps_intros)

lemma keeps_role [keeps_intros]: "keeps (stored Q) (load_role X V role delegator now)"
  unfolding load_role_def Let_def by (intro keeps_intros)

lemma keeps_download: "keeps (stored Q) (download_target X V target p)"
  unfolding download_target_def by (intro keeps_intros)

end

lemma search_stored:
  "store_invariant V Q \<Longrightarrow> stored Q u \<Longrightarrow> stored Q (fst (search X V p now steps visited tv u))"
proof (induction X V p now steps visited tv u rule: search.induct)
  case (2 X V p now steps visited role delegator tv u)
  obtain u' r where l: "load_role X V role delegator now u = (u', r)" by fastforce
  have ok: "stored Q u'" by (rule keepsD [OF store_invariant.keeps_role [OF 2(4)] 2(5) l])
  show ?case
    using 2 l ok
    by (subst search.simps) (auto split: sum.splits bool.splits option.splits prod.splits)
qed (simp add: search.simps)

subsection \<open>The file store of the client\<close>

definition store_works :: "file_system \<Rightarrow> bool" where
  "store_works fs \<longleftrightarrow> (\<forall>p. mkdir_error fs p = None \<and> temp_error fs p = None \<and> write_error fs p = None
     \<and> rename_error fs p 0 = None)"

lemma store_works_file_store: "store_works fs \<Longrightarrow> store_works (fst (file_store dir fs nm bs))"
  using file_store_cases [of dir fs nm bs] by (cases "file_store dir fs nm bs") (auto simp: store_works_def)

interpretation works: store_invariant "tuf_services E rp dir" store_works for E rp dir
  by unfold_locales (simp add: tuf_services_def file_services_def store_works_file_store)

lemma file_store_works:
  "store_works fs \<Longrightarrow> safe_path dir nm = Inr p \<Longrightarrow>
     file_store dir fs nm bs = (fs\<lparr>files := (files fs)(p \<mapsto> bs)\<rparr>, Inr ())"
  by (simp add: file_store_def write_atomic_def store_works_def)

lemma split_on_append: "split_on d (xs @ d # ys) = split_on d xs @ split_on d ys"
  by (induction xs) (auto split: list.splits)

lemma target_path_components:
  "components (''targets/'' @ nm) = ''targets'' # components nm"
proof -
  have "''targets/'' @ nm = ''targets'' @ CHR ''/'' # nm" by simp
  then show ?thesis unfolding components_def by (simp only: split_on_append) simp
qed

text \<open>A name under which the store keeps a target.\<close>

definition plain_name :: "string \<Rightarrow> bool" where
  "plain_name nm \<longleftrightarrow> \<not> starts_with nm ''/'' \<and> ''..'' \<notin> set (components nm)"

definition target_file_path :: "path \<Rightarrow> string \<Rightarrow> path" where
  "target_file_path dir nm = join_path (join_path dir ''targets'') nm"

lemma safe_target_path:
  "plain_name nm \<Longrightarrow> safe_path dir (''targets/'' @ nm) = Inr (target_file_path dir nm)"
proof -
  assume nm: "plain_name nm"
  have "\<not> starts_with (''targets/'' @ nm) ''/''" "\<not> starts_with ''targets'' ''/''"
    by (simp_all add: starts_with_def)
  moreover have "components ''targets'' = [''targets'']" by code_simp
  ultimately show ?thesis using nm
    by (simp only: safe_path_def target_path_components target_file_path_def join_path_def plain_name_def) simp
qed

lemma target_names_plain: "plain_name TRUSTED_ROOT_TARGET" "plain_name SIGNING_CONFIG_TARGET"
  by code_simp+

text \<open>After a target has been fetched, the file of its name in the cache holds what was returned.\<close>

lemma get_target_stored:
  assumes V: "V = tuf_services E rp dir" and s: "stored store_works u" and nm: "plain_name nm"
    and g: "get_target X V nm now u = (u', Inr bs)"
  shows "stored (\<lambda>fs. files fs (target_file_path dir nm) = Some bs) u'"
proof -
  note path = safe_target_path [OF nm, of dir]
  have lst: "load_of V = file_load dir" "store_of V = file_store dir" by (simp_all add: V tuf_services_def file_services_def)
  from g obtain tf u1 where info: "get_targetinfo X V nm now u = (u1, Inr (Some tf))"
    and res: "(find_cached_target X V u1 tf nm = Some bs \<and> u' = u1) \<or> download_target X V tf nm u1 = (u', Inr bs)"
    unfolding get_target_def bindS_Inr_iff basic_Inr_iff ok_or_Inr_iff by (auto split: option.splits)
  have "stored store_works (fst (get_targetinfo X V nm now u))"
    using s by (auto simp: get_targetinfo_def V intro: search_stored [OF works.store_invariant_axioms])
  with info obtain fs where fs: "u_store u1 = Some fs" "store_works fs" by (auto simp: stored_def)
  from res show ?thesis
  proof
    assume c: "find_cached_target X V u1 tf nm = Some bs \<and> u' = u1"
    then obtain y where "file_load dir fs (''targets/'' @ nm) = Some y"
      "(case verify_target_bytes X y tf nm of Inl e \<Rightarrow> None | Inr u \<Rightarrow> Some y) = Some bs"
      by (auto simp: find_cached_target_def fs lst bind_eq_Some_conv)
    then have "file_load dir fs (''targets/'' @ nm) = Some bs"
      by (cases "verify_target_bytes X y tf nm") simp_all
    with c fs path show ?thesis by (auto simp: stored_def file_load_def)
  next
    assume d: "download_target X V tf nm u1 = (u', Inr bs)"
    then obtain rel u2 where u2: "fetch_target V rel (tf_length tf) u1 = (u2, Inr (Some bs))"
      and u': "u' = cache_put V (''targets/'' @ nm) bs u2"
      by (auto simp: download_target_Inr)
    from u2 fs have "u_store u2 = Some fs" by (auto simp: fetch_target_def Let_def split: prod.splits)
    with u' fs path show ?thesis by (simp add: stored_def cache_put_def lst file_store_works)
  qed
qed

text \<open>What a successful \<open>build_updater\<close> returns.\<close>

lemma build_updater_Inr:
  assumes "build_updater X E c now (net, fs) = Some (st', Inr (V, u))"
  shows "\<exists>rp dir root_bytes u0 u1 r. V = tuf_services E rp dir \<and> get_root_json E c = Inr root_bytes
    \<and> new_updater X net root_bytes = Inr u0 \<and> refresh X V now u1 = (u, Inr r) \<and> st' = session_state fs u
    \<and> (if tc_disable_cache c then u1 = u0 else get_cache_dir E c = Inr dir \<and> with_store X V u0 fs = Some u1)"
proof -
  have R: "W = V \<and> (\<exists>r. refresh X V now u1 = (u, Inr r)) \<and> st' = session_state fs u"
    if "refresh_session X now fs W u1 = (st', Inr (V, u))" for W u1
  proof -
    obtain u2 r where "refresh X W now u1 = (u2, r)" by fastforce
    with that show ?thesis by (cases r) (auto simp: refresh_session_def tuf_err_def)
  qed
  obtain rp u0 where o: "open_updater X E c net = Inr (rp, u0)"
    using assms by (auto simp: build_updater_def split: sum.splits)
  then obtain root_bytes where "get_root_json E c = Inr root_bytes" "new_updater X net root_bytes = Inr u0"
    by (auto simp: open_updater_def result_simps tuf_err_def)
  moreover have "\<exists>dir u1. refresh_session X now fs (tuf_services E rp dir) u1 = (st', Inr (V, u)) \<and>
      (if tc_disable_cache c then u1 = u0
       else get_cache_dir E c = Inr dir \<and> with_store X (tuf_services E rp dir) u0 fs = Some u1)"
    using assms by (auto simp: build_updater_def o split: sum.splits option.splits if_splits)
  ultimately show ?thesis using R by metis
qed

lemma build_updater_stored:
  assumes "build_updater X E c now (net, fs) = Some (st', Inr (V, u))" "\<not> tc_disable_cache c" "store_works fs"
  shows "\<exists>rp dir. V = tuf_services E rp dir \<and> get_cache_dir E c = Inr dir \<and> stored store_works u
    \<and> st' = session_state fs u"
proof -
  from build_updater_Inr [OF assms(1)] assms(2) obtain rp dir u0 u1 r
    where V: "V = tuf_services E rp dir" and dir: "get_cache_dir E c = Inr dir"
      and w: "with_store X V u0 fs = Some u1" and r: "refresh X V now u1 = (u, Inr r)" and st: "st' = session_state fs u"
    by auto
  from w assms(3) have "stored store_works u1" by (auto simp: with_store_def stored_def)
  from keepsD [OF works.keeps_refreshing this r [unfolded V]] V dir st show ?thesis by auto
qed

lemma tuf_fetch_target_online:
  assumes "tuf_fetch_target X E c now now' name (net, fs) = Some (st', Inr bs)" "\<not> tc_offline c"
  shows "\<exists>st1 V u u'. build_updater X E c now (net, fs) = Some (st1, Inr (V, u))
    \<and> get_target X V name now' u = (u', Inr bs) \<and> st' = session_state (snd st1) u'"
proof -
  from assms obtain st1 V u where b: "build_updater X E c now (net, fs) = Some (st1, Inr (V, u))"
    by (auto simp: tuf_fetch_target_def split: option.splits sum.splits)
  obtain u' r where "get_target X V name now' u = (u', r)" by fastforce
  with assms b show ?thesis by (cases r) (auto simp: tuf_fetch_target_def fetch_online_def tuf_err_def)
qed

lemma get_cache_dir_offline [simp]: "get_cache_dir E (offline c) = get_cache_dir E c"
  by (cases "tc_cache_dir c") (simp_all add: get_cache_dir_def offline_def)

lemma fetch_offline_cached:
  assumes "\<not> tc_disable_cache c" "get_cache_dir E c = Inr dir" "files fs (target_file_path dir name) = Some bs"
  shows "fetch_target_offline E (offline c) fs name = Inr bs"
proof -
  have "get_cache_dir E (offline c) = Inr dir" "\<not> tc_disable_cache (offline c)"
    using assms by (simp, simp add: offline_def)
  with assms(3) show ?thesis by (simp add: fetch_target_offline_def target_file_path_def)
qed

lemma offline_after_online:
  assumes f: "tuf_fetch_target X E c now now' name st = Some (st', Inr bs)"
    and c: "\<not> tc_disable_cache c" "\<not> tc_offline c" "store_works (snd st)" "plain_name name"
  shows "tuf_fetch_target X E (offline c) t t' name st' = Some (st', Inr bs)"
proof -
  obtain net fs where st: "st = (net, fs)" by fastforce
  from tuf_fetch_target_online [OF f [unfolded st] c(2)] obtain st1 V u u'
    where b: "build_updater X E c now (net, fs) = Some (st1, Inr (V, u))"
      and g: "get_target X V name now' u = (u', Inr bs)" and st': "st' = session_state (snd st1) u'" by auto
  from build_updater_stored [OF b c(1)] c(3) st obtain rp dir where V: "V = tuf_services E rp dir"
    and dir: "get_cache_dir E c = Inr dir" and s: "stored store_works u" by auto
  from get_target_stored [OF V s c(4) g] st' have "files (snd st') (target_file_path dir name) = Some bs"
    by (auto simp: stored_def session_state_def)
  from fetch_offline_cached [OF c(1) dir this] show ?thesis
    by (simp add: tuf_fetch_target_def offline_def)
qed

subsection \<open>Properties\<close>

text \<open>C38: what was fetched online is found offline.  After a trusted root has been fetched with the
  cache enabled and a file system that does not fail, the same configuration in offline mode yields
  the same trusted root without the network, and leaves the state as it is; for the embedded
  instances the cache is preferred to the embedded document.\<close>

theorem trusted_root_offline:
  assumes "trusted_root_from_tuf X E c now now' st = Some (st', Inr root)"
    "\<not> tc_disable_cache c" "\<not> tc_offline c" "store_works (snd st)"
  shows "trusted_root_from_tuf X E (offline c) t t' st' = Some (st', Inr root)"
proof -
  from assms(1) obtain bs where f: "tuf_fetch_target X E c now now' TRUSTED_ROOT_TARGET st = Some (st', Inr bs)"
    and root: "and_then (target_text X TRUSTED_ROOT_TARGET bs) (trusted_root_from_json E) = Inr root"
    by (auto simp: trusted_root_from_tuf_def and_then_Inr_iff)
  from offline_after_online [OF f assms(2-4) target_names_plain(1)] root show ?thesis
    by (simp add: trusted_root_from_tuf_def)
qed

lemma new_updater_reach: "new_updater X rp b = Inr u \<Longrightarrow> trusted_reach X b (u_trusted u)"
  by (auto simp: new_updater_def result_simps intro: trusted_reach.start)

lemma session_reach:
  assumes "build_updater X E c now (net, fs) = Some (st', Inr (V, u))"
  shows "\<exists>root_bytes. get_root_json E c = Inr root_bytes \<and> trusted_reach X root_bytes (u_trusted u)"
proof -
  from build_updater_Inr [OF assms] obtain root_bytes u0 u1 r where root: "get_root_json E c = Inr root_bytes"
    and u0: "new_updater X net root_bytes = Inr u0" and r: "refresh X V now u1 = (u, Inr r)"
    and u1: "u1 = u0 \<or> with_store X V u0 fs = Some u1"
    by (auto split: if_splits)
  from new_updater_reach [OF u0] u1 have "trust_ok X root_bytes u1"
    by (auto simp: trust_ok_def with_store_def dest: adopt_roots_reach)
  from keepsD [OF keeps_refresh this r] root show ?thesis by (auto simp: trust_ok_def)
qed

lemma fetched_authentic:
  assumes "tuf_fetch_target X E c now now' name st = Some (st', Inr bs)" "\<not> tc_offline c"
  shows "\<exists>root_bytes t. get_root_json E c = Inr root_bytes \<and> trusted_reach X root_bytes t \<and> trusted_wf X t
    \<and> (\<exists>role tg tf. authorized X t name role \<and> targets_role t role = Some tg \<and> tg_target tg name = Some tf
        \<and> target_bytes_ok X tf bs)"
proof -
  obtain net fs where st: "st = (net, fs)" by fastforce
  from tuf_fetch_target_online [OF assms(1) [unfolded st] assms(2)] obtain st1 V u u'
    where b: "build_updater X E c now (net, fs) = Some (st1, Inr (V, u))"
      and g: "get_target X V name now' u = (u', Inr bs)" by auto
  from session_reach [OF b] obtain root_bytes where root: "get_root_json E c = Inr root_bytes"
    and "trusted_reach X root_bytes (u_trusted u)" by auto
  from get_target_reach [OF this(2) g] have "trusted_reach X root_bytes (u_trusted u')" .
  with root reach_wf [OF this] get_target_listed [OF g] show ?thesis by blast
qed

text \<open>C12: the trust material fetched online is authentic.  Whatever the repository, the network and
  the cache hold, the bytes a fetch returns have the length and the digests that a role authorized
  for the name lists, in a trusted set reached by verified updates from the root the configuration
  pins (its own, or the embedded one of a known instance).\<close>

theorem fetched_material_authentic:
  assumes "tuf_fetch_target X E c now now' name st = Some (st', Inr bs)" "\<not> tc_offline c"
  shows "\<exists>root_bytes t. get_root_json E c = Inr root_bytes \<and> trusted_reach X root_bytes t \<and> trusted_wf X t
    \<and> (\<exists>role tg tf. authorized X t name role \<and> targets_role t role = Some tg \<and> tg_target tg name = Some tf
        \<and> target_bytes_ok X tf bs)"
  using assms by (rule fetched_authentic)

subsection \<open>A run of the client\<close>

text \<open>
  A client whose cache in the directory \<open>dir\<close> holds version 1 of the metadata of \<open>Tuf_Sample\<close> and the
  target \<open>trusted_root.json\<close>, beside two files of a user; the server at \<open>url\<close> offers the same timestamp and nothing else.  The text
  of the target is that of the trusted root \<open>r\<close>.
\<close>

definition sample_server :: "string \<Rightarrow> unit http_client" where
  "sample_server url = \<lparr>http_send = (\<lambda>n u. (n, Inr \<lparr>status = (if u = url @ ''timestamp.json'' then 200 else 404),
       content_length = None, chunks = [Inr [1, 1, 0]]\<rparr>)),
     url_parse = Inr, url_join = (\<lambda>b n. Inr (b @ n)), client_build = Inr (), status_text = fmt_nat\<rparr>"

definition sample_trusted_root :: trusted_root where
  "sample_trusted_root = \<lparr>tr_media_type = '''', tlogs = [], certificate_authorities = [], ctlogs = [],
     timestamp_authorities = []\<rparr>"

definition sample_env_at :: "string \<Rightarrow> trusted_root \<Rightarrow> unit trust_env" where
  "sample_env_at url r = \<lparr>te_http = sample_server url, te_project_cache = Some [''cache''], te_create_dir = (\<lambda>p. None),
     te_tuf_root = (\<lambda>i. [1, 0, 0]), te_trusted_root_json = (\<lambda>i. ''''), te_signing_config = (\<lambda>i. []),
     te_de_trusted_root = (\<lambda>s. if s = ''h'' then Inr r else Inl ''expected value''),
     te_de_signing_config = (\<lambda>s. Inl ''expected value'')\<rparr>"

definition sample_cached :: "path \<Rightarrow> file_system" where
  "sample_cached dir = sample_fs\<lparr>rename_error := (\<lambda>p n. None), files := [[''a''] \<mapsto> [1, 2], [''b''] \<mapsto> [],
     dir @ [''timestamp.json''] \<mapsto> [1, 1, 0],
     dir @ [''snapshot.json''] \<mapsto> [1, 1, 0], dir @ [''targets.json''] \<mapsto> [1, 0, 0],
     dir @ [''targets'', ''trusted_root.json''] \<mapsto> [104]]\<rparr>"

abbreviation "sample_rp url \<equiv> \<lparr>metadata_base = url, targets_base = url @ ''targets/''\<rparr>"
abbreviation "sample_V url r dir \<equiv> tuf_services (sample_env_at url r) (sample_rp url) dir"
abbreviation "sample_u dir t \<equiv> \<lparr>u_repo = (), u_trusted = t, u_config = default_config, u_store = Some (sample_cached dir)\<rparr>"
abbreviation "state0 \<equiv> sample_state [1, 0, 0] None None None"

lemma sample_loads:
  "load_of (sample_V url r dir) (sample_cached dir) ''root_history/2.root.json'' = None"
  "load_of (sample_V url r dir) (sample_cached dir) ''timestamp.json'' = Some [1, 1, 0]"
  "load_of (sample_V url r dir) (sample_cached dir) ''snapshot.json'' = Some [1, 1, 0]"
  "load_of (sample_V url r dir) (sample_cached dir) ''targets.json'' = Some [1, 0, 0]"
  "load_of (sample_V url r dir) (sample_cached dir) ''targets/trusted_root.json'' = Some [104]"
  by (simp_all add: tuf_services_def file_services_def file_load_def safe_path_def components_def starts_with_def
      sample_cached_def sample_fs_def append_eq_Cons_conv)

lemma version_one: "version_of_byte 1 = 1"
  by (simp add: version_of_byte_def)

lemma sample_adopts: "with_store sample_tuf (sample_V url r dir)
    \<lparr>u_repo = (), u_trusted = state0, u_config = default_config, u_store = None\<rparr> (sample_cached dir)
    = Some (sample_u dir state0)"
proof -
  have "root_history_name 2 = ''root_history/2.root.json''" by code_simp
  then have "adopt_roots sample_tuf (load_of (sample_V url r dir) (sample_cached dir)) state0 = Some state0"
    by (subst adopt_roots.simps) (simp add: sample_state_def version_one sample_loads)
  then show ?thesis by (simp add: with_store_def)
qed

lemma sample_fetches:
  "fetch_metadata (sample_V url r dir) ''timestamp.json'' 16384 (sample_u dir t) = (sample_u dir t, Inr (Some [1, 1, 0]))"
  "nm \<noteq> ''timestamp.json'' \<Longrightarrow> fetch_metadata (sample_V url r dir) nm n (sample_u dir t) = (sample_u dir t, Inr None)"
  by (simp_all add: fetch_metadata_def tuf_services_def file_services_def http_fetch_metadata_def http_fetch_def
      bounded_get_def sample_env_at_def sample_server_def)

lemma sample_seeds: "seed_lower_from_store sample_tuf (sample_V url r dir) 0 (sample_u dir state0) = sample_u dir state1"
  by (simp add: seed_lower_from_store_def seed_one_def sample_loads sample_update_timestamp sample_update_snapshot
      sample_update_targets)

lemma sample_refreshes: "refresh sample_tuf (sample_V url r dir) 0 (sample_u dir state0) = (sample_u dir state1, Inr ())"
proof -
  have two: "fmt_nat 2 @ ''.root.json'' \<noteq> ''timestamp.json''" by code_simp
  have "refresh_root sample_tuf (sample_V url r dir) (sample_u dir state0) = (sample_u dir state0, Inr ())"
    by (simp add: refresh_root_def bindS_def getS_def sample_state_def version_one upt_rec [of 2] default_config_def
        sample_fetches(2) [OF two, unfolded sample_state_def default_config_def, simplified] returnS_def)
  moreover have "check_root_expired sample_tuf state0 0 = Inr ()"
    by (simp add: check_root_expired_def sample_fresh)
  moreover have "update_timestamp sample_tuf state1 [1, 1, 0] 0 = Inl (EqualVersion ''timestamp'' 1)"
    by (simp add: update_timestamp_def sample_from_slice sample_verify sample_roles sample_state1_simps
        timestamp_advances_def version_one)
  then have "refresh_timestamp sample_tuf (sample_V url r dir) 0 (sample_u dir state1) = (sample_u dir state1, Inr ())"
    using sample_fetches(1) [of url r dir state1]
    by (simp add: refresh_timestamp_def bindS_def getS_def liftS_def or_transport_def default_config_def)
  moreover have "check_timestamp_expired sample_tuf state1 0 = Inr ()" "check_snapshot_expired sample_tuf state1 0 = Inr ()"
    by (simp_all add: check_timestamp_expired_def check_snapshot_expired_def sample_fresh sample_state1_simps)
  then have "refresh_snapshot sample_tuf (sample_V url r dir) 0 (sample_u dir state1) = (sample_u dir state1, Inr ())"
    "refresh_targets sample_tuf (sample_V url r dir) 0 (sample_u dir state1) = (sample_u dir state1, Inr ())"
    by (simp_all add: refresh_snapshot_def refresh_targets_def bindS_def getS_def liftS_def sample_state1_simps
        pinned_snapshot_version_def version_one sample_expires returnS_def)
  ultimately show ?thesis
    by (simp add: refresh_def bindS_def getS_def liftS_def modifyS_def sample_seeds)
qed

lemma sample_target_found:
  "get_target sample_tuf (sample_V url r dir) TRUSTED_ROOT_TARGET 0 (sample_u dir state1) = (sample_u dir state1, Inr [104])"
proof -
  have "tg_target (sample_targets s) ''trusted_root.json'' = Some sample_file_a" for s
    by (simp add: tg_target_def sample_targets_def btm_get_def)
  then have "get_targetinfo sample_tuf (sample_V url r dir) TRUSTED_ROOT_TARGET 0 (sample_u dir state1) = (sample_u dir state1, Inr (Some sample_file_a))"
    by (simp add: get_targetinfo_def search.simps load_role_def bindS_def getS_def returnS_def sample_state1_simps
        default_config_def TRUSTED_ROOT_TARGET_def)
  moreover have "eq_ignore_ascii_case ''h'' ''h''" "of_bytes [104] = ''h''" by code_simp+
  then have "verify_target_bytes sample_tuf [104] sample_file_a TRUSTED_ROOT_TARGET = Inr ()"
    by (simp add: verify_target_bytes_Inr target_bytes_ok_def sample_file_a_def pinned_digest_def sample_tuf_def
        sample_ext_def tuf_externals.defs externals.defs)
  then have "find_cached_target sample_tuf (sample_V url r dir) (sample_u dir state1) sample_file_a TRUSTED_ROOT_TARGET = Some [104]"
    by (simp add: find_cached_target_def TRUSTED_ROOT_TARGET_def sample_loads [simplified])
  ultimately show ?thesis by (simp add: get_target_def bindS_def liftS_def)
qed

lemma sample_env_simps:
  "te_create_dir (sample_env_at url r) p = None" "utf8_error sample_tuf b = None"
  "te_de_trusted_root (sample_env_at url r) ''h'' = Inr r"
  by (simp_all add: sample_env_at_def sample_tuf_def sample_ext_def tuf_externals.defs externals.defs)

text \<open>A run for a configuration of that server and directory.\<close>

definition sample_setup :: "string \<Rightarrow> path \<Rightarrow> tuf_config \<Rightarrow> bool" where
  "sample_setup url dir c \<longleftrightarrow> \<not> tc_disable_cache c \<and> \<not> tc_offline c
     \<and> (\<forall>r. get_cache_dir (sample_env_at url r) c = Inr dir \<and> get_root_json (sample_env_at url r) c = Inr [1, 0, 0])
     \<and> http_new (sample_server url) (tc_url c) = Inr (sample_rp url)"

lemma sample_online:
  assumes "sample_setup url dir c"
  shows "tuf_fetch_target sample_tuf (sample_env_at url r) c 0 0 TRUSTED_ROOT_TARGET ((), sample_cached dir)
     = Some (((), sample_cached dir), Inr [104])"
proof -
  have "te_http (sample_env_at url r) = sample_server url" by (simp add: sample_env_at_def)
  then have "open_updater sample_tuf (sample_env_at url r) c ()
      = Inr (sample_rp url, \<lparr>u_repo = (), u_trusted = state0, u_config = default_config, u_store = None\<rparr>)"
    using assms by (simp add: open_updater_def sample_setup_def tuf_err_def new_updater_def sample_from_root)
  then have "build_updater sample_tuf (sample_env_at url r) c 0 ((), sample_cached dir)
      = Some (((), sample_cached dir), Inr (sample_V url r dir, sample_u dir state1))"
    using assms sample_adopts sample_refreshes
    by (simp add: build_updater_def sample_setup_def refresh_session_def session_state_def tuf_err_def sample_env_simps)
  then show ?thesis
    using assms
    by (simp add: tuf_fetch_target_def fetch_online_def sample_setup_def sample_target_found session_state_def
        tuf_err_def sample_env_simps)
qed

lemma sample_online_root:
  assumes "sample_setup url dir c"
  shows "trusted_root_from_tuf sample_tuf (sample_env_at url r) c 0 0 ((), sample_cached dir)
     = Some (((), sample_cached dir), Inr r)"
proof -
  have "of_bytes [104] = ''h''" by code_simp
  then show ?thesis
    by (simp add: trusted_root_from_tuf_def sample_online [OF assms] target_text_def from_utf8_def
        trusted_root_from_json_def sample_env_simps)
qed

text \<open>A custom server with a directory of its own, and the one of the public-good instance.\<close>

abbreviation "sample_env \<equiv> sample_env_at ''u/'' sample_trusted_root"

definition sample_config :: tuf_config where
  "sample_config = with_cache_dir [''cache''] (tuf_custom ''u/'' [1, 0, 0])"

lemma sample_custom: "sample_setup ''u/'' [''cache''] sample_config"
  by (simp add: sample_setup_def sample_config_def with_cache_dir_def tuf_custom_def get_cache_dir_def get_root_json_def
      http_new_def normalize_base_def sample_server_def)

definition production_dir :: path where
  "production_dir = [''cache'', ''tuf''] @ components (tuf_dirname DEFAULT_TUF_URL)"

lemma sample_production: "sample_setup (DEFAULT_TUF_URL @ ''/'') production_dir tuf_production"
  by (simp add: sample_setup_def tuf_production_def tuf_default_def get_cache_dir_def get_root_json_def
      http_new_def normalize_base_def sample_server_def sample_env_at_def production_dir_def)
    (simp add: DEFAULT_TUF_URL_def)

lemma sample_cached_works: "store_works (sample_cached dir)"
  by (simp add: store_works_def sample_cached_def sample_fs_def)

theorem trusted_root_offline_witness:
  "\<exists>st'. trusted_root_from_tuf sample_tuf sample_env (offline sample_config) 0 0 st' = Some (st', Inr sample_trusted_root)"
proof -
  have c: "\<not> tc_disable_cache sample_config" "\<not> tc_offline sample_config" "store_works (snd ((), sample_cached [''cache'']))"
    using sample_custom by (simp_all add: sample_setup_def sample_cached_works)
  from trusted_root_offline [OF sample_online_root [OF sample_custom] c] show ?thesis by blast
qed

theorem fetched_material_authentic_witness:
  "\<exists>t role tg tf. trusted_reach sample_tuf [1, 0, 0] t \<and> authorized sample_tuf t TRUSTED_ROOT_TARGET role
    \<and> targets_role t role = Some tg \<and> tg_target tg TRUSTED_ROOT_TARGET = Some tf \<and> target_bytes_ok sample_tuf tf [104]"
proof -
  have c: "get_root_json sample_env sample_config = Inr [1, 0, 0]" "\<not> tc_offline sample_config"
    using sample_custom by (simp_all add: sample_setup_def)
  from fetched_material_authentic [OF sample_online [OF sample_custom, of sample_trusted_root] c(2)] c(1) show ?thesis by auto
qed

text \<open>The embedded material of an instance is used for every URL that has the text of its URL as a prefix,
  also for one of another host.\<close>

lemma foreign_host_embedded:
  "get_root_json E (tuf_default\<lparr>tc_url := DEFAULT_TUF_URL @ ''.example.org''\<rparr>) = Inr (te_tuf_root E PublicGood)"
  by (simp add: get_root_json_def tuf_default_def starts_with_def DEFAULT_TUF_URL_def)

end
