(* ===== verification/Oauth.thy ===== *)
theory Oauth
  imports Fulcio_Client Pki_Sample
begin

text \<open>
  The crate sigstore-oidc, part 2 (src/oauth.rs, src/templates.rs): the authorization code flow
  with PKCE, through the browser with a redirect to a local server or out of band, and the pages
  the local server answers with.

  A step is an action on the list of what the client has done so far (\<open>oauth_event\<close>, latest
  last).  The session gives what comes from outside: the random bytes drawn, the listener, whether
  a browser opens, the connection that arrives and the first line of its request.  URLs are their
  texts, handled by the parameters that stand for the crate url.  The headers of the request are
  read and dropped, and are no part of the model.
\<close>

subsection \<open>Pages (templates.rs)\<close>

text \<open>\<open>str::replace\<close> for a character, and for a text: leftmost occurrences that do not overlap.\<close>

definition replace_char :: "char \<Rightarrow> string \<Rightarrow> string \<Rightarrow> string" where
  "replace_char c by_text s = concat (map (\<lambda>x. if x = c then by_text else [x]) s)"

fun replace_text :: "nat \<Rightarrow> string \<Rightarrow> string \<Rightarrow> string \<Rightarrow> string" where
  "replace_text n pat by_text [] = []"
| "replace_text 0 pat by_text s = s"
| "replace_text (Suc n) pat by_text (c # cs) =
     (if starts_with (c # cs) pat then by_text @ replace_text n pat by_text (drop (length pat) (c # cs))
      else c # replace_text n pat by_text cs)"

definition html_escape :: "string \<Rightarrow> string" where
  "html_escape s =
     replace_char (CHR 0x27) ''&#x27;'' (replace_char (CHR 0x22) ''&quot;'' (replace_char (CHR ''>'') ''&gt;''
       (replace_char (CHR ''<'') ''&lt;'' (replace_char (CHR ''&'') ''&amp;'' s))))"

record page_files =
  sigstore_logo_svg :: string
  success_html_template :: string
  error_html_template :: string

definition LOGO_PLACEHOLDER :: string where "LOGO_PLACEHOLDER = ''{{SIGSTORE_LOGO}}''"

definition default_success_html :: "page_files \<Rightarrow> string" where
  "default_success_html P =
     replace_text (length (success_html_template P)) LOGO_PLACEHOLDER (sigstore_logo_svg P) (success_html_template P)"

definition default_error_html :: "page_files \<Rightarrow> string" where
  "default_error_html P =
     replace_text (length (error_html_template P)) LOGO_PLACEHOLDER (sigstore_logo_svg P) (error_html_template P)"

definition dq :: string where "dq = [CHR 0x22]"

definition error_details :: string where
  "error_details = ''<div class='' @ dq @ ''error-details'' @ dq @ '' id='' @ dq @ ''error-details'' @ dq"

definition templates_error_html :: "page_files \<Rightarrow> string \<Rightarrow> string" where
  "templates_error_html P err =
     (let page = default_error_html P in
      replace_text (length page) (error_details @ '' style='' @ dq @ ''display: none;'' @ dq @ ''>'')
        (error_details @ ''>'' @ html_escape err) page)"

subsection \<open>Configuration and callbacks\<close>

record oauth_config =
  oc_auth_url :: string
  oc_token_url :: string
  oc_client_id :: string
  oc_scopes :: "string list"

record token_response =
  tr_access_token :: string
  tr_token_type :: string
  tr_expires_in :: "u64 option"
  tr_id_token :: "string option"

datatype auth_mode = BrowserRedirect | OutOfBand

record auth_options = force_oob :: bool

definition OOB_REDIRECT_URI :: string where "OOB_REDIRECT_URI = ''urn:ietf:wg:oauth:2.0:oob''"
definition DEFAULT_SIGSTORE_OIDC_URL :: string where
  "DEFAULT_SIGSTORE_OIDC_URL = ''https://oauth2.sigstore.dev/auth''"
definition CALLBACK_TIMEOUT_SECS :: nat where "CALLBACK_TIMEOUT_SECS = 300"

definition from_oidc_url :: "string \<Rightarrow> oauth_config" where
  "from_oidc_url url =
     (let base = rev (dropWhile (\<lambda>c. c = CHR ''/'') (rev url)) in
      \<lparr>oc_auth_url = base @ ''/auth'', oc_token_url = base @ ''/token'', oc_client_id = ''sigstore'',
       oc_scopes = [''openid'', ''email'']\<rparr>)"

definition sigstore_oauth_config :: oauth_config where
  "sigstore_oauth_config = from_oidc_url DEFAULT_SIGSTORE_OIDC_URL"

record auth_callback =
  cb_prompt :: "(string, string) result"
  cb_success_html :: string
  cb_error_html :: "string \<Rightarrow> string"

text \<open>\<open>line\<close> is what writing the prompt and reading a line of standard input give.\<close>

definition default_auth_callback :: "page_files \<Rightarrow> (string, string) result \<Rightarrow> auth_callback" where
  "default_auth_callback P line =
     \<lparr>cb_prompt = map_sum id trim line, cb_success_html = default_success_html P,
      cb_error_html = templates_error_html P\<rparr>"

subsection \<open>The outside\<close>

record oauth_externals = fulcio_externals +
  b64url_encode :: "bytes \<Rightarrow> string"
  parse_url :: "string \<Rightarrow> (string, string) result"
  query_pairs :: "string \<Rightarrow> (string \<times> string) list"
  append_query_pairs :: "string \<Rightarrow> (string \<times> string) list \<Rightarrow> string"
  form_encode :: "(string \<times> string) list \<Rightarrow> bytes"
  de_token_response :: "bytes \<Rightarrow> (token_response, string) result"

text \<open>
  \<open>sn_accept\<close> is \<open>None\<close> when no connection arrives in time; the later steps of reading the request
  do not wait for anything the timeout could interrupt.
\<close>

record oauth_session =
  sn_verifier_random :: bytes
  sn_state_random :: bytes
  sn_browser_feature :: bool
  sn_bind :: "(unit, string) result"
  sn_local_port :: "(nat, string) result"
  sn_browser_opens :: "string \<Rightarrow> bool"
  sn_accept :: "(unit, string) result option"
  sn_into_std :: "(unit, string) result"
  sn_set_blocking :: "(unit, string) result"
  sn_request_line :: "(string, string) result"
  sn_write :: "(unit, string) result"
  sn_flush :: "(unit, string) result"

datatype oauth_event =
    AuthUrlReady string auth_mode
  | WaitingForRedirect
  | Responded string
  | TokenRequest string "(string \<times> string) list"
  | AuthComplete

type_synonym 'a oauth_action = "(oauth_event list, 'a, oidc_error) action"

definition emit :: "oauth_event \<Rightarrow> unit oauth_action" where
  "emit ev = modifyS (\<lambda>tr. tr @ [ev])"

subsection \<open>PKCE, state and the authorization URL\<close>

definition generate_pkce :: "'z oauth_externals_scheme \<Rightarrow> oauth_session \<Rightarrow> string \<times> string" where
  "generate_pkce X sn =
     (let verifier = b64url_encode X (sn_verifier_random sn);
          challenge = b64url_encode X (sha256 X (as_bytes verifier)) in
      (verifier, challenge))"

definition generate_state :: "'z oauth_externals_scheme \<Rightarrow> oauth_session \<Rightarrow> string" where
  "generate_state X sn = b64url_encode X (sn_state_random sn)"

definition auth_params :: "oauth_config \<Rightarrow> string \<Rightarrow> string \<Rightarrow> string \<Rightarrow> (string \<times> string) list" where
  "auth_params cfg redirect_uri challenge state =
     [(''client_id'', oc_client_id cfg), (''redirect_uri'', redirect_uri), (''response_type'', ''code''),
      (''scope'', join '' '' (oc_scopes cfg)), (''code_challenge'', challenge),
      (''code_challenge_method'', ''S256''), (''state'', state)]"

definition build_auth_url ::
  "'z oauth_externals_scheme \<Rightarrow> oauth_config \<Rightarrow> string \<Rightarrow> string \<Rightarrow> string \<Rightarrow> (string, oidc_error) result" where
  "build_auth_url X cfg redirect_uri challenge state =
     and_then (map_err (\<lambda>e. OAuth (''invalid auth URL: '' @ e)) (parse_url X (oc_auth_url cfg))) (\<lambda>url.
     Inr (append_query_pairs X url (auth_params cfg redirect_uri challenge state)))"

subsection \<open>The callback\<close>

text \<open>\<open>str::split_whitespace\<close>; the first argument bounds the steps, each of which consumes a character.\<close>

fun split_ws :: "nat \<Rightarrow> string \<Rightarrow> string \<Rightarrow> string list" where
  "split_ws n cur [] = (if cur = [] then [] else [cur])"
| "split_ws 0 cur s = [cur @ s]"
| "split_ws (Suc n) cur (c # cs) =
     (case find (starts_with (c # cs)) white_space of
        Some w \<Rightarrow> (if cur = [] then [] else [cur]) @ split_ws n [] (drop (length w) (c # cs))
      | None \<Rightarrow> split_ws n (cur @ [c]) cs)"

definition split_whitespace :: "string \<Rightarrow> string list" where
  "split_whitespace s = split_ws (length s) [] s"

record callback_params =
  cp_code :: "string option"
  cp_state :: "string option"
  cp_error :: "string option"
  cp_error_description :: "string option"

text \<open>The loop over the query: a later occurrence of a parameter replaces an earlier one.\<close>

definition callback_param :: "string \<times> string \<Rightarrow> callback_params \<Rightarrow> callback_params" where
  "callback_param kv p =
     (if fst kv = ''code'' then p\<lparr>cp_code := Some (snd kv)\<rparr>
      else if fst kv = ''state'' then p\<lparr>cp_state := Some (snd kv)\<rparr>
      else if fst kv = ''error'' then p\<lparr>cp_error := Some (snd kv)\<rparr>
      else if fst kv = ''error_description'' then p\<lparr>cp_error_description := Some (snd kv)\<rparr>
      else p)"

definition callback_params_of :: "(string \<times> string) list \<Rightarrow> callback_params" where
  "callback_params_of kvs =
     fold callback_param kvs \<lparr>cp_code = None, cp_state = None, cp_error = None, cp_error_description = None\<rparr>"

definition crlf :: string where "crlf = [CHR 0x0D, CHR 0x0A]"

definition callback_response :: "auth_callback \<Rightarrow> callback_params \<Rightarrow> string" where
  "callback_response cb p =
     (let (status, html) =
        (case cp_error p of
           Some err \<Rightarrow>
             (''400 Bad Request'', cb_error_html cb (case cp_error_description p of Some d \<Rightarrow> d | None \<Rightarrow> err))
         | None \<Rightarrow> (''200 OK'', cb_success_html cb)) in
      ''HTTP/1.1 '' @ status @ crlf @ ''Content-Type: text/html; charset=utf-8'' @ crlf @ ''Content-Length: ''
        @ fmt_nat (length html) @ crlf @ ''Connection: close'' @ crlf @ crlf @ html)"

definition accept_code :: "string \<Rightarrow> callback_params \<Rightarrow> (string, oidc_error) result" where
  "accept_code expected_state p =
     (case cp_error p of
        Some err \<Rightarrow> Inl (OAuth (''authorization failed: ''
          @ (case cp_error_description p of Some d \<Rightarrow> d | None \<Rightarrow> err)))
      | None \<Rightarrow>
          and_then (ok_or (OAuth ''missing state parameter'') (cp_state p)) (\<lambda>received_state.
          if received_state \<noteq> expected_state then Inl (OAuth ''state mismatch - possible CSRF attack'')
          else ok_or (OAuth ''missing authorization code'') (cp_code p)))"

definition nth_word :: "nat \<Rightarrow> string \<Rightarrow> string option" where
  "nth_word n s = (let ws = split_whitespace s in if n < length ws then Some (ws ! n) else None)"

definition callback_params_in ::
  "'z oauth_externals_scheme \<Rightarrow> string \<Rightarrow> (callback_params, oidc_error) result" where
  "callback_params_in X line =
     and_then (ok_or (OAuth ''invalid HTTP request'') (nth_word 1 line)) (\<lambda>path.
     and_then (map_err (\<lambda>e. OAuth (''failed to parse callback URL: '' @ e)) (parse_url X (''http://localhost'' @ path)))
       (\<lambda>url. Inr (callback_params_of (query_pairs X url))))"

definition wait_for_callback ::
  "'z oauth_externals_scheme \<Rightarrow> oauth_session \<Rightarrow> auth_callback \<Rightarrow> string \<Rightarrow> (unit, string) result \<Rightarrow> string oauth_action" where
  "wait_for_callback X sn cb expected_state accepted =
     bindS (liftS (map_err (\<lambda>e. OAuth (''failed to accept connection: '' @ e)) accepted)) (\<lambda>_.
     bindS (liftS (map_err (\<lambda>e. OAuth (''failed to convert stream: '' @ e)) (sn_into_std sn))) (\<lambda>_.
     bindS (liftS (map_err (\<lambda>e. OAuth (''failed to set blocking mode: '' @ e)) (sn_set_blocking sn))) (\<lambda>_.
     bindS (liftS (map_err (\<lambda>e. OAuth (''failed to read request: '' @ e)) (sn_request_line sn))) (\<lambda>line.
     bindS (liftS (callback_params_in X line)) (\<lambda>p.
     bindS (liftS (map_err (\<lambda>e. OAuth (''failed to send response: '' @ e)) (sn_write sn))) (\<lambda>_.
     bindS (liftS (map_err (\<lambda>e. OAuth (''failed to flush response: '' @ e)) (sn_flush sn))) (\<lambda>_.
     bindS (emit (Responded (callback_response cb p))) (\<lambda>_.
     liftS (accept_code expected_state p)))))))))"

subsection \<open>The exchange of the code\<close>

definition token_params :: "oauth_config \<Rightarrow> string \<Rightarrow> string \<Rightarrow> string \<Rightarrow> (string \<times> string) list" where
  "token_params cfg code verifier redirect_uri =
     [(''client_id'', oc_client_id cfg), (''code'', code), (''code_verifier'', verifier),
      (''grant_type'', ''authorization_code''), (''redirect_uri'', redirect_uri)]"

definition token_of_response ::
  "'z oauth_externals_scheme \<Rightarrow> http_response \<Rightarrow> (identity_token, oidc_error) result" where
  "token_of_response X response =
     and_then (ensure (is_success response) (OAuth (''token exchange failed: '' @ rs_status_text response @ '' - ''
       @ response_text_or_default X response))) (\<lambda>_.
     and_then (map_err (\<lambda>e. OAuth (''failed to parse token response: '' @ e))
       (and_then (rs_body response) (de_token_response X))) (\<lambda>tr.
     and_then (ok_or (OAuth ''no id_token in response'') (tr_id_token tr)) (\<lambda>id_token.
     from_jwt X id_token)))"

definition exchange_code ::
  "'z oauth_externals_scheme \<Rightarrow> net \<Rightarrow> oauth_config \<Rightarrow> string \<Rightarrow> string \<Rightarrow> string \<Rightarrow> identity_token oauth_action" where
  "exchange_code X net cfg code verifier redirect_uri =
     bindS (emit (TokenRequest (oc_token_url cfg) (token_params cfg code verifier redirect_uri))) (\<lambda>_.
     liftS (and_then (map_err OHttp (http_post net (oc_token_url cfg) ''application/x-www-form-urlencoded''
         (form_encode X (token_params cfg code verifier redirect_uri)))) (token_of_response X)))"

subsection \<open>The flow\<close>

definition auth_oob ::
  "'z oauth_externals_scheme \<Rightarrow> net \<Rightarrow> oauth_config \<Rightarrow> auth_callback \<Rightarrow> string \<Rightarrow> string \<Rightarrow> string
    \<Rightarrow> identity_token oauth_action" where
  "auth_oob X net cfg cb verifier challenge state =
     bindS (liftS (build_auth_url X cfg OOB_REDIRECT_URI challenge state)) (\<lambda>auth_url.
     bindS (emit (AuthUrlReady auth_url OutOfBand)) (\<lambda>_.
     bindS (liftS (map_err (\<lambda>e. OAuth (''failed to read code: '' @ e)) (cb_prompt cb))) (\<lambda>code.
     bindS (exchange_code X net cfg code verifier OOB_REDIRECT_URI) (\<lambda>token.
     bindS (emit AuthComplete) (\<lambda>_.
     returnS token)))))"

definition redirect_uri_of :: "nat \<Rightarrow> string" where
  "redirect_uri_of port = ''http://127.0.0.1:'' @ fmt_nat port @ ''/callback''"

definition auth_browser ::
  "'z oauth_externals_scheme \<Rightarrow> net \<Rightarrow> oauth_config \<Rightarrow> oauth_session \<Rightarrow> auth_callback \<Rightarrow> string \<Rightarrow> string \<Rightarrow> string
    \<Rightarrow> identity_token oauth_action" where
  "auth_browser X net cfg sn cb verifier challenge state =
     bindS (liftS (map_err (\<lambda>e. OAuth (''failed to start local server: '' @ e)) (sn_bind sn))) (\<lambda>_.
     bindS (liftS (map_err (\<lambda>e. OAuth (''failed to get local address: '' @ e)) (sn_local_port sn))) (\<lambda>port.
     bindS (liftS (build_auth_url X cfg (redirect_uri_of port) challenge state)) (\<lambda>auth_url.
     if sn_browser_feature sn \<and> sn_browser_opens sn auth_url then
       bindS (emit (AuthUrlReady auth_url BrowserRedirect)) (\<lambda>_.
       bindS (emit WaitingForRedirect) (\<lambda>_.
       bindS (case sn_accept sn of
           None \<Rightarrow> throwS (OAuth (''timed out waiting for browser callback after '' @ fmt_nat CALLBACK_TIMEOUT_SECS
             @ '' seconds''))
         | Some accepted \<Rightarrow> wait_for_callback X sn cb state accepted) (\<lambda>code.
       bindS (exchange_code X net cfg code verifier (redirect_uri_of port)) (\<lambda>token.
       bindS (emit AuthComplete) (\<lambda>_.
       returnS token)))))
     else auth_oob X net cfg cb verifier challenge state)))"

definition auth_with_options ::
  "'z oauth_externals_scheme \<Rightarrow> net \<Rightarrow> oauth_config \<Rightarrow> oauth_session \<Rightarrow> auth_callback \<Rightarrow> auth_options
    \<Rightarrow> identity_token oauth_action" where
  "auth_with_options X net cfg sn cb options =
     (let (verifier, challenge) = generate_pkce X sn;
          state = generate_state X sn;
          use_oob = (force_oob options \<or> \<not> sn_browser_feature sn) in
      if use_oob then auth_oob X net cfg cb verifier challenge state
      else auth_browser X net cfg sn cb verifier challenge state)"

definition oauth_auth ::
  "'z oauth_externals_scheme \<Rightarrow> net \<Rightarrow> oauth_config \<Rightarrow> oauth_session \<Rightarrow> auth_callback \<Rightarrow> identity_token oauth_action" where
  "oauth_auth X net cfg sn cb = auth_with_options X net cfg sn cb \<lparr>force_oob = False\<rparr>"

definition oidc_url_or_default :: "string option \<Rightarrow> string" where
  "oidc_url_or_default url = (case url of Some u \<Rightarrow> u | None \<Rightarrow> DEFAULT_SIGSTORE_OIDC_URL)"

definition get_identity_token_with_callback ::
  "'z oauth_externals_scheme \<Rightarrow> net \<Rightarrow> oauth_session \<Rightarrow> string option \<Rightarrow> auth_callback \<Rightarrow> identity_token oauth_action" where
  "get_identity_token_with_callback X net sn oidc_url cb =
     oauth_auth X net (from_oidc_url (oidc_url_or_default oidc_url)) sn cb"

definition get_identity_token ::
  "'z oauth_externals_scheme \<Rightarrow> net \<Rightarrow> oauth_session \<Rightarrow> page_files \<Rightarrow> (string, string) result \<Rightarrow> string option
    \<Rightarrow> identity_token oauth_action" where
  "get_identity_token X net sn P line oidc_url =
     oauth_auth X net (from_oidc_url (oidc_url_or_default oidc_url)) sn (default_auth_callback P line)"

definition get_identity_token_with_options ::
  "'z oauth_externals_scheme \<Rightarrow> net \<Rightarrow> oauth_session \<Rightarrow> page_files \<Rightarrow> (string, string) result \<Rightarrow> string option
    \<Rightarrow> auth_options \<Rightarrow> identity_token oauth_action" where
  "get_identity_token_with_options X net sn P line oidc_url options =
     auth_with_options X net (from_oidc_url (oidc_url_or_default oidc_url)) sn (default_auth_callback P line) options"

subsection \<open>Lemmas\<close>



lemma accept_code_Inr [result_simps]:
  "accept_code s p = Inr code \<longleftrightarrow> cp_error p = None \<and> cp_state p = Some s \<and> cp_code p = Some code"
  by (auto simp: accept_code_def result_simps split: option.splits)



definition no_token_request :: "oauth_event list \<Rightarrow> bool" where
  "no_token_request tr \<longleftrightarrow> (\<forall>url ps. TokenRequest url ps \<notin> set tr)"

lemma keeps_no_request [keeps_intros]:
  "(\<And>url ps. ev \<noteq> TokenRequest url ps) \<Longrightarrow> keeps no_token_request (emit ev)"
  by (auto simp: keeps_def emit_def modifyS_def no_token_request_def)

lemma keeps_wait [keeps_intros]: "keeps no_token_request (wait_for_callback X sn cb state accepted)"
  unfolding wait_for_callback_def by (intro keeps_intros) simp_all

lemma emit_simp [simp]: "emit ev tr = (tr @ [ev], Inr ())"
  by (simp add: emit_def modifyS_def)


lemma keeps_wait_grows [keeps_intros]: "keeps (\<lambda>t. set tr \<subseteq> set t) (wait_for_callback X sn cb state accepted)"
  unfolding wait_for_callback_def by (intro keeps_intros) (auto simp: keeps_def)














subsection \<open>Properties\<close>


text \<open>A run in which the browser brings the code \<open>xyz\<close> and the token endpoint answers with a token.\<close>

definition sample_claims :: token_claims where
  "sample_claims = \<lparr>tc_iss = ''idp'', tc_sub = ''me'', tc_aud = NoAudience, tc_exp = 0, tc_iat = 0, tc_email = None,
     tc_email_verified = None, tc_federated = None\<rparr>"

definition sample_oauth :: oauth_externals where
  "sample_oauth = pki_externals.extend sample_pki (rekor_client_externals_ext
     of_bytes (\<lambda>q. Inr []) (\<lambda>q. Inr []) (\<lambda>q. Inr []) (\<lambda>q. Inr []) (\<lambda>q. Inr []) (\<lambda>q. Inr [])
     (\<lambda>b. Inl ''no'') (\<lambda>b. Inl ''no'') (\<lambda>s. Inl ''no'') (\<lambda>b. Inr [])
     (tsa_client_externals_ext (\<lambda>n. []) (\<lambda>q. Inr []) of_bytes
     (fulcio_externals_ext \<lparr>p256_generate_pkcs8 = Some, p256_from_pkcs8 = Inr, p256_public_key = (\<lambda>kp. kp),
         p256_sign = (\<lambda>r kp data. None)\<rparr>
       (\<lambda>s. Inr \<lparr>any_tag = 6, any_value = []\<rparr>) Inr (\<lambda>s. Inr (as_bytes s)) (\<lambda>b. Inr sample_claims)
       (\<lambda>q. Inr []) (\<lambda>b. Inl ''no'') (\<lambda>c. Inr []) (\<lambda>b. Inl ''no'') (\<lambda>c. Inr []) (\<lambda>b. Inl ''no'')
     (oauth_externals_ext of_bytes Inr (\<lambda>u. [(''code'', ''xyz''), (''state'', ''s'')]) (\<lambda>u ps. u) (\<lambda>ps. [])
       (\<lambda>b. Inr \<lparr>tr_access_token = '''', tr_token_type = ''Bearer'', tr_expires_in = None,
          tr_id_token = Some ''a.b.c''\<rparr>) ()))))"

definition sample_session :: oauth_session where
  "sample_session = \<lparr>sn_verifier_random = [118], sn_state_random = [115], sn_browser_feature = True, sn_bind = Inr (),
     sn_local_port = Inr 80, sn_browser_opens = (\<lambda>u. True), sn_accept = Some (Inr ()), sn_into_std = Inr (),
     sn_set_blocking = Inr (), sn_request_line = Inr ''GET /callback HTTP/1.1'', sn_write = Inr (), sn_flush = Inr ()\<rparr>"

definition sample_callback :: auth_callback where
  "sample_callback = \<lparr>cb_prompt = Inl ''no terminal'', cb_success_html = ''ok'', cb_error_html = (\<lambda>e. e)\<rparr>"

definition sample_oauth_net :: net where
  "sample_oauth_net q = Inr \<lparr>rs_status = 200, rs_status_text = ''200 OK'', rs_body = Inr []\<rparr>"

definition sample_run :: "oauth_event list \<times> (identity_token, oidc_error) result" where
  "sample_run = auth_with_options sample_oauth sample_oauth_net (from_oidc_url ''idp'') sample_session sample_callback
     \<lparr>force_oob = False\<rparr> []"

lemma sample_run_token:
  "snd sample_run = Inr \<lparr>it_raw = ''a.b.c'', it_claims = sample_claims\<rparr>"
  by code_simp

lemma sample_run_requests:
  "list_ex (\<lambda>ev. case ev of TokenRequest u ps \<Rightarrow> map_of ps ''code'' = Some ''xyz'' | _ \<Rightarrow> False) (fst sample_run)"
  by code_simp


end
