(* ===== verification/Keyring.thy ===== *)
theory Keyring
  imports Crypto Serde
begin

text \<open>
  The crate sigstore-crypto, further parts: the keyring (src/keyring.rs) and the digests
  (src/hash.rs).

  The order in which a \<open>HashMap\<close> iterates its keys is not specified; it is the argument \<open>order\<close> of
  the functions that iterate, which \<open>enumerates\<close> says lists every key once.  The running digest of
  aws-lc-rs is a parameter of three operations; a reader is the list of what its calls of \<open>read\<close>
  deliver, the end of the list being the end of the input.
\<close>

subsection \<open>Keyring\<close>

type_synonym keyring = "sha256_hash \<rightharpoonup> verification_key"

definition keyring_new :: keyring where
  "keyring_new = Map.empty"

definition add_key :: "sha256_hash \<Rightarrow> verification_key \<Rightarrow> keyring \<Rightarrow> keyring" where
  "add_key k key kr = kr(k \<mapsto> key)"

definition get_key :: "sha256_hash \<Rightarrow> keyring \<Rightarrow> verification_key option" where
  "get_key k kr = kr k"

definition verify_with_key_id ::
  "'z externals_scheme \<Rightarrow> keyring \<Rightarrow> sha256_hash \<Rightarrow> bytes \<Rightarrow> signature_bytes \<Rightarrow> (unit, crypto_error) result" where
  "verify_with_key_id X kr k data sig =
     and_then (ok_or (Verification (''key not found: '' @ hex_encode X k)) (get_key k kr)) (\<lambda>key.
     vk_verify X key data sig)"

fun verify_any ::
  "'z externals_scheme \<Rightarrow> keyring \<Rightarrow> sha256_hash list \<Rightarrow> bytes \<Rightarrow> signature_bytes \<Rightarrow> (sha256_hash, crypto_error) result" where
  "verify_any X kr [] data sig = Inl (Verification ''no key in keyring verified the signature'')"
| "verify_any X kr (k # order) data sig =
     (case kr k of
        None \<Rightarrow> verify_any X kr order data sig
      | Some key \<Rightarrow> if is_ok (vk_verify X key data sig) then Inr k else verify_any X kr order data sig)"

definition keyring_len :: "sha256_hash list \<Rightarrow> nat" where
  "keyring_len order = length order"

definition keyring_is_empty :: "sha256_hash list \<Rightarrow> bool" where
  "keyring_is_empty order \<longleftrightarrow> order = []"

definition enumerates :: "keyring \<Rightarrow> sha256_hash list \<Rightarrow> bool" where
  "enumerates kr order \<longleftrightarrow> distinct order \<and> set order = dom kr"

subsection \<open>Digests\<close>

record 'c digest_ops =
  ctx_new :: 'c
  ctx_update :: "'c \<Rightarrow> bytes \<Rightarrow> 'c"
  ctx_finish :: "'c \<Rightarrow> bytes"

definition hasher_new :: "'c digest_ops \<Rightarrow> 'c" where
  "hasher_new D = ctx_new D"

definition hasher_update :: "'c digest_ops \<Rightarrow> 'c \<Rightarrow> bytes \<Rightarrow> 'c" where
  "hasher_update D h data = ctx_update D h data"

definition hasher_finalize :: "'c digest_ops \<Rightarrow> 'c \<Rightarrow> sha256_hash" where
  "hasher_finalize D h = ctx_finish D h"

text \<open>The loop of \<open>sha256_reader\<close>: an empty read ends it, an error is returned.\<close>

fun read_loop :: "'c digest_ops \<Rightarrow> 'c \<Rightarrow> (bytes, string) result list \<Rightarrow> (sha256_hash, string) result" where
  "read_loop D h [] = Inr (hasher_finalize D h)"
| "read_loop D h (Inl e # reads) = Inl e"
| "read_loop D h (Inr chunk # reads) =
     (if chunk = [] then Inr (hasher_finalize D h) else read_loop D (hasher_update D h chunk) reads)"

definition sha256_reader :: "'c digest_ops \<Rightarrow> (bytes, string) result list \<Rightarrow> (sha256_hash, string) result" where
  "sha256_reader D reads = read_loop D (hasher_new D) reads"

text \<open>A running digest gives the digest of what it was fed.\<close>

definition digest_law :: "'z externals_scheme \<Rightarrow> 'c digest_ops \<Rightarrow> bool" where
  "digest_law X D \<longleftrightarrow> (\<forall>chunks. ctx_finish D (foldl (ctx_update D) (ctx_new D) chunks) = sha256 X (concat chunks))"

subsection \<open>Lemmas\<close>

text \<open>In whatever order the keys are tried, a signature is accepted exactly if some key verifies
  it, and the key named does.\<close>

lemma verify_any_sound: "verify_any X kr order data sig = Inr k \<Longrightarrow> verify_with_key_id X kr k data sig = Inr ()"
  by (induction order) (auto simp: verify_with_key_id_def get_key_def is_ok_iff split: option.splits if_splits)

lemma verify_any_complete:
  "enumerates kr order \<Longrightarrow> is_ok (verify_any X kr order data sig) \<longleftrightarrow>
     (\<exists>k. verify_with_key_id X kr k data sig = Inr ())"
proof
  assume "enumerates kr order" "\<exists>k. verify_with_key_id X kr k data sig = Inr ()"
  then obtain k key where k: "k \<in> set order" "kr k = Some key" "vk_verify X key data sig = Inr ()"
    by (auto simp: enumerates_def verify_with_key_id_def get_key_def result_simps)
  then show "is_ok (verify_any X kr order data sig)"
    by (induction order) (auto split: option.splits)
qed (auto simp: is_ok_iff dest: verify_any_sound)

lemma verify_after_add: "verify_with_key_id X (add_key k key kr) k data sig = vk_verify X key data sig"
  by (simp add: verify_with_key_id_def get_key_def add_key_def)

text \<open>Hashing a stream in chunks gives the digest of the whole input.\<close>

lemma read_loop_fold:
  "list_all (\<lambda>c. c \<noteq> []) chunks \<Longrightarrow>
     read_loop D h (map Inr chunks) = Inr (ctx_finish D (foldl (ctx_update D) h chunks))"
  by (induction chunks arbitrary: h) (simp_all add: hasher_finalize_def hasher_update_def)

lemma sha256_reader_whole:
  "digest_law X D \<Longrightarrow> list_all (\<lambda>c. c \<noteq> []) chunks \<Longrightarrow>
     sha256_reader D (map Inr chunks) = Inr (sha256 X (concat chunks))"
  by (simp add: sha256_reader_def read_loop_fold hasher_new_def digest_law_def)

end
