(* ===== verification/Trust_Json.thy ===== *)
theory Trust_Json
  imports Bundle_Json Signing_Config
begin

text \<open>
  The JSON documents of the crate sigstore-trust-root: how the trusted root (src/trusted_root.rs)
  is written and read, and how the signing configuration (src/signing_config.rs) is read, by the
  serde attributes of their structs.  As in \<open>Bundle_Json\<close>, a field that stands for a nested struct
  has the writer and the reader of that struct, and of several wrong members the first field gives
  the error.
\<close>

subsection \<open>The trusted root\<close>

text \<open>\<open>ValidityPeriod\<close>: its times are kept as the texts they are written as.\<close>

definition validity_ser :: "validity_period \<Rightarrow> json" where
  "validity_ser p = obj
     [(''start'', Some (ser_option JString (vp_start p))), (''end'', Some (ser_option JString (vp_end p)))]"

definition validity_de :: "'z serde_externals_scheme \<Rightarrow> json \<Rightarrow> (validity_period, string) result" where
  "validity_de X = de_struct X [''start'', ''end''] (\<lambda>m.
     and_then (opt_field ''start'' (de_string X) m) (\<lambda>s.
     and_then (opt_field ''end'' (de_string X) m) (\<lambda>e.
       Inr \<lparr>vp_start = s, vp_end = e\<rparr>)))"

text \<open>\<open>PublicKey\<close>: the key, its details and its validity.\<close>

definition public_key_ser :: "'z serde_externals_scheme \<Rightarrow> der_public_key \<times> string \<times> validity_period option \<Rightarrow> json" where
  "public_key_ser X k = obj
     [(''rawBytes'', Some (newtype_ser X (fst k))),
      (''keyDetails'', Some (JString (fst (snd k)))),
      (''validFor'', Some (ser_option validity_ser (snd (snd k))))]"

definition public_key_de ::
  "'z serde_externals_scheme \<Rightarrow> json \<Rightarrow> (der_public_key \<times> string \<times> validity_period option, string) result" where
  "public_key_de X = de_struct X [''rawBytes'', ''keyDetails'', ''validFor''] (\<lambda>m.
     and_then (required ''rawBytes'' (newtype_de X) m) (\<lambda>raw.
     and_then (required ''keyDetails'' (de_string X) m) (\<lambda>details.
     and_then (opt_field ''validFor'' (validity_de X) m) (\<lambda>vf.
       Inr (raw, details, vf)))))"

text \<open>\<open>TransparencyLog\<close> and \<open>CertificateTransparencyLog\<close> have the same members.\<close>

definition log_instance_ser :: "'z serde_externals_scheme \<Rightarrow> log_instance \<Rightarrow> json" where
  "log_instance_ser X l = obj
     [(''baseUrl'', Some (JString (li_base_url l))),
      (''hashAlgorithm'', Some (hash_algorithm_ser (li_hash_algorithm l))),
      (''publicKey'', Some (public_key_ser X (li_raw_bytes l, li_key_details l, li_valid_for l))),
      (''logId'', Some (log_id_ser (li_key_id l)))]"

definition log_instance_de :: "'z serde_externals_scheme \<Rightarrow> json \<Rightarrow> (log_instance, string) result" where
  "log_instance_de X = de_struct X [''baseUrl'', ''hashAlgorithm'', ''publicKey'', ''logId''] (\<lambda>m.
     and_then (required ''baseUrl'' (de_string X) m) (\<lambda>url.
     and_then (required ''hashAlgorithm'' (hash_algorithm_de X) m) (\<lambda>alg.
     and_then (required ''publicKey'' (public_key_de X) m) (\<lambda>(raw, details, vf).
     and_then (required ''logId'' (log_id_de X) m) (\<lambda>kid.
       Inr \<lparr>li_base_url = url, li_hash_algorithm = alg, li_raw_bytes = raw, li_key_details = details,
            li_valid_for = vf, li_key_id = kid\<rparr>)))))"

text \<open>\<open>CertificateSubject\<close>, \<open>CertificateEntry\<close> and \<open>CertChain\<close>.\<close>

definition cert_subject_ser :: "string option \<times> string option \<Rightarrow> json" where
  "cert_subject_ser s = obj
     [(''organization'', Some (ser_option JString (fst s))), (''commonName'', Some (ser_option JString (snd s)))]"

definition cert_subject_de :: "'z serde_externals_scheme \<Rightarrow> json \<Rightarrow> (string option \<times> string option, string) result" where
  "cert_subject_de X = de_struct X [''organization'', ''commonName''] (\<lambda>m.
     and_then (opt_field ''organization'' (de_string X) m) (\<lambda>org.
     and_then (opt_field ''commonName'' (de_string X) m) (\<lambda>cn.
       Inr (org, cn))))"

definition cert_entry_ser :: "'z serde_externals_scheme \<Rightarrow> der_certificate \<Rightarrow> json" where
  "cert_entry_ser X c = obj [(''rawBytes'', Some (newtype_ser X c))]"

definition cert_entry_de :: "'z serde_externals_scheme \<Rightarrow> json \<Rightarrow> (der_certificate, string) result" where
  "cert_entry_de X = de_struct X [''rawBytes''] (required ''rawBytes'' (newtype_de X))"

definition cert_chain_ser :: "'z serde_externals_scheme \<Rightarrow> der_certificate list \<Rightarrow> json" where
  "cert_chain_ser X cs = obj [(''certificates'', Some (ser_list (cert_entry_ser X) cs))]"

definition cert_chain_de :: "'z serde_externals_scheme \<Rightarrow> json \<Rightarrow> (der_certificate list, string) result" where
  "cert_chain_de X = de_struct X [''certificates''] (required ''certificates'' (de_list X (cert_entry_de X)))"

text \<open>
  \<open>CertificateAuthority\<close> and \<open>TimestampAuthority\<close> differ in the URI, which the first requires and
  the second may lack; the record of both has an optional one.
\<close>

definition authority_ser :: "'z serde_externals_scheme \<Rightarrow> (string option \<Rightarrow> json) \<Rightarrow> authority \<Rightarrow> json" where
  "authority_ser X uri a = obj
     [(''subject'', Some (cert_subject_ser (ca_organization a, ca_common_name a))),
      (''uri'', Some (uri (ca_uri a))),
      (''certChain'', Some (cert_chain_ser X (ca_chain a))),
      (''validFor'', Some (ser_option validity_ser (ca_valid_for a)))]"

definition authority_de :: "'z serde_externals_scheme \<Rightarrow> ((string \<Rightarrow> json option) \<Rightarrow> (string option, string) result)
    \<Rightarrow> json \<Rightarrow> (authority, string) result" where
  "authority_de X uri = de_struct X [''subject'', ''uri'', ''certChain'', ''validFor''] (\<lambda>m.
     and_then (defaulted (None, None) ''subject'' (cert_subject_de X) m) (\<lambda>(org, cn).
     and_then (uri m) (\<lambda>u.
     and_then (required ''certChain'' (cert_chain_de X) m) (\<lambda>cs.
     and_then (opt_field ''validFor'' (validity_de X) m) (\<lambda>vf.
       Inr \<lparr>ca_organization = org, ca_common_name = cn, ca_uri = u, ca_chain = cs, ca_valid_for = vf\<rparr>)))))"

definition certificate_authority_ser :: "'z serde_externals_scheme \<Rightarrow> authority \<Rightarrow> json" where
  "certificate_authority_ser X = authority_ser X (\<lambda>u. JString (case u of Some s \<Rightarrow> s | None \<Rightarrow> ''''))"

definition certificate_authority_de :: "'z serde_externals_scheme \<Rightarrow> json \<Rightarrow> (authority, string) result" where
  "certificate_authority_de X = authority_de X (\<lambda>m. map_sum id Some (required ''uri'' (de_string X) m))"

definition timestamp_authority_ser :: "'z serde_externals_scheme \<Rightarrow> authority \<Rightarrow> json" where
  "timestamp_authority_ser X = authority_ser X (ser_option JString)"

definition timestamp_authority_de :: "'z serde_externals_scheme \<Rightarrow> json \<Rightarrow> (authority, string) result" where
  "timestamp_authority_de X = authority_de X (opt_field ''uri'' (de_string X))"

definition trusted_root_ser :: "'z serde_externals_scheme \<Rightarrow> trusted_root \<Rightarrow> json" where
  "trusted_root_ser X r = obj
     [(''mediaType'', Some (JString (tr_media_type r))),
      (''tlogs'', Some (ser_list (log_instance_ser X) (tlogs r))),
      (''certificateAuthorities'', Some (ser_list (certificate_authority_ser X) (certificate_authorities r))),
      (''ctlogs'', Some (ser_list (log_instance_ser X) (ctlogs r))),
      (''timestampAuthorities'', Some (ser_list (timestamp_authority_ser X) (timestamp_authorities r)))]"

definition trusted_root_de :: "'z serde_externals_scheme \<Rightarrow> json \<Rightarrow> (trusted_root, string) result" where
  "trusted_root_de X =
     de_struct X [''mediaType'', ''tlogs'', ''certificateAuthorities'', ''ctlogs'', ''timestampAuthorities''] (\<lambda>m.
     and_then (required ''mediaType'' (de_string X) m) (\<lambda>mt.
     and_then (defaulted [] ''tlogs'' (de_list X (log_instance_de X)) m) (\<lambda>tl.
     and_then (defaulted [] ''certificateAuthorities'' (de_list X (certificate_authority_de X)) m) (\<lambda>cas.
     and_then (defaulted [] ''ctlogs'' (de_list X (log_instance_de X)) m) (\<lambda>ct.
     and_then (defaulted [] ''timestampAuthorities'' (de_list X (timestamp_authority_de X)) m) (\<lambda>tas.
       Inr \<lparr>tr_media_type = mt, tlogs = tl, certificate_authorities = cas, ctlogs = ct,
            timestamp_authorities = tas\<rparr>))))))"

text \<open>\<open>serde_json::from_str\<close> and \<open>to_string\<close> at this type; \<open>from_json\<close> of Trust_Fetch calls the first.\<close>

definition trusted_root_read :: "'z serde_externals_scheme \<Rightarrow> string \<Rightarrow> (trusted_root, string) result" where
  "trusted_root_read X s = and_then (json_read X s) (trusted_root_de X)"

definition trusted_root_write :: "'z serde_externals_scheme \<Rightarrow> trusted_root \<Rightarrow> (string, string) result" where
  "trusted_root_write X r = json_write X (trusted_root_ser X r)"

subsection \<open>The signing configuration\<close>

text \<open>
  serde\_json reads an enum of unit variants from the name of one, which is \<open>unit_variant\<close> with the
  names of all; jiff reads a \<open>Timestamp\<close> from its text.
\<close>

record trust_serde = serde_externals +
  unit_variant :: "string list \<Rightarrow> json \<Rightarrow> (string, string) result"

definition timestamp_text_de :: "'z serde_externals_scheme \<Rightarrow> json \<Rightarrow> (timestamp, string) result" where
  "timestamp_text_de X v =
     (case v of JString s \<Rightarrow> parse_timestamp X s | _ \<Rightarrow> Inl (invalid_type X ''a timestamp'' v))"

definition u32_de :: "'z serde_externals_scheme \<Rightarrow> json \<Rightarrow> (nat, string) result" where
  "u32_de X v =
     (case v of
        JNumber (PosInt n) \<Rightarrow>
          if unat n < 2 ^ 32 then Inr (unat n)
          else Inl (''invalid value: integer `'' @ fmt_nat (unat n) @ ''`, expected u32'')
      | JNumber (NegInt i) \<Rightarrow> Inl (''invalid value: integer `'' @ fmt_int i @ ''`, expected u32'')
      | _ \<Rightarrow> Inl (invalid_type X ''u32'' v))"

definition service_validity_de :: "'z serde_externals_scheme \<Rightarrow> json \<Rightarrow> (service_validity, string) result" where
  "service_validity_de X = de_struct X [''start'', ''end''] (\<lambda>m.
     and_then (required ''start'' (timestamp_text_de X) m) (\<lambda>s.
     and_then (opt_field ''end'' (timestamp_text_de X) m) (\<lambda>e.
       Inr \<lparr>sv_start = s, sv_end = e\<rparr>)))"

definition service_endpoint_de :: "'z serde_externals_scheme \<Rightarrow> json \<Rightarrow> (service_endpoint, string) result" where
  "service_endpoint_de X = de_struct X [''url'', ''majorApiVersion'', ''validFor'', ''operator''] (\<lambda>m.
     and_then (required ''url'' (de_string X) m) (\<lambda>url.
     and_then (required ''majorApiVersion'' (u32_de X) m) (\<lambda>v.
     and_then (required ''validFor'' (service_validity_de X) m) (\<lambda>vf.
     and_then (opt_field ''operator'' (de_string X) m) (\<lambda>op.
       Inr \<lparr>se_url = url, se_major_api_version = v, se_valid_for = vf, se_operator = op\<rparr>)))))"

definition service_selector_de :: "'z trust_serde_scheme \<Rightarrow> json \<Rightarrow> (service_selector, string) result" where
  "service_selector_de X v =
     map_sum id (\<lambda>s. if s = ''ANY'' then Any else Exact) (unit_variant X [''ANY'', ''EXACT''] v)"

definition service_configuration_de :: "'z trust_serde_scheme \<Rightarrow> json \<Rightarrow> (service_configuration, string) result" where
  "service_configuration_de X = de_struct X [''selector'', ''count''] (\<lambda>m.
     and_then (defaulted Any ''selector'' (service_selector_de X) m) (\<lambda>s.
     and_then (opt_field ''count'' (u32_de X) m) (\<lambda>n.
       Inr \<lparr>sc_selector = s, sc_count = n\<rparr>)))"

definition default_service_configuration :: service_configuration where
  "default_service_configuration = \<lparr>sc_selector = Any, sc_count = None\<rparr>"

definition endpoints_de :: "'z serde_externals_scheme \<Rightarrow> string \<Rightarrow> (string \<Rightarrow> json option)
    \<Rightarrow> (service_endpoint list, string) result" where
  "endpoints_de X k m = defaulted [] k (de_list X (service_endpoint_de X)) m"

definition signing_config_de :: "'z trust_serde_scheme \<Rightarrow> json \<Rightarrow> (tuf_signing_config, string) result" where
  "signing_config_de X =
     de_struct X [''mediaType'', ''caUrls'', ''oidcUrls'', ''rekorTlogUrls'', ''tsaUrls'', ''rekorTlogConfig'', ''tsaConfig''] (\<lambda>m.
     and_then (required ''mediaType'' (de_string X) m) (\<lambda>mt.
     and_then (endpoints_de X ''caUrls'' m) (\<lambda>ca.
     and_then (endpoints_de X ''oidcUrls'' m) (\<lambda>oidc.
     and_then (endpoints_de X ''rekorTlogUrls'' m) (\<lambda>rekor.
     and_then (endpoints_de X ''tsaUrls'' m) (\<lambda>tsa.
     and_then (defaulted default_service_configuration ''rekorTlogConfig'' (service_configuration_de X) m) (\<lambda>rc.
     and_then (defaulted default_service_configuration ''tsaConfig'' (service_configuration_de X) m) (\<lambda>tc.
       Inr \<lparr>tsc_media_type = mt, tsc_ca_urls = ca, tsc_oidc_urls = oidc, tsc_rekor_tlog_urls = rekor,
            tsc_tsa_urls = tsa, tsc_rekor_tlog_config = rc, tsc_tsa_config = tc\<rparr>))))))))"

definition signing_config_read :: "'z trust_serde_scheme \<Rightarrow> string \<Rightarrow> (tuf_signing_config, string) result" where
  "signing_config_read X s = and_then (json_read X s) (signing_config_de X)"

subsection \<open>Codecs\<close>

lemma opt_string_codec [codec_simps]: "de_option (de_string X) (ser_option JString x) = Inr x"
  by (rule str_codec.option_codec) (simp add: option.pred_True)

interpretation validity_codec: codec validity_ser "validity_de X" "\<lambda>p. serde_laws X" for X
  by unfold_locales (simp_all add: validity_ser_def validity_de_def read_members codec_simps)

lemma opt_validity_codec [codec_simps]:
  "serde_laws X \<Longrightarrow> de_option (validity_de X) (ser_option validity_ser x) = Inr x"
  by (rule validity_codec.option_codec) (simp add: option.pred_True)

interpretation public_key_codec: codec "public_key_ser X" "public_key_de X" "\<lambda>k. serde_laws X" for X
  by unfold_locales (simp_all add: public_key_ser_def public_key_de_def read_members codec_simps
      newtype_codec.dec_enc str_codec.dec_enc)

interpretation log_instance_codec: codec "log_instance_ser X" "log_instance_de X" "\<lambda>l. serde_laws X" for X
  by unfold_locales (simp_all add: log_instance_ser_def log_instance_de_def read_members str_codec.dec_enc
      hash_alg_codec.dec_enc public_key_codec.dec_enc log_id_codec.dec_enc)

interpretation cert_subject_codec: codec cert_subject_ser "cert_subject_de X" "\<lambda>s. serde_laws X" for X
  by unfold_locales (simp_all add: cert_subject_ser_def cert_subject_de_def read_members codec_simps)

interpretation cert_entry_codec: codec "cert_entry_ser X" "cert_entry_de X" "\<lambda>c. serde_laws X" for X
  by unfold_locales (simp_all add: cert_entry_ser_def cert_entry_de_def read_members newtype_codec.dec_enc)

interpretation cert_chain_codec: codec "cert_chain_ser X" "cert_chain_de X" "\<lambda>cs. serde_laws X" for X
  by unfold_locales (simp_all add: cert_chain_ser_def cert_chain_de_def read_members
      cert_entry_codec.list_codec list_all_iff)

interpretation ca_codec: codec "certificate_authority_ser X" "certificate_authority_de X"
    "\<lambda>a. serde_laws X \<and> ca_uri a \<noteq> None" for X
  by unfold_locales (auto simp: certificate_authority_ser_def certificate_authority_de_def authority_ser_def
      authority_de_def read_members codec_simps cert_subject_codec.dec_enc cert_chain_codec.dec_enc str_codec.dec_enc)

interpretation tsa_codec: codec "timestamp_authority_ser X" "timestamp_authority_de X" "\<lambda>a. serde_laws X" for X
  by unfold_locales (simp_all add: timestamp_authority_ser_def timestamp_authority_de_def authority_ser_def
      authority_de_def read_members codec_simps cert_subject_codec.dec_enc cert_chain_codec.dec_enc)

text \<open>A certificate authority has a URI; that is the type of the code's field.\<close>

definition root_ok :: "trusted_root \<Rightarrow> bool" where
  "root_ok r \<longleftrightarrow> list_all (\<lambda>a. ca_uri a \<noteq> None) (certificate_authorities r)"

interpretation root_codec: codec "trusted_root_ser X" "trusted_root_de X" "\<lambda>r. serde_laws X \<and> root_ok r" for X
  by unfold_locales (simp_all add: trusted_root_ser_def trusted_root_de_def read_members str_codec.dec_enc
      log_instance_codec.list_codec ca_codec.list_codec tsa_codec.list_codec list_all_iff root_ok_def)

text \<open>A trusted root that is written is read back.\<close>

lemma trusted_root_json_roundtrip:
  assumes "serde_laws X" "root_ok r" "trusted_root_write X r = Inr t"
  shows "trusted_root_read X t = Inr r"
  using assms by (auto simp: trusted_root_write_def trusted_root_read_def serde_laws_text root_codec.dec_enc)
end
