(* ===== verification/Conformance.thy ===== *)
theory Conformance
  imports Trust_Fetch Sign_Correct Trust_Json
begin

text \<open>
  The command line of the conformance suite (sigstore-conformance, src/main.rs): its two commands
  sign an artifact into a bundle file, and verify one.  It composes the other parts: the options
  select the services and the trusted root, the signer makes the bundle and serde writes it, or
  serde reads it and the verifier decides, and the exit code says so.

  The file system is a value with two operations, \<open>cli_read\<close> and \<open>cli_write\<close>, which give the text
  of an error or the outcome; \<open>cli_pretty\<close> is the indenting writer of serde\_json.  An error is its
  text.  A panic, of an index or of \<open>expect\<close>, ends the program with code 101, as Rust does.
\<close>

subsection \<open>Environment and failures\<close>

record 'f cli_env =
  cli_read :: "'f \<Rightarrow> string \<Rightarrow> (bytes, string) result"
  cli_write :: "'f \<Rightarrow> string \<Rightarrow> bytes \<Rightarrow> 'f \<times> (unit, string) result"
  cli_pretty :: "json \<Rightarrow> (string, string) result"

datatype failure = Failed string | Panicked

text \<open>\<open>fs::read_to_string\<close>.\<close>

definition read_to_string :: "'z externals_scheme \<Rightarrow> 'f cli_env \<Rightarrow> 'f \<Rightarrow> string \<Rightarrow> (string, string) result" where
  "read_to_string X C s path =
     and_then (cli_read C s path) (\<lambda>bs. map_err (\<lambda>_. ''stream did not contain valid UTF-8'') (from_utf8 X bs))"

subsection \<open>Options\<close>

text \<open>
  The loop of both commands: an option that takes a value takes the next argument, a flag is set,
  and what does not start with two dashes is the artifact.  A later occurrence replaces an earlier.
\<close>

fun parse_args :: "(string \<times> (string \<Rightarrow> 'a \<Rightarrow> 'a)) list \<Rightarrow> (string \<times> ('a \<Rightarrow> 'a)) list \<Rightarrow> (string \<Rightarrow> 'a \<Rightarrow> 'a)
    \<Rightarrow> string list \<Rightarrow> 'a \<Rightarrow> ('a, string) result" where
  "parse_args valued flags positional [] a = Inr a"
| "parse_args valued flags positional (x # xs) a =
     (case map_of valued x of
        Some put \<Rightarrow>
          (case xs of
             [] \<Rightarrow> Inl (''Missing value for '' @ x)
           | v # ys \<Rightarrow> parse_args valued flags positional ys (put v a))
      | None \<Rightarrow>
          (case map_of flags x of
             Some put \<Rightarrow> parse_args valued flags positional xs (put a)
           | None \<Rightarrow>
               if \<not> starts_with x ''--'' then parse_args valued flags positional xs (positional x a)
               else Inl (''Unknown option: '' @ x)))"

record sign_args =
  sa_identity_token :: "string option"
  sa_bundle_path :: "string option"
  sa_artifact_path :: "string option"
  sa_staging :: bool
  sa_trusted_root :: "string option"
  sa_signing_config :: "string option"
  sa_in_toto :: bool

definition no_sign_args :: sign_args where
  "no_sign_args = \<lparr>sa_identity_token = None, sa_bundle_path = None, sa_artifact_path = None, sa_staging = False,
     sa_trusted_root = None, sa_signing_config = None, sa_in_toto = False\<rparr>"

definition parse_sign_args :: "string list \<Rightarrow> (sign_args, string) result" where
  "parse_sign_args args = parse_args
     [(''--identity-token'', \<lambda>v a. a\<lparr>sa_identity_token := Some v\<rparr>),
      (''--bundle'', \<lambda>v a. a\<lparr>sa_bundle_path := Some v\<rparr>),
      (''--trusted-root'', \<lambda>v a. a\<lparr>sa_trusted_root := Some v\<rparr>),
      (''--signing-config'', \<lambda>v a. a\<lparr>sa_signing_config := Some v\<rparr>)]
     [(''--in-toto'', \<lambda>a. a\<lparr>sa_in_toto := True\<rparr>), (''--staging'', \<lambda>a. a\<lparr>sa_staging := True\<rparr>)]
     (\<lambda>v a. a\<lparr>sa_artifact_path := Some v\<rparr>) args no_sign_args"

record verify_args =
  va_bundle_path :: "string option"
  va_certificate_identity :: "string option"
  va_certificate_oidc_issuer :: "string option"
  va_key_path :: "string option"
  va_artifact_or_digest :: "string option"
  va_staging :: bool
  va_trusted_root_path :: "string option"

definition no_verify_args :: verify_args where
  "no_verify_args = \<lparr>va_bundle_path = None, va_certificate_identity = None, va_certificate_oidc_issuer = None,
     va_key_path = None, va_artifact_or_digest = None, va_staging = False, va_trusted_root_path = None\<rparr>"

definition parse_verify_args :: "string list \<Rightarrow> (verify_args, string) result" where
  "parse_verify_args args = parse_args
     [(''--bundle'', \<lambda>v a. a\<lparr>va_bundle_path := Some v\<rparr>),
      (''--certificate-identity'', \<lambda>v a. a\<lparr>va_certificate_identity := Some v\<rparr>),
      (''--certificate-oidc-issuer'', \<lambda>v a. a\<lparr>va_certificate_oidc_issuer := Some v\<rparr>),
      (''--key'', \<lambda>v a. a\<lparr>va_key_path := Some v\<rparr>),
      (''--trusted-root'', \<lambda>v a. a\<lparr>va_trusted_root_path := Some v\<rparr>)]
     [(''--staging'', \<lambda>a. a\<lparr>va_staging := True\<rparr>)]
     (\<lambda>v a. a\<lparr>va_artifact_or_digest := Some v\<rparr>) args no_verify_args"

subsection \<open>sign-bundle\<close>

definition bundle_to_json_pretty :: "'z serde_externals_scheme \<Rightarrow> 'f cli_env \<Rightarrow> sigstore_bundle
    \<Rightarrow> (string, types_error) result" where
  "bundle_to_json_pretty J C b = map_err types_error.Json (cli_pretty C (bundle_ser J b))"

text \<open>
  The configuration of the signer: that of the file given, or an embedded one, which the signer
  parses and \<open>expect\<close>s to be well formed.
\<close>

definition signer_config :: "'z externals_scheme \<Rightarrow> 'n trust_env \<Rightarrow> 'f cli_env \<Rightarrow> endpoint_clock \<Rightarrow> 'f \<Rightarrow> sign_args
    \<Rightarrow> (sign_config, failure) result" where
  "signer_config X E C now s a =
     (case sa_signing_config a of
        Some config_path \<Rightarrow>
          and_then (map_err (\<lambda>e. Failed (fmt_trust_error e))
            (signing_config_from_file (te_de_signing_config E) config_path (read_to_string X C s config_path))) (\<lambda>config.
          map_err (\<lambda>e. Failed (fmt_sign_error e)) (from_tuf_config now config))
      | None \<Rightarrow>
          ok_or Panicked (embedded_config (te_de_signing_config E) now
            (of_bytes (te_signing_config E (if sa_staging a then Staging else PublicGood)))))"

text \<open>The bundle made and the path it is for, and the text to be written there.\<close>

definition sign_made :: "'z signer_externals_scheme \<Rightarrow> 'n trust_env \<Rightarrow> 'f cli_env
    \<Rightarrow> net \<Rightarrow> draws \<Rightarrow> endpoint_clock \<Rightarrow> string list \<Rightarrow> 'f \<Rightarrow> (string \<times> sigstore_bundle, failure) result" where
  "sign_made X E C net rnd now args s =
     and_then (map_err Failed (parse_sign_args args)) (\<lambda>a.
     and_then (ok_or (Failed ''Missing required --identity-token'') (sa_identity_token a)) (\<lambda>token_str.
     and_then (ok_or (Failed ''Missing required --bundle'') (sa_bundle_path a)) (\<lambda>bundle_path.
     and_then (ok_or (Failed ''Missing artifact path'') (sa_artifact_path a)) (\<lambda>artifact_path.
     and_then (signer_config X E C now s a) (\<lambda>config.
     and_then (map_err (\<lambda>e. Failed (fmt_oidc_error e)) (from_jwt X token_str)) (\<lambda>token.
     and_then (map_err Failed (cli_read C s artifact_path)) (\<lambda>artifact_data.
     and_then (map_err (\<lambda>e. Failed (fmt_sign_error e))
       (if sa_in_toto a then sign_raw_statement X net (signer_of config token) rnd artifact_data
        else sign X net (signer_of config token) rnd (Bytes artifact_data))) (\<lambda>b.
     Inr (bundle_path, b)))))))))"

definition sign_output :: "'z signer_externals_scheme \<Rightarrow> 'j serde_externals_scheme \<Rightarrow> 'n trust_env \<Rightarrow> 'f cli_env
    \<Rightarrow> net \<Rightarrow> draws \<Rightarrow> endpoint_clock \<Rightarrow> string list \<Rightarrow> 'f \<Rightarrow> (string \<times> string, failure) result" where
  "sign_output X J E C net rnd now args s =
     and_then (sign_made X E C net rnd now args s) (\<lambda>(path, b).
     and_then (map_err (\<lambda>e. Failed (fmt_types_error e)) (bundle_to_json_pretty J C b)) (\<lambda>bundle_json.
     Inr (path, bundle_json)))"

definition sign_bundle :: "'z signer_externals_scheme \<Rightarrow> 'j serde_externals_scheme \<Rightarrow> 'n trust_env \<Rightarrow> 'f cli_env
    \<Rightarrow> net \<Rightarrow> draws \<Rightarrow> endpoint_clock \<Rightarrow> string list \<Rightarrow> 'f \<Rightarrow> 'f \<times> (unit, failure) result" where
  "sign_bundle X J E C net rnd now args s =
     (case sign_output X J E C net rnd now args s of
        Inl e \<Rightarrow> (s, Inl e)
      | Inr (path, bundle_json) \<Rightarrow>
          (case cli_write C s path (as_bytes bundle_json) of (s', r) \<Rightarrow> (s', map_err Failed r)))"

subsection \<open>verify-bundle\<close>

text \<open>The artifact: a digest with its prefix, or the name of a file.\<close>

definition artifact_argument :: "'z externals_scheme \<Rightarrow> 'f cli_env \<Rightarrow> 'f \<Rightarrow> string \<Rightarrow> (artifact, string) result" where
  "artifact_argument X C s artifact_or_digest =
     (if starts_with artifact_or_digest ''sha256:'' then
        let digest_hex = drop (length ''sha256:'') artifact_or_digest in
        and_then (map_err (\<lambda>e. ''Invalid hex digest: '' @ e) (hex_decode X digest_hex)) (\<lambda>digest_bytes.
        and_then (ensure (length digest_bytes = 32)
          (''Invalid SHA256 digest length: expected 32 bytes, got '' @ fmt_nat (length digest_bytes))) (\<lambda>_.
        and_then (map_err (\<lambda>e. ''Invalid digest: '' @ fmt_types_error e) (sha256_try_from_slice digest_bytes)) (\<lambda>digest.
        Inr (Digest digest))))
      else map_sum id Bytes (cli_read C s artifact_or_digest))"

definition root_argument :: "'z externals_scheme \<Rightarrow> 'n trust_env \<Rightarrow> 'f cli_env \<Rightarrow> 'f \<Rightarrow> verify_args
    \<Rightarrow> (trusted_root, string) result" where
  "root_argument X E C s a = map_err fmt_trust_error
     (case va_trusted_root_path a of
        Some root_path \<Rightarrow> trusted_root_from_file E (read_to_string X C s root_path)
      | None \<Rightarrow> trusted_root_from_json E (te_trusted_root_json E PublicGood))"

definition certificate_policy :: "string \<Rightarrow> string \<Rightarrow> verification_policy" where
  "certificate_policy identity issuer = require_issuer (require_identity default_policy identity) issuer"

definition ensure_success :: "verification_result \<Rightarrow> (unit, string) result" where
  "ensure_success r = ensure (r_success r) ''Verification failed''"

definition verify_bundle :: "'z pki_externals_scheme \<Rightarrow> clock \<Rightarrow> 'j serde_externals_scheme \<Rightarrow> 'n trust_env \<Rightarrow> 'f cli_env
    \<Rightarrow> string list \<Rightarrow> 'f \<Rightarrow> (unit, string) result" where
  "verify_bundle X clock J E C args s =
     and_then (parse_verify_args args) (\<lambda>a.
     and_then (ok_or ''Missing required --bundle'' (va_bundle_path a)) (\<lambda>bundle_path.
     and_then (ok_or ''Missing artifact or digest'' (va_artifact_or_digest a)) (\<lambda>artifact_or_digest.
     and_then (ensure (\<not> (va_key_path a = None
         \<and> (va_certificate_identity a = None \<or> va_certificate_oidc_issuer a = None)))
       ''Either --key or both --certificate-identity and --certificate-oidc-issuer must be provided'') (\<lambda>_.
     and_then (root_argument X E C s a) (\<lambda>root.
     and_then (read_to_string X C s bundle_path) (\<lambda>bundle_json.
     and_then (map_err fmt_types_error (bundle_from_json J bundle_json)) (\<lambda>b.
     case va_key_path a of
       Some key_path \<Rightarrow>
         and_then (read_to_string X C s key_path) (\<lambda>key_pem.
         and_then (map_err (\<lambda>e. ''Failed to parse public key: '' @ fmt_types_error e)
           (public_key_from_pem X key_pem)) (\<lambda>public_key.
         and_then (artifact_argument X C s artifact_or_digest) (\<lambda>artifact.
         and_then (map_err fmt_verify_error (verify_with_key X clock artifact b public_key root)) ensure_success)))
     | None \<Rightarrow>
         let policy = certificate_policy (the (va_certificate_identity a)) (the (va_certificate_oidc_issuer a)) in
         and_then (artifact_argument X C s artifact_or_digest) (\<lambda>artifact.
         and_then (map_err fmt_verify_error (verify X clock artifact b policy root)) ensure_success))))))))"

subsection \<open>The program\<close>

definition print_usage :: "string \<Rightarrow> string list" where
  "print_usage program =
     [''Usage:'',
      ''  '' @ program @ '' sign-bundle --identity-token TOKEN --bundle FILE [--in-toto] [--staging] [--trusted-root FILE] [--signing-config FILE] ARTIFACT'',
      ''  '' @ program @ '' verify-bundle --bundle FILE --certificate-identity IDENTITY --certificate-oidc-issuer URL [--staging] [--trusted-root FILE] ARTIFACT_OR_DIGEST'',
      ''  '' @ program @ '' verify-bundle --bundle FILE --key KEY_FILE [--staging] [--trusted-root FILE] ARTIFACT_OR_DIGEST'']"

text \<open>The exit code and the lines written to the standard error, without those of a panic.\<close>

fun finish :: "(unit, failure) result \<Rightarrow> nat \<times> string list" where
  "finish (Inr u) = (0, [''Operation succeeded!''])"
| "finish (Inl (Failed e)) = (1, [''Operation failed:'', e])"
| "finish (Inl Panicked) = (101, [])"

definition cli_main :: "'z signer_externals_scheme \<Rightarrow> clock \<Rightarrow> 'j serde_externals_scheme \<Rightarrow> 'n trust_env \<Rightarrow> 'f cli_env
    \<Rightarrow> net \<Rightarrow> draws \<Rightarrow> endpoint_clock \<Rightarrow> string list \<Rightarrow> 'f \<Rightarrow> 'f \<times> nat \<times> string list" where
  "cli_main X clock J E C net rnd now argv s =
     (case argv of
        [] \<Rightarrow> (s, finish (Inl Panicked))
      | [program] \<Rightarrow> (s, 1, print_usage program)
      | program # command # args \<Rightarrow>
          if command = ''sign-bundle'' then
            case sign_bundle X J E C net rnd now args s of (s', r) \<Rightarrow> (s', finish r)
          else if command = ''verify-bundle'' then
            (s, finish (map_err Failed (verify_bundle X clock J E C args s)))
          else (s, 1, (''Unknown command: '' @ command) # print_usage program))"

subsection \<open>What the exit code says\<close>

lemma finish_zero: "fst (finish r) = 0 \<longleftrightarrow> r = Inr ()"
  by (cases r rule: finish.cases) auto

lemma ensure_success_Inr [result_simps]: "ensure_success r = Inr u \<longleftrightarrow> r_success r"
  by (simp add: ensure_success_def result_simps)

lemma cli_verify_zero:
  "fst (snd (cli_main X clock J E C net rnd now (program # ''verify-bundle'' # args) s)) = 0
     \<longleftrightarrow> verify_bundle X clock J E C args s = Inr ()"
  by (simp add: cli_main_def finish_zero result_simps)

lemma cli_sign_zero:
  assumes "cli_main X clock J E C net rnd now (program # ''sign-bundle'' # args) s = (s', 0, out)"
  obtains path bundle_json where "sign_output X J E C net rnd now args s = Inr (path, bundle_json)"
    "cli_write C s path (as_bytes bundle_json) = (s', Inr ())"
proof -
  from assms have "(case sign_bundle X J E C net rnd now args s of (s', r) \<Rightarrow> (s', finish r)) = (s', 0, out)"
    by (simp add: cli_main_def)
  then have "sign_bundle X J E C net rnd now args s = (s', Inr ())"
    using finish_zero [of "snd (sign_bundle X J E C net rnd now args s)"] by (auto split: prod.splits)
  then show ?thesis
    using that by (auto simp: sign_bundle_def result_simps split: sum.splits prod.splits)
qed

text \<open>The artifact is signed, under the options \<open>a\<close>: with the key given, or by who they name.\<close>

definition signed_for :: "'z pki_externals_scheme \<Rightarrow> 'f cli_env \<Rightarrow> 'f \<Rightarrow> verify_args \<Rightarrow> sigstore_bundle
    \<Rightarrow> artifact \<Rightarrow> bool" where
  "signed_for X C s a b artifact \<longleftrightarrow>
     (case va_key_path a of
        Some key_path \<Rightarrow>
          (\<exists>pem key scheme. read_to_string X C s key_path = Inr pem \<and> public_key_from_pem X pem = Inr key
             \<and> scheme_of_key X key = Inr scheme \<and> artifact_signed X key {scheme} b artifact)
      | None \<Rightarrow>
          (\<exists>cert ci who issuer. va_certificate_identity a = Some who \<and> va_certificate_oidc_issuer a = Some issuer
             \<and> extract_certificate (vm_content (b_material b)) = Inr cert \<and> parse_certificate_info X cert = Inr ci
             \<and> ci_identity ci = Some who \<and> ci_issuer ci = Some issuer
             \<and> artifact_signed X (ci_public_key ci) (schemes_of (ci_key_algorithm ci)) b artifact))"

lemma verified_signed:
  assumes "verifier_verify X clock root artifact b (certificate_policy who issuer) = Inr r"
  shows "verify_tlog_consistency X b artifact = Inr ()
    \<and> (\<exists>cert ci. extract_certificate (vm_content (b_material b)) = Inr cert \<and> parse_certificate_info X cert = Inr ci
        \<and> ci_identity ci = Some who \<and> ci_issuer ci = Some issuer
        \<and> artifact_signed X (ci_public_key ci) (schemes_of (ci_key_algorithm ci)) b artifact)"
  using assms
  by (elim verifier_verify_Inr)
    (auto simp: check_expected_Inr certificate_policy_def require_issuer_def require_identity_def default_policy_def intro: check_content_Inr)

lemma verify_bundle_cases:
  assumes "verify_bundle X clock J E C args s = Inr ()"
  obtains a path json b root artifact where "parse_verify_args args = Inr a" "va_bundle_path a = Some path"
    "root_argument X E C s a = Inr root" "read_to_string X C s path = Inr json" "bundle_from_json J json = Inr b"
    "artifact_argument X C s (the (va_artifact_or_digest a)) = Inr artifact"
    "signed_for X C s a b artifact" "verify_tlog_consistency X b artifact = Inr ()"
proof -
  from assms obtain a path art json b root where steps: "parse_verify_args args = Inr a" "va_bundle_path a = Some path"
    "root_argument X E C s a = Inr root" "read_to_string X C s path = Inr json" "bundle_from_json J json = Inr b"
    and art: "va_artifact_or_digest a = Some art"
    and guard: "\<not> (va_key_path a = None \<and> (va_certificate_identity a = None \<or> va_certificate_oidc_issuer a = None))"
    and rest: "(case va_key_path a of
       Some key_path \<Rightarrow>
         and_then (read_to_string X C s key_path) (\<lambda>key_pem.
         and_then (map_err (\<lambda>e. ''Failed to parse public key: '' @ fmt_types_error e)
           (public_key_from_pem X key_pem)) (\<lambda>public_key.
         and_then (artifact_argument X C s art) (\<lambda>artifact.
         and_then (map_err fmt_verify_error (verify_with_key X clock artifact b public_key root)) ensure_success)))
     | None \<Rightarrow>
         let policy = certificate_policy (the (va_certificate_identity a)) (the (va_certificate_oidc_issuer a)) in
         and_then (artifact_argument X C s art) (\<lambda>artifact.
         and_then (map_err fmt_verify_error (verify X clock artifact b policy root)) ensure_success)) = Inr ()"
    unfolding verify_bundle_def by (auto simp: result_simps)
  show ?thesis
  proof (cases "va_key_path a")
    case None
    with guard obtain who issuer where who: "va_certificate_identity a = Some who"
      "va_certificate_oidc_issuer a = Some issuer" by auto
    with None rest obtain artifact r where "artifact_argument X C s art = Inr artifact"
      "verifier_verify X clock root artifact b (certificate_policy who issuer) = Inr r"
      by (auto simp: result_simps verify_def)
    with verified_signed [OF this(2)] that steps art None who show ?thesis
      by (simp add: signed_for_def)
  next
    case (Some key_path)
    with rest obtain pem key artifact r where "read_to_string X C s key_path = Inr pem"
      "public_key_from_pem X pem = Inr key" "artifact_argument X C s art = Inr artifact"
      "verify_with_key X clock artifact b key root = Inr r"
      by (auto simp: result_simps)
    with that steps art Some show ?thesis
      by (elim verify_with_key_Inr) (auto simp: signed_for_def)
  qed
qed
subsection \<open>From signing to verifying\<close>

text \<open>
  What is written to a file is read from it, and serde\_json writes UTF-8, which it reads as the
  value written.
\<close>

definition cli_laws :: "'f cli_env \<Rightarrow> 'z externals_scheme \<Rightarrow> 'j serde_externals_scheme \<Rightarrow> bool" where
  "cli_laws C X J \<longleftrightarrow>
     (\<forall>s path bs s'. cli_write C s path bs = (s', Inr ()) \<longrightarrow> cli_read C s' path = Inr bs) \<and>
     (\<forall>v t. cli_pretty C v = Inr t \<longrightarrow> json_read J t = Inr v \<and> utf8_error X (as_bytes t) = None)"

lemma signed_bundle_ok:
  assumes "(if in_toto then sign_raw_statement X net sg rnd d else sign X net sg rnd (Bytes d)) = Inr b"
    "length (sha256 X d) = 32" "list_all entry_ok (tlog_entries (b_material b))"
  shows "bundle_ok J b"
  using assms
  by (cases in_toto)
    (auto simp: sign_Inr sign_raw_statement_Inr bundle_ok_def made_bundle_def signed_message_def digest_ok_def)

lemma written_bundle_read:
  assumes "cli_laws C X J" "serde_laws J" "bundle_ok J b" "bundle_to_json_pretty J C b = Inr t"
    "cli_write C s path (as_bytes t) = (s', Inr ())"
  shows "read_to_string X C s' path = Inr t" "bundle_from_json J t = Inr b"
  using assms
  by (auto simp: cli_laws_def bundle_to_json_pretty_def bundle_from_json_def read_to_string_def from_utf8_def
      result_simps bundle_codec.dec_enc)

text \<open>The options of a signing and of a verification; the file signed is a statement with \<open>--in-toto\<close>.\<close>

definition sign_command :: "bool \<Rightarrow> string \<Rightarrow> string \<Rightarrow> string \<Rightarrow> string list" where
  "sign_command in_toto token path input =
     (if in_toto then [''--in-toto''] else []) @ [''--identity-token'', token, ''--bundle'', path, input]"

definition verify_command :: "string \<Rightarrow> string \<Rightarrow> string \<Rightarrow> string \<Rightarrow> string list" where
  "verify_command path who issuer artifact =
     [''--bundle'', path, ''--certificate-identity'', who, ''--certificate-oidc-issuer'', issuer, artifact]"

lemma not_option:
  assumes "\<not> starts_with x ''--''"
  shows "x \<noteq> CHR ''-'' # CHR ''-'' # w"
  using assms by (auto simp: starts_with_def)

lemma sign_command_args:
  assumes "\<not> starts_with input ''--''"
  shows "parse_sign_args (sign_command in_toto token path input) = Inr (no_sign_args
    \<lparr>sa_identity_token := Some token, sa_bundle_path := Some path, sa_artifact_path := Some input,
     sa_in_toto := in_toto\<rparr>)"
  using assms by (cases in_toto) (simp_all add: parse_sign_args_def sign_command_def not_option no_sign_args_def)

lemma verify_command_args:
  assumes "\<not> starts_with artifact ''--''"
  shows "parse_verify_args (verify_command path who issuer artifact) = Inr (no_verify_args
    \<lparr>va_bundle_path := Some path, va_certificate_identity := Some who,
     va_certificate_oidc_issuer := Some issuer, va_artifact_or_digest := Some artifact\<rparr>)"
  using assms by (simp add: parse_verify_args_def verify_command_def not_option)

lemma sign_command_made:
  assumes "sign_made X E C net rnd now (sign_command in_toto token path input) s = Inr (p, b)" "\<not> starts_with input ''--''"
  obtains config tok inp where "p = path" "cli_read C s input = Inr inp"
    "(if in_toto then sign_raw_statement X net (signer_of config tok) rnd inp
      else sign X net (signer_of config tok) rnd (Bytes inp)) = Inr b"
  using assms by (auto simp: sign_made_def sign_command_args no_sign_args_def result_simps)

text \<open>
  What is signed of a file, the payload of the envelope, and the artifacts the signing is for: the
  content of the file, or an artifact that the statement in it names.
\<close>

definition signed_data :: "bool \<Rightarrow> bytes \<Rightarrow> bytes" where
  "signed_data in_toto inp = (if in_toto then pae ''application/vnd.in-toto+json'' inp else inp)"

definition signed_payload :: "bool \<Rightarrow> bytes \<Rightarrow> bytes" where
  "signed_payload in_toto inp = (if in_toto then inp else [])"

definition signs_for :: "'z signer_externals_scheme \<Rightarrow> bool \<Rightarrow> bytes \<Rightarrow> bytes \<Rightarrow> bool" where
  "signs_for X in_toto inp d \<longleftrightarrow>
     (if in_toto then (case de_statement X (of_bytes inp) of
          Inr st \<Rightarrow> matches_sha256 st (hex_encode X (sha256 X d)) | Inl _ \<Rightarrow> False)
      else d = inp)"

lemma command_verifies:
  assumes "(if in_toto then sign_raw_statement X net sg rnd inp else sign X net sg rnd (Bytes inp)) = Inr b"
    and "p256_correct X" "codecs_ok X cert" "signs_for X in_toto inp d"
    and "services_honest X rnd b policy cert ci (signed_data in_toto inp) (signed_payload in_toto inp)"
  shows "(\<exists>r. verifier_verify X clock root (Bytes d) b policy = Inr r) \<longleftrightarrow> services_evidence X clock root b policy ci"
proof (cases in_toto)
  case True
  with assms(4) obtain st where st: "de_statement X (of_bytes inp) = Inr st" "matches_sha256 st (hex_encode X (sha256 X d))"
    by (auto simp: signs_for_def split: sum.splits)
  have "length (sha256 X d) = 32" using assms(3) by (simp add: codecs_ok_def)
  with True assms show ?thesis
    by (intro raw_statement_verifies [OF _ assms(2,3) st(1) _ st(2)]) (simp_all add: signed_data_def signed_payload_def)
next
  case False
  with assms show ?thesis
    by (intro sign_verifies [OF _ assms(2,3)]) (simp_all add: signs_for_def signed_data_def signed_payload_def)
qed

lemma verify_command_decides:
  assumes "\<not> starts_with artifact ''--''" "\<not> starts_with artifact ''sha256:''" "cli_read C s artifact = Inr d"
    and "trusted_root_from_json E (te_trusted_root_json E PublicGood) = Inr root"
    and "read_to_string X C s path = Inr t" "bundle_from_json J t = Inr b"
  shows "verify_bundle X clock J E C (verify_command path who issuer artifact) s = Inr ()
    \<longleftrightarrow> (\<exists>r. verifier_verify X clock root (Bytes d) b (certificate_policy who issuer) = Inr r)"
proof -
  have "r_success r" if "verifier_verify X clock root (Bytes d) b (certificate_policy who issuer) = Inr r" for r
    using that by (elim verifier_verify_Inr)
  then show ?thesis
    using assms
    by (auto simp: verify_bundle_def verify_command_args no_verify_args_def root_argument_def artifact_argument_def
        verify_def result_simps)
qed

lemma sign_then_verify:
  assumes made: "sign_made X E C net rnd now (sign_command in_toto token path input) s = Inr (p, b)"
    and run: "cli_main X clk J E C net rnd now (program # ''sign-bundle'' # sign_command in_toto token path input) s = (s', 0, out)"
    and laws: "cli_laws C X J" "serde_laws J" "p256_correct X" "codecs_ok X cert"
    and entries: "list_all entry_ok (tlog_entries (b_material b))"
    and names: "\<not> starts_with input ''--''" "\<not> starts_with artifact ''--''" "\<not> starts_with artifact ''sha256:''"
    and data: "cli_read C s input = Inr inp" "cli_read C s' artifact = Inr d" "signs_for X in_toto inp d"
    and root: "trusted_root_from_json E (te_trusted_root_json E PublicGood) = Inr root"
    and honest: "services_honest X rnd b (certificate_policy who issuer) cert ci (signed_data in_toto inp)
      (signed_payload in_toto inp)"
  shows "verify_bundle X clock J E C (verify_command path who issuer artifact) s' = Inr ()
    \<longleftrightarrow> services_evidence X clock root b (certificate_policy who issuer) ci"
proof -
  from sign_command_made [OF made names(1)] data(1) obtain config tok
    where sig: "(if in_toto then sign_raw_statement X net (signer_of config tok) rnd inp
      else sign X net (signer_of config tok) rnd (Bytes inp)) = Inr b" and p: "p = path" by fastforce
  from laws(4) have "length (sha256 X inp) = 32" by (simp add: codecs_ok_def)
  from signed_bundle_ok [OF sig this entries] have ok: "bundle_ok J b" .
  from run made p obtain t where t: "bundle_to_json_pretty J C b = Inr t" "cli_write C s path (as_bytes t) = (s', Inr ())"
    by (elim cli_sign_zero) (auto simp: sign_output_def result_simps)
  from verify_command_decides [OF names(2,3) data(2) root written_bundle_read [OF laws(1,2) ok t]]
    command_verifies [OF sig laws(3,4) data(3) honest]
  show ?thesis by simp
qed

subsection \<open>A sample run\<close>

text \<open>
  The signer of Sign_Correct as a command line: the file \<open>a\<close> is signed into \<open>b\<close>, and verified with
  the root the program embeds.  JSON is that of Bundle_Json, with the one document of the bundle.
\<close>

definition sample_endpoint :: "string \<Rightarrow> nat \<Rightarrow> service_endpoint" where
  "sample_endpoint url v = \<lparr>se_url = url, se_major_api_version = v,
     se_valid_for = \<lparr>sv_start = 0, sv_end = None\<rparr>, se_operator = None\<rparr>"

definition sample_services_config :: tuf_signing_config where
  "sample_services_config = \<lparr>tsc_media_type = SIGNING_CONFIG_MEDIA_TYPE, tsc_ca_urls = [sample_endpoint ''ca'' 1],
     tsc_oidc_urls = [], tsc_rekor_tlog_urls = [sample_endpoint ''log'' 2], tsc_tsa_urls = [sample_endpoint ''tsa'' 1],
     tsc_rekor_tlog_config = default_service_configuration, tsc_tsa_config = default_service_configuration\<rparr>"

definition sample_cli_trust :: "unit trust_env" where
  "sample_cli_trust = sample_env\<lparr>te_de_trusted_root := (\<lambda>s. Inr sample_trust),
     te_de_signing_config := (\<lambda>s. Inr sample_services_config)\<rparr>"

definition sample_cli_document :: json where
  "sample_cli_document = bundle_ser (sample_serde JNull) sample_bundle"

definition sample_json :: serde_externals where
  "sample_json = sample_serde sample_cli_document"

definition sample_cli :: "(string \<Rightarrow> bytes option) cli_env" where
  "sample_cli = \<lparr>cli_read = (\<lambda>fs path. ok_or ''not found'' (fs path)),
     cli_write = (\<lambda>fs path bs. (fs(path \<mapsto> bs), Inr ())), cli_pretty = json_write sample_json\<rparr>"

definition sample_files :: "string \<Rightarrow> bytes option" where
  "sample_files = [''a'' \<mapsto> [1, 2]]"

lemma sample_cli_laws: "cli_laws sample_cli sample_signer sample_json"
  by (auto simp: cli_laws_def sample_cli_def sample_signer_fields sample_json_def sample_serde_def externals.defs
      split: if_splits)

lemma sample_json_laws: "serde_laws sample_json"
  by (simp add: sample_json_def sample_serde_laws)

lemma sample_bundle_entries: "list_all entry_ok (tlog_entries (b_material sample_bundle))"
  using sample_texts_11
  by (simp add: sample_bundle_def sample_entry_def entry_ok_def proof_ok_def hash_ok_def is_i64_def)

lemma sample_bundle_written: "bundle_to_json_pretty sample_json sample_cli sample_bundle = Inr []"
proof -
  have "bundle_ser sample_json sample_bundle = sample_cli_document"
    unfolding sample_json_def sample_cli_document_def
    by (simp add: sample_serde_def bundle_ser_def material_ser_def entry_ser_def
      proof_ser_def newtype_ser_def sha256_ser_def certificate_ser_def message_signature_ser_def sample_bundle_def
      sample_entry_def message_digest_ser_def digest_bytes_ser_def timestamp_data_ser_def timestamp_ser_def skip_if_def to_base64_def
      externals.defs promise_ser_def ser_list_def opt_member_def)
  then show ?thesis
    by (simp add: bundle_to_json_pretty_def sample_cli_def sample_json_def sample_serde_def externals.defs)
qed

lemma sample_cli_token: "from_jwt sample_signer ''a.b.c'' = Inr sample_token"
  by code_simp

lemma sample_cli_config:
  "signer_config sample_signer sample_cli_trust sample_cli (\<lambda>e. 100) sample_files
     (no_sign_args\<lparr>sa_identity_token := Some t, sa_bundle_path := Some p, sa_artifact_path := Some f,
       sa_in_toto := False\<rparr>)
   = Inr \<lparr>cfg_fulcio_url = ''ca'', cfg_rekor_url = ''log'', cfg_tsa_url = Some ''tsa'',
       cfg_signing_scheme = EcdsaP256Sha256, cfg_rekor_api_version = V2, cfg_oidc_url = None\<rparr>"
proof -
  have "from_tuf_config (\<lambda>e. 100) sample_services_config =
     Inr \<lparr>cfg_fulcio_url = ''ca'', cfg_rekor_url = ''log'', cfg_tsa_url = Some ''tsa'',
       cfg_signing_scheme = EcdsaP256Sha256, cfg_rekor_api_version = V2, cfg_oidc_url = None\<rparr>"
    by code_simp
  then show ?thesis
    by (simp add: signer_config_def no_sign_args_def embedded_config_def signing_config_from_json_def
        sample_cli_trust_def) (simp add: sample_services_config_def)
qed

lemma sample_cli_made:
  "sign_made sample_signer sample_cli_trust sample_cli (sample_net [6, 2]) sample_draws (\<lambda>e. 100)
     (sign_command False ''a.b.c'' ''b'' ''a'') sample_files = Inr (''b'', sample_bundle)"
proof -
  have "\<not> starts_with ''a'' ''--''" by code_simp
  note args = sign_command_args [OF this]
  have "signer_of \<lparr>cfg_fulcio_url = ''ca'', cfg_rekor_url = ''log'', cfg_tsa_url = Some ''tsa'',
       cfg_signing_scheme = EcdsaP256Sha256, cfg_rekor_api_version = V2, cfg_oidc_url = None\<rparr> sample_token
     = sample_signer_config"
    by (simp add: signer_of_def sample_signer_config_def)
  then show ?thesis
    unfolding sign_made_def args
    by (simp add: sample_cli_config sample_cli_token sample_signs)
      (simp add: sample_cli_def sample_files_def no_sign_args_def sample_signs)
qed

lemma sample_cli_signs:
  "cli_main sample_signer sample_clock sample_json sample_cli_trust sample_cli (sample_net [6, 2]) sample_draws (\<lambda>e. 100)
     (''p'' # ''sign-bundle'' # sign_command False ''a.b.c'' ''b'' ''a'') sample_files
   = (sample_files(''b'' \<mapsto> []), 0, [''Operation succeeded!''])"
  using sample_cli_made sample_bundle_written
  by (simp add: cli_main_def sign_bundle_def sign_output_def) (simp add: sample_cli_def)

text \<open>The evidence in the bundle of the sample, under the policy of the command line.\<close>

lemma sample_cli_policy: "certificate_policy ''me'' ''idp'' = sample_policy"
  by (simp add: certificate_policy_def require_identity_def sample_policy_def policy_with_identity_def)

lemma sample_signer_sct_1: "get_issuer_spki sample_signer 100 (Certificate [6]) [6] sample_trust = Inr [4]"
  by code_simp
lemma sample_signer_sct_2: "x509_from_der sample_signer [6] = Inr (sample_certificate [6])"
  by code_simp
lemma sample_signer_sct_3: "extract_sct sample_signer (sample_certificate [6]) [4] = Inr (sample_sct, fill32 [4])"
  by code_simp
lemma sample_signer_sct_4: "ctfe_keys_with_ids sample_signer 100 sample_trust = Inr [(fill32 [9], [9])]"
  by code_simp
lemma sample_signer_sct_5: "from_embedded_sct sample_signer (sample_certificate [6]) sample_sct (fill32 [4])
    = Inr \<lparr>dsn_type = CertificateTimestamp, dsn_timestamp = 99, dsn_entry = PrecertEntry (fill32 [4]) [6],
        dsn_extensions = [], dsn_log_id = fill32 [9], dsn_signature = [9, 50]\<rparr>"
  by code_simp
lemma sample_signer_sct_6: "sct_scheme (word_cat (sct_hash_alg sample_sct) (sct_sig_alg sample_sct)) = Some EcdsaP256Sha256"
  by code_simp

lemmas sample_signer_sct_steps = sample_signer_sct_1 sample_signer_sct_2 sample_signer_sct_3 sample_signer_sct_4
  sample_signer_sct_5 sample_signer_sct_6

lemma sample_signer_sct: "verify_sct_of sample_signer 100 100 (Certificate [6]) sample_trust = Inr ()"
proof -
  let ?d = "\<lparr>dsn_type = CertificateTimestamp, dsn_timestamp = 99, dsn_entry = PrecertEntry (fill32 [4]) [6],
     dsn_extensions = [], dsn_log_id = fill32 [9], dsn_signature = [9, 50]\<rparr>"
  obtain data where data: "tls_serialize sample_signer ?d = Inr data"
    by (simp add: tls_serialize_def tls_vec_def)
  then have "length data = 50" by (auto simp: tls_serialize_def tls_vec_def fill32_def)
  then have "verify_signature sample_signer [9] data [9, 50] EcdsaP256Sha256 = Inr ()"
    by (simp add: verify_signature_def from_spki_def vk_verify_def sample_signer_fields)
  moreover have "sct_log_id sample_sct = fill32 [9]" "sct_signature sample_sct = [9, 50]"
    by (simp_all add: sample_sct_def)
  ultimately show ?thesis
    using data by (simp add: verify_sct_of_def sct_verify_def sample_signer_sct_steps extract_certificate_def dsn_verify_def)
qed

lemma sample_signer_loop:
  "checkpoint_loop sample_signer (sample_parsed ''1'' 1) [(as_bytes ''reko'', [8])] (cp_signatures (sample_parsed ''1'' 1)) = Inr ()"
  by code_simp

lemma sample_signer_keys: "rekor_keys_with_hints sample_signer 100 sample_trust = Inr [(as_bytes ''reko'', [8])]"
  by code_simp

lemma sample_signer_entry: "verify_entry_inclusion sample_signer 100 100 (sample_entry ''1'') sample_trust = Inr ()"
proof -
  have "verify_checkpoint sample_signer 100 (sample_envelope ''1'') (sample_proof ''1'') sample_trust = Inr ()"
    using sample_signer_loop sample_signer_keys
    by (simp add: verify_checkpoint_def sample_signer_envelope) (simp add: sample_parsed_def)
  moreover have "hash_leaf sample_signer (as_bytes ''body'') = sample_root_hash"
    "verify_inclusion_proof sample_signer h 0 1 [] h = Inr ()" for h
    by (simp_all add: hash_leaf_def sample_signer_fields sample_root_hash_def LEAF_HASH_PREFIX_def
        verify_inclusion_proof_def expected_inclusion_proof_length_def)
  ultimately show ?thesis
    by (simp add: verify_entry_inclusion_def verify_merkle_inclusion_def sample_entry_def sample_inclusion)
qed

lemma sample_signer_time: "validate_integrated_time sample_signer (sample_entry ''1'') sample_bundle = Inr ()"
  by (simp add: validate_integrated_time_def sample_entry_def split: option.split)

lemma sample_full_evidence:
  "services_evidence sample_signer sample_clock sample_trust sample_bundle (certificate_policy ''me'' ''idp'') sample_info"
proof -
  have policy: "p_verify_tlog sample_policy" "p_verify_certificate sample_policy" "p_verify_sct sample_policy"
    "p_identity sample_policy = Some ''me''" "p_issuer sample_policy = Some ''idp''" "p_clock_skew_seconds sample_policy = 60"
    "p_verify_certificate sample_lax_policy"
    by (simp_all add: sample_lax_policy_def skip_tlog_def skip_sct_def sample_policy_def require_issuer_def
        policy_with_identity_def default_policy_def DEFAULT_CLOCK_SKEW_SECONDS_def)
  have fields: "vm_content (b_material sample_bundle) = Certificate [6]"
    "tlog_entries (b_material sample_bundle) = [sample_entry ''1'']"
    by (simp_all add: sample_bundle_def)
  have "validate_bundle_with_options sample_signer sample_bundle
      \<lparr>require_inclusion_proof = True, require_timestamp = False\<rparr> = Inr ()"
    by (subst sample_made_valid) (simp_all add: sample_bundle_def)
  moreover have "verify_tlog_entries sample_signer sample_clock sample_bundle sample_trust 50 200 60 = Inr None"
    using sample_signer_entry by (simp add: verify_tlog_entries_def sample_bundle_def sample_entry_def)
  ultimately show ?thesis
    using sample_evidence sample_signer_sct sample_signer_time
    by (simp add: services_evidence_def sample_cli_policy policy fields)
qed

lemma sample_cli_honest:
  "services_honest sample_signer sample_draws sample_bundle (certificate_policy ''me'' ''idp'') [6] sample_info
     (signed_data False [1, 2]) (signed_payload False [1, 2])"
  using sample_honest by (simp add: sample_cli_policy signed_data_def signed_payload_def)

lemma sample_cli_signs_for: "signs_for sample_signer False [1, 2] [1, 2]"
  by (simp add: signs_for_def)

lemma sample_cli_root:
  "trusted_root_from_json sample_cli_trust (te_trusted_root_json sample_cli_trust PublicGood) = Inr sample_trust"
  by (simp add: trusted_root_from_json_def sample_cli_trust_def)

lemma sample_cli_files:
  "cli_read sample_cli sample_files ''a'' = Inr [1, 2]" "cli_read sample_cli (sample_files(''b'' \<mapsto> [])) ''a'' = Inr [1, 2]"
  by (simp_all add: sample_cli_def sample_files_def)

lemma sample_names: "\<not> starts_with ''a'' ''--''" "\<not> starts_with ''a'' ''sha256:''"
  by code_simp+

lemma sample_cli_verifies:
  "verify_bundle sample_signer sample_clock sample_json sample_cli_trust sample_cli
     (verify_command ''b'' ''me'' ''idp'' ''a'') (sample_files(''b'' \<mapsto> [])) = Inr ()"
  using sign_then_verify [OF sample_cli_made sample_cli_signs sample_cli_laws sample_json_laws sample_p256_correct
      sample_codecs sample_bundle_entries sample_names(1) sample_names sample_cli_files sample_cli_signs_for sample_cli_root
      sample_cli_honest]
    sample_full_evidence by blast

subsection \<open>Properties\<close>

text \<open>C16: the exit code of \<open>verify-bundle\<close> can be relied on.  When it is 0, no file changed and the bundle
  file parses to a bundle that is a signature of the artifact given, as bytes or as a digest: with
  the key of the key file, or with the certificate of the bundle, whose identity and issuer are
  those of the options; and the log entries of the bundle record it.\<close>

theorem cli_accepts_verified:
  assumes "cli_main X clock J E C net rnd now (program # ''verify-bundle'' # args) s = (s', 0, out)"
  shows "s' = s \<and> (\<exists>a path json b root artifact. parse_verify_args args = Inr a \<and> va_bundle_path a = Some path
     \<and> read_to_string X C s path = Inr json \<and> bundle_from_json J json = Inr b \<and> root_argument X E C s a = Inr root
     \<and> artifact_argument X C s (the (va_artifact_or_digest a)) = Inr artifact
     \<and> signed_for X C s a b artifact \<and> verify_tlog_consistency X b artifact = Inr ())"
proof -
  from assms have "verify_bundle X clock J E C args s = Inr ()"
    using cli_verify_zero [of X clock J E C net rnd now program args s] by simp
  then obtain a path json b root artifact where "parse_verify_args args = Inr a" "va_bundle_path a = Some path"
    "root_argument X E C s a = Inr root" "read_to_string X C s path = Inr json" "bundle_from_json J json = Inr b"
    "artifact_argument X C s (the (va_artifact_or_digest a)) = Inr artifact"
    "signed_for X C s a b artifact" "verify_tlog_consistency X b artifact = Inr ()"
    by (rule verify_bundle_cases)
  moreover from assms have "s' = s" by (simp add: cli_main_def)
  ultimately show ?thesis by blast
qed

text \<open>C22: what \<open>sign-bundle\<close> writes, \<open>verify-bundle\<close> accepts.  Let files be read as they are written, JSON be
  read as it is written, P-256 signatures and the codecs do what they promise, and the authority and
  the log have served the signing: the certificate is for its key, and the entry records what it
  signed.  Then a \<open>verify-bundle\<close> of the written file, for an artifact the signing is for, ends with exit
  code 0 exactly when the services' evidence in the bundle holds.  The artifact is the file signed or,
  with \<open>--in-toto\<close>, one that the statement signed names by its SHA-256 digest.\<close>

theorem cli_signed_verifies:
  assumes "sign_made X E C net rnd now (sign_command in_toto token path input) s = Inr (p, b)"
    and "cli_main X clk J E C net rnd now (program # ''sign-bundle'' # sign_command in_toto token path input) s = (s', 0, out)"
    and "cli_laws C X J" "serde_laws J" "p256_correct X" "codecs_ok X cert"
    and "list_all entry_ok (tlog_entries (b_material b))"
    and "\<not> starts_with input ''--''" "\<not> starts_with artifact ''--''" "\<not> starts_with artifact ''sha256:''"
    and "cli_read C s input = Inr inp" "cli_read C s' artifact = Inr d" "signs_for X in_toto inp d"
    and "trusted_root_from_json E (te_trusted_root_json E PublicGood) = Inr root"
    and "services_honest X rnd b (certificate_policy who issuer) cert ci (signed_data in_toto inp)
      (signed_payload in_toto inp)"
  shows "fst (snd (cli_main X clock J E C net' rnd' now'
       (program # ''verify-bundle'' # verify_command path who issuer artifact) s')) = 0
    \<longleftrightarrow> services_evidence X clock root b (certificate_policy who issuer) ci"
  unfolding cli_verify_zero using assms by (rule sign_then_verify)

theorem cli_signed_verifies_witness:
  "fst (snd (cli_main sample_signer sample_clock sample_json sample_cli_trust sample_cli (sample_net [6, 2]) sample_draws
     (\<lambda>e. 100) (''p'' # ''verify-bundle'' # verify_command ''b'' ''me'' ''idp'' ''a'') (sample_files(''b'' \<mapsto> [])))) = 0"
  using cli_signed_verifies [OF sample_cli_made sample_cli_signs sample_cli_laws sample_json_laws sample_p256_correct
      sample_codecs sample_bundle_entries sample_names(1) sample_names sample_cli_files sample_cli_signs_for sample_cli_root
      sample_cli_honest]
    sample_full_evidence by blast

theorem cli_accepts_verified_witness:
  "\<exists>b. bundle_from_json sample_json [] = Inr b
     \<and> signed_for sample_signer sample_cli (sample_files(''b'' \<mapsto> [])) (no_verify_args
         \<lparr>va_bundle_path := Some ''b'', va_certificate_identity := Some ''me'',
          va_certificate_oidc_issuer := Some ''idp'', va_artifact_or_digest := Some ''a''\<rparr>) b (Bytes [1, 2])"
proof -
  let ?fs = "sample_files(''b'' \<mapsto> [])"
  have run: "cli_main sample_signer sample_clock sample_json sample_cli_trust sample_cli (sample_net [6, 2]) sample_draws
     (\<lambda>e. 100) (''p'' # ''verify-bundle'' # verify_command ''b'' ''me'' ''idp'' ''a'') ?fs
     = (?fs, 0, [''Operation succeeded!''])"
    using sample_cli_verifies by (simp add: cli_main_def)
  have "artifact_argument sample_signer sample_cli ?fs ''a'' = Inr (Bytes [1, 2])"
    using sample_cli_files(2) by (simp add: artifact_argument_def sample_names)
  moreover have "read_to_string sample_signer sample_cli ?fs ''b'' = Inr []"
    by (simp add: read_to_string_def sample_cli_def from_utf8_def sample_signer_fields of_bytes_def)
  ultimately show ?thesis
    using cli_accepts_verified [OF run] by (auto simp: verify_command_args sample_names no_verify_args_def)
qed
end
