(* ===== verification/Tuf_Conformance.thy ===== *)
theory Tuf_Conformance
  imports Trust_Fetch
begin

text \<open>
  The client that the TUF conformance suite drives (sigstore-tuf, examples/conformance\_client.rs):
  its store of trusted metadata, its options, and the commands that pin a root, refresh the metadata
  and download a target, over the updater of \<open>Updater\<close> and the HTTP repository of \<open>Tuf_Store\<close>.

  The state is the network and the file system.  A path given as an option is resolved by
  \<open>ce_resolve\<close>; a failed write leaves the file as it is.  The result is \<open>None\<close> where the loop that
  adopts stored roots does not end.
\<close>

subsection \<open>The store\<close>

definition stem_is_version :: "string \<Rightarrow> bool" where
  "stem_is_version nm =
     (let stem = (case split_on CHR ''.'' nm of [] \<Rightarrow> [] | s # _ \<Rightarrow> s) in stem \<noteq> [] \<and> list_all is_digit stem)"

definition conf_load :: "path \<Rightarrow> file_system \<Rightarrow> string \<Rightarrow> bytes option" where
  "conf_load dir fs nm = files fs (join_path dir nm)"

definition conf_store :: "path \<Rightarrow> file_system \<Rightarrow> string \<Rightarrow> bytes \<Rightarrow> file_system \<times> (unit, tuf_error) result" where
  "conf_store dir fs nm bs =
     (if CHR ''/'' \<in> set nm then (fs, Inr ())
      else if stem_is_version nm then (fs, Inr ())
      else
        (case write_error fs (join_path dir nm) of
           Some e \<Rightarrow> (fs, Inl (Transport (''cache write '' @ nm @ '': '' @ e)))
         | None \<Rightarrow> (fs\<lparr>files := (files fs)(join_path dir nm \<mapsto> bs)\<rparr>, Inr ())))"

subsection \<open>Options\<close>

record client_args =
  ca_metadata_dir :: "string option"
  ca_metadata_url :: "string option"
  ca_target_name :: "string option"
  ca_target_dir :: "string option"
  ca_target_base_url :: "string option"
  ca_positionals :: "string list"

definition no_client_args :: client_args where
  "no_client_args = \<lparr>ca_metadata_dir = None, ca_metadata_url = None, ca_target_name = None, ca_target_dir = None,
     ca_target_base_url = None, ca_positionals = []\<rparr>"

definition client_options :: "(string \<times> (string \<Rightarrow> client_args \<Rightarrow> client_args)) list" where
  "client_options =
     [(''--metadata-dir'', \<lambda>v a. a\<lparr>ca_metadata_dir := Some v\<rparr>),
      (''--metadata-url'', \<lambda>v a. a\<lparr>ca_metadata_url := Some v\<rparr>),
      (''--target-name'', \<lambda>v a. a\<lparr>ca_target_name := Some v\<rparr>),
      (''--target-dir'', \<lambda>v a. a\<lparr>ca_target_dir := Some v\<rparr>),
      (''--target-base-url'', \<lambda>v a. a\<lparr>ca_target_base_url := Some v\<rparr>)]"

fun parse_client_args :: "string list \<Rightarrow> client_args \<Rightarrow> (client_args, string) result" where
  "parse_client_args [] a = Inr a"
| "parse_client_args (tok # it) a =
     (case map_of client_options tok of
        Some put \<Rightarrow>
          (case it of
             [] \<Rightarrow> Inl (''missing value for '' @ tok)
           | v # it' \<Rightarrow> parse_client_args it' (put v a))
      | None \<Rightarrow>
          if tok = ''-v'' \<or> tok = ''--verbose'' then parse_client_args it a
          else if starts_with tok ''-'' then Inl (''unknown flag '' @ tok)
          else parse_client_args it (a\<lparr>ca_positionals := ca_positionals a @ [tok]\<rparr>))"

subsection \<open>Environment\<close>

record 'n client_env =
  ce_http :: "'n http_client"
  ce_resolve :: "string \<Rightarrow> path"
  ce_read_error :: "path \<Rightarrow> string"

definition read_file :: "'n client_env \<Rightarrow> file_system \<Rightarrow> path \<Rightarrow> (bytes, string) result" where
  "read_file E fs p = ok_or (ce_read_error E p) (files fs p)"

definition write_file :: "file_system \<Rightarrow> path \<Rightarrow> bytes \<Rightarrow> file_system \<times> (unit, string) result" where
  "write_file fs p bs =
     (case write_error fs p of
        Some e \<Rightarrow> (fs, Inl e)
      | None \<Rightarrow> (fs\<lparr>files := (files fs)(p \<mapsto> bs)\<rparr>, Inr ()))"

definition metadata_dir :: "'n client_env \<Rightarrow> client_args \<Rightarrow> (path, tuf_error) result" where
  "metadata_dir E a = ok_or (Transport ''--metadata-dir is required'') (map_option (ce_resolve E) (ca_metadata_dir a))"

subsection \<open>The commands\<close>

definition cmd_init :: "'z tuf_externals_scheme \<Rightarrow> 'n client_env \<Rightarrow> client_args \<Rightarrow> file_system
    \<Rightarrow> file_system \<times> (unit, tuf_error) result" where
  "cmd_init X E a fs =
     (case and_then (metadata_dir E a) (\<lambda>dir.
         and_then (ok_or (Transport ''init requires a trusted root path'')
           (if 1 < length (ca_positionals a) then Some (ca_positionals a ! 1) else None)) (\<lambda>trusted_root.
         and_then (map_err (\<lambda>e. Transport (''reading trusted root: '' @ e))
           (read_file E fs (ce_resolve E trusted_root))) (\<lambda>bs.
         and_then (from_root X bs) (\<lambda>_. Inr (dir, bs))))) of
        Inl e \<Rightarrow> (fs, Inl e)
      | Inr (dir, bs) \<Rightarrow>
          (case write_file fs (join_path dir ''root.json'') bs of
             (fs', r) \<Rightarrow> (fs', map_err (\<lambda>e. Transport (''writing root.json: '' @ e)) r)))"

definition client_services :: "'n client_env \<Rightarrow> http_repository \<Rightarrow> path \<Rightarrow> ('n, file_system) services" where
  "client_services E h dir = \<lparr>fetch_metadata_of = http_fetch_metadata (ce_http E) h,
     fetch_target_of = http_fetch_target (ce_http E) h, load_of = conf_load dir, store_of = conf_store dir\<rparr>"

text \<open>\<open>build_updater\<close>, up to the store.\<close>

definition open_client :: "'z tuf_externals_scheme \<Rightarrow> 'n client_env \<Rightarrow> client_args \<Rightarrow> 'n \<Rightarrow> file_system
    \<Rightarrow> ('n updater_session, tuf_error) result" where
  "open_client X E a net fs =
     and_then (metadata_dir E a) (\<lambda>dir.
     and_then (ok_or (Transport ''--metadata-url is required'') (ca_metadata_url a)) (\<lambda>url.
     and_then (map_err (\<lambda>e. Transport (''no trusted root in metadata dir: '' @ e))
       (read_file E fs (join_path dir ''root.json''))) (\<lambda>root.
     and_then (http_new (ce_http E) url) (\<lambda>rp.
     and_then (case ca_target_base_url a of
         Some target_base \<Rightarrow> with_targets_base (ce_http E) rp target_base
       | None \<Rightarrow> Inr rp) (\<lambda>rp.
     and_then (new_updater X net root) (\<lambda>u.
     Inr (client_services E rp dir, u)))))))"

definition client_updater :: "'z tuf_externals_scheme \<Rightarrow> 'n client_env \<Rightarrow> client_args \<Rightarrow> 'n \<Rightarrow> file_system
    \<Rightarrow> ('n updater_session, tuf_error) result option" where
  "client_updater X E a net fs =
     (case open_client X E a net fs of
        Inl e \<Rightarrow> Some (Inl e)
      | Inr (V, u) \<Rightarrow> map_option (\<lambda>u. Inr (V, u)) (with_store X V u fs))"

definition cmd_refresh :: "'z tuf_externals_scheme \<Rightarrow> 'n client_env \<Rightarrow> timestamp \<Rightarrow> client_args \<Rightarrow> 'n \<times> file_system
    \<Rightarrow> (('n \<times> file_system) \<times> (unit, tuf_error) result) option" where
  "cmd_refresh X E now a st =
     map_option (\<lambda>opened.
       case opened of
         Inl e \<Rightarrow> (st, Inl e)
       | Inr (V, u) \<Rightarrow> (case refresh X V now u of (u', r) \<Rightarrow> (session_state (snd st) u', r)))
       (client_updater X E a (fst st) (snd st))"

definition target_bytes_match :: "'z externals_scheme \<Rightarrow> bytes \<Rightarrow> target_file \<Rightarrow> bool" where
  "target_bytes_match X bs info =
     (if length bs \<noteq> unat (tf_length info) then False
      else list_ex (\<lambda>(algo, wanted).
        if algo = ''sha256'' then eq_ignore_ascii_case (hex_encode X (sha256 X bs)) wanted
        else if algo = ''sha512'' then eq_ignore_ascii_case (hex_encode X (sha512 X bs)) wanted
        else False) (tf_hashes info))"

text \<open>\<open>Path::file_name\<close> is the last component, unless that is \<open>..\<close>.\<close>

definition safe_target_filename :: "string \<Rightarrow> path" where
  "safe_target_filename target_name =
     (let rel = components (dropWhile (\<lambda>c. c = CHR ''/'') target_name) in
      if ''..'' \<in> set rel then (if last rel \<noteq> ''..'' then [last rel] else rel)
      else rel)"

text \<open>The end of \<open>download\<close>: the parent directory and the file.\<close>

definition write_target :: "file_system \<Rightarrow> path \<Rightarrow> bytes \<Rightarrow> file_system \<times> (unit, tuf_error) result" where
  "write_target fs out bs =
     (case (if out = [] then None else mkdir_error fs out) of
        Some e \<Rightarrow> (fs, Inl (Transport (''creating target dir: '' @ e)))
      | None \<Rightarrow>
          (case write_file fs out bs of
             (fs', r) \<Rightarrow> (fs', map_err (\<lambda>e. Transport (''writing target: '' @ e)) r)))"

definition resolve_target :: "'z tuf_externals_scheme \<Rightarrow> ('n, file_system) services \<Rightarrow> timestamp \<Rightarrow> string
    \<Rightarrow> ('n, file_system, target_file) updating" where
  "resolve_target X V now target_name =
     bindS (refresh X V now) (\<lambda>_.
     bindS (get_targetinfo X V target_name now) (\<lambda>found.
     liftS (ok_or (Malformed (''unknown target '' @ debug_str target_name)) found)))"

definition download_to :: "'z tuf_externals_scheme \<Rightarrow> file_system \<Rightarrow> timestamp \<Rightarrow> string \<Rightarrow> path
    \<Rightarrow> 'n updater_session \<Rightarrow> ('n \<times> file_system) \<times> (unit, tuf_error) result" where
  "download_to X fs now target_name target_dir su =
     (case resolve_target X (fst su) now target_name (snd su) of
        (u1, Inl e) \<Rightarrow> (session_state fs u1, Inl e)
      | (u1, Inr info) \<Rightarrow>
          (let out = target_dir @ safe_target_filename target_name in
           if (case files (snd (session_state fs u1)) out of
                 Some existing \<Rightarrow> target_bytes_match X existing info
               | None \<Rightarrow> False)
           then (session_state fs u1, Inr ())
           else
             (case download_target X (fst su) info target_name u1 of
                (u2, Inl e) \<Rightarrow> (session_state fs u2, Inl e)
              | (u2, Inr bs) \<Rightarrow>
                  (case write_target (snd (session_state fs u2)) out bs of
                     (fs', r) \<Rightarrow> ((fst (session_state fs u2), fs'), r)))))"

definition cmd_download :: "'z tuf_externals_scheme \<Rightarrow> 'n client_env \<Rightarrow> timestamp \<Rightarrow> client_args \<Rightarrow> 'n \<times> file_system
    \<Rightarrow> (('n \<times> file_system) \<times> (unit, tuf_error) result) option" where
  "cmd_download X E now a st =
     (case (ca_target_name a, ca_target_dir a) of
        (None, _) \<Rightarrow> Some (st, Inl (Transport ''--target-name is required''))
      | (Some _, None) \<Rightarrow> Some (st, Inl (Transport ''--target-dir is required''))
      | (Some target_name, Some target_dir) \<Rightarrow>
          map_option (\<lambda>opened.
            case opened of
              Inl e \<Rightarrow> (st, Inl e)
            | Inr su \<Rightarrow> download_to X (snd st) now target_name (ce_resolve E target_dir) su)
            (client_updater X E a (fst st) (snd st)))"

definition debug_option :: "string option \<Rightarrow> string" where
  "debug_option x = (case x of None \<Rightarrow> ''None'' | Some s \<Rightarrow> ''Some('' @ debug_str s @ '')'')"

definition run_command :: "'z tuf_externals_scheme \<Rightarrow> 'n client_env \<Rightarrow> timestamp \<Rightarrow> client_args \<Rightarrow> 'n \<times> file_system
    \<Rightarrow> (('n \<times> file_system) \<times> (unit, tuf_error) result) option" where
  "run_command X E now a st =
     (let command = (case ca_positionals a of [] \<Rightarrow> None | c # _ \<Rightarrow> Some c) in
      if command = Some ''init'' then
        Some (case cmd_init X E a (snd st) of (fs', r) \<Rightarrow> ((fst st, fs'), r))
      else if command = Some ''refresh'' then cmd_refresh X E now a st
      else if command = Some ''download'' then cmd_download X E now a st
      else Some (st, Inl (Transport (''expected subcommand init|refresh|download, got '' @ debug_option command))))"

text \<open>\<open>main\<close>: the state, the exit code, and the line on the standard error; \<open>argv\<close> is without the program.\<close>

definition client_main :: "'z tuf_externals_scheme \<Rightarrow> 'n client_env \<Rightarrow> timestamp \<Rightarrow> string list \<Rightarrow> 'n \<times> file_system
    \<Rightarrow> (('n \<times> file_system) \<times> nat \<times> string list) option" where
  "client_main X E now argv st =
     (case parse_client_args argv no_client_args of
        Inl e \<Rightarrow> Some (st, 1, [''conformance_client: '' @ e])
      | Inr a \<Rightarrow>
          map_option (\<lambda>(st', r). (st',
            case r of Inr _ \<Rightarrow> (0, []) | Inl e \<Rightarrow> (1, [''conformance_client: '' @ fmt_tuf_error e])))
            (run_command X E now a st))"

subsection \<open>What a command that succeeds has done\<close>

lemma write_file_Inr: "write_file fs p bs = (fs', Inr u) \<Longrightarrow> fs' = fs\<lparr>files := (files fs)(p \<mapsto> bs)\<rparr>"
  by (auto simp: write_file_def split: option.splits)

lemma write_target_Inr: "write_target fs out bs = (fs', Inr u) \<Longrightarrow> files fs' out = Some bs"
  by (auto simp: write_target_def result_simps split: option.splits prod.splits dest!: write_file_Inr)

text \<open>
  Of the digests of a target the cached file needs to match one, a downloaded one all that are
  supported; so what a download accepts, the check of the cached file accepts too.
\<close>

lemma target_bytes_ok_match: "target_bytes_ok X tf bs \<Longrightarrow> target_bytes_match X bs tf"
proof -
  assume ok: "target_bytes_ok X tf bs"
  then obtain algo h d where h: "(algo, h) \<in> set (tf_hashes tf)" "pinned_digest X bs algo = Some d"
    by (auto simp: target_bytes_ok_def)
  with ok have "eq_ignore_ascii_case d h" by (auto simp: target_bytes_ok_def)
  with ok h show ?thesis
    unfolding target_bytes_match_def list_ex_iff
    by (auto simp: target_bytes_ok_def pinned_digest_def intro!: bexI [of _ "(algo, h)"] split: if_splits)
qed

lemma resolve_target_listed:
  assumes "resolve_target X V now nm u = (u', Inr tf)"
  shows "\<exists>role tg. authorized X (u_trusted u') nm role \<and> targets_role (u_trusted u') role = Some tg
    \<and> tg_target tg nm = Some tf"
proof -
  from assms obtain u1 where "get_targetinfo X V nm now u1 = (u', Inr (Some tf))"
    unfolding resolve_target_def bindS_Inr_iff basic_Inr_iff ok_or_Inr_iff by blast
  then show ?thesis
    by (intro search_authorized) (auto simp: get_targetinfo_def intro: authorized.top split: if_splits)
qed

lemma keeps_resolve_target: "keeps (trust_ok X b) (resolve_target X V now nm)"
  unfolding resolve_target_def by (intro keeps_intros keeps_refresh keeps_get_targetinfo)

lemma client_updater_reach:
  assumes "client_updater X E a net fs = Some (Inr (V, u))"
  shows "\<exists>dir root. metadata_dir E a = Inr dir \<and> files fs (join_path dir ''root.json'') = Some root
    \<and> trusted_reach X root (u_trusted u)"
proof -
  from assms obtain u0 where open': "open_client X E a net fs = Inr (V, u0)" and st: "with_store X V u0 fs = Some u"
    by (auto simp: client_updater_def split: sum.splits)
  from open' obtain dir root where "metadata_dir E a = Inr dir" "files fs (join_path dir ''root.json'') = Some root"
    "new_updater X net root = Inr u0"
    by (auto simp: open_client_def result_simps read_file_def)
  moreover from new_updater_reach [OF this(3)] st have "trusted_reach X root (u_trusted u)"
    by (auto simp: with_store_def dest: adopt_roots_reach)
  ultimately show ?thesis by blast
qed

lemma download_to_Inr:
  assumes "download_to X fs now nm dir (V, u) = (st', Inr r)"
  obtains u' tf bs where "resolve_target X V now nm u = (u', Inr tf)"
    "files (snd st') (dir @ safe_target_filename nm) = Some bs" "target_bytes_match X bs tf"
proof -
  let ?out = "dir @ safe_target_filename nm"
  from assms obtain u1 tf where res: "resolve_target X V now nm u = (u1, Inr tf)"
    by (auto simp: download_to_def split: prod.splits sum.splits)
  show ?thesis
  proof (cases "case files (snd (session_state fs u1)) ?out of Some ex \<Rightarrow> target_bytes_match X ex tf | None \<Rightarrow> False")
    case True
    with assms res have "st' = session_state fs u1" by (simp add: download_to_def Let_def)
    with True res that show ?thesis by (auto split: option.splits)
  next
    case False
    from False assms res obtain u2 bs where d: "download_target X V tf nm u1 = (u2, Inr bs)"
      by (auto simp: download_to_def Let_def split: prod.splits sum.splits)
    with False assms res have "files (snd st') ?out = Some bs"
      by (auto simp: download_to_def Let_def split: prod.splits dest!: write_target_Inr)
    moreover from d have "target_bytes_match X bs tf"
      by (simp add: download_target_Inr target_bytes_ok_match)
    ultimately show ?thesis using res that by blast
  qed
qed

text \<open>Whether the file was downloaded or there already, it is the target of an authorized role.\<close>

lemma downloaded_file_authentic:
  assumes "cmd_download X E now a st = Some (st', Inr r)" "ca_target_name a = Some nm" "ca_target_dir a = Some dir"
  shows "\<exists>mdir root t bs role tg tf. metadata_dir E a = Inr mdir
    \<and> files (snd st) (join_path mdir ''root.json'') = Some root \<and> trusted_reach X root t
    \<and> authorized X t nm role \<and> targets_role t role = Some tg \<and> tg_target tg nm = Some tf
    \<and> files (snd st') (ce_resolve E dir @ safe_target_filename nm) = Some bs \<and> target_bytes_match X bs tf"
proof -
  from assms obtain V u where cu: "client_updater X E a (fst st) (snd st) = Some (Inr (V, u))"
    and d: "download_to X (snd st) now nm (ce_resolve E dir) (V, u) = (st', Inr r)"
  proof -
    from assms obtain opened where "client_updater X E a (fst st) (snd st) = Some opened"
      "(case opened of Inl e \<Rightarrow> (st, Inl e) | Inr su \<Rightarrow> download_to X (snd st) now nm (ce_resolve E dir) su) = (st', Inr r)"
      by (auto simp: cmd_download_def)
    with that show thesis by (cases opened) auto
  qed
  from client_updater_reach [OF cu] obtain mdir root where root: "metadata_dir E a = Inr mdir"
    "files (snd st) (join_path mdir ''root.json'') = Some root" and reach: "trusted_reach X root (u_trusted u)" by blast
  from d obtain u' tf bs where res: "resolve_target X V now nm u = (u', Inr tf)"
    and "files (snd st') (ce_resolve E dir @ safe_target_filename nm) = Some bs" "target_bytes_match X bs tf"
    by (rule download_to_Inr)
  moreover from keepsD [OF keeps_resolve_target _ res] reach have "trusted_reach X root (u_trusted u')"
    by (simp add: trust_ok_def)
  ultimately show ?thesis using root resolve_target_listed [OF res] by blast
qed

text \<open>
  The file is inside the target directory: no component is \<open>..\<close>, unless the last of the target's
  path is, which names a directory and cannot be written.
\<close>

lemma safe_target_filename_inside:
  assumes "''..'' \<in> set (safe_target_filename nm)"
  shows "last (safe_target_filename nm) = ''..''"
  using assms by (auto simp: safe_target_filename_def Let_def split: if_splits)

text \<open>The store keeps the metadata the suite inspects, and skips versioned names and targets.\<close>

lemma conf_store_keeps:
  assumes "conf_store dir fs nm bs = (fs', Inr r)" "CHR ''/'' \<notin> set nm" "\<not> stem_is_version nm"
  shows "conf_load dir fs' nm = Some bs"
  using assms by (auto simp: conf_store_def conf_load_def split: option.splits)

lemma conf_store_skips:
  "CHR ''/'' \<in> set nm \<or> stem_is_version nm \<Longrightarrow> conf_store dir fs nm bs = (fs, Inr ())"
  by (auto simp: conf_store_def)

lemma conf_store_root_history: "conf_store dir fs (root_history_name v) bs = (fs, Inr ())"
  by (rule conf_store_skips) (simp add: root_history_name_def)

lemma conf_store_frame:
  "conf_store dir fs nm bs = (fs', r) \<Longrightarrow> p \<noteq> join_path dir nm \<Longrightarrow> files fs' p = files fs p"
  by (auto simp: conf_store_def split: if_splits option.splits)

text \<open>
  The root history is not stored, so unless it was there before, a session starts from \<open>root.json\<close>
  alone: opening the client always ends.
\<close>

lemma client_opens:
  assumes "\<forall>dir v. metadata_dir E a = Inr dir \<longrightarrow> files fs (join_path dir (root_history_name v)) = None"
  shows "client_updater X E a net fs \<noteq> None"
proof (cases "open_client X E a net fs")
  case (Inr Vu)
  then obtain dir rp u where dir: "metadata_dir E a = Inr dir" and V: "Vu = (client_services E rp dir, u)"
    by (auto simp: open_client_def result_simps)
  from assms dir have "conf_load dir fs (root_history_name v) = None" for v by (simp add: conf_load_def)
  then have "with_store X (client_services E rp dir) u fs \<noteq> None"
    by (subst with_store_def, subst adopt_roots.simps) (simp add: client_services_def)
  with Inr V show ?thesis by (simp add: client_updater_def)
qed (simp add: client_updater_def)
end
