(* ===== verification/Embedded_Update.thy ===== *)
theory Embedded_Update
  imports Tuf_Conformance
begin

text \<open>
  The program that refreshes the trust material embedded in sigstore-trust-root
  (examples/update-embedded-roots.rs): for each instance it updates the metadata from the embedded
  root, with a file store in a temporary directory, reads the latest root from that store, and
  writes it and the targets over the embedded files.

  The updater and the program share the file system, which is the store of the updater; \<open>share_files\<close>
  gives the updater what the program wrote.  The temporary directory is removed at every exit.
\<close>

subsection \<open>The program\<close>

record tuf_instance =
  in_name :: string
  in_url :: string
  in_embedded_root :: bytes
  in_root_path :: string
  in_targets :: "(string \<times> string) list"

text \<open>The table of the instances; the roots are the embedded files.\<close>

definition INSTANCES :: "(sigstore_instance \<Rightarrow> bytes) \<Rightarrow> tuf_instance list" where
  "INSTANCES roots =
     [\<lparr>in_name = ''production'', in_url = DEFAULT_TUF_URL, in_embedded_root = roots PublicGood,
        in_root_path = ''repository/tuf_root.json'',
        in_targets = [(TRUSTED_ROOT_TARGET, ''src/trusted_root.json''),
          (SIGNING_CONFIG_TARGET, ''repository/signing_config.json'')]\<rparr>,
      \<lparr>in_name = ''staging'', in_url = STAGING_TUF_URL, in_embedded_root = roots Staging,
        in_root_path = ''repository/tuf_staging_root.json'',
        in_targets = [(TRUSTED_ROOT_TARGET, ''src/trusted_root_staging.json''),
          (SIGNING_CONFIG_TARGET, ''repository/signing_config_staging.json'')]\<rparr>,
      \<lparr>in_name = ''github'', in_url = GITHUB_TUF_URL, in_embedded_root = roots GitHub,
        in_root_path = ''repository/tuf_github_root.json'',
        in_targets = [(TRUSTED_ROOT_TARGET, ''src/trusted_root_github.json'')]\<rparr>]"

record 'n update_env = "'n client_env" +
  ue_temp_dir :: "(path, string) result"
  ue_crate_dir :: path

definition write_if_changed :: "file_system \<Rightarrow> path \<Rightarrow> bytes \<Rightarrow> file_system \<times> (bool, string) result" where
  "write_if_changed fs p bs =
     (if files fs p = Some bs then (fs, Inr False)
      else (case write_file fs p bs of (fs', r) \<Rightarrow> (fs', map_sum id (\<lambda>_. True) r)))"

definition share_files :: "file_system \<Rightarrow> ('n, file_system) updater \<Rightarrow> ('n, file_system) updater" where
  "share_files fs u = (case u_store u of None \<Rightarrow> u | Some _ \<Rightarrow> u\<lparr>u_store := Some fs\<rparr>)"

text \<open>The loop over the targets of an instance; \<open>fs\<close> is the file system if there is no store.\<close>

fun update_targets_loop ::
  "'z tuf_externals_scheme \<Rightarrow> path \<Rightarrow> timestamp \<Rightarrow> ('n, file_system) services \<Rightarrow> file_system \<Rightarrow> (string \<times> string) list
    \<Rightarrow> bool \<Rightarrow> ('n, file_system) updater \<Rightarrow> ('n, file_system) updater \<times> (bool, string) result" where
  "update_targets_loop X crate_dir now V fs [] changed u = (u, Inr changed)"
| "update_targets_loop X crate_dir now V fs ((target_name, embedded_path) # rest) changed u =
     (case get_target X V target_name now u of
        (u', Inl e) \<Rightarrow> (u', Inl (fmt_tuf_error e))
      | (u', Inr bs) \<Rightarrow>
          (case write_if_changed (snd (session_state fs u')) (join_path crate_dir embedded_path) bs of
             (fs', Inl e) \<Rightarrow> (share_files fs' u', Inl e)
           | (fs', Inr c) \<Rightarrow> update_targets_loop X crate_dir now V fs rest (changed \<or> c) (share_files fs' u')))"

text \<open>The latest root, read from the store and checked to bootstrap on its own.\<close>

definition latest_root :: "'z tuf_externals_scheme \<Rightarrow> ('n, 'y) update_env_scheme \<Rightarrow> tuf_instance \<Rightarrow> path \<Rightarrow> 'n \<times> file_system
    \<Rightarrow> (bytes, string) result" where
  "latest_root X E inst dir st =
     and_then (ok_or (ce_read_error E (dir @ [''root.json''])) (files (snd st) (dir @ [''root.json'']))) (\<lambda>latest.
     and_then (map_err fmt_tuf_error (http_new (ce_http E) (in_url inst))) (\<lambda>_.
     and_then (map_err (\<lambda>e. ''downloaded root.json failed verification: '' @ fmt_tuf_error e)
       (from_root X latest)) (\<lambda>_.
     Inr latest)))"

definition update_session :: "'z tuf_externals_scheme \<Rightarrow> ('n, 'y) update_env_scheme \<Rightarrow> timestamp \<Rightarrow> tuf_instance \<Rightarrow> path
    \<Rightarrow> file_system \<Rightarrow> 'n updater_session \<Rightarrow> ('n \<times> file_system) \<times> (bool, string) result" where
  "update_session X E now inst dir fs su =
     (case refresh X (fst su) now (snd su) of
        (u1, Inl e) \<Rightarrow> (session_state fs u1, Inl (fmt_tuf_error e))
      | (u1, Inr _) \<Rightarrow>
          (case latest_root X E inst dir (session_state fs u1) of
             Inl e \<Rightarrow> (session_state fs u1, Inl e)
           | Inr latest \<Rightarrow>
               (case write_if_changed (snd (session_state fs u1)) (join_path (ue_crate_dir E) (in_root_path inst)) latest of
                  (fs', Inl e) \<Rightarrow> (session_state fs (share_files fs' u1), Inl e)
                | (fs', Inr changed) \<Rightarrow>
                    (case update_targets_loop X (ue_crate_dir E) now (fst su) fs (in_targets inst) changed (share_files fs' u1) of
                       (u2, r) \<Rightarrow> (session_state fs u2, r)))))"

definition update_in :: "'z tuf_externals_scheme \<Rightarrow> ('n, 'y) update_env_scheme \<Rightarrow> timestamp \<Rightarrow> tuf_instance \<Rightarrow> path
    \<Rightarrow> 'n \<times> file_system \<Rightarrow> (('n \<times> file_system) \<times> (bool, string) result) option" where
  "update_in X E now inst dir st =
     (case and_then (map_err fmt_tuf_error (http_new (ce_http E) (in_url inst))) (\<lambda>rp.
         and_then (map_err fmt_tuf_error (new_updater X (fst st) (in_embedded_root inst))) (\<lambda>u. Inr (rp, u))) of
        Inl e \<Rightarrow> Some (st, Inl e)
      | Inr (rp, u) \<Rightarrow>
          (let V = file_services dir (http_fetch_metadata (ce_http E) rp) (http_fetch_target (ce_http E) rp) in
           map_option (\<lambda>u'. update_session X E now inst dir (snd st) (V, u')) (with_store X V u (snd st))))"

definition remove_tree :: "path \<Rightarrow> file_system \<Rightarrow> file_system" where
  "remove_tree dir fs = fs\<lparr>files := (\<lambda>p. if take (length dir) p = dir then None else files fs p)\<rparr>"

definition update_instance :: "'z tuf_externals_scheme \<Rightarrow> ('n, 'y) update_env_scheme \<Rightarrow> timestamp \<Rightarrow> tuf_instance
    \<Rightarrow> 'n \<times> file_system \<Rightarrow> (('n \<times> file_system) \<times> (bool, string) result) option" where
  "update_instance X E now inst st =
     (case ue_temp_dir E of
        Inl e \<Rightarrow> Some (st, Inl e)
      | Inr dir \<Rightarrow>
          map_option (\<lambda>(st', r). ((fst st', remove_tree dir (snd st')), r)) (update_in X E now inst dir st))"

text \<open>The loop of \<open>main\<close>, with the flags \<open>changed\<close> and \<open>failed\<close>; each instance reads the clock.\<close>

fun update_all :: "'z tuf_externals_scheme \<Rightarrow> ('n, 'y) update_env_scheme \<Rightarrow> (string \<Rightarrow> timestamp) \<Rightarrow> tuf_instance list
    \<Rightarrow> bool \<Rightarrow> bool \<Rightarrow> 'n \<times> file_system \<Rightarrow> (('n \<times> file_system) \<times> bool \<times> bool) option" where
  "update_all X E now [] changed failed st = Some (st, changed, failed)"
| "update_all X E now (inst # rest) changed failed st =
     (case update_instance X E (now (in_name inst)) inst st of
        None \<Rightarrow> None
      | Some (st', Inr c) \<Rightarrow> update_all X E now rest (changed \<or> c) failed st'
      | Some (st', Inl e) \<Rightarrow> update_all X E now rest changed True st')"

text \<open>The exit code.\<close>

definition update_main :: "'z tuf_externals_scheme \<Rightarrow> ('n, 'y) update_env_scheme \<Rightarrow> (string \<Rightarrow> timestamp)
    \<Rightarrow> (sigstore_instance \<Rightarrow> bytes) \<Rightarrow> 'n \<times> file_system \<Rightarrow> (('n \<times> file_system) \<times> nat) option" where
  "update_main X E now roots st =
     map_option (\<lambda>(st', changed, failed). (st', if failed then 1 else 0))
       (update_all X E now (INSTANCES roots) False False st)"

subsection \<open>An embedded root that is current\<close>

text \<open>
  The updater stores a root only when it adopts a later one.  When the embedded root is the latest,
  the store has no \<open>root.json\<close> after the refresh, and the update of the instance fails before it
  writes anything.  The parts of the argument: what the other writes of a refresh are called, and
  that each step keeps the store without that file.
\<close>

definition no_root_file :: "path \<Rightarrow> ('n, file_system) updater \<Rightarrow> bool" where
  "no_root_file dir u \<longleftrightarrow> (\<exists>fs. u_store u = Some fs \<and> files fs (dir @ [''root.json'']) = None)"

lemma no_root_file_frame [simp]:
  "no_root_file dir (u\<lparr>u_repo := r\<rparr>) = no_root_file dir u" "no_root_file dir (u\<lparr>u_trusted := t\<rparr>) = no_root_file dir u"
  by (simp_all add: no_root_file_def)

lemma cache_put_no_root_file:
  assumes "components nm \<noteq> [''root.json'']" "no_root_file dir u"
  shows "no_root_file dir (cache_put (file_services dir fm ft) nm bs u)"
proof -
  from assms(2) obtain fs where fs: "u_store u = Some fs" "files fs (dir @ [''root.json'']) = None"
    by (auto simp: no_root_file_def)
  obtain fs' r where st: "file_store dir fs nm bs = (fs', r)" by fastforce
  have "files fs' (dir @ [''root.json'']) = None"
    using file_store_cases [OF st] fs(2) assms(1) by (auto simp: safe_path_def split: if_splits)
  with fs(1) st show ?thesis by (simp add: no_root_file_def cache_put_def file_services_def)
qed

lemma split_on_single: "d \<notin> set xs \<Longrightarrow> split_on d xs = [xs]"
  by (induction xs) (auto split: list.splits)

lemma fmt_u64_no_slash: "CHR ''/'' \<notin> set (fmt_u64 v)"
proof
  assume "CHR ''/'' \<in> set (fmt_u64 v)"
  with fmt_nat_digits [of "unat v"] have "is_digit (CHR ''/'')" by (auto simp: list_all_iff)
  then show False by (simp add: is_digit_def)
qed

lemma plain_components: "CHR ''/'' \<notin> set nm \<Longrightarrow> components nm = (if nm = [] \<or> nm = ''.'' then [] else [nm])"
  by (auto simp: components_def split_on_single)

lemma refresh_names:
  "components ''timestamp.json'' \<noteq> [''root.json'']" "components ''snapshot.json'' \<noteq> [''root.json'']"
  "components ''targets.json'' \<noteq> [''root.json'']" "components (fmt_u64 v @ ''.snapshot.json'') \<noteq> [''root.json'']"
proof -
  have "fmt_u64 v @ ''.snapshot.json'' \<noteq> ''root.json''"
  proof
    assume "fmt_u64 v @ ''.snapshot.json'' = ''root.json''"
    then have "length (fmt_u64 v @ ''.snapshot.json'') = length ''root.json''" by (rule arg_cong)
    then show False by simp
  qed
  then show "components (fmt_u64 v @ ''.snapshot.json'') \<noteq> [''root.json'']"
    using fmt_u64_no_slash by (simp add: plain_components)
qed (simp_all add: plain_components)

lemma keeps_no_root_put [keeps_intros]:
  "components nm \<noteq> [''root.json''] \<Longrightarrow> keeps (no_root_file dir) (modifyS (cache_put (file_services dir fm ft) nm bs))"
  by (rule keeps_modifyS) (rule cache_put_no_root_file)

lemma keeps_no_root_parts [keeps_intros]:
  "keeps (no_root_file dir) (fetch_metadata (file_services dir fm ft) nm n)" "keeps (no_root_file dir) (trust f)"
  by (auto simp: keeps_def fetch_metadata_def trust_def split: prod.splits sum.splits)

lemma keeps_no_root_seeding [keeps_intros]: "keeps (no_root_file dir) (modifyS (seed_lower_from_store X (file_services dir fm ft) now))"
  by (rule keeps_modifyS) (auto simp: seed_lower_from_store_def no_root_file_def)

lemma keeps_no_root_timestamp [keeps_intros]: "keeps (no_root_file dir) (refresh_timestamp X (file_services dir fm ft) now)"
proof -
  have "keeps (no_root_file dir) (\<lambda>u. case update_timestamp X (u_trusted u) bs now of
       Inr t \<Rightarrow> (cache_put (file_services dir fm ft) ''timestamp.json'' bs (u\<lparr>u_trusted := t\<rparr>), Inr ())
     | Inl (EqualVersion _ _) \<Rightarrow> (u, Inr ())
     | Inl e \<Rightarrow> (u, Inl e))" for bs
    unfolding keeps_def
    by (auto split: sum.splits tuf_error.splits intro!: cache_put_no_root_file simp: refresh_names)
  then show ?thesis unfolding refresh_timestamp_def by (intro keeps_intros)
qed

lemma keeps_no_root_lower: "keeps (no_root_file dir) (refresh_snapshot X (file_services dir fm ft) now)" "keeps (no_root_file dir) (refresh_targets X (file_services dir fm ft) now)"
proof -
  have name: "components (if c then fmt_u64 v @ ''.snapshot.json'' else ''snapshot.json'') \<noteq> [''root.json'']" for c v
    using refresh_names by (cases c) simp_all
  show "keeps (no_root_file dir) (refresh_snapshot X (file_services dir fm ft) now)"
    unfolding refresh_snapshot_def Let_def by (intro keeps_intros name refresh_names)
  have "keeps (no_root_file dir) (fetch_targets_metadata (file_services dir fm ft) role)" for role
    unfolding fetch_targets_metadata_def Let_def by (intro keeps_intros)
  then show "keeps (no_root_file dir) (refresh_targets X (file_services dir fm ft) now)"
    unfolding refresh_targets_def Let_def by (intro keeps_intros refresh_names)
qed


lemma refresh_root_none:
  assumes "refresh_root X V u = (u', Inr r)"
    and "\<And>nt n. snd (fetch_metadata_of V nt (fmt_nat (unat (root_version (signed (t_root (u_trusted u))) + 1)) @ ''.root.json'') n)
           = Inr None"
  shows "\<exists>nt. u' = u\<lparr>u_repo := nt\<rparr>"
proof -
  let ?s = "root_version (signed (t_root (u_trusted u)))"
  let ?m = "max_root_rotations (u_config u)"
  let ?ns = "[unat (?s + 1)..<Suc (unat (?s + ?m))]"
  from assms(1) have loop: "refresh_root_loop X V ?m ?ns u = (u', Inr r)"
    by (simp add: refresh_root_def bindS_def getS_def)
  then have "?ns \<noteq> []" by (intro notI) (simp add: throwS_def)
  then obtain rest where "?ns = unat (?s + 1) # rest" by (metis upt_rec upt_eq_Nil_conv)
  with loop have head: "refresh_root_loop X V ?m (unat (?s + 1) # rest) u = (u', Inr r)" by simp
  obtain nt res where f: "fetch_metadata_of V (u_repo u) (fmt_nat (unat (?s + 1)) @ ''.root.json'')
      (root_max_length (u_config u)) = (nt, res)" by fastforce
  with assms(2) have "res = Inr None" by (metis snd_conv)
  with head f show ?thesis
    by (auto simp: bindS_def getS_def fetch_metadata_def returnS_def)
qed

text \<open>A refresh that adopts no root leaves no \<open>root.json\<close> in a store that had none.\<close>

lemma refresh_no_root_file:
  assumes "refresh X (file_services dir fm ft) now u = (u', Inr r)" "no_root_file dir u"
    and "\<And>nt n. snd (fm nt (fmt_nat (unat (root_version (signed (t_root (u_trusted u))) + 1)) @ ''.root.json'') n) = Inr None"
  shows "no_root_file dir u'"
proof -
  let ?V = "file_services dir fm ft"
  let ?rest = "bindS (getS u_trusted) (\<lambda>t.
     bindS (liftS (check_root_expired X t now)) (\<lambda>_.
     bindS (modifyS (seed_lower_from_store X ?V now)) (\<lambda>_.
     bindS (refresh_timestamp X ?V now) (\<lambda>_.
     bindS (refresh_snapshot X ?V now) (\<lambda>_.
     refresh_targets X ?V now)))))"
  from assms(1) obtain u1 r1 where root: "refresh_root X ?V u = (u1, Inr r1)" and rest: "?rest u1 = (u', Inr r)"
    unfolding refresh_def bindS_Inr_iff by blast
  from refresh_root_none [OF root] assms(3) obtain nt where "u1 = u\<lparr>u_repo := nt\<rparr>"
    by (auto simp: file_services_def)
  with assms(2) have clean: "no_root_file dir u1" by simp
  have "keeps (no_root_file dir) ?rest" by (intro keeps_intros keeps_no_root_lower)
  from keepsD [OF this clean rest] show ?thesis .
qed

lemma current_root_update_fails:
  assumes "ue_temp_dir E = Inr dir" "\<And>p. files (snd st) (dir @ p) = None"
    and "from_root X (in_embedded_root inst) = Inr t"
    and "\<And>rp nt n. snd (http_fetch_metadata (ce_http E) rp nt
            (fmt_nat (unat (root_version (signed (t_root t)) + 1)) @ ''.root.json'') n) = Inr None"
  shows "\<exists>st' e. update_instance X E now inst st = Some (st', Inl e)"
proof (cases "http_new (ce_http E) (in_url inst)")
  case (Inl e)
  with assms(1) show ?thesis by (auto simp: update_instance_def update_in_def)
next
  case (Inr rp)
  let ?V = "file_services dir (http_fetch_metadata (ce_http E) rp) (http_fetch_target (ce_http E) rp)"
  define u where "u = \<lparr>u_repo = fst st, u_trusted = t, u_config = default_config, u_store = Some (snd st)\<rparr>"
  from assms(2) have none: "file_load dir (snd st) nm = None" for nm
    by (auto simp: file_load_def safe_path_def split: sum.splits)
  then have opened: "with_store X ?V (\<lparr>u_repo = fst st, u_trusted = t, u_config = default_config, u_store = None\<rparr>) (snd st) = Some u"
    by (subst with_store_def, subst adopt_roots.simps) (simp add: file_services_def u_def)
  have "no_root_file dir u" using assms(2) by (simp add: no_root_file_def u_def)
  obtain u1 r where run: "refresh X ?V now u = (u1, r)" by fastforce
  have fails: "\<exists>st' e. update_session X E now inst dir (snd st) (?V, u) = (st', Inl e)"
  proof (cases r)
    case (Inr v)
    from refresh_no_root_file [OF run [unfolded Inr] \<open>no_root_file dir u\<close>] assms(4)
    have "no_root_file dir u1" by (simp add: u_def)
    then have "files (snd (session_state (snd st) u1)) (dir @ [''root.json'']) = None"
      by (auto simp: no_root_file_def session_state_def)
    with run Inr show ?thesis by (simp add: update_session_def latest_root_def)
  qed (use run in \<open>simp add: update_session_def\<close>)
  have "new_updater X (fst st) (in_embedded_root inst)
      = Inr \<lparr>u_repo = fst st, u_trusted = t, u_config = default_config, u_store = (None :: file_system option)\<rparr>"
    by (simp add: new_updater_def assms(3))
  with Inr opened have "update_in X E now inst dir st = Some (update_session X E now inst dir (snd st) (?V, u))"
    by (simp add: update_in_def Let_def)
  with fails assms(1) show ?thesis by (auto simp: update_instance_def)
qed
end
