(* ===== verification/Tuf_Json.thy ===== *)
theory Tuf_Json
  imports Bundle_Json Trusted
begin

text \<open>
  The serde implementations of the crate sigstore-tuf (src/key.rs, src/metadata/): how keys, role
  payloads and signatures are read from JSON and written to it.  They make the parameters of
  \<open>Tuf_Metadata\<close> concrete: \<open>tuf_of_serde\<close>.

  Every struct but a signature collects the members it does not declare in a map (\<open>flatten\<close>), so
  the derive macro reads it from an object only.  No member is skipped when writing, an absent
  option becomes \<open>null\<close>.  As in \<open>Serde\<close>, of several wrong members the first field gives the error.
\<close>

subsection \<open>Maps and flattened structs\<close>

text \<open>A \<open>BTreeMap\<close> filled in the order of the members; a later one replaces an earlier one.\<close>

definition btm_of :: "(string \<times> 'v) list \<Rightarrow> 'v btree_map" where
  "btm_of m = fold (\<lambda>(k, v). btm_insert k v) m []"

definition ser_map :: "('a \<Rightarrow> json) \<Rightarrow> 'a btree_map \<Rightarrow> json" where
  "ser_map f m = JObject (map (\<lambda>(k, v). (k, f v)) m)"

definition de_map ::
  "'z serde_externals_scheme \<Rightarrow> (json \<Rightarrow> (string + 'a)) \<Rightarrow> json \<Rightarrow> ('a btree_map, string) result" where
  "de_map X f v =
     (case v of
        JObject m \<Rightarrow> map_sum id btm_of (collect_ok (map (\<lambda>(k, x). map_sum id (Pair k) (f x)) m))
      | _ \<Rightarrow> Inl (invalid_type X ''a map'' v))"

definition unknown_members :: "string list \<Rightarrow> (string \<times> json) list \<Rightarrow> json btree_map" where
  "unknown_members names m = btm_of (filter (\<lambda>(k, v). k \<notin> set names) m)"

definition flat_obj :: "(string \<times> json) list \<Rightarrow> json btree_map \<Rightarrow> json" where
  "flat_obj fs extra = JObject (fs @ extra)"

definition flat_struct :: "'z serde_externals_scheme \<Rightarrow> string \<Rightarrow> string list
    \<Rightarrow> ((string \<Rightarrow> json option) \<Rightarrow> json btree_map \<Rightarrow> (string + 'a)) \<Rightarrow> json \<Rightarrow> (string + 'a)" where
  "flat_struct X name names f v =
     (case v of
        JObject m \<Rightarrow> f (map_of m) (unknown_members names m)
      | _ \<Rightarrow> Inl (invalid_type X (''struct '' @ name) v))"

subsection \<open>Numbers and booleans\<close>

definition integer_de :: "'z serde_externals_scheme \<Rightarrow> string \<Rightarrow> json \<Rightarrow> (u64, string) result" where
  "integer_de X ty v =
     (case v of
        JNumber (PosInt n) \<Rightarrow> Inr n
      | JNumber (NegInt i) \<Rightarrow> Inl (''invalid value: integer `'' @ fmt_int i @ ''`, expected '' @ ty)
      | _ \<Rightarrow> Inl (invalid_type X ty v))"

definition u64_ser :: "u64 \<Rightarrow> json" where
  "u64_ser n = JNumber (PosInt n)"

definition u64_de :: "'z serde_externals_scheme \<Rightarrow> json \<Rightarrow> (u64, string) result" where
  "u64_de X = integer_de X ''u64''"

text \<open>\<open>usize\<close> has the 64 bits of the platforms the code is for.\<close>

definition usize_ser :: "nat \<Rightarrow> json" where
  "usize_ser n = JNumber (PosInt (of_nat n))"

definition usize_de :: "'z serde_externals_scheme \<Rightarrow> json \<Rightarrow> (nat, string) result" where
  "usize_de X v = map_sum id unat (integer_de X ''usize'' v)"

definition bool_de :: "'z serde_externals_scheme \<Rightarrow> json \<Rightarrow> (bool, string) result" where
  "bool_de X v = (case v of JBool b \<Rightarrow> Inr b | _ \<Rightarrow> Inl (invalid_type X ''a boolean'' v))"

subsection \<open>Keys (key.rs)\<close>

definition key_val_ser :: "key_val \<Rightarrow> json" where
  "key_val_ser k = flat_obj [(''public'', JString (kv_public k))] (kv_extra k)"

definition key_val_de :: "'z serde_externals_scheme \<Rightarrow> json \<Rightarrow> (key_val, string) result" where
  "key_val_de X = flat_struct X ''KeyVal'' [''public''] (\<lambda>m extra.
     and_then (required ''public'' (de_string X) m) (\<lambda>public.
       Inr \<lparr>kv_public = public, kv_extra = extra\<rparr>))"

definition key_ser :: "key \<Rightarrow> json" where
  "key_ser k = flat_obj
     [(''keytype'', JString (keytype k)), (''scheme'', JString (key_scheme k)),
      (''keyval'', key_val_ser (keyval k))] (key_extra k)"

definition key_de :: "'z serde_externals_scheme \<Rightarrow> json \<Rightarrow> (key, string) result" where
  "key_de X = flat_struct X ''Key'' [''keytype'', ''scheme'', ''keyval''] (\<lambda>m extra.
     and_then (required ''keytype'' (de_string X) m) (\<lambda>kt.
     and_then (required ''scheme'' (de_string X) m) (\<lambda>sch.
     and_then (required ''keyval'' (key_val_de X) m) (\<lambda>kv.
       Inr \<lparr>keytype = kt, key_scheme = sch, keyval = kv, key_extra = extra\<rparr>))))"

subsection \<open>Roles (metadata/role.rs)\<close>

definition role_keys_ser :: "role_keys \<Rightarrow> json" where
  "role_keys_ser r = flat_obj
     [(''keyids'', ser_list JString (rk_keyids r)), (''threshold'', usize_ser (rk_threshold r))] (rk_extra r)"

definition role_keys_de :: "'z serde_externals_scheme \<Rightarrow> json \<Rightarrow> (role_keys, string) result" where
  "role_keys_de X = flat_struct X ''RoleKeys'' [''keyids'', ''threshold''] (\<lambda>m extra.
     and_then (required ''keyids'' (de_list X (de_string X)) m) (\<lambda>ids.
     and_then (required ''threshold'' (usize_de X) m) (\<lambda>n.
       Inr \<lparr>rk_keyids = ids, rk_threshold = n, rk_extra = extra\<rparr>)))"

definition root_ser :: "root \<Rightarrow> json" where
  "root_ser r = flat_obj
     [(''_type'', JString (root_type r)), (''spec_version'', JString (root_spec_version r)),
      (''version'', u64_ser (root_version r)), (''expires'', JString (root_expires r)),
      (''consistent_snapshot'', JBool (consistent_snapshot r)),
      (''keys'', ser_map key_ser (root_keys r)), (''roles'', ser_map role_keys_ser (root_roles r))] (root_extra r)"

definition root_de :: "'z serde_externals_scheme \<Rightarrow> json \<Rightarrow> (root, string) result" where
  "root_de X = flat_struct X ''Root''
     [''_type'', ''spec_version'', ''version'', ''expires'', ''consistent_snapshot'', ''keys'', ''roles''] (\<lambda>m extra.
     and_then (required ''_type'' (de_string X) m) (\<lambda>ty.
     and_then (required ''spec_version'' (de_string X) m) (\<lambda>sv.
     and_then (required ''version'' (u64_de X) m) (\<lambda>v.
     and_then (required ''expires'' (de_string X) m) (\<lambda>e.
     and_then (defaulted False ''consistent_snapshot'' (bool_de X) m) (\<lambda>cs.
     and_then (required ''keys'' (de_map X (key_de X)) m) (\<lambda>ks.
     and_then (required ''roles'' (de_map X (role_keys_de X)) m) (\<lambda>rs.
       Inr \<lparr>root_type = ty, root_spec_version = sv, root_version = v, root_expires = e, consistent_snapshot = cs,
            root_keys = ks, root_roles = rs, root_extra = extra\<rparr>))))))))"

definition delegated_role_ser :: "delegated_role \<Rightarrow> json" where
  "delegated_role_ser d = flat_obj
     [(''name'', JString (dr_name d)), (''keyids'', ser_list JString (dr_keyids d)),
      (''threshold'', usize_ser (dr_threshold d)), (''terminating'', JBool (terminating d)),
      (''paths'', ser_option (ser_list JString) (dr_paths d)),
      (''path_hash_prefixes'', ser_option (ser_list JString) (path_hash_prefixes d))] (dr_extra d)"

definition delegated_role_de :: "'z serde_externals_scheme \<Rightarrow> json \<Rightarrow> (delegated_role, string) result" where
  "delegated_role_de X = flat_struct X ''DelegatedRole''
     [''name'', ''keyids'', ''threshold'', ''terminating'', ''paths'', ''path_hash_prefixes''] (\<lambda>m extra.
     and_then (required ''name'' (de_string X) m) (\<lambda>nm.
     and_then (required ''keyids'' (de_list X (de_string X)) m) (\<lambda>ids.
     and_then (required ''threshold'' (usize_de X) m) (\<lambda>n.
     and_then (defaulted False ''terminating'' (bool_de X) m) (\<lambda>t.
     and_then (opt_field ''paths'' (de_list X (de_string X)) m) (\<lambda>ps.
     and_then (opt_field ''path_hash_prefixes'' (de_list X (de_string X)) m) (\<lambda>hs.
       Inr \<lparr>dr_name = nm, dr_keyids = ids, dr_threshold = n, terminating = t, dr_paths = ps,
            path_hash_prefixes = hs, dr_extra = extra\<rparr>)))))))"

definition delegations_ser :: "delegations \<Rightarrow> json" where
  "delegations_ser d = flat_obj
     [(''keys'', ser_map key_ser (del_keys d)), (''roles'', ser_list delegated_role_ser (del_roles d))] (del_extra d)"

definition delegations_de :: "'z serde_externals_scheme \<Rightarrow> json \<Rightarrow> (delegations, string) result" where
  "delegations_de X = flat_struct X ''Delegations'' [''keys'', ''roles''] (\<lambda>m extra.
     and_then (required ''keys'' (de_map X (key_de X)) m) (\<lambda>ks.
     and_then (defaulted [] ''roles'' (de_list X (delegated_role_de X)) m) (\<lambda>rs.
       Inr \<lparr>del_keys = ks, del_roles = rs, del_extra = extra\<rparr>)))"

subsection \<open>Timestamp, snapshot and targets (metadata/snapshot.rs, metadata/targets.rs)\<close>

definition meta_file_ser :: "meta_file \<Rightarrow> json" where
  "meta_file_ser f = flat_obj
     [(''version'', u64_ser (mf_version f)), (''length'', ser_option u64_ser (mf_length f)),
      (''hashes'', ser_option (ser_map JString) (mf_hashes f))] (mf_extra f)"

definition meta_file_de :: "'z serde_externals_scheme \<Rightarrow> json \<Rightarrow> (meta_file, string) result" where
  "meta_file_de X = flat_struct X ''MetaFile'' [''version'', ''length'', ''hashes''] (\<lambda>m extra.
     and_then (required ''version'' (u64_de X) m) (\<lambda>v.
     and_then (opt_field ''length'' (u64_de X) m) (\<lambda>n.
     and_then (opt_field ''hashes'' (de_map X (de_string X)) m) (\<lambda>hs.
       Inr \<lparr>mf_version = v, mf_length = n, mf_hashes = hs, mf_extra = extra\<rparr>))))"

text \<open>The fields of a timestamp are those of a snapshot.\<close>

definition meta_names :: "string list" where
  "meta_names = [''_type'', ''spec_version'', ''version'', ''expires'', ''meta'']"

definition timestamp_role_ser :: "timestamp_role \<Rightarrow> json" where
  "timestamp_role_ser t = flat_obj
     [(''_type'', JString (ts_type t)), (''spec_version'', JString (ts_spec_version t)),
      (''version'', u64_ser (ts_version t)), (''expires'', JString (ts_expires t)),
      (''meta'', ser_map meta_file_ser (ts_meta t))] (ts_extra t)"

definition timestamp_role_de :: "'z serde_externals_scheme \<Rightarrow> json \<Rightarrow> (timestamp_role, string) result" where
  "timestamp_role_de X = flat_struct X ''Timestamp'' meta_names (\<lambda>m extra.
     and_then (required ''_type'' (de_string X) m) (\<lambda>ty.
     and_then (required ''spec_version'' (de_string X) m) (\<lambda>sv.
     and_then (required ''version'' (u64_de X) m) (\<lambda>v.
     and_then (required ''expires'' (de_string X) m) (\<lambda>e.
     and_then (required ''meta'' (de_map X (meta_file_de X)) m) (\<lambda>mt.
       Inr \<lparr>ts_type = ty, ts_spec_version = sv, ts_version = v, ts_expires = e, ts_meta = mt,
            ts_extra = extra\<rparr>))))))"

definition snapshot_ser :: "snapshot \<Rightarrow> json" where
  "snapshot_ser s = flat_obj
     [(''_type'', JString (snap_type s)), (''spec_version'', JString (snap_spec_version s)),
      (''version'', u64_ser (snap_version s)), (''expires'', JString (snap_expires s)),
      (''meta'', ser_map meta_file_ser (snap_meta s))] (snap_extra s)"

definition snapshot_de :: "'z serde_externals_scheme \<Rightarrow> json \<Rightarrow> (snapshot, string) result" where
  "snapshot_de X = flat_struct X ''Snapshot'' meta_names (\<lambda>m extra.
     and_then (required ''_type'' (de_string X) m) (\<lambda>ty.
     and_then (required ''spec_version'' (de_string X) m) (\<lambda>sv.
     and_then (required ''version'' (u64_de X) m) (\<lambda>v.
     and_then (required ''expires'' (de_string X) m) (\<lambda>e.
     and_then (required ''meta'' (de_map X (meta_file_de X)) m) (\<lambda>mt.
       Inr \<lparr>snap_type = ty, snap_spec_version = sv, snap_version = v, snap_expires = e, snap_meta = mt,
            snap_extra = extra\<rparr>))))))"

text \<open>\<open>custom\<close> is any value, of which \<open>null\<close> is read as none.\<close>

definition target_file_ser :: "target_file \<Rightarrow> json" where
  "target_file_ser f = flat_obj
     [(''length'', u64_ser (tf_length f)), (''hashes'', ser_map JString (tf_hashes f)),
      (''custom'', ser_option id (tf_custom f))] (tf_extra f)"

definition target_file_de :: "'z serde_externals_scheme \<Rightarrow> json \<Rightarrow> (target_file, string) result" where
  "target_file_de X = flat_struct X ''TargetFile'' [''length'', ''hashes'', ''custom''] (\<lambda>m extra.
     and_then (required ''length'' (u64_de X) m) (\<lambda>n.
     and_then (required ''hashes'' (de_map X (de_string X)) m) (\<lambda>hs.
     and_then (opt_field ''custom'' Inr m) (\<lambda>c.
       Inr \<lparr>tf_length = n, tf_hashes = hs, tf_custom = c, tf_extra = extra\<rparr>))))"

definition targets_ser :: "targets \<Rightarrow> json" where
  "targets_ser t = flat_obj
     [(''_type'', JString (tg_type t)), (''spec_version'', JString (tg_spec_version t)),
      (''version'', u64_ser (tg_version t)), (''expires'', JString (tg_expires t)),
      (''targets'', ser_map target_file_ser (tg_targets t)),
      (''delegations'', ser_option delegations_ser (tg_delegations t))] (tg_extra t)"

definition targets_de :: "'z serde_externals_scheme \<Rightarrow> json \<Rightarrow> (targets, string) result" where
  "targets_de X = flat_struct X ''Targets''
     [''_type'', ''spec_version'', ''version'', ''expires'', ''targets'', ''delegations''] (\<lambda>m extra.
     and_then (required ''_type'' (de_string X) m) (\<lambda>ty.
     and_then (required ''spec_version'' (de_string X) m) (\<lambda>sv.
     and_then (required ''version'' (u64_de X) m) (\<lambda>v.
     and_then (required ''expires'' (de_string X) m) (\<lambda>e.
     and_then (required ''targets'' (de_map X (target_file_de X)) m) (\<lambda>ts.
     and_then (opt_field ''delegations'' (delegations_de X) m) (\<lambda>ds.
       Inr \<lparr>tg_type = ty, tg_spec_version = sv, tg_version = v, tg_expires = e, tg_targets = ts,
            tg_delegations = ds, tg_extra = extra\<rparr>)))))))"

subsection \<open>Signatures (metadata/mod.rs)\<close>

definition signature_ser :: "signature \<Rightarrow> json" where
  "signature_ser s = obj [(''keyid'', Some (JString (keyid s))), (''sig'', Some (JString (sig s)))]"

definition signature_de :: "'z serde_externals_scheme \<Rightarrow> json \<Rightarrow> (signature, string) result" where
  "signature_de X = de_struct X [''keyid'', ''sig''] (\<lambda>m.
     and_then (required ''keyid'' (de_string X) m) (\<lambda>k.
     and_then (required ''sig'' (de_string X) m) (\<lambda>s.
       Inr \<lparr>keyid = k, sig = s\<rparr>)))"

text \<open>The readers \<open>from_slice\<close> gets from the derive macro.\<close>

definition tuf_of_serde :: "'z serde_externals_scheme \<Rightarrow> tuf_externals" where
  "tuf_of_serde X = externals.extend (externals.truncate X)
     (tuf_externals.fields (de_list X (signature_de X)) (root_de X) (timestamp_role_de X) (snapshot_de X) (targets_de X))"

subsection \<open>What is read back\<close>

lemma btm_insert_last: "list_all (\<lambda>(k', v'). k' < k) m \<Longrightarrow> btm_insert k v m = m @ [(k, v)]"
  by (induction k v m rule: btm_insert.induct) auto

lemma btm_of_append:
  "btm_wf (acc @ m) \<Longrightarrow> fold (\<lambda>(k, v). btm_insert k v) m acc = acc @ m"
proof (induction m arbitrary: acc)
  case (Cons kv m)
  obtain k v where kv: "kv = (k, v)" by (cases kv)
  with Cons.prems have "list_all (\<lambda>(k', v'). k' < k) acc"
    by (auto simp: btm_wf_def sorted_wrt_append list_all_iff)
  with Cons kv show ?case by (simp add: btm_insert_last)
qed simp

lemma btm_of_wf: "btm_wf m \<Longrightarrow> btm_of m = m"
  using btm_of_append [of "[]" m] by (simp add: btm_of_def)

lemma btm_wf_of: "btm_wf (btm_of m)"
proof -
  have "btm_wf acc \<Longrightarrow> btm_wf (fold (\<lambda>(k, v). btm_insert k v) m acc)" for acc :: "'a btree_map"
    by (induction m arbitrary: acc) auto
  then show ?thesis by (simp add: btm_of_def)
qed

lemma btm_get_of: "distinct (map fst m) \<Longrightarrow> btm_get k (btm_of m) = map_of m k"
proof -
  have "distinct (map fst m) \<Longrightarrow>
      btm_get k (fold (\<lambda>(k, v). btm_insert k v) m acc) = (case map_of m k of Some v \<Rightarrow> Some v | None \<Rightarrow> btm_get k acc)" for acc
  proof (induction m arbitrary: acc)
    case (Cons kv m)
    obtain k' v where kv: "kv = (k', v)" by (cases kv)
    with Cons.prems have "map_of m k' = None" by (simp add: map_of_eq_None_iff)
    with Cons kv show ?case by (auto simp: btm_get_insert split: option.splits)
  qed simp
  from this [of "[]"] show "distinct (map fst m) \<Longrightarrow> ?thesis" by (simp add: btm_of_def split: option.splits)
qed

text \<open>Extra members that a struct keeps: none has the name of a field.\<close>

definition extra_ok :: "string list \<Rightarrow> json btree_map \<Rightarrow> bool" where
  "extra_ok names extra \<longleftrightarrow> btm_wf extra \<and> list_all (\<lambda>(k, v). k \<notin> set names) extra"

definition map_ok :: "('a \<Rightarrow> bool) \<Rightarrow> 'a btree_map \<Rightarrow> bool" where
  "map_ok ok m \<longleftrightarrow> btm_wf m \<and> list_all (\<lambda>(k, v). ok v) m"

lemma flat_struct_obj:
  assumes "map fst fs = names" "extra_ok names extra"
  shows "flat_struct X name names f (flat_obj fs extra) = f (map_of (fs @ extra)) extra"
proof -
  have "filter (\<lambda>(k, v). k \<notin> set names) extra = extra"
    using assms(2) by (simp add: extra_ok_def filter_id_conv list_all_iff)
  moreover have "filter (\<lambda>(k, v). k \<notin> set names) fs = []"
    using assms(1) by (force simp: filter_empty_conv)
  ultimately show ?thesis
    using assms(2) by (simp add: flat_struct_def flat_obj_def unknown_members_def btm_of_wf extra_ok_def)
qed

lemma map_codec:
  assumes "codec enc dec ok" "map_ok ok m"
  shows "de_map X dec (ser_map enc m) = Inr m"
proof -
  have "list_all (\<lambda>(k, v). ok v) m" using assms(2) by (simp add: map_ok_def)
  then have "collect_ok (map (\<lambda>(k, x). map_sum id (Pair k) (dec x)) (map (\<lambda>(k, v). (k, enc v)) m)) = Inr m"
    by (induction m) (auto simp: codec.dec_enc [OF assms(1)])
  with assms(2) show ?thesis by (simp add: de_map_def ser_map_def map_ok_def btm_of_wf)
qed

interpretation u64_codec: codec u64_ser "u64_de X" "\<lambda>n. True" for X
  by unfold_locales (simp_all add: u64_ser_def u64_de_def integer_de_def)

interpretation usize_codec: codec usize_ser "usize_de X" "\<lambda>n. n < 2 ^ 64" for X
  by unfold_locales (simp_all add: usize_ser_def usize_de_def integer_de_def unat_of_nat take_bit_nat_eq_self_iff)

interpretation bool_codec: codec JBool "bool_de X" "\<lambda>b. True" for X
  by unfold_locales (simp_all add: bool_de_def)

interpretation names_codec: codec "ser_list JString" "de_list X (de_string X)" "\<lambda>xs. True" for X
  by unfold_locales (simp add: str_codec.list_codec list_all_iff, simp add: ser_list_def)

interpretation digests_codec: codec "ser_map JString" "de_map X (de_string X)" "map_ok (\<lambda>s. True)" for X
  by unfold_locales (simp add: map_codec [OF str_codec.codec_axioms], simp add: ser_map_def)

lemmas flat_codec_simps = flat_struct_obj required_def defaulted_def opt_field_def
  str_codec.dec_enc u64_codec.dec_enc usize_codec.dec_enc bool_codec.dec_enc names_codec.dec_enc digests_codec.dec_enc
  u64_codec.option_codec names_codec.option_codec digests_codec.option_codec option.pred_True

definition key_val_ok :: "key_val \<Rightarrow> bool" where
  "key_val_ok k \<longleftrightarrow> extra_ok [''public''] (kv_extra k)"

interpretation key_val_codec: codec key_val_ser "key_val_de X" key_val_ok for X
  by unfold_locales (simp_all add: key_val_ser_def key_val_de_def key_val_ok_def flat_codec_simps, simp add: flat_obj_def)

definition key_ok :: "key \<Rightarrow> bool" where
  "key_ok k \<longleftrightarrow> key_val_ok (keyval k) \<and> extra_ok [''keytype'', ''scheme'', ''keyval''] (key_extra k)"

interpretation key_codec: codec key_ser "key_de X" key_ok for X
  by unfold_locales
    (simp_all add: key_ser_def key_de_def key_ok_def flat_codec_simps key_val_codec.dec_enc, simp add: flat_obj_def)

definition role_keys_ok :: "role_keys \<Rightarrow> bool" where
  "role_keys_ok r \<longleftrightarrow> rk_threshold r < 2 ^ 64 \<and> extra_ok [''keyids'', ''threshold''] (rk_extra r)"

interpretation role_keys_codec: codec role_keys_ser "role_keys_de X" role_keys_ok for X
  by unfold_locales
    (simp_all add: role_keys_ser_def role_keys_de_def role_keys_ok_def flat_codec_simps, simp add: flat_obj_def)

definition tuf_root_ok :: "root \<Rightarrow> bool" where
  "tuf_root_ok r \<longleftrightarrow> map_ok key_ok (root_keys r) \<and> map_ok role_keys_ok (root_roles r)
     \<and> extra_ok [''_type'', ''spec_version'', ''version'', ''expires'', ''consistent_snapshot'', ''keys'', ''roles'']
         (root_extra r)"

interpretation tuf_root_codec: codec root_ser "root_de X" tuf_root_ok for X
  by unfold_locales
    (simp_all add: root_ser_def root_de_def tuf_root_ok_def flat_codec_simps map_codec [OF key_codec.codec_axioms] map_codec [OF role_keys_codec.codec_axioms],
     simp add: flat_obj_def)

definition delegated_role_ok :: "delegated_role \<Rightarrow> bool" where
  "delegated_role_ok d \<longleftrightarrow> dr_threshold d < 2 ^ 64
     \<and> extra_ok [''name'', ''keyids'', ''threshold'', ''terminating'', ''paths'', ''path_hash_prefixes''] (dr_extra d)"

interpretation delegated_role_codec: codec delegated_role_ser "delegated_role_de X" delegated_role_ok for X
  by unfold_locales
    (simp_all add: delegated_role_ser_def delegated_role_de_def delegated_role_ok_def flat_codec_simps,
     simp add: flat_obj_def)

definition delegations_ok :: "delegations \<Rightarrow> bool" where
  "delegations_ok d \<longleftrightarrow> map_ok key_ok (del_keys d) \<and> list_all delegated_role_ok (del_roles d)
     \<and> extra_ok [''keys'', ''roles''] (del_extra d)"

interpretation delegations_codec: codec delegations_ser "delegations_de X" delegations_ok for X
  by unfold_locales
    (simp_all add: delegations_ser_def delegations_de_def delegations_ok_def flat_codec_simps map_codec [OF key_codec.codec_axioms]
      delegated_role_codec.list_codec, simp add: flat_obj_def)

definition meta_file_ok :: "meta_file \<Rightarrow> bool" where
  "meta_file_ok f \<longleftrightarrow> pred_option (map_ok (\<lambda>s. True)) (mf_hashes f)
     \<and> extra_ok [''version'', ''length'', ''hashes''] (mf_extra f)"

interpretation meta_file_codec: codec meta_file_ser "meta_file_de X" meta_file_ok for X
  by unfold_locales
    (simp_all add: meta_file_ser_def meta_file_de_def meta_file_ok_def flat_codec_simps, simp add: flat_obj_def)

definition timestamp_role_ok :: "timestamp_role \<Rightarrow> bool" where
  "timestamp_role_ok t \<longleftrightarrow> map_ok meta_file_ok (ts_meta t) \<and> extra_ok meta_names (ts_extra t)"

interpretation timestamp_role_codec: codec timestamp_role_ser "timestamp_role_de X" timestamp_role_ok for X
  by unfold_locales
    (simp_all add: timestamp_role_ser_def timestamp_role_de_def timestamp_role_ok_def flat_codec_simps meta_names_def
      map_codec [OF meta_file_codec.codec_axioms], simp add: flat_obj_def)

definition snapshot_ok :: "snapshot \<Rightarrow> bool" where
  "snapshot_ok s \<longleftrightarrow> map_ok meta_file_ok (snap_meta s) \<and> extra_ok meta_names (snap_extra s)"

interpretation snapshot_codec: codec snapshot_ser "snapshot_de X" snapshot_ok for X
  by unfold_locales
    (simp_all add: snapshot_ser_def snapshot_de_def snapshot_ok_def flat_codec_simps meta_names_def
      map_codec [OF meta_file_codec.codec_axioms], simp add: flat_obj_def)

definition target_file_ok :: "target_file \<Rightarrow> bool" where
  "target_file_ok f \<longleftrightarrow> map_ok (\<lambda>s. True) (tf_hashes f) \<and> tf_custom f \<noteq> Some JNull
     \<and> extra_ok [''length'', ''hashes'', ''custom''] (tf_extra f)"

lemma custom_codec: "c \<noteq> Some JNull \<Longrightarrow> de_option Inr (ser_option id c) = Inr c"
  by (cases c) (auto simp: de_option_def ser_option_def)

interpretation target_file_codec: codec target_file_ser "target_file_de X" target_file_ok for X
  by unfold_locales
    (simp_all add: target_file_ser_def target_file_de_def target_file_ok_def flat_codec_simps custom_codec,
     simp add: flat_obj_def)

definition targets_ok :: "targets \<Rightarrow> bool" where
  "targets_ok t \<longleftrightarrow> map_ok target_file_ok (tg_targets t) \<and> pred_option delegations_ok (tg_delegations t)
     \<and> extra_ok [''_type'', ''spec_version'', ''version'', ''expires'', ''targets'', ''delegations''] (tg_extra t)"

interpretation targets_codec: codec targets_ser "targets_de X" targets_ok for X
  by unfold_locales
    (simp_all add: targets_ser_def targets_de_def targets_ok_def flat_codec_simps map_codec [OF target_file_codec.codec_axioms]
      delegations_codec.option_codec, simp add: flat_obj_def)

interpretation signature_codec: codec signature_ser "signature_de X" "\<lambda>s. serde_laws X" for X
  by unfold_locales
    (simp add: signature_ser_def signature_de_def de_struct_obj field_defs str_codec.dec_enc,
     simp add: signature_ser_def obj_def)

subsection \<open>What the readers give\<close>

text \<open>
  Whatever the document, the members that are kept are in the order of a \<open>BTreeMap\<close>, no field among
  them, and a threshold has 64 bits: what is read can be written and read back.
\<close>

lemma unknown_members_ok: "extra_ok names (unknown_members names m)"
proof -
  have "fst ` set (fold (\<lambda>(k, v). btm_insert k v) xs acc) = fst ` set acc \<union> fst ` set xs"
    for xs :: "(string \<times> json) list" and acc
  proof (induction xs arbitrary: acc)
    case (Cons kv xs)
    then show ?case by (cases kv) (simp add: btm_insert_keys)
  qed simp
  from this [of "filter (\<lambda>(k, v). k \<notin> set names) m" "[]"]
  have "fst ` set (unknown_members names m) \<subseteq> - set names" by (auto simp: unknown_members_def btm_of_def)
  then show ?thesis by (fastforce simp: extra_ok_def unknown_members_def btm_wf_of list_all_iff)
qed

lemma flat_structD:
  assumes "flat_struct X name names f v = Inr x"
  obtains m where "v = JObject m" "f (map_of m) (unknown_members names m) = Inr x"
  using assms by (cases v) (simp_all add: flat_struct_def)

text \<open>A member the struct does not declare is written as it was read.\<close>

lemma unknown_member_kept:
  assumes "distinct (map fst m)" "k \<notin> set names" "map fst fs = names"
  shows "json_get k (flat_obj fs (unknown_members names m)) = map_of m k"
proof -
  have "map_of (filter (\<lambda>(k, v). k \<notin> set names) m) k = map_of m k"
    using assms(2) by (induction m) auto
  moreover have "distinct (map fst (filter (\<lambda>(k, v). k \<notin> set names) m))"
    using assms(1) by (induction m) auto
  ultimately have "map_of (unknown_members names m) k = map_of m k"
    using btm_get_of [of "filter (\<lambda>(k, v). k \<notin> set names) m" k] by (simp add: unknown_members_def btm_get_def)
  moreover have "map_of fs k = None"
    using assms(2,3) by (force simp: map_of_eq_None_iff)
  ultimately show ?thesis by (simp add: json_get_def flat_obj_def map_add_def)
qed

lemma key_extras_kept:
  assumes "key_de X (JObject m) = Inr k" "distinct (map fst m)" "n \<notin> {''keytype'', ''scheme'', ''keyval''}"
  shows "json_get n (key_ser k) = map_of m n"
  using assms unknown_member_kept [of m n "[''keytype'', ''scheme'', ''keyval'']"]
  by (auto simp: key_de_def key_ser_def result_simps flat_struct_def)

lemma root_extras_kept:
  assumes "root_de X (JObject m) = Inr r" "distinct (map fst m)"
    "n \<notin> {''_type'', ''spec_version'', ''version'', ''expires'', ''consistent_snapshot'', ''keys'', ''roles''}"
  shows "json_get n (root_ser r) = map_of m n"
  using assms unknown_member_kept
    [of m n "[''_type'', ''spec_version'', ''version'', ''expires'', ''consistent_snapshot'', ''keys'', ''roles'']"]
  by (auto simp: root_de_def root_ser_def result_simps flat_struct_def)

lemma unat_u64_less: "unat (w :: u64) < 18446744073709551616"
proof -
  have "unat w < 2 ^ LENGTH(64)" by (rule unsigned_less)
  then show ?thesis by simp
qed

text \<open>A threshold that is not an integer of 64 bits without a sign is refused.\<close>

lemma threshold_bounded: "role_keys_de X v = Inr r \<Longrightarrow> rk_threshold r < 2 ^ 64"
  by (auto simp: role_keys_de_def result_simps usize_de_def required_def elim!: flat_structD split: option.splits)
    (metis unat_u64_less)

subsection \<open>Envelopes\<close>

text \<open>A metadata file: the signatures and the payload they are over.\<close>

definition envelope_ser :: "signature list \<Rightarrow> json \<Rightarrow> json" where
  "envelope_ser sigs body = JObject [(''signatures'', ser_list signature_ser sigs), (''signed'', body)]"

lemma tuf_of_serde_simps:
  "de_signatures (tuf_of_serde X) = de_list X (signature_de X)" "de_root (tuf_of_serde X) = root_de X"
  "de_timestamp (tuf_of_serde X) = timestamp_role_de X" "de_snapshot (tuf_of_serde X) = snapshot_de X"
  "de_targets (tuf_of_serde X) = targets_de X" "json_parse (tuf_of_serde X) = json_parse X"
  by (simp_all add: tuf_of_serde_def externals.defs tuf_externals.defs)

text \<open>Specification versions this client implements.\<close>

definition spec_supported :: "string \<Rightarrow> bool" where
  "spec_supported v \<longleftrightarrow> takeWhile (\<lambda>c. c \<noteq> CHR ''.'') v = ''1''"

text \<open>The bytes are a file with these signatures and this payload, whose canonical form is \<open>canonical\<close>.\<close>

definition published :: "'z serde_externals_scheme \<Rightarrow> 'r role \<Rightarrow> ('r \<Rightarrow> json) \<Rightarrow> ('r \<Rightarrow> string) \<Rightarrow> ('r \<Rightarrow> string)
    \<Rightarrow> ('r \<Rightarrow> bool) \<Rightarrow> bytes \<Rightarrow> 'r metadata \<Rightarrow> bool" where
  "published X R ser type_of spec_of ok bs md \<longleftrightarrow>
     json_parse X bs = Inr (envelope_ser (signatures md) (ser (signed md))) \<and> ok (signed md)
     \<and> type_of (signed md) = role_type R \<and> spec_supported (spec_of (signed md))
     \<and> to_canonical_bytes (ser (signed md)) = Inr (canonical_signed md)"

lemma envelope_codec:
  assumes "codec enc dec ok" "published X R enc type_of spec_of ok bs md" "serde_laws X"
    and "\<And>r. json_get ''_type'' (enc r) = Some (JString (type_of r))"
    and "\<And>r. json_get ''spec_version'' (enc r) = Some (JString (spec_of r))"
  shows "from_slice (tuf_of_serde X) R dec bs = Inr md"
proof -
  have "list_all (\<lambda>s. serde_laws X) (signatures md)" using assms(3) by (simp add: list_all_iff)
  then have "de_list X (signature_de X) (ser_list signature_ser (signatures md)) = Inr (signatures md)"
    by (rule signature_codec.list_codec)
  with assms show ?thesis
    by (simp add: from_slice_def published_def tuf_of_serde_simps envelope_ser_def spec_supported_def
        codec.dec_enc [OF assms(1)])
qed

lemma head_members:
  "json_get ''_type'' (root_ser r) = Some (JString (root_type r))"
  "json_get ''spec_version'' (root_ser r) = Some (JString (root_spec_version r))"
  "json_get ''_type'' (timestamp_role_ser t) = Some (JString (ts_type t))"
  "json_get ''spec_version'' (timestamp_role_ser t) = Some (JString (ts_spec_version t))"
  "json_get ''_type'' (snapshot_ser s) = Some (JString (snap_type s))"
  "json_get ''spec_version'' (snapshot_ser s) = Some (JString (snap_spec_version s))"
  "json_get ''_type'' (targets_ser g) = Some (JString (tg_type g))"
  "json_get ''spec_version'' (targets_ser g) = Some (JString (tg_spec_version g))"
  by (simp_all add: json_get_def flat_obj_def root_ser_def timestamp_role_ser_def snapshot_ser_def targets_ser_def)

subsection \<open>A sample\<close>

definition document_key :: key where
  "document_key = \<lparr>keytype = ''ed25519'', key_scheme = ''ed25519'', keyval = \<lparr>kv_public = ''00'', kv_extra = []\<rparr>,
     key_extra = [(''x-owner'', JString ''me'')]\<rparr>"

definition sample_md :: "'r \<Rightarrow> ('r \<Rightarrow> json) \<Rightarrow> 'r metadata" where
  "sample_md r ser = \<lparr>signatures = [\<lparr>keyid = ''k'', sig = ''00''\<rparr>], signed = r,
     canonical_signed = (case to_canonical_bytes (ser r) of Inr c \<Rightarrow> c | Inl e \<Rightarrow> [])\<rparr>"

definition root_document :: root where
  "root_document = \<lparr>root_type = ''root'', root_spec_version = ''1.0.31'', root_version = 2, root_expires = ''2030'',
     consistent_snapshot = True, root_keys = [(''k'', document_key)],
     root_roles = [(''root'', \<lparr>rk_keyids = [''k''], rk_threshold = 1, rk_extra = []\<rparr>)], root_extra = []\<rparr>"

definition timestamp_document :: timestamp_role where
  "timestamp_document = \<lparr>ts_type = ''timestamp'', ts_spec_version = ''1.0.31'', ts_version = 3, ts_expires = ''2030'',
     ts_meta = [(''snapshot.json'', \<lparr>mf_version = 4, mf_length = None, mf_hashes = Some [(''sha256'', ''00'')],
        mf_extra = []\<rparr>)], ts_extra = []\<rparr>"

definition snapshot_document :: snapshot where
  "snapshot_document = \<lparr>snap_type = ''snapshot'', snap_spec_version = ''1.0.31'', snap_version = 4, snap_expires = ''2030'',
     snap_meta = [(''targets.json'', \<lparr>mf_version = 5, mf_length = Some 9, mf_hashes = None, mf_extra = []\<rparr>)],
     snap_extra = [(''x'', JNull)]\<rparr>"

definition targets_document :: targets where
  "targets_document = \<lparr>tg_type = ''targets'', tg_spec_version = ''1.0.31'', tg_version = 5, tg_expires = ''2030'',
     tg_targets = [(''a'', \<lparr>tf_length = 1, tf_hashes = [(''sha256'', ''00'')], tf_custom = Some (JBool True), tf_extra = []\<rparr>)],
     tg_delegations = Some \<lparr>del_keys = [(''k'', document_key)],
        del_roles = [\<lparr>dr_name = ''d'', dr_keyids = [''k''], dr_threshold = 1, terminating = True,
          dr_paths = Some [''d/*''], path_hash_prefixes = None, dr_extra = []\<rparr>], del_extra = []\<rparr>,
     tg_extra = []\<rparr>"

definition sample_documents :: serde_externals where
  "sample_documents = (sample_serde JNull)\<lparr>json_parse := \<lambda>bs.
     if bs = [0] then Inr (envelope_ser [\<lparr>keyid = ''k'', sig = ''00''\<rparr>] (root_ser root_document))
     else if bs = [1] then Inr (envelope_ser [\<lparr>keyid = ''k'', sig = ''00''\<rparr>] (timestamp_role_ser timestamp_document))
     else if bs = [2] then Inr (envelope_ser [\<lparr>keyid = ''k'', sig = ''00''\<rparr>] (snapshot_ser snapshot_document))
     else Inr (envelope_ser [\<lparr>keyid = ''k'', sig = ''00''\<rparr>] (targets_ser targets_document))\<rparr>"

lemma sample_documents_laws: "serde_laws sample_documents"
  using sample_serde_laws [of JNull] by (simp add: sample_documents_def serde_laws_def)

text \<open>A value without fractions has a canonical form.\<close>

fun integral :: "json \<Rightarrow> bool" where
  "integral (JNumber n) \<longleftrightarrow> n \<noteq> Float"
| "integral (JArray vs) \<longleftrightarrow> list_all integral vs"
| "integral (JObject m) \<longleftrightarrow> list_all (\<lambda>(k, v). integral v) m"
| "integral _ \<longleftrightarrow> True"

lemma collect_ok_all: "\<forall>r \<in> set rs. \<exists>x. r = Inr x \<Longrightarrow> \<exists>xs. collect_ok rs = Inr xs"
  by (induction rs) auto

lemma integral_canonical: "integral v \<Longrightarrow> \<exists>s. encode v = Inr s"
proof (induction v rule: encode.induct)
  case (4 n)
  then show ?case by (cases n) auto
next
  case (6 items)
  then have "\<exists>xs. collect_ok (map encode items) = Inr xs"
    by (intro collect_ok_all) (auto simp: list_all_iff)
  then show ?case by auto
next
  case (7 m)
  then have "\<forall>kv \<in> set m. \<exists>s. encode (snd kv) = Inr s" by (fastforce simp: list_all_iff)
  then have "\<exists>xs. collect_ok (map (\<lambda>(k, r). and_then r (\<lambda>e. Inr (encode_string k @ '':'' @ e)))
      (sort_key fst (map (\<lambda>(k, v). (k, encode v)) m))) = Inr xs"
    by (intro collect_ok_all) (fastforce)
  then show ?case by auto
qed simp_all

lemmas document_defs = root_document_def timestamp_document_def snapshot_document_def targets_document_def document_key_def

lemmas writer_defs = root_ser_def timestamp_role_ser_def snapshot_ser_def targets_ser_def key_ser_def key_val_ser_def
  role_keys_ser_def meta_file_ser_def target_file_ser_def delegations_ser_def delegated_role_ser_def flat_obj_def
  ser_map_def ser_list_def ser_option_def u64_ser_def usize_ser_def

lemmas written_ok_defs = tuf_root_ok_def timestamp_role_ok_def snapshot_ok_def targets_ok_def key_ok_def key_val_ok_def
  role_keys_ok_def meta_file_ok_def target_file_ok_def delegations_ok_def delegated_role_ok_def map_ok_def extra_ok_def
  btm_wf_def

lemma sample_documents_ok:
  "tuf_root_ok root_document" "timestamp_role_ok timestamp_document" "snapshot_ok snapshot_document"
  "targets_ok targets_document" "spec_supported ''1.0.31''"
  by (simp_all add: document_defs written_ok_defs meta_names_def spec_supported_def)

lemma sample_integral:
  "integral (root_ser root_document)" "integral (timestamp_role_ser timestamp_document)"
  "integral (snapshot_ser snapshot_document)" "integral (targets_ser targets_document)"
  by (simp_all add: document_defs writer_defs)

lemma sample_canonical: "integral v \<Longrightarrow> \<exists>c. to_canonical_bytes v = Inr c"
  using integral_canonical [of v] by (auto simp: to_canonical_bytes_def)

lemma sample_published:
  "published sample_documents Root_Role root_ser root_type root_spec_version tuf_root_ok [0]
     (sample_md root_document root_ser)"
  "published sample_documents Timestamp_Role timestamp_role_ser ts_type ts_spec_version timestamp_role_ok [1]
     (sample_md timestamp_document timestamp_role_ser)"
  "published sample_documents Snapshot_Role snapshot_ser snap_type snap_spec_version snapshot_ok [2]
     (sample_md snapshot_document snapshot_ser)"
  "published sample_documents Targets_Role targets_ser tg_type tg_spec_version targets_ok [3]
     (sample_md targets_document targets_ser)"
  using sample_integral [THEN sample_canonical] sample_documents_ok
  by (auto simp: published_def sample_documents_def sample_md_def Root_Role_def Timestamp_Role_def Snapshot_Role_def
      Targets_Role_def root_document_def timestamp_document_def snapshot_document_def targets_document_def)

subsection \<open>Property\<close>

text \<open>C33: a metadata file is read as it was written.  When the bytes parse as the JSON written for some
  signatures and a well-formed root, timestamp, snapshot or targets of its type and a supported
  specification, \<open>from_slice\<close> with the derived readers gives those signatures, that payload with
  every extra member, and the canonical bytes the signatures are over.\<close>

theorem metadata_json_roundtrip:
  assumes "serde_laws X"
  shows "(published X Root_Role root_ser root_type root_spec_version tuf_root_ok bs r
        \<longrightarrow> from_slice (tuf_of_serde X) Root_Role (de_root (tuf_of_serde X)) bs = Inr r)
    \<and> (published X Timestamp_Role timestamp_role_ser ts_type ts_spec_version timestamp_role_ok bs t
        \<longrightarrow> from_slice (tuf_of_serde X) Timestamp_Role (de_timestamp (tuf_of_serde X)) bs = Inr t)
    \<and> (published X Snapshot_Role snapshot_ser snap_type snap_spec_version snapshot_ok bs s
        \<longrightarrow> from_slice (tuf_of_serde X) Snapshot_Role (de_snapshot (tuf_of_serde X)) bs = Inr s)
    \<and> (published X Targets_Role targets_ser tg_type tg_spec_version targets_ok bs g
        \<longrightarrow> from_slice (tuf_of_serde X) Targets_Role (de_targets (tuf_of_serde X)) bs = Inr g)"
  using assms by (simp add: tuf_of_serde_simps head_members envelope_codec [OF tuf_root_codec.codec_axioms] envelope_codec [OF timestamp_role_codec.codec_axioms]
      envelope_codec [OF snapshot_codec.codec_axioms] envelope_codec [OF targets_codec.codec_axioms])

theorem metadata_json_roundtrip_witness:
  "from_slice (tuf_of_serde sample_documents) Root_Role (de_root (tuf_of_serde sample_documents)) [0]
     = Inr (sample_md root_document root_ser)
   \<and> from_slice (tuf_of_serde sample_documents) Timestamp_Role (de_timestamp (tuf_of_serde sample_documents)) [1]
     = Inr (sample_md timestamp_document timestamp_role_ser)
   \<and> from_slice (tuf_of_serde sample_documents) Snapshot_Role (de_snapshot (tuf_of_serde sample_documents)) [2]
     = Inr (sample_md snapshot_document snapshot_ser)
   \<and> from_slice (tuf_of_serde sample_documents) Targets_Role (de_targets (tuf_of_serde sample_documents)) [3]
     = Inr (sample_md targets_document targets_ser)"
  using metadata_json_roundtrip [OF sample_documents_laws] sample_published by blast

end
