(* ===== verification/Rekor_Json.thy ===== *)
theory Rekor_Json
  imports Tuf_Json Sign_Correct
begin

text \<open>
  The serde implementations of the crate sigstore-rekor (src/body.rs, src/entry.rs) and of the
  in-toto statement (sigstore-types/src/intoto.rs): how the bodies of log entries and the answers
  of a log are read from JSON, and how the entries submitted to it are written.  They make the
  parameters of \<open>Rekor_Entry\<close>, \<open>Rekor_Client\<close>, \<open>Pki\<close> and \<open>Signer\<close> concrete: \<open>bodies_of_serde\<close>,
  \<open>messages_of_serde\<close> and \<open>signer_of_serde\<close>.

  The records of \<open>Rekor_Entry\<close> hold the fields the code reads; the readers here take all members
  the structs declare, so a member that is missing or ill-typed is an error also where its value
  is not used.  As in \<open>Serde\<close>, of several wrong members the first field gives the error.
\<close>

subsection \<open>Combinators\<close>

text \<open>A struct with one field.\<close>

definition wrap_ser :: "string \<Rightarrow> json \<Rightarrow> json" where
  "wrap_ser k v = obj [(k, Some v)]"

definition wrap_de ::
  "'z serde_externals_scheme \<Rightarrow> string \<Rightarrow> (json \<Rightarrow> (string + 'a)) \<Rightarrow> json \<Rightarrow> (string + 'a)" where
  "wrap_de S k f = de_struct S [k] (required k f)"

text \<open>\<open>i64\<close>, a number that may be negative.\<close>

definition int_ser :: "int \<Rightarrow> json" where
  "int_ser i = JNumber (if i < 0 then NegInt i else PosInt (of_int i))"

definition int_de :: "'z serde_externals_scheme \<Rightarrow> json \<Rightarrow> (int, string) result" where
  "int_de S v =
     (case v of
        JNumber (PosInt n) \<Rightarrow>
          if unat n < 2 ^ 63 then Inr (int (unat n))
          else Inl (''invalid value: integer `'' @ fmt_nat (unat n) @ ''`, expected i64'')
      | JNumber (NegInt i) \<Rightarrow> Inr i
      | _ \<Rightarrow> Inl (invalid_type S ''i64'' v))"

text \<open>A \<open>HashMap\<close>: later members replace earlier ones, and \<open>order\<close> is the order the map iterates.\<close>

definition hash_map_de :: "'z serde_externals_scheme \<Rightarrow> ((string \<times> 'a) list \<Rightarrow> (string \<times> 'a) list)
    \<Rightarrow> (json \<Rightarrow> (string + 'a)) \<Rightarrow> json \<Rightarrow> ((string \<times> 'a) list, string) result" where
  "hash_map_de S order f v = map_sum id order (de_map S f v)"

subsection \<open>Entry bodies (body.rs)\<close>

text \<open>\<open>HashValue\<close>, \<open>EnvelopeHash\<close> and \<open>PayloadHashV001\<close> have the same form.\<close>

definition hash_value_de :: "'z serde_externals_scheme \<Rightarrow> json \<Rightarrow> (hash_algorithm \<times> string, string) result" where
  "hash_value_de S = de_struct S [''algorithm'', ''value''] (\<lambda>m.
     and_then (required ''algorithm'' (hash_algorithm_de S) m) (\<lambda>alg.
     and_then (required ''value'' (de_string S) m) (\<lambda>val. Inr (alg, val))))"

definition hashedrekord_v001_signature_de ::
  "'z serde_externals_scheme \<Rightarrow> json \<Rightarrow> (signature_bytes \<times> bytes, string) result" where
  "hashedrekord_v001_signature_de S = de_struct S [''content'', ''publicKey''] (\<lambda>m.
     and_then (required ''content'' (newtype_de S) m) (\<lambda>sg.
     and_then (required ''publicKey'' (wrap_de S ''content'' (newtype_de S)) m) (\<lambda>pem. Inr (sg, pem))))"

definition hashedrekord_v001_de :: "'z serde_externals_scheme \<Rightarrow> json \<Rightarrow> (hashedrekord_v001, string) result" where
  "hashedrekord_v001_de S = wrap_de S ''spec'' (de_struct S [''data'', ''signature''] (\<lambda>m.
     and_then (required ''data'' (wrap_de S ''hash'' (hash_value_de S)) m) (\<lambda>(alg, val).
     and_then (required ''signature'' (hashedrekord_v001_signature_de S) m) (\<lambda>(sg, pem).
       Inr \<lparr>h1_algorithm = alg, h1_value = val, h1_signature = sg, h1_public_key = pem\<rparr>))))"

definition hashedrekord_v002_verifier_de ::
  "'z serde_externals_scheme \<Rightarrow> json \<Rightarrow> (der_certificate option \<times> der_public_key option, string) result" where
  "hashedrekord_v002_verifier_de S = de_struct S [''x509Certificate'', ''publicKey''] (\<lambda>m.
     and_then (opt_field ''x509Certificate'' (wrap_de S ''rawBytes'' (newtype_de S)) m) (\<lambda>cert.
     and_then (opt_field ''publicKey'' (wrap_de S ''rawBytes'' (newtype_de S)) m) (\<lambda>key. Inr (cert, key))))"

definition hashedrekord_v002_signature_de ::
  "'z serde_externals_scheme \<Rightarrow> json \<Rightarrow> (signature_bytes \<times> der_certificate option \<times> der_public_key option, string) result" where
  "hashedrekord_v002_signature_de S = de_struct S [''content'', ''verifier''] (\<lambda>m.
     and_then (required ''content'' (newtype_de S) m) (\<lambda>sg.
     and_then (required ''verifier'' (hashedrekord_v002_verifier_de S) m) (\<lambda>(cert, key). Inr (sg, cert, key))))"

definition hashedrekord_v002_de :: "'z serde_externals_scheme \<Rightarrow> json \<Rightarrow> (hashedrekord_v002, string) result" where
  "hashedrekord_v002_de S =
     wrap_de S ''spec'' (wrap_de S ''hashedRekordV002'' (de_struct S [''data'', ''signature''] (\<lambda>m.
     and_then (required ''data'' (wrap_de S ''digest'' (base64_bytes_de S)) m) (\<lambda>d.
     and_then (required ''signature'' (hashedrekord_v002_signature_de S) m) (\<lambda>(sg, cert, key).
       Inr \<lparr>h2_digest = d, h2_signature = sg, h2_certificate = cert, h2_public_key = key\<rparr>)))))"

definition dsse_v001_signature_de :: "'z serde_externals_scheme \<Rightarrow> json \<Rightarrow> (dsse_v001_signature, string) result" where
  "dsse_v001_signature_de S = de_struct S [''signature'', ''verifier''] (\<lambda>m.
     and_then (required ''signature'' (newtype_de S) m) (\<lambda>sg.
     and_then (required ''verifier'' (newtype_de S) m) (\<lambda>pem.
       Inr \<lparr>d1_signature = sg, d1_verifier = pem\<rparr>)))"

definition dsse_v001_de :: "'z serde_externals_scheme \<Rightarrow> json \<Rightarrow> (dsse_v001, string) result" where
  "dsse_v001_de S = wrap_de S ''spec'' (de_struct S [''envelopeHash'', ''payloadHash'', ''signatures''] (\<lambda>m.
     and_then (required ''envelopeHash'' (hash_value_de S) m) (\<lambda>(ealg, eval).
     and_then (required ''payloadHash'' (hash_value_de S) m) (\<lambda>(palg, pval).
     and_then (required ''signatures'' (de_list S (dsse_v001_signature_de S)) m) (\<lambda>sgs.
       Inr \<lparr>d1_envelope_hash = eval, d1_payload_hash = pval, d1_signatures = sgs\<rparr>)))))"

definition payload_hash_de :: "'z serde_externals_scheme \<Rightarrow> json \<Rightarrow> (hash_algorithm \<times> bytes, string) result" where
  "payload_hash_de S = de_struct S [''algorithm'', ''digest''] (\<lambda>m.
     and_then (required ''algorithm'' (hash_algorithm_de S) m) (\<lambda>alg.
     and_then (required ''digest'' (base64_bytes_de S) m) (\<lambda>d. Inr (alg, d))))"

definition dsse_v002_verifier_de :: "'z serde_externals_scheme \<Rightarrow> json \<Rightarrow> (string \<times> der_certificate, string) result" where
  "dsse_v002_verifier_de S = de_struct S [''keyDetails'', ''x509Certificate''] (\<lambda>m.
     and_then (required ''keyDetails'' (de_string S) m) (\<lambda>details.
     and_then (required ''x509Certificate'' (wrap_de S ''rawBytes'' (newtype_de S)) m) (\<lambda>cert. Inr (details, cert))))"

definition dsse_v002_signature_de ::
  "'z serde_externals_scheme \<Rightarrow> json \<Rightarrow> (signature_bytes \<times> string \<times> der_certificate, string) result" where
  "dsse_v002_signature_de S = de_struct S [''content'', ''verifier''] (\<lambda>m.
     and_then (required ''content'' (newtype_de S) m) (\<lambda>sg.
     and_then (required ''verifier'' (dsse_v002_verifier_de S) m) (\<lambda>(details, cert). Inr (sg, details, cert))))"

definition dsse_v002_de :: "'z serde_externals_scheme \<Rightarrow> json \<Rightarrow> (dsse_v002, string) result" where
  "dsse_v002_de S =
     wrap_de S ''spec'' (wrap_de S ''dsseV002'' (de_struct S [''payloadHash'', ''signatures''] (\<lambda>m.
     and_then (required ''payloadHash'' (payload_hash_de S) m) (\<lambda>(alg, d).
     and_then (required ''signatures'' (de_list S (dsse_v002_signature_de S)) m) (\<lambda>sgs.
       Inr \<lparr>d2_payload_digest = d, d2_signatures = sgs\<rparr>)))))"

definition intoto_envelope_de :: "'z serde_externals_scheme \<Rightarrow> json \<Rightarrow> (intoto_v002, string) result" where
  "intoto_envelope_de S = de_struct S [''payload'', ''signatures''] (\<lambda>m.
     and_then (required ''payload'' (newtype_de S) m) (\<lambda>p.
     and_then (required ''signatures'' (de_list S (wrap_de S ''sig'' (newtype_de S))) m) (\<lambda>sgs.
       Inr \<lparr>it_payload = p, it_signatures = sgs\<rparr>)))"

definition intoto_v002_de :: "'z serde_externals_scheme \<Rightarrow> json \<Rightarrow> (intoto_v002, string) result" where
  "intoto_v002_de S = wrap_de S ''spec'' (wrap_de S ''content'' (wrap_de S ''envelope'' (intoto_envelope_de S)))"

subsection \<open>Statements (intoto.rs)\<close>

definition digest_set_ser :: "digest_set \<Rightarrow> json" where
  "digest_set_ser d = obj
     [(''sha256'', opt_member JString (dg_sha256 d)), (''sha512'', opt_member JString (dg_sha512 d))]"

definition digest_set_de :: "'z serde_externals_scheme \<Rightarrow> json \<Rightarrow> (digest_set, string) result" where
  "digest_set_de S = de_struct S [''sha256'', ''sha512''] (\<lambda>m.
     and_then (opt_field ''sha256'' (de_string S) m) (\<lambda>a.
     and_then (opt_field ''sha512'' (de_string S) m) (\<lambda>b. Inr \<lparr>dg_sha256 = a, dg_sha512 = b\<rparr>)))"

definition subject_ser :: "subject \<Rightarrow> json" where
  "subject_ser s = obj
     [(''name'', Some (JString (subj_name s))), (''digest'', Some (digest_set_ser (subj_digest s)))]"

definition subject_de :: "'z serde_externals_scheme \<Rightarrow> json \<Rightarrow> (subject, string) result" where
  "subject_de S = de_struct S [''name'', ''digest''] (\<lambda>m.
     and_then (defaulted '''' ''name'' (de_string S) m) (\<lambda>nm.
     and_then (required ''digest'' (digest_set_de S) m) (\<lambda>d. Inr \<lparr>subj_name = nm, subj_digest = d\<rparr>)))"

definition statement_ser :: "statement \<Rightarrow> json" where
  "statement_ser st = obj
     [(''_type'', Some (JString (st_type st))), (''subject'', Some (ser_list subject_ser (st_subject st))),
      (''predicateType'', Some (JString (predicate_type st))), (''predicate'', Some (st_predicate st))]"

definition statement_de :: "'z serde_externals_scheme \<Rightarrow> json \<Rightarrow> (statement, string) result" where
  "statement_de S = de_struct S [''_type'', ''subject'', ''predicateType'', ''predicate''] (\<lambda>m.
     and_then (required ''_type'' (de_string S) m) (\<lambda>ty.
     and_then (required ''subject'' (de_list S (subject_de S)) m) (\<lambda>subs.
     and_then (required ''predicateType'' (de_string S) m) (\<lambda>pty.
     and_then (required ''predicate'' Inr m) (\<lambda>pred.
       Inr \<lparr>st_type = ty, st_subject = subs, predicate_type = pty, st_predicate = pred\<rparr>)))))"

subsection \<open>Submitted entries (entry.rs)\<close>

definition hashed_rekord_hash_ser :: "hash_algorithm \<Rightarrow> string \<Rightarrow> json" where
  "hashed_rekord_hash_ser alg val = obj
     [(''algorithm'', Some (hash_algorithm_lowercase_ser alg)), (''value'', Some (JString val))]"

definition hashed_rekord_signature_ser :: "'z serde_externals_scheme \<Rightarrow> signature_bytes \<Rightarrow> bytes \<Rightarrow> json" where
  "hashed_rekord_signature_ser S sg pem = obj
     [(''content'', Some (newtype_ser S sg)), (''publicKey'', Some (wrap_ser ''content'' (newtype_ser S pem)))]"

definition hashed_rekord_ser :: "'z serde_externals_scheme \<Rightarrow> hashed_rekord \<Rightarrow> json" where
  "hashed_rekord_ser S q = obj
     [(''apiVersion'', Some (JString (hr_api_version q))), (''kind'', Some (JString (hr_kind q))),
      (''spec'', Some (obj
         [(''data'', Some (wrap_ser ''hash'' (hashed_rekord_hash_ser (hr_algorithm q) (hr_value q)))),
          (''signature'', Some (hashed_rekord_signature_ser S (hr_signature q) (hr_public_key q)))]))]"

text \<open>\<open>HashedRekordVerifierV2\<close> and \<open>DsseVerifierV2\<close>, with \<open>HashedRekordPublicKeyV2\<close> for both options.\<close>

definition verifier_v2_ser :: "'z serde_externals_scheme \<Rightarrow> string \<Rightarrow> bytes option \<Rightarrow> bytes option \<Rightarrow> json" where
  "verifier_v2_ser S details cert key = obj
     [(''keyDetails'', Some (JString details)),
      (''x509Certificate'', opt_member (\<lambda>b. wrap_ser ''rawBytes'' (newtype_ser S b)) cert),
      (''publicKey'', opt_member (\<lambda>b. wrap_ser ''rawBytes'' (newtype_ser S b)) key)]"

definition hashed_rekord_signature_v2_ser :: "'z serde_externals_scheme \<Rightarrow> hashed_rekord_v2 \<Rightarrow> json" where
  "hashed_rekord_signature_v2_ser S q = obj
     [(''content'', Some (newtype_ser S (hr2_signature q))),
      (''verifier'', Some (verifier_v2_ser S (hr2_key_details q) (hr2_certificate q) (hr2_public_key q)))]"

definition hashed_rekord_v2_ser :: "'z serde_externals_scheme \<Rightarrow> hashed_rekord_v2 \<Rightarrow> json" where
  "hashed_rekord_v2_ser S q = wrap_ser ''hashedRekordRequestV002'' (obj
     [(''digest'', Some (sha256_ser S (hr2_digest q))), (''signature'', Some (hashed_rekord_signature_v2_ser S q))])"

text \<open>The signatures of a \<open>DsseEntry\<close> are always empty, and so skipped.\<close>

definition dsse_entry_ser :: "dsse_entry \<Rightarrow> json" where
  "dsse_entry_ser q = obj
     [(''apiVersion'', Some (JString (de_api_version q))), (''kind'', Some (JString (de_kind q))),
      (''spec'', Some (obj
         [(''proposedContent'', Some (obj
             [(''envelope'', Some (JString (de_envelope q))),
              (''verifiers'', Some (ser_list JString (de_verifiers q)))])),
          (''signatures'', skip_if True (JArray []))]))]"

definition dsse_entry_v2_ser :: "'z serde_externals_scheme \<Rightarrow> dsse_entry_v2 \<Rightarrow> json" where
  "dsse_entry_v2_ser S q = wrap_ser ''dsseRequestV002'' (obj
     [(''envelope'', Some (dsse_envelope_ser S (de2_envelope q))),
      (''verifiers'', Some (ser_list (\<lambda>v. verifier_v2_ser S (dv_key_details v) (dv_certificate v) (dv_public_key v))
         (de2_verifiers q)))])"

definition search_index_ser :: "search_index \<Rightarrow> json" where
  "search_index_ser q = obj
     [(''email'', opt_member JString (sx_email q)),
      (''public_key'', opt_member (\<lambda>(format, content). obj
         [(''format'', Some (JString format)), (''content'', Some (JString content))]) (sx_public_key q)),
      (''hash'', opt_member JString (sx_hash q))]"

subsection \<open>Answers of a log (entry.rs)\<close>

definition rekor_proof_de :: "'z serde_externals_scheme \<Rightarrow> json \<Rightarrow> (rekor_inclusion_proof, string) result" where
  "rekor_proof_de S = de_struct S [''checkpoint'', ''hashes'', ''logIndex'', ''rootHash'', ''treeSize''] (\<lambda>m.
     and_then (required ''checkpoint'' (de_string S) m) (\<lambda>c.
     and_then (required ''hashes'' (de_list S (de_string S)) m) (\<lambda>hs.
     and_then (required ''logIndex'' (int_de S) m) (\<lambda>i.
     and_then (required ''rootHash'' (de_string S) m) (\<lambda>r.
     and_then (required ''treeSize'' (int_de S) m) (\<lambda>n.
       Inr \<lparr>rp_checkpoint = c, rp_hashes = hs, rp_log_index = i, rp_root_hash = r, rp_tree_size = n\<rparr>))))))"

definition log_verification_de :: "'z serde_externals_scheme \<Rightarrow> json \<Rightarrow> (log_verification, string) result" where
  "log_verification_de S = de_struct S [''inclusionProof'', ''signedEntryTimestamp''] (\<lambda>m.
     and_then (opt_field ''inclusionProof'' (rekor_proof_de S) m) (\<lambda>p.
     and_then (opt_field ''signedEntryTimestamp'' (newtype_de S) m) (\<lambda>t.
       Inr \<lparr>lv_proof = p, lv_set = t\<rparr>)))"

text \<open>The identifier is skipped: the member of the answer that holds the entry names it.\<close>

definition log_entry_de :: "'z serde_externals_scheme \<Rightarrow> json \<Rightarrow> (log_entry, string) result" where
  "log_entry_de S = de_struct S [''body'', ''integratedTime'', ''logID'', ''logIndex'', ''verification''] (\<lambda>m.
     and_then (required ''body'' (newtype_de S) m) (\<lambda>b.
     and_then (required ''integratedTime'' (int_de S) m) (\<lambda>t.
     and_then (required ''logID'' (de_string S) m) (\<lambda>lid.
     and_then (required ''logIndex'' (int_de S) m) (\<lambda>i.
     and_then (opt_field ''verification'' (log_verification_de S) m) (\<lambda>v.
       Inr \<lparr>le_uuid = [], le_body = b, le_integrated_time = t, le_log_id = lid, le_log_index = i,
            le_verification = v\<rparr>))))))"

definition inactive_shard_ser :: "inactive_shard \<Rightarrow> json" where
  "inactive_shard_ser s = obj
     [(''rootHash'', Some (JString (is_root_hash s))), (''signedTreeHead'', Some (JString (is_signed_tree_head s))),
      (''treeID'', Some (JString (is_tree_id s))), (''treeSize'', Some (int_ser (is_tree_size s)))]"

definition inactive_shard_de :: "'z serde_externals_scheme \<Rightarrow> json \<Rightarrow> (inactive_shard, string) result" where
  "inactive_shard_de S = de_struct S [''rootHash'', ''signedTreeHead'', ''treeID'', ''treeSize''] (\<lambda>m.
     and_then (required ''rootHash'' (de_string S) m) (\<lambda>r.
     and_then (required ''signedTreeHead'' (de_string S) m) (\<lambda>h.
     and_then (required ''treeID'' (de_string S) m) (\<lambda>t.
     and_then (required ''treeSize'' (int_de S) m) (\<lambda>n.
       Inr \<lparr>is_root_hash = r, is_signed_tree_head = h, is_tree_id = t, is_tree_size = n\<rparr>)))))"

definition log_info_ser :: "log_info \<Rightarrow> json" where
  "log_info_ser l = obj
     [(''rootHash'', Some (JString (li_root_hash l))), (''signedTreeHead'', Some (JString (li_signed_tree_head l))),
      (''treeID'', Some (JString (li_tree_id l))), (''treeSize'', Some (int_ser (li_tree_size l))),
      (''inactiveShards'', Some (ser_list inactive_shard_ser (li_inactive_shards l)))]"

definition log_info_de :: "'z serde_externals_scheme \<Rightarrow> json \<Rightarrow> (log_info, string) result" where
  "log_info_de S = de_struct S [''rootHash'', ''signedTreeHead'', ''treeID'', ''treeSize'', ''inactiveShards''] (\<lambda>m.
     and_then (required ''rootHash'' (de_string S) m) (\<lambda>r.
     and_then (required ''signedTreeHead'' (de_string S) m) (\<lambda>h.
     and_then (required ''treeID'' (de_string S) m) (\<lambda>t.
     and_then (required ''treeSize'' (int_de S) m) (\<lambda>n.
     and_then (defaulted [] ''inactiveShards'' (de_list S (inactive_shard_de S)) m) (\<lambda>shards.
       Inr \<lparr>li_root_hash = r, li_signed_tree_head = h, li_tree_id = t, li_tree_size = n,
            li_inactive_shards = shards\<rparr>))))))"

definition proof_v2_de :: "'z serde_externals_scheme \<Rightarrow> json \<Rightarrow> (inclusion_proof_v2, string) result" where
  "proof_v2_de S = de_struct S [''logIndex'', ''rootHash'', ''treeSize'', ''hashes'', ''checkpoint''] (\<lambda>m.
     and_then (required ''logIndex'' (de_string S) m) (\<lambda>i.
     and_then (required ''rootHash'' (sha256_de S) m) (\<lambda>r.
     and_then (required ''treeSize'' (de_string S) m) (\<lambda>n.
     and_then (required ''hashes'' (de_list S (sha256_de S)) m) (\<lambda>hs.
     and_then (required ''checkpoint'' (checkpoint_de S) m) (\<lambda>c.
       Inr \<lparr>p2_log_index = i, p2_root_hash = r, p2_tree_size = n, p2_hashes = hs, p2_checkpoint = c\<rparr>))))))"

definition log_entry_v2_de :: "'z serde_externals_scheme \<Rightarrow> json \<Rightarrow> (log_entry_v2, string) result" where
  "log_entry_v2_de S = de_struct S
     [''logIndex'', ''logId'', ''kindVersion'', ''integratedTime'', ''inclusionPromise'', ''inclusionProof'',
      ''canonicalizedBody''] (\<lambda>m.
     and_then (required ''logIndex'' (de_string S) m) (\<lambda>i.
     and_then (required ''logId'' (log_id_de S) m) (\<lambda>lid.
     and_then (required ''kindVersion'' (kind_version_de S) m) (\<lambda>kv.
     and_then (required ''integratedTime'' (de_string S) m) (\<lambda>t.
     and_then (opt_field ''inclusionPromise'' (promise_de S) m) (\<lambda>p.
     and_then (opt_field ''inclusionProof'' (proof_v2_de S) m) (\<lambda>q.
     and_then (required ''canonicalizedBody'' (newtype_de S) m) (\<lambda>b.
       Inr \<lparr>e2_log_index = i, e2_log_id = lid, e2_integrated_time = t, e2_promise = p, e2_proof = q,
            e2_body = b\<rparr>))))))))"
subsection \<open>The parameters made concrete\<close>

text \<open>\<open>from_str\<close>, \<open>from_slice\<close> and \<open>to_vec\<close> of serde\_json.\<close>

definition read_text :: "'z serde_externals_scheme \<Rightarrow> (json \<Rightarrow> (string + 'a)) \<Rightarrow> string \<Rightarrow> (string + 'a)" where
  "read_text S f t = and_then (json_read S t) f"

definition read_bytes :: "'z serde_externals_scheme \<Rightarrow> (json \<Rightarrow> (string + 'a)) \<Rightarrow> bytes \<Rightarrow> (string + 'a)" where
  "read_bytes S f b = and_then (json_parse S b) f"

definition write_bytes :: "'z serde_externals_scheme \<Rightarrow> json \<Rightarrow> (bytes, string) result" where
  "write_bytes S v = map_sum id as_bytes (json_write S v)"

definition bodies_of_serde :: "'y serde_externals_scheme \<Rightarrow> 'z rekor_externals_scheme \<Rightarrow> 'z rekor_externals_scheme" where
  "bodies_of_serde S X = X
     \<lparr>de_hashedrekord_v001 := read_text S (hashedrekord_v001_de S),
      de_hashedrekord_v002 := read_text S (hashedrekord_v002_de S),
      de_dsse_v001 := read_text S (dsse_v001_de S),
      de_dsse_v002 := read_text S (dsse_v002_de S),
      de_intoto_v002 := read_text S (intoto_v002_de S)\<rparr>"

definition messages_of_serde :: "'y serde_externals_scheme \<Rightarrow> ((string \<times> log_entry) list \<Rightarrow> (string \<times> log_entry) list)
    \<Rightarrow> 'z rekor_client_externals_scheme \<Rightarrow> 'z rekor_client_externals_scheme" where
  "messages_of_serde S order X = X
     \<lparr>ser_hashed_rekord := \<lambda>q. write_bytes S (hashed_rekord_ser S q),
      ser_hashed_rekord_v2 := \<lambda>q. write_bytes S (hashed_rekord_v2_ser S q),
      ser_dsse_entry := \<lambda>q. write_bytes S (dsse_entry_ser q),
      ser_dsse_entry_v2 := \<lambda>q. write_bytes S (dsse_entry_v2_ser S q),
      ser_search_index := \<lambda>q. write_bytes S (search_index_ser q),
      ser_log_info := \<lambda>l. write_bytes S (log_info_ser l),
      de_log_info := read_bytes S (log_info_de S),
      de_log_entries := read_bytes S (hash_map_de S order (log_entry_de S)),
      de_log_entry_v2 := read_text S (log_entry_v2_de S),
      de_string_list := read_bytes S (de_list S (de_string S))\<rparr>"

text \<open>The envelope is written with \<open>expect\<close>, and writing strings does not fail; the text is empty if it did.\<close>

definition signer_of_serde :: "'y serde_externals_scheme \<Rightarrow> ((string \<times> log_entry) list \<Rightarrow> (string \<times> log_entry) list)
    \<Rightarrow> 'z signer_externals_scheme \<Rightarrow> 'z signer_externals_scheme" where
  "signer_of_serde S order X = messages_of_serde S order (bodies_of_serde S X)
     \<lparr>de_statement := read_text S (statement_de S),
      ser_statement := \<lambda>st. write_bytes S (statement_ser st),
      ser_envelope := \<lambda>e. case json_write S (dsse_envelope_ser S e) of Inr t \<Rightarrow> t | Inl err \<Rightarrow> []\<rparr>"

subsection \<open>What is read back\<close>

interpretation int_codec: codec int_ser "int_de S" is_i64 for S
proof unfold_locales
  fix i :: int assume i: "is_i64 i"
  show "int_de S (int_ser i) = Inr i"
  proof (cases "i < 0")
    case False
    then have "uint (word_of_int i :: u64) = i"
      using i by (simp add: is_i64_def uint_word_of_int)
    then have "int (unat (word_of_int i :: u64)) = i" by simp
    moreover from this i have "unat (word_of_int i :: u64) < 2 ^ 63"
      unfolding is_i64_def by (metis of_nat_less_iff of_nat_numeral of_nat_power)
    ultimately show ?thesis using False by (simp add: int_ser_def int_de_def)
  qed (simp add: int_ser_def int_de_def)
qed (simp add: int_ser_def)

interpretation digest_set_codec: codec digest_set_ser "digest_set_de S" "\<lambda>d. serde_laws S" for S
  by unfold_locales (auto simp: digest_set_ser_def digest_set_de_def read_members str_codec.opt_member_codec option.pred_True)

interpretation subject_codec: codec subject_ser "subject_de S" "\<lambda>s. serde_laws S" for S
  by unfold_locales (simp_all add: subject_ser_def subject_de_def read_members str_codec.dec_enc digest_set_codec.dec_enc)

interpretation statement_codec: codec statement_ser "statement_de S" "\<lambda>st. serde_laws S" for S
  by unfold_locales
    (simp_all add: statement_ser_def statement_de_def read_members str_codec.dec_enc subject_codec.list_codec list_all_iff)

interpretation shard_codec: codec inactive_shard_ser "inactive_shard_de S"
    "\<lambda>s. serde_laws S \<and> is_i64 (is_tree_size s)" for S
  by unfold_locales
    (simp_all add: inactive_shard_ser_def inactive_shard_de_def read_members str_codec.dec_enc int_codec.dec_enc)

interpretation log_info_codec: codec log_info_ser "log_info_de S"
    "\<lambda>l. serde_laws S \<and> is_i64 (li_tree_size l) \<and> list_all (\<lambda>s. is_i64 (is_tree_size s)) (li_inactive_shards l)" for S
  by unfold_locales
    (simp_all add: log_info_ser_def log_info_de_def read_members str_codec.dec_enc int_codec.dec_enc
      shard_codec.list_codec list_all_iff)

subsection \<open>Reading a document whose members were reordered\<close>

text \<open>
  A log stores the canonical JSON of an entry, with the members of every object sorted.  Such a
  document is the value written up to the order of members; a reader \<open>reads\<close> a value as a result
  when it gives that result for all of them.
\<close>

definition same_json :: "json \<Rightarrow> json \<Rightarrow> bool" where
  "same_json w v \<longleftrightarrow> json_wf w \<and> sorted_json w = sorted_json v"

definition reads :: "(json \<Rightarrow> (string + 'a)) \<Rightarrow> json \<Rightarrow> 'a \<Rightarrow> bool" where
  "reads f v x \<longleftrightarrow> (\<forall>w. same_json w v \<longrightarrow> f w = Inr x)"

lemma readsD: "reads f v x \<Longrightarrow> same_json w v \<Longrightarrow> f w = Inr x"
  by (simp add: reads_def)

lemma same_json_string: "same_json w (JString s) \<longleftrightarrow> w = JString s"
  by (cases w) (auto simp: same_json_def)

lemma same_json_array: "same_json w (JArray vs) \<longleftrightarrow> (\<exists>ws. w = JArray ws \<and> list_all2 same_json ws vs)"
proof -
  have "list_all json_wf ws \<and> map sorted_json ws = map sorted_json vs \<longleftrightarrow> list_all2 same_json ws vs" for ws
    by (auto simp: list_all2_conv_all_nth list_all_length same_json_def list_eq_iff_nth_eq)
  then show ?thesis by (cases w) (auto simp: same_json_def)
qed

lemma same_json_option:
  "map_option sorted_json a = map_option sorted_json b \<Longrightarrow> pred_option json_wf a \<Longrightarrow> rel_option same_json a b"
  by (cases a; cases b) (auto simp: same_json_def)

lemma same_json_obj:
  assumes "same_json w (obj fs)" "distinct (map fst fs)"
  obtains m where "w = JObject m" "distinct (map fst m)"
    "\<And>k. rel_option same_json (map_of m k) (Option.bind (map_of fs k) (\<lambda>x. x))"
proof -
  let ?s = "map (\<lambda>(k, v). (k, sorted_json v))"
  from assms(1) obtain m where w: "w = JObject m" and wf: "distinct (map fst m)" "list_all json_wf (map snd m)"
    and eq: "sort_key fst (?s m) = sort_key fst (?s (present fs))"
    by (cases w) (auto simp: same_json_def obj_def)
  have fst_s: "map fst (?s l) = map fst l" for l by (induction l) auto
  from eq have "set (?s m) = set (?s (present fs))" by (metis set_sort)
  with wf(1) present_distinct [OF assms(2)] have "map_of (?s m) = map_of (?s (present fs))"
    by (subst map_of_inject_set) (simp_all only: fst_s)
  from fun_cong [OF this] have "map_option sorted_json (map_of m k) = map_option sorted_json (map_of (present fs) k)" for k
    by (simp add: map_of_map)
  moreover have "pred_option json_wf (map_of m k)" for k
    using wf(2) by (cases "map_of m k") (force simp: list_all_iff dest: map_of_SomeD)+
  ultimately have "rel_option same_json (map_of m k) (map_of (present fs) k)" for k
    by (rule same_json_option)
  with present_map_of [OF assms(2)] w wf(1) that show ?thesis by metis
qed

text \<open>
  How the reader of a struct sees the members of an object that was written as \<open>fs\<close>.  The rules
  \<open>reads_intros\<close> follow the reader from field to field.
\<close>

definition member_reads :: "(string \<Rightarrow> json option) \<Rightarrow> string list \<Rightarrow> (string \<times> json option) list \<Rightarrow> bool" where
  "member_reads m names fs \<longleftrightarrow>
     (\<forall>k \<in> set names. rel_option same_json (m k) (Option.bind (map_of fs k) (\<lambda>x. x)))"

definition written :: "(string \<times> json option) list \<Rightarrow> string \<Rightarrow> json \<Rightarrow> bool" where
  "written fs k v \<longleftrightarrow> map_of fs k = Some (Some v)"

lemma written_here: "written ((k, Some v) # fs) k v"
  by (simp add: written_def)

lemma written_next: "k \<noteq> k' \<Longrightarrow> written fs k v \<Longrightarrow> written ((k', x) # fs) k v"
  by (simp add: written_def)

lemma reads_struct:
  assumes "serde_laws S" "distinct (map fst fs)" "\<And>m. member_reads m names fs \<Longrightarrow> f m = Inr x"
  shows "reads (de_struct S names f) (obj fs) x"
  unfolding reads_def
proof (intro allI impI)
  fix w assume w: "same_json w (obj fs)"
  then obtain m where m: "w = JObject m" "distinct (map fst m)"
    "\<And>k. rel_option same_json (map_of m k) (Option.bind (map_of fs k) (\<lambda>x. x))"
    using assms(2) by (rule same_json_obj) blast
  have "f (\<lambda>k. if k \<in> set names then map_of m k else None) = Inr x"
    by (rule assms(3)) (simp add: member_reads_def m(3))
  then show "de_struct S names f w = Inr x"
    by (simp add: de_struct_def m(1) serde_laws_members [OF assms(1) m(2)])
qed

lemma member_some:
  "member_reads m names fs \<Longrightarrow> k \<in> set names \<Longrightarrow> written fs k v \<Longrightarrow> \<exists>w. m k = Some w \<and> same_json w v"
  by (auto simp: member_reads_def option_rel_Some2 written_def dest!: bspec [where x = k])

lemma member_none:
  "member_reads m names fs \<Longrightarrow> k \<in> set names \<Longrightarrow> map_of fs k = Some None \<Longrightarrow> m k = None"
  by (auto simp: member_reads_def dest!: bspec [where x = k])

lemma then_required:
  assumes "member_reads m names fs" "k \<in> set names" "written fs k v" "reads f v x" "g x = Inr y"
  shows "and_then (required k f m) g = Inr y"
  using member_some [OF assms(1-3)] assms(4,5) by (auto simp: required_def reads_def)

lemma just_required:
  assumes "member_reads m names fs" "k \<in> set names" "written fs k v" "reads f v x"
  shows "required k f m = Inr x"
  using member_some [OF assms(1-3)] assms(4) by (auto simp: required_def reads_def)

text \<open>An optional member is read as present when it is not written as \<open>null\<close>.\<close>

lemma then_present:
  assumes "member_reads m names fs" "k \<in> set names" "written fs k v" "reads f v x" "sorted_json v \<noteq> JNull"
    "g (Some x) = Inr y"
  shows "and_then (opt_field k f m) g = Inr y"
proof -
  from member_some [OF assms(1-3)] obtain w where "m k = Some w" "same_json w v" by blast
  with assms(4-6) have "m k = Some w" "w \<noteq> JNull" "f w = Inr x" by (auto simp: same_json_def reads_def)
  with assms(6) show ?thesis by (simp add: opt_field_def de_option_def)
qed

lemma then_absent:
  assumes "member_reads m names fs" "k \<in> set names" "map_of fs k = None \<or> map_of fs k = Some None" "g None = Inr y"
  shows "and_then (opt_field k f m) g = Inr y"
  using assms by (auto simp: member_reads_def opt_field_def dest!: bspec [where x = k])

lemma reads_wrap: "serde_laws S \<Longrightarrow> reads f v x \<Longrightarrow> reads (wrap_de S k f) (wrap_ser k v) x"
  unfolding wrap_de_def wrap_ser_def by (rule reads_struct) (auto intro: just_required written_here)

lemma reads_string: "reads (de_string S) (JString s) s"
  by (simp add: reads_def same_json_string de_string_def)

lemma reads_newtype: "serde_laws S \<Longrightarrow> reads (newtype_de S) (newtype_ser S b) b"
  using newtype_codec.dec_enc [of S b] by (simp add: reads_def newtype_ser_def same_json_string)

lemma reads_base64: "serde_laws S \<Longrightarrow> reads (base64_bytes_de S) (base64_bytes_ser S b) b"
  using base64_bytes_codec.dec_enc [of S b] by (simp add: reads_def base64_bytes_ser_def same_json_string)

lemma reads_algorithm: "reads (hash_algorithm_de S) (hash_algorithm_lowercase_ser h) h"
  by (simp add: reads_def same_json_string hash_algorithm_de_def hash_algorithm_lowercase_ser_def de_string_def
      from_str_flexible_roundtrip)

lemma reads_list:
  assumes "list_all2 (reads f) vs xs"
  shows "reads (de_list S f) (JArray vs) xs"
  unfolding reads_def
proof (intro allI impI)
  fix w assume "same_json w (JArray vs)"
  then obtain ws where w: "w = JArray ws" "list_all2 same_json ws vs" by (auto simp: same_json_array)
  from w(2) assms have "collect_ok (map f ws) = Inr xs"
    by (induction ws vs arbitrary: xs rule: list_all2_induct) (auto simp: list_all2_Cons1 reads_def)
  with w(1) show "de_list S f w = Inr xs" by (simp add: de_list_def)
qed

lemmas reads_intros = reads_newtype reads_base64 reads_algorithm reads_string reads_wrap reads_struct
  then_required just_required written_here written_next refl

subsection \<open>Submitted entries are read back from the log\<close>

lemma reads_hash_value:
  assumes "serde_laws S"
  shows "reads (hash_value_de S) (hashed_rekord_hash_ser alg val) (alg, val)"
  unfolding hash_value_de_def hashed_rekord_hash_ser_def
  by (rule reads_intros assms | assumption | simp)+

lemma reads_hashed_rekord_signature:
  assumes "serde_laws S"
  shows "reads (hashedrekord_v001_signature_de S) (hashed_rekord_signature_ser S sg pem) (sg, pem)"
  unfolding hashedrekord_v001_signature_de_def hashed_rekord_signature_ser_def
  by (rule reads_intros assms | assumption | simp)+


text \<open>A hashedrekord request of version 1 is stored as it is, and read as an entry body.\<close>

lemma reads_hashed_rekord:
  assumes "serde_laws S"
  shows "reads (hashedrekord_v001_de S) (hashed_rekord_ser S q)
    \<lparr>h1_algorithm = hr_algorithm q, h1_value = hr_value q, h1_signature = hr_signature q, h1_public_key = hr_public_key q\<rparr>"
  unfolding hashedrekord_v001_de_def hashed_rekord_ser_def wrap_de_def
  by (rule reads_hashed_rekord_signature reads_hash_value reads_wrap [unfolded wrap_de_def] reads_intros assms
      | assumption | simp)+

text \<open>
  What logs store of a request for which they do not keep its text: of a hashedrekord request of
  version 2 its digest and its signature, with the verifier as submitted; of a dsse request the
  digests of the envelope and of its payload, and each signature with its verifier.
\<close>

definition stored_hashed_rekord_v2 :: "'z serde_externals_scheme \<Rightarrow> hashed_rekord_v2 \<Rightarrow> json" where
  "stored_hashed_rekord_v2 S q = obj
     [(''apiVersion'', Some (JString ''0.0.2'')), (''kind'', Some (JString ''hashedrekord'')),
      (''spec'', Some (wrap_ser ''hashedRekordV002'' (obj
         [(''data'', Some (obj [(''algorithm'', Some (JString ''SHA2_256'')),
             (''digest'', Some (base64_bytes_ser S (hr2_digest q)))])),
          (''signature'', Some (hashed_rekord_signature_v2_ser S q))])))]"

definition stored_dsse :: "'z serde_externals_scheme \<Rightarrow> string \<Rightarrow> string \<Rightarrow> dsse_v001_signature list \<Rightarrow> json" where
  "stored_dsse S envelope_hash payload_hash sgs = obj
     [(''apiVersion'', Some (JString ''0.0.1'')), (''kind'', Some (JString ''dsse'')),
      (''spec'', Some (obj
         [(''envelopeHash'', Some (hashed_rekord_hash_ser Sha2256 envelope_hash)),
          (''payloadHash'', Some (hashed_rekord_hash_ser Sha2256 payload_hash)),
          (''signatures'', Some (ser_list (\<lambda>s. obj
             [(''signature'', Some (newtype_ser S (d1_signature s))),
              (''verifier'', Some (newtype_ser S (d1_verifier s)))]) sgs))]))]"

lemma reads_public_key_v2:
  "serde_laws S \<Longrightarrow> reads (wrap_de S ''rawBytes'' (newtype_de S)) (wrap_ser ''rawBytes'' (newtype_ser S b)) b"
  by (rule reads_wrap, assumption, rule reads_newtype)

lemma wrap_not_null: "sorted_json (wrap_ser k v) \<noteq> JNull"
  by (simp add: wrap_ser_def obj_def)

lemma reads_verifier_v2:
  assumes "serde_laws S"
  shows "reads (hashedrekord_v002_verifier_de S) (verifier_v2_ser S details (Some cert) None) (Some cert, None)"
  unfolding hashedrekord_v002_verifier_de_def verifier_v2_ser_def opt_member_def option.map
  by (rule reads_struct [OF assms], simp, rule then_present, assumption, simp, simp add: written_def,
      rule reads_public_key_v2 [OF assms], rule wrap_not_null, rule then_absent, assumption) simp_all

lemma reads_stored_hashed_rekord_v2:
  assumes "serde_laws S"
  shows "reads (hashedrekord_v002_de S) (stored_hashed_rekord_v2 S (hashed_rekord_v2_new h s cert))
    \<lparr>h2_digest = h, h2_signature = s, h2_certificate = Some cert, h2_public_key = None\<rparr>"
proof -
  have sg: "reads (hashedrekord_v002_signature_de S)
      (hashed_rekord_signature_v2_ser S (hashed_rekord_v2_new h s cert)) (s, Some cert, None)"
    unfolding hashedrekord_v002_signature_de_def hashed_rekord_signature_v2_ser_def hashed_rekord_v2_new_def
      hashed_rekord_v2.simps
    by (rule reads_verifier_v2 reads_intros assms | assumption | simp)+
  show ?thesis
    unfolding hashedrekord_v002_de_def stored_hashed_rekord_v2_def hashed_rekord_v2_new_def hashed_rekord_v2.simps
      wrap_de_def wrap_ser_def
    by (rule sg [unfolded hashed_rekord_v2_new_def] reads_intros assms | assumption | simp)+
qed

lemma reads_stored_dsse:
  assumes "serde_laws S"
  shows "reads (dsse_v001_de S) (stored_dsse S eh ph sgs)
    \<lparr>d1_envelope_hash = eh, d1_payload_hash = ph, d1_signatures = sgs\<rparr>"
proof -
  have "reads (dsse_v001_signature_de S) (obj [(''signature'', Some (newtype_ser S (d1_signature s))),
      (''verifier'', Some (newtype_ser S (d1_verifier s)))]) s" for s
    unfolding dsse_v001_signature_de_def by (rule reads_intros assms | assumption | simp)+
  then have sgs: "reads (de_list S (dsse_v001_signature_de S)) (ser_list (\<lambda>s. obj
      [(''signature'', Some (newtype_ser S (d1_signature s))), (''verifier'', Some (newtype_ser S (d1_verifier s)))]) sgs) sgs"
    unfolding ser_list_def by (intro reads_list) (simp add: list_all2_map1 list.rel_refl)
  show ?thesis
    unfolding dsse_v001_de_def stored_dsse_def wrap_de_def
    by (rule sgs reads_hash_value reads_intros assms | assumption | simp)+
qed

subsection \<open>Logs that store what is submitted\<close>

text \<open>The functions of \<open>externals\<close> are the same whether a record for serde or for a signer holds them.\<close>

definition same_base :: "'y externals_scheme \<Rightarrow> 'z externals_scheme \<Rightarrow> bool" where
  "same_base S X \<longleftrightarrow> externals.truncate S = externals.truncate X"

lemma same_base_fields:
  "same_base S X \<Longrightarrow> b64_encode X = b64_encode S" "same_base S X \<Longrightarrow> b64_decode X = b64_decode S"
  "same_base S X \<Longrightarrow> utf8_error X = utf8_error S"
  by (simp_all add: same_base_def externals.defs)

text \<open>A body is valid UTF-8 and the JSON of a value, up to the order of members.\<close>

definition stored_as :: "'z serde_externals_scheme \<Rightarrow> bytes \<Rightarrow> json \<Rightarrow> bool" where
  "stored_as S body v \<longleftrightarrow>
     utf8_error S body = None \<and> (\<exists>w. json_read S (of_bytes body) = Inr w \<and> same_json w v)"

lemma stored_read: "stored_as S body v \<Longrightarrow> reads f v x \<Longrightarrow> read_text S f (of_bytes body) = Inr x"
  by (auto simp: stored_as_def read_text_def reads_def)

abbreviation rekor_v1_url :: "string \<Rightarrow> string" where
  "rekor_v1_url url \<equiv> url @ ''/api/v1/log/entries''"

abbreviation rekor_v2_url :: "string \<Rightarrow> string" where
  "rekor_v2_url url \<equiv> url @ ''/api/v2/log/entries''"

definition dsse_signatures_of :: "'z externals_scheme \<Rightarrow> dsse_envelope \<Rightarrow> der_certificate \<Rightarrow> dsse_v001_signature list" where
  "dsse_signatures_of X env cert =
     map (\<lambda>s. \<lparr>d1_signature = ds_sig s, d1_verifier = as_bytes (certificate_to_pem X cert)\<rparr>) (env_signatures env)"

text \<open>
  What the documentation of a log promises: the entry it answers a submission with has the body of
  what was posted.  \<open>X\<close> are the readers and writers of the client.
\<close>

definition log_stores :: "serde_externals \<Rightarrow> 'z signer_externals_scheme \<Rightarrow> net \<Rightarrow> string \<Rightarrow> bool" where
  "log_stores S X net url \<longleftrightarrow>
     (\<forall>q b r u en rest. ser_hashed_rekord X q = Inr b \<longrightarrow>
        http_post net (rekor_v1_url url) ''application/json'' b = Inr r \<longrightarrow>
        response_json (de_log_entries X) r = Inr ((u, en) # rest) \<longrightarrow> stored_as S (le_body en) (hashed_rekord_ser S q))
     \<and> (\<forall>q b r en. ser_hashed_rekord_v2 X q = Inr b \<longrightarrow>
        http_post net (rekor_v2_url url) ''application/json'' b = Inr r \<longrightarrow>
        entry_of_v2_response X r = Inr en \<longrightarrow> stored_as S (le_body en) (stored_hashed_rekord_v2 S q))
     \<and> (\<forall>env cert b r u en rest. ser_dsse_entry X (dsse_entry_new X (ser_envelope X) env cert) = Inr b \<longrightarrow>
        http_post net (rekor_v1_url url) ''application/json'' b = Inr r \<longrightarrow>
        response_json (de_log_entries X) r = Inr ((u, en) # rest) \<longrightarrow>
        (\<exists>eh. stored_as S (le_body en)
           (stored_dsse S eh (hex_encode X (sha256 X (payload env))) (dsse_signatures_of X env cert))))"

lemma signer_of_serde_bodies:
  "de_hashedrekord_v001 (signer_of_serde S order X) = read_text S (hashedrekord_v001_de S)"
  "de_hashedrekord_v002 (signer_of_serde S order X) = read_text S (hashedrekord_v002_de S)"
  "de_dsse_v001 (signer_of_serde S order X) = read_text S (dsse_v001_de S)"
  "de_statement (signer_of_serde S order X) = read_text S (statement_de S)"
  "ser_statement (signer_of_serde S order X) = (\<lambda>st. write_bytes S (statement_ser st))"
  by (simp_all add: signer_of_serde_def messages_of_serde_def bodies_of_serde_def)

lemma signer_of_serde_base:
  "externals.truncate (signer_of_serde S order X) = externals.truncate X"
  "p256 (signer_of_serde S order X) = p256 X"
  by (simp_all add: signer_of_serde_def messages_of_serde_def bodies_of_serde_def externals.defs)

text \<open>The body of an entry, as the verifier parses it.\<close>

lemma parse_stored:
  assumes "serde_laws S" "same_base S X" "stored_as S (te_body e) v"
  shows "te_kind e = ''hashedrekord'' \<Longrightarrow> te_version e = ''0.0.1'' \<Longrightarrow>
      de_hashedrekord_v001 X (of_bytes (te_body e)) = Inr r1 \<Longrightarrow> parse_entry_body X e = Inr (HashedRekordV001 r1)"
    and "te_kind e = ''hashedrekord'' \<Longrightarrow> te_version e = ''0.0.2'' \<Longrightarrow>
      de_hashedrekord_v002 X (of_bytes (te_body e)) = Inr r2 \<Longrightarrow> parse_entry_body X e = Inr (HashedRekordV002 r2)"
    and "te_kind e = ''dsse'' \<Longrightarrow> te_version e = ''0.0.1'' \<Longrightarrow>
      de_dsse_v001 X (of_bytes (te_body e)) = Inr r3 \<Longrightarrow> parse_entry_body X e = Inr (DsseV001 r3)"
  using assms
  by (simp_all add: parse_entry_body_def from_base64_json_def to_base64_def same_base_fields serde_laws_b64
      from_utf8_def stored_as_def)

lemma recorded:
  assumes laws: "serde_laws S" "same_base S X" and X: "X = signer_of_serde S order Y"
  shows "stored_as S (te_body e) (hashed_rekord_ser S (hashed_rekord_new X h s cert)) \<Longrightarrow>
      te_kind e = ''hashedrekord'' \<Longrightarrow> te_version e = ''0.0.1'' \<Longrightarrow> log_recorded X h pl s cert e"
    and "stored_as S (te_body e) (stored_hashed_rekord_v2 S (hashed_rekord_v2_new h s cert)) \<Longrightarrow>
      te_kind e = ''hashedrekord'' \<Longrightarrow> te_version e = ''0.0.2'' \<Longrightarrow> log_recorded X h pl s cert e"
    and "stored_as S (te_body e) (stored_dsse S eh (hex_encode X (sha256 X pl))
        [\<lparr>d1_signature = s, d1_verifier = as_bytes (certificate_to_pem X cert)\<rparr>]) \<Longrightarrow>
      te_kind e = ''dsse'' \<Longrightarrow> te_version e = ''0.0.1'' \<Longrightarrow> log_recorded X h pl s cert e"
proof -
  note readers = signer_of_serde_bodies [of S order Y, folded X]
  show "log_recorded X h pl s cert e"
    if st: "stored_as S (te_body e) (hashed_rekord_ser S (hashed_rekord_new X h s cert))"
      and kind: "te_kind e = ''hashedrekord''" "te_version e = ''0.0.1''"
    using parse_stored(1) [OF laws st kind, unfolded readers, OF stored_read [OF st reads_hashed_rekord [OF laws(1)]]]
    by (simp add: log_recorded_def Let_def)
  show "log_recorded X h pl s cert e"
    if st: "stored_as S (te_body e) (stored_hashed_rekord_v2 S (hashed_rekord_v2_new h s cert))"
      and kind: "te_kind e = ''hashedrekord''" "te_version e = ''0.0.2''"
    using parse_stored(2) [OF laws st kind, unfolded readers,
        OF stored_read [OF st reads_stored_hashed_rekord_v2 [OF laws(1)]]]
    by (simp add: log_recorded_def Let_def hashed_rekord_v2_new_def)
  show "log_recorded X h pl s cert e"
    if st: "stored_as S (te_body e) (stored_dsse S eh (hex_encode X (sha256 X pl))
        [\<lparr>d1_signature = s, d1_verifier = as_bytes (certificate_to_pem X cert)\<rparr>])"
      and kind: "te_kind e = ''dsse''" "te_version e = ''0.0.1''"
    using parse_stored(3) [OF laws st kind, unfolded readers, OF stored_read [OF st reads_stored_dsse [OF laws(1)]]]
    by (simp add: log_recorded_def)
qed

lemma submit_Inr:
  "submit X net url json what = Inr r \<longleftrightarrow>
     (\<exists>b. json = Inr b \<and> http_post net url ''application/json'' b = Inr r \<and> is_success r)"
  by (auto simp: submit_def http_post_json_def result_simps split: if_splits)

lemma create_entry_stored:
  assumes "log_stores S X net url"
  shows "create_entry X net url q = Inr en \<Longrightarrow> stored_as S (le_body en) (hashed_rekord_ser S q)"
    and "create_entry_v2 X net url q2 = Inr en \<Longrightarrow> stored_as S (le_body en) (stored_hashed_rekord_v2 S q2)"
    and "create_dsse_entry X net url (dsse_entry_new X (ser_envelope X) env cert) = Inr en \<Longrightarrow>
      \<exists>eh. stored_as S (le_body en)
        (stored_dsse S eh (hex_encode X (sha256 X (payload env))) (dsse_signatures_of X env cert))"
  using assms
  by (fastforce simp: create_entry_def create_entry_v2_def create_dsse_entry_def log_stores_def submit_Inr
      result_simps single_entry_Inr)+

lemma from_log_entry_fields:
  "te_body (from_log_entry X en kind version) = le_body en" "te_kind (from_log_entry X en kind version) = kind"
  "te_version (from_log_entry X en kind version) = version"
  by (simp_all add: from_log_entry_def)

lemma created_entry_recorded:
  assumes laws: "serde_laws S" "same_base S X" "X = signer_of_serde S order Y"
    and stores: "log_stores S X net (sg_rekor_url sg)"
  shows "create_rekor_entry X net sg h s cert = Inr e \<Longrightarrow> log_recorded X h pl s cert e"
    and "create_dsse_rekor_entry X net sg (signed_envelope s stmt) cert = Inr e \<Longrightarrow>
      log_recorded X (sha256 X (env_pae (signed_envelope s stmt))) stmt s cert e"
proof -
  assume e: "create_rekor_entry X net sg h s cert = Inr e"
  show "log_recorded X h pl s cert e"
  proof (cases "sg_rekor_api_version sg")
    case V1
    with e obtain en where en: "create_entry X net (sg_rekor_url sg) (hashed_rekord_new X h s cert) = Inr en"
      and "e = from_log_entry X en ''hashedrekord'' ''0.0.1''"
      by (auto simp: create_rekor_entry_def result_simps)
    with create_entry_stored(1) [OF stores en] show ?thesis
      by (intro recorded(1) [OF laws]) (simp_all add: from_log_entry_fields)
  next
    case V2
    with e obtain en where en: "create_entry_v2 X net (sg_rekor_url sg) (hashed_rekord_v2_new h s cert) = Inr en"
      and "e = from_log_entry X en ''hashedrekord'' ''0.0.2''"
      by (auto simp: create_rekor_entry_def result_simps)
    with create_entry_stored(2) [OF stores en] show ?thesis
      by (intro recorded(2) [OF laws]) (simp_all add: from_log_entry_fields)
  qed
next
  let ?env = "signed_envelope s stmt"
  have sigs: "length (env_signatures ?env) = 1" "ds_sig (env_signatures ?env ! 0) = s" "payload ?env = stmt"
    "dsse_signatures_of X ?env cert = [\<lparr>d1_signature = s, d1_verifier = as_bytes (certificate_to_pem X cert)\<rparr>]"
    by (simp_all add: signed_envelope_def dsse_signatures_of_def)
  assume e: "create_dsse_rekor_entry X net sg ?env cert = Inr e"
  show "log_recorded X (sha256 X (env_pae ?env)) stmt s cert e"
  proof (cases "sg_rekor_api_version sg")
    case V1
    with e sigs obtain en where
      en: "create_dsse_entry X net (sg_rekor_url sg) (dsse_entry_new X (ser_envelope X) ?env cert) = Inr en"
      and "e = from_log_entry X en ''dsse'' ''0.0.1''"
      by (auto simp: create_dsse_rekor_entry_def result_simps)
    with create_entry_stored(3) [OF stores en] show ?thesis
      unfolding sigs by (elim exE, intro recorded(3) [OF laws]) (simp_all add: from_log_entry_fields)
  next
    case V2
    with e sigs obtain en where
      en: "create_entry_v2 X net (sg_rekor_url sg) (hashed_rekord_v2_new (sha256 X (env_pae ?env)) s cert) = Inr en"
      and "e = from_log_entry X en ''hashedrekord'' ''0.0.2''"
      by (auto simp: create_dsse_rekor_entry_def result_simps)
    with create_entry_stored(2) [OF stores en] show ?thesis
      by (intro recorded(2) [OF laws]) (simp_all add: from_log_entry_fields)
  qed
qed

text \<open>The authority's part of \<open>services_honest\<close>: the certificate is for the key of the signing.\<close>

definition certified :: "'z signer_externals_scheme \<Rightarrow> draws \<Rightarrow> sigstore_bundle \<Rightarrow> der_certificate
    \<Rightarrow> certificate_info \<Rightarrow> bool" where
  "certified X rnd b cert ci \<longleftrightarrow>
     bundle_cert b = Some cert \<and> parse_certificate_info X cert = Inr ci \<and> ci_key_algorithm ci = KaEcdsaP256
     \<and> (\<forall>kp. generate_ecdsa_p256 X (dr_key rnd) = Inr kp \<longrightarrow> public_key_der X kp = Inr (ci_public_key ci))"

lemma signed_services_honest:
  assumes laws: "serde_laws S" "same_base S X" "X = signer_of_serde S order Y"
    and stores: "log_stores S X net (sg_rekor_url sg)" and cert: "certified X rnd b cert ci"
  shows "sign X net sg rnd (Bytes d) = Inr b \<Longrightarrow> services_honest X rnd b policy cert ci d pl"
    and "sign_raw_statement X net sg rnd stmt = Inr b \<Longrightarrow>
      services_honest X rnd b policy cert ci (pae ''application/vnd.in-toto+json'' stmt) stmt"
proof -
  assume "sign X net sg rnd (Bytes d) = Inr b"
  then obtain c s e ts where e: "create_rekor_entry X net sg (sha256 X d) s c = Inr e"
    and b: "b = made_bundle c (signed_message X s d) e ts"
    by (auto simp: sign_Inr)
  from cert b have "c = cert" by (simp add: certified_def)
  with created_entry_recorded(1) [OF laws stores e] cert show "services_honest X rnd b policy cert ci d pl"
    by (auto simp: services_honest_def certified_def b first_signature_def signed_message_def)
next
  assume "sign_raw_statement X net sg rnd stmt = Inr b"
  then obtain c s e ts where e: "create_dsse_rekor_entry X net sg (signed_envelope s stmt) c = Inr e"
    and b: "b = made_bundle c (DsseEnvelope (signed_envelope s stmt)) e ts"
    by (auto simp: sign_raw_statement_Inr)
  from cert b have "c = cert" by (simp add: certified_def)
  with created_entry_recorded(2) [OF laws stores e] cert
  show "services_honest X rnd b policy cert ci (pae ''application/vnd.in-toto+json'' stmt) stmt"
    by (auto simp: services_honest_def certified_def b first_signature_def signed_envelope_def env_pae_def)
qed

subsection \<open>A signer over a log that stores\<close>

text \<open>
  The signer of \<open>Sign_Correct\<close> with a base64 that pads, over a list of documents: the text of the
  document at index \<open>n\<close> is \<open>n\<close> times the letter x.  Every answer of a log has the empty text, which is
  the entry of \<open>sample_answer\<close>; its body is the text of the document 1.
\<close>

definition padded_signer :: signer_externals where
  "padded_signer = sample_signer
     \<lparr>b64_encode := \<lambda>b. (if length b mod 3 \<noteq> 0 then CHR ''='' else CHR ''+'') # of_bytes b,
      b64_decode := \<lambda>s. Inr (as_bytes (tl s))\<rparr>"

definition documents_read :: "json list \<Rightarrow> string \<Rightarrow> (json, string) result" where
  "documents_read ds s =
     (if length s < length ds \<and> s = replicate (length s) CHR ''x'' then Inr (ds ! length s) else Inl ''expected value'')"

definition documents_write :: "json list \<Rightarrow> json \<Rightarrow> (string, string) result" where
  "documents_write ds v =
     (case List.find (\<lambda>n. ds ! n = v) [0..<length ds] of
        Some n \<Rightarrow> Inr (replicate n CHR ''x'') | None \<Rightarrow> Inl ''number out of range'')"

definition padded_serde :: "json list \<Rightarrow> serde_externals" where
  "padded_serde ds = externals.extend (externals.truncate padded_signer)
     (serde_externals.fields (documents_read ds) (documents_write ds)
        (struct_members (sample_serde JNull)) (flat_variant (sample_serde JNull)) (invalid_type (sample_serde JNull)))"

lemma documents_laws: "documents_write ds v = Inr t \<Longrightarrow> documents_read ds t = Inr v"
  by (auto simp: documents_write_def documents_read_def find_Some_iff split: option.splits)

lemma padded_fields:
  "b64_encode (padded_serde ds) = (\<lambda>b. (if length b mod 3 \<noteq> 0 then CHR ''='' else CHR ''+'') # of_bytes b)"
  "b64_decode (padded_serde ds) = (\<lambda>s. Inr (as_bytes (tl s)))" "utf8_error (padded_serde ds) = (\<lambda>b. None)"
  "json_read (padded_serde ds) = documents_read ds" "json_write (padded_serde ds) = documents_write ds"
  "struct_members (padded_serde ds) = struct_members (sample_serde JNull)"
  "flat_variant (padded_serde ds) = flat_variant (sample_serde JNull)"
  "json_parse (padded_serde ds) = (\<lambda>b. Inr (JString (of_bytes b)))"
  by (simp_all add: padded_serde_def padded_signer_def externals.defs serde_externals.defs sample_signer_def
      pki_externals.defs sample_pki_def)

lemma padded_laws: "serde_laws (padded_serde ds)"
  using sample_serde_laws [of JNull] by (auto simp: serde_laws_def padded_fields documents_laws)

definition sample_answer :: json where
  "sample_answer = JObject
     [(''logIndex'', JString ''0''), (''logId'', JObject [(''keyId'', JString ''rekor'')]),
      (''kindVersion'', JObject [(''kind'', JString ''hashedrekord''), (''version'', JString ''0.0.2'')]),
      (''integratedTime'', JString ''0''), (''canonicalizedBody'', JString ''=x'')]"

definition sample_records :: "hashed_rekord_v2 \<Rightarrow> statement \<Rightarrow> json list" where
  "sample_records q st =
     [sample_answer, stored_hashed_rekord_v2 (padded_serde []) q, statement_ser st, hashed_rekord_v2_ser (padded_serde []) q]"

abbreviation "padded ds \<equiv> signer_of_serde (padded_serde ds) (\<lambda>m. m) padded_signer"

lemma padded_base: "same_base (padded_serde ds) (padded ds)"
  unfolding same_base_def signer_of_serde_base(1) by (simp add: padded_serde_def externals.defs)

text \<open>The writers use the base64 of the documents' record only.\<close>

lemma padded_writers:
  "hashed_rekord_v2_ser (padded_serde ds) q = hashed_rekord_v2_ser (padded_serde []) q"
  "stored_hashed_rekord_v2 (padded_serde ds) q = stored_hashed_rekord_v2 (padded_serde []) q"
  by (simp_all add: hashed_rekord_v2_ser_def stored_hashed_rekord_v2_def hashed_rekord_signature_v2_ser_def
      verifier_v2_ser_def newtype_ser_def to_base64_def sha256_ser_def base64_bytes_ser_def padded_fields)


lemma padded_signer_fields:
  "sha256 (padded ds) = fill32" "hex_encode (padded ds) = of_bytes" "hex_decode (padded ds) = (\<lambda>s. Inr (as_bytes s))"
  "utf8_error (padded ds) = (\<lambda>b. None)" "pem_encode (padded ds) = (\<lambda>tag b. of_bytes b)"
  "pem_parse (padded ds) = (\<lambda>s. Inr (''CERTIFICATE'', as_bytes s))" "spki_key_bits (padded ds) = Inr"
  "aws_verify (padded ds) = (\<lambda>alg key msg sig. sig = key @ [word_of_nat (length msg)])"
  "spki_to_der (padded ds) = (\<lambda>s. ok_or [] (spki_key s))" "p256 (padded ds) = sample_p256"
  "any_of_oid (padded ds) = (\<lambda>s. Inr \<lparr>any_tag = 6, any_value = []\<rparr>)" "bit_string_from_bytes (padded ds) = Inr"
  by (simp_all add: signer_of_serde_def messages_of_serde_def bodies_of_serde_def padded_signer_def sample_signer_fields)

text \<open>The fields that \<open>padded\<close> changes, as a function of a record that holds them.\<close>

definition patched :: "signer_externals \<Rightarrow> signer_externals" where
  "patched Z = sample_signer
     \<lparr>b64_encode := b64_encode Z, b64_decode := b64_decode Z, de_hashedrekord_v001 := de_hashedrekord_v001 Z,
      de_hashedrekord_v002 := de_hashedrekord_v002 Z, de_dsse_v001 := de_dsse_v001 Z, de_dsse_v002 := de_dsse_v002 Z,
      de_intoto_v002 := de_intoto_v002 Z, de_statement := de_statement Z, ser_hashed_rekord := ser_hashed_rekord Z,
      ser_hashed_rekord_v2 := ser_hashed_rekord_v2 Z, ser_dsse_entry := ser_dsse_entry Z,
      ser_dsse_entry_v2 := ser_dsse_entry_v2 Z, ser_search_index := ser_search_index Z, ser_log_info := ser_log_info Z,
      de_log_info := de_log_info Z, de_log_entries := de_log_entries Z, de_log_entry_v2 := de_log_entry_v2 Z,
      de_string_list := de_string_list Z, ser_statement := ser_statement Z, ser_envelope := ser_envelope Z\<rparr>"

lemma padded_patched: "padded ds = patched (padded ds)"
  by (simp add: signer_of_serde_def messages_of_serde_def bodies_of_serde_def padded_signer_def patched_def)

lemma patched_generated: "generate_ecdsa_p256 (patched Z) (dr_key sample_draws) = Inr [6]"
  by code_simp

lemma padded_generated: "generate_ecdsa_p256 (padded ds) (dr_key sample_draws) = Inr [6]"
  by (subst padded_patched) (rule patched_generated)

lemma padded_tsa_fields:
  "time_stamp_req_to_der (padded ds) = (\<lambda>q. Inr [])" "der_uint (padded ds) = (\<lambda>n. [])"
  "time_stamp_resp_from_der (padded ds) = (\<lambda>b. None)" "any_to_der (padded ds) = (\<lambda>a. Inr (any_value a))"
  "content_info_from_der (padded ds) = content_info_from_der sample_pki"
  "signed_data_from_der (padded ds) = signed_data_from_der sample_pki"
  "tst_info_from_der (padded ds) = tst_info_from_der sample_pki"
  by (simp_all add: signer_of_serde_def messages_of_serde_def bodies_of_serde_def padded_signer_def sample_signer_def
      pki_externals.defs sample_pki_def)

lemma padded_stamped: "timestamp_signature (padded ds) (sample_net token) ''tsa'' 0 data = Inr token"
proof -
  have "\<exists>tst sd. parse_timestamp_token (padded ds) token = Inr (tst, sd) \<and> tst_nonce tst = Some []"
    by (simp add: parse_timestamp_token_def content_info_of_token_def padded_tsa_fields sample_pki_def
        sample_signed_data_def ID_SIGNED_DATA_def OID_TST_INFO_def)
  moreover have "http_post (sample_net token) ''tsa'' ct [] = Inr \<lparr>rs_status = 200, rs_status_text = ''200 OK'',
      rs_body = Inr token\<rparr>" for ct
    by (simp add: http_post_def sample_net_def)
  ultimately show ?thesis
    unfolding timestamp_signature_Inr padded_tsa_fields by (force simp: is_success_def)
qed

lemma patched_certified: "request_certificate (patched Z) (sample_net token) sample_signer_config [] [6] = Inr [6]"
  by code_simp

lemma padded_certified: "request_certificate (padded ds) (sample_net token) sample_signer_config [] [6] = Inr [6]"
  by (subst padded_patched) (rule patched_certified)

lemma padded_signing_steps:
  assumes "[6, word_of_nat (length data)] = token"
  shows "signing_steps (padded ds) (sample_net token) sample_signer_config sample_draws data [6] [6] token (Some token)"
proof -
  have "p256_sign (p256 (padded ds)) (dr_signature sample_draws) [6] data = Some token"
    using assms by (simp add: padded_signer_fields(10) sample_p256_def)
  moreover have "timestamp_signature (padded ds) (sample_net token) ''tsa'' 0 token = Inr token"
    by (rule padded_stamped)
  then have "optional_timestamp (padded ds) (sample_net token) sample_signer_config (dr_nonce sample_draws) token
      = Inr (Some token)"
    by (simp add: optional_timestamp_def request_timestamp_def sample_signer_config_def sample_draws_def)
  moreover have "sg_signing_scheme sample_signer_config = EcdsaP256Sha256" "dr_proof sample_draws = []"
    by (simp_all add: sample_signer_config_def sample_draws_def)
  ultimately show ?thesis
    using padded_generated [of ds] padded_certified [of ds token] unfolding signing_steps_def by simp
qed

lemma sample_records_read:
  "documents_read (sample_records q st) [] = Inr sample_answer"
  "documents_read (sample_records q st) ''x'' = Inr (stored_hashed_rekord_v2 (padded_serde []) q)"
  "documents_read (sample_records q st) ''xx'' = Inr (statement_ser st)"
  by (simp_all add: documents_read_def sample_records_def)

text \<open>The documents differ in the names of their members.\<close>

lemma sample_records_write:
  "documents_write (sample_records q st) (statement_ser st) = Inr ''xx''"
  "documents_write (sample_records q st) (hashed_rekord_v2_ser (padded_serde []) q) = Inr ''xxx''"
  by (simp_all add: documents_write_def sample_records_def upt_rec sample_answer_def stored_hashed_rekord_v2_def
      statement_ser_def hashed_rekord_v2_ser_def wrap_ser_def obj_def present_def)

lemma sample_records_request:
  assumes "documents_write (sample_records q st) (hashed_rekord_v2_ser (padded_serde []) q') = Inr t"
  shows "hashed_rekord_v2_ser (padded_serde []) q' = hashed_rekord_v2_ser (padded_serde []) q"
proof -
  from documents_laws [OF assms] have "hashed_rekord_v2_ser (padded_serde []) q' \<in> set (sample_records q st)"
    by (metis documents_read_def nth_mem sum.inject(2) sum.simps(4))
  moreover have "hashed_rekord_v2_ser (padded_serde []) q' \<noteq> sample_answer"
    "hashed_rekord_v2_ser (padded_serde []) q' \<noteq> stored_hashed_rekord_v2 (padded_serde []) q"
    "hashed_rekord_v2_ser (padded_serde []) q' \<noteq> statement_ser st"
    by (simp_all add: sample_answer_def stored_hashed_rekord_v2_def statement_ser_def hashed_rekord_v2_ser_def
        wrap_ser_def obj_def present_def)
  ultimately show ?thesis by (simp add: sample_records_def)
qed

definition sample_logged :: log_entry where
  "sample_logged = \<lparr>le_uuid = [], le_body = as_bytes ''x'', le_integrated_time = 0, le_log_id = ''rekor'', le_log_index = 0,
     le_verification = Some \<lparr>lv_proof = None, lv_set = None\<rparr>\<rparr>"

lemma sample_serde_members:
  "struct_members (sample_serde d) names (JObject m) = Inr (\<lambda>k. if k \<in> set names then map_of m k else None)"
  by (simp add: sample_serde_def externals.defs)

lemma padded_messages:
  "de_log_entry_v2 (padded ds) = read_text (padded_serde ds) (log_entry_v2_de (padded_serde ds))"
  "de_log_entries (padded ds) = read_bytes (padded_serde ds) (hash_map_de (padded_serde ds) (\<lambda>m. m) (log_entry_de (padded_serde ds)))"
  "body_text (padded ds) = of_bytes"
  "ser_hashed_rekord_v2 (padded ds) q = write_bytes (padded_serde ds) (hashed_rekord_v2_ser (padded_serde ds) q)"
  by (simp_all add: signer_of_serde_def messages_of_serde_def bodies_of_serde_def padded_signer_def sample_signer_def
      pki_externals.defs)

lemma sample_answered:
  assumes "rs_body r = Inr []"
  shows "entry_of_v2_response (padded (sample_records q st)) r = Inr sample_logged"
    and "response_json (de_log_entries (padded (sample_records q st))) r \<noteq> Inr ens"
proof -
  have "parse_i64 ''0'' = Some 0" by code_simp
  then have "log_entry_of_v2 (padded (sample_records q st)) \<lparr>e2_log_index = ''0'', e2_log_id = ''rekor'', e2_integrated_time = ''0'',
      e2_promise = None, e2_proof = None, e2_body = as_bytes ''x''\<rparr> = sample_logged"
    by (simp add: log_entry_of_v2_def parse_i64_or_default_def sample_logged_def)
  moreover have "log_entry_v2_de (padded_serde ds) sample_answer = Inr \<lparr>e2_log_index = ''0'', e2_log_id = ''rekor'',
      e2_integrated_time = ''0'', e2_promise = None, e2_proof = None, e2_body = as_bytes ''x''\<rparr>" for ds
    by (simp add: log_entry_v2_de_def de_struct_def padded_fields sample_serde_members sample_answer_def required_def
        opt_field_def log_id_de_def kind_version_de_def newtype_de_def from_base64_def de_string_def)
  then have "de_log_entry_v2 (padded (sample_records q st)) (body_text (padded (sample_records q st)) [])
      = Inr \<lparr>e2_log_index = ''0'', e2_log_id = ''rekor'',
          e2_integrated_time = ''0'', e2_promise = None, e2_proof = None, e2_body = as_bytes ''x''\<rparr>"
    by (simp add: padded_messages read_text_def padded_fields sample_records_read(1) of_bytes_def)
  ultimately show "entry_of_v2_response (padded (sample_records q st)) r = Inr sample_logged"
    unfolding entry_of_v2_response_Inr using assms by metis
  show "response_json (de_log_entries (padded (sample_records q st))) r \<noteq> Inr ens"
    using assms by (simp add: response_json_def padded_messages read_bytes_def padded_fields hash_map_de_def
        de_map_def result_simps)
qed

lemma padded_log_stores:
  "log_stores (padded_serde (sample_records q st)) (padded (sample_records q st)) (sample_net token) ''log''"
proof -
  let ?ds = "sample_records q st"
  have body: "rs_body r = Inr []" if "http_post (sample_net token) u ct b = Inr r" "u \<noteq> ''tsa''" for u ct b r
    using that by (auto simp: http_post_def sample_net_def)
  have "stored_as (padded_serde ?ds) (le_body en) (stored_hashed_rekord_v2 (padded_serde ?ds) q')"
    if "ser_hashed_rekord_v2 (padded ?ds) q' = Inr b" "http_post (sample_net token) (rekor_v2_url ''log'') ct b = Inr r"
      "entry_of_v2_response (padded ?ds) r = Inr en" for q' b ct r en
  proof -
    have en: "en = sample_logged" using sample_answered(1) [OF body [OF that(2)]] that(3) by simp
    from that(1) obtain t where "documents_write ?ds (hashed_rekord_v2_ser (padded_serde []) q') = Inr t"
      by (auto simp: padded_messages write_bytes_def padded_fields padded_writers [of ?ds] result_simps)
    from sample_records_request [OF this] have same: "hashed_rekord_v2_ser (padded_serde []) q' = hashed_rekord_v2_ser (padded_serde []) q" .
    then have "stored_hashed_rekord_v2 (padded_serde []) q' = stored_hashed_rekord_v2 (padded_serde []) q"
      by (simp add: hashed_rekord_v2_ser_def stored_hashed_rekord_v2_def wrap_ser_def obj_def present_def
          sha256_ser_def base64_bytes_ser_def)
    moreover have "json_wf (stored_hashed_rekord_v2 (padded_serde []) q)"
      by (cases "hr2_certificate q"; cases "hr2_public_key q")
        (simp_all add: stored_hashed_rekord_v2_def hashed_rekord_signature_v2_ser_def verifier_v2_ser_def wrap_ser_def
          obj_def present_def opt_member_def base64_bytes_ser_def newtype_ser_def)
    ultimately show ?thesis
      by (simp add: stored_as_def en sample_logged_def padded_fields padded_writers [of ?ds] same_json_def
          sample_records_read(2))
  qed
  moreover have "response_json (de_log_entries (padded ?ds)) r \<noteq> Inr ens"
    if "http_post (sample_net token) (rekor_v1_url ''log'') ct b = Inr r" for ct b r ens
    by (rule sample_answered(2) [OF body [OF that]]) simp
  ultimately show ?thesis unfolding log_stores_def by blast
qed

text \<open>Two signings with it: of an artifact, and of an attestation that names its digest.\<close>

definition padded_artifact :: "json list" where
  "padded_artifact = sample_records (hashed_rekord_v2_new (fill32 [1, 2]) [6, 2] [6]) sample_statement"

definition padded_statement :: statement where
  "padded_statement = build_statement (padded []) sample_attestation"

definition padded_attestation :: "json list" where
  "padded_attestation = sample_records
     (hashed_rekord_v2_new (fill32 (pae ''application/vnd.in-toto+json'' (as_bytes ''xx''))) [6, 43] [6]) padded_statement"

definition padded_entry :: tlog_entry where
  "padded_entry = from_log_entry (padded []) sample_logged ''hashedrekord'' ''0.0.2''"

lemma padded_creates:
  "create_entry_v2 (padded (sample_records q st)) (sample_net token) ''log'' q = Inr sample_logged"
proof -
  have "http_post (sample_net token) (rekor_v2_url ''log'') ct b = Inr \<lparr>rs_status = 200, rs_status_text = ''200 OK'',
      rs_body = Inr []\<rparr>" for ct b
    by (simp add: http_post_def sample_net_def)
  moreover have "ser_hashed_rekord_v2 (padded (sample_records q st)) q = Inr (as_bytes ''xxx'')"
    by (simp add: padded_messages write_bytes_def padded_fields padded_writers [of "sample_records q st"] sample_records_write)
  ultimately show ?thesis
    by (simp add: create_entry_v2_def submit_def http_post_json_def is_success_def sample_answered(1))
qed

lemma padded_entry_of: "from_log_entry (padded ds) sample_logged ''hashedrekord'' ''0.0.2'' = padded_entry"
  by (simp add: padded_entry_def from_log_entry_def sample_logged_def hex_log_id_to_base64_def hex_log_id_decode_def
      padded_signer_fields same_base_fields(1) [OF padded_base] padded_fields)

lemma padded_signs:
  "sign (padded padded_artifact) (sample_net [6, 2]) sample_signer_config sample_draws (Bytes [1, 2])
    = Inr (made_bundle [6] (signed_message (padded []) [6, 2] [1, 2]) padded_entry (Some [6, 2]))"
proof -
  let ?X = "padded padded_artifact"
  have "create_rekor_entry ?X (sample_net [6, 2]) sample_signer_config (sha256 ?X [1, 2]) [6, 2] [6] = Inr padded_entry"
    by (simp add: create_rekor_entry_def sample_signer_config_def padded_signer_fields padded_artifact_def
        padded_creates padded_entry_of)
  moreover have "signing_steps ?X (sample_net [6, 2]) sample_signer_config sample_draws [1, 2] [6] [6] [6, 2] (Some [6, 2])"
    by (rule padded_signing_steps) simp
  moreover have "signed_message ?X s d = signed_message (padded []) s d" for s d
    by (simp add: signed_message_def padded_signer_fields)
  ultimately show ?thesis unfolding sign_Inr by metis
qed

lemma padded_writes_statement: "ser_statement (padded padded_attestation) padded_statement = Inr (as_bytes ''xx'')"
  by (simp add: signer_of_serde_bodies write_bytes_def padded_fields padded_attestation_def sample_records_write)

lemma padded_builds: "build_statement (padded ds) sample_attestation = padded_statement"
  by (simp add: build_statement_def padded_statement_def padded_signer_fields)

lemma padded_attests:
  "sign_attestation (padded padded_attestation) (sample_net [6, 43]) sample_signer_config sample_draws sample_attestation
    = Inr (made_bundle [6] (DsseEnvelope (signed_envelope [6, 43] (as_bytes ''xx''))) padded_entry (Some [6, 43]))"
proof -
  let ?X = "padded padded_attestation" let ?pae = "pae ''application/vnd.in-toto+json'' (as_bytes ''xx'')"
  have pae: "env_pae (signed_envelope [6, 43] (as_bytes ''xx'')) = ?pae" by (simp add: env_pae_def signed_envelope_def)
  have "create_dsse_rekor_entry ?X (sample_net [6, 43]) sample_signer_config
      (signed_envelope [6, 43] (as_bytes ''xx'')) [6] = Inr padded_entry"
    by (simp add: create_dsse_rekor_entry_def sample_signer_config_def padded_signer_fields pae)
      (simp add: signed_envelope_def padded_attestation_def padded_creates padded_entry_of)
  moreover have "signing_steps ?X (sample_net [6, 43]) sample_signer_config sample_draws ?pae [6] [6] [6, 43] (Some [6, 43])"
  proof (rule padded_signing_steps)
    have "length ?pae = 43" by code_simp
    then show "[6, word_of_nat (length ?pae)] = [6, 43 :: 8 word]" by simp
  qed
  moreover have "de_statement ?X (of_bytes (as_bytes ''xx'')) = Inr padded_statement"
    by (simp add: signer_of_serde_bodies read_text_def padded_fields padded_attestation_def sample_records_read
        statement_codec.dec_enc padded_laws)
  ultimately show ?thesis
    unfolding sign_attestation_def padded_builds padded_writes_statement map_err_simps and_then_simps sign_raw_statement_Inr
      padded_signer_fields by blast
qed

subsection \<open>Properties\<close>

lemma signer_of_serde_statement:
  assumes "serde_laws S" "X = signer_of_serde S order Y" "ser_statement X st = Inr bs"
  shows "de_statement X (of_bytes bs) = Inr st"
proof -
  from assms(3) obtain t where "json_write S (statement_ser st) = Inr t" "bs = as_bytes t"
    by (auto simp: assms(2) signer_of_serde_bodies write_bytes_def result_simps)
  with assms(1) show ?thesis
    by (simp add: assms(2) signer_of_serde_bodies read_text_def serde_laws_text statement_codec.dec_enc)
qed

text \<open>C20: what the signer makes with a log that stores what it is sent, the verifier accepts.  The
  request is written as JSON and posted, the log answers with an entry whose body is that document up
  to the order of its members (of version 2 with the digest and signature where they are stored), and
  the verifier parses the body: then verification for the artifact succeeds exactly when the evidence
  of the services verifies.  Digest, signature and certificate of the entry never disagree with the bundle.\<close>

theorem signed_artifact_stored:
  assumes "sign X net sg rnd (Bytes d) = Inr b" "X = signer_of_serde S order Y"
    and "serde_laws S" "same_base S X" "p256_correct X" "codecs_ok X cert" "certified X rnd b cert ci"
    and "log_stores S X net (sg_rekor_url sg)"
  shows "(\<exists>r. verifier_verify X clock root (Bytes d) b policy = Inr r)
    \<longleftrightarrow> services_evidence X clock root b policy ci"
  by (rule sign_verifies [OF assms(1,5,6) signed_services_honest(1) [OF assms(3,4,2,8,7,1)]])

text \<open>C21: so does an attestation.  The statement is written as JSON, signed, logged as a dsse entry
  of version 1 or a hashedrekord entry of version 2, and read back by the verifier, which finds the
  digest of the artifact among its subjects.\<close>

theorem signed_attestation_stored:
  assumes "sign_attestation X net sg rnd a = Inr b" "X = signer_of_serde S order Y"
    and "serde_laws S" "same_base S X" "p256_correct X" "codecs_ok X cert" "certified X rnd b cert ci"
    and "log_stores S X net (sg_rekor_url sg)"
    and "(name, h) \<in> set (att_subjects a)" "compute_artifact_digest_algo X artifact Sha2256 = Inr h" "length h = 32"
  shows "(\<exists>r. verifier_verify X clock root artifact b policy = Inr r)
    \<longleftrightarrow> services_evidence X clock root b policy ci"
proof -
  from assms(1) obtain stmt where st: "ser_statement X (build_statement X a) = Inr stmt"
    and raw: "sign_raw_statement X net sg rnd stmt = Inr b"
    by (auto simp: sign_attestation_def result_simps)
  show ?thesis
    by (rule attestation_verifies [OF assms(1,5,6) st signer_of_serde_statement [OF assms(3,2) st]
          signed_services_honest(2) [OF assms(3,4,2,8,7) raw] assms(9-11)])
qed

lemma padded_public_key: "public_key_der (padded ds) kp = Inr kp"
  by (simp add: public_key_der_def padded_signer_fields sample_p256_def)

lemma padded_p256_correct: "p256_correct (padded ds)"
  by (auto simp: p256_correct_def padded_public_key padded_signer_fields sample_p256_def)

lemma padded_codecs: "codecs_ok (padded ds) cert"
  by (simp add: codecs_ok_def padded_signer_fields certificate_to_pem_def certificate_from_pem_def from_pem_tag_def)

lemma patched_info: "parse_certificate_info (patched Z) [6] = Inr sample_info"
  by code_simp

lemma padded_info: "parse_certificate_info (padded ds) [6] = Inr sample_info"
  by (subst padded_patched) (rule patched_info)

lemma padded_certifies: "bundle_cert b = Some [6] \<Longrightarrow> certified (padded ds) sample_draws b [6] sample_info"
  by (simp add: certified_def padded_info padded_generated padded_public_key)

text \<open>An entry without proof, promise and time, as the log answers.\<close>

definition bare_entry :: "string \<Rightarrow> bytes \<Rightarrow> tlog_entry" where
  "bare_entry lid bd = \<lparr>te_log_index = 0, te_log_id = lid, te_kind = ''hashedrekord'', te_version = ''0.0.2'',
     te_integrated_time = 0, te_promise = None, te_proof = None, te_body = bd\<rparr>"

lemma padded_entry_bare: "padded_entry = bare_entry (te_log_id padded_entry) (as_bytes ''x'')"
  by (simp add: padded_entry_def bare_entry_def from_log_entry_def sample_logged_def)

lemma patched_time:
  "determine_validation_time (patched Z) sample_clock (made_bundle [6] c (bare_entry lid bd) (Some [6, n])) [6, n] sample_trust
     = Inr 100"
  by code_simp

lemma patched_chain: "verify_certificate_chain (patched Z) 100 (Certificate [6]) 100 sample_trust = Inr ()"
  by code_simp

lemma patched_valid:
  "validate_bundle_with_options (patched Z) (made_bundle [6] c (bare_entry lid bd) (Some t))
    \<lparr>require_inclusion_proof = False, require_timestamp = False\<rparr> = Inr ()"
  by code_simp

lemma padded_evidence:
  assumes "extract_signature c = Inr [6, n]"
  shows "services_evidence (padded ds) sample_clock sample_trust (made_bundle [6] c padded_entry (Some [6, n]))
    sample_lax_policy sample_info"
proof -
  have "validate_certificate_time 100 sample_info = Inr ()" by code_simp
  with assms patched_time [of "padded ds", folded padded_patched] patched_chain [of "padded ds", folded padded_patched]
    patched_valid [of "padded ds", folded padded_patched]
  show ?thesis
    by (subst padded_entry_bare)
      (auto simp: services_evidence_def sample_lax_policy_def skip_tlog_def skip_sct_def sample_policy_def
        require_issuer_def policy_with_identity_def default_policy_def)
qed

theorem signed_artifact_stored_witness:
  "\<exists>r. verifier_verify (padded padded_artifact) sample_clock sample_trust (Bytes [1, 2])
     (made_bundle [6] (signed_message (padded []) [6, 2] [1, 2]) padded_entry (Some [6, 2])) sample_lax_policy = Inr r"
proof -
  have "sg_rekor_url sample_signer_config = ''log''" by (simp add: sample_signer_config_def)
  then have stores: "log_stores (padded_serde padded_artifact) (padded padded_artifact) (sample_net [6, 2])
      (sg_rekor_url sample_signer_config)"
    by (simp add: padded_artifact_def padded_log_stores)
  from signed_artifact_stored [OF padded_signs refl padded_laws padded_base padded_p256_correct padded_codecs
      padded_certifies stores] padded_evidence
  show ?thesis by (simp add: extract_signature_def signed_message_def)
qed

theorem signed_attestation_stored_witness:
  "\<exists>r. verifier_verify (padded padded_attestation) sample_clock sample_trust (Bytes [1, 2])
     (made_bundle [6] (DsseEnvelope (signed_envelope [6, 43] (as_bytes ''xx''))) padded_entry (Some [6, 43]))
     sample_lax_policy = Inr r"
proof -
  have "sg_rekor_url sample_signer_config = ''log''" by (simp add: sample_signer_config_def)
  then have stores: "log_stores (padded_serde padded_attestation) (padded padded_attestation) (sample_net [6, 43])
      (sg_rekor_url sample_signer_config)"
    by (simp add: padded_attestation_def padded_log_stores)
  have sub: "(''a'', fill32 [1, 2]) \<in> set (att_subjects sample_attestation)"
    by (simp add: sample_attestation_def add_subject_def)
  have dig: "compute_artifact_digest_algo (padded padded_attestation) (Bytes [1, 2]) Sha2256 = Inr (fill32 [1, 2])"
    by (simp add: padded_signer_fields)
  from signed_attestation_stored [OF padded_attests refl padded_laws padded_base padded_p256_correct padded_codecs
      padded_certifies stores sub dig] padded_evidence
  show ?thesis by (simp add: extract_signature_def signed_envelope_def)
qed

end
