(* ===== verification/Service_Json.thy ===== *)
theory Service_Json
  imports Rekor_Json Oauth
begin

text \<open>
  The serde implementations of the crates sigstore-fulcio (src/client.rs) and sigstore-oidc
  (src/token.rs, src/oauth.rs): the claims of an identity token, the request for a certificate and
  the answers of the authority, and the answer to the redemption of a code.  They make the
  remaining parameters of \<open>Fulcio_Client\<close> and \<open>Oauth\<close> concrete: \<open>fulcio_of_serde\<close> and \<open>oauth_of_serde\<close>.
\<close>

subsection \<open>Identity tokens (token.rs)\<close>

text \<open>The untagged \<open>Audience\<close>: the first variant that takes the value; \<open>null\<close> is the one without data.\<close>

definition audience_de :: "'z serde_externals_scheme \<Rightarrow> json \<Rightarrow> (audience, string) result" where
  "audience_de S v =
     (let no_variant = Inl ''data did not match any variant of untagged enum Audience'' in
      if v = JNull then Inr NoAudience
      else (case de_string S v of
              Inr s \<Rightarrow> Inr (Single s)
            | Inl _ \<Rightarrow> (case de_list S (de_string S) v of Inr xs \<Rightarrow> Inr (Multiple xs) | Inl _ \<Rightarrow> no_variant)))"

definition federated_claims_de :: "'z serde_externals_scheme \<Rightarrow> json \<Rightarrow> (federated_claims, string) result" where
  "federated_claims_de S = de_struct S [''connector_id'', ''user_id''] (\<lambda>m.
     and_then (opt_field ''connector_id'' (de_string S) m) (\<lambda>c.
     and_then (opt_field ''user_id'' (de_string S) m) (\<lambda>u. Inr \<lparr>fc_connector_id = c, fc_user_id = u\<rparr>)))"

definition token_claims_de :: "'z serde_externals_scheme \<Rightarrow> json \<Rightarrow> (token_claims, string) result" where
  "token_claims_de S = de_struct S
     [''iss'', ''sub'', ''aud'', ''exp'', ''iat'', ''email'', ''email_verified'', ''federated_claims''] (\<lambda>m.
     and_then (required ''iss'' (de_string S) m) (\<lambda>iss.
     and_then (required ''sub'' (de_string S) m) (\<lambda>sb.
     and_then (defaulted NoAudience ''aud'' (audience_de S) m) (\<lambda>aud.
     and_then (required ''exp'' (u64_de S) m) (\<lambda>ex.
     and_then (defaulted 0 ''iat'' (u64_de S) m) (\<lambda>ia.
     and_then (opt_field ''email'' (de_string S) m) (\<lambda>em.
     and_then (opt_field ''email_verified'' (bool_de S) m) (\<lambda>ev.
     and_then (opt_field ''federated_claims'' (federated_claims_de S) m) (\<lambda>fc.
       Inr \<lparr>tc_iss = iss, tc_sub = sb, tc_aud = aud, tc_exp = ex, tc_iat = ia, tc_email = em,
            tc_email_verified = ev, tc_federated = fc\<rparr>)))))))))"

subsection \<open>The certificate authority (client.rs)\<close>

definition oidc_issuer_ser :: "oidc_issuer \<Rightarrow> json" where
  "oidc_issuer_ser i = obj
     [(''issuerUrl'', Some (JString (oi_issuer_url i))), (''audience'', Some (JString (oi_audience i))),
      (''challengeClaim'', Some (ser_option JString (oi_challenge_claim i))),
      (''spiffeTrustDomain'', Some (ser_option JString (oi_spiffe_trust_domain i)))]"

definition oidc_issuer_de :: "'z serde_externals_scheme \<Rightarrow> json \<Rightarrow> (oidc_issuer, string) result" where
  "oidc_issuer_de S = de_struct S [''issuerUrl'', ''audience'', ''challengeClaim'', ''spiffeTrustDomain''] (\<lambda>m.
     and_then (required ''issuerUrl'' (de_string S) m) (\<lambda>u.
     and_then (required ''audience'' (de_string S) m) (\<lambda>a.
     and_then (opt_field ''challengeClaim'' (de_string S) m) (\<lambda>c.
     and_then (opt_field ''spiffeTrustDomain'' (de_string S) m) (\<lambda>t.
       Inr \<lparr>oi_issuer_url = u, oi_audience = a, oi_challenge_claim = c, oi_spiffe_trust_domain = t\<rparr>)))))"

definition configuration_ser :: "oidc_issuer list \<Rightarrow> json" where
  "configuration_ser is = wrap_ser ''issuers'' (ser_list oidc_issuer_ser is)"

definition configuration_de :: "'z serde_externals_scheme \<Rightarrow> json \<Rightarrow> (oidc_issuer list, string) result" where
  "configuration_de S = wrap_de S ''issuers'' (de_list S (oidc_issuer_de S))"

definition certificate_request_ser :: "'z serde_externals_scheme \<Rightarrow> certificate_request \<Rightarrow> json" where
  "certificate_request_ser S q = obj
     [(''credentials'', Some (wrap_ser ''oidcIdentityToken'' (JString (cq_oidc_identity_token q)))),
      (''publicKeyRequest'', Some (obj
         [(''publicKey'', Some (obj
             [(''algorithm'', Some (JString (cq_algorithm q))), (''content'', Some (JString (cq_content q)))])),
          (''proofOfPossession'', Some (newtype_ser S (cq_proof_of_possession q)))]))]"

text \<open>\<open>ChainContent\<close>, \<open>CertificateChain\<close> and \<open>CertificateWithSCT\<close>.\<close>

definition chain_content_ser :: "string list \<Rightarrow> json" where
  "chain_content_ser cs = wrap_ser ''certificates'' (ser_list JString cs)"

definition chain_content_de :: "'z serde_externals_scheme \<Rightarrow> json \<Rightarrow> (string list, string) result" where
  "chain_content_de S = wrap_de S ''certificates'' (de_list S (de_string S))"

definition certificate_chain_ser :: "string list \<Rightarrow> json" where
  "certificate_chain_ser cs = wrap_ser ''chain'' (chain_content_ser cs)"

definition certificate_chain_de :: "'z serde_externals_scheme \<Rightarrow> json \<Rightarrow> (string list, string) result" where
  "certificate_chain_de S = wrap_de S ''chain'' (chain_content_de S)"

definition certificate_with_sct_de :: "'z serde_externals_scheme \<Rightarrow> json \<Rightarrow> (string list \<times> string, string) result" where
  "certificate_with_sct_de S = de_struct S [''chain'', ''signedCertificateTimestamp''] (\<lambda>m.
     and_then (required ''chain'' (chain_content_de S) m) (\<lambda>cs.
     and_then (required ''signedCertificateTimestamp'' (de_string S) m) (\<lambda>t. Inr (cs, t))))"

definition signing_certificate_de :: "'z serde_externals_scheme \<Rightarrow> json \<Rightarrow> (signing_certificate, string) result" where
  "signing_certificate_de S = de_struct S [''signedCertificateEmbeddedSct'', ''signedCertificateDetachedSct''] (\<lambda>m.
     and_then (opt_field ''signedCertificateEmbeddedSct'' (certificate_chain_de S) m) (\<lambda>e.
     and_then (opt_field ''signedCertificateDetachedSct'' (certificate_with_sct_de S) m) (\<lambda>d.
       Inr \<lparr>sc_embedded_sct = e, sc_detached_sct = d\<rparr>)))"

definition trust_bundle_ser :: "string list list \<Rightarrow> json" where
  "trust_bundle_ser cs = wrap_ser ''chains'' (ser_list certificate_chain_ser cs)"

definition trust_bundle_de :: "'z serde_externals_scheme \<Rightarrow> json \<Rightarrow> (string list list, string) result" where
  "trust_bundle_de S = wrap_de S ''chains'' (de_list S (certificate_chain_de S))"

definition fulcio_of_serde :: "'y serde_externals_scheme \<Rightarrow> 'z fulcio_externals_scheme \<Rightarrow> 'z fulcio_externals_scheme" where
  "fulcio_of_serde S X = X
     \<lparr>de_claims := read_bytes S (token_claims_de S),
      ser_certificate_request := \<lambda>q. write_bytes S (certificate_request_ser S q),
      de_signing_certificate := read_bytes S (signing_certificate_de S),
      ser_configuration := \<lambda>c. write_bytes S (configuration_ser c),
      de_configuration := read_bytes S (configuration_de S),
      ser_trust_bundle := \<lambda>c. write_bytes S (trust_bundle_ser c),
      de_trust_bundle := read_bytes S (trust_bundle_de S)\<rparr>"

subsection \<open>The token endpoint (oauth.rs)\<close>

definition token_response_de :: "'z serde_externals_scheme \<Rightarrow> json \<Rightarrow> (token_response, string) result" where
  "token_response_de S = de_struct S [''access_token'', ''token_type'', ''expires_in'', ''id_token''] (\<lambda>m.
     and_then (required ''access_token'' (de_string S) m) (\<lambda>a.
     and_then (required ''token_type'' (de_string S) m) (\<lambda>t.
     and_then (opt_field ''expires_in'' (u64_de S) m) (\<lambda>e.
     and_then (opt_field ''id_token'' (de_string S) m) (\<lambda>i.
       Inr \<lparr>tr_access_token = a, tr_token_type = t, tr_expires_in = e, tr_id_token = i\<rparr>)))))"

definition oauth_of_serde :: "'y serde_externals_scheme \<Rightarrow> 'z oauth_externals_scheme \<Rightarrow> 'z oauth_externals_scheme" where
  "oauth_of_serde S X = fulcio_of_serde S X \<lparr>de_token_response := read_bytes S (token_response_de S)\<rparr>"

subsection \<open>What is read back\<close>

interpretation wrap_codec: codec "\<lambda>xs. wrap_ser k (ser_list JString xs)" "wrap_de S k (de_list S (de_string S))"
    "\<lambda>xs. serde_laws S" for S k
  by unfold_locales (simp_all add: wrap_ser_def wrap_de_def read_members names_codec.dec_enc)

interpretation chain_content_codec: codec chain_content_ser "chain_content_de S" "\<lambda>cs. serde_laws S" for S
  by unfold_locales (simp_all add: chain_content_ser_def chain_content_de_def wrap_codec.dec_enc wrap_codec.enc_not_null)

interpretation certificate_chain_codec: codec certificate_chain_ser "certificate_chain_de S" "\<lambda>cs. serde_laws S" for S
  by unfold_locales
    (simp_all add: certificate_chain_ser_def certificate_chain_de_def wrap_ser_def wrap_de_def read_members
      chain_content_codec.dec_enc)

interpretation trust_bundle_codec: codec trust_bundle_ser "trust_bundle_de S" "\<lambda>cs. serde_laws S" for S
  by unfold_locales
    (simp_all add: trust_bundle_ser_def trust_bundle_de_def wrap_ser_def wrap_de_def read_members
      certificate_chain_codec.list_codec list_all_iff)

interpretation oidc_issuer_codec: codec oidc_issuer_ser "oidc_issuer_de S" "\<lambda>i. serde_laws S" for S
  by unfold_locales
    (simp_all add: oidc_issuer_ser_def oidc_issuer_de_def read_members str_codec.dec_enc str_codec.option_codec
      option.pred_True)

interpretation configuration_codec: codec configuration_ser "configuration_de S" "\<lambda>is. serde_laws S" for S
  by unfold_locales
    (simp_all add: configuration_ser_def configuration_de_def wrap_ser_def wrap_de_def read_members
      oidc_issuer_codec.list_codec list_all_iff)

text \<open>
  What the clients cache: the bytes stored for an answer are read as that answer.  \<open>from_slice\<close> is
  \<open>from_str\<close> on the bytes of a text.
\<close>

definition slice_law :: "'z serde_externals_scheme \<Rightarrow> bool" where
  "slice_law S \<longleftrightarrow> (\<forall>t. json_parse S (as_bytes t) = json_read S t)"

lemma cached_bytes:
  assumes "serde_laws S" "slice_law S" "codec enc dec ok" "ok x" "write_bytes S (enc x) = Inr b"
  shows "read_bytes S dec b = Inr x"
proof -
  from assms(5) obtain t where "json_write S (enc x) = Inr t" "b = as_bytes t"
    by (auto simp: write_bytes_def result_simps)
  with assms(1,2) codec.dec_enc [OF assms(3,4)] show ?thesis
    by (simp add: read_bytes_def slice_law_def serde_laws_text)
qed

lemma cached_configuration:
  "serde_laws S \<Longrightarrow> slice_law S \<Longrightarrow> ser_configuration (fulcio_of_serde S X) c = Inr b \<Longrightarrow>
     de_configuration (fulcio_of_serde S X) b = Inr c"
  using cached_bytes [OF _ _ configuration_codec.codec_axioms [of S]] by (simp add: fulcio_of_serde_def)

lemma cached_trust_bundle:
  "serde_laws S \<Longrightarrow> slice_law S \<Longrightarrow> ser_trust_bundle (fulcio_of_serde S X) c = Inr b \<Longrightarrow>
     de_trust_bundle (fulcio_of_serde S X) b = Inr c"
  using cached_bytes [OF _ _ trust_bundle_codec.codec_axioms [of S]] by (simp add: fulcio_of_serde_def)

lemma cached_log_info:
  "serde_laws S \<Longrightarrow> slice_law S \<Longrightarrow> is_i64 (li_tree_size l) \<Longrightarrow>
     list_all (\<lambda>s. is_i64 (is_tree_size s)) (li_inactive_shards l) \<Longrightarrow>
     ser_log_info (messages_of_serde S order X) l = Inr b \<Longrightarrow> de_log_info (messages_of_serde S order X) b = Inr l"
  using cached_bytes [OF _ _ log_info_codec.codec_axioms [of S], where S = S and x = l and b = b]
  by (simp add: messages_of_serde_def)

text \<open>The audience of a token: absent and \<open>null\<close> are the same, and a list must hold strings only.\<close>

lemma audience_de_Inr:
  "audience_de S v = Inr a \<longleftrightarrow>
     (case a of NoAudience \<Rightarrow> v = JNull | Single s \<Rightarrow> v = JString s | Multiple xs \<Rightarrow> v = JArray (map JString xs))"
proof -
  have strings: "collect_ok (map (de_string S) vs) = Inr xs \<longleftrightarrow> vs = map JString xs" for vs xs
  proof (induction vs arbitrary: xs)
    case (Cons v vs)
    have "de_string S v = Inr s \<longleftrightarrow> v = JString s" for s by (cases v) (auto simp: de_string_def)
    with Cons show ?case by (cases xs) (auto simp: result_simps)
  qed auto
  show ?thesis
  proof (cases v)
    case (JArray vs)
    then have "audience_de S v = (case collect_ok (map (de_string S) vs) of Inr xs \<Rightarrow> Inr (Multiple xs)
        | Inl e \<Rightarrow> Inl ''data did not match any variant of untagged enum Audience'')"
      by (simp add: audience_de_def de_string_def de_list_def)
    with JArray strings [of vs] show ?thesis
      by (cases a; cases "collect_ok (map (de_string S) vs)") auto
  qed (cases a; simp add: audience_de_def Let_def de_string_def de_list_def; blast)+
qed

end
