(* ===== verification/Example_Verify.thy ===== *)
theory Example_Verify
  imports Conformance Tuf_Conformance
begin

text \<open>
  The example programs of the crate sigstore-verify: examples/verify\_bundle.rs, which verifies a
  bundle for an artifact or its digest under a policy given by options, and
  examples/verify\_conda\_attestation.rs, which verifies the attestation of a package.

  Both fetch the trusted root through TUF, so their state is the network and the file system; as
  in \<open>Trust_Fetch\<close> a run is \<open>None\<close> where the loop that adopts cached roots does not end.  A run
  gives the lines written to the two console streams and the exit code.  How a path is resolved,
  the message of an unreadable file, the display of a time and the regular expressions are the
  environment.  A panic, of an index or of \<open>expect\<close>, ends a program with code 101.
\<close>

subsection \<open>Runs\<close>

datatype line = Out string | Err string

type_synonym 'a run = "line list \<times> (nat + 'a)"

text \<open>\<open>process::exit\<close> after some lines, lines alone, and one part of a program after another.\<close>

definition stop :: "line list \<Rightarrow> nat \<Rightarrow> 'a run" where
  "stop out code = (out, Inl code)"

definition say :: "line list \<Rightarrow> unit run" where
  "say out = (out, Inr ())"

definition and_run :: "'a run \<Rightarrow> ('a \<Rightarrow> 'b run) \<Rightarrow> 'b run" where
  "and_run m f =
     (case m of
        (out, Inl code) \<Rightarrow> (out, Inl code)
      | (out, Inr x) \<Rightarrow> (case f x of (out', r) \<Rightarrow> (out @ out', r)))"

definition or_stop :: "(string + 'a) \<Rightarrow> string \<Rightarrow> 'a run" where
  "or_stop r msg = (case r of Inl e \<Rightarrow> stop [Err (msg @ e)] 1 | Inr x \<Rightarrow> ([], Inr x))"

fun exit_code :: "unit run \<Rightarrow> line list \<times> nat" where
  "exit_code (out, Inl code) = (out, code)"
| "exit_code (out, Inr u) = (out, 0)"

definition line_break :: "string \<Rightarrow> string" where
  "line_break s = CHR 0x0A # s"

definition quoted :: "string \<Rightarrow> string" where
  "quoted s = [CHR 0x27] @ s @ [CHR 0x27]"

definition double_quoted :: "string \<Rightarrow> string" where
  "double_quoted s = [CHR 0x22] @ s @ [CHR 0x22]"

record 'n example_env =
  xe_trust :: "'n trust_env"
  xe_path :: "string \<Rightarrow> path"
  xe_read_error :: "path \<Rightarrow> string"
  xe_show_time :: "int \<Rightarrow> string option"
  xe_regex :: "string \<Rightarrow> (string \<Rightarrow> bool, string) result"

definition example_read :: "('n, 'e) example_env_scheme \<Rightarrow> file_system \<Rightarrow> string \<Rightarrow> (bytes, string) result" where
  "example_read E fs name = ok_or (xe_read_error E (xe_path E name)) (files fs (xe_path E name))"

definition example_read_text :: "'z externals_scheme \<Rightarrow> 'n example_env \<Rightarrow> file_system \<Rightarrow> string \<Rightarrow> (string, string) result" where
  "example_read_text X E fs name =
     and_then (example_read E fs name) (\<lambda>bs. map_err (\<lambda>_. ''stream did not contain valid UTF-8'') (from_utf8 X bs))"

subsection \<open>Options\<close>

text \<open>
  The loop over the arguments.  The message about a missing value names the option by its first
  name, whichever was used.
\<close>

datatype arg_stop = Needs_Value string | Wants_Help | Unknown_Option string

fun example_args :: "(string \<times> string \<times> (string \<Rightarrow> 'a \<Rightarrow> 'a)) list \<Rightarrow> (string \<times> ('a \<Rightarrow> 'a)) list
    \<Rightarrow> (string \<Rightarrow> 'a \<Rightarrow> 'a) \<Rightarrow> string list \<Rightarrow> 'a \<Rightarrow> arg_stop + 'a" where
  "example_args valued flags positional [] a = Inr a"
| "example_args valued flags positional (x # xs) a =
     (case map_of valued x of
        Some (name, put) \<Rightarrow>
          (case xs of
             [] \<Rightarrow> Inl (Needs_Value name)
           | v # ys \<Rightarrow> example_args valued flags positional ys (put v a))
      | None \<Rightarrow>
          (case map_of flags x of
             Some put \<Rightarrow> example_args valued flags positional xs (put a)
           | None \<Rightarrow>
               if x = ''--help'' \<or> x = ''-h'' then Inl Wants_Help
               else if \<not> starts_with x ''-'' then example_args valued flags positional xs (positional x a)
               else Inl (Unknown_Option x)))"

definition args_or_stop :: "line list \<Rightarrow> (arg_stop + 'a) \<Rightarrow> 'a run" where
  "args_or_stop usage r =
     (case r of
        Inl (Needs_Value name) \<Rightarrow> stop [Err (''Error: '' @ name @ '' requires a value'')] 1
      | Inl Wants_Help \<Rightarrow> stop usage 0
      | Inl (Unknown_Option x) \<Rightarrow> stop (Err (''Error: Unknown option: '' @ x) # usage) 1
      | Inr a \<Rightarrow> ([], Inr a))"

record bundle_args =
  ba_identity :: "string option"
  ba_identity_regexp :: "string option"
  ba_issuer :: "string option"
  ba_staging :: bool
  ba_positional :: "string list"

definition no_bundle_args :: bundle_args where
  "no_bundle_args = \<lparr>ba_identity = None, ba_identity_regexp = None, ba_issuer = None, ba_staging = False,
     ba_positional = []\<rparr>"

definition put_identity :: "string \<times> (string \<Rightarrow> bundle_args \<Rightarrow> bundle_args)" where
  "put_identity = (''--certificate-identity'', \<lambda>v a. a\<lparr>ba_identity := Some v\<rparr>)"

definition put_issuer :: "string \<times> (string \<Rightarrow> bundle_args \<Rightarrow> bundle_args)" where
  "put_issuer = (''--certificate-oidc-issuer'', \<lambda>v a. a\<lparr>ba_issuer := Some v\<rparr>)"

definition parse_bundle_args :: "string list \<Rightarrow> arg_stop + bundle_args" where
  "parse_bundle_args args = example_args
     [(''--identity'', put_identity), (''-i'', put_identity), (''--certificate-identity'', put_identity),
      (''--certificate-identity-regexp'', ''--certificate-identity-regexp'', \<lambda>v a. a\<lparr>ba_identity_regexp := Some v\<rparr>),
      (''--issuer'', put_issuer), (''-o'', put_issuer), (''--certificate-oidc-issuer'', put_issuer)]
     [(''--staging'', \<lambda>a. a\<lparr>ba_staging := True\<rparr>)]
     (\<lambda>v a. a\<lparr>ba_positional := ba_positional a @ [v]\<rparr>) args no_bundle_args"

text \<open>\<open>print_usage\<close>.\<close>

definition bundle_usage :: "string \<Rightarrow> line list" where
  "bundle_usage program = map Err
     [''Usage: '' @ program @ '' [OPTIONS] <ARTIFACT|DIGEST> <BUNDLE>'',
      '''',
      ''Arguments:'',
      ''  <ARTIFACT|DIGEST>  Path to artifact file OR sha256:hex digest'',
      ''  <BUNDLE>           Path to the Sigstore bundle (.sigstore.json)'',
      '''',
      ''Options:'',
      ''  --certificate-identity <ID>        Required certificate identity (exact match)'',
      ''  --certificate-identity-regexp <RE> Required certificate identity (regex)'',
      ''  --certificate-oidc-issuer <ISSUER> Required OIDC issuer'',
      ''  --staging                          Use Sigstore staging infrastructure'',
      ''  -h, --help                         Print this help message'',
      '''',
      ''Aliases (for backwards compatibility):'',
      ''  -i, --identity  Same as --certificate-identity'',
      ''  -o, --issuer    Same as --certificate-oidc-issuer'',
      '''',
      ''Examples:'',
      ''  # Verify a bundle'',
      ''  '' @ program @ '' artifact.txt artifact.sigstore.json'',
      '''',
      ''  # Verify with identity regex (cosign-compatible)'',
      ''  '' @ program @ '' --certificate-identity-regexp '' @ double_quoted ''.*'' @ '' '' @ [CHR 0x5C],
      ''      --certificate-oidc-issuer https://token.actions.githubusercontent.com '' @ [CHR 0x5C],
      ''      artifact.txt artifact.sigstore.json'',
      '''',
      ''  # Verify using digest instead of file'',
      ''  '' @ program @ '' --certificate-identity-regexp '' @ double_quoted ''.*'' @ '' '' @ [CHR 0x5C],
      ''      --certificate-oidc-issuer https://token.actions.githubusercontent.com '' @ [CHR 0x5C],
      ''      sha256:abc123def456... bundle.sigstore.json'',
      '''',
      ''Getting bundles from GitHub:'',
      ''  gh attestation download <artifact-url> -o bundle.sigstore.json'']"

subsection \<open>verify\_bundle.rs\<close>

definition load_bundle :: "'z externals_scheme \<Rightarrow> 'j serde_externals_scheme \<Rightarrow> 'n example_env \<Rightarrow> file_system \<Rightarrow> string
    \<Rightarrow> sigstore_bundle run" where
  "load_bundle X J E fs bundle_path =
     and_run (or_stop (example_read_text X E fs bundle_path) (''Error reading bundle '' @ quoted bundle_path @ '': ''))
       (\<lambda>json. or_stop (map_err fmt_types_error (bundle_from_json J json)) ''Error parsing bundle: '')"

text \<open>The options, the artifact's argument and the bundle.\<close>

definition bundle_start :: "'z externals_scheme \<Rightarrow> 'j serde_externals_scheme \<Rightarrow> 'n example_env \<Rightarrow> string list
    \<Rightarrow> file_system \<Rightarrow> (bundle_args \<times> string \<times> string \<times> sigstore_bundle) run" where
  "bundle_start X J E argv fs =
     (let wrong = Err ''Error: Expected exactly 2 positional arguments (artifact/digest and bundle)'' in
      case argv of
        [] \<Rightarrow> stop [wrong] 101
      | program # args \<Rightarrow>
          and_run (args_or_stop (bundle_usage program) (parse_bundle_args args)) (\<lambda>a.
            case ba_positional a of
              [artifact_or_digest, bundle_path] \<Rightarrow>
                and_run (load_bundle X J E fs bundle_path) (\<lambda>b. ([], Inr (a, artifact_or_digest, bundle_path, b)))
            | _ \<Rightarrow> stop (wrong # bundle_usage program) 1))"

text \<open>The trusted root, with the line printed before it is fetched.\<close>

definition example_root :: "'t tuf_externals_scheme \<Rightarrow> 'n example_env \<Rightarrow> timestamp \<Rightarrow> timestamp \<Rightarrow> bool
    \<Rightarrow> 'n \<times> file_system \<Rightarrow> (('n \<times> file_system) \<times> trusted_root run) option" where
  "example_root T E now now' staging st =
     (let name = (if staging then ''staging'' else ''production'') in
      map_option (\<lambda>(st', r). (st',
          and_run (say [Out (''  Using: '' @ name @ '' infrastructure (fetching via TUF)'')])
            (\<lambda>_. or_stop (map_err fmt_trust_error r) (''Error fetching '' @ name @ '' trusted root via TUF: ''))))
        ((if staging then root_staging else root_production) T (xe_trust E) now now' st))"

definition bundle_policy :: "bundle_args \<Rightarrow> verification_policy" where
  "bundle_policy a =
     (let policy = (case ba_identity a of Some i \<Rightarrow> require_identity default_policy i | None \<Rightarrow> default_policy) in
      case ba_issuer a of Some iss \<Rightarrow> require_issuer policy iss | None \<Rightarrow> policy)"

fun debug_media_type :: "media_type \<Rightarrow> string" where
  "debug_media_type Bundle0_1 = ''Bundle0_1''"
| "debug_media_type Bundle0_2 = ''Bundle0_2''"
| "debug_media_type Bundle0_3 = ''Bundle0_3''"

text \<open>The line of a value that may be absent.\<close>

definition line_of :: "string \<Rightarrow> string option \<Rightarrow> line list" where
  "line_of label x = (case x of Some v \<Rightarrow> [Out (label @ v)] | None \<Rightarrow> [])"

definition bundle_info :: "bundle_args \<Rightarrow> string \<Rightarrow> string \<Rightarrow> sigstore_bundle \<Rightarrow> line list" where
  "bundle_info a artifact_or_digest bundle_path b =
     [Out ''Verifying bundle...'',
      Out ((if starts_with artifact_or_digest ''sha256:'' then ''  Digest: '' else ''  Artifact: '') @ artifact_or_digest),
      Out (''  Bundle: '' @ bundle_path), Out (''  Media Type: '' @ b_media_type b)]
     @ (case bundle_version b of Inr v \<Rightarrow> [Out (''  Version: '' @ debug_media_type v)] | Inl _ \<Rightarrow> [])
     @ line_of ''  Required Identity: '' (ba_identity a)
     @ line_of ''  Required Identity Regexp: '' (ba_identity_regexp a)
     @ line_of ''  Required Issuer: '' (ba_issuer a)"

text \<open>The artifact: the digest of the argument, or the content of the file it names.\<close>

definition example_artifact :: "'z externals_scheme \<Rightarrow> 'n example_env \<Rightarrow> file_system \<Rightarrow> string \<Rightarrow> artifact run" where
  "example_artifact X E fs artifact_or_digest =
     (if starts_with artifact_or_digest ''sha256:'' then
        or_stop (map_sum fmt_types_error Digest (sha256_from_hex X (drop (length ''sha256:'') artifact_or_digest)))
          ''Error parsing digest: ''
      else or_stop (map_sum id Bytes (example_read E fs artifact_or_digest))
          (''Error reading artifact '' @ quoted artifact_or_digest @ '': ''))"

definition check_regexp :: "'n example_env \<Rightarrow> string option \<Rightarrow> verification_result \<Rightarrow> unit run" where
  "check_regexp E identity_regexp r =
     (case identity_regexp of
        None \<Rightarrow> say []
      | Some re_str \<Rightarrow>
          and_run (or_stop (xe_regex E re_str) ''Error compiling identity regexp: '') (\<lambda>is_match.
            case r_identity r of
              Some i \<Rightarrow>
                if \<not> is_match i then
                  stop [Err (line_break ''Verification: FAILED''),
                        Err (''  Identity '' @ quoted i @ '' does not match regexp '' @ quoted re_str)] 1
                else say []
            | None \<Rightarrow> stop [Err (line_break ''Verification: FAILED''), Err ''  No identity found in certificate''] 1))"

definition bundle_verdict :: "'n example_env \<Rightarrow> verification_result \<Rightarrow> unit run" where
  "bundle_verdict E r =
     (if r_success r then
        say ([Out (line_break ''Verification: SUCCESS'')]
          @ line_of ''  Identity: '' (r_identity r) @ line_of ''  Issuer: '' (r_issuer r)
          @ line_of ''  Signed at: '' (Option.bind (r_integrated_time r) (xe_show_time E))
          @ map (\<lambda>w. Out (''  Warning: '' @ w)) (r_warnings r))
      else stop [Err (line_break ''Verification: FAILED'')] 1)"

definition bundle_finish :: "'z pki_externals_scheme \<Rightarrow> clock \<Rightarrow> 'n example_env \<Rightarrow> file_system
    \<Rightarrow> bundle_args \<times> string \<times> string \<times> sigstore_bundle \<Rightarrow> trusted_root \<Rightarrow> unit run" where
  "bundle_finish X clock E fs = (\<lambda>(a, artifact_or_digest, bundle_path, b) root.
     and_run (say (bundle_info a artifact_or_digest bundle_path b)) (\<lambda>_.
     and_run (example_artifact X E fs artifact_or_digest) (\<lambda>artifact.
     and_run (or_stop (map_err fmt_verify_error (verify X clock artifact b (bundle_policy a) root))
       (line_break ''Verification error: '')) (\<lambda>r.
     and_run (check_regexp E (ba_identity_regexp a) r) (\<lambda>_. bundle_verdict E r)))))"

definition verify_bundle_main :: "'z pki_externals_scheme \<Rightarrow> clock \<Rightarrow> 't tuf_externals_scheme \<Rightarrow> 'j serde_externals_scheme
    \<Rightarrow> 'n example_env \<Rightarrow> timestamp \<Rightarrow> timestamp \<Rightarrow> string list \<Rightarrow> 'n \<times> file_system
    \<Rightarrow> (('n \<times> file_system) \<times> line list \<times> nat) option" where
  "verify_bundle_main X clock T J E now now' argv st =
     (case bundle_start X J E argv (snd st) of
        (out, Inl code) \<Rightarrow> Some (st, out, code)
      | (out, Inr given) \<Rightarrow>
          map_option (\<lambda>(st', root). (st', exit_code (and_run (out, Inr ()) (\<lambda>_.
              and_run root (bundle_finish X clock E (snd st') given)))))
            (example_root T E now now' (ba_staging (fst given)) st))"

subsection \<open>verify\_conda\_attestation.rs\<close>

definition conda_usage :: "string \<Rightarrow> line list" where
  "conda_usage program = map Err
     [''Usage: '' @ program @ '' <CONDA_PACKAGE> <ATTESTATION>'',
      '''',
      ''Arguments:'',
      ''  <CONDA_PACKAGE>  Path to the .conda package file'',
      ''  <ATTESTATION>    Path to the attestation bundle (.sigstore.json)'',
      '''',
      ''Example:'',
      ''  '' @ program @ '' package.conda attestation.sigstore.json'']"

definition text_member :: "string \<Rightarrow> json \<Rightarrow> string option" where
  "text_member k v = Option.bind (json_get k v) as_str"

definition as_array :: "json \<Rightarrow> json list option" where
  "as_array v = (case v of JArray vs \<Rightarrow> Some vs | _ \<Rightarrow> None)"

text \<open>The lines about the subjects and the predicate of a statement.\<close>

definition subject_lines :: "json \<Rightarrow> line list" where
  "subject_lines subject =
     (case text_member ''name'' subject of
        None \<Rightarrow> []
      | Some name \<Rightarrow>
          Out (''    - '' @ name) #
          line_of ''      sha256: '' (Option.bind (json_get ''digest'' subject) (text_member ''sha256'')))"

definition statement_lines :: "json \<Rightarrow> line list" where
  "statement_lines statement =
     line_of ''  Statement Type: '' (text_member ''_type'' statement)
     @ line_of ''  Predicate Type: '' (text_member ''predicateType'' statement)
     @ (case Option.bind (json_get ''subject'' statement) as_array of
          Some subjects \<Rightarrow> Out ''  Subjects:'' # concat (map subject_lines subjects)
        | None \<Rightarrow> [])
     @ (case json_get ''predicate'' statement of
          Some predicate \<Rightarrow>
            Out ''  Predicate:'' # line_of ''    Target Channel: '' (text_member ''targetChannel'' predicate)
        | None \<Rightarrow> [])"

definition attestation_lines :: "'z externals_scheme \<Rightarrow> 'j serde_externals_scheme \<Rightarrow> sigstore_bundle \<Rightarrow> line list" where
  "attestation_lines X J b =
     (case b_content b of
        DsseEnvelope dsse \<Rightarrow>
          [Out '''', Out ''In-Toto Attestation:'', Out (''  Payload Type: '' @ payload_type dsse)]
          @ (case and_then (from_utf8 X (payload dsse)) (json_read J) of
               Inr statement \<Rightarrow> statement_lines statement
             | Inl _ \<Rightarrow> [])
      | _ \<Rightarrow> [])"

definition conda_start :: "'z externals_scheme \<Rightarrow> 'j serde_externals_scheme \<Rightarrow> 'n example_env \<Rightarrow> string list
    \<Rightarrow> file_system \<Rightarrow> (string \<times> bytes \<times> string \<times> sigstore_bundle) run" where
  "conda_start X J E argv fs =
     (case argv of
        [] \<Rightarrow> stop [] 101
      | [program, artifact_path, bundle_path] \<Rightarrow>
          and_run (or_stop (example_read E fs artifact_path) (''Error reading artifact '' @ quoted artifact_path @ '': '')) (\<lambda>artifact.
          and_run (load_bundle X J E fs bundle_path) (\<lambda>b. ([], Inr (artifact_path, artifact, bundle_path, b))))
      | program # _ \<Rightarrow> stop (conda_usage program) 1)"

definition GITHUB_ISSUER :: string where
  "GITHUB_ISSUER = ''https://token.actions.githubusercontent.com''"

definition conda_verdict :: "'n example_env \<Rightarrow> verification_result \<Rightarrow> unit run" where
  "conda_verdict E r =
     (if r_success r then
        say ([Out ''Verification: SUCCESS'', Out '''', Out ''Certificate Details:'']
          @ line_of ''  Identity (SAN): '' (r_identity r) @ line_of ''  OIDC Issuer: '' (r_issuer r)
          @ line_of ''  Signed at: '' (Option.bind (r_integrated_time r) (xe_show_time E))
          @ concat (map (\<lambda>w. [Out '''', Out (''Warning: '' @ w)]) (r_warnings r)))
      else stop [Err ''Verification: FAILED''] 1)"

definition conda_finish :: "'z pki_externals_scheme \<Rightarrow> clock \<Rightarrow> 'j serde_externals_scheme \<Rightarrow> 'n example_env
    \<Rightarrow> string \<times> bytes \<times> string \<times> sigstore_bundle \<Rightarrow> trusted_root \<Rightarrow> unit run" where
  "conda_finish X clock J E = (\<lambda>(artifact_path, artifact, bundle_path, b) root.
     and_run (say ([Out ''Verifying conda package attestation...'', Out '''', Out (''Package: '' @ artifact_path),
         Out (''Bundle:  '' @ bundle_path), Out (''Media Type: '' @ b_media_type b)]
         @ attestation_lines X J b @ [Out ''''])) (\<lambda>_.
     and_run (or_stop (map_err fmt_verify_error
         (verify X clock (Bytes artifact) b (require_issuer default_policy GITHUB_ISSUER) root))
       ''Verification error: '') (conda_verdict E)))"

definition verify_conda_main :: "'z pki_externals_scheme \<Rightarrow> clock \<Rightarrow> 't tuf_externals_scheme \<Rightarrow> 'j serde_externals_scheme
    \<Rightarrow> 'n example_env \<Rightarrow> timestamp \<Rightarrow> timestamp \<Rightarrow> string list \<Rightarrow> 'n \<times> file_system
    \<Rightarrow> (('n \<times> file_system) \<times> line list \<times> nat) option" where
  "verify_conda_main X clock T J E now now' argv st =
     (case conda_start X J E argv (snd st) of
        (out, Inl code) \<Rightarrow> Some (st, out, code)
      | (out, Inr given) \<Rightarrow>
          map_option (\<lambda>(st', root). (st', exit_code (and_run (out, Inr ()) (\<lambda>_.
              and_run root (conda_finish X clock J E given)))))
            (example_root T E now now' False st))"

subsection \<open>What exit code 0 says\<close>

named_theorems run_simps \<open>how parts of a run end\<close>

lemma exit_code_zero: "snd (exit_code m) = 0 \<longleftrightarrow> snd m = Inr () \<or> snd m = Inl 0"
  by (cases m rule: exit_code.cases) auto

lemma say_Inr [run_simps]: "snd (say out) = Inr u" "snd (say out) \<noteq> Inl c"
  by (simp_all add: say_def)

lemma stop_ends [run_simps]: "snd (stop out c) \<noteq> Inr x" "snd (stop out c) = Inl c' \<longleftrightarrow> c = c'"
  by (simp_all add: stop_def)

lemma or_stop_ends [run_simps]: "snd (or_stop r msg) = Inr x \<longleftrightarrow> r = Inr x" "snd (or_stop r msg) \<noteq> Inl 0"
  by (cases r; simp add: or_stop_def stop_def)+

lemma and_run_Inr [run_simps]: "snd (and_run m f) = Inr y \<longleftrightarrow> (\<exists>x. snd m = Inr x \<and> snd (f x) = Inr y)"
  by (auto simp: and_run_def split: prod.splits sum.splits)

lemma and_run_Inl [run_simps]:
  "snd (and_run m f) = Inl c \<longleftrightarrow> snd m = Inl c \<or> (\<exists>x. snd m = Inr x \<and> snd (f x) = Inl c)"
  by (auto simp: and_run_def split: prod.splits sum.splits)

lemma pair_ends [run_simps]: "snd (out, Inr x) = Inr y \<longleftrightarrow> x = y" "snd (out, Inr x) \<noteq> Inl c"
  by simp_all

lemma load_bundle_ends [run_simps]:
  "snd (load_bundle X J E fs path) = Inr b \<longleftrightarrow>
     (\<exists>json. example_read_text X E fs path = Inr json \<and> bundle_from_json J json = Inr b)"
  "snd (load_bundle X J E fs path) \<noteq> Inl 0"
  by (auto simp: load_bundle_def run_simps result_simps)

lemma args_or_stop_ends [run_simps]:
  "snd (args_or_stop usage r) = Inr a \<longleftrightarrow> r = Inr a" "snd (args_or_stop usage r) = Inl 0 \<longleftrightarrow> r = Inl Wants_Help"
  by (auto simp: args_or_stop_def run_simps split: sum.splits arg_stop.splits)

text \<open>A program that takes so many positional arguments, and stops with an error otherwise.\<close>

lemma one_argument_ends [run_simps]:
  "snd (case xs of [x] \<Rightarrow> f x | _ \<Rightarrow> stop out 1) = Inr z \<longleftrightarrow> (\<exists>x. xs = [x] \<and> snd (f x) = Inr z)"
  "snd (case xs of [x] \<Rightarrow> f x | _ \<Rightarrow> stop out 1) = Inl 0 \<longleftrightarrow> (\<exists>x. xs = [x] \<and> snd (f x) = Inl 0)"
  by (auto simp: stop_def split: list.splits)

lemma two_arguments_ends [run_simps]:
  "snd (case xs of [x, y] \<Rightarrow> f x y | _ \<Rightarrow> stop out 1) = Inr z \<longleftrightarrow> (\<exists>x y. xs = [x, y] \<and> snd (f x y) = Inr z)"
  "snd (case xs of [x, y] \<Rightarrow> f x y | _ \<Rightarrow> stop out 1) = Inl 0 \<longleftrightarrow> (\<exists>x y. xs = [x, y] \<and> snd (f x y) = Inl 0)"
  by (auto simp: stop_def split: list.splits)

lemma program_ends:
  "snd (case argv of [] \<Rightarrow> stop out 101 | program # args \<Rightarrow> f program args) = Inr z
    \<longleftrightarrow> (\<exists>program args. argv = program # args \<and> snd (f program args) = Inr z)"
  "snd (case argv of [] \<Rightarrow> stop out 101 | program # args \<Rightarrow> f program args) = Inl 0
    \<longleftrightarrow> (\<exists>program args. argv = program # args \<and> snd (f program args) = Inl 0)"
  by (auto simp: stop_def split: list.splits)

lemma bundle_start_ends:
  "snd (bundle_start X J E argv fs) = Inr (a, target, path, b) \<longleftrightarrow>
     (\<exists>program args json. argv = program # args \<and> parse_bundle_args args = Inr a \<and> ba_positional a = [target, path]
        \<and> example_read_text X E fs path = Inr json \<and> bundle_from_json J json = Inr b)"
  "snd (bundle_start X J E argv fs) = Inl 0 \<longleftrightarrow>
     (\<exists>program args. argv = program # args \<and> parse_bundle_args args = Inl Wants_Help)"
  by (auto simp: bundle_start_def Let_def program_ends run_simps)

lemma example_root_ends:
  assumes "example_root T E now now' staging st = Some (st', m)"
  shows "snd m \<noteq> Inl 0" "snd m = Inr root \<Longrightarrow>
    (if staging then root_staging else root_production) T (xe_trust E) now now' st = Some (st', Inr root)"
  using assms by (auto simp: example_root_def Let_def run_simps result_simps split: if_splits)

lemma example_artifact_ends [run_simps]: "snd (example_artifact X E fs target) \<noteq> Inl 0"
  by (simp add: example_artifact_def run_simps)

lemma check_regexp_ends:
  "snd (check_regexp E re r) \<noteq> Inl 0"
  "snd (check_regexp E re r) = Inr u \<Longrightarrow> re = Some text \<Longrightarrow>
     \<exists>is_match who. xe_regex E text = Inr is_match \<and> r_identity r = Some who \<and> is_match who"
  by (auto simp: check_regexp_def run_simps split: option.splits if_splits)

lemma verdict_ends [run_simps]:
  "snd (bundle_verdict E r) \<noteq> Inl 0" "snd (bundle_verdict E r) = Inr u \<longleftrightarrow> r_success r"
  "snd (conda_verdict E r) \<noteq> Inl 0" "snd (conda_verdict E r) = Inr u \<longleftrightarrow> r_success r"
  by (simp_all add: bundle_verdict_def conda_verdict_def run_simps)

text \<open>The certificate of the bundle signed the artifact, which the log entries record, under a policy.\<close>

definition signed_under :: "'z pki_externals_scheme \<Rightarrow> sigstore_bundle \<Rightarrow> artifact \<Rightarrow> string option \<Rightarrow> string option
    \<Rightarrow> string option \<Rightarrow> bool" where
  "signed_under X b artifact identity issuer who \<longleftrightarrow>
     verify_tlog_consistency X b artifact = Inr ()
     \<and> (\<exists>cert ci. extract_certificate (vm_content (b_material b)) = Inr cert \<and> parse_certificate_info X cert = Inr ci
        \<and> ci_identity ci = who \<and> (identity = None \<or> identity = ci_identity ci)
        \<and> (issuer = None \<or> issuer = ci_issuer ci)
        \<and> artifact_signed X (ci_public_key ci) (schemes_of (ci_key_algorithm ci)) b artifact)"

lemma verify_signed_under:
  assumes "verify X clock artifact b policy root = Inr r" "p_verify_tlog policy"
  shows "signed_under X b artifact (p_identity policy) (p_issuer policy) (r_identity r)"
  using assms unfolding verify_def
  by (elim verifier_verify_Inr) (auto simp: signed_under_def check_expected_Inr intro: check_content_Inr)

text \<open>
  The certificate of the bundle chains to the trusted root: webpki chained it at the time of the
  signature, which lies within its validity, a certificate transparency log of the root signed it,
  a log of the root has at least one of the entries, and the evidence every entry carries is that of
  such a log.
\<close>

definition chained_to :: "'z pki_externals_scheme \<Rightarrow> clock \<Rightarrow> trusted_root \<Rightarrow> sigstore_bundle \<Rightarrow> bool" where
  "chained_to X clock root b \<longleftrightarrow>
     (\<exists>cert ci sg t issuer. extract_certificate (vm_content (b_material b)) = Inr cert
        \<and> parse_certificate_info X cert = Inr ci \<and> extract_signature (b_content b) = Inr sg
        \<and> signing_time X clock b sg root t \<and> ci_not_before ci \<le> t \<and> t \<le> ci_not_after ci
        \<and> certificate_trusted X (clock FulcioChain) root (vm_content (b_material b)) t
        \<and> get_issuer_spki X (clock FulcioIssuer) (vm_content (b_material b)) cert root = Inr issuer
        \<and> sct_trusted X (clock CtKeys) root cert issuer)
     \<and> some_entry_logged X clock root b
     \<and> (\<forall>i < length (tlog_entries (b_material b)).
          evidence_trusted X (clock (RekorKeys i)) (clock (LogKey i)) root (tlog_entries (b_material b) ! i))"

lemma verify_chained:
  assumes "verify X clock artifact b policy root = Inr r"
    and "p_verify_certificate policy" "p_verify_sct policy" "p_verify_tlog policy"
  shows "chained_to X clock root b"
  unfolding chained_to_def
  using identity_trusted [OF assms(1) [unfolded verify_def]] entries_logged [OF assms(1) [unfolded verify_def] assms(4)]
    accepted_some_logged [OF assms(1) [unfolded verify_def] assms(4)] assms(2,3)
  by blast

lemma bundle_policy_fields:
  "p_identity (bundle_policy a) = ba_identity a" "p_issuer (bundle_policy a) = ba_issuer a"
  "p_verify_tlog (bundle_policy a)" "p_verify_certificate (bundle_policy a)" "p_verify_sct (bundle_policy a)"
  by (simp_all add: bundle_policy_def require_identity_def require_issuer_def default_policy_def Let_def split: option.splits)

text \<open>The regular expression of the options, if any, matches the signer.\<close>

definition matches_regexp :: "'n example_env \<Rightarrow> string option \<Rightarrow> string option \<Rightarrow> bool" where
  "matches_regexp E re who \<longleftrightarrow>
     (\<forall>p. re = Some p \<longrightarrow> (\<exists>is_match i. xe_regex E p = Inr is_match \<and> who = Some i \<and> is_match i))"

lemma bundle_finish_ends:
  "snd (bundle_finish X clock E fs (a, target, path, b) root) \<noteq> Inl 0"
  "snd (bundle_finish X clock E fs (a, target, path, b) root) = Inr () \<Longrightarrow>
     \<exists>artifact who. snd (example_artifact X E fs target) = Inr artifact
       \<and> signed_under X b artifact (ba_identity a) (ba_issuer a) who \<and> chained_to X clock root b
       \<and> matches_regexp E (ba_identity_regexp a) who"
proof -
  show "snd (bundle_finish X clock E fs (a, target, path, b) root) \<noteq> Inl 0"
    by (auto simp: bundle_finish_def run_simps check_regexp_ends(1))
  assume "snd (bundle_finish X clock E fs (a, target, path, b) root) = Inr ()"
  then obtain artifact r where "snd (example_artifact X E fs target) = Inr artifact"
    and r: "verify X clock artifact b (bundle_policy a) root = Inr r"
    and re: "snd (check_regexp E (ba_identity_regexp a) r) = Inr ()"
    by (auto simp: bundle_finish_def run_simps result_simps)
  moreover have "signed_under X b artifact (ba_identity a) (ba_issuer a) (r_identity r)"
    using verify_signed_under [OF r] by (simp add: bundle_policy_fields)
  moreover have "chained_to X clock root b" by (rule verify_chained [OF r]) (simp_all add: bundle_policy_fields)
  moreover have "matches_regexp E (ba_identity_regexp a) (r_identity r)"
    using check_regexp_ends(2) [OF re] by (auto simp: matches_regexp_def)
  ultimately show "\<exists>artifact who. snd (example_artifact X E fs target) = Inr artifact
       \<and> signed_under X b artifact (ba_identity a) (ba_issuer a) who \<and> chained_to X clock root b
       \<and> matches_regexp E (ba_identity_regexp a) who"
    by blast
qed

text \<open>
  Exit code 0 of verify\_bundle without the option for help: the bundle file given is a signature of
  the artifact given, by who the options require, and chained to a trusted root fetched through TUF.
\<close>

lemma verify_bundle_zero:
  assumes run: "verify_bundle_main X clock T J E now now' (program # args) st = Some (st', out, 0)"
    and "parse_bundle_args args \<noteq> Inl Wants_Help"
  obtains a target path json b root artifact who where
    "parse_bundle_args args = Inr a" "ba_positional a = [target, path]"
    "example_read_text X E (snd st) path = Inr json" "bundle_from_json J json = Inr b"
    "(if ba_staging a then root_staging else root_production) T (xe_trust E) now now' st = Some (st', Inr root)"
    "snd (example_artifact X E (snd st') target) = Inr artifact"
    "signed_under X b artifact (ba_identity a) (ba_issuer a) who" "chained_to X clock root b"
    "matches_regexp E (ba_identity_regexp a) who"
proof -
  obtain out0 end0 where start: "bundle_start X J E (program # args) (snd st) = (out0, end0)"
    by (metis surj_pair)
  with bundle_start_ends(2) [of X J E "program # args" "snd st"] assms
  obtain a target path b where given: "end0 = Inr (a, target, path, b)"
    by (cases end0) (auto simp: verify_bundle_main_def)
  with start run obtain m where root: "example_root T E now now' (ba_staging a) st = Some (st', m)"
    and code: "exit_code (and_run (out0, Inr ()) (\<lambda>_. and_run m (bundle_finish X clock E (snd st') (a, target, path, b))))
      = (out, 0)"
    by (auto simp: verify_bundle_main_def)
  from code have "snd (exit_code (and_run (out0, Inr ()) (\<lambda>_. and_run m
      (bundle_finish X clock E (snd st') (a, target, path, b))))) = 0"
    by simp
  then obtain r where "snd m = Inr r" "snd (bundle_finish X clock E (snd st') (a, target, path, b) r) = Inr ()"
    using example_root_ends(1) [OF root] by (auto simp: exit_code_zero run_simps bundle_finish_ends(1))
  with bundle_finish_ends(2) [OF this(2)] example_root_ends(2) [OF root this(1)] start given that show ?thesis
    using bundle_start_ends(1) [of X J E "program # args" "snd st" a target path b] by auto
qed

text \<open>Exit code 0 of verify\_conda\_attestation: the issuer of the certificate is GitHub's.\<close>

lemma conda_start_ends:
  "snd (conda_start X J E argv fs) = Inr (pkg, artifact, path, b) \<longleftrightarrow>
     (\<exists>program json. argv = [program, pkg, path] \<and> example_read E fs pkg = Inr artifact
        \<and> example_read_text X E fs path = Inr json \<and> bundle_from_json J json = Inr b)"
  "snd (conda_start X J E argv fs) \<noteq> Inl 0"
  by (auto simp: conda_start_def run_simps split: list.splits)

lemma conda_finish_ends:
  "snd (conda_finish X clock J E (pkg, artifact, path, b) root) \<noteq> Inl 0"
  "snd (conda_finish X clock J E (pkg, artifact, path, b) root) = Inr () \<Longrightarrow>
     \<exists>who. signed_under X b (Bytes artifact) None (Some GITHUB_ISSUER) who"
proof -
  show "snd (conda_finish X clock J E (pkg, artifact, path, b) root) \<noteq> Inl 0"
    by (auto simp: conda_finish_def run_simps)
  assume "snd (conda_finish X clock J E (pkg, artifact, path, b) root) = Inr ()"
  then obtain r where "verify X clock (Bytes artifact) b (require_issuer default_policy GITHUB_ISSUER) root = Inr r"
    by (auto simp: conda_finish_def run_simps result_simps)
  from verify_signed_under [OF this] show "\<exists>who. signed_under X b (Bytes artifact) None (Some GITHUB_ISSUER) who"
    by (auto simp: require_issuer_def default_policy_def)
qed

lemma verify_conda_zero:
  assumes run: "verify_conda_main X clock T J E now now' argv st = Some (st', out, 0)"
  obtains program pkg path artifact json b who where "argv = [program, pkg, path]"
    "example_read E (snd st) pkg = Inr artifact"
    "example_read_text X E (snd st) path = Inr json" "bundle_from_json J json = Inr b"
    "signed_under X b (Bytes artifact) None (Some GITHUB_ISSUER) who"
proof -
  obtain out0 end0 where start: "conda_start X J E argv (snd st) = (out0, end0)"
    by (metis surj_pair)
  with conda_start_ends(2) [of X J E argv "snd st"] run
  obtain pkg artifact path b where given: "end0 = Inr (pkg, artifact, path, b)"
    by (cases end0) (auto simp: verify_conda_main_def)
  with start run obtain m where root: "example_root T E now now' False st = Some (st', m)"
    and code: "exit_code (and_run (out0, Inr ()) (\<lambda>_. and_run m (conda_finish X clock J E (pkg, artifact, path, b))))
      = (out, 0)"
    by (auto simp: verify_conda_main_def)
  from code have "snd (exit_code (and_run (out0, Inr ()) (\<lambda>_. and_run m
      (conda_finish X clock J E (pkg, artifact, path, b))))) = 0"
    by simp
  then obtain r where "snd (conda_finish X clock J E (pkg, artifact, path, b) r) = Inr ()"
    using example_root_ends(1) [OF root] by (auto simp: exit_code_zero run_simps conda_finish_ends(1))
  from conda_finish_ends(2) [OF this] start given that show ?thesis
    using conda_start_ends(1) [of X J E argv "snd st" pkg artifact path b] by auto
qed

text \<open>
  The argument of the program decides what is verified: the name of a file that starts like a digest
  is never opened.
\<close>

lemma digest_argument:
  "starts_with target ''sha256:'' \<Longrightarrow> snd (example_artifact X E fs target) = Inr artifact \<Longrightarrow>
     \<exists>h. artifact = Digest h \<and> length h = 32"
  by (auto simp: example_artifact_def run_simps sha256_from_hex_def result_simps map_sum_def split: sum.splits)

subsection \<open>Properties\<close>

text \<open>
  A trusted root that TUF vouches for: its text has the length and the digests that a role authorized
  for \<open>trusted_root.json\<close> lists, in a set reached by verified updates from the root embedded for the instance.
\<close>

definition tuf_vouches :: "'t tuf_externals_scheme \<Rightarrow> 'n trust_env \<Rightarrow> tuf_config \<Rightarrow> trusted_root \<Rightarrow> bool" where
  "tuf_vouches T E c root \<longleftrightarrow>
     (\<exists>bs root_bytes t role tg tf.
        and_then (target_text T TRUSTED_ROOT_TARGET bs) (trusted_root_from_json E) = Inr root
        \<and> get_root_json E c = Inr root_bytes \<and> trusted_reach T root_bytes t \<and> trusted_wf T t
        \<and> authorized T t TRUSTED_ROOT_TARGET role \<and> targets_role t role = Some tg
        \<and> tg_target tg TRUSTED_ROOT_TARGET = Some tf \<and> target_bytes_ok T tf bs)"

lemma fetched_root_vouched:
  assumes "trusted_root_from_tuf T E c now now' st = Some (st', Inr root)" "\<not> tc_offline c"
  shows "tuf_vouches T E c root"
proof -
  from assms(1) obtain bs where "tuf_fetch_target T E c now now' TRUSTED_ROOT_TARGET st = Some (st', Inr bs)"
    and "and_then (target_text T TRUSTED_ROOT_TARGET bs) (trusted_root_from_json E) = Inr root"
    by (auto simp: trusted_root_from_tuf_def and_then_Inr_iff)
  with fetched_authentic [OF this(1) assms(2)] show ?thesis unfolding tuf_vouches_def by blast
qed

text \<open>C17: the whole way of trust.  When the example program verify\_bundle ends with exit code 0 (and did
  not print its help), the bundle file is a signature over the artifact of its argument, by the
  identity and the issuer of its options; the certificate, its time and its SCT are verified with a
  trusted root, with which at least one log entry is verified by its proof (by its signed entry
  timestamp in a bundle of version 0.1), as are the proof and the timestamp of every entry that
  carries one; and that root was obtained through TUF: an authorized role lists it in a set
  of metadata reached by verified updates from the root embedded for the instance.\<close>

theorem example_accepts_vouched:
  assumes "verify_bundle_main X clock T J E now now' (program # args) st = Some (st', out, 0)"
    and "parse_bundle_args args \<noteq> Inl Wants_Help"
  shows "\<exists>a target path json b root artifact who.
     parse_bundle_args args = Inr a \<and> ba_positional a = [target, path]
     \<and> example_read_text X E (snd st) path = Inr json \<and> bundle_from_json J json = Inr b
     \<and> snd (example_artifact X E (snd st') target) = Inr artifact
     \<and> signed_under X b artifact (ba_identity a) (ba_issuer a) who \<and> matches_regexp E (ba_identity_regexp a) who
     \<and> chained_to X clock root b
     \<and> tuf_vouches T (xe_trust E) (if ba_staging a then tuf_staging else tuf_production) root"
proof -
  obtain a target path json b root artifact who where run: "parse_bundle_args args = Inr a"
    "ba_positional a = [target, path]" "example_read_text X E (snd st) path = Inr json" "bundle_from_json J json = Inr b"
    "snd (example_artifact X E (snd st') target) = Inr artifact"
    "signed_under X b artifact (ba_identity a) (ba_issuer a) who" "chained_to X clock root b"
    "matches_regexp E (ba_identity_regexp a) who"
    and root: "(if ba_staging a then root_staging else root_production) T (xe_trust E) now now' st = Some (st', Inr root)"
    by (rule verify_bundle_zero [OF assms])
  have "tuf_vouches T (xe_trust E) (if ba_staging a then tuf_staging else tuf_production) root"
    using root by (intro fetched_root_vouched)
      (auto simp: root_staging_def root_production_def tuf_staging_def tuf_production_def tuf_default_def split: if_splits)
  with run show ?thesis by blast
qed



subsection \<open>A run of verify\_bundle\<close>

definition sample_example :: "unit example_env" where
  "sample_example = \<lparr>xe_trust = sample_env_at (DEFAULT_TUF_URL @ ''/'') sample_trust, xe_path = (\<lambda>s. [s]),
     xe_read_error = (\<lambda>p. ''not found''), xe_show_time = (\<lambda>t. None), xe_regex = (\<lambda>p. Inr (\<lambda>i. i = p))\<rparr>"

definition sample_arguments :: "string list" where
  "sample_arguments = [''-i'', ''me'', ''a'', ''-o'', ''idp'', ''b'']"

lemma sample_arguments_parsed: "parse_bundle_args sample_arguments
    = Inr (no_bundle_args\<lparr>ba_identity := Some ''me'', ba_issuer := Some ''idp'', ba_positional := [''a'', ''b'']\<rparr>)"
  by (simp add: parse_bundle_args_def sample_arguments_def put_identity_def put_issuer_def no_bundle_args_def
      starts_with_def)

lemma sample_bundle_parsed: "bundle_from_json sample_json [] = Inr sample_bundle"
proof -
  have "json_write sample_json (bundle_ser sample_json sample_bundle) = Inr []"
    using sample_bundle_written by (simp add: bundle_to_json_pretty_def sample_cli_def result_simps)
  moreover have "bundle_ok sample_json sample_bundle"
    using sample_bundle_entries by (simp add: bundle_ok_def sample_bundle_def digest_ok_def)
  ultimately show ?thesis
    by (simp add: bundle_from_json_def serde_laws_text [OF sample_json_laws] bundle_codec.dec_enc sample_json_laws)
qed

lemma sample_user_files:
  "files (sample_cached production_dir) [''a''] = Some [1, 2]" "files (sample_cached production_dir) [''b''] = Some []"
  by (simp_all add: sample_cached_def sample_fs_def append_eq_Cons_conv)

lemma sample_argument:
  "snd (example_artifact sample_pki sample_example (sample_cached production_dir) ''a'') = Inr artifact
     \<longleftrightarrow> artifact = Bytes [1, 2]"
  by (auto simp: example_artifact_def run_simps starts_with_def example_read_def sample_example_def sample_user_files)

lemma sample_example_run:
  "\<exists>out. verify_bundle_main sample_pki sample_clock sample_tuf sample_json sample_example 0 0 (''p'' # sample_arguments)
     ((), sample_cached production_dir) = Some (((), sample_cached production_dir), out, 0)"
proof -
  let ?a = "no_bundle_args\<lparr>ba_identity := Some ''me'', ba_issuer := Some ''idp'', ba_positional := [''a'', ''b'']\<rparr>"
  let ?fs = "sample_cached production_dir"
  have js: "example_read_text sample_pki sample_example ?fs ''b'' = Inr []"
    by (simp add: example_read_text_def example_read_def sample_example_def sample_user_files from_utf8_def sample_pki_def of_bytes_def)
  with sample_arguments_parsed sample_bundle_parsed
  have "snd (bundle_start sample_pki sample_json sample_example (''p'' # sample_arguments) ?fs)
      = Inr (?a, ''a'', ''b'', sample_bundle)"
    unfolding bundle_start_ends by (simp add: no_bundle_args_def)
  then obtain out0 where start: "bundle_start sample_pki sample_json sample_example (''p'' # sample_arguments) ?fs
      = (out0, Inr (?a, ''a'', ''b'', sample_bundle))"
    by (metis prod.collapse)
  obtain m where root: "example_root sample_tuf sample_example 0 0 False ((), ?fs) = Some (((), ?fs), m)"
    and m: "snd m = Inr sample_trust"
    using sample_online_root [OF sample_production, of sample_trust]
    by (simp add: example_root_def root_production_def sample_example_def run_simps)
  have policy: "bundle_policy ?a = sample_policy"
    by (simp add: bundle_policy_def sample_policy_def policy_with_identity_def require_identity_def require_issuer_def)
  have re: "ba_identity_regexp ?a = None" by (simp add: no_bundle_args_def)
  have "snd (bundle_finish sample_pki sample_clock sample_example ?fs (?a, ''a'', ''b'', sample_bundle) sample_trust) = Inr ()"
    using re by (simp add: bundle_finish_def run_simps policy verify_def sample_argument sample_accepted check_regexp_def
        sample_result_def result_success_def)
  with m have "snd (exit_code (and_run (out0, Inr ()) (\<lambda>_. and_run m
      (bundle_finish sample_pki sample_clock sample_example ?fs (?a, ''a'', ''b'', sample_bundle))))) = 0"
    by (simp add: exit_code_zero run_simps)
  moreover have "verify_bundle_main sample_pki sample_clock sample_tuf sample_json sample_example 0 0 (''p'' # sample_arguments)
      ((), ?fs) = Some (((), ?fs), exit_code (and_run (out0, Inr ()) (\<lambda>_. and_run m
        (bundle_finish sample_pki sample_clock sample_example ?fs (?a, ''a'', ''b'', sample_bundle)))))"
    using root by (simp add: verify_bundle_main_def start no_bundle_args_def)
  ultimately show ?thesis by (metis prod.collapse)
qed

theorem example_accepts_vouched_witness:
  "\<exists>root who. signed_under sample_pki sample_bundle (Bytes [1, 2]) (Some ''me'') (Some ''idp'') who
     \<and> chained_to sample_pki sample_clock root sample_bundle
     \<and> tuf_vouches sample_tuf (sample_env_at (DEFAULT_TUF_URL @ ''/'') sample_trust) tuf_production root"
proof -
  obtain out where run: "verify_bundle_main sample_pki sample_clock sample_tuf sample_json sample_example 0 0
      (''p'' # sample_arguments) ((), sample_cached production_dir) = Some (((), sample_cached production_dir), out, 0)"
    using sample_example_run by blast
  have usage: "parse_bundle_args sample_arguments \<noteq> Inl Wants_Help"
    by (simp add: sample_arguments_parsed)
  have read: "example_read_text sample_pki sample_example (sample_cached production_dir) ''b'' = Inr json \<longleftrightarrow> json = []" for json
    by (auto simp: example_read_text_def example_read_def sample_example_def sample_user_files from_utf8_def sample_pki_def of_bytes_def)
  have env: "xe_trust sample_example = sample_env_at (DEFAULT_TUF_URL @ ''/'') sample_trust"
    by (simp add: sample_example_def)
  from example_accepts_vouched [OF run usage] show ?thesis
    by (auto simp: sample_arguments_parsed read sample_argument env sample_bundle_parsed no_bundle_args_def)
qed

end
