(* ===== verification/Example_Sign.thy ===== *)
theory Example_Sign
  imports Example_Verify Oauth
begin

text \<open>
  The example programs of the crate sigstore-sign: examples/sign\_blob.rs, which signs a file, and
  examples/sign\_attestation.rs, which signs a statement that a package was published to a channel.
  Both take their services from the signing configuration fetched through TUF and their identity
  from a token given, the surroundings, or an OAuth flow, and write the bundle to a file.

  Runs are those of \<open>Example_Verify\<close>; what the OAuth flow prints on the way are its events, which
  \<open>Oauth\<close> records.
\<close>

subsection \<open>Options and environment\<close>

record 'n sign_env = "'n example_env" +
  ge_pretty :: "json \<Rightarrow> (string, string) result"
  ge_detected :: "(string option, string) result"
  ge_session :: oauth_session
  ge_pages :: page_files
  ge_line :: "(string, string) result"

record sign_options =
  so_token :: "string option"
  so_output :: "string option"
  so_staging :: bool
  so_use_v2 :: bool
  so_channel :: "string option"
  so_positional :: "string list"

definition no_sign_options :: sign_options where
  "no_sign_options = \<lparr>so_token = None, so_output = None, so_staging = False, so_use_v2 = False, so_channel = None,
     so_positional = []\<rparr>"

definition put_token :: "string \<times> (string \<Rightarrow> sign_options \<Rightarrow> sign_options)" where
  "put_token = (''--token'', \<lambda>v a. a\<lparr>so_token := Some v\<rparr>)"

definition put_output :: "string \<times> (string \<Rightarrow> sign_options \<Rightarrow> sign_options)" where
  "put_output = (''--output'', \<lambda>v a. a\<lparr>so_output := Some v\<rparr>)"

definition put_channel :: "string \<times> (string \<Rightarrow> sign_options \<Rightarrow> sign_options)" where
  "put_channel = (''--channel'', \<lambda>v a. a\<lparr>so_channel := Some v\<rparr>)"

definition put_positional :: "string \<Rightarrow> sign_options \<Rightarrow> sign_options" where
  "put_positional v a = a\<lparr>so_positional := so_positional a @ [v]\<rparr>"

definition parse_blob_options :: "string list \<Rightarrow> arg_stop + sign_options" where
  "parse_blob_options args = example_args
     [(''--token'', put_token), (''-t'', put_token), (''--output'', put_output), (''-o'', put_output)]
     [(''--staging'', \<lambda>a. a\<lparr>so_staging := True\<rparr>), (''--v2'', \<lambda>a. a\<lparr>so_use_v2 := True\<rparr>)]
     put_positional args no_sign_options"

definition parse_attestation_options :: "string list \<Rightarrow> arg_stop + sign_options" where
  "parse_attestation_options args = example_args
     [(''--token'', put_token), (''-t'', put_token), (''--output'', put_output), (''-o'', put_output),
      (''--channel'', put_channel), (''-c'', put_channel)]
     [(''--staging'', \<lambda>a. a\<lparr>so_staging := True\<rparr>)]
     put_positional args no_sign_options"

definition blob_usage :: "string \<Rightarrow> line list" where
  "blob_usage program = map Err
     [''Usage: '' @ program @ '' [OPTIONS] <ARTIFACT>'',
      '''',
      ''Sign an artifact using Sigstore keyless signing.'',
      '''',
      ''Arguments:'',
      ''  <ARTIFACT>           Path to the artifact file to sign'',
      '''',
      ''Options:'',
      ''  -o, --output <FILE>  Output bundle path (default: <artifact>.sigstore.json)'',
      ''  -t, --token <TOKEN>  OIDC identity token (skips interactive auth)'',
      ''      --staging        Use Sigstore staging infrastructure'',
      ''      --v2             Use Rekor V2 API (uses log2025-1.rekor.sigstore.dev)'',
      ''  -h, --help           Print this help message'',
      '''',
      ''By default, Rekor V1 API is used (rekor.sigstore.dev).'',
      ''Use --v2 to use the new Rekor V2 API with inclusion proofs and checkpoints.'',
      '''',
      ''Examples:'',
      ''  # Sign interactively (opens browser for OAuth)'',
      ''  '' @ program @ '' artifact.txt'',
      '''',
      ''  # Sign with explicit output path'',
      ''  '' @ program @ '' artifact.txt -o my-bundle.sigstore.json'',
      '''',
      ''  # Sign with a pre-obtained token'',
      ''  '' @ program @ '' --token '' @ double_quoted ''$OIDC_TOKEN'' @ '' artifact.txt'',
      '''',
      ''  # Sign using Rekor V2 API'',
      ''  '' @ program @ '' --v2 artifact.txt'',
      '''',
      ''In GitHub Actions:'',
      ''  # Add '' @ quoted ''id-token: write'' @ '' permission, then run without --token'',
      ''  # The example auto-detects GitHub Actions and uses ambient OIDC'']"

definition attestation_usage :: "string \<Rightarrow> line list" where
  "attestation_usage program = map Err
     [''Usage: '' @ program @ '' [OPTIONS] <PACKAGE>'',
      '''',
      ''Create a Sigstore attestation for a conda package.'',
      '''',
      ''Arguments:'',
      ''  <PACKAGE>            Path to the .conda package file'',
      '''',
      ''Options:'',
      ''  -o, --output <FILE>  Output bundle path (default: <package>.sigstore.json)'',
      ''  -t, --token <TOKEN>  OIDC identity token (skips interactive auth)'',
      ''  -c, --channel <URL>  Target channel URL for the attestation'',
      ''      --staging        Use Sigstore staging infrastructure'',
      ''  -h, --help           Print this help message'',
      '''',
      ''Examples:'',
      ''  # Sign interactively (opens browser for OAuth)'',
      ''  '' @ program @ '' package.conda'',
      '''',
      ''  # Sign with explicit output path'',
      ''  '' @ program @ '' package.conda -o my-attestation.sigstore.json'',
      '''',
      ''  # Sign with a pre-obtained token'',
      ''  '' @ program @ '' --token '' @ double_quoted ''$OIDC_TOKEN'' @ '' package.conda'']"

subsection \<open>The parts both programs have\<close>

text \<open>The options, the path of the file to sign and its content; \<open>what\<close> is what the messages call it.\<close>

definition file_start :: "(string \<Rightarrow> line list) \<Rightarrow> string \<Rightarrow> (string list \<Rightarrow> arg_stop + sign_options)
    \<Rightarrow> ('n, 'e) example_env_scheme \<Rightarrow> string list \<Rightarrow> file_system \<Rightarrow> (sign_options \<times> string \<times> bytes) run" where
  "file_start usage what parse E argv fs =
     (let wrong = Err (''Error: Expected exactly 1 positional argument ('' @ what @ '' path)'') in
      case argv of
        [] \<Rightarrow> stop [wrong] 101
      | program # args \<Rightarrow>
          and_run (args_or_stop (usage program) (parse args)) (\<lambda>a.
            case so_positional a of
              [path] \<Rightarrow>
                and_run (or_stop (example_read E fs path) (''Error reading '' @ what @ '' '' @ quoted path @ '': ''))
                  (\<lambda>d. ([], Inr (a, path, d)))
            | _ \<Rightarrow> stop (wrong # usage program) 1))"

definition output_path :: "sign_options \<Rightarrow> string \<Rightarrow> string" where
  "output_path a path = (case so_output a of Some out \<Rightarrow> out | None \<Rightarrow> path @ ''.sigstore.json'')"

text \<open>\<open>expect\<close>: the message of the panic is left out.\<close>

definition expect :: "(string + 'a) \<Rightarrow> 'a run" where
  "expect r = (case r of Inl e \<Rightarrow> stop [] 101 | Inr x \<Rightarrow> ([], Inr x))"

definition example_config :: "'t tuf_externals_scheme \<Rightarrow> ('n, 'e) example_env_scheme \<Rightarrow> timestamp \<Rightarrow> timestamp
    \<Rightarrow> endpoint_clock \<Rightarrow> bool \<Rightarrow> 'n \<times> file_system \<Rightarrow> (('n \<times> file_system) \<times> sign_config run) option" where
  "example_config T E now now' valid_now staging st =
     map_option (\<lambda>(st', r). (st',
         and_run (say [Out (''  Using: '' @ (if staging then ''staging'' else ''production'') @ '' infrastructure'')]) (\<lambda>_.
         and_run (expect (map_err fmt_trust_error r)) (\<lambda>tuf_config.
         expect (map_err fmt_sign_error (from_tuf_config valid_now tuf_config))))))
       ((if staging then config_staging else config_production) T (xe_trust E) now now' st)"

text \<open>\<open>get_token\<close>: the token given, the one of the surroundings, or the one of an OAuth flow.\<close>

definition example_token :: "'z fulcio_externals_scheme \<Rightarrow> 'q oauth_externals_scheme \<Rightarrow> net \<Rightarrow> ('n, 'e) sign_env_scheme
    \<Rightarrow> string option \<Rightarrow> string option \<Rightarrow> line list \<times> (identity_token, string) result" where
  "example_token X Q net E explicit_token oidc_url =
     (case explicit_token of
        Some token_str \<Rightarrow> ([], map_err (\<lambda>e. ''Invalid token: '' @ fmt_oidc_error e) (from_jwt X token_str))
      | None \<Rightarrow>
          (case detect_ambient X (ge_detected E) of
             Inl e \<Rightarrow> ([], Inl (fmt_oidc_error e))
           | Inr (Some token) \<Rightarrow> ([Out ''  Detected CI environment, using ambient credentials''], Inr token)
           | Inr None \<Rightarrow>
               ([Out ''  Starting interactive authentication...'', Out ''''],
                map_err (\<lambda>e. ''OAuth failed: '' @ fmt_oidc_error e)
                  (snd (get_identity_token Q net (ge_session E) (ge_pages E) (ge_line E) oidc_url [])))))"

definition token_run :: "line list \<times> (identity_token, string) result \<Rightarrow> identity_token run" where
  "token_run = (\<lambda>(out, r). and_run (say out) (\<lambda>_. or_stop r ''Error obtaining identity token: ''))"

definition sign_pretty :: "'j serde_externals_scheme \<Rightarrow> ('n, 'e) sign_env_scheme \<Rightarrow> sigstore_bundle \<Rightarrow> (string, types_error) result" where
  "sign_pretty J E b = map_err types_error.Json (ge_pretty E (bundle_ser J b))"

text \<open>The lines about the first log entry; \<open>note\<close> says when its time of 0 is explained.\<close>

definition entry_lines :: "('n, 'e) example_env_scheme \<Rightarrow> (tlog_entry \<Rightarrow> bool) \<Rightarrow> string \<Rightarrow> tlog_entry \<Rightarrow> line list" where
  "entry_lines E note explained entry =
     [Out (''  Entry Kind: '' @ te_kind entry @ '' v'' @ te_version entry),
      Out (''  Log Index: '' @ fmt_int (te_log_index entry))]
     @ (if note entry then [Out (''  Integrated Time: ('' @ explained @ ''uses RFC3161 timestamps)'')]
        else line_of ''  Integrated Time: '' (xe_show_time E (te_integrated_time entry)))"

subsection \<open>sign\_blob.rs\<close>

definition blob_config :: "sign_options \<Rightarrow> sign_config \<Rightarrow> sign_config" where
  "blob_config a base_config = (if so_use_v2 a then with_rekor_version base_config V2 else base_config)"

fun debug_rekor_version :: "rekor_api_version \<Rightarrow> string" where
  "debug_rekor_version V1 = ''V1''"
| "debug_rekor_version V2 = ''V2''"

definition config_lines :: "sign_config \<Rightarrow> line list" where
  "config_lines config =
     [Out (''  Rekor API: '' @ debug_rekor_version (cfg_rekor_api_version config)),
      Out (''  Rekor URL: '' @ cfg_rekor_url config),
      Out (''  TSA URL: '' @ (case cfg_tsa_url config of Some tsa_url \<Rightarrow> tsa_url | None \<Rightarrow> ''(none)''))]"

definition token_lines :: "identity_token \<Rightarrow> line list" where
  "token_lines t =
     Out (''  Identity: '' @ tc_sub (it_claims t)) # line_of ''  Email: '' (tc_email (it_claims t))
     @ [Out (''  Issuer: '' @ tc_iss (it_claims t))]"

text \<open>From the configuration to the text of the bundle.\<close>

definition blob_signed :: "'z signer_externals_scheme \<Rightarrow> 'q oauth_externals_scheme \<Rightarrow> 'j serde_externals_scheme
    \<Rightarrow> ('n, 'e) sign_env_scheme \<Rightarrow> net \<Rightarrow> draws \<Rightarrow> sign_options \<Rightarrow> bytes \<Rightarrow> sign_config \<Rightarrow> (string \<times> sigstore_bundle) run" where
  "blob_signed X Q J E net rnd a artifact base_config =
     (let config = blob_config a base_config in
      and_run (say (config_lines config)) (\<lambda>_.
      and_run (token_run (example_token X Q net E (so_token a) (cfg_oidc_url config))) (\<lambda>token.
      and_run (say (token_lines token @ [Out (line_break ''Signing...'')])) (\<lambda>_.
      and_run (or_stop (map_err fmt_sign_error (sign X net (signer_of config token) rnd (Bytes artifact)))
        ''Error signing artifact: '') (\<lambda>b.
      and_run (or_stop (map_err fmt_types_error (sign_pretty J E b)) ''Error serializing bundle: '') (\<lambda>bundle_json.
      ([], Inr (bundle_json, b))))))))"

definition blob_summary :: "('n, 'e) example_env_scheme \<Rightarrow> string \<Rightarrow> string \<Rightarrow> sigstore_bundle \<Rightarrow> line list" where
  "blob_summary E artifact_path out b =
     (let ts_count = length (rfc3161_timestamps (b_material b)) in
      [Out (line_break ''Signature created successfully!''), Out (''  Bundle: '' @ out),
       Out (''  Media Type: '' @ b_media_type b)]
      @ (case tlog_entries (b_material b) of
           [] \<Rightarrow> []
         | entry # _ \<Rightarrow>
             entry_lines E (\<lambda>e. te_integrated_time e = 0 \<and> te_version e = ''0.0.2'') ''V2 '' entry
             @ (if te_proof entry \<noteq> None then [Out ''  Inclusion Proof: yes (with checkpoint)'']
                else if te_promise entry \<noteq> None then [Out ''  Inclusion Promise: yes (SET)''] else []))
      @ [Out (if 0 < ts_count then ''  RFC3161 Timestamps: '' @ fmt_nat ts_count
              else ''  RFC3161 Timestamps: none (V2 bundles require timestamps!)''),
         Out (line_break ''Verify with:''),
         Out (''  cargo run -p sigstore-verify --example verify_bundle -- '' @ artifact_path @ '' '' @ out)])"

text \<open>The end of a program: the text is written to the file, which it may fail to.\<close>

definition write_bundle :: "('n, 'e) example_env_scheme \<Rightarrow> file_system \<Rightarrow> string \<Rightarrow> string \<Rightarrow> (string \<Rightarrow> line list \<times> nat)
    \<Rightarrow> line list \<Rightarrow> file_system \<times> line list \<times> nat" where
  "write_bundle E fs path bundle_json failed summary =
     (case write_file fs (xe_path E path) (as_bytes bundle_json) of
        (fs', Inl e) \<Rightarrow> (fs', failed e)
      | (fs', Inr _) \<Rightarrow> (fs', summary, 0))"

definition sign_blob_main :: "'z signer_externals_scheme \<Rightarrow> 'q oauth_externals_scheme \<Rightarrow> 't tuf_externals_scheme
    \<Rightarrow> 'j serde_externals_scheme \<Rightarrow> ('n, 'e) sign_env_scheme \<Rightarrow> net \<Rightarrow> draws \<Rightarrow> timestamp \<Rightarrow> timestamp \<Rightarrow> endpoint_clock
    \<Rightarrow> string list \<Rightarrow> 'n \<times> file_system \<Rightarrow> (('n \<times> file_system) \<times> line list \<times> nat) option" where
  "sign_blob_main X Q T J E net rnd now now' valid_now argv st =
     (case file_start blob_usage ''artifact'' parse_blob_options E argv (snd st) of
        (out, Inl code) \<Rightarrow> Some (st, out, code)
      | (out, Inr (a, path, artifact)) \<Rightarrow>
          map_option (\<lambda>((repo, fs), config).
              case and_run (say (out @ [Out (''Signing artifact: '' @ path),
                  Out (''  Size: '' @ fmt_nat (length artifact) @ '' bytes'')])) (\<lambda>_.
                and_run config (blob_signed X Q J E net rnd a artifact)) of
                (out', Inl code) \<Rightarrow> ((repo, fs), out', code)
              | (out', Inr (bundle_json, b)) \<Rightarrow>
                  (case write_bundle E fs (output_path a path) bundle_json
                      (\<lambda>e. ([Err (''Error writing bundle to '' @ quoted (output_path a path) @ '': '' @ e)], 1))
                      (blob_summary E path (output_path a path) b) of
                     (fs', out'', code) \<Rightarrow> ((repo, fs'), out' @ out'', code)))
            (example_config T E now now' valid_now (so_staging a) st))"

subsection \<open>sign\_attestation.rs\<close>

text \<open>\<open>Path::file_name\<close>, or the path where it has none.\<close>

definition package_name :: "string \<Rightarrow> string" where
  "package_name path =
     (let parts = components path in if parts = [] \<or> last parts = ''..'' then path else last parts)"

definition PUBLISH_PREDICATE :: string where
  "PUBLISH_PREDICATE = ''https://schemas.conda.org/attestations-publish-1.schema.json''"

definition target_channel :: "sign_options \<Rightarrow> string" where
  "target_channel a = (case so_channel a of Some c \<Rightarrow> c | None \<Rightarrow> ''https://example.com/my-channel'')"

definition package_attestation :: "sign_options \<Rightarrow> string \<Rightarrow> sha256_hash \<Rightarrow> attestation" where
  "package_attestation a name package_hash =
     add_subject (attestation_new PUBLISH_PREDICATE (JObject [(''targetChannel'', JString (target_channel a))]))
       name package_hash"

definition attestation_signed :: "'z signer_externals_scheme \<Rightarrow> 'q oauth_externals_scheme \<Rightarrow> 'j serde_externals_scheme
    \<Rightarrow> ('n, 'e) sign_env_scheme \<Rightarrow> net \<Rightarrow> draws \<Rightarrow> sign_options \<Rightarrow> string \<Rightarrow> bytes \<Rightarrow> sign_config
    \<Rightarrow> (string \<times> sigstore_bundle) run" where
  "attestation_signed X Q J E net rnd a path package_bytes config =
     (let package_hash = sha256 X package_bytes in
      and_run (say ([Out (''  Fulcio URL: '' @ cfg_fulcio_url config), Out (''  Rekor URL: '' @ cfg_rekor_url config)]
        @ line_of ''  TSA URL: '' (cfg_tsa_url config))) (\<lambda>_.
      and_run (token_run (example_token X Q net E (so_token a) (cfg_oidc_url config))) (\<lambda>token.
      and_run (say
        [Out (''  Identity: '' @ tc_sub (it_claims token)), Out (''  Issuer: '' @ tc_iss (it_claims token)),
         Out (line_break ''In-Toto Statement:''), Out ''  Type: https://in-toto.io/Statement/v1'',
         Out (''  Predicate Type: '' @ PUBLISH_PREDICATE),
         Out (''  Subject: '' @ package_name path @ '' (sha256:'' @ take 16 (hex_encode X package_hash) @ ''...)''),
         Out (line_break ''Signing attestation...'')]) (\<lambda>_.
      and_run (or_stop (map_err fmt_sign_error (sign_attestation X net (signer_of config token) rnd
          (package_attestation a (package_name path) package_hash))) ''Error signing attestation: '') (\<lambda>b.
      and_run (expect (map_err fmt_types_error (sign_pretty J E b))) (\<lambda>bundle_json.
      ([], Inr (bundle_json, b))))))))"

definition attestation_summary :: "('n, 'e) example_env_scheme \<Rightarrow> string \<Rightarrow> string \<Rightarrow> sigstore_bundle \<Rightarrow> line list" where
  "attestation_summary E package_path out b =
     (let ts_count = length (rfc3161_timestamps (b_material b)) in
      [Out (line_break ''Attestation created successfully!''), Out (''  Bundle: '' @ out),
       Out (''  Media Type: '' @ b_media_type b)]
      @ (case tlog_entries (b_material b) of
           [] \<Rightarrow> []
         | entry # _ \<Rightarrow> entry_lines E (\<lambda>e. te_integrated_time e = 0) '''' entry)
      @ (if 0 < ts_count then [Out (''  RFC3161 Timestamps: '' @ fmt_nat ts_count)] else [])
      @ [Out (line_break ''Verify with:''),
         Out (''  cargo run -p sigstore-verify --example verify_conda_attestation -- '' @ package_path @ '' '' @ out)])"

definition sign_attestation_main :: "'z signer_externals_scheme \<Rightarrow> 'q oauth_externals_scheme \<Rightarrow> 't tuf_externals_scheme
    \<Rightarrow> 'j serde_externals_scheme \<Rightarrow> ('n, 'e) sign_env_scheme \<Rightarrow> net \<Rightarrow> draws \<Rightarrow> timestamp \<Rightarrow> timestamp \<Rightarrow> endpoint_clock
    \<Rightarrow> string list \<Rightarrow> 'n \<times> file_system \<Rightarrow> (('n \<times> file_system) \<times> line list \<times> nat) option" where
  "sign_attestation_main X Q T J E net rnd now now' valid_now argv st =
     (case file_start attestation_usage ''package'' parse_attestation_options E argv (snd st) of
        (out, Inl code) \<Rightarrow> Some (st, out, code)
      | (out, Inr (a, path, package_bytes)) \<Rightarrow>
          map_option (\<lambda>((repo, fs), config).
              case and_run (say (out @ [Out (''Creating attestation for: '' @ path),
                  Out (''  Package: '' @ package_name path),
                  Out (''  Size: '' @ fmt_nat (length package_bytes) @ '' bytes''),
                  Out (''  SHA256: '' @ hex_encode X (sha256 X package_bytes))])) (\<lambda>_.
                and_run config (attestation_signed X Q J E net rnd a path package_bytes)) of
                (out', Inl code) \<Rightarrow> ((repo, fs), out', code)
              | (out', Inr (bundle_json, b)) \<Rightarrow>
                  (case write_bundle E fs (output_path a path) bundle_json (\<lambda>e. ([], 101))
                      (attestation_summary E path (output_path a path) b) of
                     (fs', out'', code) \<Rightarrow> ((repo, fs'), out' @ out'', code)))
            (example_config T E now now' valid_now (so_staging a) st))"

subsection \<open>What exit code 0 says\<close>

lemma expect_ends [run_simps]: "snd (expect r) = Inr x \<longleftrightarrow> r = Inr x" "snd (expect r) \<noteq> Inl 0"
  by (cases r; simp add: expect_def stop_def)+

lemma token_run_ends [run_simps]: "snd (token_run t) = Inr x \<longleftrightarrow> snd t = Inr x" "snd (token_run t) \<noteq> Inl 0"
  by (cases t; simp add: token_run_def run_simps)+

lemma file_start_ends:
  "snd (file_start usage what parse E argv fs) = Inr (a, path, d) \<longleftrightarrow>
     (\<exists>program args. argv = program # args \<and> parse args = Inr a \<and> so_positional a = [path]
        \<and> example_read E fs path = Inr d)"
  "snd (file_start usage what parse E argv fs) = Inl 0 \<longleftrightarrow>
     (\<exists>program args. argv = program # args \<and> parse args = Inl Wants_Help)"
  by (auto simp: file_start_def Let_def program_ends run_simps)

lemma file_start_cases:
  assumes "parse args \<noteq> Inl Wants_Help"
  obtains out code where "file_start usage what parse E (program # args) fs = (out, Inl code)" "code \<noteq> 0"
  | out a path d where "file_start usage what parse E (program # args) fs = (out, Inr (a, path, d))"
      "parse args = Inr a" "so_positional a = [path]" "example_read E fs path = Inr d"
proof (cases "file_start usage what parse E (program # args) fs")
  case (Pair out r)
  show ?thesis
  proof (cases r)
    case (Inl code)
    with Pair assms file_start_ends(2) [of usage what parse E "program # args" fs] that(1) show ?thesis by auto
  next
    case (Inr given)
    obtain a path d where "given = (a, path, d)" by (cases given)
    with Pair Inr file_start_ends(1) [of usage what parse E "program # args" fs a path d] that(2) show ?thesis by auto
  qed
qed

lemma example_config_ends:
  assumes "example_config T E now now' valid_now staging st = Some (st', m)"
  shows "snd m \<noteq> Inl 0" "snd m = Inr config \<Longrightarrow>
    \<exists>c. (if staging then config_staging else config_production) T (xe_trust E) now now' st = Some (st', Inr c)
      \<and> from_tuf_config valid_now c = Inr config"
  using assms by (auto simp: example_config_def run_simps result_simps split: if_splits)

lemma blob_signed_ends:
  "snd (blob_signed X Q J E net rnd a d config) = Inr (json, b) \<longleftrightarrow>
     (\<exists>token. snd (example_token X Q net E (so_token a) (cfg_oidc_url (blob_config a config))) = Inr token
        \<and> sign X net (signer_of (blob_config a config) token) rnd (Bytes d) = Inr b \<and> sign_pretty J E b = Inr json)"
  "snd (blob_signed X Q J E net rnd a d config) \<noteq> Inl 0"
  by (auto simp: blob_signed_def run_simps result_simps Let_def)

lemma attestation_signed_ends:
  "snd (attestation_signed X Q J E net rnd a path d config) = Inr (json, b) \<longleftrightarrow>
     (\<exists>token. snd (example_token X Q net E (so_token a) (cfg_oidc_url config)) = Inr token
        \<and> sign_attestation X net (signer_of config token) rnd
            (package_attestation a (package_name path) (sha256 X d)) = Inr b \<and> sign_pretty J E b = Inr json)"
  "snd (attestation_signed X Q J E net rnd a path d config) \<noteq> Inl 0"
  by (auto simp: attestation_signed_def run_simps result_simps Let_def)

lemma write_bundle_zero:
  assumes "write_bundle E fs path json failed summary = (fs', out, 0)" "\<And>e. snd (failed e) \<noteq> 0"
  shows "fs' = fs\<lparr>files := (files fs)(xe_path E path \<mapsto> as_bytes json)\<rparr>"
  using assms(1) assms(2) [unfolded neq0_conv]
  by (auto simp: write_bundle_def dest: write_file_Inr split: prod.splits sum.splits) (metis less_irrefl snd_conv)

text \<open>
  The common end of both programs: with exit code 0 the run made a bundle, and its text is in the
  output file, the only one the program itself has changed.
\<close>

lemma finish_zero_writes:
  assumes "(case m of
      (out', Inl code) \<Rightarrow> ((repo, fs), out', code)
    | (out', Inr (json, b)) \<Rightarrow>
        (case write_bundle E fs path json failed (summary b) of (fs', out'', code) \<Rightarrow> ((repo, fs'), out' @ out'', code)))
    = (st', out, 0)"
    and "snd m \<noteq> Inl 0" "\<And>e. snd (failed e) \<noteq> 0"
  obtains json b where "snd m = Inr (json, b)"
    "st' = (repo, fs\<lparr>files := (files fs)(xe_path E path \<mapsto> as_bytes json)\<rparr>)"
proof (cases m)
  case (Pair out0 r)
  show ?thesis
  proof (cases r)
    case (Inr jb)
    obtain json b where "jb = (json, b)" by (cases jb)
    with assms Pair Inr that show ?thesis
      by (auto split: prod.splits dest!: write_bundle_zero)
  qed (use assms Pair in auto)
qed

lemma sign_blob_zero:
  assumes run: "sign_blob_main X Q T J E net rnd now now' valid_now (program # args) st = Some (st', out, 0)"
    and asked: "parse_blob_options args \<noteq> Inl Wants_Help"
  obtains a path d repo fs c config token b json where
    "parse_blob_options args = Inr a" "so_positional a = [path]" "example_read E (snd st) path = Inr d"
    "(if so_staging a then config_staging else config_production) T (xe_trust E) now now' st = Some ((repo, fs), Inr c)"
    "from_tuf_config valid_now c = Inr config"
    "snd (example_token X Q net E (so_token a) (cfg_oidc_url (blob_config a config))) = Inr token"
    "sign X net (signer_of (blob_config a config) token) rnd (Bytes d) = Inr b" "sign_pretty J E b = Inr json"
    "st' = (repo, fs\<lparr>files := (files fs)(xe_path E (output_path a path) \<mapsto> as_bytes json)\<rparr>)"
proof (rule file_start_cases [where parse = parse_blob_options and args = args and usage = blob_usage
      and what = "''artifact''" and E = E and program = program and fs = "snd st"])
  fix out0 a path d
  assume start: "file_start blob_usage ''artifact'' parse_blob_options E (program # args) (snd st) = (out0, Inr (a, path, d))"
    and given: "parse_blob_options args = Inr a" "so_positional a = [path]" "example_read E (snd st) path = Inr d"
  from run start obtain repo fs m where config: "example_config T E now now' valid_now (so_staging a) st = Some ((repo, fs), m)"
    and rest: "(case and_run (say (out0 @ [Out (''Signing artifact: '' @ path),
          Out (''  Size: '' @ fmt_nat (length d) @ '' bytes'')])) (\<lambda>_. and_run m (blob_signed X Q J E net rnd a d)) of
        (out', Inl code) \<Rightarrow> ((repo, fs), out', code)
      | (out', Inr (bundle_json, b)) \<Rightarrow>
          (case write_bundle E fs (output_path a path) bundle_json
              (\<lambda>e. ([Err (''Error writing bundle to '' @ quoted (output_path a path) @ '': '' @ e)], 1))
              (blob_summary E path (output_path a path) b) of
             (fs', out'', code) \<Rightarrow> ((repo, fs'), out' @ out'', code))) = (st', out, 0)"
    by (auto simp: sign_blob_main_def)
  from rest show ?thesis
  proof (rule finish_zero_writes)
    fix json b
    assume "snd (and_run (say (out0 @ [Out (''Signing artifact: '' @ path),
          Out (''  Size: '' @ fmt_nat (length d) @ '' bytes'')])) (\<lambda>_. and_run m (blob_signed X Q J E net rnd a d))) = Inr (json, b)"
      and "st' = (repo, fs\<lparr>files := (files fs)(xe_path E (output_path a path) \<mapsto> as_bytes json)\<rparr>)"
    with given that example_config_ends(2) [OF config] show ?thesis
      by (auto simp: run_simps blob_signed_ends)
  qed (use example_config_ends(1) [OF config] in \<open>auto simp: run_simps blob_signed_ends(2)\<close>)
qed (use run asked in \<open>auto simp: sign_blob_main_def\<close>)

lemma sign_attestation_zero:
  assumes run: "sign_attestation_main X Q T J E net rnd now now' valid_now (program # args) st = Some (st', out, 0)"
    and asked: "parse_attestation_options args \<noteq> Inl Wants_Help"
  obtains a path d repo fs c config token b json where
    "parse_attestation_options args = Inr a" "so_positional a = [path]" "example_read E (snd st) path = Inr d"
    "(if so_staging a then config_staging else config_production) T (xe_trust E) now now' st = Some ((repo, fs), Inr c)"
    "from_tuf_config valid_now c = Inr config"
    "snd (example_token X Q net E (so_token a) (cfg_oidc_url config)) = Inr token"
    "sign_attestation X net (signer_of config token) rnd (package_attestation a (package_name path) (sha256 X d)) = Inr b"
    "sign_pretty J E b = Inr json"
    "st' = (repo, fs\<lparr>files := (files fs)(xe_path E (output_path a path) \<mapsto> as_bytes json)\<rparr>)"
proof (rule file_start_cases [where parse = parse_attestation_options and args = args and usage = attestation_usage
      and what = "''package''" and E = E and program = program and fs = "snd st"])
  fix out0 a path d
  assume start: "file_start attestation_usage ''package'' parse_attestation_options E (program # args) (snd st)
      = (out0, Inr (a, path, d))"
    and given: "parse_attestation_options args = Inr a" "so_positional a = [path]" "example_read E (snd st) path = Inr d"
  from run start obtain repo fs m shown where config: "example_config T E now now' valid_now (so_staging a) st = Some ((repo, fs), m)"
    and rest: "(case and_run (say shown) (\<lambda>_. and_run m (attestation_signed X Q J E net rnd a path d)) of
        (out', Inl code) \<Rightarrow> ((repo, fs), out', code)
      | (out', Inr (bundle_json, b)) \<Rightarrow>
          (case write_bundle E fs (output_path a path) bundle_json (\<lambda>e. ([], 101))
              (attestation_summary E path (output_path a path) b) of
             (fs', out'', code) \<Rightarrow> ((repo, fs'), out' @ out'', code))) = (st', out, 0)"
    by (auto simp: sign_attestation_main_def)
  from rest show ?thesis
  proof (rule finish_zero_writes)
    fix json b
    assume "snd (and_run (say shown) (\<lambda>_. and_run m (attestation_signed X Q J E net rnd a path d))) = Inr (json, b)"
      and "st' = (repo, fs\<lparr>files := (files fs)(xe_path E (output_path a path) \<mapsto> as_bytes json)\<rparr>)"
    with given that example_config_ends(2) [OF config] show ?thesis
      by (auto simp: run_simps attestation_signed_ends)
  qed (use example_config_ends(1) [OF config] in \<open>auto simp: run_simps attestation_signed_ends(2)\<close>)
qed (use run asked in \<open>auto simp: sign_attestation_main_def\<close>)

text \<open>The statement signed names the package's digest, which is what the verifier looks for.\<close>

lemma attestation_names_package:
  "matches_sha256 (build_statement X (package_attestation a name h)) (hex_encode X h)"
  by (rule build_statement_names [of name])
    (simp add: package_attestation_def add_subject_def attestation_new_def)

text \<open>
  Without \<open>--v2\<close> the API is that of the log the configuration prefers, which may be the second one,
  whatever the text of the usage says.
\<close>

lemma blob_default_rekor:
  assumes "from_tuf_config valid_now c = Inr config" "get_rekor_url valid_now None c = Some e" "\<not> so_use_v2 a"
  shows "cfg_rekor_url (blob_config a config) = se_url e"
    "cfg_rekor_api_version (blob_config a config) = (if se_major_api_version e = 2 then V2 else V1)"
  using assms by (auto simp: blob_config_def from_tuf_config_def from_tuf_config_with_rekor_version_def result_simps)

lemma blob_v2_rekor:
  "so_use_v2 a \<Longrightarrow> cfg_rekor_url (blob_config a config) = rekor_default_url V2
     \<and> cfg_rekor_api_version (blob_config a config) = V2"
  by (simp add: blob_config_def with_rekor_version_def)

end
