(* ===== verification/Spec2Isabelle.thy ===== *)
theory Spec2Isabelle
  imports Merkle_Correct Updater_Correct Signed_Note Verify_Correct Cache_Files Sign_Correct Bundle_Json
    Trust_Fetch Oauth Keyring Trust_Json Conformance Tuf_Conformance Embedded_Update Tuf_Json Rekor_Json
    Service_Json Example_Verify Example_Sign
begin

text \<open>
  A verification development of sigstore-rust, a client that signs artifacts with short-lived
  certificates, records the signatures in transparency logs, and verifies such signatures.

  The program.  It is a workspace of crates under \<open>src/crates/\<close>.  \<open>sigstore-types\<close> holds the data:
  encodings and digests, checkpoints, DSSE envelopes, in-toto statements, and the bundle, the file
  that carries a signature with its evidence.  \<open>sigstore-crypto\<close> checks signatures and reads keys
  and certificates; \<open>sigstore-merkle\<close> verifies the proofs of a log.  \<open>sigstore-tuf\<close> is a TUF client:
  from a pinned root it updates signed metadata and downloads the files the metadata pins.
  \<open>sigstore-trust-root\<close> uses it to obtain the trusted root - the keys and certificates of the
  services - and the signing configuration, the services' addresses.  \<open>sigstore-oidc\<close> obtains an
  identity token, \<open>sigstore-fulcio\<close> a certificate for it, \<open>sigstore-rekor\<close> an entry of a log and
  \<open>sigstore-tsa\<close> a timestamp; \<open>sigstore-sign\<close> makes a bundle of them, \<open>sigstore-bundle\<close> builds and
  validates its structure, and \<open>sigstore-verify\<close> decides whether a bundle is a signature of an
  artifact under a policy and a trusted root.  \<open>sigstore-cache\<close> keeps answers of the services.
  \<open>sigstore-conformance\<close> is a program over all of it.

  How the model represents it.  A struct is a record and an enum a datatype, each with the fields
  and constructors of the code, and each function of the code is a definition of its name.  Where a
  struct only nests another, the inner one's fields are lifted into the outer record.  A \<open>Result\<close> is
  the sum \<open>'e + 'a\<close> (\<open>result\<close> in Prelude), with the error as the code builds it, its text included;
  \<open>and_then\<close>, \<open>map_err\<close> and \<open>ensure\<close> are the \<open>?\<close> operator, \<open>map_err\<close> and the early returns.  A \<open>&mut
  self\<close> is a state that is passed and returned: \<open>bindS\<close> of Prelude threads it where the code makes
  many calls.  A u32, u64 or usize that can wrap is a word; the i64 of log indices and times is an
  int, and a cast into it is written out.  Strings are char lists of bytes.  A \<open>BTreeMap\<close> is a sorted
  association list (\<open>btm\<close>), a \<open>HashMap\<close> a map.  The clock is an argument, one for each reading the
  code makes, so that the theorems hold however time passes between two readings.

  What the repository does not contain is a parameter: the cryptography of aws-lc-rs and sha2, the
  base64, hex and PEM codecs, serde\_json's parser and printer, the ASN.1 decoders, webpki, jiff, the
  HTTP client, the file system and the randomness.  They are the fields of records that the
  definitions take (\<open>externals\<close> of Externals, extended by \<open>tuf_externals\<close>, \<open>rekor_externals\<close>,
  \<open>pki_externals\<close>, \<open>fulcio_externals\<close>, \<open>signer_externals\<close> and \<open>serde_externals\<close>, and the environments
  \<open>trust_env\<close>, \<open>oauth_externals\<close>, \<open>cli_env\<close> and \<open>example_env\<close>).  Nothing is assumed of them in a definition.  A theorem
  that needs a documented fact names it: \<open>serde_laws\<close>, \<open>codecs_ok\<close>, \<open>p256_correct\<close>, \<open>store_works\<close>,
  \<open>cli_laws\<close>, and absence of collisions among the values hashed.  Each such theorem has an
  instance at concrete functions, built in Tuf_Sample, Pki_Sample and Verify_Sample.
\<close>

text \<open>
  The theories, in the order they build on each other.

  Prelude: results, the state monad, decimal texts, the ordered map, strings.  Encoding and
  Externals: \<open>encoding.rs\<close>, \<open>hash.rs\<close> and the parameters.

  Merkle (\<open>sigstore-merkle\<close>) has the verifiers; Merkle_Spec the trees, audit paths and consistency
  proofs of RFC 6962 by their recursive definitions; Merkle_Correct shows that the verifiers accept
  exactly the RFC's proofs: completeness for every tree, soundness up to a collision of the hashes
  on pairs the statement lists, and that the two computations of a proof's length agree.

  Canonical_Json, Tuf_Metadata, Trusted, Tuf_Store and Updater are \<open>sigstore-tuf\<close>
  (\<open>canonical_json.rs\<close>, \<open>key.rs\<close> and \<open>metadata/\<close>, \<open>trusted.rs\<close>, \<open>cache.rs\<close> and \<open>transport.rs\<close>, \<open>client.rs\<close>).
  Trusted_Correct makes the trusted set a state machine and proves its invariant, the chain of
  roots, the threshold rule and the absence of rollbacks for every reachable state.  A threshold
  counts key ids, as the code does, not keys (\<open>one_key_two_ids\<close>).
  Updater_Correct lifts them to the updater over any repository and store, and shows what a refresh
  ends with, that a target is authorized and authentic, and that opening a store ends.  Tuf_Json
  has the JSON of keys and metadata: what a role writes, \<open>from_slice\<close> reads, extra members included.

  Signed_Note is \<open>checkpoint.rs\<close> of \<open>sigstore-types\<close> and \<open>sigstore-crypto\<close>; Bundle_Types
  (\<open>dsse.rs\<close>, \<open>intoto.rs\<close>, \<open>artifact.rs\<close>, \<open>bundle.rs\<close>) the data of bundles; Serde and Bundle_Json their
  JSON, with a round trip for every type and for the whole bundle.  Crypto and Keyring are
  \<open>signing.rs\<close>, \<open>verification.rs\<close>, \<open>hash.rs\<close> and \<open>keyring.rs\<close>; Pki is \<open>x509.rs\<close>.  Rekor_Entry
  and Rekor_Client are \<open>sigstore-rekor\<close>, Bundle_Build is \<open>sigstore-bundle\<close>.

  Trust_Root, Signing_Config, Trust_Json and Trust_Fetch are \<open>sigstore-trust-root\<close>: the accessors of
  the trusted root, the choice of endpoints, the JSON of both, and how they are fetched; the last has
  the theorems that fetched material comes from an authorized target and that what was fetched
  online is what is found offline.

  Tsa_Verify and Tsa_Client are \<open>sigstore-tsa\<close>.  Tlog_Verify, Tlog_Consistency, Sct_Verify,
  Verify_Helpers and Verifier are \<open>sigstore-verify\<close>; Verify_Correct has the theorems on the decision:
  an accepted bundle is a signature over the artifact, by whom the policy names, recorded in a log
  of the trusted root, at a time that is the earliest the evidence gives.  Recorded means that some
  entry is proved by a log and that the proof and the timestamp every entry carries are verified;
  the same theory shows what this leaves open: entries that carry neither, the tree size of a proof,
  and times of entries when the policy skips the log.

  Fulcio_Client holds \<open>token.rs\<close>, key pairs and \<open>sigstore-fulcio\<close>; Oauth is \<open>oauth.rs\<close> and
  \<open>templates.rs\<close>, as a trace of requests and prompts; Signer is \<open>sigstore-sign\<close>.  Sign_Correct shows
  that bundles the signer makes verify whenever the services' evidence does.  Rekor_Json and
  Service_Json have the JSON of entry bodies, statements, tokens and the messages of log, certificate
  authority and token endpoint, which the theories before take as parameters (\<open>signer_of_serde\<close>,
  \<open>fulcio_of_serde\<close> and \<open>oauth_of_serde\<close> fill them in); Rekor_Json closes the circle: with a log
  that stores what it is sent (\<open>log_stores\<close>: the document up to the order of its members), what the
  signer makes is read back and accepted.  Cache and Cache_Files
  are \<open>sigstore-cache\<close>, refined to a map with expiry; an operation that panics, because a time to
  live leads beyond the last time of the platform, has no result (\<open>None\<close>).  Conformance is the command line and composes
  signer, JSON and verifier: what it signs into a file, an
  artifact or a statement that names it, it verifies.  Tuf_Conformance and
  Embedded_Update are two programs over the updater (\<open>examples/\<close> of \<open>sigstore-tuf\<close> and
  \<open>sigstore-trust-root\<close>), Example_Verify and Example_Sign those of \<open>sigstore-verify\<close> and
  \<open>sigstore-sign\<close>, with what an exit code of 0 says about the files and the policy, and for
  \<open>verify_bundle\<close> about the way from the embedded root through TUF to the accepted certificate.

  The interfaces are locales, interpreted on the code's own definitions: \<open>metadata_store\<close> and
  \<open>repository\<close> (Tuf_Store), \<open>stored_updater\<close> (Updater_Correct), \<open>cache_adapter\<close> and \<open>ttl_cache\<close> (Cache),
  \<open>store_invariant\<close> (Trust_Fetch), \<open>codec\<close> (Serde; one interpretation for each type written to JSON).
\<close>

text \<open>
  Bounds and termination.  \<open>strip_prefixes\<close> and the text loops of Oauth carry a number of steps, the
  length of the text, of which each step consumes a character at least.  The search for a target
  (\<open>search\<close> of Updater) ends because the code bounds the roles it visits; \<open>expected_length_loop\<close>
  halves its argument.  The updater's loop over stored roots is a \<open>partial_function\<close>, since nothing
  in the code bounds it; with a store that lacks the root of some later version it is shown to end
  (\<open>with_store_terminates\<close>).  The requests of a root update are bounded by the code's constant.  The
  reader of an HTTP body stops at its limit (\<open>http_fetch_bounded\<close>).

  Not modelled.  The tests of the crates and the crate roots (documentation and re-exports).  The
  cryptography, ASN.1 and HTTP of other crates and the text form of JSON (serde\_json), as said
  above; what serde derives for the structs is written out over the JSON value, except the
  serializers of answers and the deserializers of requests, which the program never calls.  Of the caches the creation of the directory; of
  the sign-in the draining of HTTP headers, which has no effect on the result, and the second set of
  pages.  Accessors and conversions that return their argument are left out where records make them
  superfluous.  Concurrency is modelled where the code has it, in the memory cache, whose get takes
  two locks (\<open>memory_get_race\<close>); the other components are used by one caller at a time.
\<close>

end
